(* ===== verification/Prelude.thy ===== *)
theory Prelude
  imports Main "HOL-Library.AList" "HOL-Library.Word"
begin

text \<open>
  What every component shares: the names of the Go types the models use, the collections of
  facts the proofs draw on, and the generic lemmas on association lists (Go maps whose
  iteration order is fixed to insertion order), integer division and error threading.

  A Go \<open>map[K]V\<close> is an association list written with \<^const>\<open>AList.update\<close> (a store to an
  existing key overwrites in place) and read with \<^const>\<open>map_of\<close>; the order of the list is
  one of the orders Go may iterate in, so no property below may depend on it.
\<close>

section \<open>Go's basic types\<close>

type_synonym uuid = "128 word"
type_synonym gotime = int
type_synonym go_error = string
type_synonym any_ref = "nat option"

definition uuid_Nil :: uuid where
  "uuid_Nil = 0"

text \<open>Go's integer division truncates towards zero.\<close>

definition go_div :: "int \<Rightarrow> int \<Rightarrow> int" where
  "go_div a b = sgn a * sgn b * (\<bar>a\<bar> div \<bar>b\<bar>)"

lemma go_div_nonneg: "0 \<le> a \<Longrightarrow> 0 < b \<Longrightarrow> go_div a b = a div b"
  by (cases "a = 0") (simp_all add: go_div_def)

section \<open>Collections\<close>

named_theorems fsm_defs \<open>definitions of the FSM engine unfolded together\<close>
named_theorems fsm_frame \<open>what a step of the FSM engine leaves unchanged\<close>
named_theorems builder_simps \<open>components of a builder expression\<close>
named_theorems state_names \<open>the string constants of states and events\<close>
named_theorems machine_tables \<open>tables and builders of the concrete machines\<close>

section \<open>Association lists\<close>

lemma map_of_update_iff [simp]:
  "map_of (AList.update k v al) k' = (if k' = k then Some v else map_of al k')"
  by (simp add: update_conv')

lemma map_of_update_None [simp]:
  "map_of (AList.update k v al) k' = None \<longleftrightarrow> k' \<noteq> k \<and> map_of al k' = None"
  by simp

lemma map_of_SomeD: "map_of al k = Some v \<Longrightarrow> (k, v) \<in> set al"
  by (rule map_of_SomeD)

lemma keys_update: "fst ` set (AList.update k v al) = insert k (fst ` set al)"
  by (simp add: dom_update)

lemma distinct_keys_update [intro]:
  "distinct (map fst al) \<Longrightarrow> distinct (map fst (AList.update k v al))"
  by (rule distinct_update)

lemma map_of_distinct_iff:
  "distinct (map fst al) \<Longrightarrow> map_of al k = Some v \<longleftrightarrow> (k, v) \<in> set al"
  by (rule map_of_eq_Some_iff)

section \<open>Threading an entity through calls that may fail\<close>

text \<open>
  A call that mutates the object \<open>c\<close> behind a pointer and returns an error value is a
  pair: the object after the call and the error, if any. \<open>and_then\<close> is
  \<^verbatim>\<open>if err := ...; err != nil { return err }\<close>: what the first call already changed stays
  changed when it fails.
\<close>

fun and_then :: "'c \<times> 'x option \<Rightarrow> ('c \<Rightarrow> 'c \<times> 'x option) \<Rightarrow> 'c \<times> 'x option" where
  "and_then (c, Some e) k = (c, Some e)"
| "and_then (c, None) k = k c"

lemma and_then_None_iff:
  "and_then p k = (c', None) \<longleftrightarrow> (\<exists>c. p = (c, None) \<and> k c = (c', None))"
  by (cases "(p, k)" rule: and_then.cases) auto

lemma and_then_Some_iff:
  "and_then p k = (c', Some e) \<longleftrightarrow>
     p = (c', Some e) \<or> (\<exists>c. p = (c, None) \<and> k c = (c', Some e))"
  by (cases "(p, k)" rule: and_then.cases) auto

lemma snd_and_then_None_iff:
  "snd (and_then p k) = None \<longleftrightarrow> snd p = None \<and> snd (k (fst p)) = None"
  by (cases "(p, k)" rule: and_then.cases) auto

end
