(* ===== verification/Float64.thy ===== *)
theory Float64
  imports Prelude "HOL-Library.Log_Nat"
begin

text \<open>
  Go's \<open>float64\<close>: IEEE 754 binary64 with rounding to nearest, ties to even.  A finite value is
  the rational it denotes; every operation rounds the exact result with \<open>round_rat\<close>, which is
  executable, and overflows to an infinity.  The two zeros are identified (no code modelled
  here divides by a zero whose sign it computed), and all NaNs are one value.
\<close>

section \<open>Rounding a rational to binary64\<close>

datatype f64 = Fin rat | PosInf | NegInf | NaN

text \<open>The exponent of the leading binary digit of a positive rational.\<close>

definition ilog2 :: "rat \<Rightarrow> int" where
  "ilog2 x = (let (n, d) = quotient_of x; e = bitlen n - bitlen d
              in if 2 powi e \<le> x then e else e - 1)"

text \<open>Round half to even.\<close>

definition rne :: "rat \<Rightarrow> int" where
  "rne x = (let f = \<lfloor>x\<rfloor>; d = x - of_int f
            in if d < 1/2 then f else if 1/2 < d then f + 1 else if even f then f else f + 1)"

text \<open>The exponent of the unit in the last place: 53 significant bits, no finer than \<open>2^-1074\<close>.\<close>

definition quantum :: "rat \<Rightarrow> int" where
  "quantum x = max (ilog2 \<bar>x\<bar> - 52) (-1074)"

definition round_rat :: "rat \<Rightarrow> rat" where
  "round_rat x = (if x = 0 then 0 else of_int (rne (x / 2 powi quantum x)) * 2 powi quantum x)"

text \<open>Rounded magnitudes from \<open>2^1024\<close> on overflow.\<close>

definition f64_limit :: rat where
  "f64_limit = 2 ^ 1024"

definition rnd :: "rat \<Rightarrow> f64" where
  "rnd x = (let r = round_rat x
            in if f64_limit \<le> r then PosInf else if r \<le> - f64_limit then NegInf else Fin r)"

section \<open>Arithmetic and comparison\<close>

fun f_neg :: "f64 \<Rightarrow> f64" where
  "f_neg (Fin a) = Fin (- a)" | "f_neg PosInf = NegInf" | "f_neg NegInf = PosInf" | "f_neg NaN = NaN"

fun f_add :: "f64 \<Rightarrow> f64 \<Rightarrow> f64" where
  "f_add (Fin a) (Fin b) = rnd (a + b)"
| "f_add NaN _ = NaN" | "f_add _ NaN = NaN"
| "f_add PosInf NegInf = NaN" | "f_add NegInf PosInf = NaN"
| "f_add PosInf _ = PosInf" | "f_add _ PosInf = PosInf"
| "f_add NegInf _ = NegInf" | "f_add _ NegInf = NegInf"

definition f_sub :: "f64 \<Rightarrow> f64 \<Rightarrow> f64" where
  "f_sub a b = f_add a (f_neg b)"

definition signed_inf :: "rat \<Rightarrow> f64" where
  "signed_inf s = (if s = 0 then NaN else if 0 < s then PosInf else NegInf)"

fun f_mul :: "f64 \<Rightarrow> f64 \<Rightarrow> f64" where
  "f_mul (Fin a) (Fin b) = rnd (a * b)"
| "f_mul NaN _ = NaN" | "f_mul _ NaN = NaN"
| "f_mul (Fin a) PosInf = signed_inf a" | "f_mul (Fin a) NegInf = signed_inf (- a)"
| "f_mul PosInf (Fin b) = signed_inf b" | "f_mul NegInf (Fin b) = signed_inf (- b)"
| "f_mul PosInf PosInf = PosInf" | "f_mul NegInf NegInf = PosInf"
| "f_mul PosInf NegInf = NegInf" | "f_mul NegInf PosInf = NegInf"

fun f_div :: "f64 \<Rightarrow> f64 \<Rightarrow> f64" where
  "f_div (Fin a) (Fin b) = (if b = 0 then signed_inf a else rnd (a / b))"
| "f_div NaN _ = NaN" | "f_div _ NaN = NaN"
| "f_div (Fin a) _ = Fin 0"
| "f_div PosInf (Fin b) = (if 0 \<le> b then PosInf else NegInf)"
| "f_div NegInf (Fin b) = (if 0 \<le> b then NegInf else PosInf)"
| "f_div _ _ = NaN"

text \<open>Comparisons are false when an operand is a NaN.\<close>

fun f_lt :: "f64 \<Rightarrow> f64 \<Rightarrow> bool" where
  "f_lt (Fin a) (Fin b) = (a < b)"
| "f_lt NaN _ = False" | "f_lt _ NaN = False"
| "f_lt NegInf b = (b \<noteq> NegInf)" | "f_lt a PosInf = (a \<noteq> PosInf)"
| "f_lt _ _ = False"

fun f_le :: "f64 \<Rightarrow> f64 \<Rightarrow> bool" where
  "f_le (Fin a) (Fin b) = (a \<le> b)"
| "f_le NaN _ = False" | "f_le _ NaN = False"
| "f_le NegInf b = True" | "f_le a PosInf = True"
| "f_le _ _ = False"

definition f_eq :: "f64 \<Rightarrow> f64 \<Rightarrow> bool" where
  "f_eq a b \<longleftrightarrow> a \<noteq> NaN \<and> a = b"

abbreviation f_gt :: "f64 \<Rightarrow> f64 \<Rightarrow> bool" where
  "f_gt a b \<equiv> f_lt b a"

abbreviation f_zero :: f64 where
  "f_zero \<equiv> Fin 0"

text \<open>
  Conversions: \<open>float64(n)\<close>, and \<open>int(f)\<close>, which truncates; a value outside the 64-bit range
  gives amd64's integer indefinite value (Go leaves it to the implementation).
\<close>

definition f_of_int :: "int \<Rightarrow> f64" where
  "f_of_int n = rnd (of_int n)"

definition trunc_rat :: "rat \<Rightarrow> int" where
  "trunc_rat x = (if 0 \<le> x then \<lfloor>x\<rfloor> else \<lceil>x\<rceil>)"

definition f_to_int :: "f64 \<Rightarrow> int" where
  "f_to_int f = (case f of
     Fin a \<Rightarrow> (let n = trunc_rat a in if - (2 ^ 63) \<le> n \<and> n < 2 ^ 63 then n else - (2 ^ 63))
   | _ \<Rightarrow> - (2 ^ 63))"

section \<open>The exponent\<close>

lemma bitlen_bounds_rat:
  assumes "0 < n"
  shows "(2::rat) powi (bitlen n - 1) \<le> of_int n" and "of_int n < (2::rat) powi bitlen n"
proof -
  have b: "2 ^ nat (bitlen n - 1) \<le> n \<and> n < 2 ^ nat (bitlen n)"
    using assms by (rule bitlen_bounds)
  have p: "0 < bitlen n" using assms bitlen_nonneg [of n] bitlen_eq_zero_iff [of n] by linarith
  have "(of_int (2 ^ nat (bitlen n - 1)) :: rat) \<le> of_int n" using b of_int_le_iff by blast
  then show "(2::rat) powi (bitlen n - 1) \<le> of_int n" using p by (simp add: power_int_def)
  have "(of_int n :: rat) < of_int (2 ^ nat (bitlen n))" using b of_int_less_iff by blast
  then show "of_int n < (2::rat) powi bitlen n" using p by (simp add: power_int_def)
qed

lemma ilog2_bounds:
  assumes "0 < x"
  shows "2 powi ilog2 x \<le> x \<and> x < 2 powi (ilog2 x + 1)"
proof -
  obtain n d where q: "quotient_of x = (n, d)" by (cases "quotient_of x")
  then have d: "0 < d" and x: "x = of_int n / of_int d"
    by (auto simp: quotient_of_denom_pos quotient_of_div)
  with assms have n: "0 < n" by (simp add: zero_less_divide_iff)
  let ?e = "bitlen n - bitlen d"
  note bn = bitlen_bounds_rat [OF n] and bd = bitlen_bounds_rat [OF d]
  have pos: "(0::rat) < of_int d" using d by simp
  have lo: "(2::rat) powi (?e - 1) < x"
  proof -
    have "(2::rat) powi (?e - 1) * of_int d < 2 powi (?e - 1) * 2 powi bitlen d"
      using bd(2) by (rule mult_strict_left_mono) simp
    also have "\<dots> = 2 powi (bitlen n - 1)" by (simp add: power_int_add [symmetric])
    also have "\<dots> \<le> of_int n" by (rule bn(1))
    finally show ?thesis using pos by (simp add: x pos_less_divide_eq)
  qed
  have hi: "x < (2::rat) powi (?e + 1)"
  proof -
    have "of_int n < (2::rat) powi bitlen n" by (rule bn(2))
    also have "\<dots> = 2 powi (?e + 1) * 2 powi (bitlen d - 1)" by (simp add: power_int_add [symmetric])
    also have "\<dots> \<le> 2 powi (?e + 1) * of_int d" using bd(1) by (rule mult_left_mono) simp
    finally show ?thesis using pos by (simp add: x pos_divide_less_eq)
  qed
  from lo hi show ?thesis by (simp add: ilog2_def q Let_def)
qed

lemma powi_less_cancel: "(2::rat) powi a < 2 powi b \<longleftrightarrow> a < b"
  by (metis one_less_numeral_iff power_int_strict_increasing semiring_norm(76) not_less_iff_gr_or_eq)

lemma ilog2_unique:
  assumes "2 powi e \<le> x" and "x < 2 powi (e + 1)"
  shows "ilog2 x = e"
proof -
  have "(0::rat) < 2 powi e" by simp
  with assms(1) have "0 < x" by linarith
  note b = ilog2_bounds [OF this]
  from b assms have "(2::rat) powi ilog2 x < 2 powi (e + 1)" "(2::rat) powi e < 2 powi (ilog2 x + 1)"
    by linarith+
  then show ?thesis unfolding powi_less_cancel by linarith
qed

lemma ilog2_mono:
  assumes "0 < x" and "x \<le> y"
  shows "ilog2 x \<le> ilog2 y"
proof -
  from assms ilog2_bounds [of x] ilog2_bounds [of y]
  have "(2::rat) powi ilog2 x < 2 powi (ilog2 y + 1)" by linarith
  then show ?thesis unfolding powi_less_cancel by linarith
qed

section \<open>Rounding: monotone, odd, exact where it can be\<close>

lemma rne_bounds: "\<lfloor>x\<rfloor> \<le> rne x \<and> rne x \<le> \<lfloor>x\<rfloor> + 1"
  by (auto simp: rne_def Let_def)

lemma rne_of_int [simp]: "rne (of_int n) = n"
  by (simp add: rne_def)

lemma rne_mono:
  assumes "x \<le> y"
  shows "rne x \<le> rne y"
proof (cases "\<lfloor>x\<rfloor> = \<lfloor>y\<rfloor>")
  case True
  with assms show ?thesis by (auto simp: rne_def Let_def)
next
  case False
  with floor_mono [OF assms] have "\<lfloor>x\<rfloor> + 1 \<le> \<lfloor>y\<rfloor>" by simp
  with rne_bounds [of x] rne_bounds [of y] show ?thesis by linarith
qed

lemma rne_minus: "rne (- x) = - rne x"
proof (cases "of_int \<lfloor>x\<rfloor> = x")
  case True
  then obtain n where x: "x = of_int n" by metis
  have "rne (of_int (- n)) = - n" by (rule rne_of_int)
  then show ?thesis by (simp add: x)
next
  case False
  then have f: "\<lfloor>- x\<rfloor> = - \<lfloor>x\<rfloor> - 1"
    by (simp add: floor_minus ceiling_altdef)
  show ?thesis unfolding rne_def f Let_def by auto
qed

lemma rne_error: "\<bar>of_int (rne x) - x\<bar> \<le> 1 / 2"
proof -
  have "of_int \<lfloor>x\<rfloor> \<le> x" "x < of_int \<lfloor>x\<rfloor> + 1" by linarith+
  then show ?thesis by (auto simp: rne_def Let_def)
qed

lemma round_rat_0 [simp]: "round_rat 0 = 0"
  by (simp add: round_rat_def)

lemma quantum_minus [simp]: "quantum (- x) = quantum x"
  by (simp add: quantum_def)

lemma round_rat_minus: "round_rat (- x) = - round_rat x"
  by (simp add: round_rat_def rne_minus)

lemma round_rat_le_multiple:
  assumes "x \<noteq> 0" and "x \<le> of_int k * 2 powi quantum x"
  shows "round_rat x \<le> of_int k * 2 powi quantum x"
proof -
  have "x / 2 powi quantum x \<le> of_int k" using assms(2) by (simp add: divide_le_eq)
  then have "rne (x / 2 powi quantum x) \<le> k" using rne_mono [of _ "of_int k"] by fastforce
  then show ?thesis using assms(1) by (simp add: round_rat_def)
qed

lemma round_rat_ge_multiple:
  assumes "x \<noteq> 0" and "of_int k * 2 powi quantum x \<le> x"
  shows "of_int k * 2 powi quantum x \<le> round_rat x"
proof -
  have "of_int k \<le> x / 2 powi quantum x" using assms(2) by (simp add: le_divide_eq)
  then have "k \<le> rne (x / 2 powi quantum x)" using rne_mono [of "of_int k"] by fastforce
  then show ?thesis using assms(1) by (simp add: round_rat_def)
qed

lemma round_rat_nonneg: "0 \<le> x \<Longrightarrow> 0 \<le> round_rat x"
  using round_rat_ge_multiple [of x 0] by (cases "x = 0") simp_all

lemma round_rat_mono_pos:
  assumes "0 < x" and "x \<le> y"
  shows "round_rat x \<le> round_rat y"
proof -
  have l: "ilog2 x \<le> ilog2 y" using assms by (rule ilog2_mono)
  have q: "quantum x \<le> quantum y" using assms l by (simp add: quantum_def)
  show ?thesis
  proof (cases "quantum x = quantum y")
    case True
    have "x / 2 powi quantum x \<le> y / 2 powi quantum x"
      using assms(2) by (simp add: divide_right_mono)
    from rne_mono [OF this] assms True show ?thesis by (simp add: round_rat_def)
  next
    case False
    with q assms have qy: "quantum y = ilog2 y - 52" and lt: "ilog2 x < ilog2 y"
      and qx: "quantum x \<le> ilog2 y - 52"
      by (auto simp: quantum_def)
    have "y \<noteq> 0" "x \<noteq> 0" "0 < y" using assms by auto
    have "(2::rat) powi (ilog2 x + 1) \<le> 2 powi ilog2 y" using lt by (simp add: power_int_increasing)
    with ilog2_bounds [OF assms(1)] have xp: "x \<le> 2 powi ilog2 y" by linarith
    define k where "k = nat (ilog2 y - quantum x)"
    have pk: "of_int (2 ^ k) * 2 powi quantum x = (2::rat) powi ilog2 y"
      using qx by (simp add: k_def power_int_def [symmetric] power_int_add [symmetric] flip: power_int_of_nat)
    have py: "of_int (2 ^ 52) * 2 powi quantum y = (2::rat) powi ilog2 y"
      by (simp add: qy power_int_diff)
    have "round_rat x \<le> 2 powi ilog2 y"
      using round_rat_le_multiple [OF \<open>x \<noteq> 0\<close>, of "2 ^ k"] xp unfolding pk by blast
    also have "\<dots> \<le> round_rat y"
      using round_rat_ge_multiple [OF \<open>y \<noteq> 0\<close>, of "2 ^ 52"] ilog2_bounds [OF \<open>0 < y\<close>] unfolding py by blast
    finally show ?thesis .
  qed
qed

lemma round_rat_mono:
  assumes "x \<le> y"
  shows "round_rat x \<le> round_rat y"
proof -
  consider "0 < x" | "x \<le> 0" "0 \<le> y" | "y < 0" by linarith
  then show ?thesis
  proof cases
    case 1
    then show ?thesis using assms by (rule round_rat_mono_pos)
  next
    case 2
    have "round_rat x \<le> 0" using round_rat_nonneg [of "- x"] 2 by (simp add: round_rat_minus)
    also have "0 \<le> round_rat y" using 2 by (simp add: round_rat_nonneg)
    finally show ?thesis .
  next
    case 3
    with round_rat_mono_pos [of "- y" "- x"] assms show ?thesis by (simp add: round_rat_minus)
  qed
qed

text \<open>The values binary64 can represent.\<close>

definition representable :: "rat \<Rightarrow> bool" where
  "representable r \<longleftrightarrow> (\<exists>m q. r = of_int m * 2 powi q \<and> \<bar>m\<bar> \<le> 2 ^ 53 \<and> -1074 \<le> q)"

lemma representable_0 [simp]: "representable 0"
  unfolding representable_def by (intro exI [of _ 0]) simp

lemma scale_up:
  assumes "0 \<le> a"
  shows "of_int (m * 2 ^ nat a) * 2 powi b = (of_int m * 2 powi (a + b) :: rat)"
proof -
  have "(2::rat) powi a = 2 ^ nat a" using assms by (simp add: power_int_def)
  then show ?thesis by (simp add: power_int_add)
qed

lemma round_rat_exact_pos:
  assumes "0 < m" and "m \<le> 2 ^ 53" and "-1074 \<le> q"
  shows "round_rat (of_int m * 2 powi q) = of_int m * 2 powi q"
proof -
  let ?r = "of_int m * 2 powi q :: rat"
  have pos: "0 < ?r" using assms(1) by simp
  have up: "?r \<le> 2 powi (53 + q)"
  proof -
    have "(of_int m :: rat) \<le> of_int (2 ^ 53)" using assms(2) of_int_le_iff by blast
    then have "?r \<le> 2 ^ 53 * 2 powi q" by (simp add: mult_right_mono)
    then show ?thesis by (simp add: power_int_add)
  qed
  have "\<exists>k. ?r = of_int k * 2 powi quantum ?r"
  proof (cases "m = 2 ^ 53")
    case True
    then have r: "?r = 2 powi (53 + q)" by (simp add: power_int_add)
    then have "ilog2 ?r = 53 + q" by (intro ilog2_unique) (simp_all add: power_int_add)
    then have "quantum ?r = q + 1" using assms(3) pos by (simp add: quantum_def)
    then have "?r = of_int (2 ^ 52) * 2 powi quantum ?r" using r by (simp add: power_int_add)
    then show ?thesis by blast
  next
    case False
    with assms(2) have "(of_int m :: rat) < of_int (2 ^ 53)" using of_int_less_iff by (metis le_less)
    then have "?r < 2 ^ 53 * 2 powi q" by simp
    then have "?r < 2 powi (53 + q)" by (simp add: power_int_add)
    with ilog2_bounds [OF pos] have "(2::rat) powi ilog2 ?r < 2 powi (53 + q)" by linarith
    then have "ilog2 ?r \<le> 52 + q" unfolding powi_less_cancel by simp
    then have qq: "quantum ?r \<le> q" using assms(3) pos by (simp add: quantum_def)
    have "of_int (m * 2 ^ nat (q - quantum ?r)) * 2 powi quantum ?r = ?r"
      using qq by (subst scale_up) simp_all
    then show ?thesis by metis
  qed
  then obtain k where k: "?r = of_int k * 2 powi quantum ?r" by blast
  have "?r / 2 powi quantum ?r = of_int k" by (subst k) simp
  then have "round_rat ?r = of_int k * 2 powi quantum ?r" using assms(1) by (simp add: round_rat_def)
  with k show ?thesis by simp
qed

lemma round_rat_exact:
  assumes "representable r"
  shows "round_rat r = r"
proof -
  from assms obtain m q where r: "r = of_int m * 2 powi q" "\<bar>m\<bar> \<le> 2 ^ 53" "-1074 \<le> q"
    by (auto simp: representable_def)
  consider "m = 0" | "0 < m" | "m < 0" by linarith
  then show ?thesis
  proof cases
    case 1
    with r show ?thesis by simp
  next
    case 2
    with r round_rat_exact_pos [of m q] show ?thesis by simp
  next
    case 3
    with r round_rat_exact_pos [of "- m" q] show ?thesis by (simp add: round_rat_minus)
  qed
qed

lemma representable_of_int: "\<bar>n\<bar> \<le> 2 ^ 53 \<Longrightarrow> representable (of_int n)"
  unfolding representable_def by (intro exI [of _ n] exI [of _ 0]) simp

lemma round_rat_representable: "representable (round_rat x)"
proof (cases "x = 0")
  case False
  let ?k = "rne (x / 2 powi quantum x)"
  have a: "0 < \<bar>x\<bar>" using False by simp
  have "\<bar>x\<bar> < 2 powi (ilog2 \<bar>x\<bar> + 1)" using ilog2_bounds [OF a] by simp
  also have "\<dots> \<le> 2 powi (53 + quantum x)" by (simp add: quantum_def power_int_increasing)
  finally have "\<bar>x\<bar> \<le> 2 powi (53 + quantum x)" by simp
  then have "\<bar>x\<bar> \<le> of_int (2 ^ 53) * 2 powi quantum x" by (simp add: power_int_add)
  then have "x \<le> of_int (2 ^ 53) * 2 powi quantum x" "of_int (- (2 ^ 53)) * 2 powi quantum x \<le> x"
    by (simp_all only: abs_le_iff of_int_minus mult_minus_left minus_le_iff)
  then have "x / 2 powi quantum x \<le> of_int (2 ^ 53)" "of_int (- (2 ^ 53)) \<le> x / 2 powi quantum x"
    by (simp_all only: pos_divide_le_eq pos_le_divide_eq zero_less_power_int zero_less_numeral)
  then have "rne (x / 2 powi quantum x) \<le> rne (of_int (2 ^ 53))"
    and "rne (of_int (- (2 ^ 53))) \<le> rne (x / 2 powi quantum x)"
    by (simp_all only: rne_mono)
  then have "\<bar>?k\<bar> \<le> 2 ^ 53" unfolding rne_of_int by linarith
  moreover have "-1074 \<le> quantum x" by (simp add: quantum_def)
  ultimately show ?thesis using False by (auto simp: representable_def round_rat_def)
qed simp

section \<open>Values that are not negative\<close>

text \<open>A \<open>float64\<close> whose finite value binary64 can hold; every operation returns one.\<close>

fun is_f64 :: "f64 \<Rightarrow> bool" where
  "is_f64 (Fin a) = (representable a \<and> \<bar>a\<bar> < f64_limit)"
| "is_f64 _ = True"

fun not_neg :: "f64 \<Rightarrow> bool" where
  "not_neg (Fin a) = (0 \<le> a)" | "not_neg PosInf = True" | "not_neg NaN = True" | "not_neg NegInf = False"

lemma not_neg_iff: "not_neg a \<longleftrightarrow> \<not> f_lt a f_zero"
  by (cases a) auto

lemma is_f64_rnd [simp]: "is_f64 (rnd x)"
  by (auto simp: rnd_def Let_def round_rat_representable)

lemma f64_limit_gt: "of_int (2 ^ 53) < f64_limit"
proof -
  have "(2::rat) ^ 53 < 2 ^ 1024" by (rule power_strict_increasing) simp_all
  then show ?thesis unfolding f64_limit_def by simp
qed

lemma f64_limit_pos [simp]: "0 < f64_limit" "\<not> f64_limit \<le> 0"
  using f64_limit_gt by simp_all

lemma rnd_exact: "representable a \<Longrightarrow> \<bar>a\<bar> < f64_limit \<Longrightarrow> rnd a = Fin a"
  by (auto simp: rnd_def round_rat_exact Let_def abs_less_iff)

lemma not_neg_rnd: "0 \<le> x \<Longrightarrow> not_neg (rnd x)"
  using round_rat_nonneg [of x] by (auto simp: rnd_def Let_def)

lemma not_neg_signed_inf: "0 \<le> s \<Longrightarrow> not_neg (signed_inf s)"
  by (simp add: signed_inf_def)

lemma not_neg_add [intro]: "not_neg a \<Longrightarrow> not_neg b \<Longrightarrow> not_neg (f_add a b)"
  by (cases a; cases b) (auto simp: not_neg_rnd)

lemma not_neg_mul [intro]: "not_neg a \<Longrightarrow> not_neg b \<Longrightarrow> not_neg (f_mul a b)"
  by (cases a; cases b) (auto simp: not_neg_rnd not_neg_signed_inf)

lemma not_neg_div [intro]: "not_neg a \<Longrightarrow> not_neg b \<Longrightarrow> not_neg (f_div a b)"
  by (cases a; cases b) (auto simp: not_neg_rnd not_neg_signed_inf)

lemma not_neg_of_int: "0 \<le> n \<Longrightarrow> not_neg (f_of_int n)"
  by (simp add: f_of_int_def not_neg_rnd)

lemma f_of_int_exact:
  assumes "\<bar>n\<bar> \<le> 2 ^ 53"
  shows "f_of_int n = Fin (of_int n)"
proof -
  have "\<bar>of_int n :: rat\<bar> \<le> of_int (2 ^ 53)" using assms by (metis of_int_abs of_int_le_iff)
  with f64_limit_gt have "\<bar>of_int n :: rat\<bar> < f64_limit" by linarith
  with assms show ?thesis by (simp add: f_of_int_def rnd_exact representable_of_int)
qed

lemma f_mul_zero_right: "a = Fin x \<Longrightarrow> f_mul a (Fin 0) = Fin 0"
  by (simp add: rnd_def)

lemma f_add_zero_right: "is_f64 (Fin x) \<Longrightarrow> f_add (Fin x) (Fin 0) = Fin x"
  by (simp add: rnd_exact)

lemma f_add_mono: "f_le (f_add (Fin a) (Fin b)) (f_add (Fin a) (Fin c))" if "b \<le> c"
  using round_rat_mono [of "a + b" "a + c"] that by (auto simp: rnd_def Let_def)

lemma f_add_increases:
  assumes "is_f64 (Fin a)" and "0 \<le> b"
  shows "f_le (Fin a) (f_add (Fin a) (Fin b))"
  using f_add_mono [OF assms(2), of a] f_add_zero_right [OF assms(1)] by simp

section \<open>Evaluation of small values\<close>

text \<open>
  The code equation of \<open>rnd\<close> by cases: an integer of at most 53 bits is itself, a value of at
  most \<open>2^53\<close> cannot overflow, and only the rest is compared with \<open>2^1024\<close>.
\<close>

lemma round_rat_of_int: "\<bar>n\<bar> \<le> 2 ^ 53 \<Longrightarrow> round_rat (of_int n) = of_int n"
  by (rule round_rat_exact [OF representable_of_int])

lemma round_rat_bounded:
  assumes "\<bar>x\<bar> \<le> 9007199254740992"
  shows "\<bar>round_rat x\<bar> \<le> 9007199254740992"
proof -
  have "round_rat x \<le> round_rat (of_int 9007199254740992)"
    and "round_rat (of_int (- 9007199254740992)) \<le> round_rat x"
    by (rule round_rat_mono; use assms in simp)+
  moreover have "round_rat (of_int 9007199254740992) = of_int 9007199254740992"
    and "round_rat (of_int (- 9007199254740992)) = of_int (- 9007199254740992)"
    by (rule round_rat_of_int; simp)+
  ultimately show ?thesis by simp
qed

lemma rnd_small:
  assumes "\<bar>x\<bar> \<le> 9007199254740992"
  shows "rnd x = Fin (round_rat x)"
proof -
  have "\<bar>round_rat x\<bar> < f64_limit" using round_rat_bounded [OF assms] f64_limit_gt by simp
  then show ?thesis by (auto simp: rnd_def Let_def)
qed

lemma rnd_integer:
  assumes "snd (quotient_of x) = 1" and "\<bar>x\<bar> \<le> 9007199254740992"
  shows "rnd x = Fin x"
proof -
  have x: "x = of_int (fst (quotient_of x))"
    using assms(1) quotient_of_div [of x] by (cases "quotient_of x") simp
  then have "\<bar>fst (quotient_of x)\<bar> \<le> 2 ^ 53" using assms(2) by simp
  then show ?thesis using rnd_small [OF assms(2)] round_rat_of_int x by metis
qed

lemma rnd_code [code]:
  "rnd x = (if \<bar>x\<bar> \<le> 9007199254740992
            then if snd (quotient_of x) = 1 then Fin x else Fin (round_rat x)
            else let r = round_rat x
                 in if f64_limit \<le> r then PosInf else if r \<le> - f64_limit then NegInf else Fin r)"
  using rnd_integer [of x] rnd_small [of x] by (simp add: rnd_def)

end
