(* ===== verification/GoFmt.thy ===== *)
theory GoFmt
  imports Float64
begin

text \<open>
  The part of Go's \<open>fmt\<close> the modelled code formats with: \<open>%d\<close>, \<open>%0nd\<close> and \<open>%.nf\<close>.
  Strings are byte lists; a character outside ASCII is its UTF-8 encoding.
\<close>

section \<open>Decimal numbers\<close>

fun show_digits :: "nat \<Rightarrow> string" where
  "show_digits n =
     (if n < 10 then [char_of (48 + n)] else show_digits (n div 10) @ [char_of (48 + n mod 10)])"

declare show_digits.simps [simp del]

definition fmt_d :: "int \<Rightarrow> string" where
  "fmt_d n = (if n < 0 then ''-'' @ show_digits (nat (- n)) else show_digits (nat n))"

text \<open>\<open>%0wd\<close>: zeros between the sign and the digits, up to the width.\<close>

definition zero_pad :: "nat \<Rightarrow> string \<Rightarrow> string" where
  "zero_pad w s = replicate (w - length s) (CHR ''0'') @ s"

definition fmt_0d :: "nat \<Rightarrow> int \<Rightarrow> string" where
  "fmt_0d w n = (if n < 0 then ''-'' @ zero_pad (w - 1) (show_digits (nat (- n)))
                 else zero_pad w (show_digits (nat n)))"

text \<open>\<open>%.kf\<close> prints the exact value rounded half to even at the k-th decimal.\<close>

definition fmt_f :: "nat \<Rightarrow> f64 \<Rightarrow> string" where
  "fmt_f k x = (case x of
     NaN \<Rightarrow> ''NaN'' | PosInf \<Rightarrow> ''+Inf'' | NegInf \<Rightarrow> ''-Inf''
   | Fin r \<Rightarrow>
       let n = nat (rne (\<bar>r\<bar> * 10 ^ k));
           ip = show_digits (n div 10 ^ k);
           fp = (if k = 0 then '''' else CHR ''.'' # zero_pad k (show_digits (n mod 10 ^ k)))
       in (if r < 0 then ''-'' else '''') @ ip @ fp)"

definition em_dash :: string where
  "em_dash = [CHR 0xE2, CHR 0x80, CHR 0x94]"

section \<open>Reading the digits back\<close>

fun read_digits :: "nat \<Rightarrow> string \<Rightarrow> nat" where
  "read_digits acc [] = acc"
| "read_digits acc (c # cs) = read_digits (10 * acc + (of_char c - 48)) cs"

lemma read_digits_append: "read_digits acc (xs @ ys) = read_digits (read_digits acc xs) ys"
  by (induction acc xs rule: read_digits.induct) simp_all

lemma read_show_digits: "read_digits 0 (show_digits n) = n"
proof (induction n rule: show_digits.induct)
  case (1 n)
  show ?case
  proof (cases "n < 10")
    case True
    then show ?thesis by (subst show_digits.simps) (simp add: of_char_of)
  next
    case False
    have "(48 + n mod 10) mod 256 = 48 + n mod 10" by (rule mod_less) simp
    with False 1 show ?thesis by (subst show_digits.simps) (simp add: read_digits_append of_char_of)
  qed
qed

lemma show_digits_inj: "show_digits m = show_digits n \<longleftrightarrow> m = n"
  by (metis read_show_digits)

lemma read_zeros: "read_digits 0 (replicate k (CHR ''0'') @ s) = read_digits 0 s"
  by (induction k) simp_all

lemma fmt_0d_inj:
  assumes "0 \<le> m" and "0 \<le> n" and "fmt_0d w m = fmt_0d w n"
  shows "m = n"
proof -
  have "read_digits 0 (fmt_0d w k) = nat k" if "0 \<le> k" for k
    using that by (simp add: fmt_0d_def zero_pad_def read_zeros read_show_digits)
  with assms show ?thesis by (metis eq_nat_nat_iff)
qed

end
