(* ===== verification/Store.thy ===== *)
theory Store
  imports GoFmt
begin

text \<open>
  Operations on the database the services share.  An operation maps the state to the state after
  it and an error or a value; \<^verbatim>\<open>if err != nil { return err }\<close> is \<open>bindE\<close>, a deliberately ignored
  result is \<open>ignore\<close>.

  Queries may fail.  Which do is not in the code, so the state carries a schedule: \<open>faults\<close> lists
  what the next calls to the database return, \<open>None\<close> for a call that works; after its end every
  call works.  Every property below holds for every schedule.  A transaction that returns an
  error, or whose commit fails, leaves the tables as they were when it began.
\<close>

section \<open>Operations that may fail\<close>

type_synonym ('s, 'e, 'a) op = "'s \<Rightarrow> 's \<times> ('e + 'a)"

definition ret :: "'a \<Rightarrow> ('s, 'e, 'a) op" where
  "ret a s = (s, Inr a)"

definition throw :: "'e \<Rightarrow> ('s, 'e, 'a) op" where
  "throw e s = (s, Inl e)"

definition bindE :: "('s, 'e, 'a) op \<Rightarrow> ('a \<Rightarrow> ('s, 'e, 'b) op) \<Rightarrow> ('s, 'e, 'b) op" where
  "bindE m f s = (case m s of (s', Inl e) \<Rightarrow> (s', Inl e) | (s', Inr a) \<Rightarrow> f a s')"

definition thenE :: "('s, 'e, 'a) op \<Rightarrow> ('s, 'e, 'b) op \<Rightarrow> ('s, 'e, 'b) op" where
  "thenE m k = bindE m (\<lambda>_. k)"

definition ignore :: "('s, 'f, 'a) op \<Rightarrow> ('s, 'e, unit) op" where
  "ignore m s = (fst (m s), Inr ())"

definition modify :: "('s \<Rightarrow> 's) \<Rightarrow> ('s, 'e, unit) op" where
  "modify f s = (f s, Inr ())"

text \<open>\<open>s.rbac.Require\<close> passes its verdict on: the operation runs only when there is no error.\<close>

fun raise :: "('x \<Rightarrow> 'e) \<Rightarrow> 'x option \<Rightarrow> ('s, 'e, unit) op" where
  "raise wrap None = ret ()"
| "raise wrap (Some x) = throw (wrap x)"

lemma op_simps [simp]:
  "ret a s = (s, Inr a)" "throw e s = (s, Inl e)" "ignore m s = (fst (m s), Inr ())"
  "modify f s = (f s, Inr ())"
  by (simp_all add: ret_def throw_def ignore_def modify_def)

lemma bindE_simps [simp]:
  "m s = (s', Inr a) \<Longrightarrow> bindE m f s = f a s'"
  "m s = (s', Inl e) \<Longrightarrow> bindE m f s = (s', Inl e)"
  by (simp_all add: bindE_def)

lemma bindE_Inr_iff:
  "bindE m f s = (s', Inr b) \<longleftrightarrow> (\<exists>s1 a. m s = (s1, Inr a) \<and> f a s1 = (s', Inr b))"
  by (auto simp: bindE_def split: prod.splits sum.splits)

lemma bindE_Inl_iff:
  "bindE m f s = (s', Inl e) \<longleftrightarrow>
     m s = (s', Inl e) \<or> (\<exists>s1 a. m s = (s1, Inr a) \<and> f a s1 = (s', Inl e))"
  by (auto simp: bindE_def split: prod.splits sum.splits)

lemma thenE_Inr_iff:
  "thenE m k s = (s', Inr b) \<longleftrightarrow> (\<exists>s1 a. m s = (s1, Inr a) \<and> k s1 = (s', Inr b))"
  by (auto simp: thenE_def bindE_Inr_iff)

lemma thenE_Inl_iff:
  "thenE m k s = (s', Inl e) \<longleftrightarrow>
     m s = (s', Inl e) \<or> (\<exists>s1 a. m s = (s1, Inr a) \<and> k s1 = (s', Inl e))"
  by (auto simp: thenE_def bindE_Inl_iff)

lemmas op_iffs = bindE_Inr_iff bindE_Inl_iff thenE_Inr_iff thenE_Inl_iff

section \<open>What an operation relates\<close>

text \<open>
  \<open>steps R m\<close>: from every state, \<open>m\<close> goes only to states related by \<open>R\<close>, whatever it returns.
  With a reflexive and transitive \<open>R\<close> the rules below run through a whole handler.
\<close>

definition steps :: "('s \<Rightarrow> 's \<Rightarrow> bool) \<Rightarrow> ('s, 'e, 'a) op \<Rightarrow> bool" where
  "steps R m \<longleftrightarrow> (\<forall>s. R s (fst (m s)))"

named_theorems steps_rules \<open>how the building blocks of a handler step\<close>

lemma stepsD: "steps R m \<Longrightarrow> m s = (s', r) \<Longrightarrow> R s s'"
  by (metis fst_conv steps_def)

lemma steps_run: "steps R m \<Longrightarrow> R s (fst (m s))"
  by (simp add: steps_def)

lemma steps_ret [steps_rules]: "reflp R \<Longrightarrow> steps R (ret a)"
  by (simp add: steps_def reflpD)

lemma steps_throw [steps_rules]: "reflp R \<Longrightarrow> steps R (throw e)"
  by (simp add: steps_def reflpD)

lemma steps_bindE [steps_rules]:
  "transp R \<Longrightarrow> steps R m \<Longrightarrow> (\<And>a. steps R (f a)) \<Longrightarrow> steps R (bindE m f)"
  unfolding steps_def
proof
  fix s
  assume R: "transp R" and m: "\<forall>s. R s (fst (m s))" and f: "\<And>a. \<forall>s. R s (fst (f a s))"
  obtain s1 r where ms: "m s = (s1, r)" by (cases "m s")
  with m have s1: "R s s1" by (metis fst_conv)
  show "R s (fst (bindE m f s))"
  proof (cases r)
    case (Inl e)
    with ms s1 show ?thesis by simp
  next
    case (Inr a)
    with ms have "bindE m f s = f a s1" by simp
    with f s1 R show ?thesis by (metis transpD)
  qed
qed

lemma steps_thenE [steps_rules]:
  "transp R \<Longrightarrow> steps R m \<Longrightarrow> steps R k \<Longrightarrow> steps R (thenE m k)"
  by (simp add: thenE_def steps_bindE)

lemma steps_ignore [steps_rules]: "steps R m \<Longrightarrow> steps R (ignore m)"
  by (simp add: steps_def)

lemma steps_modify [steps_rules]: "(\<And>s. R s (f s)) \<Longrightarrow> steps R (modify f)"
  by (simp add: steps_def)

lemma steps_raise [steps_rules]: "reflp R \<Longrightarrow> steps R (raise wrap x)"
  by (cases x) (simp_all add: steps_ret steps_throw)

lemma steps_if [steps_rules]: "(c \<Longrightarrow> steps R m) \<Longrightarrow> (\<not> c \<Longrightarrow> steps R k) \<Longrightarrow> steps R (if c then m else k)"
  by simp

lemma steps_option [steps_rules]:
  "(x = None \<Longrightarrow> steps R m) \<Longrightarrow> (\<And>a. x = Some a \<Longrightarrow> steps R (f a)) \<Longrightarrow> steps R (case x of None \<Rightarrow> m | Some a \<Rightarrow> f a)"
  by (cases x) simp_all

section \<open>The database\<close>

record store =
  faults :: "string option list"

definition db_call :: "(string \<Rightarrow> 'e) \<Rightarrow> ('z store_scheme, 'e, unit) op" where
  "db_call wrap s =
     (case faults s of
        [] \<Rightarrow> (s, Inr ())
      | fault # rest \<Rightarrow>
          (s\<lparr>faults := rest\<rparr>, case fault of None \<Rightarrow> Inr () | Some err \<Rightarrow> Inl (wrap err)))"

text \<open>\<open>First\<close> orders by the primary key; \<open>None\<close> is \<open>gorm.ErrRecordNotFound\<close>.\<close>

definition first_row :: "('r \<Rightarrow> 'k::linorder) \<Rightarrow> ('r \<Rightarrow> bool) \<Rightarrow> 'r list \<Rightarrow> 'r option" where
  "first_row key P rows = (case sort_key key (filter P rows) of [] \<Rightarrow> None | r # _ \<Rightarrow> Some r)"

definition db_find ::
    "(string \<Rightarrow> 'e) \<Rightarrow> ('r \<Rightarrow> 'k::linorder) \<Rightarrow> ('z store_scheme \<Rightarrow> 'r list) \<Rightarrow> ('r \<Rightarrow> bool)
       \<Rightarrow> ('z store_scheme, 'e, 'r option) op" where
  "db_find wrap key table P = bindE (db_call wrap) (\<lambda>_ s. (s, Inr (first_row key P (table s))))"

definition db_First ::
    "'e \<Rightarrow> (string \<Rightarrow> 'e) \<Rightarrow> ('r \<Rightarrow> 'k::linorder) \<Rightarrow> ('z store_scheme \<Rightarrow> 'r list) \<Rightarrow> ('r \<Rightarrow> bool)
       \<Rightarrow> ('z store_scheme, 'e, 'r) op" where
  "db_First not_found wrap key table P =
     bindE (db_find wrap key table P)
       (\<lambda>r. case r of None \<Rightarrow> throw not_found | Some row \<Rightarrow> ret row)"

definition db_query :: "(string \<Rightarrow> 'e) \<Rightarrow> ('z store_scheme \<Rightarrow> 'a) \<Rightarrow> ('z store_scheme, 'e, 'a) op" where
  "db_query wrap sel = bindE (db_call wrap) (\<lambda>_ s. (s, Inr (sel s)))"

definition db_write ::
    "(string \<Rightarrow> 'e) \<Rightarrow> ('z store_scheme \<Rightarrow> 'z store_scheme) \<Rightarrow> ('z store_scheme, 'e, unit) op" where
  "db_write wrap f = bindE (db_call wrap) (\<lambda>_. modify f)"

text \<open>An insert that a unique index may refuse.\<close>

definition duplicate_key :: string where
  "duplicate_key = ''duplicate key value violates unique constraint''"

definition db_insert ::
    "(string \<Rightarrow> 'e) \<Rightarrow> ('z store_scheme \<Rightarrow> bool) \<Rightarrow> ('z store_scheme \<Rightarrow> 'z store_scheme)
       \<Rightarrow> ('z store_scheme, 'e, unit) op" where
  "db_insert wrap conflict f =
     bindE (db_call wrap) (\<lambda>_ s. if conflict s then (s, Inl (wrap duplicate_key)) else (f s, Inr ()))"

definition transaction ::
    "(string \<Rightarrow> 'e) \<Rightarrow> ('z store_scheme, 'e, 'a) op \<Rightarrow> ('z store_scheme, 'e, 'a) op" where
  "transaction wrap body s =
     (case bindE (db_call wrap) (\<lambda>_. bindE body (\<lambda>a. thenE (db_call wrap) (ret a))) s of
        (s', Inl e) \<Rightarrow> (s\<lparr>faults := faults s'\<rparr>, Inl e)
      | (s', Inr a) \<Rightarrow> (s', Inr a))"

text \<open>\<open>UPDATE\<close>: every row that satisfies the condition is replaced.\<close>

definition update_rows :: "('r \<Rightarrow> bool) \<Rightarrow> ('r \<Rightarrow> 'r) \<Rightarrow> 'r list \<Rightarrow> 'r list" where
  "update_rows P f rows = map (\<lambda>r. if P r then f r else r) rows"

section \<open>Facts about them\<close>

lemma first_row_None [simp]: "first_row key P rows = None \<longleftrightarrow> (\<forall>r \<in> set rows. \<not> P r)"
proof -
  have "set (sort_key key (filter P rows)) = set (filter P rows)" by simp
  then show ?thesis
    by (cases "sort_key key (filter P rows)") (auto simp: first_row_def)
qed

lemma first_row_Some: "first_row key P rows = Some r \<Longrightarrow> r \<in> set rows \<and> P r"
proof -
  assume "first_row key P rows = Some r"
  then obtain rs where "sort_key key (filter P rows) = r # rs"
    by (auto simp: first_row_def split: list.splits)
  then have "r \<in> set (sort_key key (filter P rows))" by simp
  then show ?thesis by simp
qed

lemma first_row_unique:
  assumes "r \<in> set rows" and "P r" and "\<And>r'. r' \<in> set rows \<Longrightarrow> P r' \<Longrightarrow> r' = r"
  shows "first_row key P rows = Some r"
proof (cases "first_row key P rows")
  case None
  then have "\<forall>r \<in> set rows. \<not> P r" by simp
  with assms(1,2) show ?thesis by blast
next
  case (Some r')
  with first_row_Some [OF Some] assms(3) show ?thesis by simp
qed

lemma db_call_cases:
  obtains fs where "db_call wrap s = (s\<lparr>faults := fs\<rparr>, Inr ())"
  | fs err where "db_call wrap s = (s\<lparr>faults := fs\<rparr>, Inl (wrap err))"
proof (cases "faults s")
  case Nil
  then have "db_call wrap s = (s\<lparr>faults := []\<rparr>, Inr ())" by (simp add: db_call_def)
  then show ?thesis by (rule that(1))
next
  case (Cons f fs)
  then show ?thesis using that(1) [of fs] that(2) [of fs] by (cases f) (auto simp: db_call_def)
qed

lemma db_call_Inr: "db_call wrap s = (s', Inr u) \<Longrightarrow> s' = s\<lparr>faults := faults s'\<rparr>"
  by (cases rule: db_call_cases [of wrap s]) auto

lemma db_call_Inl: "db_call wrap s = (s', Inl e) \<Longrightarrow> s' = s\<lparr>faults := faults s'\<rparr> \<and> (\<exists>err. e = wrap err)"
  by (cases rule: db_call_cases [of wrap s]) auto

text \<open>With no fault left, every call works.\<close>

lemma db_call_ok [simp]: "faults s = [] \<Longrightarrow> db_call wrap s = (s, Inr ())"
  by (simp add: db_call_def)

text \<open>A relation that does not see the fault schedule.\<close>

definition fault_blind :: "('z store_scheme \<Rightarrow> 'z store_scheme \<Rightarrow> bool) \<Rightarrow> bool" where
  "fault_blind R \<longleftrightarrow> (\<forall>s fs. R s (s\<lparr>faults := fs\<rparr>))"

lemma fault_blindD: "fault_blind R \<Longrightarrow> R s (s\<lparr>faults := fs\<rparr>)"
  by (simp add: fault_blind_def)

lemma steps_db_call [steps_rules]: "fault_blind R \<Longrightarrow> steps R (db_call wrap)"
  unfolding steps_def
proof
  fix s assume "fault_blind R"
  then show "R s (fst (db_call wrap s))"
    by (cases rule: db_call_cases [of wrap s]) (simp_all add: fault_blindD)
qed

lemma steps_get: "reflp R \<Longrightarrow> steps R (\<lambda>s. (s, Inr (sel s)))"
  by (simp add: steps_def reflpD)

lemma steps_db_find [steps_rules]:
  "reflp R \<Longrightarrow> transp R \<Longrightarrow> fault_blind R \<Longrightarrow> steps R (db_find wrap key table P)"
  unfolding db_find_def by (intro steps_rules steps_get)

lemma steps_db_query [steps_rules]:
  "reflp R \<Longrightarrow> transp R \<Longrightarrow> fault_blind R \<Longrightarrow> steps R (db_query wrap sel)"
  unfolding db_query_def by (intro steps_rules steps_get)

lemma steps_db_First [steps_rules]:
  "reflp R \<Longrightarrow> transp R \<Longrightarrow> fault_blind R \<Longrightarrow> steps R (db_First nf wrap key table P)"
  unfolding db_First_def by (intro steps_rules steps_get)

lemma steps_db_write [steps_rules]:
  "transp R \<Longrightarrow> fault_blind R \<Longrightarrow> (\<And>s. R s (f s)) \<Longrightarrow> steps R (db_write wrap f)"
  unfolding db_write_def by (intro steps_rules)

lemma steps_db_insert [steps_rules]:
  "reflp R \<Longrightarrow> transp R \<Longrightarrow> fault_blind R \<Longrightarrow> (\<And>s. \<not> conflict s \<Longrightarrow> R s (f s))
    \<Longrightarrow> steps R (db_insert wrap conflict f)"
  unfolding db_insert_def by (intro steps_rules) (simp_all add: steps_def reflpD)

lemma steps_transaction [steps_rules]:
  assumes "transp R" and "fault_blind R" and "reflp R" and "steps R body"
  shows "steps R (transaction wrap body)"
proof -
  have "steps R (bindE (db_call wrap) (\<lambda>_. bindE body (\<lambda>a. thenE (db_call wrap) (ret a))))"
    using assms by (intro steps_rules)
  with assms(2) show ?thesis
    by (auto simp: steps_def transaction_def fault_blindD split: prod.splits sum.splits) (metis fst_conv)
qed

text \<open>What a failed transaction leaves.\<close>

lemma transaction_Inl: "transaction wrap body s = (s', Inl e) \<Longrightarrow> s' = s\<lparr>faults := faults s'\<rparr>"
  by (auto simp: transaction_def split: prod.splits sum.splits)

lemma transaction_Inr:
  "transaction wrap body s = (s', Inr a) \<longleftrightarrow>
     (\<exists>s1 s2. db_call wrap s = (s1, Inr ()) \<and> body s1 = (s2, Inr a) \<and> db_call wrap s2 = (s', Inr ()))"
  by (auto simp: transaction_def op_iffs split: prod.splits sum.splits)

lemma db_find_Inr:
  "db_find wrap key table P s = (s', Inr r) \<longleftrightarrow> db_call wrap s = (s', Inr ()) \<and> r = first_row key P (table s')"
  by (auto simp: db_find_def op_iffs)

lemma db_First_Inr:
  "db_First nf wrap key table P s = (s', Inr r) \<longleftrightarrow>
     db_call wrap s = (s', Inr ()) \<and> first_row key P (table s') = Some r"
proof
  assume "db_First nf wrap key table P s = (s', Inr r)"
  then obtain s1 q where "db_call wrap s = (s1, Inr ())" "q = first_row key P (table s1)"
    "(case q of None \<Rightarrow> throw nf | Some row \<Rightarrow> ret row) s1 = (s', Inr r)"
    by (auto simp only: db_First_def db_find_Inr op_iffs)
  then show "db_call wrap s = (s', Inr ()) \<and> first_row key P (table s') = Some r"
    by (cases "first_row key P (table s1)") simp_all
next
  assume "db_call wrap s = (s', Inr ()) \<and> first_row key P (table s') = Some r"
  then show "db_First nf wrap key table P s = (s', Inr r)"
    by (simp add: db_First_def db_find_def)
qed

lemma db_query_Inr: "db_query wrap sel s = (s', Inr a) \<longleftrightarrow> db_call wrap s = (s', Inr ()) \<and> a = sel s'"
  by (auto simp: db_query_def op_iffs)

lemma db_write_Inr:
  "db_write wrap f s = (s', Inr u) \<longleftrightarrow> (\<exists>s1. db_call wrap s = (s1, Inr ()) \<and> s' = f s1)"
  by (auto simp: db_write_def op_iffs)

lemma db_insert_Inr:
  "db_insert wrap conflict f s = (s', Inr u) \<longleftrightarrow>
     (\<exists>s1. db_call wrap s = (s1, Inr ()) \<and> \<not> conflict s1 \<and> s' = f s1)"
  by (auto simp: db_insert_def op_iffs split: if_splits)

lemma db_call_InrD: "db_call wrap s = (s', Inr u) \<Longrightarrow> \<exists>fs. s' = s\<lparr>faults := fs\<rparr>"
  using db_call_Inr by blast

lemma transaction_InlD: "transaction wrap body s = (s', Inl e) \<Longrightarrow> \<exists>fs. s' = s\<lparr>faults := fs\<rparr>"
  by (rule exI [of _ "faults s'"]) (erule transaction_Inl)

lemmas db_Inr = transaction_Inr db_find_Inr db_First_Inr db_query_Inr db_write_Inr db_insert_Inr

lemma db_find_InlD: "db_find w key tab P s = (s', Inl e) \<Longrightarrow> \<exists>fs. s' = s\<lparr>faults := fs\<rparr>"
  by (auto simp: db_find_def bindE_Inl_iff dest!: db_call_Inl)

lemma db_find_InrD:
  "db_find w key tab P s = (s', Inr r) \<Longrightarrow> (\<exists>fs. s' = s\<lparr>faults := fs\<rparr>) \<and> first_row key P (tab s') = r"
  by (auto simp: db_find_Inr dest: db_call_InrD)

lemma db_First_InrD:
  "db_First nf w key tab P s = (s', Inr r) \<Longrightarrow> (\<exists>fs. s' = s\<lparr>faults := fs\<rparr>) \<and> r \<in> set (tab s') \<and> P r"
  by (auto simp: db_First_Inr dest: db_call_InrD first_row_Some)

lemma db_First_InlD: "db_First nf w key tab P s = (s', Inl e) \<Longrightarrow> \<exists>fs. s' = s\<lparr>faults := fs\<rparr>"
proof -
  assume "db_First nf w key tab P s = (s', Inl e)"
  then consider "db_find w key tab P s = (s', Inl e)"
    | s1 r where "db_find w key tab P s = (s1, Inr r)" "(case r of None \<Rightarrow> throw nf | Some row \<Rightarrow> ret row) s1 = (s', Inl e)"
    unfolding db_First_def bindE_Inl_iff by blast
  then show ?thesis
  proof cases
    case 1
    then show ?thesis by (rule db_find_InlD)
  next
    case 2
    then have "s' = s1" by (cases r) auto
    with db_find_InrD [OF 2(1)] show ?thesis by blast
  qed
qed

lemma update_rows_set: "r \<in> set (update_rows P f rows) \<longleftrightarrow> (\<exists>q \<in> set rows. r = (if P q then f q else q))"
  by (auto simp: update_rows_def)

lemma update_rows_key: "(\<And>r. key (f r) = key r) \<Longrightarrow> map key (update_rows P f rows) = map key rows"
  by (simp add: update_rows_def)

end
