(* ===== verification/FSM_Engine.thy ===== *)
theory FSM_Engine
  imports Prelude
begin

text \<open>
  The generic state-machine library of \<open>utils/FSM.go\<close>: the fluent builder
  (\<open>Define\<close>, \<open>State\<close>, \<open>Transition\<close>, \<open>GlobalGuard\<close>, \<dots>), \<open>Compile\<close>, and the running
  \<open>Machine\<close> with its transition pipeline \<open>Send\<close>, history ring and observers.

  A hook is a Go closure over a pointer to the domain entity: it is modelled as a function
  from the entity (type \<open>'c\<close>, everything the hook can reach) to the entity after the call
  and the error it returned.  States \<open>'s\<close> and events \<open>'e\<close> are any types with equality.
  \<open>time.Now()\<close> readings are arguments.  Hooks cannot reach the machine itself in this
  model; a re-entrant call is a call on a machine whose \<open>inFlight\<close> flag is set.
\<close>

section \<open>Errors, envelopes and records\<close>

datatype phase =
  PhaseGuard | PhaseBeforeExit | PhaseBeforeEnter | PhaseEffect | PhaseAfterExit | PhaseAfterEnter

text \<open>
  The cause wrapped by a \<open>TransitionError\<close>: a guard's error is first wrapped as
  \<open>ErrGuardRejected\<close>, every other hook's error is wrapped as it is.
\<close>

datatype cause = GuardRejected go_error | HookFailed go_error

datatype ('s, 'e) fsm_error =
    ErrInvalidTransition 's 'e
  | ErrTerminalState
  | ErrConcurrentTransition
  | TransitionError (te_from: 's) (te_to: 's) (te_event: 'e) (te_phase: phase) (te_cause: cause)

text \<open>\<open>errors.Is(err, ErrGuardRejected)\<close>, through \<open>TransitionError.Unwrap\<close>.\<close>

fun is_guard_rejected :: "('s, 'e) fsm_error \<Rightarrow> bool" where
  "is_guard_rejected (TransitionError _ _ _ _ (GuardRejected _)) = True"
| "is_guard_rejected _ = False"

record 'e envelope =
  env_ID :: string
  env_Event :: 'e
  env_Payload :: any_ref
  env_ActorID :: uuid
  env_TenantID :: uuid
  env_OccurredAt :: gotime
  env_Metadata :: "(string \<times> string) list option"

text \<open>
  \<open>NewEnvelope\<close> takes the generated identifier and the clock reading as arguments; the
  metadata map is allocated and empty, \<open>None\<close> is Go's nil map.
\<close>

definition NewEnvelope :: "string \<Rightarrow> gotime \<Rightarrow> 'e \<Rightarrow> any_ref \<Rightarrow> 'e envelope" where
  "NewEnvelope new_id now event payload =
     \<lparr>env_ID = new_id, env_Event = event, env_Payload = payload, env_ActorID = uuid_Nil,
      env_TenantID = uuid_Nil, env_OccurredAt = now, env_Metadata = Some []\<rparr>"

definition WithActor :: "'e envelope \<Rightarrow> uuid \<Rightarrow> uuid \<Rightarrow> 'e envelope" where
  "WithActor e actorID tenantID = e\<lparr>env_ActorID := actorID, env_TenantID := tenantID\<rparr>"

definition WithMeta :: "'e envelope \<Rightarrow> string \<Rightarrow> string \<Rightarrow> 'e envelope" where
  "WithMeta e key val =
     (let md = (case env_Metadata e of None \<Rightarrow> [] | Some md \<Rightarrow> md)
      in e\<lparr>env_Metadata := Some (AList.update key val md)\<rparr>)"

text \<open>Reading \<open>e.Metadata[key]\<close>, with the comma-ok result; a nil map reads as empty.\<close>

definition meta_get :: "'e envelope \<Rightarrow> string \<Rightarrow> string option" where
  "meta_get e key = (case env_Metadata e of None \<Rightarrow> None | Some md \<Rightarrow> map_of md key)"

record ('s, 'e) transition_record =
  SequenceNumber :: "64 word"
  rec_From :: 's
  rec_To :: 's
  rec_Event :: "'e envelope"
  rec_OccurredAt :: gotime
  rec_DurationMs :: int

type_synonym ('c, 'e) guard_func = "'c \<Rightarrow> 'e envelope \<Rightarrow> 'c \<times> go_error option"
type_synonym ('c, 'e) effect_func = "'c \<Rightarrow> 'e envelope \<Rightarrow> 'c \<times> go_error option"
type_synonym ('c, 's, 'e) hook_func = "'c \<Rightarrow> ('s, 'e) transition_record \<Rightarrow> 'c \<times> go_error option"
type_synonym ('c, 's, 'e) observer_func = "'c \<Rightarrow> ('s, 'e) transition_record \<Rightarrow> 'c"

section \<open>State and transition definitions, and their options\<close>

record ('c, 's, 'e) state_meta =
  sm_name :: 's
  isTerminal :: bool
  isInitial :: bool
  sm_description :: string
  onEntry :: "('c, 's, 'e) hook_func list"
  onExit :: "('c, 's, 'e) hook_func list"

record ('c, 's, 'e) transition_def =
  td_from :: 's
  td_event :: 'e
  td_to :: 's
  guards :: "('c, 'e) guard_func list"
  effects :: "('c, 'e) effect_func list"
  beforeExit :: "('c, 's, 'e) hook_func list"
  beforeEnter :: "('c, 's, 'e) hook_func list"
  afterExit :: "('c, 's, 'e) hook_func list"
  afterEnter :: "('c, 's, 'e) hook_func list"
  td_description :: string

type_synonym ('c, 's, 'e) transition_option =
  "('c, 's, 'e) transition_def \<Rightarrow> ('c, 's, 'e) transition_def"
type_synonym ('c, 's, 'e) state_option = "('c, 's, 'e) state_meta \<Rightarrow> ('c, 's, 'e) state_meta"

definition Guard :: "('c, 'e) guard_func \<Rightarrow> ('c, 's, 'e) transition_option" where
  "Guard fn t = t\<lparr>guards := guards t @ [fn]\<rparr>"

definition Effect :: "('c, 'e) effect_func \<Rightarrow> ('c, 's, 'e) transition_option" where
  "Effect fn t = t\<lparr>effects := effects t @ [fn]\<rparr>"

definition BeforeExit :: "('c, 's, 'e) hook_func \<Rightarrow> ('c, 's, 'e) transition_option" where
  "BeforeExit fn t = t\<lparr>beforeExit := beforeExit t @ [fn]\<rparr>"

definition BeforeEnter :: "('c, 's, 'e) hook_func \<Rightarrow> ('c, 's, 'e) transition_option" where
  "BeforeEnter fn t = t\<lparr>beforeEnter := beforeEnter t @ [fn]\<rparr>"

definition AfterExit :: "('c, 's, 'e) hook_func \<Rightarrow> ('c, 's, 'e) transition_option" where
  "AfterExit fn t = t\<lparr>afterExit := afterExit t @ [fn]\<rparr>"

definition AfterEnter :: "('c, 's, 'e) hook_func \<Rightarrow> ('c, 's, 'e) transition_option" where
  "AfterEnter fn t = t\<lparr>afterEnter := afterEnter t @ [fn]\<rparr>"

definition Describe :: "string \<Rightarrow> ('c, 's, 'e) transition_option" where
  "Describe desc t = t\<lparr>td_description := desc\<rparr>"

definition Terminal :: "('c, 's, 'e) state_option" where
  "Terminal s = s\<lparr>isTerminal := True\<rparr>"

definition Initial :: "('c, 's, 'e) state_option" where
  "Initial s = s\<lparr>isInitial := True\<rparr>"

definition OnEntry :: "('c, 's, 'e) hook_func \<Rightarrow> ('c, 's, 'e) state_option" where
  "OnEntry fn s = s\<lparr>onEntry := onEntry s @ [fn]\<rparr>"

definition OnExit :: "('c, 's, 'e) hook_func \<Rightarrow> ('c, 's, 'e) state_option" where
  "OnExit fn s = s\<lparr>onExit := onExit s @ [fn]\<rparr>"

definition StateDesc :: "string \<Rightarrow> ('c, 's, 'e) state_option" where
  "StateDesc desc s = s\<lparr>sm_description := desc\<rparr>"

section \<open>The builder\<close>

record ('c, 's, 'e) builder =
  b_states :: "('s \<times> ('c, 's, 'e) state_meta) list"
  b_transitions :: "('c, 's, 'e) transition_def list"
  b_observers :: "('c, 's, 'e) observer_func list"
  b_globalGuards :: "('c, 'e) guard_func list"
  b_globalEffects :: "('c, 'e) effect_func list"
  b_historyCapacity :: int

definition Define :: "('c, 's, 'e) builder" where
  "Define = \<lparr>b_states = [], b_transitions = [], b_observers = [], b_globalGuards = [],
             b_globalEffects = [], b_historyCapacity = 100\<rparr>"

definition new_state_meta :: "'s \<Rightarrow> ('c, 's, 'e) state_meta" where
  "new_state_meta name = \<lparr>sm_name = name, isTerminal = False, isInitial = False,
     sm_description = '''', onEntry = [], onExit = []\<rparr>"

definition new_transition_def :: "'s \<Rightarrow> 'e \<Rightarrow> 's \<Rightarrow> ('c, 's, 'e) transition_def" where
  "new_transition_def from event to = \<lparr>td_from = from, td_event = event, td_to = to, guards = [],
     effects = [], beforeExit = [], beforeEnter = [], afterExit = [], afterEnter = [],
     td_description = ''''\<rparr>"

text \<open>Each builder method takes the builder last, so that a chain of calls reads in order.\<close>

definition b_State ::
    "'s \<Rightarrow> ('c, 's, 'e) state_option list \<Rightarrow> ('c, 's, 'e) builder \<Rightarrow> ('c, 's, 'e) builder" where
  "b_State name opts b =
     b\<lparr>b_states := AList.update name (fold (\<lambda>opt m. opt m) opts (new_state_meta name)) (b_states b)\<rparr>"

definition b_Transition ::
    "'s \<Rightarrow> 'e \<Rightarrow> 's \<Rightarrow> ('c, 's, 'e) transition_option list
       \<Rightarrow> ('c, 's, 'e) builder \<Rightarrow> ('c, 's, 'e) builder" where
  "b_Transition from event to opts b =
     b\<lparr>b_transitions := b_transitions b
         @ [fold (\<lambda>opt t. opt t) opts (new_transition_def from event to)]\<rparr>"

definition b_GlobalGuard :: "('c, 'e) guard_func \<Rightarrow> ('c, 's, 'e) builder \<Rightarrow> ('c, 's, 'e) builder" where
  "b_GlobalGuard fn b = b\<lparr>b_globalGuards := b_globalGuards b @ [fn]\<rparr>"

definition b_GlobalEffect :: "('c, 'e) effect_func \<Rightarrow> ('c, 's, 'e) builder \<Rightarrow> ('c, 's, 'e) builder" where
  "b_GlobalEffect fn b = b\<lparr>b_globalEffects := b_globalEffects b @ [fn]\<rparr>"

definition b_Observe :: "('c, 's, 'e) observer_func \<Rightarrow> ('c, 's, 'e) builder \<Rightarrow> ('c, 's, 'e) builder" where
  "b_Observe fn b = b\<lparr>b_observers := b_observers b @ [fn]\<rparr>"

definition b_HistoryCapacity :: "int \<Rightarrow> ('c, 's, 'e) builder \<Rightarrow> ('c, 's, 'e) builder" where
  "b_HistoryCapacity n b = b\<lparr>b_historyCapacity := n\<rparr>"

section \<open>Compilation\<close>

record ('c, 's, 'e) fsm_definition =
  d_states :: "('s \<times> ('c, 's, 'e) state_meta) list"
  d_index :: "(('s \<times> 'e) \<times> ('c, 's, 'e) transition_def) list"
  d_observers :: "('c, 's, 'e) observer_func list"
  d_globalGuards :: "('c, 'e) guard_func list"
  d_globalEffects :: "('c, 'e) effect_func list"
  d_historyCapacity :: int

datatype ('s, 'e) compile_error =
    UndeclaredFrom 's
  | UndeclaredTo 's
  | DuplicateTransition 's 'e
  | TerminalOutgoing 's 'e

abbreviation td_key :: "('c, 's, 'e) transition_def \<Rightarrow> 's \<times> 'e" where
  "td_key t \<equiv> (td_from t, td_event t)"

text \<open>
  The first loop of \<open>Compile\<close>: it checks both ends of every transition, reports a pair
  (state, event) that is already in the index, and stores the transition either way.
\<close>

fun compile_index ::
    "('s \<times> ('c, 's, 'e) state_meta) list \<Rightarrow> ('c, 's, 'e) transition_def list
       \<Rightarrow> (('s \<times> 'e) \<times> ('c, 's, 'e) transition_def) list \<Rightarrow> ('s, 'e) compile_error list
       \<Rightarrow> (('s \<times> 'e) \<times> ('c, 's, 'e) transition_def) list \<times> ('s, 'e) compile_error list" where
  "compile_index states [] index errs = (index, errs)"
| "compile_index states (t # ts) index errs =
     compile_index states ts
       (AList.update (td_key t) t index)
       (errs
        @ (if map_of states (td_from t) = None then [UndeclaredFrom (td_from t)] else [])
        @ (if map_of states (td_to t) = None then [UndeclaredTo (td_to t)] else [])
        @ (if map_of index (td_key t) \<noteq> None
           then [DuplicateTransition (td_from t) (td_event t)] else []))"

text \<open>The second loop: a terminal state has no outgoing transition.\<close>

definition terminal_errors ::
    "('s \<times> ('c, 's, 'e) state_meta) list \<Rightarrow> ('c, 's, 'e) transition_def list
       \<Rightarrow> ('s, 'e) compile_error list" where
  "terminal_errors states ts =
     concat (map (\<lambda>t. case map_of states (td_from t) of
                        Some meta \<Rightarrow> if isTerminal meta
                                     then [TerminalOutgoing (td_from t) (td_event t)] else []
                      | None \<Rightarrow> []) ts)"

definition Compile ::
    "('c, 's, 'e) builder \<Rightarrow> ('s, 'e) compile_error list + ('c, 's, 'e) fsm_definition" where
  "Compile b =
     (let (index, errs) = compile_index (b_states b) (b_transitions b) [] [];
          errs = errs @ terminal_errors (b_states b) (b_transitions b)
      in if errs \<noteq> [] then Inl errs
         else Inr \<lparr>d_states = b_states b, d_index = index, d_observers = b_observers b,
                   d_globalGuards = b_globalGuards b, d_globalEffects = b_globalEffects b,
                   d_historyCapacity = b_historyCapacity b\<rparr>)"

text \<open>\<open>MustCompile\<close> panics on an error: \<open>None\<close>.\<close>

definition MustCompile :: "('c, 's, 'e) builder \<Rightarrow> ('c, 's, 'e) fsm_definition option" where
  "MustCompile b = (case Compile b of Inl _ \<Rightarrow> None | Inr d \<Rightarrow> Some d)"

section \<open>Queries on a compiled definition\<close>

definition CanTransition :: "('c, 's, 'e) fsm_definition \<Rightarrow> 's \<Rightarrow> 'e \<Rightarrow> bool" where
  "CanTransition d from event \<longleftrightarrow> map_of (d_index d) (from, event) \<noteq> None"

definition AllowedEvents :: "('c, 's, 'e) fsm_definition \<Rightarrow> 's \<Rightarrow> 'e list" where
  "AllowedEvents d from = map snd (filter (\<lambda>key. fst key = from) (map fst (d_index d)))"

definition d_IsTerminal :: "('c, 's, 'e) fsm_definition \<Rightarrow> 's \<Rightarrow> bool" where
  "d_IsTerminal d st = (case map_of (d_states d) st of Some meta \<Rightarrow> isTerminal meta | None \<Rightarrow> False)"

section \<open>The machine\<close>

record ('c, 's, 'e) machine =
  m_def :: "('c, 's, 'e) fsm_definition"
  m_obj :: 'c
  m_current :: 's
  m_history :: "('s, 'e) transition_record list"
  m_seq :: "64 word"
  m_inFlight :: bool

text \<open>
  \<open>New\<close> and \<open>Restore\<close> allocate the history with \<open>make([]T, 0, min(cap, 32))\<close> (8 for
  \<open>Restore\<close>), which panics on a negative capacity: \<open>None\<close>.
\<close>

definition fsm_min :: "int \<Rightarrow> int \<Rightarrow> int" where
  "fsm_min a b = (if a < b then a else b)"

definition fresh_machine :: "('c, 's, 'e) fsm_definition \<Rightarrow> 'c \<Rightarrow> 's \<Rightarrow> ('c, 's, 'e) machine" where
  "fresh_machine d obj st =
     \<lparr>m_def = d, m_obj = obj, m_current = st, m_history = [], m_seq = 0, m_inFlight = False\<rparr>"

definition New :: "('c, 's, 'e) fsm_definition \<Rightarrow> 'c \<Rightarrow> 's \<Rightarrow> ('c, 's, 'e) machine option" where
  "New d obj initialState =
     (if fsm_min (d_historyCapacity d) 32 < 0 then None else Some (fresh_machine d obj initialState))"

definition Restore :: "('c, 's, 'e) fsm_definition \<Rightarrow> 'c \<Rightarrow> 's \<Rightarrow> ('c, 's, 'e) machine option" where
  "Restore d obj currentState =
     (if fsm_min (d_historyCapacity d) 8 < 0 then None else Some (fresh_machine d obj currentState))"

definition IsTerminal :: "('c, 's, 'e) machine \<Rightarrow> bool" where
  "IsTerminal m = d_IsTerminal (m_def m) (m_current m)"

definition History :: "('c, 's, 'e) machine \<Rightarrow> ('s, 'e) transition_record list" where
  "History m = m_history m"

definition LastTransition :: "('c, 's, 'e) machine \<Rightarrow> ('s, 'e) transition_record option" where
  "LastTransition m = (if m_history m = [] then None else Some (last (m_history m)))"

text \<open>Running a list of hooks, aborting at the first error, and running them all.\<close>

fun run_hooks :: "('c \<Rightarrow> 'a \<Rightarrow> 'c \<times> go_error option) list \<Rightarrow> 'a \<Rightarrow> 'c \<Rightarrow> 'c \<times> go_error option" where
  "run_hooks [] a obj = (obj, None)"
| "run_hooks (h # hs) a obj = and_then (h obj a) (run_hooks hs a)"

fun run_all_hooks :: "('c \<Rightarrow> 'a \<Rightarrow> 'c \<times> go_error option) list \<Rightarrow> 'a \<Rightarrow> 'c \<Rightarrow> 'c" where
  "run_all_hooks [] a obj = obj"
| "run_all_hooks (h # hs) a obj = run_all_hooks hs a (fst (h obj a))"

fun run_observers :: "('c, 's, 'e) observer_func list \<Rightarrow> ('s, 'e) transition_record \<Rightarrow> 'c \<Rightarrow> 'c" where
  "run_observers [] r obj = obj"
| "run_observers (f # fs) r obj = run_observers fs r (f obj r)"

text \<open>\<open>Can\<close>: the terminal check, the lookup, then both guard lists; returns the entity too.\<close>

definition Can :: "('c, 's, 'e) machine \<Rightarrow> 'e \<Rightarrow> 'e envelope \<Rightarrow> 'c \<times> bool" where
  "Can m event envelope =
     (if IsTerminal m then (m_obj m, False)
      else case map_of (d_index (m_def m)) (m_current m, event) of
             None \<Rightarrow> (m_obj m, False)
           | Some t \<Rightarrow>
               (case run_hooks (d_globalGuards (m_def m) @ guards t) envelope (m_obj m) of
                  (obj, err) \<Rightarrow> (obj, err = None)))"

text \<open>Steps 3 to 9 of \<open>Send\<close>: everything that may still abort the transition.\<close>

definition in_phase ::
    "('s, 'e) transition_record \<Rightarrow> phase \<Rightarrow> (go_error \<Rightarrow> cause) \<Rightarrow> 'c \<times> go_error option
       \<Rightarrow> 'c \<times> ('s, 'e) fsm_error option" where
  "in_phase r ph wrap res =
     (fst res, map_option (\<lambda>e. TransitionError (rec_From r) (rec_To r) (env_Event (rec_Event r)) ph (wrap e))
                 (snd res))"

definition state_hooks ::
    "(('c, 's, 'e) state_meta \<Rightarrow> ('c, 's, 'e) hook_func list) \<Rightarrow> ('c, 's, 'e) fsm_definition \<Rightarrow> 's
       \<Rightarrow> ('c, 's, 'e) hook_func list" where
  "state_hooks sel d st = (case map_of (d_states d) st of Some meta \<Rightarrow> sel meta | None \<Rightarrow> [])"

definition pre_commit ::
    "('c, 's, 'e) fsm_definition \<Rightarrow> ('c, 's, 'e) transition_def \<Rightarrow> ('s, 'e) transition_record
       \<Rightarrow> 'c \<Rightarrow> 'c \<times> ('s, 'e) fsm_error option" where
  "pre_commit d t r obj =
     and_then (in_phase r PhaseGuard GuardRejected (run_hooks (d_globalGuards d) (rec_Event r) obj)) (\<lambda>obj.
     and_then (in_phase r PhaseGuard GuardRejected (run_hooks (guards t) (rec_Event r) obj)) (\<lambda>obj.
     and_then (in_phase r PhaseBeforeExit HookFailed (run_hooks (beforeExit t) r obj)) (\<lambda>obj.
     and_then (in_phase r PhaseBeforeExit HookFailed
                 (run_hooks (state_hooks onExit d (rec_From r)) r obj)) (\<lambda>obj.
     and_then (in_phase r PhaseBeforeEnter HookFailed (run_hooks (beforeEnter t) r obj)) (\<lambda>obj.
     and_then (in_phase r PhaseEffect HookFailed (run_hooks (d_globalEffects d) (rec_Event r) obj)) (\<lambda>obj.
     in_phase r PhaseEffect HookFailed (run_hooks (effects t) (rec_Event r) obj)))))))"

text \<open>Steps 11 to 13: the post-commit hooks, whose errors are dropped.\<close>

definition post_commit ::
    "('c, 's, 'e) fsm_definition \<Rightarrow> ('c, 's, 'e) transition_def \<Rightarrow> ('s, 'e) transition_record \<Rightarrow> 'c \<Rightarrow> 'c" where
  "post_commit d t r obj =
     run_all_hooks (afterEnter t) r
       (run_all_hooks (afterExit t) r
         (run_all_hooks (state_hooks onEntry d (td_to t)) r obj))"

text \<open>
  \<open>appendHistory\<close>: an unlimited history at capacity 0, otherwise the oldest record is shifted
  out once the list is full.  With a negative capacity \<open>m.history[1:]\<close> of an empty history
  is out of range: \<open>None\<close> is that panic.
\<close>

definition appendHistory :: "int \<Rightarrow> 'r list \<Rightarrow> 'r \<Rightarrow> 'r list option" where
  "appendHistory cap hist r =
     (if cap = 0 then Some (hist @ [r])
      else if cap \<le> int (length hist)
           then (if hist = [] then None else Some (tl hist @ [r]))
           else Some (hist @ [r]))"

datatype ('s, 'e) outcome = Returned "('s, 'e) fsm_error option" | Panicked

text \<open>The record built before the first abortable hook runs; its duration is set at the commit.\<close>

definition begin_record ::
    "('c, 's, 'e) machine \<Rightarrow> 'e envelope \<Rightarrow> ('c, 's, 'e) transition_def \<Rightarrow> gotime
       \<Rightarrow> ('s, 'e) transition_record" where
  "begin_record m envelope t t0 =
     \<lparr>SequenceNumber = m_seq m + 1, rec_From = m_current m, rec_To = td_to t,
      rec_Event = envelope, rec_OccurredAt = t0, rec_DurationMs = 0\<rparr>"

text \<open>The body of \<open>Send\<close>, run with the in-flight flag set; \<open>t0\<close> and \<open>t1\<close> are its clock readings.\<close>

definition send_body ::
    "('c, 's, 'e) machine \<Rightarrow> 'e envelope \<Rightarrow> gotime \<Rightarrow> gotime
       \<Rightarrow> ('c, 's, 'e) machine \<times> ('s, 'e) outcome" where
  "send_body m envelope t0 t1 =
     (if IsTerminal m then (m, Returned (Some ErrTerminalState))
      else case map_of (d_index (m_def m)) (m_current m, env_Event envelope) of
        None \<Rightarrow> (m, Returned (Some (ErrInvalidTransition (m_current m) (env_Event envelope))))
      | Some t \<Rightarrow>
          let r = begin_record m envelope t t0
          in case pre_commit (m_def m) t r (m_obj m) of
               (obj, Some err) \<Rightarrow> (m\<lparr>m_obj := obj\<rparr>, Returned (Some err))
             | (obj, None) \<Rightarrow>
                 let r = r\<lparr>rec_DurationMs := go_div (t1 - t0) 1000000\<rparr>;
                     m = m\<lparr>m_current := td_to t, m_seq := m_seq m + 1,
                           m_obj := post_commit (m_def m) t r obj\<rparr>
                 in case appendHistory (d_historyCapacity (m_def m)) (m_history m) r of
                      None \<Rightarrow> (m, Panicked)
                    | Some h \<Rightarrow>
                        (m\<lparr>m_history := h,
                           m_obj := run_observers (d_observers (m_def m)) r (m_obj m)\<rparr>,
                         Returned None))"

definition Send ::
    "('c, 's, 'e) machine \<Rightarrow> 'e envelope \<Rightarrow> gotime \<Rightarrow> gotime
       \<Rightarrow> ('c, 's, 'e) machine \<times> ('s, 'e) outcome" where
  "Send m envelope t0 t1 =
     (if m_inFlight m then (m, Returned (Some ErrConcurrentTransition))
      else case send_body (m\<lparr>m_inFlight := True\<rparr>) envelope t0 t1 of
             (m', out) \<Rightarrow> (m'\<lparr>m_inFlight := False\<rparr>, out))"

section \<open>Batches over shared machines\<close>

text \<open>
  \<open>BatchSend\<close> takes a slice of pointers, which may name the same machine more than once: the
  machines live in a store indexed by reference, and the loop reads and writes the store.
  \<open>clock i\<close> gives the two clock readings of the i-th call.  A panic inside \<open>Send\<close> unwinds
  the whole batch (\<open>None\<close>), leaving the store as it was at that point.
\<close>

record ('s, 'e) batch_result =
  br_Index :: nat
  br_From :: 's
  br_To :: 's
  br_Err :: "('s, 'e) fsm_error option"

fun batch_loop ::
    "'e envelope \<Rightarrow> (nat \<Rightarrow> gotime \<times> gotime) \<Rightarrow> nat \<Rightarrow> nat list \<Rightarrow> (nat \<Rightarrow> ('c, 's, 'e) machine)
       \<Rightarrow> bool \<Rightarrow> ('s, 'e) batch_result list
       \<Rightarrow> (nat \<Rightarrow> ('c, 's, 'e) machine) \<times> (bool \<times> ('s, 'e) batch_result list) option" where
  "batch_loop envelope clock i [] \<sigma> allSucceeded results = (\<sigma>, Some (allSucceeded, results))"
| "batch_loop envelope clock i (p # ps) \<sigma> allSucceeded results =
     (case Send (\<sigma> p) envelope (fst (clock i)) (snd (clock i)) of
        (m', Panicked) \<Rightarrow> (\<sigma>(p := m'), None)
      | (m', Returned err) \<Rightarrow>
          batch_loop envelope clock (Suc i) ps (\<sigma>(p := m'))
            (allSucceeded \<and> err = None)
            (results @ [\<lparr>br_Index = i, br_From = m_current (\<sigma> p), br_To = m_current m', br_Err = err\<rparr>]))"

definition BatchSend ::
    "(nat \<Rightarrow> ('c, 's, 'e) machine) \<Rightarrow> nat list \<Rightarrow> 'e envelope \<Rightarrow> (nat \<Rightarrow> gotime \<times> gotime)
       \<Rightarrow> (nat \<Rightarrow> ('c, 's, 'e) machine) \<times> (bool \<times> ('s, 'e) batch_result list) option" where
  "BatchSend \<sigma> machines envelope clock = batch_loop envelope clock 0 machines \<sigma> True []"

end
