(* ===== verification/FSM_Laws.thy ===== *)
theory FSM_Laws
  imports FSM_Engine
begin

text \<open>
  The laws of the engine of \<open>FSM_Engine\<close>: what \<open>Compile\<close> accepts, what \<open>Send\<close> changes on each
  branch, the history ring as a window on the full log of transitions, terminal states as
  sinks, and the agreement of \<open>Can\<close> with the guard phase of \<open>Send\<close>.
\<close>

section \<open>The compiler\<close>

lemma compile_index_errs:
  "snd (compile_index states ts index errs) = [] \<longleftrightarrow>
     errs = []
     \<and> (\<forall>t \<in> set ts. map_of states (td_from t) \<noteq> None \<and> map_of states (td_to t) \<noteq> None)
     \<and> (\<forall>t \<in> set ts. map_of index (td_key t) = None) \<and> distinct (map td_key ts)"
proof (induction ts arbitrary: index errs)
  case Nil
  show ?case by simp
next
  case (Cons t ts)
  have split: "(\<forall>u \<in> set ts. map_of (AList.update (td_key t) t index) (td_key u) = None) \<longleftrightarrow>
        (\<forall>u \<in> set ts. map_of index (td_key u) = None) \<and> td_key t \<notin> td_key ` set ts"
    by (simp only: map_of_update_None ball_conj_distrib image_iff) fastforce
  show ?case
    unfolding compile_index.simps Cons.IH split list.set list.map distinct.simps
    by (cases "map_of states (td_from t)"; cases "map_of states (td_to t)";
        cases "map_of index (td_key t)") (simp_all add: conj_ac del: not_None_eq)
qed

lemma compile_index_lookup:
  "distinct (map td_key ts) \<Longrightarrow>
   map_of (fst (compile_index states ts index errs)) k =
     (case map_of (map (\<lambda>t. (td_key t, t)) ts) k of None \<Rightarrow> map_of index k | Some t \<Rightarrow> Some t)"
proof (induction ts arbitrary: index errs)
  case Nil
  show ?case by simp
next
  case (Cons t ts)
  have "map_of (map (\<lambda>t. (td_key t, t)) ts) (td_key t) = None"
    using Cons.prems by (force simp: map_of_eq_None_iff)
  with Cons show ?case by (auto split: option.splits)
qed

lemma compile_index_keys:
  "distinct (map fst index) \<Longrightarrow> distinct (map fst (fst (compile_index states ts index errs)))"
  by (induction ts arbitrary: index errs) (simp_all add: distinct_update)

lemma terminal_errors_Nil:
  "terminal_errors states ts = [] \<longleftrightarrow>
     (\<forall>t \<in> set ts. \<forall>meta. map_of states (td_from t) = Some meta \<longrightarrow> \<not> isTerminal meta)"
  by (auto simp: terminal_errors_def split: option.splits)

text \<open>What a definition must satisfy, stated without the compiler's loops.\<close>

definition well_declared :: "('c, 's, 'e) builder \<Rightarrow> bool" where
  "well_declared b \<longleftrightarrow>
     (\<forall>t \<in> set (b_transitions b).
        td_from t \<in> fst ` set (b_states b) \<and> td_to t \<in> fst ` set (b_states b))
     \<and> distinct (map td_key (b_transitions b))
     \<and> (\<forall>t \<in> set (b_transitions b). \<forall>meta.
          map_of (b_states b) (td_from t) = Some meta \<longrightarrow> \<not> isTerminal meta)"

lemma Compile_iff_well_declared: "(\<exists>d. Compile b = Inr d) \<longleftrightarrow> well_declared b"
proof -
  let ?c = "compile_index (b_states b) (b_transitions b) [] []"
  have "(\<exists>d. Compile b = Inr d) \<longleftrightarrow>
        snd ?c = [] \<and> terminal_errors (b_states b) (b_transitions b) = []"
    by (cases ?c) (simp add: Compile_def Let_def)
  also have "\<dots> \<longleftrightarrow> well_declared b"
    by (auto simp: compile_index_errs terminal_errors_Nil well_declared_def map_of_eq_None_iff)
  finally show ?thesis .
qed

lemma Compile_Inr:
  assumes "Compile b = Inr d"
  shows "d_states d = b_states b" "d_observers d = b_observers b"
    "d_globalGuards d = b_globalGuards b" "d_globalEffects d = b_globalEffects b"
    "d_historyCapacity d = b_historyCapacity b"
    "d_index d = fst (compile_index (b_states b) (b_transitions b) [] [])"
  using assms
  by (cases "compile_index (b_states b) (b_transitions b) [] []";
      auto simp: Compile_def Let_def split: if_splits)+

lemma Compile_lookup:
  assumes "Compile b = Inr d"
  shows "map_of (d_index d) k = Some t \<longleftrightarrow> t \<in> set (b_transitions b) \<and> td_key t = k"
proof -
  from assms have dist: "distinct (map td_key (b_transitions b))"
    using Compile_iff_well_declared [of b] by (auto simp: well_declared_def)
  have "distinct (map fst (map (\<lambda>t. (td_key t, t)) (b_transitions b)))"
    using dist by (simp add: o_def)
  then have "map_of (map (\<lambda>t. (td_key t, t)) (b_transitions b)) k = Some t \<longleftrightarrow>
      (k, t) \<in> set (map (\<lambda>t. (td_key t, t)) (b_transitions b))"
    by (rule map_of_distinct_iff)
  then show ?thesis
    by (auto simp: Compile_Inr [OF assms] compile_index_lookup [OF dist] split: option.splits)
qed

text \<open>
  The facts about a compiled definition that the running machine relies on: the index is
  keyed by each transition's own (state, event) pair, every target is declared, and no
  transition leaves a terminal state.
\<close>

definition wf_definition :: "('c, 's, 'e) fsm_definition \<Rightarrow> bool" where
  "wf_definition d \<longleftrightarrow>
     (\<forall>k t. map_of (d_index d) k = Some t \<longrightarrow>
        td_key t = k \<and> map_of (d_states d) (td_from t) \<noteq> None
        \<and> map_of (d_states d) (td_to t) \<noteq> None \<and> \<not> d_IsTerminal d (td_from t))
     \<and> distinct (map fst (d_index d))"

lemma Compile_wf:
  assumes "Compile b = Inr d"
  shows "wf_definition d"
proof -
  from assms have wd: "well_declared b" using Compile_iff_well_declared by blast
  have "td_key t = k \<and> map_of (d_states d) (td_from t) \<noteq> None
        \<and> map_of (d_states d) (td_to t) \<noteq> None \<and> \<not> d_IsTerminal d (td_from t)"
    if "map_of (d_index d) k = Some t" for k t
    using that wd unfolding Compile_lookup [OF assms]
    by (auto simp: well_declared_def d_IsTerminal_def Compile_Inr(1) [OF assms]
        map_of_eq_None_iff split: option.splits)
  moreover have "distinct (map fst (d_index d))"
    by (simp add: Compile_Inr(6) [OF assms] compile_index_keys)
  ultimately show ?thesis by (auto simp: wf_definition_def)
qed

lemma AllowedEvents_iff:
  "e \<in> set (AllowedEvents d from) \<longleftrightarrow> CanTransition d from e"
  by (force simp: AllowedEvents_def CanTransition_def map_of_eq_None_iff image_iff)

section \<open>One call of Send\<close>

lemma Send_inFlight:
  "m_inFlight m \<Longrightarrow> Send m env t0 t1 = (m, Returned (Some ErrConcurrentTransition))"
  by (simp add: Send_def)

lemma IsTerminal_inFlight [simp]: "IsTerminal (m\<lparr>m_inFlight := b\<rparr>) = IsTerminal m"
  by (simp add: IsTerminal_def)

lemma begin_record_inFlight [simp]:
  "begin_record (m\<lparr>m_inFlight := b\<rparr>) env t t0 = begin_record m env t t0"
  by (simp add: begin_record_def)

lemma begin_record_sel [simp]:
  "SequenceNumber (begin_record m env t t0) = m_seq m + 1"
  "rec_From (begin_record m env t t0) = m_current m"
  "rec_To (begin_record m env t t0) = td_to t"
  "rec_Event (begin_record m env t t0) = env"
  "rec_OccurredAt (begin_record m env t t0) = t0"
  by (simp_all add: begin_record_def)

lemma Send_terminal:
  "\<not> m_inFlight m \<Longrightarrow> IsTerminal m \<Longrightarrow> Send m env t0 t1 = (m, Returned (Some ErrTerminalState))"
  by (simp add: Send_def send_body_def)

lemma Send_unregistered:
  "\<not> m_inFlight m \<Longrightarrow> \<not> IsTerminal m \<Longrightarrow>
   map_of (d_index (m_def m)) (m_current m, env_Event env) = None \<Longrightarrow>
   Send m env t0 t1 = (m, Returned (Some (ErrInvalidTransition (m_current m) (env_Event env))))"
  by (simp add: Send_def send_body_def)

text \<open>The record a successful call commits, and the entity it leaves behind.\<close>

definition committed_record ::
    "('c, 's, 'e) machine \<Rightarrow> 'e envelope \<Rightarrow> ('c, 's, 'e) transition_def \<Rightarrow> gotime \<Rightarrow> gotime
       \<Rightarrow> ('s, 'e) transition_record" where
  "committed_record m env t t0 t1 =
     (begin_record m env t t0)\<lparr>rec_DurationMs := go_div (t1 - t0) 1000000\<rparr>"

lemma committed_record_sel [simp]:
  "SequenceNumber (committed_record m env t t0 t1) = m_seq m + 1"
  "rec_From (committed_record m env t t0 t1) = m_current m"
  "rec_To (committed_record m env t t0 t1) = td_to t"
  "rec_Event (committed_record m env t t0 t1) = env"
  by (simp_all add: committed_record_def)

lemma Send_registered:
  assumes "\<not> m_inFlight m" and "\<not> IsTerminal m"
    and "map_of (d_index (m_def m)) (m_current m, env_Event env) = Some t"
  shows "Send m env t0 t1 =
    (case pre_commit (m_def m) t (begin_record m env t t0) (m_obj m) of
       (obj, Some err) \<Rightarrow> (m\<lparr>m_obj := obj\<rparr>, Returned (Some err))
     | (obj, None) \<Rightarrow>
         let r = committed_record m env t t0 t1;
             m = m\<lparr>m_current := td_to t, m_seq := m_seq m + 1, m_obj := post_commit (m_def m) t r obj\<rparr>
         in case appendHistory (d_historyCapacity (m_def m)) (m_history m) r of
              None \<Rightarrow> (m, Panicked)
            | Some h \<Rightarrow> (m\<lparr>m_history := h,
                            m_obj := run_observers (d_observers (m_def m)) r (m_obj m)\<rparr>, Returned None))"
proof -
  obtain obj err where pre: "pre_commit (m_def m) t (begin_record m env t t0) (m_obj m) = (obj, err)"
    by (cases "pre_commit (m_def m) t (begin_record m env t t0) (m_obj m)")
  show ?thesis
    using assms pre
    by (cases err; cases "appendHistory (d_historyCapacity (m_def m)) (m_history m)
          (committed_record m env t t0 t1)")
      (simp_all add: Send_def send_body_def Let_def committed_record_def)
qed

lemma appendHistory_None: "appendHistory cap h r = None \<longleftrightarrow> cap < 0 \<and> h = []"
  by (auto simp: appendHistory_def)

lemma appendHistory_Some:
  "appendHistory cap h r = Some h' \<longleftrightarrow>
     (cap \<noteq> 0 \<and> cap \<le> int (length h) \<and> h \<noteq> [] \<and> h' = tl h @ [r])
     \<or> ((cap = 0 \<or> int (length h) < cap) \<and> h' = h @ [r])"
  by (auto simp: appendHistory_def)

text \<open>Everything a call can do, as one elimination rule.\<close>

lemma Send_cases [consumes 1, case_names busy terminal unregistered aborted panicked committed]:
  assumes "Send m env t0 t1 = (m', out)"
  obtains
    "m_inFlight m" "m' = m" "out = Returned (Some ErrConcurrentTransition)"
  | "\<not> m_inFlight m" "IsTerminal m" "m' = m" "out = Returned (Some ErrTerminalState)"
  | "\<not> m_inFlight m" "\<not> IsTerminal m"
    "map_of (d_index (m_def m)) (m_current m, env_Event env) = None" "m' = m"
    "out = Returned (Some (ErrInvalidTransition (m_current m) (env_Event env)))"
  | t obj err where "\<not> m_inFlight m" "\<not> IsTerminal m"
    "map_of (d_index (m_def m)) (m_current m, env_Event env) = Some t"
    "pre_commit (m_def m) t (begin_record m env t t0) (m_obj m) = (obj, Some err)"
    "m' = m\<lparr>m_obj := obj\<rparr>" "out = Returned (Some err)"
  | t where "\<not> m_inFlight m" "\<not> IsTerminal m"
    "map_of (d_index (m_def m)) (m_current m, env_Event env) = Some t"
    "d_historyCapacity (m_def m) < 0" "m_history m = []" "out = Panicked"
    "m_def m' = m_def m" "m_inFlight m' = False"
  | t obj h where "\<not> m_inFlight m" "\<not> IsTerminal m"
    "map_of (d_index (m_def m)) (m_current m, env_Event env) = Some t"
    "pre_commit (m_def m) t (begin_record m env t t0) (m_obj m) = (obj, None)"
    "appendHistory (d_historyCapacity (m_def m)) (m_history m) (committed_record m env t t0 t1) = Some h"
    "m' = m\<lparr>m_current := td_to t, m_seq := m_seq m + 1, m_history := h,
             m_obj := run_observers (d_observers (m_def m)) (committed_record m env t t0 t1)
                        (post_commit (m_def m) t (committed_record m env t t0 t1) obj)\<rparr>"
    "out = Returned None"
proof (cases "m_inFlight m")
  case True
  show thesis
    by (rule that(1)) (use assms True in \<open>simp_all add: Send_inFlight\<close>)
next
  case False
  note idle = this
  show thesis
  proof (cases "IsTerminal m")
    case True
    show thesis
      by (rule that(2)) (use assms idle True in \<open>simp_all add: Send_terminal\<close>)
  next
    case False
    note live = this
    show thesis
    proof (cases "map_of (d_index (m_def m)) (m_current m, env_Event env)")
      case None
      show thesis
        by (rule that(3)) (use assms idle live None in \<open>auto simp: Send_unregistered\<close>)
    next
      case (Some t)
      note reg = this
      obtain obj err where pre: "pre_commit (m_def m) t (begin_record m env t t0) (m_obj m) = (obj, err)"
        by (cases "pre_commit (m_def m) t (begin_record m env t t0) (m_obj m)")
      note eq = Send_registered [OF idle live reg, of t0 t1]
      show thesis
      proof (cases err)
        case (Some e)
        show thesis
          by (rule that(4) [OF idle live reg]) (use assms pre eq Some in auto)
      next
        case None
        show thesis
        proof (cases "appendHistory (d_historyCapacity (m_def m)) (m_history m)
            (committed_record m env t t0 t1)")
          case (Some h)
          show thesis
            by (rule that(6) [OF idle live reg])
              (use assms pre eq None Some in \<open>auto simp: Let_def\<close>)
        next
          case none: None
          show thesis
            by (rule that(5) [OF idle live reg])
              (use assms pre eq None none idle in \<open>auto simp: Let_def appendHistory_None\<close>)
        qed
      qed
    qed
  qed
qed

lemma Send_def_unchanged [fsm_frame]:
  "Send m env t0 t1 = (m', out) \<Longrightarrow> m_def m' = m_def m"
  by (cases rule: Send_cases) auto

lemma Send_inFlight_unchanged [fsm_frame]:
  "Send m env t0 t1 = (m', out) \<Longrightarrow> m_inFlight m' = m_inFlight m"
  by (cases rule: Send_cases) auto

lemma Send_no_panic:
  assumes "0 \<le> d_historyCapacity (m_def m)"
  shows "snd (Send m env t0 t1) \<noteq> Panicked"
proof
  assume "snd (Send m env t0 t1) = Panicked"
  then have "Send m env t0 t1 = (fst (Send m env t0 t1), Panicked)"
    by (simp add: prod_eq_iff)
  then show False using assms by (cases rule: Send_cases) auto
qed

lemma Send_outcome:
  assumes "0 \<le> d_historyCapacity (m_def m)"
  obtains m' res where "Send m env t0 t1 = (m', Returned res)"
  using Send_no_panic [OF assms, of env t0 t1]
  by (cases "Send m env t0 t1"; cases "snd (Send m env t0 t1)") auto

section \<open>Runs, their log and the history ring\<close>

type_synonym 'e input = "'e envelope \<times> gotime \<times> gotime"

fun run_sends :: "('c, 's, 'e) machine \<Rightarrow> 'e input list \<Rightarrow> ('c, 's, 'e) machine" where
  "run_sends m [] = m"
| "run_sends m ((env, t0, t1) # ins) = run_sends (fst (Send m env t0 t1)) ins"

text \<open>The records of the calls that committed, oldest first: the log the ring is a window of.\<close>

fun run_log :: "('c, 's, 'e) machine \<Rightarrow> 'e input list \<Rightarrow> ('s, 'e) transition_record list" where
  "run_log m [] = []"
| "run_log m ((env, t0, t1) # ins) =
     (case Send m env t0 t1 of
        (m', Returned None) \<Rightarrow> last (m_history m') # run_log m' ins
      | (m', _) \<Rightarrow> run_log m' ins)"

definition window :: "int \<Rightarrow> 'r list \<Rightarrow> 'r list" where
  "window cap l = (if cap = 0 then l else drop (length l - nat cap) l)"

lemma window_Nil [simp]: "window cap [] = []"
  by (simp add: window_def)

lemma length_window: "0 < cap \<Longrightarrow> int (length (window cap l)) \<le> cap"
  by (simp add: window_def)

lemma appendHistory_window:
  assumes "0 \<le> cap"
  shows "appendHistory cap (window cap l) r = Some (window cap (l @ [r]))"
proof (cases "cap = 0")
  case True
  then show ?thesis by (simp add: appendHistory_def window_def)
next
  case False
  with assms have "0 < cap" by simp
  then obtain n where cap: "cap = int n" "0 < n" by (auto dest: pos_int_cases)
  have "tl (drop (length l - n) l) = drop (Suc (length l) - n) l" if "n \<le> length l"
    using that by (simp add: Suc_diff_le drop_Suc tl_drop)
  with cap show ?thesis by (auto simp: appendHistory_def window_def)
qed

lemma Send_committed:
  assumes "Send m env t0 t1 = (m', Returned None)"
  obtains t where "\<not> m_inFlight m" "\<not> IsTerminal m"
    "map_of (d_index (m_def m)) (m_current m, env_Event env) = Some t"
    "m_current m' = td_to t" "m_seq m' = m_seq m + 1" "m_def m' = m_def m" "m_inFlight m' = False"
    "appendHistory (d_historyCapacity (m_def m)) (m_history m) (committed_record m env t t0 t1)
       = Some (m_history m')"
    "last (m_history m') = committed_record m env t t0 t1"
  using assms
  by (cases rule: Send_cases) (auto simp: appendHistory_Some)

lemma Send_not_committed:
  assumes "Send m env t0 t1 = (m', Returned (Some err))"
  shows "m' = m\<lparr>m_obj := m_obj m'\<rparr>"
  using assms by (cases rule: Send_cases) auto

lemma run_window:
  assumes "0 \<le> d_historyCapacity (m_def m)"
    and "m_history m = window (d_historyCapacity (m_def m)) l"
  shows "m_history (run_sends m ins) = window (d_historyCapacity (m_def m)) (l @ run_log m ins)
    \<and> m_seq (run_sends m ins) = m_seq m + of_nat (length (run_log m ins))
    \<and> m_def (run_sends m ins) = m_def m"
  using assms
proof (induction ins arbitrary: m l)
  case Nil
  then show ?case by simp
next
  case (Cons i ins)
  obtain env t0 t1 where i: "i = (env, t0, t1)" by (cases i)
  from Cons.prems(1) obtain m' res where s: "Send m env t0 t1 = (m', Returned res)"
    by (rule Send_outcome)
  have d: "m_def m' = m_def m" using s by (rule Send_def_unchanged)
  show ?case
  proof (cases res)
    case None
    with s have c: "Send m env t0 t1 = (m', Returned None)" by simp
    then obtain t where seq: "m_seq m' = m_seq m + 1"
      and app: "appendHistory (d_historyCapacity (m_def m)) (m_history m)
                  (committed_record m env t t0 t1) = Some (m_history m')"
      and la: "last (m_history m') = committed_record m env t t0 t1"
      by (rule Send_committed)
    have "m_history m' = window (d_historyCapacity (m_def m')) (l @ [last (m_history m')])"
      using app appendHistory_window [OF Cons.prems(1), of l] by (simp add: Cons.prems(2) la d)
    from Cons.IH [OF _ this] Cons.prems(1) show ?thesis
      by (simp add: i c d seq)
  next
    case (Some err)
    with s have m': "m' = m\<lparr>m_obj := m_obj m'\<rparr>" by (simp add: Send_not_committed)
    then have eq: "m_history m' = m_history m" "m_seq m' = m_seq m" by (metis machine.select_convs machine.surjective machine.update_convs(2))+
    from Cons.IH [of m' l] Cons.prems show ?thesis
      by (simp add: i s Some d eq)
  qed
qed

end
