(* ===== verification/FSM_Correct.thy ===== *)
theory FSM_Correct
  imports FSM_Laws
begin

text \<open>
  Correctness of the running machine: the machine invariant and its preservation, the
  refinement of an abstract labelled transition system, guards and \<open>Can\<close>, batches.
\<close>

section \<open>The machine invariant\<close>

text \<open>Registered edges of a definition: the abstract transition system it stands for.\<close>

definition edge :: "('c, 's, 'e) fsm_definition \<Rightarrow> 's \<Rightarrow> 'e \<Rightarrow> 's \<Rightarrow> bool" where
  "edge d a e b \<longleftrightarrow> (case map_of (d_index d) (a, e) of Some t \<Rightarrow> td_to t = b | None \<Rightarrow> False)"

definition linked :: "('s, 'e) transition_record \<Rightarrow> ('s, 'e) transition_record \<Rightarrow> bool" where
  "linked r1 r2 \<longleftrightarrow> rec_From r2 = rec_To r1 \<and> SequenceNumber r2 = SequenceNumber r1 + 1"

definition wf_machine :: "('c, 's, 'e) machine \<Rightarrow> bool" where
  "wf_machine m \<longleftrightarrow>
     wf_definition (m_def m) \<and> 0 \<le> d_historyCapacity (m_def m)
     \<and> (d_historyCapacity (m_def m) \<noteq> 0 \<longrightarrow> int (length (m_history m)) \<le> d_historyCapacity (m_def m))
     \<and> successively linked (m_history m)
     \<and> (m_history m \<noteq> [] \<longrightarrow>
          rec_To (last (m_history m)) = m_current m \<and> SequenceNumber (last (m_history m)) = m_seq m)
     \<and> (\<forall>r \<in> set (m_history m). edge (m_def m) (rec_From r) (env_Event (rec_Event r)) (rec_To r))"

lemma edge_deterministic: "edge d a e b \<Longrightarrow> edge d a e c \<Longrightarrow> b = c"
  by (auto simp: edge_def split: option.splits)

lemma edge_CanTransition: "CanTransition d a e \<longleftrightarrow> (\<exists>b. edge d a e b)"
  by (auto simp: edge_def CanTransition_def split: option.splits)

lemma edge_not_terminal: "wf_definition d \<Longrightarrow> edge d a e b \<Longrightarrow> \<not> d_IsTerminal d a"
  unfolding wf_definition_def edge_def by (auto split: option.splits)

lemma successively_tl: "successively P xs \<Longrightarrow> successively P (tl xs)"
  by (cases xs) (auto simp: successively_Cons)

lemma fresh_machine_wf:
  "wf_definition d \<Longrightarrow> 0 \<le> d_historyCapacity d \<Longrightarrow> wf_machine (fresh_machine d obj st)"
  by (simp add: wf_machine_def fresh_machine_def)

lemma New_Some: "New d obj st = Some m \<longleftrightarrow> 0 \<le> d_historyCapacity d \<and> m = fresh_machine d obj st"
  by (auto simp: New_def fsm_min_def)

lemma Restore_Some:
  "Restore d obj st = Some m \<longleftrightarrow> 0 \<le> d_historyCapacity d \<and> m = fresh_machine d obj st"
  by (auto simp: Restore_def fsm_min_def)

lemma history_step:
  assumes "wf_machine m" and "edge (m_def m) (m_current m) (env_Event env) (td_to t)"
    and "appendHistory (d_historyCapacity (m_def m)) (m_history m) (committed_record m env t t0 t1) = Some h"
  shows "(d_historyCapacity (m_def m) \<noteq> 0 \<longrightarrow> int (length h) \<le> d_historyCapacity (m_def m))
    \<and> successively linked h
    \<and> (\<forall>r \<in> set h. edge (m_def m) (rec_From r) (env_Event (rec_Event r)) (rec_To r))"
proof -
  let ?r = "committed_record m env t t0 t1"
  have link: "linked (last (m_history m)) ?r" if "m_history m \<noteq> []"
    using assms(1) that by (auto simp: wf_machine_def linked_def)
  have app: "successively linked (xs @ [?r])"
    if "successively linked xs" and "xs \<noteq> [] \<longrightarrow> last xs = last (m_history m) \<and> m_history m \<noteq> []" for xs
    using that link by (auto simp: successively_append_iff)
  have tl: "tl (m_history m) \<noteq> [] \<longrightarrow> last (tl (m_history m)) = last (m_history m) \<and> m_history m \<noteq> []"
    by (auto simp: last_tl)
  from assms(3) consider
      "d_historyCapacity (m_def m) \<noteq> 0" "m_history m \<noteq> []" "h = tl (m_history m) @ [?r]"
    | "d_historyCapacity (m_def m) = 0 \<or> int (length (m_history m)) < d_historyCapacity (m_def m)"
      "h = m_history m @ [?r]"
    by (auto simp: appendHistory_Some)
  then show ?thesis
  proof cases
    case 1
    have "int (length h) \<le> d_historyCapacity (m_def m)"
      using 1 assms(1) by (auto simp: wf_machine_def)
    moreover have "successively linked h"
      unfolding 1(3) using assms(1) tl by (intro app) (auto simp: wf_machine_def successively_tl)
    ultimately show ?thesis
      using 1 assms(1,2) by (auto simp: wf_machine_def dest: list.set_sel(2))
  next
    case 2
    have "successively linked h"
      unfolding 2(2) using assms(1) by (intro app) (auto simp: wf_machine_def)
    with 2 assms(1,2) show ?thesis by (auto simp: wf_machine_def)
  qed
qed

text \<open>Every call of Send keeps the machine invariant.\<close>

theorem Send_preserves_wf:
  assumes "wf_machine m"
  shows "wf_machine (fst (Send m env t0 t1))"
proof -
  obtain m' out where s: "Send m env t0 t1 = (m', out)" by (cases "Send m env t0 t1")
  then have "wf_machine m'"
  proof (cases rule: Send_cases)
    case (aborted t obj err)
    with assms show ?thesis by (simp add: wf_machine_def)
  next
    case (panicked t)
    with assms show ?thesis by (simp add: wf_machine_def)
  next
    case (committed t obj h)
    have "edge (m_def m) (m_current m) (env_Event env) (td_to t)"
      using committed(3) by (simp add: edge_def)
    from history_step [OF assms this committed(5)] assms committed(5,6) show ?thesis
      by (auto simp: wf_machine_def appendHistory_Some)
  qed (use assms in simp_all)
  with s show ?thesis by simp
qed

lemma run_sends_wf: "wf_machine m \<Longrightarrow> wf_machine (run_sends m ins)"
  by (induction m ins rule: run_sends.induct) (simp_all add: Send_preserves_wf)

text \<open>C39: Runs from New keep the invariant.\<close>

theorem run_from_New_wf:
  assumes "Compile b = Inr d" and "New d obj st = Some m"
  shows "wf_machine (run_sends m ins) \<and> snd (Send (run_sends m ins) env t0 t1) \<noteq> Panicked"
proof -
  have "wf_machine m"
    using assms by (auto simp: New_Some intro: fresh_machine_wf Compile_wf)
  then have "wf_machine (run_sends m ins)" by (rule run_sends_wf)
  then show ?thesis using Send_no_panic by (auto simp: wf_machine_def)
qed

text \<open>The history ring is the window of the last records of the full log.\<close>

theorem run_history_window:
  assumes "New d obj st = Some m"
  shows "m_history (run_sends m ins) = window (d_historyCapacity d) (run_log m ins)
    \<and> m_seq (run_sends m ins) = of_nat (length (run_log m ins))"
proof -
  from assms have m: "m = fresh_machine d obj st" "0 \<le> d_historyCapacity d" by (auto simp: New_Some)
  then show ?thesis using run_window [of m "[]" ins] by (simp add: fresh_machine_def)
qed

section \<open>Refinement of the transition graph\<close>

fun path :: "('c, 's, 'e) fsm_definition \<Rightarrow> 's \<Rightarrow> ('s \<times> 'e \<times> 's) list \<Rightarrow> 's \<Rightarrow> bool" where
  "path d a [] b \<longleftrightarrow> a = b"
| "path d a ((a', e, b') # steps) b \<longleftrightarrow>
     a = a' \<and> \<not> d_IsTerminal d a \<and> edge d a e b' \<and> path d b' steps b"

definition step_of :: "('s, 'e) transition_record \<Rightarrow> 's \<times> 'e \<times> 's" where
  "step_of r = (rec_From r, env_Event (rec_Event r), rec_To r)"

lemma step_of_committed [simp]:
  "step_of (committed_record m env t t0 t1) = (m_current m, env_Event env, td_to t)"
  by (simp add: step_of_def)

text \<open>A definition whose edges climb a rank has short runs.\<close>

definition ranked :: "('c, 's, 'e) fsm_definition \<Rightarrow> ('s \<Rightarrow> nat) \<Rightarrow> bool" where
  "ranked d rank \<longleftrightarrow> (\<forall>a e b. edge d a e b \<longrightarrow> rank a < rank b)"

lemma path_rank:
  assumes "ranked d rank" and "path d a steps b"
  shows "rank a + length steps \<le> rank b"
  using assms(2)
proof (induction steps arbitrary: a)
  case Nil
  then show ?case by simp
next
  case (Cons s steps)
  obtain a' e b' where s: "s = (a', e, b')" by (cases s)
  with Cons.prems have "edge d a e b'" "path d b' steps b" by auto
  then show ?case using assms(1) Cons.IH [of b'] by (force simp: ranked_def)
qed

text \<open>Reading a path from its end.\<close>

lemma path_append: "path d a (xs @ ys) b \<longleftrightarrow> (\<exists>c. path d a xs c \<and> path d c ys b)"
proof (induction xs arbitrary: a)
  case Nil
  show ?case by simp
next
  case (Cons x xs)
  obtain a' e b' where "x = (a', e, b')" by (cases x)
  then show ?case using Cons.IH by auto
qed

lemma path_into:
  assumes "path d a steps b" and "a \<noteq> b"
  obtains ss x e where "steps = ss @ [(x, e, b)]" "path d a ss x" "edge d x e b"
proof (cases steps rule: rev_cases)
  case Nil
  with assms show ?thesis by simp
next
  case (snoc ss s)
  obtain x e y where "s = (x, e, y)" by (cases s)
  with snoc assms(1) have "y = b" "path d a ss x" "edge d x e b" by (auto simp: path_append)
  with snoc \<open>s = (x, e, y)\<close> show ?thesis by (intro that [of ss x e]) simp_all
qed

lemma path_only_into:
  assumes "path d a steps b" and "a \<noteq> b" and "\<And>x e. edge d x e b \<Longrightarrow> x = x0 \<and> e = e0"
  obtains ss where "steps = ss @ [(x0, e0, b)]" "path d a ss x0"
  using path_into [OF assms(1,2)] assms(3) by metis

lemma path_rank_Nil:
  assumes "ranked d rank" and "path d a steps a"
  shows "steps = []"
  using path_rank [of d rank a steps a] assms by simp

lemma not_committed_current:
  "Send m env t0 t1 = (m', Returned (Some err)) \<Longrightarrow> m_current m' = m_current m"
  by (cases rule: Send_cases) auto

lemma run_path:
  assumes "0 \<le> d_historyCapacity (m_def m)"
  shows "path (m_def m) (m_current m) (map step_of (run_log m ins)) (m_current (run_sends m ins))"
  using assms
proof (induction ins arbitrary: m)
  case Nil
  then show ?case by simp
next
  case (Cons i ins)
  obtain env t0 t1 where i: "i = (env, t0, t1)" by (cases i)
  from Cons.prems obtain m' res where s: "Send m env t0 t1 = (m', Returned res)"
    by (rule Send_outcome)
  have d: "m_def m' = m_def m" using s by (rule Send_def_unchanged)
  have IH: "path (m_def m) (m_current m') (map step_of (run_log m' ins)) (m_current (run_sends m' ins))"
    using Cons.IH [of m'] Cons.prems by (simp add: d)
  show ?case
  proof (cases res)
    case None
    with s have c: "Send m env t0 t1 = (m', Returned None)" by simp
    then obtain t where "\<not> IsTerminal m"
      "map_of (d_index (m_def m)) (m_current m, env_Event env) = Some t" "m_current m' = td_to t"
      "last (m_history m') = committed_record m env t t0 t1"
      by (rule Send_committed)
    with IH show ?thesis by (simp add: i c edge_def IsTerminal_def)
  next
    case (Some err)
    with s have "m_current m' = m_current m" by (simp add: not_committed_current)
    with IH show ?thesis by (simp add: i s Some)
  qed
qed

lemma run_path_New:
  assumes "New d obj st = Some m"
  shows "path d st (map step_of (run_log m ins)) (m_current (run_sends m ins))"
  using run_path [of m ins] assms by (auto simp: New_Some fresh_machine_def)

lemma run_rank:
  assumes "ranked d rank" and "New d obj st = Some m"
  shows "rank st + length (run_log m ins) \<le> rank (m_current (run_sends m ins))"
  using path_rank [OF assms(1) run_path_New [OF assms(2)]] by simp

text \<open>C34: Every run is a path of the transition graph.\<close>

theorem run_refines_graph:
  assumes "New d obj st = Some m"
  shows "path d st (map step_of (run_log m ins)) (m_current (run_sends m ins))"
  using run_path [of m ins] assms by (auto simp: New_Some fresh_machine_def)

text \<open>Terminal states absorb.\<close>

theorem terminal_absorbs:
  assumes "IsTerminal m" and "\<not> m_inFlight m"
  shows "run_sends m ins = m \<and> run_log m ins = []
    \<and> Send m env t0 t1 = (m, Returned (Some ErrTerminalState))"
proof -
  have "run_sends m ins = m \<and> run_log m ins = []"
    by (induction ins) (use assms in \<open>auto simp: Send_terminal\<close>)
  with assms show ?thesis by (simp add: Send_terminal)
qed

section \<open>Aborts\<close>

text \<open>A failed Send leaves the machine as it was, apart from what hooks did to the entity.\<close>

theorem Send_error_atomic:
  assumes "Send m env t0 t1 = (m', Returned (Some err))"
  shows "m' = m\<lparr>m_obj := m_obj m'\<rparr>"
  using assms by (rule Send_not_committed)

lemma and_then_run_Nil [simp]: "and_then p (run_hooks [] a) = p"
  by (cases p; cases "snd p") auto

lemma run_hooks_append:
  "run_hooks (hs @ ks) a obj = and_then (run_hooks hs a obj) (run_hooks ks a)"
proof (induction hs arbitrary: obj)
  case Nil
  show ?case by simp
next
  case (Cons h hs)
  show ?case by (cases "h obj a"; cases "snd (h obj a)") (auto simp: Cons.IH)
qed

lemma run_hooks_pure:
  assumes "\<forall>h \<in> set hs. \<forall>obj. fst (h obj a) = obj"
  shows "fst (run_hooks hs a obj) = obj"
  using assms
proof (induction hs)
  case Nil
  show ?case by simp
next
  case (Cons h hs)
  then show ?case by (cases "h obj a"; cases "snd (h obj a)") (auto dest: spec [of _ obj])
qed

definition guards_pure :: "('c, 's, 'e) fsm_definition \<Rightarrow> bool" where
  "guards_pure d \<longleftrightarrow>
     (\<forall>g \<in> set (d_globalGuards d). \<forall>obj env. fst (g obj env) = obj)
     \<and> (\<forall>t \<in> snd ` set (d_index d). \<forall>g \<in> set (guards t). \<forall>obj env. fst (g obj env) = obj)"

definition blocked :: "('s, 'e) fsm_error \<Rightarrow> bool" where
  "blocked err \<longleftrightarrow>
     (case err of ErrInvalidTransition _ _ \<Rightarrow> True | ErrTerminalState \<Rightarrow> True
      | _ \<Rightarrow> is_guard_rejected err)"

lemma in_phase_sel [simp]:
  "fst (in_phase r ph wrap res) = fst res"
  "snd (in_phase r ph wrap res) = None \<longleftrightarrow> snd res = None"
  by (simp_all add: in_phase_def)

lemma pre_commit_guards:
  assumes "guards_pure d" and "map_of (d_index d) k = Some t"
  shows "case run_hooks (d_globalGuards d @ guards t) (rec_Event r) obj of
      (o', Some e) \<Rightarrow> pre_commit d t r obj =
         (obj, Some (TransitionError (rec_From r) (rec_To r) (env_Event (rec_Event r)) PhaseGuard (GuardRejected e)))
    | (o', None) \<Rightarrow> \<forall>obj' err. pre_commit d t r obj = (obj', Some err) \<longrightarrow> \<not> blocked err"
proof -
  have "t \<in> snd ` set (d_index d)"
    using map_of_SomeD [OF assms(2)] by force
  then have pure: "\<forall>g \<in> set (guards t). \<forall>obj. fst (g obj (rec_Event r)) = obj"
    "\<forall>g \<in> set (d_globalGuards d). \<forall>obj. fst (g obj (rec_Event r)) = obj"
    using assms(1) by (auto simp: guards_pure_def)
  obtain e1 where g1: "run_hooks (d_globalGuards d) (rec_Event r) obj = (obj, e1)"
    using run_hooks_pure [OF pure(2), of obj] by (metis prod.collapse)
  obtain e2 where g2: "run_hooks (guards t) (rec_Event r) obj = (obj, e2)"
    using run_hooks_pure [OF pure(1), of obj] by (metis prod.collapse)
  have late: "\<not> blocked err"
    if "and_then (in_phase r PhaseBeforeExit HookFailed p) k = (obj', Some err)"
      "\<forall>o1 o2. k o1 = (o2, Some err) \<longrightarrow> \<not> blocked err" for p k obj' err
    using that unfolding and_then_Some_iff in_phase_def by (auto simp: blocked_def)
  show ?thesis
    by (cases e1; cases e2)
      (auto simp: run_hooks_append g1 g2 pre_commit_def in_phase_def and_then_Some_iff blocked_def)
qed

text \<open>C38: Can predicts Send.\<close>

theorem Can_predicts_Send:
  assumes "guards_pure (m_def m)" and "\<not> m_inFlight m"
  shows "fst (Can m (env_Event env) env) = m_obj m
    \<and> (if snd (Can m (env_Event env) env)
       then \<forall>m' err. Send m env t0 t1 = (m', Returned (Some err)) \<longrightarrow> \<not> blocked err
       else \<exists>err. Send m env t0 t1 = (m, Returned (Some err)) \<and> blocked err)"
proof (cases "IsTerminal m")
  case True
  with assms(2) show ?thesis by (auto simp: Can_def Send_terminal blocked_def)
next
  case False
  note live = this
  show ?thesis
  proof (cases "map_of (d_index (m_def m)) (m_current m, env_Event env)")
    case None
    with live assms(2) show ?thesis by (auto simp: Can_def Send_unregistered blocked_def)
  next
    case (Some t)
    note reg = Send_registered [OF assms(2) live Some, of t0 t1]
    have "t \<in> snd ` set (d_index (m_def m))"
      using map_of_SomeD [OF Some] by force
    then have "fst (run_hooks (d_globalGuards (m_def m) @ guards t) env (m_obj m)) = m_obj m"
      using assms(1) by (intro run_hooks_pure) (auto simp: guards_pure_def)
    then obtain e where g: "run_hooks (d_globalGuards (m_def m) @ guards t) env (m_obj m) = (m_obj m, e)"
      by (metis prod.collapse)
    have can: "Can m (env_Event env) env = (m_obj m, e = None)"
      using live Some g by (simp add: Can_def)
    note pre = pre_commit_guards [OF assms(1) Some, of "begin_record m env t t0" "m_obj m"]
    show ?thesis
    proof (cases e)
      case None
      have "\<not> blocked err" if "Send m env t0 t1 = (m', Returned (Some err))" for m' err
        using that live Some assms(2)
      proof (cases rule: Send_cases)
        case (aborted t' obj err')
        with pre g None Some that show ?thesis by auto
      qed auto
      with can None show ?thesis by auto
    next
      case (Some e')
      have "m\<lparr>m_obj := m_obj m\<rparr> = m" by simp
      with can Some pre g reg show ?thesis by (auto simp: blocked_def)
    qed
  qed
qed

section \<open>Batches\<close>

lemma batch_loop_spec:
  assumes "\<forall>p \<in> set ps. 0 \<le> d_historyCapacity (m_def (\<sigma> p))"
  shows "\<exists>\<sigma>' rs. batch_loop env clock i ps \<sigma> ok acc = (\<sigma>', Some (ok \<and> (\<forall>r \<in> set rs. br_Err r = None), acc @ rs))
    \<and> map br_Index rs = [i..<i + length ps]
    \<and> (\<forall>p. p \<notin> set ps \<longrightarrow> \<sigma>' p = \<sigma> p)
    \<and> (distinct ps \<longrightarrow> (\<forall>k < length ps.
         Send (\<sigma> (ps ! k)) env (fst (clock (i + k))) (snd (clock (i + k)))
           = (\<sigma>' (ps ! k), Returned (br_Err (rs ! k)))
         \<and> br_From (rs ! k) = m_current (\<sigma> (ps ! k)) \<and> br_To (rs ! k) = m_current (\<sigma>' (ps ! k))))"
  using assms
proof (induction ps arbitrary: i \<sigma> ok acc)
  case Nil
  show ?case by simp
next
  case (Cons p ps)
  from Cons.prems have "0 \<le> d_historyCapacity (m_def (\<sigma> p))" by simp
  then obtain m' res where s: "Send (\<sigma> p) env (fst (clock i)) (snd (clock i)) = (m', Returned res)"
    by (rule Send_outcome)
  let ?\<sigma> = "\<sigma>(p := m')"
  let ?b = "\<lparr>br_Index = i, br_From = m_current (\<sigma> p), br_To = m_current m', br_Err = res\<rparr>"
  have "m_def m' = m_def (\<sigma> p)" using s by (rule Send_def_unchanged)
  then have "\<forall>q \<in> set ps. 0 \<le> d_historyCapacity (m_def (?\<sigma> q))"
    using Cons.prems by auto
  from Cons.IH [OF this, of "Suc i" "ok \<and> res = None" "acc @ [?b]"] obtain \<sigma>' rs where
    IH: "batch_loop env clock (Suc i) ps ?\<sigma> (ok \<and> res = None) (acc @ [?b]) =
          (\<sigma>', Some ((ok \<and> res = None) \<and> (\<forall>r \<in> set rs. br_Err r = None), (acc @ [?b]) @ rs))"
    "map br_Index rs = [Suc i..<Suc i + length ps]"
    "\<forall>q. q \<notin> set ps \<longrightarrow> \<sigma>' q = ?\<sigma> q"
    "distinct ps \<longrightarrow> (\<forall>k < length ps.
         Send (?\<sigma> (ps ! k)) env (fst (clock (Suc i + k))) (snd (clock (Suc i + k)))
           = (\<sigma>' (ps ! k), Returned (br_Err (rs ! k)))
         \<and> br_From (rs ! k) = m_current (?\<sigma> (ps ! k)) \<and> br_To (rs ! k) = m_current (\<sigma>' (ps ! k)))"
    by blast
  have per: "Send (\<sigma> ((p # ps) ! k)) env (fst (clock (i + k))) (snd (clock (i + k)))
           = (\<sigma>' ((p # ps) ! k), Returned (br_Err ((?b # rs) ! k)))
         \<and> br_From ((?b # rs) ! k) = m_current (\<sigma> ((p # ps) ! k))
         \<and> br_To ((?b # rs) ! k) = m_current (\<sigma>' ((p # ps) ! k))"
    if "distinct (p # ps)" and "k < length (p # ps)" for k
  proof (cases k)
    case 0
    with that IH(3) s show ?thesis by simp
  next
    case (Suc j)
    with that have "ps ! j \<noteq> p" by (auto simp: in_set_conv_nth)
    with that Suc IH(4) show ?thesis by auto
  qed
  have "map br_Index (?b # rs) = [i..<i + length (p # ps)]"
    using IH(2) by (subst upt_conv_Cons) simp_all
  moreover have "\<forall>q. q \<notin> set (p # ps) \<longrightarrow> \<sigma>' q = \<sigma> q" using IH(3) by simp
  ultimately show ?case
    using per by (intro exI [of _ \<sigma>'] exI [of _ "?b # rs"]) (auto simp: s IH(1))
qed

text \<open>BatchSend.\<close>

theorem BatchSend_spec:
  assumes "\<forall>p \<in> set ps. 0 \<le> d_historyCapacity (m_def (\<sigma> p))" and "distinct ps"
  shows "\<exists>\<sigma>' rs. BatchSend \<sigma> ps env clock = (\<sigma>', Some ((\<forall>r \<in> set rs. br_Err r = None), rs))
    \<and> map br_Index rs = [0..<length ps]
    \<and> (\<forall>p. p \<notin> set ps \<longrightarrow> \<sigma>' p = \<sigma> p)
    \<and> (\<forall>k < length ps.
         Send (\<sigma> (ps ! k)) env (fst (clock k)) (snd (clock k))
           = (\<sigma>' (ps ! k), Returned (br_Err (rs ! k)))
         \<and> br_From (rs ! k) = m_current (\<sigma> (ps ! k)) \<and> br_To (rs ! k) = m_current (\<sigma>' (ps ! k)))"
  using batch_loop_spec [OF assms(1), of env clock 0 True "[]"] assms(2)
  by (auto simp: BatchSend_def)

end
