(* ===== verification/FSM_Fire.thy ===== *)
theory FSM_Fire
  imports FSM_Correct GoFmt
begin

text \<open>
  How the services use the engine.  A service reads an entity whose state is a string column,
  calls \<open>Restore\<close> on it and sends one event: \<open>fire\<close>.  The pre-built definitions reach the
  entity only through a Go interface; the locales \<open>quiet_definition\<close> and
  \<open>synced_definition\<close> state what those definitions have in common (pure guards, effects that
  cannot fail and store the target state in the entity, no other hooks) and prove once what a
  service may rely on.
\<close>

section \<open>Chains of builder calls\<close>

definition build ::
    "(('c, 's, 'e) builder \<Rightarrow> ('c, 's, 'e) builder) list \<Rightarrow> ('c, 's, 'e) builder" where
  "build steps = fold (\<lambda>f. f) steps Define"

lemma fold_apply_simps [builder_simps]:
  "build fs = fold (\<lambda>f. f) fs Define"
  "fold (\<lambda>f. f) [] x = x"
  "fold (\<lambda>f. f) (f # fs) x = fold (\<lambda>f. f) fs (f x)"
  by (simp_all add: build_def)

lemma builder_components [builder_simps]:
  "b_transitions Define = []" "b_states Define = []" "b_historyCapacity Define = 100"
  "b_globalGuards Define = []" "b_globalEffects Define = []" "b_observers Define = []"
  "b_transitions (b_State s so b) = b_transitions b"
  "b_historyCapacity (b_State s so b) = b_historyCapacity b"
  "b_globalGuards (b_State s so b) = b_globalGuards b"
  "b_globalEffects (b_State s so b) = b_globalEffects b"
  "b_observers (b_State s so b) = b_observers b"
  "b_transitions (b_Transition s e s' opts b) =
     b_transitions b @ [fold (\<lambda>opt. opt) opts (new_transition_def s e s')]"
  "b_states (b_Transition s e s' opts b) = b_states b"
  "b_historyCapacity (b_Transition s e s' opts b) = b_historyCapacity b"
  "b_globalGuards (b_Transition s e s' opts b) = b_globalGuards b"
  "b_globalEffects (b_Transition s e s' opts b) = b_globalEffects b"
  "b_observers (b_Transition s e s' opts b) = b_observers b"
  "b_transitions (b_GlobalEffect fn b) = b_transitions b"
  "b_states (b_GlobalEffect fn b) = b_states b"
  "b_historyCapacity (b_GlobalEffect fn b) = b_historyCapacity b"
  "b_globalGuards (b_GlobalEffect fn b) = b_globalGuards b"
  "b_globalEffects (b_GlobalEffect fn b) = b_globalEffects b @ [fn]"
  "b_observers (b_GlobalEffect fn b) = b_observers b"
  by (simp_all add: Define_def b_State_def b_Transition_def b_GlobalEffect_def)

lemma builder_states [builder_simps]:
  "fst ` set (b_states (b_State s so b)) = insert s (fst ` set (b_states b))"
  "map_of (b_states (b_State s so b)) k =
     (if k = s then Some (fold (\<lambda>opt. opt) so (new_state_meta s)) else map_of (b_states b) k)"
  by (simp_all add: b_State_def keys_update)

lemma transition_options [builder_simps]:
  "td_from (new_transition_def s e s') = s" "td_event (new_transition_def s e s') = e"
  "td_to (new_transition_def s e s') = s'" "guards (new_transition_def s e s') = []"
  "effects (new_transition_def s e s') = []" "beforeExit (new_transition_def s e s') = []"
  "beforeEnter (new_transition_def s e s') = []" "afterExit (new_transition_def s e s') = []"
  "afterEnter (new_transition_def s e s') = []"
  "td_from (Guard g t) = td_from t" "td_event (Guard g t) = td_event t" "td_to (Guard g t) = td_to t"
  "guards (Guard g t) = guards t @ [g]" "effects (Guard g t) = effects t"
  "beforeExit (Guard g t) = beforeExit t" "beforeEnter (Guard g t) = beforeEnter t"
  "afterExit (Guard g t) = afterExit t" "afterEnter (Guard g t) = afterEnter t"
  "td_from (Effect f t) = td_from t" "td_event (Effect f t) = td_event t" "td_to (Effect f t) = td_to t"
  "guards (Effect f t) = guards t" "effects (Effect f t) = effects t @ [f]"
  "beforeExit (Effect f t) = beforeExit t" "beforeEnter (Effect f t) = beforeEnter t"
  "afterExit (Effect f t) = afterExit t" "afterEnter (Effect f t) = afterEnter t"
  "td_from (Describe ds t) = td_from t" "td_event (Describe ds t) = td_event t"
  "td_to (Describe ds t) = td_to t" "guards (Describe ds t) = guards t"
  "effects (Describe ds t) = effects t"
  "beforeExit (Describe ds t) = beforeExit t" "beforeEnter (Describe ds t) = beforeEnter t"
  "afterExit (Describe ds t) = afterExit t" "afterEnter (Describe ds t) = afterEnter t"
  by (simp_all add: new_transition_def_def Guard_def Effect_def Describe_def)

lemma state_options [builder_simps]:
  "isTerminal (new_state_meta s) = False" "onEntry (new_state_meta s) = []" "onExit (new_state_meta s) = []"
  "isTerminal (Terminal m) = True" "onEntry (Terminal m) = onEntry m" "onExit (Terminal m) = onExit m"
  "isTerminal (Initial m) = isTerminal m" "onEntry (Initial m) = onEntry m" "onExit (Initial m) = onExit m"
  "isTerminal (StateDesc ds m) = isTerminal m" "onEntry (StateDesc ds m) = onEntry m"
  "onExit (StateDesc ds m) = onExit m"
  by (simp_all add: new_state_meta_def Terminal_def Initial_def StateDesc_def)

section \<open>Firing one event on a stored entity\<close>

definition fire ::
    "('c, 's, 'e) fsm_definition \<Rightarrow> 'c \<Rightarrow> 's \<Rightarrow> 'e envelope \<Rightarrow> gotime \<Rightarrow> gotime
       \<Rightarrow> 'c \<times> ('s, 'e) outcome" where
  "fire d ob st env t0 t1 =
     (case Restore d ob st of
        None \<Rightarrow> (ob, Panicked)
      | Some m \<Rightarrow> (case Send m env t0 t1 of (m', out) \<Rightarrow> (m_obj m', out)))"

definition can_fire :: "('c, 's, 'e) fsm_definition \<Rightarrow> 'c \<Rightarrow> 's \<Rightarrow> 'e envelope \<Rightarrow> bool" where
  "can_fire d ob st env =
     (case Restore d ob st of None \<Rightarrow> False | Some m \<Rightarrow> snd (Can m (env_Event env) env))"

text \<open>Why an event is refused, and when it is enabled, read off the tables.\<close>

definition refusal ::
    "('c, 's, 'e) fsm_definition \<Rightarrow> 'c \<Rightarrow> 's \<Rightarrow> 'e envelope \<Rightarrow> ('s, 'e) fsm_error option" where
  "refusal d ob st env =
     (if d_IsTerminal d st then Some ErrTerminalState
      else case map_of (d_index d) (st, env_Event env) of
        None \<Rightarrow> Some (ErrInvalidTransition st (env_Event env))
      | Some t \<Rightarrow>
          map_option (\<lambda>e. TransitionError st (td_to t) (env_Event env) PhaseGuard (GuardRejected e))
            (snd (run_hooks (d_globalGuards d @ guards t) env ob)))"

definition enabled :: "('c, 's, 'e) fsm_definition \<Rightarrow> 'c \<Rightarrow> 's \<Rightarrow> 'e envelope \<Rightarrow> bool" where
  "enabled d ob st env \<longleftrightarrow> refusal d ob st env = None"

lemma refusal_blocked: "refusal d ob st env = Some err \<Longrightarrow> blocked err"
  by (auto simp: refusal_def blocked_def split: if_splits option.splits)

definition target :: "('c, 's, 'e) fsm_definition \<Rightarrow> 's \<Rightarrow> 'e \<Rightarrow> 's" where
  "target d st e = (case map_of (d_index d) (st, e) of Some t \<Rightarrow> td_to t | None \<Rightarrow> st)"

definition effect_of :: "('c, 's, 'e) fsm_definition \<Rightarrow> 's \<Rightarrow> 'e envelope \<Rightarrow> 'c \<Rightarrow> 'c" where
  "effect_of d st env ob =
     (case map_of (d_index d) (st, env_Event env) of
        Some t \<Rightarrow> fst (run_hooks (effects t) env ob) | None \<Rightarrow> ob)"

lemma can_fire_enabled:
  "0 \<le> d_historyCapacity d \<Longrightarrow> can_fire d ob st env \<longleftrightarrow> enabled d ob st env"
  by (simp add: can_fire_def enabled_def refusal_def Restore_def fsm_min_def Can_def IsTerminal_def
      fresh_machine_def split: option.splits prod.splits)

section \<open>The contract of the pre-built definitions\<close>

text \<open>
  What every pre-built definition guarantees: guards only look, effects and global effects do
  not fail, and nothing else is attached to states or transitions.
\<close>

locale quiet_definition =
  fixes d :: "('c, 's, 'e) fsm_definition"
  assumes wf: "wf_definition d"
    and capacity: "0 \<le> d_historyCapacity d"
    and pure: "guards_pure d"
    and global_effects: "run_hooks (d_globalEffects d) env ob = (ob, None)"
    and effects_total:
      "map_of (d_index d) k = Some t \<Longrightarrow> snd (run_hooks (effects t) env ob) = None"
    and no_transition_hooks:
      "map_of (d_index d) k = Some t \<Longrightarrow>
         beforeExit t = [] \<and> beforeEnter t = [] \<and> afterExit t = [] \<and> afterEnter t = []"
    and no_state_hooks: "map_of (d_states d) s = Some meta \<Longrightarrow> onEntry meta = [] \<and> onExit meta = []"
    and no_observers: "d_observers d = []"
begin

lemma state_hooks_Nil: "state_hooks onExit d s = []" "state_hooks onEntry d s = []"
  by (auto simp: state_hooks_def no_state_hooks split: option.splits)

lemma pre_commit_eq:
  assumes "map_of (d_index d) k = Some t"
  shows "pre_commit d t r ob =
    (case run_hooks (d_globalGuards d @ guards t) (rec_Event r) ob of
       (_, Some e) \<Rightarrow>
         (ob, Some (TransitionError (rec_From r) (rec_To r) (env_Event (rec_Event r)) PhaseGuard (GuardRejected e)))
     | (_, None) \<Rightarrow> (fst (run_hooks (effects t) (rec_Event r) ob), None))"
proof -
  have "t \<in> snd ` set (d_index d)" using map_of_SomeD [OF assms] by force
  then have p: "fst (run_hooks (d_globalGuards d) (rec_Event r) ob) = ob"
    "fst (run_hooks (guards t) (rec_Event r) ob) = ob"
    using pure by (auto simp: guards_pure_def intro!: run_hooks_pure)
  obtain e1 where g1: "run_hooks (d_globalGuards d) (rec_Event r) ob = (ob, e1)"
    using p(1) by (metis prod.collapse)
  obtain e2 where g2: "run_hooks (guards t) (rec_Event r) ob = (ob, e2)"
    using p(2) by (metis prod.collapse)
  obtain ob' where ef: "run_hooks (effects t) (rec_Event r) ob = (ob', None)"
    using effects_total [OF assms, of "rec_Event r" ob] by (metis prod.collapse)
  show ?thesis
    using no_transition_hooks [OF assms]
    by (cases e1; cases e2)
      (simp_all add: run_hooks_append g1 g2 ef pre_commit_def in_phase_def state_hooks_Nil global_effects)
qed

lemma post_commit_eq: "map_of (d_index d) k = Some t \<Longrightarrow> post_commit d t r ob = ob"
  using no_transition_hooks by (simp add: post_commit_def state_hooks_Nil)

text \<open>A call either is refused with the machine and the entity untouched, or commits.\<close>

lemma Send_quiet:
  assumes "m_def m = d" and "\<not> m_inFlight m"
  shows "case refusal d (m_obj m) (m_current m) env of
      None \<Rightarrow> \<exists>m'. Send m env t0 t1 = (m', Returned None)
           \<and> m_obj m' = effect_of d (m_current m) env (m_obj m)
           \<and> m_current m' = target d (m_current m) (env_Event env)
    | Some err \<Rightarrow> Send m env t0 t1 = (m, Returned (Some err))"
proof (cases "IsTerminal m")
  case True
  then have "refusal d (m_obj m) (m_current m) env = Some ErrTerminalState"
    using assms(1) by (simp add: refusal_def IsTerminal_def)
  then show ?thesis by (simp add: Send_terminal [OF assms(2) True])
next
  case False
  note live = this
  have live': "\<not> d_IsTerminal d (m_current m)" using live assms(1) by (simp add: IsTerminal_def)
  show ?thesis
  proof (cases "map_of (d_index (m_def m)) (m_current m, env_Event env)")
    case None
    then show ?thesis
      using assms(1) live' by (simp add: Send_unregistered [OF assms(2) live None] refusal_def)
  next
    case (Some t)
    with assms(1) have reg: "map_of (d_index d) (m_current m, env_Event env) = Some t" by simp
    note S = Send_registered [OF assms(2) live Some, of t0 t1, unfolded assms(1) pre_commit_eq [OF reg]]
    obtain ob e where g: "run_hooks (d_globalGuards d @ guards t) env (m_obj m) = (ob, e)"
      by (cases "run_hooks (d_globalGuards d @ guards t) env (m_obj m)")
    show ?thesis
    proof (cases e)
      case None
      have "appendHistory (d_historyCapacity d) (m_history m) (committed_record m env t t0 t1) \<noteq> None"
        using capacity by (simp only: appendHistory_None) simp
      then obtain h where
        h: "appendHistory (d_historyCapacity d) (m_history m) (committed_record m env t t0 t1) = Some h"
        by blast
      show ?thesis
        using S g None h live' assms(1)
        by (simp add: refusal_def reg Let_def post_commit_eq [OF reg] no_observers target_def effect_of_def)
    next
      case (Some e')
      have "m\<lparr>m_obj := m_obj m\<rparr> = m" by simp
      with S g Some live' show ?thesis by (simp add: refusal_def reg)
    qed
  qed
qed

text \<open>What every accepted event preserves holds after any sequence of calls.\<close>

lemma run_sends_invariant:
  assumes "m_def m = d" and "\<not> m_inFlight m" and "P (m_obj m) (m_current m)"
    and step: "\<And>ob st env. P ob st \<Longrightarrow> enabled d ob st env \<Longrightarrow>
                 P (effect_of d st env ob) (target d st (env_Event env))"
  shows "P (m_obj (run_sends m ins)) (m_current (run_sends m ins))"
  using assms(1-3)
proof (induction ins arbitrary: m)
  case Nil
  then show ?case by simp
next
  case (Cons i ins)
  obtain env t0 t1 where i: "i = (env, t0, t1)" by (cases i)
  obtain m' out where s: "Send m env t0 t1 = (m', out)" by (cases "Send m env t0 t1")
  have "m_def m' = d" "\<not> m_inFlight m'"
    using Send_def_unchanged [OF s] Send_inFlight_unchanged [OF s] Cons.prems by simp_all
  moreover have "P (m_obj m') (m_current m')"
    using Send_quiet [OF Cons.prems(1,2), of env t0 t1] s Cons.prems(3) step
    by (auto simp: enabled_def split: option.splits)
  ultimately show ?case using Cons.IH by (simp add: i s)
qed

lemma fire_char:
  "fire d ob st env t0 t1 =
     (case refusal d ob st env of
        None \<Rightarrow> (effect_of d st env ob, Returned None) | Some err \<Rightarrow> (ob, Returned (Some err)))"
  using Send_quiet [of "fresh_machine d ob st" env t0 t1] capacity
  by (auto simp: fire_def Restore_def fsm_min_def fresh_machine_def split: option.splits)

lemma fire_eq:
  "if enabled d ob st env
   then fire d ob st env t0 t1 = (effect_of d st env ob, Returned None)
   else \<exists>err. fire d ob st env t0 t1 = (ob, Returned (Some err)) \<and> blocked err"
  by (auto simp: fire_char enabled_def refusal_blocked)

lemma fire_enabled: "enabled d ob st env \<Longrightarrow> fire d ob st env t0 t1 = (effect_of d st env ob, Returned None)"
  using fire_eq [of ob st env t0 t1] by simp

lemma fire_disabled:
  "\<not> enabled d ob st env \<Longrightarrow> \<exists>err. fire d ob st env t0 t1 = (ob, Returned (Some err)) \<and> blocked err"
  using fire_eq [of ob st env t0 t1] by simp

lemma fire_success_iff:
  "fire d ob st env t0 t1 = (ob', Returned None) \<longleftrightarrow>
     enabled d ob st env \<and> ob' = effect_of d st env ob"
  using fire_eq [of ob st env t0 t1] by (auto split: if_splits)

lemma fire_no_panic: "snd (fire d ob st env t0 t1) \<noteq> Panicked"
  using fire_eq [of ob st env t0 t1] by (auto split: if_splits)

lemma fire_refused_unchanged:
  "snd (fire d ob st env t0 t1) \<noteq> Returned None \<Longrightarrow> fst (fire d ob st env t0 t1) = ob"
  using fire_eq [of ob st env t0 t1] by (auto split: if_splits)

lemma can_fire_iff:
  "can_fire d ob st env \<longleftrightarrow> snd (fire d ob st env t0 t1) = Returned None"
  using fire_eq [of ob st env t0 t1] by (auto simp: can_fire_enabled [OF capacity] split: if_splits)

end

text \<open>The definitions over an entity with a status string: effects store the target in it.\<close>

locale synced_definition = quiet_definition d for d :: "('c, string, string) fsm_definition" +
  fixes status :: "'c \<Rightarrow> string"
  assumes effects_sync:
    "map_of (d_index d) k = Some t \<Longrightarrow> status (fst (run_hooks (effects t) env ob)) = td_to t"
begin

lemma effect_status:
  "enabled d ob st env \<Longrightarrow> status (effect_of d st env ob) = target d st (env_Event env)"
  by (auto simp: enabled_def refusal_def effect_of_def target_def effects_sync
      split: option.splits if_splits)

lemma fire_status:
  "fire d ob st env t0 t1 = (ob', Returned None) \<Longrightarrow> status ob' = target d st (env_Event env)"
  using fire_success_iff [of ob st env t0 t1 ob'] effect_status by blast

text \<open>The stored state and the machine's state never drift apart, over whole runs.\<close>

lemma run_sends_status:
  assumes "m_def m = d" and "\<not> m_inFlight m" and "status (m_obj m) = m_current m"
  shows "status (m_obj (run_sends m ins)) = m_current (run_sends m ins)"
  using run_sends_invariant [where P = "\<lambda>ob st. status ob = st", OF assms effect_status] .

end

text \<open>
  Most definitions do nothing but call the entity's status setter with the target's name; with
  a getter that reads the setter's value back, the entity follows the machine.
\<close>

locale setter_definition = quiet_definition d for d :: "('c, string, string) fsm_definition" +
  fixes set_status :: "string \<Rightarrow> 'c \<Rightarrow> 'c"
  assumes effects_set:
    "map_of (d_index d) k = Some t \<Longrightarrow> fst (run_hooks (effects t) env ob) = set_status (td_to t) ob"
begin

lemma effect_of_set:
  "enabled d ob st env \<Longrightarrow> effect_of d st env ob = set_status (target d st (env_Event env)) ob"
  by (auto simp: enabled_def refusal_def effect_of_def target_def effects_set
      split: option.splits if_splits)

lemma fire_set:
  "enabled d ob st env \<Longrightarrow>
     fire d ob st env t0 t1 = (set_status (target d st (env_Event env)) ob, Returned None)"
  by (simp add: fire_enabled effect_of_set)

lemma fire_set_iff:
  "fire d ob st env t0 t1 = (ob', Returned None) \<longleftrightarrow>
     enabled d ob st env \<and> ob' = set_status (target d st (env_Event env)) ob"
  using fire_success_iff [of ob st env t0 t1 ob'] effect_of_set [of ob st env] by auto

end

locale stored_status = setter_definition d set_status
  for d :: "('c, string, string) fsm_definition" and set_status +
  fixes get_status :: "'c \<Rightarrow> string"
  assumes get_set: "get_status (set_status s ob) = s"

sublocale stored_status \<subseteq> synced_definition d get_status
  by unfold_locales (simp add: effects_set get_set)

section \<open>Reading a definition off its builder\<close>

text \<open>
  The checks of \<open>Compile\<close> and the contract above, as one conjunction over the builder's lists
  that the simplifier can run through.
\<close>

definition quiet_transition :: "('c, 's, 'e) transition_def \<Rightarrow> bool" where
  "quiet_transition t \<longleftrightarrow>
     (\<forall>g \<in> set (guards t). \<forall>ob env. fst (g ob env) = ob)
     \<and> (\<forall>f \<in> set (effects t). \<forall>ob env. snd (f ob env) = None)
     \<and> beforeExit t = [] \<and> beforeEnter t = [] \<and> afterExit t = [] \<and> afterEnter t = []"

definition no_hooks_on_states :: "('c, 's, 'e) builder \<Rightarrow> bool" where
  "no_hooks_on_states b \<longleftrightarrow> (\<forall>meta \<in> ran (map_of (b_states b)). onEntry meta = [] \<and> onExit meta = [])"

lemma no_hooks_on_states [builder_simps]:
  "no_hooks_on_states Define"
  "no_hooks_on_states (b_Transition s e s' opts b) = no_hooks_on_states b"
  "no_hooks_on_states (b_GlobalEffect fn b) = no_hooks_on_states b"
  "\<lbrakk>onEntry (fold (\<lambda>opt. opt) so (new_state_meta s)) = [];
    onExit (fold (\<lambda>opt. opt) so (new_state_meta s)) = []; no_hooks_on_states b\<rbrakk>
   \<Longrightarrow> no_hooks_on_states (b_State s so b)"
  by (auto simp: no_hooks_on_states_def builder_components builder_states ran_def)

definition quiet_builder :: "('c, 's, 'e) builder \<Rightarrow> bool" where
  "quiet_builder b \<longleftrightarrow>
     0 \<le> b_historyCapacity b \<and> b_globalGuards b = [] \<and> b_observers b = []
     \<and> (\<forall>f \<in> set (b_globalEffects b). \<forall>ob env. f ob env = (ob, None))
     \<and> (\<forall>t \<in> set (b_transitions b). quiet_transition t)
     \<and> no_hooks_on_states b"

lemma run_hooks_total:
  "\<forall>f \<in> set fs. \<forall>ob env. snd (f ob env) = None \<Longrightarrow> snd (run_hooks fs env ob) = None"
  by (induction fs arbitrary: ob) (auto simp: snd_and_then_None_iff)

lemma run_hooks_id:
  "\<forall>f \<in> set fs. \<forall>ob env. f ob env = (ob, None) \<Longrightarrow> run_hooks fs env ob = (ob, None)"
  by (induction fs) auto

lemma quiet_compiled:
  assumes "Compile b = Inr d" and "quiet_builder b"
  shows "quiet_definition d"
proof
  note b = Compile_Inr [OF assms(1)] and q = assms(2) [unfolded quiet_builder_def quiet_transition_def]
  show "wf_definition d" by (rule Compile_wf [OF assms(1)])
  show "0 \<le> d_historyCapacity d" "d_observers d = []" using b q by simp_all
  have tr: "t \<in> set (b_transitions b)" if "t \<in> snd ` set (d_index d)" for t
  proof -
    obtain k where "(k, t) \<in> set (d_index d)" using \<open>t \<in> snd ` set (d_index d)\<close> by auto
    then have "map_of (d_index d) k = Some t"
      using Compile_wf [OF assms(1)] by (simp add: wf_definition_def)
    then show ?thesis by (simp add: Compile_lookup [OF assms(1)])
  qed
  show "guards_pure d"
    unfolding guards_pure_def
  proof (intro conjI ballI allI)
    fix g ob env
    assume "g \<in> set (d_globalGuards d)"
    then show "fst (g ob env) = ob" using b(3) q by simp
  next
    fix t g ob env
    assume "t \<in> snd ` set (d_index d)" and "g \<in> set (guards t)"
    with tr q show "fst (g ob env) = ob" by blast
  qed
  show "run_hooks (d_globalEffects d) env ob = (ob, None)" for env ob
    using b q by (auto intro: run_hooks_id)
  show "snd (run_hooks (effects t) env ob) = None" if "map_of (d_index d) k = Some t" for k t env ob
    using that q by (auto simp: Compile_lookup [OF assms(1)] intro: run_hooks_total)
  show "beforeExit t = [] \<and> beforeEnter t = [] \<and> afterExit t = [] \<and> afterEnter t = []"
    if "map_of (d_index d) k = Some t" for k t
  proof -
    have "t \<in> set (b_transitions b)" using that by (simp add: Compile_lookup [OF assms(1)])
    with q show ?thesis by blast
  qed
  show "onEntry meta = [] \<and> onExit meta = []" if "map_of (d_states d) s = Some meta" for s meta
    using that q b by (auto simp: no_hooks_on_states_def ran_def)
qed

lemma synced_compiled:
  assumes "Compile b = Inr d" and "quiet_builder b"
    and "\<forall>t \<in> set (b_transitions b). \<forall>env ob. status (fst (run_hooks (effects t) env ob)) = td_to t"
  shows "synced_definition d status"
  using quiet_compiled [OF assms(1,2)] assms(3)
  by (intro synced_definition.intro synced_definition_axioms.intro) (auto simp: Compile_lookup [OF assms(1)])

lemma setter_compiled:
  assumes "Compile b = Inr d" and "quiet_builder b"
    and "\<forall>t \<in> set (b_transitions b). \<forall>env ob. fst (run_hooks (effects t) env ob) = set_status (td_to t) ob"
  shows "setter_definition d set_status"
  using quiet_compiled [OF assms(1,2)] assms(3)
  by (intro setter_definition.intro setter_definition_axioms.intro) (auto simp: Compile_lookup [OF assms(1)])

text \<open>Lookups in the compiled index, as searches of the builder's list of transitions.\<close>

lemma MustCompile_Inr: "MustCompile b = Some d \<longleftrightarrow> Compile b = Inr d"
  by (simp add: MustCompile_def split: sum.splits)

lemma well_declared_MustCompile: "well_declared b \<Longrightarrow> Compile b = Inr (the (MustCompile b))"
  using Compile_iff_well_declared [of b] by (auto simp: MustCompile_def split: sum.splits)

lemma compiled_edge:
  assumes "Compile b = Inr d"
  shows "edge d a e c \<longleftrightarrow> (a, e, c) \<in> set (map (\<lambda>t. (td_from t, td_event t, td_to t)) (b_transitions b))"
proof -
  have "edge d a e c \<longleftrightarrow> (\<exists>t. map_of (d_index d) (a, e) = Some t \<and> td_to t = c)"
    by (auto simp: edge_def split: option.splits)
  then show ?thesis by (force simp: Compile_lookup [OF assms])
qed

lemma compiled_refusal:
  assumes "Compile b = Inr d" and "b_globalGuards b = []" and "t \<in> set (b_transitions b)"
    and "td_from t = st" and "td_event t = env_Event env"
  shows "refusal d ob st env =
    map_option (\<lambda>e. TransitionError st (td_to t) (env_Event env) PhaseGuard (GuardRejected e))
      (snd (run_hooks (guards t) env ob))"
proof -
  have t: "map_of (d_index d) (st, env_Event env) = Some t"
    using assms by (simp add: Compile_lookup [OF assms(1)])
  then have "\<not> d_IsTerminal d st"
    using Compile_wf [OF assms(1)] unfolding wf_definition_def by (metis fst_conv)
  with t show ?thesis by (simp add: refusal_def Compile_Inr(3) [OF assms(1)] assms(2))
qed

lemma compiled_enabled:
  assumes "Compile b = Inr d" and "b_globalGuards b = []"
  shows "enabled d ob st env \<longleftrightarrow>
    (\<exists>t \<in> set (b_transitions b). st = td_from t \<and> env_Event env = td_event t
       \<and> snd (run_hooks (guards t) env ob) = None)"
proof (cases "map_of (d_index d) (st, env_Event env)")
  case None
  then have "\<forall>t \<in> set (b_transitions b). \<not> (st = td_from t \<and> env_Event env = td_event t)"
    using Compile_lookup [OF assms(1), of "(st, env_Event env)"] by force
  with None show ?thesis by (simp add: enabled_def refusal_def) blast
next
  case (Some t)
  then have t: "t \<in> set (b_transitions b)" "td_from t = st" "td_event t = env_Event env"
    by (simp_all add: Compile_lookup [OF assms(1)])
  have "u = t" if "u \<in> set (b_transitions b)" "td_from u = st" "td_event u = env_Event env" for u
  proof -
    have "map_of (d_index d) (st, env_Event env) = Some u"
      using that by (simp add: Compile_lookup [OF assms(1)])
    with Some show ?thesis by simp
  qed
  then have "(\<exists>u \<in> set (b_transitions b). st = td_from u \<and> env_Event env = td_event u
       \<and> snd (run_hooks (guards u) env ob) = None) \<longleftrightarrow> snd (run_hooks (guards t) env ob) = None"
    using t by metis
  then show ?thesis
    by (simp only: enabled_def compiled_refusal [OF assms t] option.map_disc_iff)
qed

lemma edge_target: "edge d st e st' \<Longrightarrow> target d st e = st'"
  by (auto simp: edge_def target_def split: option.splits)

lemma enabled_edge: "enabled d ob st env \<Longrightarrow> edge d st (env_Event env) (target d st (env_Event env))"
  by (auto simp: enabled_def refusal_def edge_def target_def split: if_splits option.splits)

lemma compiled_effect_of:
  assumes "Compile b = Inr d" and "t \<in> set (b_transitions b)"
    and "td_from t = st" and "td_event t = env_Event env"
  shows "effect_of d st env ob = fst (run_hooks (effects t) env ob)"
proof -
  have "map_of (d_index d) (st, env_Event env) = Some t"
    using assms by (simp add: Compile_lookup [OF assms(1)])
  then show ?thesis by (simp add: effect_of_def)
qed

text \<open>The same, with the transition found by the simplifier.\<close>

lemma refusal_guards:
  assumes "Compile b = Inr d" and "b_globalGuards b = []"
    and "\<exists>t \<in> set (b_transitions b).
           td_from t = st \<and> td_event t = env_Event env \<and> td_to t = c \<and> guards t = gs"
  shows "refusal d ob st env =
    map_option (\<lambda>e. TransitionError st c (env_Event env) PhaseGuard (GuardRejected e))
      (snd (run_hooks gs env ob))"
  using assms(3) compiled_refusal [OF assms(1,2)] by blast

lemma effect_of_effects:
  assumes "Compile b = Inr d"
    and "\<exists>t \<in> set (b_transitions b). td_from t = st \<and> td_event t = env_Event env \<and> effects t = fs"
  shows "effect_of d st env ob = fst (run_hooks fs env ob)"
  using assms(2) compiled_effect_of [OF assms(1)] by blast

end
