(* ===== verification/FSM_Order.thy ===== *)
theory FSM_Order
  imports FSM_Fire
begin

text \<open>
  The order machine of \<open>utils/FSM.go\<close>: its states, events, interface and definition, the table
  of its edges, when each event is accepted, and the life cycle of an order.
\<close>

definition OrderStatePending :: string where [state_names]: "OrderStatePending = ''pending''"
definition OrderStateConfirmed :: string where [state_names]: "OrderStateConfirmed = ''confirmed''"
definition OrderStatePreparing :: string where [state_names]: "OrderStatePreparing = ''preparing''"
definition OrderStateReady :: string where [state_names]: "OrderStateReady = ''ready''"
definition OrderStateServed :: string where [state_names]: "OrderStateServed = ''served''"
definition OrderStateCancelled :: string where [state_names]: "OrderStateCancelled = ''cancelled''"
definition OrderStateRefunded :: string where [state_names]: "OrderStateRefunded = ''refunded''"

definition OrderEventConfirm :: string where [state_names]: "OrderEventConfirm = ''confirm''"
definition OrderEventPrepare :: string where [state_names]: "OrderEventPrepare = ''prepare''"
definition OrderEventReady :: string where [state_names]: "OrderEventReady = ''ready''"
definition OrderEventServe :: string where [state_names]: "OrderEventServe = ''serve''"
definition OrderEventCancel :: string where [state_names]: "OrderEventCancel = ''cancel''"
definition OrderEventRefund :: string where [state_names]: "OrderEventRefund = ''refund''"

text \<open>The interface an order entity gives the machine, as a record of its methods.\<close>

record 'o OrderContext =
  oc_GetOrderID :: "'o \<Rightarrow> string"
  oc_GetTotalAmount :: "'o \<Rightarrow> f64"
  oc_SetStatus :: "string \<Rightarrow> 'o \<Rightarrow> 'o"
  oc_GetStatus :: "'o \<Rightarrow> string"

definition order_confirm_guard :: "'o OrderContext \<Rightarrow> ('o, string) guard_func" where
  "order_confirm_guard I ob e =
     (ob, if f_le (oc_GetTotalAmount I ob) f_zero
          then Some ''cannot confirm order with zero or negative total'' else None)"

definition OrderFSM_builder :: "'o OrderContext \<Rightarrow> ('o, string, string) builder" where
  "OrderFSM_builder I = build
    [b_State OrderStatePending [Initial, StateDesc ''Order created, awaiting confirmation''],
     b_State OrderStateConfirmed [StateDesc ''Order confirmed, awaiting kitchen''],
     b_State OrderStatePreparing [StateDesc ''Kitchen is preparing the order''],
     b_State OrderStateReady [StateDesc ''Order ready for service''],
     b_State OrderStateServed [StateDesc ''Order delivered to customer''],
     b_State OrderStateCancelled [Terminal, StateDesc ''Order cancelled''],
     b_State OrderStateRefunded [Terminal, StateDesc ''Order refunded''],
     b_Transition OrderStatePending OrderEventConfirm OrderStateConfirmed
       [Guard (order_confirm_guard I),
        Effect (\<lambda>ob e. (oc_SetStatus I OrderStateConfirmed ob, None)),
        Describe ''Payment validated''],
     b_Transition OrderStateConfirmed OrderEventPrepare OrderStatePreparing
       [Effect (\<lambda>ob e. (oc_SetStatus I OrderStatePreparing ob, None)),
        Describe ''KOT sent to kitchen''],
     b_Transition OrderStatePreparing OrderEventReady OrderStateReady
       [Effect (\<lambda>ob e. (oc_SetStatus I OrderStateReady ob, None)),
        Describe ''Kitchen marks complete''],
     b_Transition OrderStateReady OrderEventServe OrderStateServed
       [Effect (\<lambda>ob e. (oc_SetStatus I OrderStateServed ob, None)),
        Describe ''Waiter delivers to table''],
     b_Transition OrderStateServed OrderEventRefund OrderStateRefunded
       [Effect (\<lambda>ob e. (oc_SetStatus I OrderStateRefunded ob, None)),
        Describe ''Payment reversed''],
     b_Transition OrderStatePending OrderEventCancel OrderStateCancelled
       [Effect (\<lambda>ob e. (oc_SetStatus I OrderStateCancelled ob, None))],
     b_Transition OrderStateConfirmed OrderEventCancel OrderStateCancelled
       [Effect (\<lambda>ob e. (oc_SetStatus I OrderStateCancelled ob, None))],
     b_Transition OrderStatePreparing OrderEventCancel OrderStateCancelled
       [Effect (\<lambda>ob e. (oc_SetStatus I OrderStateCancelled ob, None)),
        Describe ''Requires manager approval''],
     b_Transition OrderStateReady OrderEventCancel OrderStateCancelled
       [Effect (\<lambda>ob e. (oc_SetStatus I OrderStateCancelled ob, None))],
     b_GlobalEffect (\<lambda>ob e. (ob, None))]"

definition OrderFSM :: "'o OrderContext \<Rightarrow> ('o, string, string) fsm_definition" where
  "OrderFSM I = the (MustCompile (OrderFSM_builder I))"

lemma OrderFSM_declared: "well_declared (OrderFSM_builder I)"
  by (simp add: well_declared_def OrderFSM_builder_def builder_simps state_names)

text \<open>The package variable's \<open>MustCompile\<close> does not panic.\<close>

lemma OrderFSM_compiles: "MustCompile (OrderFSM_builder I) = Some (OrderFSM I)"
  using well_declared_MustCompile [OF OrderFSM_declared]
  by (simp add: OrderFSM_def MustCompile_Inr)

lemmas OrderFSM_Inr = OrderFSM_compiles [unfolded MustCompile_Inr]

lemma OrderFSM_quiet: "quiet_builder (OrderFSM_builder I)"
  by (simp add: quiet_builder_def quiet_transition_def OrderFSM_builder_def builder_simps Let_def order_confirm_guard_def)

lemma order_distinct:
  "distinct [OrderStatePending, OrderStateConfirmed, OrderStatePreparing, OrderStateReady, OrderStateServed, OrderStateCancelled, OrderStateRefunded]"
  "distinct [OrderEventConfirm, OrderEventPrepare, OrderEventReady, OrderEventServe, OrderEventCancel, OrderEventRefund]"
  by (simp_all add: state_names)

text \<open>The edges, as a table.\<close>

definition order_edges :: "(string \<times> string \<times> string) list" where
  "order_edges =
    [(OrderStatePending, OrderEventConfirm, OrderStateConfirmed),
     (OrderStateConfirmed, OrderEventPrepare, OrderStatePreparing),
     (OrderStatePreparing, OrderEventReady, OrderStateReady),
     (OrderStateReady, OrderEventServe, OrderStateServed),
     (OrderStateServed, OrderEventRefund, OrderStateRefunded),
     (OrderStatePending, OrderEventCancel, OrderStateCancelled),
     (OrderStateConfirmed, OrderEventCancel, OrderStateCancelled),
     (OrderStatePreparing, OrderEventCancel, OrderStateCancelled),
     (OrderStateReady, OrderEventCancel, OrderStateCancelled)]"

lemma OrderFSM_edge: "edge (OrderFSM I) a e c \<longleftrightarrow> (a, e, c) \<in> set order_edges"
  unfolding compiled_edge [OF OrderFSM_Inr]
  by (simp add: OrderFSM_builder_def builder_simps order_edges_def disj_ac)

lemma OrderFSM_IsTerminal: "d_IsTerminal (OrderFSM I) s \<longleftrightarrow> s \<in> {OrderStateCancelled, OrderStateRefunded}"
  by (simp add: d_IsTerminal_def Compile_Inr(1) [OF OrderFSM_Inr] OrderFSM_builder_def builder_simps state_names)

lemma OrderFSM_setter: "setter_definition (OrderFSM I) (oc_SetStatus I)"
  by (rule setter_compiled [OF OrderFSM_Inr OrderFSM_quiet])
    (simp add: OrderFSM_builder_def builder_simps)

interpretation order_fsm: setter_definition "OrderFSM I" "oc_SetStatus I" for I
  by (rule OrderFSM_setter)

section \<open>When an event is accepted\<close>

lemma order_confirm_refusal:
  assumes "env_Event env = OrderEventConfirm"
  shows "refusal (OrderFSM I) ob OrderStatePending env =
    map_option (\<lambda>e. TransitionError OrderStatePending OrderStateConfirmed OrderEventConfirm PhaseGuard (GuardRejected e))
      (snd (order_confirm_guard I ob env))"
  using assms
  by (subst refusal_guards [OF OrderFSM_Inr, where c = OrderStateConfirmed and gs = "[order_confirm_guard I]"])
    (simp_all add: OrderFSM_builder_def builder_simps)

lemma OrderFSM_enabled:
  "enabled (OrderFSM I) ob st env \<longleftrightarrow>
     (st, env_Event env) \<in> set (map (\<lambda>(a, e, c). (a, e)) order_edges)
     \<and> (st = OrderStatePending \<and> env_Event env = OrderEventConfirm
          \<longrightarrow> \<not> f_le (oc_GetTotalAmount I ob) f_zero)"
proof (cases "st = OrderStatePending \<and> env_Event env = OrderEventConfirm")
  case True
  then show ?thesis
    using order_confirm_refusal [of env I ob] by (auto simp: enabled_def order_confirm_guard_def order_edges_def)
next
  case False
  then show ?thesis
    by (subst compiled_enabled [OF OrderFSM_Inr];
        simp add: OrderFSM_builder_def builder_simps order_edges_def) blast
qed

text \<open>
  A pending order is confirmed exactly when its total is not at most zero; otherwise the
  caller gets the guard's message in the guard phase and the order is not touched.
\<close>

theorem order_confirm_guarded:
  assumes "env_Event env = OrderEventConfirm"
  shows "fire (OrderFSM I) ob OrderStatePending env t0 t1 =
     (if f_le (oc_GetTotalAmount I ob) f_zero
      then (ob, Returned (Some (TransitionError OrderStatePending OrderStateConfirmed OrderEventConfirm PhaseGuard
             (GuardRejected ''cannot confirm order with zero or negative total''))))
      else (oc_SetStatus I OrderStateConfirmed ob, Returned None))"
proof -
  have "target (OrderFSM I) OrderStatePending OrderEventConfirm = OrderStateConfirmed"
    by (rule edge_target) (simp add: OrderFSM_edge order_edges_def)
  then show ?thesis
    using order_fsm.effect_of_set [of I ob OrderStatePending env] assms
    by (simp add: order_fsm.fire_char order_confirm_refusal order_confirm_guard_def enabled_def)
qed

section \<open>The life of an order\<close>

definition order_rank :: "string \<Rightarrow> nat" where
  "order_rank s =
     (if s = OrderStatePending then 0 else if s = OrderStateConfirmed then 1
      else if s = OrderStatePreparing then 2 else if s = OrderStateReady then 3
      else if s = OrderStateServed then 4 else 5)"

lemma OrderFSM_ranked: "ranked (OrderFSM I) order_rank"
proof -
  have "\<forall>(a, e, b) \<in> set order_edges. order_rank a < order_rank b"
    by (simp add: order_edges_def order_rank_def state_names)
  then show ?thesis by (auto simp: ranked_def OrderFSM_edge)
qed

lemma order_edges_into:
  "edge (OrderFSM I) a e OrderStateServed \<Longrightarrow> a = OrderStateReady \<and> e = OrderEventServe"
  "edge (OrderFSM I) a e OrderStateReady \<Longrightarrow> a = OrderStatePreparing \<and> e = OrderEventReady"
  "edge (OrderFSM I) a e OrderStatePreparing \<Longrightarrow> a = OrderStateConfirmed \<and> e = OrderEventPrepare"
  "edge (OrderFSM I) a e OrderStateConfirmed \<Longrightarrow> a = OrderStatePending \<and> e = OrderEventConfirm"
  by (simp_all add: OrderFSM_edge order_edges_def state_names)

lemma order_path_served:
  assumes "path (OrderFSM I) OrderStatePending steps OrderStateServed"
  shows "map (fst \<circ> snd) steps = [OrderEventConfirm, OrderEventPrepare, OrderEventReady, OrderEventServe]"
proof -
  have ne: "OrderStatePending \<noteq> OrderStateServed" "OrderStatePending \<noteq> OrderStateReady"
    "OrderStatePending \<noteq> OrderStatePreparing" "OrderStatePending \<noteq> OrderStateConfirmed"
    by (simp_all add: state_names)
  obtain s1 where 1: "steps = s1 @ [(OrderStateReady, OrderEventServe, OrderStateServed)]"
    "path (OrderFSM I) OrderStatePending s1 OrderStateReady"
    using path_only_into [OF assms ne(1) order_edges_into(1) [of I]] by metis
  obtain s2 where 2: "s1 = s2 @ [(OrderStatePreparing, OrderEventReady, OrderStateReady)]"
    "path (OrderFSM I) OrderStatePending s2 OrderStatePreparing"
    using path_only_into [OF 1(2) ne(2) order_edges_into(2) [of I]] by metis
  obtain s3 where 3: "s2 = s3 @ [(OrderStateConfirmed, OrderEventPrepare, OrderStatePreparing)]"
    "path (OrderFSM I) OrderStatePending s3 OrderStateConfirmed"
    using path_only_into [OF 2(2) ne(3) order_edges_into(3) [of I]] by metis
  obtain s4 where 4: "s3 = s4 @ [(OrderStatePending, OrderEventConfirm, OrderStateConfirmed)]"
    "path (OrderFSM I) OrderStatePending s4 OrderStatePending"
    using path_only_into [OF 3(2) ne(4) order_edges_into(4) [of I]] by metis
  have "s4 = []" by (rule path_rank_Nil [OF OrderFSM_ranked 4(2)])
  with 1 2 3 4 show ?thesis by simp
qed

text \<open>
  C37: Whatever is sent to a new order, it commits at most five transitions, and if it ends up
  served then the committed events were confirm, prepare, ready and serve, in this order.
\<close>

theorem order_life_cycle:
  assumes "New (OrderFSM I) ob OrderStatePending = Some m"
  shows "length (run_log m ins) \<le> 5
    \<and> (m_current (run_sends m ins) = OrderStateServed \<longrightarrow>
         map (env_Event \<circ> rec_Event) (run_log m ins)
           = [OrderEventConfirm, OrderEventPrepare, OrderEventReady, OrderEventServe])"
proof
  note p = run_path_New [OF assms, of ins]
  have "order_rank (m_current (run_sends m ins)) \<le> 5" by (simp add: order_rank_def)
  then show "length (run_log m ins) \<le> 5"
    using run_rank [OF OrderFSM_ranked assms, of ins] by simp
  show "m_current (run_sends m ins) = OrderStateServed \<longrightarrow>
      map (env_Event \<circ> rec_Event) (run_log m ins)
        = [OrderEventConfirm, OrderEventPrepare, OrderEventReady, OrderEventServe]"
    using order_path_served [of I "map step_of (run_log m ins)"] p by (auto simp: step_of_def comp_def)
qed

end
