(* ===== verification/FSM_KOT.thy ===== *)
theory FSM_KOT
  imports FSM_Fire
begin

text \<open>
  The kitchen order ticket machine of \<open>utils/FSM.go\<close>.
\<close>

definition KOTStateSent :: string where [state_names]: "KOTStateSent = ''sent''"
definition KOTStateInProgress :: string where [state_names]: "KOTStateInProgress = ''in_progress''"
definition KOTStateCompleted :: string where [state_names]: "KOTStateCompleted = ''completed''"
definition KOTStateCancelled :: string where [state_names]: "KOTStateCancelled = ''cancelled''"

definition KOTEventStart :: string where [state_names]: "KOTEventStart = ''start''"
definition KOTEventComplete :: string where [state_names]: "KOTEventComplete = ''complete''"
definition KOTEventCancel :: string where [state_names]: "KOTEventCancel = ''cancel''"

text \<open>The interface a kitchen ticket gives the machine.\<close>

record 'o KOTContext =
  kc_GetKOTID :: "'o \<Rightarrow> string"
  kc_SetStatus :: "string \<Rightarrow> 'o \<Rightarrow> 'o"
  kc_GetPriority :: "'o \<Rightarrow> string"

definition kot_cancel_guard :: "'o KOTContext \<Rightarrow> ('o, string) guard_func" where
  "kot_cancel_guard I ob e =
     (ob, if kc_GetPriority I ob = ''urgent'' \<and> meta_get e ''force_cancel'' \<noteq> Some ''true''
          then Some ''urgent KOT requires force_cancel=true metadata to cancel mid-preparation''
          else None)"

definition KOTFSM_builder :: "'o KOTContext \<Rightarrow> ('o, string, string) builder" where
  "KOTFSM_builder I = build
    [b_State KOTStateSent [Initial],
     b_State KOTStateInProgress [],
     b_State KOTStateCompleted [Terminal],
     b_State KOTStateCancelled [Terminal],
     b_Transition KOTStateSent KOTEventStart KOTStateInProgress
       [Effect (\<lambda>ob e. (kc_SetStatus I KOTStateInProgress ob, None))],
     b_Transition KOTStateInProgress KOTEventComplete KOTStateCompleted
       [Effect (\<lambda>ob e. (kc_SetStatus I KOTStateCompleted ob, None))],
     b_Transition KOTStateSent KOTEventCancel KOTStateCancelled
       [Effect (\<lambda>ob e. (kc_SetStatus I KOTStateCancelled ob, None))],
     b_Transition KOTStateInProgress KOTEventCancel KOTStateCancelled
       [Guard (kot_cancel_guard I),
        Effect (\<lambda>ob e. (kc_SetStatus I KOTStateCancelled ob, None))]]"

definition KOTFSM :: "'o KOTContext \<Rightarrow> ('o, string, string) fsm_definition" where
  "KOTFSM I = the (MustCompile (KOTFSM_builder I))"

lemma KOTFSM_declared: "well_declared (KOTFSM_builder I)"
  by (simp add: well_declared_def KOTFSM_builder_def builder_simps state_names)

text \<open>The package variable's \<open>MustCompile\<close> does not panic.\<close>

lemma KOTFSM_compiles: "MustCompile (KOTFSM_builder I) = Some (KOTFSM I)"
  using well_declared_MustCompile [OF KOTFSM_declared]
  by (simp add: KOTFSM_def MustCompile_Inr)

lemmas KOTFSM_Inr = KOTFSM_compiles [unfolded MustCompile_Inr]

lemma KOTFSM_quiet: "quiet_builder (KOTFSM_builder I)"
  by (simp add: quiet_builder_def quiet_transition_def KOTFSM_builder_def builder_simps Let_def kot_cancel_guard_def)

lemma kot_distinct:
  "distinct [KOTStateSent, KOTStateInProgress, KOTStateCompleted, KOTStateCancelled]"
  "distinct [KOTEventStart, KOTEventComplete, KOTEventCancel]"
  by (simp_all add: state_names)

text \<open>The edges, as a table.\<close>

definition kot_edges :: "(string \<times> string \<times> string) list" where
  "kot_edges =
    [(KOTStateSent, KOTEventStart, KOTStateInProgress),
     (KOTStateInProgress, KOTEventComplete, KOTStateCompleted),
     (KOTStateSent, KOTEventCancel, KOTStateCancelled),
     (KOTStateInProgress, KOTEventCancel, KOTStateCancelled)]"

lemma KOTFSM_edge: "edge (KOTFSM I) a e c \<longleftrightarrow> (a, e, c) \<in> set kot_edges"
  unfolding compiled_edge [OF KOTFSM_Inr]
  by (simp add: KOTFSM_builder_def builder_simps kot_edges_def disj_ac)

lemma KOTFSM_IsTerminal: "d_IsTerminal (KOTFSM I) s \<longleftrightarrow> s \<in> {KOTStateCompleted, KOTStateCancelled}"
  by (simp add: d_IsTerminal_def Compile_Inr(1) [OF KOTFSM_Inr] KOTFSM_builder_def builder_simps state_names)

lemma KOTFSM_setter: "setter_definition (KOTFSM I) (kc_SetStatus I)"
  by (rule setter_compiled [OF KOTFSM_Inr KOTFSM_quiet])
    (simp add: KOTFSM_builder_def builder_simps)

interpretation kot_fsm: setter_definition "KOTFSM I" "kc_SetStatus I" for I
  by (rule KOTFSM_setter)

section \<open>When a ticket in preparation may be cancelled\<close>

lemma KOTFSM_targets:
  "target (KOTFSM I) KOTStateInProgress KOTEventCancel = KOTStateCancelled"
  "target (KOTFSM I) KOTStateSent KOTEventStart = KOTStateInProgress"
  "target (KOTFSM I) KOTStateInProgress KOTEventComplete = KOTStateCompleted"
  "target (KOTFSM I) KOTStateSent KOTEventCancel = KOTStateCancelled"
  by (rule edge_target; simp add: KOTFSM_edge kot_edges_def)+

lemma kot_cancel_refusal:
  assumes "env_Event env = KOTEventCancel"
  shows "refusal (KOTFSM I) ob KOTStateInProgress env =
    map_option (\<lambda>e. TransitionError KOTStateInProgress KOTStateCancelled KOTEventCancel PhaseGuard (GuardRejected e))
      (snd (kot_cancel_guard I ob env))"
  using assms
  by (subst refusal_guards [OF KOTFSM_Inr, where c = KOTStateCancelled and gs = "[kot_cancel_guard I]"])
    (simp_all add: KOTFSM_builder_def builder_simps)

text \<open>
  A ticket in preparation is cancelled unless it is urgent and the envelope does not carry
  force_cancel=true; then the call reports the guard's message and changes nothing.
\<close>

theorem kot_cancel_guarded:
  assumes "env_Event env = KOTEventCancel"
  shows "fire (KOTFSM I) ob KOTStateInProgress env t0 t1 =
     (if kc_GetPriority I ob = ''urgent'' \<and> meta_get env ''force_cancel'' \<noteq> Some ''true''
      then (ob, Returned (Some (TransitionError KOTStateInProgress KOTStateCancelled KOTEventCancel PhaseGuard
             (GuardRejected ''urgent KOT requires force_cancel=true metadata to cancel mid-preparation''))))
      else (kc_SetStatus I KOTStateCancelled ob, Returned None))"
  using kot_fsm.effect_of_set [of I ob KOTStateInProgress env] assms
  by (auto simp: kot_fsm.fire_char kot_cancel_refusal kot_cancel_guard_def enabled_def KOTFSM_targets)

section \<open>The life of a ticket\<close>

definition kot_rank :: "string \<Rightarrow> nat" where
  "kot_rank s = (if s = KOTStateSent then 0 else if s = KOTStateInProgress then 1 else 2)"

lemma KOTFSM_ranked: "ranked (KOTFSM I) kot_rank"
proof -
  have "\<forall>(a, e, b) \<in> set kot_edges. kot_rank a < kot_rank b"
    by (simp add: kot_edges_def kot_rank_def state_names)
  then show ?thesis by (auto simp: ranked_def KOTFSM_edge)
qed

lemma kot_run_bounded:
  assumes "New (KOTFSM I) ob KOTStateSent = Some m"
  shows "length (run_log m ins) \<le> 2"
proof -
  have "kot_rank (m_current (run_sends m ins)) \<le> 2" by (simp add: kot_rank_def)
  then show ?thesis using run_rank [OF KOTFSM_ranked assms, of ins] by simp
qed

end
