(* ===== verification/FSM_Table.thy ===== *)
theory FSM_Table
  imports FSM_Fire
begin

text \<open>
  The dining-table machine of \<open>utils/FSM.go\<close>.
\<close>

definition TableStateAvailable :: string where [state_names]: "TableStateAvailable = ''available''"
definition TableStateOccupied :: string where [state_names]: "TableStateOccupied = ''occupied''"
definition TableStateReserved :: string where [state_names]: "TableStateReserved = ''reserved''"
definition TableStateCleaning :: string where [state_names]: "TableStateCleaning = ''cleaning''"
definition TableStateOutOfService :: string where [state_names]: "TableStateOutOfService = ''out_of_service''"

definition TableEventSeat :: string where [state_names]: "TableEventSeat = ''seat''"
definition TableEventReserve :: string where [state_names]: "TableEventReserve = ''reserve''"
definition TableEventArrive :: string where [state_names]: "TableEventArrive = ''arrive''"
definition TableEventRelease :: string where [state_names]: "TableEventRelease = ''release''"
definition TableEventClean :: string where [state_names]: "TableEventClean = ''clean''"
definition TableEventDisable :: string where [state_names]: "TableEventDisable = ''disable''"

text \<open>The interface a table gives the machine.\<close>

record 'o TableContext =
  tc_GetTableID :: "'o \<Rightarrow> int"
  tc_GetCapacity :: "'o \<Rightarrow> int"
  tc_SetStatus :: "string \<Rightarrow> 'o \<Rightarrow> 'o"

definition TableFSM_builder :: "'o TableContext \<Rightarrow> ('o, string, string) builder" where
  "TableFSM_builder I = build
    [b_State TableStateAvailable [Initial],
     b_State TableStateOccupied [],
     b_State TableStateReserved [],
     b_State TableStateCleaning [],
     b_State TableStateOutOfService [Terminal],
     b_Transition TableStateAvailable TableEventSeat TableStateOccupied
       [Effect (\<lambda>ob e. (tc_SetStatus I TableStateOccupied ob, None))],
     b_Transition TableStateAvailable TableEventReserve TableStateReserved
       [Effect (\<lambda>ob e. (tc_SetStatus I TableStateReserved ob, None))],
     b_Transition TableStateReserved TableEventArrive TableStateOccupied
       [Effect (\<lambda>ob e. (tc_SetStatus I TableStateOccupied ob, None))],
     b_Transition TableStateOccupied TableEventRelease TableStateCleaning
       [Effect (\<lambda>ob e. (tc_SetStatus I TableStateCleaning ob, None))],
     b_Transition TableStateCleaning TableEventClean TableStateAvailable
       [Effect (\<lambda>ob e. (tc_SetStatus I TableStateAvailable ob, None))],
     b_Transition TableStateAvailable TableEventDisable TableStateOutOfService
       [Effect (\<lambda>ob e. (tc_SetStatus I TableStateOutOfService ob, None))],
     b_Transition TableStateOccupied TableEventDisable TableStateOutOfService
       [Effect (\<lambda>ob e. (tc_SetStatus I TableStateOutOfService ob, None))],
     b_Transition TableStateReserved TableEventDisable TableStateOutOfService
       [Effect (\<lambda>ob e. (tc_SetStatus I TableStateOutOfService ob, None))],
     b_Transition TableStateCleaning TableEventDisable TableStateOutOfService
       [Effect (\<lambda>ob e. (tc_SetStatus I TableStateOutOfService ob, None))]]"

definition TableFSM :: "'o TableContext \<Rightarrow> ('o, string, string) fsm_definition" where
  "TableFSM I = the (MustCompile (TableFSM_builder I))"

lemma TableFSM_declared: "well_declared (TableFSM_builder I)"
  by (simp add: well_declared_def TableFSM_builder_def builder_simps state_names)

text \<open>The package variable's \<open>MustCompile\<close> does not panic.\<close>

lemma TableFSM_compiles: "MustCompile (TableFSM_builder I) = Some (TableFSM I)"
  using well_declared_MustCompile [OF TableFSM_declared]
  by (simp add: TableFSM_def MustCompile_Inr)

lemmas TableFSM_Inr = TableFSM_compiles [unfolded MustCompile_Inr]

lemma TableFSM_quiet: "quiet_builder (TableFSM_builder I)"
  by (simp add: quiet_builder_def quiet_transition_def TableFSM_builder_def builder_simps Let_def)

lemma table_distinct:
  "distinct [TableStateAvailable, TableStateOccupied, TableStateReserved, TableStateCleaning, TableStateOutOfService]"
  "distinct [TableEventSeat, TableEventReserve, TableEventArrive, TableEventRelease, TableEventClean, TableEventDisable]"
  by (simp_all add: state_names)

text \<open>The edges, as a table.\<close>

definition table_edges :: "(string \<times> string \<times> string) list" where
  "table_edges =
    [(TableStateAvailable, TableEventSeat, TableStateOccupied),
     (TableStateAvailable, TableEventReserve, TableStateReserved),
     (TableStateReserved, TableEventArrive, TableStateOccupied),
     (TableStateOccupied, TableEventRelease, TableStateCleaning),
     (TableStateCleaning, TableEventClean, TableStateAvailable),
     (TableStateAvailable, TableEventDisable, TableStateOutOfService),
     (TableStateOccupied, TableEventDisable, TableStateOutOfService),
     (TableStateReserved, TableEventDisable, TableStateOutOfService),
     (TableStateCleaning, TableEventDisable, TableStateOutOfService)]"

lemma TableFSM_edge: "edge (TableFSM I) a e c \<longleftrightarrow> (a, e, c) \<in> set table_edges"
  unfolding compiled_edge [OF TableFSM_Inr]
  by (simp add: TableFSM_builder_def builder_simps table_edges_def disj_ac)

lemma TableFSM_IsTerminal: "d_IsTerminal (TableFSM I) s \<longleftrightarrow> s \<in> {TableStateOutOfService}"
  by (simp add: d_IsTerminal_def Compile_Inr(1) [OF TableFSM_Inr] TableFSM_builder_def builder_simps state_names)

lemma TableFSM_setter: "setter_definition (TableFSM I) (tc_SetStatus I)"
  by (rule setter_compiled [OF TableFSM_Inr TableFSM_quiet])
    (simp add: TableFSM_builder_def builder_simps)

interpretation table_fsm: setter_definition "TableFSM I" "tc_SetStatus I" for I
  by (rule TableFSM_setter)

section \<open>Turning a table over\<close>

lemma TableFSM_targets:
  "target (TableFSM I) TableStateAvailable TableEventSeat = TableStateOccupied"
  "target (TableFSM I) TableStateReserved TableEventArrive = TableStateOccupied"
  "target (TableFSM I) TableStateOccupied TableEventRelease = TableStateCleaning"
  "target (TableFSM I) TableStateCleaning TableEventClean = TableStateAvailable"
  by (rule edge_target; simp add: TableFSM_edge table_edges_def)+

lemma table_edges_into:
  "edge (TableFSM I) a e TableStateAvailable \<Longrightarrow> a = TableStateCleaning \<and> e = TableEventClean"
  "edge (TableFSM I) a e TableStateCleaning \<Longrightarrow> a = TableStateOccupied \<and> e = TableEventRelease"
  by (simp_all add: TableFSM_edge table_edges_def state_names)

text \<open>
  A machine started on an occupied table that has become available again committed, as its
  last two events, the release of the table and its cleaning.
\<close>

theorem table_turnover:
  assumes "New (TableFSM I) ob TableStateOccupied = Some m"
    and "m_current (run_sends m ins) = TableStateAvailable"
  shows "\<exists>earlier. map step_of (run_log m ins) =
    earlier @ [(TableStateOccupied, TableEventRelease, TableStateCleaning),
               (TableStateCleaning, TableEventClean, TableStateAvailable)]"
proof -
  have ne: "TableStateOccupied \<noteq> TableStateAvailable" "TableStateOccupied \<noteq> TableStateCleaning"
    by (simp_all add: state_names)
  obtain s1 where 1: "map step_of (run_log m ins) = s1 @ [(TableStateCleaning, TableEventClean, TableStateAvailable)]"
    "path (TableFSM I) TableStateOccupied s1 TableStateCleaning"
    using path_only_into [OF run_path_New [OF assms(1), of ins, unfolded assms(2)] ne(1) table_edges_into(1) [of I]]
    by metis
  obtain s2 where "s1 = s2 @ [(TableStateOccupied, TableEventRelease, TableStateCleaning)]"
    using path_only_into [OF 1(2) ne(2) table_edges_into(2) [of I]] by metis
  with 1 show ?thesis by simp
qed

end
