(* ===== verification/FSM_Payment.thy ===== *)
theory FSM_Payment
  imports FSM_Fire
begin

text \<open>
  The payment machine of \<open>utils/FSM.go\<close>.
\<close>

definition PaymentStatePendingQR :: string where [state_names]: "PaymentStatePendingQR = ''pending_qr''"
definition PaymentStateAwaitingConfirm :: string where [state_names]: "PaymentStateAwaitingConfirm = ''awaiting_confirm''"
definition PaymentStateConfirmed :: string where [state_names]: "PaymentStateConfirmed = ''confirmed''"
definition PaymentStateFailed :: string where [state_names]: "PaymentStateFailed = ''failed''"
definition PaymentStateRefunded :: string where [state_names]: "PaymentStateRefunded = ''refunded''"

definition PaymentEventQRScanned :: string where [state_names]: "PaymentEventQRScanned = ''qr_scanned''"
definition PaymentEventReceived :: string where [state_names]: "PaymentEventReceived = ''payment_received''"
definition PaymentEventFail :: string where [state_names]: "PaymentEventFail = ''fail''"
definition PaymentEventExpire :: string where [state_names]: "PaymentEventExpire = ''expire''"
definition PaymentEventRefund :: string where [state_names]: "PaymentEventRefund = ''refund''"

text \<open>The interface a payment record gives the machine.\<close>

record 'o PaymentContext =
  pc_GetPaymentID :: "'o \<Rightarrow> string"
  pc_SetStatus :: "string \<Rightarrow> 'o \<Rightarrow> 'o"
  pc_GetAmount :: "'o \<Rightarrow> f64"
  pc_GetFailureReason :: "'o \<Rightarrow> string"
  pc_SetFailureReason :: "string \<Rightarrow> 'o \<Rightarrow> 'o"

definition payment_fail_effect :: "'o PaymentContext \<Rightarrow> ('o, string) effect_func" where
  "payment_fail_effect I ob e =
     (let ob = pc_SetStatus I PaymentStateFailed ob
      in (case meta_get e ''failure_reason'' of
            Some reason \<Rightarrow> pc_SetFailureReason I reason ob | None \<Rightarrow> ob, None))"

definition payment_refund_guard :: "'o PaymentContext \<Rightarrow> ('o, string) guard_func" where
  "payment_refund_guard I ob e =
     (ob, if meta_get e ''manager_approved'' \<noteq> Some ''true''
          then Some ''refund requires manager_approved=true in envelope metadata'' else None)"

definition PaymentFSM_builder :: "'o PaymentContext \<Rightarrow> ('o, string, string) builder" where
  "PaymentFSM_builder I = build
    [b_State PaymentStatePendingQR [Initial],
     b_State PaymentStateAwaitingConfirm [],
     b_State PaymentStateConfirmed [],
     b_State PaymentStateFailed [Terminal],
     b_State PaymentStateRefunded [Terminal],
     b_Transition PaymentStatePendingQR PaymentEventQRScanned PaymentStateAwaitingConfirm
       [Describe (''Fonepay callback received '' @ em_dash @ '' verifying''),
        Effect (\<lambda>ob e. (pc_SetStatus I PaymentStateAwaitingConfirm ob, None))],
     b_Transition PaymentStateAwaitingConfirm PaymentEventReceived PaymentStateConfirmed
       [Describe ''Payment verified by Fonepay'',
        Effect (\<lambda>ob e. (pc_SetStatus I PaymentStateConfirmed ob, None))],
     b_Transition PaymentStateAwaitingConfirm PaymentEventFail PaymentStateFailed
       [Describe ''Fonepay verification returned failure'',
        Effect (payment_fail_effect I)],
     b_Transition PaymentStatePendingQR PaymentEventExpire PaymentStateFailed
       [Describe ''QR expired without scan'',
        Effect (\<lambda>ob e. (pc_SetFailureReason I ''QR code expired'' (pc_SetStatus I PaymentStateFailed ob), None))],
     b_Transition PaymentStatePendingQR PaymentEventFail PaymentStateFailed
       [Describe ''Payment explicitly failed or cancelled'',
        Effect (payment_fail_effect I)],
     b_Transition PaymentStateConfirmed PaymentEventRefund PaymentStateRefunded
       [Describe ''Confirmed payment refunded'',
        Guard (payment_refund_guard I),
        Effect (\<lambda>ob e. (pc_SetStatus I PaymentStateRefunded ob, None))]]"

definition PaymentFSM :: "'o PaymentContext \<Rightarrow> ('o, string, string) fsm_definition" where
  "PaymentFSM I = the (MustCompile (PaymentFSM_builder I))"

lemma PaymentFSM_declared: "well_declared (PaymentFSM_builder I)"
  by (simp add: well_declared_def PaymentFSM_builder_def builder_simps state_names)

text \<open>The package variable's \<open>MustCompile\<close> does not panic.\<close>

lemma PaymentFSM_compiles: "MustCompile (PaymentFSM_builder I) = Some (PaymentFSM I)"
  using well_declared_MustCompile [OF PaymentFSM_declared]
  by (simp add: PaymentFSM_def MustCompile_Inr)

lemmas PaymentFSM_Inr = PaymentFSM_compiles [unfolded MustCompile_Inr]

lemma PaymentFSM_quiet: "quiet_builder (PaymentFSM_builder I)"
  by (simp add: quiet_builder_def quiet_transition_def PaymentFSM_builder_def builder_simps Let_def payment_fail_effect_def payment_refund_guard_def)

lemma payment_distinct:
  "distinct [PaymentStatePendingQR, PaymentStateAwaitingConfirm, PaymentStateConfirmed, PaymentStateFailed, PaymentStateRefunded]"
  "distinct [PaymentEventQRScanned, PaymentEventReceived, PaymentEventFail, PaymentEventExpire, PaymentEventRefund]"
  by (simp_all add: state_names)

text \<open>The edges, as a table.\<close>

definition payment_edges :: "(string \<times> string \<times> string) list" where
  "payment_edges =
    [(PaymentStatePendingQR, PaymentEventQRScanned, PaymentStateAwaitingConfirm),
     (PaymentStateAwaitingConfirm, PaymentEventReceived, PaymentStateConfirmed),
     (PaymentStateAwaitingConfirm, PaymentEventFail, PaymentStateFailed),
     (PaymentStatePendingQR, PaymentEventExpire, PaymentStateFailed),
     (PaymentStatePendingQR, PaymentEventFail, PaymentStateFailed),
     (PaymentStateConfirmed, PaymentEventRefund, PaymentStateRefunded)]"

lemma PaymentFSM_edge: "edge (PaymentFSM I) a e c \<longleftrightarrow> (a, e, c) \<in> set payment_edges"
  unfolding compiled_edge [OF PaymentFSM_Inr]
  by (simp add: PaymentFSM_builder_def builder_simps payment_edges_def disj_ac)

lemma PaymentFSM_IsTerminal: "d_IsTerminal (PaymentFSM I) s \<longleftrightarrow> s \<in> {PaymentStateFailed, PaymentStateRefunded}"
  by (simp add: d_IsTerminal_def Compile_Inr(1) [OF PaymentFSM_Inr] PaymentFSM_builder_def builder_simps state_names)

interpretation payment_fsm: quiet_definition "PaymentFSM I" for I
  by (rule quiet_compiled [OF PaymentFSM_Inr PaymentFSM_quiet])

section \<open>When a payment may be refunded, and what a failure records\<close>

lemma PaymentFSM_targets:
  "target (PaymentFSM I) PaymentStatePendingQR PaymentEventQRScanned = PaymentStateAwaitingConfirm"
  "target (PaymentFSM I) PaymentStateAwaitingConfirm PaymentEventReceived = PaymentStateConfirmed"
  "target (PaymentFSM I) PaymentStateAwaitingConfirm PaymentEventFail = PaymentStateFailed"
  "target (PaymentFSM I) PaymentStatePendingQR PaymentEventFail = PaymentStateFailed"
  "target (PaymentFSM I) PaymentStatePendingQR PaymentEventExpire = PaymentStateFailed"
  "target (PaymentFSM I) PaymentStateConfirmed PaymentEventRefund = PaymentStateRefunded"
  by (rule edge_target; simp add: PaymentFSM_edge payment_edges_def)+

lemma payment_scan_effect:
  assumes "env_Event env = PaymentEventQRScanned"
  shows "effect_of (PaymentFSM I) PaymentStatePendingQR env ob = pc_SetStatus I PaymentStateAwaitingConfirm ob"
  using assms
  by (subst effect_of_effects [OF PaymentFSM_Inr, where
        fs = "[\<lambda>ob e. (pc_SetStatus I PaymentStateAwaitingConfirm ob, None)]"])
    (auto simp: PaymentFSM_builder_def builder_simps)

lemma payment_receive_effect:
  assumes "env_Event env = PaymentEventReceived"
  shows "effect_of (PaymentFSM I) PaymentStateAwaitingConfirm env ob = pc_SetStatus I PaymentStateConfirmed ob"
  using assms
  by (subst effect_of_effects [OF PaymentFSM_Inr, where
        fs = "[\<lambda>ob e. (pc_SetStatus I PaymentStateConfirmed ob, None)]"])
    (auto simp: PaymentFSM_builder_def builder_simps)

lemma payment_fail_effect_of:
  assumes "env_Event env = PaymentEventFail" and "st = PaymentStatePendingQR \<or> st = PaymentStateAwaitingConfirm"
  shows "effect_of (PaymentFSM I) st env ob = fst (payment_fail_effect I ob env)"
  using assms
  by (subst effect_of_effects [OF PaymentFSM_Inr, where
        fs = "[payment_fail_effect I]"])
    (auto simp: PaymentFSM_builder_def builder_simps)

lemma payment_expire_effect:
  assumes "env_Event env = PaymentEventExpire"
  shows "effect_of (PaymentFSM I) PaymentStatePendingQR env ob = 
     pc_SetFailureReason I ''QR code expired'' (pc_SetStatus I PaymentStateFailed ob)"
  using assms
  by (subst effect_of_effects [OF PaymentFSM_Inr, where
        fs = "[\<lambda>ob e. (pc_SetFailureReason I ''QR code expired'' (pc_SetStatus I PaymentStateFailed ob), None)]"])
    (auto simp: PaymentFSM_builder_def builder_simps)

lemma payment_refund_effect:
  assumes "env_Event env = PaymentEventRefund"
  shows "effect_of (PaymentFSM I) PaymentStateConfirmed env ob = pc_SetStatus I PaymentStateRefunded ob"
  using assms
  by (subst effect_of_effects [OF PaymentFSM_Inr, where
        fs = "[\<lambda>ob e. (pc_SetStatus I PaymentStateRefunded ob, None)]"])
    (auto simp: PaymentFSM_builder_def builder_simps)

lemmas PaymentFSM_effects = payment_scan_effect payment_receive_effect payment_fail_effect_of
  payment_expire_effect payment_refund_effect

lemma PaymentFSM_refusal:
  assumes "edge (PaymentFSM I) st (env_Event env) c"
  shows "refusal (PaymentFSM I) ob st env =
    (if env_Event env = PaymentEventRefund
     then map_option (\<lambda>e. TransitionError PaymentStateConfirmed PaymentStateRefunded PaymentEventRefund
                            PhaseGuard (GuardRejected e))
            (snd (payment_refund_guard I ob env))
     else None)"
proof -
  obtain gs where gs: "\<exists>t \<in> set (b_transitions (PaymentFSM_builder I)).
      td_from t = st \<and> td_event t = env_Event env \<and> td_to t = c \<and> guards t = gs"
    and cases: "env_Event env = PaymentEventRefund \<and> st = PaymentStateConfirmed
        \<and> c = PaymentStateRefunded \<and> gs = [payment_refund_guard I]
      \<or> env_Event env \<noteq> PaymentEventRefund \<and> gs = []"
    using assms unfolding PaymentFSM_edge payment_edges_def
    by (auto simp: PaymentFSM_builder_def builder_simps state_names)
  have "b_globalGuards (PaymentFSM_builder I) = []" by (simp add: PaymentFSM_builder_def builder_simps)
  note r = refusal_guards [OF PaymentFSM_Inr this gs, of ob]
  from cases r show ?thesis by auto
qed

text \<open>
  A confirmed payment is refunded exactly when the envelope carries manager_approved=true;
  no other metadata, and no other state, lets a refund through.
\<close>

theorem payment_refund_guarded:
  assumes "env_Event env = PaymentEventRefund"
  shows "fire (PaymentFSM I) ob st env t0 t1 = (ob', Returned None) \<longleftrightarrow>
      st = PaymentStateConfirmed \<and> meta_get env ''manager_approved'' = Some ''true''
      \<and> ob' = pc_SetStatus I PaymentStateRefunded ob"
proof (cases "st = PaymentStateConfirmed")
  case True
  have "edge (PaymentFSM I) st (env_Event env) PaymentStateRefunded"
    using True assms by (simp add: PaymentFSM_edge payment_edges_def)
  from PaymentFSM_refusal [OF this, of ob] show ?thesis
    using True assms by (auto simp: payment_fsm.fire_success_iff enabled_def payment_refund_guard_def PaymentFSM_effects)
next
  case False
  have "\<not> edge (PaymentFSM I) st PaymentEventRefund c" for c
    using False by (simp add: PaymentFSM_edge payment_edges_def state_names)
  then have "\<not> enabled (PaymentFSM I) ob st env" using enabled_edge assms by metis
  with False show ?thesis by (simp add: payment_fsm.fire_success_iff)
qed

section \<open>The life of a payment\<close>

definition payment_rank :: "string \<Rightarrow> nat" where
  "payment_rank s =
     (if s = PaymentStatePendingQR then 0 else if s = PaymentStateAwaitingConfirm then 1
      else if s = PaymentStateConfirmed then 2 else 3)"

lemma PaymentFSM_ranked: "ranked (PaymentFSM I) payment_rank"
proof -
  have "\<forall>(a, e, b) \<in> set payment_edges. payment_rank a < payment_rank b"
    by (simp add: payment_edges_def payment_rank_def state_names)
  then show ?thesis by (auto simp: ranked_def PaymentFSM_edge)
qed

lemma payment_edges_into:
  "edge (PaymentFSM I) a e PaymentStateAwaitingConfirm \<Longrightarrow> a = PaymentStatePendingQR \<and> e = PaymentEventQRScanned"
  "edge (PaymentFSM I) a e PaymentStateConfirmed \<Longrightarrow> a = PaymentStateAwaitingConfirm \<and> e = PaymentEventReceived"
  "edge (PaymentFSM I) a e PaymentStateRefunded \<Longrightarrow> a = PaymentStateConfirmed \<and> e = PaymentEventRefund"
  by (simp_all add: PaymentFSM_edge payment_edges_def state_names)

lemma payment_path_confirmed:
  assumes "path (PaymentFSM I) PaymentStatePendingQR steps PaymentStateConfirmed"
  shows "map (fst \<circ> snd) steps = [PaymentEventQRScanned, PaymentEventReceived]"
proof -
  have ne: "PaymentStatePendingQR \<noteq> PaymentStateConfirmed" "PaymentStatePendingQR \<noteq> PaymentStateAwaitingConfirm"
    by (simp_all add: state_names)
  obtain s1 where 1: "steps = s1 @ [(PaymentStateAwaitingConfirm, PaymentEventReceived, PaymentStateConfirmed)]"
    "path (PaymentFSM I) PaymentStatePendingQR s1 PaymentStateAwaitingConfirm"
    using path_only_into [OF assms ne(1) payment_edges_into(2) [of I]] by metis
  obtain s2 where 2: "s1 = s2 @ [(PaymentStatePendingQR, PaymentEventQRScanned, PaymentStateAwaitingConfirm)]"
    "path (PaymentFSM I) PaymentStatePendingQR s2 PaymentStatePendingQR"
    using path_only_into [OF 1(2) ne(2) payment_edges_into(1) [of I]] by metis
  have "s2 = []" by (rule path_rank_Nil [OF PaymentFSM_ranked 2(2)])
  with 1 2 show ?thesis by simp
qed

lemma payment_path_refunded:
  assumes "path (PaymentFSM I) PaymentStatePendingQR steps PaymentStateRefunded"
  shows "map (fst \<circ> snd) steps = [PaymentEventQRScanned, PaymentEventReceived, PaymentEventRefund]"
proof -
  have ne: "PaymentStatePendingQR \<noteq> PaymentStateRefunded" by (simp add: state_names)
  obtain s1 where "steps = s1 @ [(PaymentStateConfirmed, PaymentEventRefund, PaymentStateRefunded)]"
    "path (PaymentFSM I) PaymentStatePendingQR s1 PaymentStateConfirmed"
    using path_only_into [OF assms ne payment_edges_into(3) [of I]] by metis
  then show ?thesis using payment_path_confirmed [of I s1] by (simp add: comp_def)
qed

text \<open>
  A payment machine started on a fresh QR commits at most three transitions; it is confirmed
  only after the scan and the verified receipt, and refunded only after both and a refund.
\<close>

theorem payment_life_cycle:
  assumes "New (PaymentFSM I) ob PaymentStatePendingQR = Some m"
  shows "length (run_log m ins) \<le> 3
    \<and> (m_current (run_sends m ins) = PaymentStateConfirmed \<longrightarrow>
         map (env_Event \<circ> rec_Event) (run_log m ins) = [PaymentEventQRScanned, PaymentEventReceived])
    \<and> (m_current (run_sends m ins) = PaymentStateRefunded \<longrightarrow>
         map (env_Event \<circ> rec_Event) (run_log m ins)
           = [PaymentEventQRScanned, PaymentEventReceived, PaymentEventRefund])"
proof (intro conjI impI)
  note p = run_path_New [OF assms, of ins]
  have "payment_rank (m_current (run_sends m ins)) \<le> 3" by (simp add: payment_rank_def)
  then show "length (run_log m ins) \<le> 3" using run_rank [OF PaymentFSM_ranked assms, of ins] by simp
  show "map (env_Event \<circ> rec_Event) (run_log m ins) = [PaymentEventQRScanned, PaymentEventReceived]"
    if "m_current (run_sends m ins) = PaymentStateConfirmed"
    using payment_path_confirmed [OF p [unfolded that]] by (simp add: step_of_def comp_def)
  show "map (env_Event \<circ> rec_Event) (run_log m ins)
      = [PaymentEventQRScanned, PaymentEventReceived, PaymentEventRefund]"
    if "m_current (run_sends m ins) = PaymentStateRefunded"
    using payment_path_refunded [OF p [unfolded that]] by (simp add: step_of_def comp_def)
qed

end
