(* ===== verification/FSM_PurchaseOrder.thy ===== *)
theory FSM_PurchaseOrder
  imports FSM_Fire
begin

text \<open>
  The purchase-order machine of \<open>utils/FSM.go\<close>.
\<close>

definition POStateDraft :: string where [state_names]: "POStateDraft = ''draft''"
definition POStateSubmitted :: string where [state_names]: "POStateSubmitted = ''submitted''"
definition POStateApproved :: string where [state_names]: "POStateApproved = ''approved''"
definition POStatePartiallyReceived :: string where [state_names]: "POStatePartiallyReceived = ''partially_received''"
definition POStateReceived :: string where [state_names]: "POStateReceived = ''received''"
definition POStateCancelled :: string where [state_names]: "POStateCancelled = ''cancelled''"

definition POEventSubmit :: string where [state_names]: "POEventSubmit = ''submit''"
definition POEventApprove :: string where [state_names]: "POEventApprove = ''approve''"
definition POEventReceivePartial :: string where [state_names]: "POEventReceivePartial = ''receive_partial''"
definition POEventReceiveFull :: string where [state_names]: "POEventReceiveFull = ''receive_full''"
definition POEventCancel :: string where [state_names]: "POEventCancel = ''cancel''"

text \<open>The interface a purchase order gives the machine.\<close>

record 'o PurchaseOrderContext =
  poc_GetPOID :: "'o \<Rightarrow> string"
  poc_GetTotalAmount :: "'o \<Rightarrow> f64"
  poc_SetStatus :: "string \<Rightarrow> 'o \<Rightarrow> 'o"

definition po_submit_guard :: "'o PurchaseOrderContext \<Rightarrow> ('o, string) guard_func" where
  "po_submit_guard I ob e =
     (ob, if f_le (poc_GetTotalAmount I ob) f_zero
          then Some ''cannot submit purchase order with zero total'' else None)"

definition PurchaseOrderFSM_builder :: "'o PurchaseOrderContext \<Rightarrow> ('o, string, string) builder" where
  "PurchaseOrderFSM_builder I = build
    [b_State POStateDraft [Initial],
     b_State POStateSubmitted [],
     b_State POStateApproved [],
     b_State POStatePartiallyReceived [],
     b_State POStateReceived [Terminal],
     b_State POStateCancelled [Terminal],
     b_Transition POStateDraft POEventSubmit POStateSubmitted
       [Guard (po_submit_guard I),
        Effect (\<lambda>ob e. (poc_SetStatus I POStateSubmitted ob, None))],
     b_Transition POStateSubmitted POEventApprove POStateApproved
       [Effect (\<lambda>ob e. (poc_SetStatus I POStateApproved ob, None))],
     b_Transition POStateApproved POEventReceivePartial POStatePartiallyReceived
       [Effect (\<lambda>ob e. (poc_SetStatus I POStatePartiallyReceived ob, None))],
     b_Transition POStatePartiallyReceived POEventReceiveFull POStateReceived
       [Effect (\<lambda>ob e. (poc_SetStatus I POStateReceived ob, None))],
     b_Transition POStateApproved POEventReceiveFull POStateReceived
       [Effect (\<lambda>ob e. (poc_SetStatus I POStateReceived ob, None))],
     b_Transition POStateDraft POEventCancel POStateCancelled
       [Effect (\<lambda>ob e. (poc_SetStatus I POStateCancelled ob, None))],
     b_Transition POStateSubmitted POEventCancel POStateCancelled
       [Effect (\<lambda>ob e. (poc_SetStatus I POStateCancelled ob, None))]]"

definition PurchaseOrderFSM :: "'o PurchaseOrderContext \<Rightarrow> ('o, string, string) fsm_definition" where
  "PurchaseOrderFSM I = the (MustCompile (PurchaseOrderFSM_builder I))"

lemma PurchaseOrderFSM_declared: "well_declared (PurchaseOrderFSM_builder I)"
  by (simp add: well_declared_def PurchaseOrderFSM_builder_def builder_simps state_names)

text \<open>The package variable's \<open>MustCompile\<close> does not panic.\<close>

lemma PurchaseOrderFSM_compiles: "MustCompile (PurchaseOrderFSM_builder I) = Some (PurchaseOrderFSM I)"
  using well_declared_MustCompile [OF PurchaseOrderFSM_declared]
  by (simp add: PurchaseOrderFSM_def MustCompile_Inr)

lemmas PurchaseOrderFSM_Inr = PurchaseOrderFSM_compiles [unfolded MustCompile_Inr]

lemma PurchaseOrderFSM_quiet: "quiet_builder (PurchaseOrderFSM_builder I)"
  by (simp add: quiet_builder_def quiet_transition_def PurchaseOrderFSM_builder_def builder_simps Let_def po_submit_guard_def)

lemma po_distinct:
  "distinct [POStateDraft, POStateSubmitted, POStateApproved, POStatePartiallyReceived, POStateReceived, POStateCancelled]"
  "distinct [POEventSubmit, POEventApprove, POEventReceivePartial, POEventReceiveFull, POEventCancel]"
  by (simp_all add: state_names)

text \<open>The edges, as a table.\<close>

definition po_edges :: "(string \<times> string \<times> string) list" where
  "po_edges =
    [(POStateDraft, POEventSubmit, POStateSubmitted),
     (POStateSubmitted, POEventApprove, POStateApproved),
     (POStateApproved, POEventReceivePartial, POStatePartiallyReceived),
     (POStatePartiallyReceived, POEventReceiveFull, POStateReceived),
     (POStateApproved, POEventReceiveFull, POStateReceived),
     (POStateDraft, POEventCancel, POStateCancelled),
     (POStateSubmitted, POEventCancel, POStateCancelled)]"

lemma PurchaseOrderFSM_edge: "edge (PurchaseOrderFSM I) a e c \<longleftrightarrow> (a, e, c) \<in> set po_edges"
  unfolding compiled_edge [OF PurchaseOrderFSM_Inr]
  by (simp add: PurchaseOrderFSM_builder_def builder_simps po_edges_def disj_ac)

lemma PurchaseOrderFSM_IsTerminal: "d_IsTerminal (PurchaseOrderFSM I) s \<longleftrightarrow> s \<in> {POStateReceived, POStateCancelled}"
  by (simp add: d_IsTerminal_def Compile_Inr(1) [OF PurchaseOrderFSM_Inr] PurchaseOrderFSM_builder_def builder_simps state_names)

lemma PurchaseOrderFSM_setter: "setter_definition (PurchaseOrderFSM I) (poc_SetStatus I)"
  by (rule setter_compiled [OF PurchaseOrderFSM_Inr PurchaseOrderFSM_quiet])
    (simp add: PurchaseOrderFSM_builder_def builder_simps)

interpretation po_fsm: setter_definition "PurchaseOrderFSM I" "poc_SetStatus I" for I
  by (rule PurchaseOrderFSM_setter)

section \<open>Submission\<close>

lemma PurchaseOrderFSM_targets:
  "target (PurchaseOrderFSM I) POStateDraft POEventSubmit = POStateSubmitted"
  "target (PurchaseOrderFSM I) POStateSubmitted POEventApprove = POStateApproved"
  "target (PurchaseOrderFSM I) POStateApproved POEventReceivePartial = POStatePartiallyReceived"
  "target (PurchaseOrderFSM I) POStateApproved POEventReceiveFull = POStateReceived"
  "target (PurchaseOrderFSM I) POStatePartiallyReceived POEventReceiveFull = POStateReceived"
  by (rule edge_target; simp add: PurchaseOrderFSM_edge po_edges_def)+

lemma po_submit_refusal:
  assumes "env_Event env = POEventSubmit"
  shows "refusal (PurchaseOrderFSM I) ob POStateDraft env =
    map_option (\<lambda>e. TransitionError POStateDraft POStateSubmitted POEventSubmit PhaseGuard (GuardRejected e))
      (snd (po_submit_guard I ob env))"
  using assms
  by (subst refusal_guards [OF PurchaseOrderFSM_Inr, where c = POStateSubmitted and gs = "[po_submit_guard I]"])
    (simp_all add: PurchaseOrderFSM_builder_def builder_simps)

lemma po_submit_fire:
  assumes "env_Event env = POEventSubmit"
  shows "fire (PurchaseOrderFSM I) ob POStateDraft env t0 t1 =
     (if f_le (poc_GetTotalAmount I ob) f_zero
      then (ob, Returned (Some (TransitionError POStateDraft POStateSubmitted POEventSubmit PhaseGuard
             (GuardRejected ''cannot submit purchase order with zero total''))))
      else (poc_SetStatus I POStateSubmitted ob, Returned None))"
  using po_fsm.effect_of_set [of I ob POStateDraft env] assms
  by (auto simp: po_fsm.fire_char po_submit_refusal po_submit_guard_def enabled_def PurchaseOrderFSM_targets)

section \<open>The life of a purchase order\<close>

definition po_rank :: "string \<Rightarrow> nat" where
  "po_rank s =
     (if s = POStateDraft then 0 else if s = POStateSubmitted then 1 else if s = POStateApproved then 2
      else if s = POStatePartiallyReceived then 3 else 4)"

lemma PurchaseOrderFSM_ranked: "ranked (PurchaseOrderFSM I) po_rank"
proof -
  have "\<forall>(a, e, b) \<in> set po_edges. po_rank a < po_rank b"
    by (simp add: po_edges_def po_rank_def state_names)
  then show ?thesis by (auto simp: ranked_def PurchaseOrderFSM_edge)
qed

definition po_goods_arrived :: "string \<Rightarrow> bool" where
  "po_goods_arrived s \<longleftrightarrow> s \<in> {POStatePartiallyReceived, POStateReceived}"

lemma po_edges_into:
  "edge (PurchaseOrderFSM I) a e POStateApproved \<Longrightarrow> a = POStateSubmitted \<and> e = POEventApprove"
  "edge (PurchaseOrderFSM I) a e POStateSubmitted \<Longrightarrow> a = POStateDraft \<and> e = POEventSubmit"
  "edge (PurchaseOrderFSM I) a e POStatePartiallyReceived \<Longrightarrow> a = POStateApproved \<and> e = POEventReceivePartial"
  by (simp_all add: PurchaseOrderFSM_edge po_edges_def state_names)

lemma po_path_approved:
  assumes "path (PurchaseOrderFSM I) POStateDraft steps POStateApproved"
  shows "map (fst \<circ> snd) steps = [POEventSubmit, POEventApprove]"
proof -
  have ne: "POStateDraft \<noteq> POStateApproved" "POStateDraft \<noteq> POStateSubmitted" by (simp_all add: state_names)
  obtain s1 where 1: "steps = s1 @ [(POStateSubmitted, POEventApprove, POStateApproved)]"
    "path (PurchaseOrderFSM I) POStateDraft s1 POStateSubmitted"
    using path_only_into [OF assms ne(1) po_edges_into(1) [of I]] by metis
  obtain s2 where 2: "s1 = s2 @ [(POStateDraft, POEventSubmit, POStateSubmitted)]"
    "path (PurchaseOrderFSM I) POStateDraft s2 POStateDraft"
    using path_only_into [OF 1(2) ne(2) po_edges_into(2) [of I]] by metis
  have "s2 = []" by (rule path_rank_Nil [OF PurchaseOrderFSM_ranked 2(2)])
  with 1 2 show ?thesis by simp
qed

lemma take_2_append: "take 2 xs = [a, b] \<Longrightarrow> take 2 (xs @ ys) = [a, b]"
  by (cases xs; cases "tl xs") auto

lemma po_path_goods:
  assumes "path (PurchaseOrderFSM I) POStateDraft steps st" and "po_goods_arrived st"
  shows "take 2 (map (fst \<circ> snd) steps) = [POEventSubmit, POEventApprove]"
proof -
  have pre: "take 2 (map (fst \<circ> snd) ss) = [POEventSubmit, POEventApprove]"
    if p: "path (PurchaseOrderFSM I) POStateDraft ss x" and "x = POStateApproved \<or> x = POStatePartiallyReceived"
    for ss x
    using that(2)
  proof
    assume "x = POStateApproved"
    then show ?thesis using po_path_approved p by fastforce
  next
    assume x: "x = POStatePartiallyReceived"
    have "POStateDraft \<noteq> POStatePartiallyReceived" by (simp add: state_names)
    then obtain s1 where "ss = s1 @ [(POStateApproved, POEventReceivePartial, POStatePartiallyReceived)]"
      "path (PurchaseOrderFSM I) POStateDraft s1 POStateApproved"
      using path_only_into [OF p [unfolded x] _ po_edges_into(3) [of I]] by metis
    then show ?thesis using po_path_approved [of I s1] by simp
  qed
  show ?thesis
  proof (cases "st = POStateReceived")
    case True
    have "POStateDraft \<noteq> POStateReceived" by (simp add: state_names)
    then obtain ss x e where s: "steps = ss @ [(x, e, POStateReceived)]"
      "path (PurchaseOrderFSM I) POStateDraft ss x" "edge (PurchaseOrderFSM I) x e POStateReceived"
      using path_into [OF assms(1) [unfolded True]] by metis
    from s(3) have "x = POStateApproved \<or> x = POStatePartiallyReceived"
      by (auto simp: PurchaseOrderFSM_edge po_edges_def state_names)
    from pre [OF s(2) this] show ?thesis unfolding s(1) map_append by (rule take_2_append)
  next
    case False
    then show ?thesis using pre [OF assms(1)] assms(2) by (simp add: po_goods_arrived_def)
  qed
qed

text \<open>
  Goods are booked in only on an approved order: a machine started on a draft that has
  reached partially_received or received committed submit and approve first, and a draft never
  sees more than four transitions.
\<close>

theorem po_life_cycle:
  assumes "New (PurchaseOrderFSM I) ob POStateDraft = Some m"
  shows "length (run_log m ins) \<le> 4
    \<and> (po_goods_arrived (m_current (run_sends m ins)) \<longrightarrow>
         take 2 (map (env_Event \<circ> rec_Event) (run_log m ins)) = [POEventSubmit, POEventApprove])"
proof
  have "po_rank (m_current (run_sends m ins)) \<le> 4" by (simp add: po_rank_def)
  then show "length (run_log m ins) \<le> 4" using run_rank [OF PurchaseOrderFSM_ranked assms, of ins] by simp
  show "po_goods_arrived (m_current (run_sends m ins)) \<longrightarrow>
      take 2 (map (env_Event \<circ> rec_Event) (run_log m ins)) = [POEventSubmit, POEventApprove]"
    using po_path_goods [OF run_path_New [OF assms, of ins]] by (simp add: step_of_def comp_def)
qed

end
