(* ===== verification/FSM_Inventory.thy ===== *)
theory FSM_Inventory
  imports FSM_Fire
begin

text \<open>
  The stock-level machine of \<open>utils/FSM.go\<close>.  Its state is not stored: \<open>DeriveInventoryState\<close>
  computes it from the quantity and the reorder point.
\<close>

definition InventoryStateActive :: string where [state_names]: "InventoryStateActive = ''active''"
definition InventoryStateLowStock :: string where [state_names]: "InventoryStateLowStock = ''low_stock''"
definition InventoryStateOutOfStock :: string where [state_names]: "InventoryStateOutOfStock = ''out_of_stock''"
definition InventoryStateDiscontinued :: string where [state_names]: "InventoryStateDiscontinued = ''discontinued''"

definition InventoryEventStockLow :: string where [state_names]: "InventoryEventStockLow = ''stock_low''"
definition InventoryEventStockDepleted :: string where [state_names]: "InventoryEventStockDepleted = ''stock_depleted''"
definition InventoryEventStockReplenished :: string where [state_names]: "InventoryEventStockReplenished = ''stock_replenished''"
definition InventoryEventDiscontinue :: string where [state_names]: "InventoryEventDiscontinue = ''discontinue''"
definition InventoryEventReactivate :: string where [state_names]: "InventoryEventReactivate = ''reactivate''"

text \<open>The interface an inventory item gives the machine.\<close>

record 'o InventoryItemContext =
  ic_GetItemID :: "'o \<Rightarrow> string"
  ic_GetCurrentQuantity :: "'o \<Rightarrow> f64"
  ic_GetReorderPoint :: "'o \<Rightarrow> f64 option"
  ic_SetStockStatus :: "string \<Rightarrow> 'o \<Rightarrow> 'o"
  ic_GetStockStatus :: "'o \<Rightarrow> string"

definition active_low_guard :: "'o InventoryItemContext \<Rightarrow> ('o, string) guard_func" where
  "active_low_guard I ob e =
     (ob, case ic_GetReorderPoint I ob of
        None \<Rightarrow> Some ''cannot transition to low_stock without a reorder point''
      | Some rp \<Rightarrow>
          if f_gt (ic_GetCurrentQuantity I ob) rp
          then Some (''quantity '' @ fmt_f 3 (ic_GetCurrentQuantity I ob) @ '' still above reorder point '' @ fmt_f 3 rp)
          else if f_le (ic_GetCurrentQuantity I ob) f_zero
          then Some (''quantity is zero '' @ em_dash @ '' should fire stock_depleted instead'')
          else None)"

definition active_depleted_guard :: "'o InventoryItemContext \<Rightarrow> ('o, string) guard_func" where
  "active_depleted_guard I ob e =
     (ob, if f_gt (ic_GetCurrentQuantity I ob) f_zero
          then Some (''quantity '' @ fmt_f 3 (ic_GetCurrentQuantity I ob) @ '' is not zero '' @ em_dash @ '' cannot deplete'')
          else None)"

definition low_depleted_guard :: "'o InventoryItemContext \<Rightarrow> ('o, string) guard_func" where
  "low_depleted_guard I ob e =
     (ob, if f_gt (ic_GetCurrentQuantity I ob) f_zero
          then Some (''quantity '' @ fmt_f 3 (ic_GetCurrentQuantity I ob) @ '' is not zero '' @ em_dash @ '' cannot deplete'')
          else None)"

definition low_replenished_guard :: "'o InventoryItemContext \<Rightarrow> ('o, string) guard_func" where
  "low_replenished_guard I ob e =
     (ob, case ic_GetReorderPoint I ob of
        None \<Rightarrow> None
      | Some rp \<Rightarrow>
          if f_le (ic_GetCurrentQuantity I ob) rp
          then Some (''quantity '' @ fmt_f 3 (ic_GetCurrentQuantity I ob) @ '' still at or below reorder point '' @ fmt_f 3 rp)
          else None)"

definition out_replenished_guard :: "'o InventoryItemContext \<Rightarrow> ('o, string) guard_func" where
  "out_replenished_guard I ob e =
     (ob, if f_le (ic_GetCurrentQuantity I ob) f_zero
          then Some (''cannot replenish '' @ em_dash @ '' quantity is still zero'')
          else case ic_GetReorderPoint I ob of
            None \<Rightarrow> None
          | Some rp \<Rightarrow>
              if f_le (ic_GetCurrentQuantity I ob) rp
              then Some (''quantity '' @ fmt_f 3 (ic_GetCurrentQuantity I ob) @ '' at or below reorder point '' @ fmt_f 3 rp
                         @ '' '' @ em_dash @ '' use stock_low instead'')
              else None)"

definition out_low_guard :: "'o InventoryItemContext \<Rightarrow> ('o, string) guard_func" where
  "out_low_guard I ob e =
     (ob, if f_le (ic_GetCurrentQuantity I ob) f_zero
          then Some (''quantity still zero '' @ em_dash @ '' cannot move to low_stock'')
          else case ic_GetReorderPoint I ob of
            None \<Rightarrow> None
          | Some rp \<Rightarrow>
              if f_gt (ic_GetCurrentQuantity I ob) rp
              then Some (''quantity '' @ fmt_f 3 (ic_GetCurrentQuantity I ob) @ '' above reorder point '' @ fmt_f 3 rp
                         @ '' '' @ em_dash @ '' use stock_replenished'')
              else None)"

definition InventoryItemFSM_builder :: "'o InventoryItemContext \<Rightarrow> ('o, string, string) builder" where
  "InventoryItemFSM_builder I = build
    [b_State InventoryStateActive [Initial, StateDesc ''Item is in stock above reorder point''],
     b_State InventoryStateLowStock [StateDesc (''Stock at or below reorder point '' @ em_dash @ '' replenishment needed'')],
     b_State InventoryStateOutOfStock [StateDesc ''No stock remaining''],
     b_State InventoryStateDiscontinued [Terminal, StateDesc ''Item permanently removed from active inventory''],
     b_Transition InventoryStateActive InventoryEventStockLow InventoryStateLowStock
       [Guard (active_low_guard I),
        Effect (\<lambda>ob e. (ic_SetStockStatus I InventoryStateLowStock ob, None)),
        Describe ''Stock dropped to or below reorder point''],
     b_Transition InventoryStateActive InventoryEventStockDepleted InventoryStateOutOfStock
       [Guard (active_depleted_guard I),
        Effect (\<lambda>ob e. (ic_SetStockStatus I InventoryStateOutOfStock ob, None)),
        Describe ''Stock completely depleted''],
     b_Transition InventoryStateLowStock InventoryEventStockDepleted InventoryStateOutOfStock
       [Guard (low_depleted_guard I),
        Effect (\<lambda>ob e. (ic_SetStockStatus I InventoryStateOutOfStock ob, None)),
        Describe ''Low stock fully consumed''],
     b_Transition InventoryStateLowStock InventoryEventStockReplenished InventoryStateActive
       [Guard (low_replenished_guard I),
        Effect (\<lambda>ob e. (ic_SetStockStatus I InventoryStateActive ob, None)),
        Describe ''Stock replenished above reorder point''],
     b_Transition InventoryStateOutOfStock InventoryEventStockReplenished InventoryStateActive
       [Guard (out_replenished_guard I),
        Effect (\<lambda>ob e. (ic_SetStockStatus I InventoryStateActive ob, None)),
        Describe ''Out-of-stock item fully restocked''],
     b_Transition InventoryStateOutOfStock InventoryEventStockLow InventoryStateLowStock
       [Guard (out_low_guard I),
        Effect (\<lambda>ob e. (ic_SetStockStatus I InventoryStateLowStock ob, None)),
        Describe (''Partial restock '' @ em_dash @ '' still below reorder point'')],
     b_Transition InventoryStateActive InventoryEventDiscontinue InventoryStateDiscontinued
       [Effect (\<lambda>ob e. (ic_SetStockStatus I InventoryStateDiscontinued ob, None)),
        Describe ''Item discontinued''],
     b_Transition InventoryStateLowStock InventoryEventDiscontinue InventoryStateDiscontinued
       [Effect (\<lambda>ob e. (ic_SetStockStatus I InventoryStateDiscontinued ob, None))],
     b_Transition InventoryStateOutOfStock InventoryEventDiscontinue InventoryStateDiscontinued
       [Effect (\<lambda>ob e. (ic_SetStockStatus I InventoryStateDiscontinued ob, None))]]"

definition InventoryItemFSM :: "'o InventoryItemContext \<Rightarrow> ('o, string, string) fsm_definition" where
  "InventoryItemFSM I = the (MustCompile (InventoryItemFSM_builder I))"

lemma InventoryItemFSM_declared: "well_declared (InventoryItemFSM_builder I)"
  by (simp add: well_declared_def InventoryItemFSM_builder_def builder_simps state_names)

text \<open>The package variable's \<open>MustCompile\<close> does not panic.\<close>

lemma InventoryItemFSM_compiles: "MustCompile (InventoryItemFSM_builder I) = Some (InventoryItemFSM I)"
  using well_declared_MustCompile [OF InventoryItemFSM_declared]
  by (simp add: InventoryItemFSM_def MustCompile_Inr)

lemmas InventoryItemFSM_Inr = InventoryItemFSM_compiles [unfolded MustCompile_Inr]

lemma InventoryItemFSM_quiet: "quiet_builder (InventoryItemFSM_builder I)"
  by (simp add: quiet_builder_def quiet_transition_def InventoryItemFSM_builder_def builder_simps Let_def active_low_guard_def active_depleted_guard_def low_depleted_guard_def low_replenished_guard_def out_replenished_guard_def out_low_guard_def)

lemma inventory_distinct:
  "distinct [InventoryStateActive, InventoryStateLowStock, InventoryStateOutOfStock, InventoryStateDiscontinued]"
  "distinct [InventoryEventStockLow, InventoryEventStockDepleted, InventoryEventStockReplenished, InventoryEventDiscontinue, InventoryEventReactivate]"
  by (simp_all add: state_names)

text \<open>The edges, as a table.\<close>

definition inventory_edges :: "(string \<times> string \<times> string) list" where
  "inventory_edges =
    [(InventoryStateActive, InventoryEventStockLow, InventoryStateLowStock),
     (InventoryStateActive, InventoryEventStockDepleted, InventoryStateOutOfStock),
     (InventoryStateLowStock, InventoryEventStockDepleted, InventoryStateOutOfStock),
     (InventoryStateLowStock, InventoryEventStockReplenished, InventoryStateActive),
     (InventoryStateOutOfStock, InventoryEventStockReplenished, InventoryStateActive),
     (InventoryStateOutOfStock, InventoryEventStockLow, InventoryStateLowStock),
     (InventoryStateActive, InventoryEventDiscontinue, InventoryStateDiscontinued),
     (InventoryStateLowStock, InventoryEventDiscontinue, InventoryStateDiscontinued),
     (InventoryStateOutOfStock, InventoryEventDiscontinue, InventoryStateDiscontinued)]"

lemma InventoryItemFSM_edge: "edge (InventoryItemFSM I) a e c \<longleftrightarrow> (a, e, c) \<in> set inventory_edges"
  unfolding compiled_edge [OF InventoryItemFSM_Inr]
  by (simp add: InventoryItemFSM_builder_def builder_simps inventory_edges_def disj_ac)

lemma InventoryItemFSM_IsTerminal: "d_IsTerminal (InventoryItemFSM I) s \<longleftrightarrow> s \<in> {InventoryStateDiscontinued}"
  by (simp add: d_IsTerminal_def Compile_Inr(1) [OF InventoryItemFSM_Inr] InventoryItemFSM_builder_def builder_simps state_names)

lemma InventoryItemFSM_setter: "setter_definition (InventoryItemFSM I) (ic_SetStockStatus I)"
  by (rule setter_compiled [OF InventoryItemFSM_Inr InventoryItemFSM_quiet])
    (simp add: InventoryItemFSM_builder_def builder_simps)

interpretation inventory_fsm: setter_definition "InventoryItemFSM I" "ic_SetStockStatus I" for I
  by (rule InventoryItemFSM_setter)

section \<open>The state a quantity stands for\<close>

definition DeriveInventoryState :: "f64 \<Rightarrow> f64 option \<Rightarrow> string" where
  "DeriveInventoryState currentQty reorderPoint =
     (if f_le currentQty f_zero then InventoryStateOutOfStock
      else if (case reorderPoint of Some rp \<Rightarrow> f_le currentQty rp | None \<Rightarrow> False)
      then InventoryStateLowStock
      else InventoryStateActive)"

section \<open>When a stock event is accepted\<close>

lemma active_low_enabled:
  assumes "env_Event env = InventoryEventStockLow"
  shows "enabled (InventoryItemFSM I) ob InventoryStateActive env \<longleftrightarrow> snd (active_low_guard I ob env) = None"
  using assms unfolding enabled_def
  by (subst refusal_guards [OF InventoryItemFSM_Inr, where c = InventoryStateLowStock and gs = "[active_low_guard I]"])
    (simp_all add: InventoryItemFSM_builder_def builder_simps)

lemma active_depleted_enabled:
  assumes "env_Event env = InventoryEventStockDepleted"
  shows "enabled (InventoryItemFSM I) ob InventoryStateActive env \<longleftrightarrow> snd (active_depleted_guard I ob env) = None"
  using assms unfolding enabled_def
  by (subst refusal_guards [OF InventoryItemFSM_Inr, where c = InventoryStateOutOfStock and gs = "[active_depleted_guard I]"])
    (simp_all add: InventoryItemFSM_builder_def builder_simps)

lemma low_depleted_enabled:
  assumes "env_Event env = InventoryEventStockDepleted"
  shows "enabled (InventoryItemFSM I) ob InventoryStateLowStock env \<longleftrightarrow> snd (low_depleted_guard I ob env) = None"
  using assms unfolding enabled_def
  by (subst refusal_guards [OF InventoryItemFSM_Inr, where c = InventoryStateOutOfStock and gs = "[low_depleted_guard I]"])
    (simp_all add: InventoryItemFSM_builder_def builder_simps)

lemma low_replenished_enabled:
  assumes "env_Event env = InventoryEventStockReplenished"
  shows "enabled (InventoryItemFSM I) ob InventoryStateLowStock env \<longleftrightarrow> snd (low_replenished_guard I ob env) = None"
  using assms unfolding enabled_def
  by (subst refusal_guards [OF InventoryItemFSM_Inr, where c = InventoryStateActive and gs = "[low_replenished_guard I]"])
    (simp_all add: InventoryItemFSM_builder_def builder_simps)

lemma out_replenished_enabled:
  assumes "env_Event env = InventoryEventStockReplenished"
  shows "enabled (InventoryItemFSM I) ob InventoryStateOutOfStock env \<longleftrightarrow> snd (out_replenished_guard I ob env) = None"
  using assms unfolding enabled_def
  by (subst refusal_guards [OF InventoryItemFSM_Inr, where c = InventoryStateActive and gs = "[out_replenished_guard I]"])
    (simp_all add: InventoryItemFSM_builder_def builder_simps)

lemma out_low_enabled:
  assumes "env_Event env = InventoryEventStockLow"
  shows "enabled (InventoryItemFSM I) ob InventoryStateOutOfStock env \<longleftrightarrow> snd (out_low_guard I ob env) = None"
  using assms unfolding enabled_def
  by (subst refusal_guards [OF InventoryItemFSM_Inr, where c = InventoryStateLowStock and gs = "[out_low_guard I]"])
    (simp_all add: InventoryItemFSM_builder_def builder_simps)

lemmas inventory_enabled = active_low_enabled active_depleted_enabled low_depleted_enabled 
  low_replenished_enabled out_replenished_enabled out_low_enabled

lemmas inventory_guards = active_low_guard_def active_depleted_guard_def low_depleted_guard_def 
  low_replenished_guard_def out_replenished_guard_def out_low_guard_def

lemma InventoryItemFSM_target:
  "(st, e, c) \<in> set inventory_edges \<Longrightarrow> target (InventoryItemFSM I) st e = c"
  by (rule edge_target) (simp add: InventoryItemFSM_edge)

lemma f_le_not_gt: "a \<noteq> NaN \<Longrightarrow> b \<noteq> NaN \<Longrightarrow> f_le a b \<longleftrightarrow> \<not> f_lt b a"
  by (cases a; cases b) auto

lemma f_le_trans: "f_le a b \<Longrightarrow> f_le b c \<Longrightarrow> f_le a c"
  by (cases a; cases b; cases c) auto

text \<open>
  Apart from discontinuation, a stock event that is accepted leaves the item in the state its
  quantity and reorder point stand for, the numbers being comparable.  Two guards are weaker
  than that and are excepted: stock_low on an out-of-stock item accepts a missing reorder point,
  and stock_replenished on a low-stock item does not ask for a positive quantity.
\<close>

theorem inventory_follows_quantity:
  assumes "fire (InventoryItemFSM I) ob st env t0 t1 = (ob', Returned None)"
    and "env_Event env \<noteq> InventoryEventDiscontinue"
    and "ic_GetCurrentQuantity I ob \<noteq> NaN" and "ic_GetReorderPoint I ob \<noteq> Some NaN"
    and "\<not> (st = InventoryStateOutOfStock \<and> env_Event env = InventoryEventStockLow
              \<and> ic_GetReorderPoint I ob = None)"
    and "\<not> (st = InventoryStateLowStock \<and> env_Event env = InventoryEventStockReplenished
              \<and> f_le (ic_GetCurrentQuantity I ob) f_zero)"
  shows "ob' = ic_SetStockStatus I
    (DeriveInventoryState (ic_GetCurrentQuantity I ob) (ic_GetReorderPoint I ob)) ob"
proof -
  let ?e = "env_Event env" and ?q = "ic_GetCurrentQuantity I ob" and ?rp = "ic_GetReorderPoint I ob"
  from assms(1) have en: "enabled (InventoryItemFSM I) ob st env"
    and ob': "ob' = ic_SetStockStatus I (target (InventoryItemFSM I) st ?e) ob"
    by (simp_all add: inventory_fsm.fire_set_iff)
  have ed: "(st, ?e, target (InventoryItemFSM I) st ?e) \<in> set inventory_edges"
    using enabled_edge [OF en] by (simp only: InventoryItemFSM_edge)
  have "target (InventoryItemFSM I) st ?e = DeriveInventoryState ?q ?rp"
    using ed assms(2) unfolding inventory_edges_def
    by (simp, elim disjE conjE)
      (use en assms(3-6) in \<open>auto simp: inventory_enabled inventory_guards DeriveInventoryState_def
          f_le_not_gt split: option.splits if_splits\<close>)
  with ob' show ?thesis by simp
qed

end
