(* ===== verification/FSM_Subscription.thy ===== *)
theory FSM_Subscription
  imports FSM_Fire
begin

text \<open>
  The tenant-subscription machine of \<open>utils/FSM.go\<close>.
\<close>

definition SubscriptionStateTrialing :: string where [state_names]: "SubscriptionStateTrialing = ''trialing''"
definition SubscriptionStateActive :: string where [state_names]: "SubscriptionStateActive = ''active''"
definition SubscriptionStatePastDue :: string where [state_names]: "SubscriptionStatePastDue = ''past_due''"
definition SubscriptionStateSuspended :: string where [state_names]: "SubscriptionStateSuspended = ''suspended''"
definition SubscriptionStateCancelled :: string where [state_names]: "SubscriptionStateCancelled = ''cancelled''"
definition SubscriptionStateExpired :: string where [state_names]: "SubscriptionStateExpired = ''expired''"

definition SubscriptionEventActivate :: string where [state_names]: "SubscriptionEventActivate = ''activate''"
definition SubscriptionEventPayFail :: string where [state_names]: "SubscriptionEventPayFail = ''pay_fail''"
definition SubscriptionEventPayOk :: string where [state_names]: "SubscriptionEventPayOk = ''pay_ok''"
definition SubscriptionEventSuspend :: string where [state_names]: "SubscriptionEventSuspend = ''suspend''"
definition SubscriptionEventReactivate :: string where [state_names]: "SubscriptionEventReactivate = ''reactivate''"
definition SubscriptionEventCancel :: string where [state_names]: "SubscriptionEventCancel = ''cancel''"
definition SubscriptionEventExpire :: string where [state_names]: "SubscriptionEventExpire = ''expire''"

text \<open>The interface a subscription gives the machine.\<close>

record 'o SubscriptionContext =
  sc_GetSubscriptionID :: "'o \<Rightarrow> string"
  sc_SetStatus :: "string \<Rightarrow> 'o \<Rightarrow> 'o"
  sc_GetAutoRenew :: "'o \<Rightarrow> bool"

definition subscription_expire_guard :: "'o SubscriptionContext \<Rightarrow> ('o, string) guard_func" where
  "subscription_expire_guard I ob e =
     (ob, if sc_GetAutoRenew I ob
          then Some (''cannot expire subscription with auto-renew enabled '' @ em_dash @ '' disable auto-renew first'') else None)"

definition SubscriptionFSM_builder :: "'o SubscriptionContext \<Rightarrow> ('o, string, string) builder" where
  "SubscriptionFSM_builder I = build
    [b_State SubscriptionStateTrialing [Initial],
     b_State SubscriptionStateActive [],
     b_State SubscriptionStatePastDue [],
     b_State SubscriptionStateSuspended [],
     b_State SubscriptionStateCancelled [Terminal],
     b_State SubscriptionStateExpired [Terminal],
     b_Transition SubscriptionStateTrialing SubscriptionEventActivate SubscriptionStateActive
       [Effect (\<lambda>ob e. (sc_SetStatus I SubscriptionStateActive ob, None))],
     b_Transition SubscriptionStateActive SubscriptionEventPayFail SubscriptionStatePastDue
       [Effect (\<lambda>ob e. (sc_SetStatus I SubscriptionStatePastDue ob, None))],
     b_Transition SubscriptionStatePastDue SubscriptionEventPayOk SubscriptionStateActive
       [Effect (\<lambda>ob e. (sc_SetStatus I SubscriptionStateActive ob, None))],
     b_Transition SubscriptionStatePastDue SubscriptionEventSuspend SubscriptionStateSuspended
       [Effect (\<lambda>ob e. (sc_SetStatus I SubscriptionStateSuspended ob, None))],
     b_Transition SubscriptionStateSuspended SubscriptionEventReactivate SubscriptionStateActive
       [Effect (\<lambda>ob e. (sc_SetStatus I SubscriptionStateActive ob, None))],
     b_Transition SubscriptionStateActive SubscriptionEventExpire SubscriptionStateExpired
       [Guard (subscription_expire_guard I),
        Effect (\<lambda>ob e. (sc_SetStatus I SubscriptionStateExpired ob, None))],
     b_Transition SubscriptionStateTrialing SubscriptionEventCancel SubscriptionStateCancelled
       [Effect (\<lambda>ob e. (sc_SetStatus I SubscriptionStateCancelled ob, None))],
     b_Transition SubscriptionStateActive SubscriptionEventCancel SubscriptionStateCancelled
       [Effect (\<lambda>ob e. (sc_SetStatus I SubscriptionStateCancelled ob, None))],
     b_Transition SubscriptionStatePastDue SubscriptionEventCancel SubscriptionStateCancelled
       [Effect (\<lambda>ob e. (sc_SetStatus I SubscriptionStateCancelled ob, None))],
     b_Transition SubscriptionStateSuspended SubscriptionEventCancel SubscriptionStateCancelled
       [Effect (\<lambda>ob e. (sc_SetStatus I SubscriptionStateCancelled ob, None))]]"

definition SubscriptionFSM :: "'o SubscriptionContext \<Rightarrow> ('o, string, string) fsm_definition" where
  "SubscriptionFSM I = the (MustCompile (SubscriptionFSM_builder I))"

lemma SubscriptionFSM_declared: "well_declared (SubscriptionFSM_builder I)"
  by (simp add: well_declared_def SubscriptionFSM_builder_def builder_simps state_names)

text \<open>The package variable's \<open>MustCompile\<close> does not panic.\<close>

lemma SubscriptionFSM_compiles: "MustCompile (SubscriptionFSM_builder I) = Some (SubscriptionFSM I)"
  using well_declared_MustCompile [OF SubscriptionFSM_declared]
  by (simp add: SubscriptionFSM_def MustCompile_Inr)

lemmas SubscriptionFSM_Inr = SubscriptionFSM_compiles [unfolded MustCompile_Inr]

lemma SubscriptionFSM_quiet: "quiet_builder (SubscriptionFSM_builder I)"
  by (simp add: quiet_builder_def quiet_transition_def SubscriptionFSM_builder_def builder_simps Let_def subscription_expire_guard_def)

lemma subscription_distinct:
  "distinct [SubscriptionStateTrialing, SubscriptionStateActive, SubscriptionStatePastDue, SubscriptionStateSuspended, SubscriptionStateCancelled, SubscriptionStateExpired]"
  "distinct [SubscriptionEventActivate, SubscriptionEventPayFail, SubscriptionEventPayOk, SubscriptionEventSuspend, SubscriptionEventReactivate, SubscriptionEventCancel, SubscriptionEventExpire]"
  by (simp_all add: state_names)

text \<open>The edges, as a table.\<close>

definition subscription_edges :: "(string \<times> string \<times> string) list" where
  "subscription_edges =
    [(SubscriptionStateTrialing, SubscriptionEventActivate, SubscriptionStateActive),
     (SubscriptionStateActive, SubscriptionEventPayFail, SubscriptionStatePastDue),
     (SubscriptionStatePastDue, SubscriptionEventPayOk, SubscriptionStateActive),
     (SubscriptionStatePastDue, SubscriptionEventSuspend, SubscriptionStateSuspended),
     (SubscriptionStateSuspended, SubscriptionEventReactivate, SubscriptionStateActive),
     (SubscriptionStateActive, SubscriptionEventExpire, SubscriptionStateExpired),
     (SubscriptionStateTrialing, SubscriptionEventCancel, SubscriptionStateCancelled),
     (SubscriptionStateActive, SubscriptionEventCancel, SubscriptionStateCancelled),
     (SubscriptionStatePastDue, SubscriptionEventCancel, SubscriptionStateCancelled),
     (SubscriptionStateSuspended, SubscriptionEventCancel, SubscriptionStateCancelled)]"

lemma SubscriptionFSM_edge: "edge (SubscriptionFSM I) a e c \<longleftrightarrow> (a, e, c) \<in> set subscription_edges"
  unfolding compiled_edge [OF SubscriptionFSM_Inr]
  by (simp add: SubscriptionFSM_builder_def builder_simps subscription_edges_def disj_ac)

lemma SubscriptionFSM_IsTerminal: "d_IsTerminal (SubscriptionFSM I) s \<longleftrightarrow> s \<in> {SubscriptionStateCancelled, SubscriptionStateExpired}"
  by (simp add: d_IsTerminal_def Compile_Inr(1) [OF SubscriptionFSM_Inr] SubscriptionFSM_builder_def builder_simps state_names)

lemma SubscriptionFSM_setter: "setter_definition (SubscriptionFSM I) (sc_SetStatus I)"
  by (rule setter_compiled [OF SubscriptionFSM_Inr SubscriptionFSM_quiet])
    (simp add: SubscriptionFSM_builder_def builder_simps)

interpretation subscription_fsm: setter_definition "SubscriptionFSM I" "sc_SetStatus I" for I
  by (rule SubscriptionFSM_setter)

section \<open>Expiry\<close>

lemma SubscriptionFSM_expire_target:
  "target (SubscriptionFSM I) SubscriptionStateActive SubscriptionEventExpire = SubscriptionStateExpired"
  by (rule edge_target) (simp add: SubscriptionFSM_edge subscription_edges_def)

lemma subscription_expire_refusal:
  assumes "env_Event env = SubscriptionEventExpire"
  shows "refusal (SubscriptionFSM I) ob SubscriptionStateActive env =
    map_option (\<lambda>e. TransitionError SubscriptionStateActive SubscriptionStateExpired SubscriptionEventExpire
                      PhaseGuard (GuardRejected e))
      (snd (subscription_expire_guard I ob env))"
  using assms
  by (subst refusal_guards [OF SubscriptionFSM_Inr, where c = SubscriptionStateExpired
        and gs = "[subscription_expire_guard I]"])
    (simp_all add: SubscriptionFSM_builder_def builder_simps)

text \<open>
  An expire event takes effect only on an active subscription whose auto-renewal is off;
  from every other state, and with auto-renewal on, it is refused and changes nothing.
\<close>

theorem subscription_expire:
  assumes "env_Event env = SubscriptionEventExpire"
  shows "fire (SubscriptionFSM I) ob st env t0 t1 = (ob', Returned None) \<longleftrightarrow>
      st = SubscriptionStateActive \<and> \<not> sc_GetAutoRenew I ob
      \<and> ob' = sc_SetStatus I SubscriptionStateExpired ob"
proof (cases "st = SubscriptionStateActive")
  case True
  then show ?thesis
    using subscription_fsm.fire_set_iff [of I ob st env t0 t1 ob'] assms
    by (auto simp: enabled_def subscription_expire_refusal subscription_expire_guard_def
        SubscriptionFSM_expire_target)
next
  case False
  have "\<not> edge (SubscriptionFSM I) st SubscriptionEventExpire c" for c
    using False by (simp add: SubscriptionFSM_edge subscription_edges_def state_names)
  then have "\<not> enabled (SubscriptionFSM I) ob st env" using enabled_edge assms by metis
  with False show ?thesis by (simp add: subscription_fsm.fire_set_iff)
qed

end
