(* ===== verification/RBAC_Policy.thy ===== *)
theory RBAC_Policy
  imports Prelude
begin

text \<open>
  The policy engine of \<open>services/core/rbac.go\<close>: permissions, access requests, the
  deny-overrides evaluation of a request against a permission list, and the check for
  contradicting permissions in one policy.
\<close>

section \<open>Constants\<close>

definition PolicyEffectAllow :: string where "PolicyEffectAllow = ''allow''"
definition PolicyEffectDeny :: string where "PolicyEffectDeny = ''deny''"

definition ResourceOrder :: string where "ResourceOrder = ''order''"
definition ResourceMenu :: string where "ResourceMenu = ''menu''"
definition ResourceReport :: string where "ResourceReport = ''report''"
definition ResourceUser :: string where "ResourceUser = ''user''"
definition ResourceRole :: string where "ResourceRole = ''role''"
definition ResourceTenant :: string where "ResourceTenant = ''tenant''"
definition ResourceKitchen :: string where "ResourceKitchen = ''kitchen''"
definition ResourceInventory :: string where "ResourceInventory = ''inventory''"
definition ResourcePayment :: string where "ResourcePayment = ''payment''"
definition ResourceAuditLog :: string where "ResourceAuditLog = ''audit_log''"
definition ResourceWildcard :: string where "ResourceWildcard = ''*''"

definition ActionCreate :: string where "ActionCreate = ''create''"
definition ActionRead :: string where "ActionRead = ''read''"
definition ActionUpdate :: string where "ActionUpdate = ''update''"
definition ActionDelete :: string where "ActionDelete = ''delete''"
definition ActionApprove :: string where "ActionApprove = ''approve''"
definition ActionExport :: string where "ActionExport = ''export''"
definition ActionWildcard :: string where "ActionWildcard = ''*''"

lemmas rbac_names = PolicyEffectAllow_def PolicyEffectDeny_def ResourceOrder_def ResourceMenu_def
  ResourceReport_def ResourceUser_def ResourceRole_def ResourceTenant_def ResourceKitchen_def
  ResourceInventory_def ResourcePayment_def ResourceAuditLog_def ResourceWildcard_def
  ActionCreate_def ActionRead_def ActionUpdate_def ActionDelete_def ActionApprove_def
  ActionExport_def ActionWildcard_def

section \<open>Permissions, requests and decisions\<close>

text \<open>\<open>Conditions\<close> and \<open>Context\<close> are Go maps; a nil map is the empty list.\<close>

record Permission =
  PermissionID :: uuid
  perm_Resource :: string
  perm_Action :: string
  perm_Effect :: string
  perm_Conditions :: "(string \<times> string) list"

record AccessRequest =
  req_UserID :: uuid
  req_TenantID :: uuid
  req_Resource :: string
  req_Action :: string
  req_ResourceID :: "uuid option"
  req_Context :: "(string \<times> string) list"

record AccessDecision =
  Allowed :: bool
  MatchedPolicy :: string
  MatchedRole :: string
  DenyReason :: string
  EvaluatedAt :: gotime
  CacheHit :: bool

section \<open>Evaluation\<close>

definition matchesResource :: "string \<Rightarrow> string \<Rightarrow> bool" where
  "matchesResource permResource reqResource \<longleftrightarrow>
     permResource = ResourceWildcard \<or> permResource = reqResource"

definition matchesAction :: "string \<Rightarrow> string \<Rightarrow> bool" where
  "matchesAction permAction reqAction \<longleftrightarrow> permAction = ActionWildcard \<or> permAction = reqAction"

fun evaluateConditions :: "(string \<times> string) list \<Rightarrow> AccessRequest \<Rightarrow> bool" where
  "evaluateConditions [] req = True"
| "evaluateConditions ((key, expected) # conditions) req =
     (case map_of (req_Context req) key of
        None \<Rightarrow> False
      | Some actual \<Rightarrow> if actual \<noteq> expected then False else evaluateConditions conditions req)"

text \<open>
  The loop of \<open>Evaluate\<close>: permissions that do not match are skipped, a matching deny returns at
  once, a matching allow is remembered.
\<close>

fun evaluate_loop :: "AccessRequest \<Rightarrow> AccessDecision \<Rightarrow> Permission list \<Rightarrow> AccessDecision" where
  "evaluate_loop req decision [] =
     (if \<not> Allowed decision
      then decision\<lparr>DenyReason := ''no policy grants '' @ req_Action req @ '' on '' @ req_Resource req\<rparr>
      else decision)"
| "evaluate_loop req decision (perm # permissions) =
     (if \<not> matchesResource (perm_Resource perm) (req_Resource req) then evaluate_loop req decision permissions
      else if \<not> matchesAction (perm_Action perm) (req_Action req) then evaluate_loop req decision permissions
      else if \<not> evaluateConditions (perm_Conditions perm) req then evaluate_loop req decision permissions
      else if perm_Effect perm = PolicyEffectDeny
      then decision\<lparr>Allowed := False,
             DenyReason := ''explicit deny on '' @ perm_Resource perm @ '':'' @ perm_Action perm\<rparr>
      else if perm_Effect perm = PolicyEffectAllow
      then evaluate_loop req (decision\<lparr>Allowed := True\<rparr>) permissions
      else evaluate_loop req decision permissions)"

definition Evaluate :: "gotime \<Rightarrow> AccessRequest \<Rightarrow> Permission list \<Rightarrow> AccessDecision" where
  "Evaluate now req permissions =
     evaluate_loop req
       \<lparr>Allowed = False, MatchedPolicy = '''', MatchedRole = '''', DenyReason = '''',
        EvaluatedAt = now, CacheHit = False\<rparr> permissions"

text \<open>When a permission speaks about a request, stated without the loop.\<close>

definition applies :: "AccessRequest \<Rightarrow> Permission \<Rightarrow> bool" where
  "applies req p \<longleftrightarrow>
     matchesResource (perm_Resource p) (req_Resource req)
     \<and> matchesAction (perm_Action p) (req_Action req)
     \<and> (\<forall>(key, expected) \<in> set (perm_Conditions p). map_of (req_Context req) key = Some expected)"

lemma evaluateConditions_iff:
  "evaluateConditions cs req \<longleftrightarrow> (\<forall>(key, expected) \<in> set cs. map_of (req_Context req) key = Some expected)"
  by (induction cs req rule: evaluateConditions.induct) (auto split: option.splits)

lemma evaluate_loop_Allowed:
  "Allowed (evaluate_loop req decision ps) \<longleftrightarrow>
     (\<forall>p \<in> set ps. applies req p \<longrightarrow> perm_Effect p \<noteq> PolicyEffectDeny)
     \<and> (Allowed decision \<or> (\<exists>p \<in> set ps. applies req p \<and> perm_Effect p = PolicyEffectAllow))"
proof (induction ps arbitrary: decision)
  case Nil
  show ?case by simp
next
  case (Cons p ps)
  have ne: "PolicyEffectAllow \<noteq> PolicyEffectDeny" by (simp add: rbac_names)
  have ap: "applies req p \<longleftrightarrow> matchesResource (perm_Resource p) (req_Resource req)
      \<and> matchesAction (perm_Action p) (req_Action req) \<and> evaluateConditions (perm_Conditions p) req"
    by (simp add: applies_def evaluateConditions_iff)
  show ?case
  proof (cases "applies req p")
    case True
    then show ?thesis using ap ne Cons.IH by auto
  next
    case False
    then have "evaluate_loop req decision (p # ps) = evaluate_loop req decision ps" using ap by auto
    then show ?thesis using False Cons.IH [of decision] by auto
  qed
qed

lemma Evaluate_Allowed:
  "Allowed (Evaluate now req ps) \<longleftrightarrow>
     (\<exists>p \<in> set ps. applies req p \<and> perm_Effect p = PolicyEffectAllow)
     \<and> (\<forall>p \<in> set ps. applies req p \<longrightarrow> perm_Effect p \<noteq> PolicyEffectDeny)"
  by (auto simp: Evaluate_def evaluate_loop_Allowed)

text \<open>
  C40: Deny overrides allow: a request is allowed exactly when some applicable permission allows
  it and none denies it, whatever the order of the permissions.
\<close>

theorem Evaluate_deny_overrides:
  "Allowed (Evaluate now req ps) \<longleftrightarrow>
     (\<exists>p \<in> set ps. applies req p \<and> perm_Effect p = PolicyEffectAllow)
     \<and> \<not> (\<exists>p \<in> set ps. applies req p \<and> perm_Effect p = PolicyEffectDeny)"
  by (auto simp: Evaluate_Allowed)

text \<open>More permissions in a list can revoke a request only by denying it.\<close>

lemma Evaluate_mono:
  assumes "Allowed (Evaluate now req ps)" and "set ps \<subseteq> set qs"
    and "\<forall>q \<in> set qs. applies req q \<longrightarrow> perm_Effect q \<noteq> PolicyEffectDeny"
  shows "Allowed (Evaluate now req qs)"
  using assms by (auto simp: Evaluate_Allowed)

lemma evaluate_loop_reason:
  "\<not> Allowed (evaluate_loop req decision ps) \<Longrightarrow> DenyReason (evaluate_loop req decision ps) \<noteq> ''''"
  by (induction req decision ps rule: evaluate_loop.induct) auto

lemma evaluate_loop_frame [simp]:
  "CacheHit (evaluate_loop req decision ps) = CacheHit decision"
  "EvaluatedAt (evaluate_loop req decision ps) = EvaluatedAt decision"
  by (induction req decision ps rule: evaluate_loop.induct) auto

section \<open>Contradicting permissions\<close>

record PermissionRequest =
  pr_Resource :: string
  pr_Action :: string
  pr_Effect :: string
  pr_Conditions :: "(string \<times> string) list"

text \<open>The map \<open>seen\<close> of the loop; the result is the first pair found with two effects.\<close>

fun conflict_loop ::
    "((string \<times> string) \<times> string) list \<Rightarrow> PermissionRequest list \<Rightarrow> (string \<times> string) option" where
  "conflict_loop seen [] = None"
| "conflict_loop seen (p # ps) =
     (let k = (pr_Resource p, pr_Action p)
      in case map_of seen k of
           Some existing \<Rightarrow>
             if existing \<noteq> pr_Effect p then Some k
             else conflict_loop (AList.update k (pr_Effect p) seen) ps
         | None \<Rightarrow> conflict_loop (AList.update k (pr_Effect p) seen) ps)"

definition detectPolicyConflicts :: "PermissionRequest list \<Rightarrow> (string \<times> string) option" where
  "detectPolicyConflicts permissions = conflict_loop [] permissions"

abbreviation pr_key :: "PermissionRequest \<Rightarrow> string \<times> string" where
  "pr_key p \<equiv> (pr_Resource p, pr_Action p)"

lemma agree_insert:
  fixes K :: "'a \<Rightarrow> 'k" and E :: "'a \<Rightarrow> 'e"
  shows "(\<forall>e. m (K p) = Some e \<longrightarrow> e = E p)
     \<and> (\<forall>q \<in> S. \<forall>e. (if K q = K p then Some (E p) else m (K q)) = Some e \<longrightarrow> e = E q)
     \<and> (\<forall>q \<in> S. \<forall>r \<in> S. K q = K r \<longrightarrow> E q = E r) \<longleftrightarrow>
   (\<forall>q \<in> insert p S. \<forall>e. m (K q) = Some e \<longrightarrow> e = E q)
     \<and> (\<forall>q \<in> insert p S. \<forall>r \<in> insert p S. K q = K r \<longrightarrow> E q = E r)" (is "?L \<longleftrightarrow> ?R")
proof
  assume L: ?L
  then have same: "E q = E p" if "q \<in> S" "K q = K p" for q using that by metis
  have "e = E q" if "q \<in> S" "m (K q) = Some e" for q e
    using L that same by (cases "K q = K p") auto
  with L same show ?R by (metis insert_iff)
next
  assume ?R
  then show ?L by (metis insert_iff option.inject)
qed

lemma conflict_loop_step:
  "conflict_loop seen (p # ps) = None \<longleftrightarrow>
     (\<forall>e. map_of seen (pr_key p) = Some e \<longrightarrow> e = pr_Effect p)
     \<and> conflict_loop (AList.update (pr_key p) (pr_Effect p) seen) ps = None"
  by (cases "map_of seen (pr_key p)") (simp_all add: Let_def)

lemma conflict_loop_None:
  "conflict_loop seen ps = None \<longleftrightarrow>
     (\<forall>p \<in> set ps. \<forall>e. map_of seen (pr_key p) = Some e \<longrightarrow> e = pr_Effect p)
     \<and> (\<forall>p \<in> set ps. \<forall>q \<in> set ps. pr_key p = pr_key q \<longrightarrow> pr_Effect p = pr_Effect q)"
proof (induction ps arbitrary: seen)
  case Nil
  show ?case by simp
next
  case (Cons p ps)
  show ?case
    unfolding conflict_loop_step Cons.IH map_of_update_iff list.set
    by (rule agree_insert [where K = pr_key and E = pr_Effect and m = "map_of seen"])
qed

text \<open>
  A policy is rejected as contradictory exactly when two of its permissions give the same
  resource and action different effects.
\<close>

theorem detectPolicyConflicts_iff:
  "detectPolicyConflicts ps \<noteq> None \<longleftrightarrow>
     (\<exists>p q. p \<in> set ps \<and> q \<in> set ps \<and> pr_Resource p = pr_Resource q \<and> pr_Action p = pr_Action q
        \<and> pr_Effect p \<noteq> pr_Effect q)"
proof -
  have "detectPolicyConflicts ps = None \<longleftrightarrow>
      (\<forall>p \<in> set ps. \<forall>q \<in> set ps. pr_key p = pr_key q \<longrightarrow> pr_Effect p = pr_Effect q)"
    by (simp add: detectPolicyConflicts_def conflict_loop_None)
  then show ?thesis by auto
qed

end
