(* ===== verification/RBAC_Resolver.thy ===== *)
theory RBAC_Resolver
  imports RBAC_Policy
begin

text \<open>
  The role resolver of \<open>services/core/rbac.go\<close>: it flattens the roles of a user and everything
  they inherit into one permission list.  Role rows come from the database; the map \<open>visited\<close> is
  passed by reference through the whole recursion, so it is threaded and returned.
\<close>

section \<open>Roles and errors\<close>

record RoleRow =
  RoleID :: uuid
  RoleName :: string
  role_TenantID :: uuid
  IsSystem :: bool
  ParentRoleIDs :: "uuid list"
  Policies :: "Permission list list"

text \<open>The sentinel errors, with what \<open>fmt.Errorf\<close> adds to them.\<close>

datatype rbac_error =
    ErrPermissionDenied string
  | ErrRoleNotFound "uuid option"
  | ErrPolicyNotFound
  | ErrRoleAlreadyAssigned
  | ErrCircularInheritance "uuid option"
  | ErrPrivilegeEscalation string
  | ErrCrossTenantAccess uuid uuid
  | ErrWildcardAbuse
  | ErrPolicyConflict "string \<times> string"
  | ErrMaxRolesReached
  | ErrCannotModifySuperAdmin
  | DBError string

text \<open>\<open>WHERE role_id = ? AND tenant_id = ?\<close>, first match.\<close>

definition find_role :: "RoleRow list \<Rightarrow> uuid \<Rightarrow> uuid \<Rightarrow> RoleRow option" where
  "find_role roles roleID tenantID =
     List.find (\<lambda>r. RoleID r = roleID \<and> role_TenantID r = tenantID) roles"

definition own_permissions :: "RoleRow \<Rightarrow> Permission list" where
  "own_permissions role = concat (Policies role)"

definition maxInheritanceDepth :: nat where
  "maxInheritanceDepth = 5"

section \<open>The recursion\<close>

text \<open>
  The depth check bounds the recursion: one call of \<open>resolveRecursive\<close> at depth at most five is
  worth two levels, deeper calls return at once.
\<close>

definition resolver_level :: "nat \<Rightarrow> bool \<Rightarrow> nat" where
  "resolver_level depth in_loop =
     (if depth \<le> maxInheritanceDepth then 2 * (6 - depth) - of_bool in_loop else of_bool in_loop)"

function (sequential) resolveRecursive ::
    "RoleRow list \<Rightarrow> uuid list \<Rightarrow> uuid \<Rightarrow> uuid list \<Rightarrow> nat
       \<Rightarrow> uuid list \<times> (rbac_error + Permission list)"
  and resolve_loop ::
    "RoleRow list \<Rightarrow> uuid list \<Rightarrow> uuid \<Rightarrow> uuid list \<Rightarrow> nat
       \<Rightarrow> uuid list \<times> (rbac_error + Permission list)" where
  "resolveRecursive roles roleIDs tenantID visited depth =
     (if depth > maxInheritanceDepth then (visited, Inl (ErrCircularInheritance None))
      else resolve_loop roles roleIDs tenantID visited depth)"
| "resolve_loop roles [] tenantID visited depth = (visited, Inr [])"
| "resolve_loop roles (roleID # roleIDs) tenantID visited depth =
     (if roleID \<in> set visited then (visited, Inl (ErrCircularInheritance (Some roleID)))
      else
        let visited = roleID # visited
        in case find_role roles roleID tenantID of
             None \<Rightarrow> (visited, Inl (ErrRoleNotFound (Some roleID)))
           | Some role \<Rightarrow>
               (case (if ParentRoleIDs role \<noteq> []
                      then resolveRecursive roles (ParentRoleIDs role) tenantID visited (depth + 1)
                      else (visited, Inr [])) of
                  (visited, Inl err) \<Rightarrow> (visited, Inl err)
                | (visited, Inr parentPerms) \<Rightarrow>
                    (case resolve_loop roles roleIDs tenantID visited depth of
                       (visited, Inl err) \<Rightarrow> (visited, Inl err)
                     | (visited, Inr rest) \<Rightarrow>
                         (visited, Inr (own_permissions role @ parentPerms @ rest)))))"
  by pat_completeness auto

termination
  by (relation "measures
      [\<lambda>x. case x of Inl (_, _, _, _, depth) \<Rightarrow> resolver_level depth False
                   | Inr (_, _, _, _, depth) \<Rightarrow> resolver_level depth True,
       \<lambda>x. case x of Inl _ \<Rightarrow> 0 | Inr (_, ids, _, _, _) \<Rightarrow> length ids]")
    (auto simp: resolver_level_def maxInheritanceDepth_def)

definition ResolvePermissions ::
    "RoleRow list \<Rightarrow> uuid list \<Rightarrow> uuid \<Rightarrow> rbac_error + Permission list" where
  "ResolvePermissions roles roleIDs tenantID = snd (resolveRecursive roles roleIDs tenantID [] 0)"

section \<open>What the resolver promises\<close>

definition parent_of :: "RoleRow list \<Rightarrow> uuid \<Rightarrow> (uuid \<times> uuid) set" where
  "parent_of roles tenantID =
     {(a, b). \<exists>role. find_role roles a tenantID = Some role \<and> b \<in> set (ParentRoleIDs role)}"

definition inherited :: "RoleRow list \<Rightarrow> uuid \<Rightarrow> uuid list \<Rightarrow> uuid set" where
  "inherited roles tenantID roleIDs = (parent_of roles tenantID)\<^sup>* `` set roleIDs"

definition grants :: "RoleRow list \<Rightarrow> uuid \<Rightarrow> uuid \<Rightarrow> Permission set" where
  "grants roles tenantID r =
     (case find_role roles r tenantID of None \<Rightarrow> {} | Some role \<Rightarrow> set (own_permissions role))"

lemma inherited_simps:
  "inherited roles t [] = {}"
  "find_role roles r t = Some role \<Longrightarrow>
     inherited roles t (r # rs) = insert r (inherited roles t (ParentRoleIDs role)) \<union> inherited roles t rs"
proof -
  show "inherited roles t [] = {}" by (simp add: inherited_def)
  assume f: "find_role roles r t = Some role"
  have "(parent_of roles t)\<^sup>* `` {r} = insert r ((parent_of roles t)\<^sup>* `` set (ParentRoleIDs role))"
  proof (intro equalityI subsetI)
    fix x assume "x \<in> (parent_of roles t)\<^sup>* `` {r}"
    then have "(r, x) \<in> (parent_of roles t)\<^sup>*" by simp
    then show "x \<in> insert r ((parent_of roles t)\<^sup>* `` set (ParentRoleIDs role))"
      by (cases rule: converse_rtranclE) (use f in \<open>auto simp: parent_of_def\<close>)
  next
    fix x assume "x \<in> insert r ((parent_of roles t)\<^sup>* `` set (ParentRoleIDs role))"
    moreover have "(r, b) \<in> parent_of roles t" if "b \<in> set (ParentRoleIDs role)" for b
      using that f by (simp add: parent_of_def)
    ultimately show "x \<in> (parent_of roles t)\<^sup>* `` {r}" by (auto intro: converse_rtrancl_into_rtrancl)
  qed
  moreover have "inherited roles t (r # rs) = (parent_of roles t)\<^sup>* `` {r} \<union> inherited roles t rs"
    by (auto simp: inherited_def)
  ultimately show "inherited roles t (r # rs)
      = insert r (inherited roles t (ParentRoleIDs role)) \<union> inherited roles t rs"
    by (simp add: inherited_def)
qed

text \<open>A successful call visited exactly the inherited roles, each of them for the first time.\<close>

definition resolved ::
    "RoleRow list \<Rightarrow> uuid \<Rightarrow> uuid list \<Rightarrow> uuid list \<Rightarrow> uuid list \<Rightarrow> Permission list \<Rightarrow> bool" where
  "resolved roles t ids visited visited' ps \<longleftrightarrow>
     set visited' = set visited \<union> inherited roles t ids
     \<and> set visited \<inter> inherited roles t ids = {}
     \<and> (\<forall>r \<in> inherited roles t ids. find_role roles r t \<noteq> None \<and> (r, r) \<notin> (parent_of roles t)\<^sup>+)
     \<and> set ps = (\<Union>r \<in> inherited roles t ids. grants roles t r)"

lemma resolved_Nil: "resolved roles t [] visited visited []"
  by (simp add: resolved_def inherited_simps)

lemma resolved_Cons:
  assumes f: "find_role roles r t = Some role" and "r \<notin> set visited"
    and 1: "resolved roles t (ParentRoleIDs role) (r # visited) v1 ps1"
    and 2: "resolved roles t rs v1 v2 ps2"
  shows "resolved roles t (r # rs) visited v2 (own_permissions role @ ps1 @ ps2)"
proof -
  have "(r, r) \<notin> (parent_of roles t)\<^sup>+"
  proof
    assume "(r, r) \<in> (parent_of roles t)\<^sup>+"
    then obtain b where "(r, b) \<in> parent_of roles t" "(b, r) \<in> (parent_of roles t)\<^sup>*"
      by (meson tranclD)
    then have "r \<in> inherited roles t (ParentRoleIDs role)"
      using f by (auto simp: parent_of_def inherited_def)
    with 1 show False by (auto simp: resolved_def)
  qed
  moreover have "grants roles t r = set (own_permissions role)" using f by (simp add: grants_def)
  ultimately show ?thesis
    using assms unfolding resolved_def inherited_simps(2) [OF f] by auto
qed

lemma resolver_resolved:
  "snd (resolveRecursive roles ids t visited depth) = Inr ps \<Longrightarrow>
     resolved roles t ids visited (fst (resolveRecursive roles ids t visited depth)) ps"
  "snd (resolve_loop roles ids t visited depth) = Inr ps \<Longrightarrow>
     resolved roles t ids visited (fst (resolve_loop roles ids t visited depth)) ps"
proof (induction roles ids t visited depth and roles ids t visited depth
    arbitrary: ps and ps rule: resolveRecursive_resolve_loop.induct)
  case (1 roles roleIDs tenantID visited depth)
  then show ?case by (simp split: if_splits)
next
  case (2 roles tenantID visited depth)
  then show ?case by (simp add: resolved_Nil)
next
  case (3 roles roleID roleIDs tenantID visited depth)
  let ?v = "roleID # visited"
  from "3.prems" have fresh: "roleID \<notin> set visited" by (auto split: if_splits)
  with "3.prems" obtain role where f: "find_role roles roleID tenantID = Some role"
    by (cases "find_role roles roleID tenantID") (auto simp: Let_def)
  obtain v1 r1 where p: "(if ParentRoleIDs role \<noteq> []
      then resolveRecursive roles (ParentRoleIDs role) tenantID ?v (depth + 1) else (?v, Inr [])) = (v1, r1)"
    by (cases "if ParentRoleIDs role \<noteq> []
      then resolveRecursive roles (ParentRoleIDs role) tenantID ?v (depth + 1) else (?v, Inr [])") blast
  have eq: "resolve_loop roles (roleID # roleIDs) tenantID visited depth =
      (case r1 of Inl err \<Rightarrow> (v1, Inl err)
       | Inr ps1 \<Rightarrow> (case resolve_loop roles roleIDs tenantID v1 depth of
           (v, Inl err) \<Rightarrow> (v, Inl err)
         | (v, Inr rest) \<Rightarrow> (v, Inr (own_permissions role @ ps1 @ rest))))"
    using p by (simp only: resolve_loop.simps Let_def if_False fresh f option.case prod.case)
  from "3.prems" eq obtain ps1 where r1: "r1 = Inr ps1" by (cases r1) auto
  obtain v2 r2 where l: "resolve_loop roles roleIDs tenantID v1 depth = (v2, r2)"
    by (cases "resolve_loop roles roleIDs tenantID v1 depth")
  from "3.prems" eq r1 l obtain ps2 where r2: "r2 = Inr ps2" "ps = own_permissions role @ ps1 @ ps2"
    by (cases r2) auto
  have R1: "resolved roles tenantID (ParentRoleIDs role) ?v v1 ps1"
  proof (cases "ParentRoleIDs role = []")
    case True
    with p r1 show ?thesis by (simp add: resolved_Nil)
  next
    case False
    with p r1 have "resolveRecursive roles (ParentRoleIDs role) tenantID ?v (depth + 1) = (v1, Inr ps1)"
      by simp
    with "3.IH"(1) [OF fresh refl f False, of ps1] show ?thesis by simp
  qed
  have R2: "resolved roles tenantID roleIDs v1 v2 ps2"
    using "3.IH"(2) [OF fresh refl f p [symmetric], of ps1 ps2] r1 l r2 by simp
  from resolved_Cons [OF f fresh R1 R2] show ?case
    unfolding eq r1 r2(2) by (simp add: l r2(1))
qed

text \<open>
  C35: When the resolver succeeds it returns exactly the permissions of the roles inherited inside
  the tenant; all of them exist there and none inherits from itself.
\<close>

theorem ResolvePermissions_sound_complete:
  assumes "ResolvePermissions roles ids t = Inr ps"
  shows "set ps = (\<Union>r \<in> inherited roles t ids. grants roles t r)
    \<and> (\<forall>r \<in> inherited roles t ids. find_role roles r t \<noteq> None \<and> (r, r) \<notin> (parent_of roles t)\<^sup>+)"
  using resolver_resolved(1) [of roles ids t "[]" 0 ps] assms
  by (simp add: ResolvePermissions_def resolved_def)

lemma ResolvePermissions_grants:
  "ResolvePermissions roles ids t = Inr ps \<Longrightarrow>
     set ps = (\<Union>r \<in> inherited roles t ids. grants roles t r)"
  using resolver_resolved(1) [of roles ids t "[]" 0 ps]
  by (simp add: ResolvePermissions_def resolved_def)


lemma find_role_tenant: "find_role roles r t = Some role \<Longrightarrow> role \<in> set roles \<and> role_TenantID role = t"
  by (auto simp: find_role_def find_Some_iff in_set_conv_nth)

end
