(* ===== verification/RBAC_Service.thy ===== *)
theory RBAC_Service
  imports RBAC_Resolver
begin

text \<open>
  The authorization service of \<open>services/core/rbac.go\<close>: the two-layer permission cache, the hot
  path \<open>Authorize\<close>, its wrapper \<open>Require\<close>, role assignment and revocation with the
  privilege-escalation check, policy creation and the seeding of the system roles.

  The tables are lists of rows in insertion order; \<open>rs_fault\<close> is the error every query returns
  while the database is down, \<open>rs_redis_down\<close> makes every Redis command fail.  The digest
  \<open>crypto/sha256\<close> in hexadecimal and the textual form of a \<open>uuid.UUID\<close> (a package of its own) are
  the functions of \<open>rbac_env\<close>.  Entries of the audit log are appended in program order; the code
  writes them from a goroutine.
\<close>

section \<open>State\<close>

record rbac_env =
  sha256_hex :: "string \<Rightarrow> string"
  uuid_String :: "uuid \<Rightarrow> string"

record UserRoleRow =
  UserRoleID :: uuid
  ur_UserID :: uuid
  ur_RoleID :: uuid
  ur_TenantID :: uuid
  ur_AssignedBy :: uuid
  ur_AssignedAt :: gotime

record localCacheEntry =
  permissions :: "Permission list"
  expiresAt :: gotime

record RBACEvent =
  ev_EventType :: string
  ev_Severity :: string
  ev_ActorID :: uuid
  ev_TargetID :: "uuid option"
  ev_TenantID :: uuid

record PolicyRow =
  pol_PolicyID :: uuid
  pol_Name :: string
  pol_TenantID :: uuid
  pol_Version :: int
  pol_Permissions :: "PermissionRequest list"

record rbac_state =
  rs_roles :: "RoleRow list"
  rs_userRoles :: "UserRoleRow list"
  rs_policies :: "PolicyRow list"
  rs_fault :: "string option"
  rs_local :: "(string \<times> localCacheEntry) list"
  rs_redis :: "(string \<times> Permission list \<times> gotime) list"
  rs_redis_down :: bool
  rs_audit :: "RBACEvent list"
  maxRolesPerUser :: int

definition ttlL1 :: int where "ttlL1 = 30 * 1000000000"
definition ttlL2 :: int where "ttlL2 = 5 * 60 * 1000000000"

definition EventPermissionGranted :: string where "EventPermissionGranted = ''permission_granted''"
definition EventPermissionDenied :: string where "EventPermissionDenied = ''permission_denied''"
definition EventRoleAssigned :: string where "EventRoleAssigned = ''role_assigned''"
definition EventRoleRevoked :: string where "EventRoleRevoked = ''role_revoked''"
definition EventPolicyCreated :: string where "EventPolicyCreated = ''policy_created''"
definition EventPrivilegeEscalation :: string where
  "EventPrivilegeEscalation = ''privilege_escalation_attempt''"
definition EventWildcardAbuse :: string where "EventWildcardAbuse = ''wildcard_permission_abuse''"

definition RBACSeverityInfo :: string where "RBACSeverityInfo = ''info''"
definition RBACSeverityWarning :: string where "RBACSeverityWarning = ''warning''"
definition RBACSeverityCritical :: string where "RBACSeverityCritical = ''critical''"

definition audit_Log ::
    "string \<Rightarrow> string \<Rightarrow> uuid \<Rightarrow> uuid option \<Rightarrow> uuid \<Rightarrow> rbac_state \<Rightarrow> rbac_state" where
  "audit_Log event severity actorID targetID tenantID st =
     st\<lparr>rs_audit := rs_audit st @ [\<lparr>ev_EventType = event, ev_Severity = severity,
         ev_ActorID = actorID, ev_TargetID = targetID, ev_TenantID = tenantID\<rparr>]\<rparr>"

section \<open>The permission cache\<close>

definition cacheKey :: "rbac_env \<Rightarrow> uuid \<Rightarrow> uuid \<Rightarrow> string" where
  "cacheKey E userID tenantID =
     sha256_hex E (''rbac:perms:'' @ uuid_String E tenantID @ '':'' @ uuid_String E userID)"

definition cache_Get_L2 :: "gotime \<Rightarrow> string \<Rightarrow> rbac_state \<Rightarrow> rbac_state \<times> Permission list option" where
  "cache_Get_L2 now key st =
     (if rs_redis_down st then (st, None)
      else case map_of (rs_redis st) key of
        None \<Rightarrow> (st, None)
      | Some (perms, expiry) \<Rightarrow>
          if now < expiry
          then (st\<lparr>rs_local := AList.update key \<lparr>permissions = perms, expiresAt = now + ttlL1\<rparr> (rs_local st)\<rparr>,
                Some perms)
          else (st, None))"

definition cache_Get ::
    "rbac_env \<Rightarrow> gotime \<Rightarrow> uuid \<Rightarrow> uuid \<Rightarrow> rbac_state \<Rightarrow> rbac_state \<times> Permission list option" where
  "cache_Get E now userID tenantID st =
     (let key = cacheKey E userID tenantID
      in case map_of (rs_local st) key of
           Some entry \<Rightarrow>
             if now < expiresAt entry then (st, Some (permissions entry))
             else cache_Get_L2 now key (st\<lparr>rs_local := AList.delete key (rs_local st)\<rparr>)
         | None \<Rightarrow> cache_Get_L2 now key st)"

definition cache_Set ::
    "rbac_env \<Rightarrow> gotime \<Rightarrow> uuid \<Rightarrow> uuid \<Rightarrow> Permission list \<Rightarrow> rbac_state \<Rightarrow> rbac_state" where
  "cache_Set E now userID tenantID perms st =
     (let key = cacheKey E userID tenantID
      in st\<lparr>rs_redis := (if rs_redis_down st then rs_redis st
                         else AList.update key (perms, now + ttlL2) (rs_redis st)),
            rs_local := AList.update key \<lparr>permissions = perms, expiresAt = now + ttlL1\<rparr> (rs_local st)\<rparr>)"

definition cache_Invalidate :: "rbac_env \<Rightarrow> uuid \<Rightarrow> uuid \<Rightarrow> rbac_state \<Rightarrow> rbac_state" where
  "cache_Invalidate E userID tenantID st =
     (let key = cacheKey E userID tenantID
      in st\<lparr>rs_local := AList.delete key (rs_local st),
            rs_redis := (if rs_redis_down st then rs_redis st else AList.delete key (rs_redis st))\<rparr>)"

text \<open>
  \<open>InvalidateAll\<close> scans Redis for the keys that match \<open>rbac:perms:<tenant>:*\<close> and deletes them;
  a failing scan is the error.
\<close>

definition has_prefix :: "string \<Rightarrow> string \<Rightarrow> bool" where
  "has_prefix pre s \<longleftrightarrow> take (length pre) s = pre"

definition InvalidateAll :: "rbac_env \<Rightarrow> uuid \<Rightarrow> rbac_state \<Rightarrow> rbac_state \<times> go_error option" where
  "InvalidateAll E tenantID st =
     (if rs_redis_down st then (st, Some ''redis: scan failed'')
      else let pre = ''rbac:perms:'' @ uuid_String E tenantID @ '':''
           in (st\<lparr>rs_redis := filter (\<lambda>(key, _). \<not> has_prefix pre key) (rs_redis st)\<rparr>, None))"

section \<open>Authorization\<close>

definition loadUserPermissions :: "uuid \<Rightarrow> uuid \<Rightarrow> rbac_state \<Rightarrow> rbac_error + Permission list" where
  "loadUserPermissions userID tenantID st =
     (case rs_fault st of
        Some err \<Rightarrow> Inl (DBError err)
      | None \<Rightarrow>
          let userRoles = filter (\<lambda>ur. ur_UserID ur = userID \<and> ur_TenantID ur = tenantID) (rs_userRoles st)
          in if userRoles = [] then Inr []
             else ResolvePermissions (rs_roles st) (map ur_RoleID userRoles) tenantID)"

definition isSuperAdmin :: "uuid \<Rightarrow> uuid \<Rightarrow> rbac_state \<Rightarrow> bool" where
  "isSuperAdmin userID tenantID st \<longleftrightarrow>
     rs_fault st = None
     \<and> (\<exists>ur \<in> set (rs_userRoles st). \<exists>r \<in> set (rs_roles st).
          RoleID r = ur_RoleID ur \<and> ur_UserID ur = userID \<and> ur_TenantID ur = tenantID
          \<and> RoleName r = ''superadmin'' \<and> IsSystem r)"

definition isSensitiveResource :: "string \<Rightarrow> bool" where
  "isSensitiveResource resource \<longleftrightarrow>
     resource \<in> {ResourceUser, ResourceRole, ResourceTenant, ResourceAuditLog, ResourcePayment}"

definition audit_decision :: "AccessRequest \<Rightarrow> AccessDecision \<Rightarrow> rbac_state \<Rightarrow> rbac_state" where
  "audit_decision req decision st =
     (if \<not> Allowed decision
      then audit_Log EventPermissionDenied RBACSeverityWarning (req_UserID req) (req_ResourceID req)
             (req_TenantID req) st
      else if isSensitiveResource (req_Resource req)
      then audit_Log EventPermissionGranted RBACSeverityInfo (req_UserID req) (req_ResourceID req)
             (req_TenantID req) st
      else st)"

definition Authorize ::
    "rbac_env \<Rightarrow> gotime \<Rightarrow> AccessRequest \<Rightarrow> rbac_state \<Rightarrow> rbac_state \<times> (rbac_error + AccessDecision)" where
  "Authorize E now req st =
     (if (req_Action req = ActionWildcard \<or> req_Resource req = ResourceWildcard)
         \<and> \<not> isSuperAdmin (req_UserID req) (req_TenantID req) st
      then (audit_Log EventWildcardAbuse RBACSeverityCritical (req_UserID req) None (req_TenantID req) st,
            Inr \<lparr>Allowed = False, MatchedPolicy = '''', MatchedRole = '''',
                 DenyReason = ''wildcard_permission_requires_superadmin'', EvaluatedAt = now,
                 CacheHit = False\<rparr>)
      else case cache_Get E now (req_UserID req) (req_TenantID req) st of
        (st, Some perms) \<Rightarrow>
          let decision = (Evaluate now req perms)\<lparr>CacheHit := True\<rparr>
          in (audit_decision req decision st, Inr decision)
      | (st, None) \<Rightarrow>
          (case loadUserPermissions (req_UserID req) (req_TenantID req) st of
             Inl err \<Rightarrow> (st, Inl err)
           | Inr perms \<Rightarrow>
               let st = cache_Set E now (req_UserID req) (req_TenantID req) perms st;
                   decision = (Evaluate now req perms)\<lparr>CacheHit := False\<rparr>
               in (audit_decision req decision st, Inr decision)))"

definition Require ::
    "rbac_env \<Rightarrow> gotime \<Rightarrow> AccessRequest \<Rightarrow> rbac_state \<Rightarrow> rbac_state \<times> rbac_error option" where
  "Require E now req st =
     (case Authorize E now req st of
        (st, Inl err) \<Rightarrow> (st, Some err)
      | (st, Inr decision) \<Rightarrow>
          if \<not> Allowed decision then (st, Some (ErrPermissionDenied (DenyReason decision))) else (st, None))"

definition AssertSameTenant :: "uuid \<Rightarrow> uuid \<Rightarrow> rbac_error option" where
  "AssertSameTenant userTenantID resourceTenantID =
     (if userTenantID \<noteq> resourceTenantID then Some (ErrCrossTenantAccess userTenantID resourceTenantID) else None)"

section \<open>Role assignment\<close>

text \<open>\<open>fmt.Sprintf("%s:%s", resource, action)\<close>, the key both permission sets are compared by.\<close>

definition perm_key :: "string \<Rightarrow> string \<Rightarrow> string" where
  "perm_key resource action = resource @ '':'' @ action"

fun escalation_loop :: "string list \<Rightarrow> Permission list \<Rightarrow> rbac_error option" where
  "escalation_loop actorAllowed [] = None"
| "escalation_loop actorAllowed (p # targetPerms) =
     (if perm_Effect p \<noteq> PolicyEffectAllow then escalation_loop actorAllowed targetPerms
      else
        let key = perm_key (perm_Resource p) (perm_Action p);
            wildcardKey = perm_key (perm_Resource p) ActionWildcard;
            superKey = perm_key ResourceWildcard ActionWildcard
        in if key \<notin> set actorAllowed \<and> wildcardKey \<notin> set actorAllowed \<and> superKey \<notin> set actorAllowed
           then Some (ErrPrivilegeEscalation (''actor lacks '' @ [CHR 0x27] @ key @ [CHR 0x27] @ '' permission''))
           else escalation_loop actorAllowed targetPerms)"

definition checkPrivilegeEscalation :: "uuid \<Rightarrow> uuid \<Rightarrow> uuid \<Rightarrow> rbac_state \<Rightarrow> rbac_error option" where
  "checkPrivilegeEscalation actorID targetRoleID tenantID st =
     (if isSuperAdmin actorID tenantID st then None
      else case loadUserPermissions actorID tenantID st of
        Inl err \<Rightarrow> Some err
      | Inr actorPerms \<Rightarrow>
          (case (if rs_fault st = None then ResolvePermissions (rs_roles st) [targetRoleID] tenantID
                 else Inl (ErrRoleNotFound (Some targetRoleID))) of
             Inl err \<Rightarrow> Some err
           | Inr targetPerms \<Rightarrow>
               escalation_loop
                 (map (\<lambda>p. perm_key (perm_Resource p) (perm_Action p))
                   (filter (\<lambda>p. perm_Effect p = PolicyEffectAllow) actorPerms))
                 targetPerms))"

definition roles_of :: "uuid \<Rightarrow> uuid \<Rightarrow> rbac_state \<Rightarrow> UserRoleRow list" where
  "roles_of userID tenantID st =
     filter (\<lambda>ur. ur_UserID ur = userID \<and> ur_TenantID ur = tenantID) (rs_userRoles st)"

definition role_request :: "uuid \<Rightarrow> uuid \<Rightarrow> string \<Rightarrow> AccessRequest" where
  "role_request actorID tenantID action =
     \<lparr>req_UserID = actorID, req_TenantID = tenantID, req_Resource = ResourceRole, req_Action = action,
      req_ResourceID = None, req_Context = []\<rparr>"

text \<open>\<open>new_id\<close> is the identifier \<open>uuid.New()\<close> gives the row.\<close>

definition AssignRole ::
    "rbac_env \<Rightarrow> gotime \<Rightarrow> uuid \<Rightarrow> uuid \<Rightarrow> uuid \<Rightarrow> uuid \<Rightarrow> uuid \<Rightarrow> rbac_state
       \<Rightarrow> rbac_state \<times> rbac_error option" where
  "AssignRole E now new_id actorID targetUserID roleID tenantID st =
     (case Require E now (role_request actorID tenantID ActionUpdate) st of
        (st, Some err) \<Rightarrow> (st, Some err)
      | (st, None) \<Rightarrow>
          (case (if rs_fault st = None then find_role (rs_roles st) roleID tenantID else None) of
             None \<Rightarrow> (st, Some (ErrRoleNotFound None))
           | Some role \<Rightarrow>
               (case checkPrivilegeEscalation actorID roleID tenantID st of
                  Some err \<Rightarrow>
                    (audit_Log EventPrivilegeEscalation RBACSeverityCritical actorID (Some targetUserID)
                       tenantID st, Some err)
                | None \<Rightarrow>
                    if int (length (roles_of targetUserID tenantID st)) \<ge> maxRolesPerUser st
                    then (st, Some ErrMaxRolesReached)
                    else if \<exists>ur \<in> set (roles_of targetUserID tenantID st). ur_RoleID ur = roleID
                    then (st, Some ErrRoleAlreadyAssigned)
                    else
                      let st = st\<lparr>rs_userRoles := rs_userRoles st @
                                  [\<lparr>UserRoleID = new_id, ur_UserID = targetUserID, ur_RoleID = roleID,
                                    ur_TenantID = tenantID, ur_AssignedBy = actorID, ur_AssignedAt = now\<rparr>]\<rparr>;
                          st = cache_Invalidate E targetUserID tenantID st
                      in (audit_Log EventRoleAssigned RBACSeverityInfo actorID (Some targetUserID) tenantID st,
                          None))))"

definition RevokeRole ::
    "rbac_env \<Rightarrow> gotime \<Rightarrow> uuid \<Rightarrow> uuid \<Rightarrow> uuid \<Rightarrow> uuid \<Rightarrow> rbac_state
       \<Rightarrow> rbac_state \<times> rbac_error option" where
  "RevokeRole E now actorID targetUserID roleID tenantID st =
     (case Require E now (role_request actorID tenantID ActionUpdate) st of
        (st, Some err) \<Rightarrow> (st, Some err)
      | (st, None) \<Rightarrow>
          (case (if rs_fault st = None then List.find (\<lambda>r. RoleID r = roleID) (rs_roles st) else None) of
             None \<Rightarrow> (st, Some (ErrRoleNotFound None))
           | Some role \<Rightarrow>
               if IsSystem role then (st, Some ErrCannotModifySuperAdmin)
               else
                 let keep = filter (\<lambda>ur. \<not> (ur_UserID ur = targetUserID \<and> ur_RoleID ur = roleID
                                             \<and> ur_TenantID ur = tenantID)) (rs_userRoles st)
                 in if length keep = length (rs_userRoles st) then (st, Some (ErrRoleNotFound None))
                    else
                      let st = cache_Invalidate E targetUserID tenantID (st\<lparr>rs_userRoles := keep\<rparr>)
                      in (audit_Log EventRoleRevoked RBACSeverityInfo actorID (Some targetUserID) tenantID st,
                          None)))"

section \<open>Policies\<close>

definition CreatePolicy ::
    "rbac_env \<Rightarrow> gotime \<Rightarrow> uuid \<Rightarrow> uuid \<Rightarrow> string \<Rightarrow> PermissionRequest list \<Rightarrow> uuid \<Rightarrow> rbac_state
       \<Rightarrow> rbac_state \<times> (rbac_error + PolicyRow)" where
  "CreatePolicy E now new_id actorID name perms tenantID st =
     (case Require E now (role_request actorID tenantID ActionCreate) st of
        (st, Some err) \<Rightarrow> (st, Inl err)
      | (st, None) \<Rightarrow>
          (case detectPolicyConflicts perms of
             Some k \<Rightarrow> (st, Inl (ErrPolicyConflict k))
           | None \<Rightarrow>
               (case rs_fault st of
                  Some err \<Rightarrow> (st, Inl (DBError err))
                | None \<Rightarrow>
                    let policy = \<lparr>pol_PolicyID = new_id, pol_Name = name, pol_TenantID = tenantID,
                                  pol_Version = 1, pol_Permissions = perms\<rparr>;
                        st = st\<lparr>rs_policies := rs_policies st @ [policy]\<rparr>
                    in (audit_Log EventPolicyCreated RBACSeverityInfo actorID None tenantID st, Inr policy))))"

section \<open>The system roles\<close>

definition allow :: "string \<Rightarrow> string \<Rightarrow> Permission" where
  "allow resource action = \<lparr>PermissionID = uuid_Nil, perm_Resource = resource, perm_Action = action,
     perm_Effect = PolicyEffectAllow, perm_Conditions = []\<rparr>"

definition systemRoles :: "(string \<times> Permission list) list" where
  "systemRoles =
    [(''superadmin'', [allow ResourceWildcard ActionWildcard]),
     (''manager'',
       [allow ResourceOrder ActionWildcard, allow ResourceReport ActionRead, allow ResourceReport ActionExport,
        allow ResourceUser ActionRead, allow ResourceInventory ActionWildcard]),
     (''cashier'',
       [allow ResourceOrder ActionCreate, allow ResourceOrder ActionRead, allow ResourceOrder ActionUpdate,
        allow ResourcePayment ActionCreate, allow ResourcePayment ActionRead]),
     (''waiter'',
       [allow ResourceOrder ActionCreate, allow ResourceOrder ActionRead, allow ResourceMenu ActionRead]),
     (''chef'',
       [allow ResourceOrder ActionRead, allow ResourceOrder ActionUpdate, allow ResourceKitchen ActionWildcard,
        allow ResourceInventory ActionRead]),
     (''customer'',
       [allow ResourceMenu ActionRead, allow ResourceOrder ActionCreate, allow ResourceOrder ActionRead])]"

text \<open>
  The seeding loop, one transaction per role.  \<open>strings.ToLower\<close> leaves these lower-case names as
  they are.  The k-th role gets the identifier \<open>ids k\<close>; its permissions are attached through one
  default policy.
\<close>

fun seed_loop ::
    "(nat \<Rightarrow> uuid) \<Rightarrow> uuid \<Rightarrow> nat \<Rightarrow> (string \<times> Permission list) list \<Rightarrow> rbac_state
       \<Rightarrow> rbac_state \<times> rbac_error option" where
  "seed_loop ids tenantID k [] st = (st, None)"
| "seed_loop ids tenantID k ((name, perms) # srs) st =
     (if rs_fault st = None
         \<and> (\<exists>r \<in> set (rs_roles st). RoleName r = name \<and> role_TenantID r = tenantID \<and> IsSystem r)
      then seed_loop ids tenantID (Suc k) srs st
      else case rs_fault st of
        Some err \<Rightarrow> (st, Some (DBError err))
      | None \<Rightarrow>
          seed_loop ids tenantID (Suc k) srs
            (st\<lparr>rs_roles := rs_roles st @
                 [\<lparr>RoleID = ids k, RoleName = name, role_TenantID = tenantID, IsSystem = True,
                   ParentRoleIDs = [], Policies = [perms]\<rparr>]\<rparr>))"

definition SeedSystemRoles :: "(nat \<Rightarrow> uuid) \<Rightarrow> uuid \<Rightarrow> rbac_state \<Rightarrow> rbac_state \<times> rbac_error option" where
  "SeedSystemRoles ids tenantID st = seed_loop ids tenantID 0 systemRoles st"

section \<open>Frames\<close>

lemma audit_Log_sel [simp]:
  "rs_roles (audit_Log e s a t n st) = rs_roles st" "rs_userRoles (audit_Log e s a t n st) = rs_userRoles st"
  "rs_fault (audit_Log e s a t n st) = rs_fault st" "rs_local (audit_Log e s a t n st) = rs_local st"
  "rs_redis (audit_Log e s a t n st) = rs_redis st" "rs_redis_down (audit_Log e s a t n st) = rs_redis_down st"
  "maxRolesPerUser (audit_Log e s a t n st) = maxRolesPerUser st"
  "rs_policies (audit_Log e s a t n st) = rs_policies st"
  by (simp_all add: audit_Log_def)

text \<open>What the permission check may change: the cache and the audit log.\<close>

definition same_tables :: "rbac_state \<Rightarrow> rbac_state \<Rightarrow> bool" where
  "same_tables st st' \<longleftrightarrow>
     rs_roles st' = rs_roles st \<and> rs_userRoles st' = rs_userRoles st \<and> rs_policies st' = rs_policies st
     \<and> rs_fault st' = rs_fault st \<and> rs_redis_down st' = rs_redis_down st
     \<and> maxRolesPerUser st' = maxRolesPerUser st"

lemma same_tables_refl [simp]: "same_tables st st"
  by (simp add: same_tables_def)

lemma same_tables_trans: "same_tables a b \<Longrightarrow> same_tables b c \<Longrightarrow> same_tables a c"
  by (simp add: same_tables_def)

lemma cache_Get_tables: "same_tables st (fst (cache_Get E now u t st))"
  by (auto simp: cache_Get_def cache_Get_L2_def Let_def same_tables_def split: option.splits prod.splits)

lemma audit_decision_sel [simp]:
  "rs_local (audit_decision req d st) = rs_local st" "rs_redis (audit_decision req d st) = rs_redis st"
  by (simp_all add: audit_decision_def)

lemma audit_decision_tables [simp]: "same_tables st (audit_decision req d st)"
  by (simp add: same_tables_def audit_decision_def)

lemma Authorize_tables: "same_tables st (fst (Authorize E now req st))"
proof -
  have g: "same_tables st (fst (cache_Get E now u t st))" for u t by (rule cache_Get_tables)
  show ?thesis
    using g [of "req_UserID req" "req_TenantID req"]
    by (auto simp: Authorize_def cache_Set_def audit_decision_def same_tables_def Let_def
        split: prod.splits option.splits sum.splits)
qed

lemma Require_tables: "same_tables st (fst (Require E now req st))"
  using Authorize_tables [of st E now req] by (auto simp: Require_def split: prod.splits sum.splits)

lemma isSuperAdmin_tables: "same_tables st st' \<Longrightarrow> isSuperAdmin u t st' = isSuperAdmin u t st"
  by (simp add: same_tables_def isSuperAdmin_def)

lemma loadUserPermissions_tables: "same_tables st st' \<Longrightarrow> loadUserPermissions u t st' = loadUserPermissions u t st"
  by (cases "rs_fault st") (simp_all add: same_tables_def loadUserPermissions_def Let_def)

end
