(* ===== verification/RBAC_Correct.thy ===== *)
theory RBAC_Correct
  imports RBAC_Service
begin

text \<open>
  What the authorization service guarantees: decisions on fresh permissions, the wildcard rule,
  the contract of \<open>Require\<close> that the business services build on, role assignment without
  privilege escalation, and the invariants of the role table.
\<close>

section \<open>Decisions\<close>

definition cache_cold :: "rbac_env \<Rightarrow> gotime \<Rightarrow> uuid \<Rightarrow> uuid \<Rightarrow> rbac_state \<Rightarrow> bool" where
  "cache_cold E now userID tenantID st \<longleftrightarrow> snd (cache_Get E now userID tenantID st) = None"

definition wildcard_request :: "AccessRequest \<Rightarrow> bool" where
  "wildcard_request req \<longleftrightarrow> req_Action req = ActionWildcard \<or> req_Resource req = ResourceWildcard"

text \<open>The permissions a user holds: those of every role inherited from the assigned ones.\<close>

definition user_permissions :: "uuid \<Rightarrow> uuid \<Rightarrow> rbac_state \<Rightarrow> Permission set" where
  "user_permissions userID tenantID st =
     (\<Union>r \<in> inherited (rs_roles st) tenantID (map ur_RoleID (roles_of userID tenantID st)).
        grants (rs_roles st) tenantID r)"

lemma loadUserPermissions_Inr:
  assumes "loadUserPermissions u t st = Inr ps"
  shows "set ps = user_permissions u t st"
proof (cases "roles_of u t st = []")
  case True
  with assms show ?thesis
    by (auto simp: loadUserPermissions_def user_permissions_def roles_of_def Let_def inherited_simps
        split: option.splits if_splits)
next
  case False
  with assms have "ResolvePermissions (rs_roles st) (map ur_RoleID (roles_of u t st)) t = Inr ps"
    by (auto simp: loadUserPermissions_def roles_of_def Let_def split: option.splits if_splits)
  from ResolvePermissions_grants [OF this] show ?thesis by (simp add: user_permissions_def)
qed

lemma Authorize_cold:
  assumes "cache_cold E now (req_UserID req) (req_TenantID req) st"
    and "\<not> wildcard_request req \<or> isSuperAdmin (req_UserID req) (req_TenantID req) st"
  shows "snd (Authorize E now req st) =
    (case loadUserPermissions (req_UserID req) (req_TenantID req) st of
       Inl err \<Rightarrow> Inl err | Inr perms \<Rightarrow> Inr (Evaluate now req perms))"
proof -
  obtain st' where g: "cache_Get E now (req_UserID req) (req_TenantID req) st = (st', None)"
    using assms(1) by (cases "cache_Get E now (req_UserID req) (req_TenantID req) st")
      (simp add: cache_cold_def)
  have "same_tables st st'" using cache_Get_tables [of st E now "req_UserID req" "req_TenantID req"] g by simp
  then have l: "loadUserPermissions (req_UserID req) (req_TenantID req) st'
      = loadUserPermissions (req_UserID req) (req_TenantID req) st"
    by (rule loadUserPermissions_tables)
  have h: "(Evaluate now req ps)\<lparr>CacheHit := False\<rparr> = Evaluate now req ps" for ps
    by (simp add: Evaluate_def)
  show ?thesis
    using assms(2) by (auto simp: Authorize_def wildcard_request_def g l Let_def h split: sum.splits)
qed

text \<open>
  C1: With nothing cached, a request that needs no superadmin is decided by the permissions of
  the user's roles and of everything they inherit in the tenant, a deny overriding every allow.
\<close>

theorem Authorize_fresh:
  assumes "cache_cold E now (req_UserID req) (req_TenantID req) st" and "\<not> wildcard_request req"
    and "snd (Authorize E now req st) = Inr decision"
  shows "Allowed decision \<longleftrightarrow>
    (\<exists>p \<in> user_permissions (req_UserID req) (req_TenantID req) st.
       applies req p \<and> perm_Effect p = PolicyEffectAllow)
    \<and> (\<forall>p \<in> user_permissions (req_UserID req) (req_TenantID req) st.
         applies req p \<longrightarrow> perm_Effect p \<noteq> PolicyEffectDeny)"
proof -
  from assms obtain ps where "loadUserPermissions (req_UserID req) (req_TenantID req) st = Inr ps"
    "decision = Evaluate now req ps"
    using Authorize_cold [OF assms(1)] by (auto split: sum.splits)
  then show ?thesis using loadUserPermissions_Inr Evaluate_Allowed by metis
qed

text \<open>
  A request for a wildcard resource or action is refused to everyone but a superadmin,
  whatever is cached and whatever permissions the user holds, and the attempt is logged.
\<close>

theorem wildcard_needs_superadmin:
  assumes "wildcard_request req" and "\<not> isSuperAdmin (req_UserID req) (req_TenantID req) st"
  shows "\<exists>decision. snd (Authorize E now req st) = Inr decision \<and> \<not> Allowed decision
    \<and> rs_audit (fst (Authorize E now req st)) = rs_audit st @
        [\<lparr>ev_EventType = EventWildcardAbuse, ev_Severity = RBACSeverityCritical,
          ev_ActorID = req_UserID req, ev_TargetID = None, ev_TenantID = req_TenantID req\<rparr>]"
  using assms by (auto simp: Authorize_def wildcard_request_def audit_Log_def)

lemma Require_iff:
  "snd (Require E now req st) = None \<longleftrightarrow>
     (\<exists>decision. snd (Authorize E now req st) = Inr decision \<and> Allowed decision)"
  by (auto simp: Require_def split: prod.splits sum.splits)

section \<open>The cache\<close>

lemma cache_Set_Get:
  assumes "now' < now + ttlL1"
  shows "cache_Get E now' u t (cache_Set E now u t ps st) = (cache_Set E now u t ps st, Some ps)"
  using assms by (simp add: cache_Get_def cache_Set_def Let_def)

lemma map_of_delete: "map_of (AList.delete k al) k' = (if k' = k then None else map_of al k')"
  by (simp add: delete_conv')

lemma cache_Invalidate_cold:
  assumes "\<not> rs_redis_down st"
  shows "cache_cold E now u t (cache_Invalidate E u t st)"
  using assms
  by (simp add: cache_cold_def cache_Get_def cache_Get_L2_def cache_Invalidate_def Let_def map_of_delete)

text \<open>
  Tenant-wide invalidation has no effect: the keys are hexadecimal digests, the scan looks for
  keys that start with rbac:perms, and the in-process layer is not touched.
\<close>

theorem InvalidateAll_keeps_cache:
  assumes "\<forall>s. set (sha256_hex E s) \<subseteq> set ''0123456789abcdef''"
    and "\<forall>key \<in> fst ` set (rs_redis st). \<exists>u t. key = cacheKey E u t"
  shows "fst (InvalidateAll E tenantID st) = st"
proof -
  have "\<not> has_prefix (''rbac:perms:'' @ x) (cacheKey E u t)" for x u t
  proof
    assume "has_prefix (''rbac:perms:'' @ x) (cacheKey E u t)"
    then have "CHR ''r'' \<in> set (cacheKey E u t)"
      by (cases "cacheKey E u t") (auto simp: has_prefix_def)
    moreover have "set (cacheKey E u t) \<subseteq> set ''0123456789abcdef''" using assms(1) by (simp add: cacheKey_def)
    ultimately show False by auto
  qed
  then have "\<forall>p \<in> set (rs_redis st). \<not> has_prefix (''rbac:perms:'' @ uuid_String E tenantID @ '':'') (fst p)"
    using assms(2) by fastforce
  then have "filter (\<lambda>(key, _). \<not> has_prefix (''rbac:perms:'' @ uuid_String E tenantID @ '':'') key) (rs_redis st)
      = rs_redis st"
    by (intro filter_True) (simp add: split_beta)
  then show ?thesis by (simp add: InvalidateAll_def Let_def)
qed

section \<open>Privilege escalation\<close>

lemma escalation_loop_None:
  "escalation_loop allowed ps = None \<longleftrightarrow>
     (\<forall>p \<in> set ps. perm_Effect p = PolicyEffectAllow \<longrightarrow>
        (\<exists>k \<in> {perm_key (perm_Resource p) (perm_Action p), perm_key (perm_Resource p) ActionWildcard,
               perm_key ResourceWildcard ActionWildcard}. k \<in> set allowed))"
  by (induction allowed ps rule: escalation_loop.induct) (auto simp: Let_def)

text \<open>A resource name without the separator is read back from the key.\<close>

lemma perm_key_inj:
  assumes "perm_key r a = perm_key r' a'" and "CHR '':'' \<notin> set r" and "CHR '':'' \<notin> set r'"
  shows "r = r' \<and> a = a'"
  using assms by (auto simp: perm_key_def append_eq_append_conv2 append_eq_Cons_conv Cons_eq_append_conv)

definition plain_resources :: "Permission set \<Rightarrow> bool" where
  "plain_resources ps \<longleftrightarrow> (\<forall>p \<in> ps. CHR '':'' \<notin> set (perm_Resource p))"

lemma checkPrivilegeEscalation_covers:
  assumes "checkPrivilegeEscalation actor role t st = None" and "\<not> isSuperAdmin actor t st"
    and "plain_resources (user_permissions actor t st)"
    and "p \<in> (\<Union>r \<in> inherited (rs_roles st) t [role]. grants (rs_roles st) t r)"
    and "perm_Effect p = PolicyEffectAllow" and "CHR '':'' \<notin> set (perm_Resource p)"
    and "matchesResource (perm_Resource p) r" and "matchesAction (perm_Action p) a"
  shows "\<exists>q \<in> user_permissions actor t st. perm_Effect q = PolicyEffectAllow
    \<and> matchesResource (perm_Resource q) r \<and> matchesAction (perm_Action q) a"
proof -
  from assms(1,2) obtain aps tps where
    aps: "loadUserPermissions actor t st = Inr aps" and
    tps: "ResolvePermissions (rs_roles st) [role] t = Inr tps" and
    loop: "escalation_loop (map (\<lambda>p. perm_key (perm_Resource p) (perm_Action p))
             (filter (\<lambda>p. perm_Effect p = PolicyEffectAllow) aps)) tps = None"
    by (auto simp: checkPrivilegeEscalation_def split: sum.splits if_splits)
  have "p \<in> set tps" using ResolvePermissions_grants [OF tps] assms(4) by simp
  with loop assms(5) obtain q where q: "q \<in> set aps" "perm_Effect q = PolicyEffectAllow"
    "perm_key (perm_Resource q) (perm_Action q) \<in>
       {perm_key (perm_Resource p) (perm_Action p), perm_key (perm_Resource p) ActionWildcard,
        perm_key ResourceWildcard ActionWildcard}"
    unfolding escalation_loop_None by fastforce
  have qu: "q \<in> user_permissions actor t st" using q(1) loadUserPermissions_Inr [OF aps] by simp
  then have plain: "CHR '':'' \<notin> set (perm_Resource q)" using assms(3) by (simp add: plain_resources_def)
  have star: "CHR '':'' \<notin> set ResourceWildcard" by (simp add: ResourceWildcard_def)
  from q(3) have "perm_Resource q = perm_Resource p \<and> perm_Action q = perm_Action p
      \<or> perm_Resource q = perm_Resource p \<and> perm_Action q = ActionWildcard
      \<or> perm_Resource q = ResourceWildcard \<and> perm_Action q = ActionWildcard"
    using perm_key_inj [OF _ plain assms(6)] perm_key_inj [OF _ plain star] by blast
  then have "matchesResource (perm_Resource q) r \<and> matchesAction (perm_Action q) a"
    using assms(7,8) by (auto simp: matchesResource_def matchesAction_def)
  with qu q(2) show ?thesis by blast
qed

section \<open>Assigning and revoking roles\<close>

lemma AssignRole_success:
  assumes "AssignRole E now new_id actor target role t st = (st', None)"
  obtains st1 where "Require E now (role_request actor t ActionUpdate) st = (st1, None)"
    "same_tables st st1" "find_role (rs_roles st) role t \<noteq> None"
    "checkPrivilegeEscalation actor role t st = None"
    "int (length (roles_of target t st)) < maxRolesPerUser st"
    "\<forall>ur \<in> set (roles_of target t st). ur_RoleID ur \<noteq> role"
    "st' = audit_Log EventRoleAssigned RBACSeverityInfo actor (Some target) t
       (cache_Invalidate E target t
         (st1\<lparr>rs_userRoles := rs_userRoles st1 @
            [\<lparr>UserRoleID = new_id, ur_UserID = target, ur_RoleID = role, ur_TenantID = t,
              ur_AssignedBy = actor, ur_AssignedAt = now\<rparr>]\<rparr>))"
proof -
  obtain st1 err where r: "Require E now (role_request actor t ActionUpdate) st = (st1, err)"
    by (cases "Require E now (role_request actor t ActionUpdate) st")
  have tab: "same_tables st st1" using Require_tables [of st E now "role_request actor t ActionUpdate"] r by simp
  then have same: "rs_roles st1 = rs_roles st" "rs_fault st1 = rs_fault st"
    "roles_of target t st1 = roles_of target t st" "maxRolesPerUser st1 = maxRolesPerUser st"
    by (simp_all add: same_tables_def roles_of_def)
  have esc: "checkPrivilegeEscalation actor role t st1 = checkPrivilegeEscalation actor role t st"
    unfolding checkPrivilegeEscalation_def isSuperAdmin_tables [OF tab] loadUserPermissions_tables [OF tab] same
    by (rule refl)
  from assms r have "err = None" by (cases err) (simp_all add: AssignRole_def)
  with r assms show ?thesis
    by (intro that [of st1])
      (auto simp: AssignRole_def tab same esc Let_def split: option.splits if_splits)
qed

lemma AssignRole_failure:
  assumes "AssignRole E now new_id actor target role t st = (st', Some err)"
  shows "same_tables st st'"
proof -
  obtain st1 e where r: "Require E now (role_request actor t ActionUpdate) st = (st1, e)"
    by (cases "Require E now (role_request actor t ActionUpdate) st")
  have "same_tables st st1" using Require_tables [of st E now "role_request actor t ActionUpdate"] r by simp
  then show ?thesis
    using assms r
    by (cases e) (auto simp: AssignRole_def Let_def same_tables_def split: option.splits if_splits)
qed

text \<open>
  A successful assignment takes effect at once: the target's cached permissions are gone in
  both layers and the next check sees the old permissions together with those of the new role.
\<close>

theorem AssignRole_takes_effect:
  assumes "AssignRole E now new_id actor target role t st = (st', None)" and "\<not> rs_redis_down st"
  shows "cache_cold E now' target t st'
    \<and> user_permissions target t st' = user_permissions target t st
        \<union> (\<Union>r \<in> inherited (rs_roles st) t [role]. grants (rs_roles st) t r)"
proof -
  obtain st1 where tab: "same_tables st st1"
    and st': "st' = audit_Log EventRoleAssigned RBACSeverityInfo actor (Some target) t
       (cache_Invalidate E target t
         (st1\<lparr>rs_userRoles := rs_userRoles st1 @
            [\<lparr>UserRoleID = new_id, ur_UserID = target, ur_RoleID = role, ur_TenantID = t,
              ur_AssignedBy = actor, ur_AssignedAt = now\<rparr>]\<rparr>))"
    using AssignRole_success [OF assms(1)] by metis
  have up: "\<not> rs_redis_down st1" using tab assms(2) by (simp add: same_tables_def)
  then have "cache_cold E now' target t st'"
    by (simp add: st' cache_cold_def cache_Get_def cache_Get_L2_def cache_Invalidate_def Let_def map_of_delete)
  moreover have "map ur_RoleID (roles_of target t st') = map ur_RoleID (roles_of target t st) @ [role]"
    "rs_roles st' = rs_roles st"
    using tab by (simp_all add: st' roles_of_def cache_Invalidate_def Let_def same_tables_def)
  moreover have "inherited (rs_roles st) t (xs @ [role]) = inherited (rs_roles st) t xs \<union> inherited (rs_roles st) t [role]"
    for xs by (auto simp: inherited_def)
  ultimately show ?thesis by (auto simp: user_permissions_def)
qed

text \<open>
  C2: No escalation: whoever assigned a role without being superadmin holds, for everything an
  allow permission of the role covers, an allow permission covering it too (resource names being
  free of the separator).
\<close>

theorem AssignRole_no_escalation:
  assumes "snd (AssignRole E now new_id actor target role t st) = None"
    and "\<not> isSuperAdmin actor t st" and "plain_resources (user_permissions actor t st)"
    and "p \<in> (\<Union>r \<in> inherited (rs_roles st) t [role]. grants (rs_roles st) t r)"
    and "perm_Effect p = PolicyEffectAllow" and "CHR '':'' \<notin> set (perm_Resource p)"
    and "matchesResource (perm_Resource p) r" and "matchesAction (perm_Action p) a"
  shows "\<exists>q \<in> user_permissions actor t st. perm_Effect q = PolicyEffectAllow
    \<and> matchesResource (perm_Resource q) r \<and> matchesAction (perm_Action q) a"
proof -
  obtain st' where "AssignRole E now new_id actor target role t st = (st', None)"
    using assms(1) by (metis prod.collapse)
  then have "checkPrivilegeEscalation actor role t st = None" using AssignRole_success by metis
  from checkPrivilegeEscalation_covers [OF this assms(2-8)] show ?thesis .
qed

definition role_table_ok :: "rbac_state \<Rightarrow> bool" where
  "role_table_ok st \<longleftrightarrow>
     (\<forall>u t. distinct (map ur_RoleID (roles_of u t st)) \<and> int (length (roles_of u t st)) \<le> maxRolesPerUser st)"

lemma role_table_ok_tables: "same_tables st st' \<Longrightarrow> role_table_ok st' = role_table_ok st"
  by (simp add: role_table_ok_def roles_of_def same_tables_def)

lemma RevokeRole_tables:
  "\<exists>P. rs_userRoles (fst (RevokeRole E now actor target role t st)) = filter P (rs_userRoles st)
     \<and> maxRolesPerUser (fst (RevokeRole E now actor target role t st)) = maxRolesPerUser st"
proof -
  obtain st1 e where r: "Require E now (role_request actor t ActionUpdate) st = (st1, e)"
    by (cases "Require E now (role_request actor t ActionUpdate) st")
  have tab: "same_tables st st1" using Require_tables [of st E now "role_request actor t ActionUpdate"] r by simp
  have "filter (\<lambda>_. True) (rs_userRoles st) = rs_userRoles st" by simp
  then show ?thesis
    using tab r
    by (cases e) (auto simp: RevokeRole_def Let_def same_tables_def cache_Invalidate_def
        split: option.splits if_splits intro: exI [of _ "\<lambda>_. True"])
qed

lemma AssignRole_role_table_ok:
  assumes "role_table_ok st"
  shows "role_table_ok (fst (AssignRole E now new_id actor target role t st))"
proof -
  obtain st' e where a: "AssignRole E now new_id actor target role t st = (st', e)"
    by (cases "AssignRole E now new_id actor target role t st")
  show ?thesis
  proof (cases e)
    case (Some err)
    with a have "same_tables st st'" using AssignRole_failure by metis
    with a assms show ?thesis by (simp add: role_table_ok_tables)
  next
    case None
    with a obtain st1 where tab: "same_tables st st1"
      and n: "int (length (roles_of target t st)) < maxRolesPerUser st"
        "\<forall>ur \<in> set (roles_of target t st). ur_RoleID ur \<noteq> role"
      and st': "st' = audit_Log EventRoleAssigned RBACSeverityInfo actor (Some target) t
       (cache_Invalidate E target t
         (st1\<lparr>rs_userRoles := rs_userRoles st1 @
            [\<lparr>UserRoleID = new_id, ur_UserID = target, ur_RoleID = role, ur_TenantID = t,
              ur_AssignedBy = actor, ur_AssignedAt = now\<rparr>]\<rparr>))"
      using AssignRole_success by metis
    have r: "map ur_RoleID (roles_of u t' st') =
        map ur_RoleID (roles_of u t' st) @ (if u = target \<and> t' = t then [role] else [])"
      "maxRolesPerUser st' = maxRolesPerUser st" for u t'
      using tab by (simp_all add: st' roles_of_def cache_Invalidate_def Let_def same_tables_def)
    have l: "length (roles_of u t' st') = length (roles_of u t' st) + (if u = target \<and> t' = t then 1 else 0)"
      for u t' using arg_cong [OF r(1) [of u t'], of length] by (simp split: if_splits)
    show ?thesis
      using assms n unfolding role_table_ok_def a fst_conv r l by (force simp: role_table_ok_def)
  qed
qed

text \<open>
  Assignment and revocation keep the role table within bounds: no user holds a role twice in a
  tenant or more roles than the cap.
\<close>

theorem role_table_invariant:
  assumes "role_table_ok st"
  shows "role_table_ok (fst (AssignRole E now new_id actor target role t st))
    \<and> role_table_ok (fst (RevokeRole E now actor target role t st))"
proof
  show "role_table_ok (fst (AssignRole E now new_id actor target role t st))"
    by (rule AssignRole_role_table_ok [OF assms])
  let ?st = "fst (RevokeRole E now actor target role t st)"
  obtain P where P: "rs_userRoles ?st = filter P (rs_userRoles st)" "maxRolesPerUser ?st = maxRolesPerUser st"
    using RevokeRole_tables by metis
  have sub: "roles_of u t' ?st = filter P (roles_of u t' st)" for u t'
    by (simp add: roles_of_def P(1) conj_commute)
  show "role_table_ok ?st"
    unfolding role_table_ok_def sub P(2)
  proof (intro allI conjI)
    fix u t'
    have ok: "distinct (map ur_RoleID (roles_of u t' st))" "int (length (roles_of u t' st)) \<le> maxRolesPerUser st"
      using assms by (simp_all add: role_table_ok_def)
    then show "distinct (map ur_RoleID (filter P (roles_of u t' st)))" by (simp add: distinct_map_filter)
    show "int (length (filter P (roles_of u t' st))) \<le> maxRolesPerUser st"
      using ok(2) length_filter_le [of P "roles_of u t' st"] by linarith
  qed
qed

section \<open>Seeding\<close>

definition seeded :: "uuid \<Rightarrow> rbac_state \<Rightarrow> string \<Rightarrow> bool" where
  "seeded t st name \<longleftrightarrow> (\<exists>r \<in> set (rs_roles st). RoleName r = name \<and> role_TenantID r = t \<and> IsSystem r)"

lemma seed_loop_all_seeded:
  "\<forall>(name, _) \<in> set srs. seeded t st name \<Longrightarrow> rs_fault st = None \<Longrightarrow> seed_loop ids t k srs st = (st, None)"
  by (induction ids t k srs st rule: seed_loop.induct) (auto simp: seeded_def)

lemma seed_loop_seeds:
  "rs_fault st = None \<Longrightarrow>
     snd (seed_loop ids t k srs st) = None \<and> rs_fault (fst (seed_loop ids t k srs st)) = None
     \<and> set (rs_roles st) \<subseteq> set (rs_roles (fst (seed_loop ids t k srs st)))
     \<and> (\<forall>(name, _) \<in> set srs. seeded t (fst (seed_loop ids t k srs st)) name)"
proof (induction ids t k srs st rule: seed_loop.induct)
  case (1 ids tenantID k st)
  then show ?case by simp
next
  case (2 ids t k name perms srs st)
  show ?case
  proof (cases "seeded t st name")
    case True
    then have eq: "seed_loop ids t k ((name, perms) # srs) st = seed_loop ids t (Suc k) srs st"
      using "2.prems" by (simp add: seeded_def)
    have IH: "snd (seed_loop ids t (Suc k) srs st) = None \<and> rs_fault (fst (seed_loop ids t (Suc k) srs st)) = None
     \<and> set (rs_roles st) \<subseteq> set (rs_roles (fst (seed_loop ids t (Suc k) srs st)))
     \<and> (\<forall>(name, _) \<in> set srs. seeded t (fst (seed_loop ids t (Suc k) srs st)) name)"
      using "2.IH"(1) True "2.prems" by (simp add: seeded_def)
    with True show ?thesis unfolding eq by (auto simp: seeded_def)
  next
    case False
    let ?r = "\<lparr>RoleID = ids k, RoleName = name, role_TenantID = t, IsSystem = True,
                   ParentRoleIDs = [], Policies = [perms]\<rparr>"
    let ?st = "st\<lparr>rs_roles := rs_roles st @ [?r]\<rparr>"
    have eq: "seed_loop ids t k ((name, perms) # srs) st = seed_loop ids t (Suc k) srs ?st"
      using "2.prems" False by (auto simp: seeded_def)
    have IH: "snd (seed_loop ids t (Suc k) srs ?st) = None \<and> rs_fault (fst (seed_loop ids t (Suc k) srs ?st)) = None
     \<and> set (rs_roles ?st) \<subseteq> set (rs_roles (fst (seed_loop ids t (Suc k) srs ?st)))
     \<and> (\<forall>(name, _) \<in> set srs. seeded t (fst (seed_loop ids t (Suc k) srs ?st)) name)"
      using "2.IH"(2) False "2.prems" by (auto simp: seeded_def)
    have "?r \<in> set (rs_roles (fst (seed_loop ids t (Suc k) srs ?st)))" using IH by auto
    then have "seeded t (fst (seed_loop ids t (Suc k) srs ?st)) name" by (force simp: seeded_def)
    with IH show ?thesis unfolding eq by auto
  qed
qed

text \<open>
  Seeding is idempotent: with the database up it succeeds, every system role then exists in the
  tenant, and seeding again changes nothing.
\<close>

theorem SeedSystemRoles_idempotent:
  assumes "rs_fault st = None"
  shows "snd (SeedSystemRoles ids t st) = None
    \<and> (\<forall>(name, _) \<in> set systemRoles. seeded t (fst (SeedSystemRoles ids t st)) name)
    \<and> SeedSystemRoles ids' t (fst (SeedSystemRoles ids t st)) = (fst (SeedSystemRoles ids t st), None)"
proof -
  note s = seed_loop_seeds [OF assms, of ids t 0 systemRoles]
  from s have "SeedSystemRoles ids' t (fst (SeedSystemRoles ids t st)) = (fst (SeedSystemRoles ids t st), None)"
    unfolding SeedSystemRoles_def by (intro seed_loop_all_seeded) blast+
  with s show ?thesis by (simp add: SeedSystemRoles_def)
qed

section \<open>The contract of Require\<close>

text \<open>\<open>if err := s.rbac.Require(...); err != nil { return err }\<close> in front of an operation.\<close>

definition guarded ::
    "(AccessRequest \<Rightarrow> 'r \<Rightarrow> 'r \<times> rbac_error option) \<Rightarrow> AccessRequest \<Rightarrow> (rbac_error \<Rightarrow> 'e) \<Rightarrow> ('s \<Rightarrow> 's \<times> ('e + 'a)) \<Rightarrow> 'r \<times> 's \<Rightarrow> ('r \<times> 's) \<times> ('e + 'a)" where
  "guarded require req wrap operation rs =
     (case require req (fst rs) of
        (r, Some err) \<Rightarrow> ((r, snd rs), Inl (wrap err))
      | (r, None) \<Rightarrow> (case operation (snd rs) of (s, res) \<Rightarrow> ((r, s), res)))"

text \<open>
  The business services see the authorizer through an interface with the one method \<open>Require\<close>.
  They rely on this: a call that returns no error was permitted, and calls do not change who is
  permitted what.
\<close>

locale authorizer =
  fixes require :: "AccessRequest \<Rightarrow> 'r \<Rightarrow> 'r \<times> rbac_error option"
    and permits :: "'r \<Rightarrow> AccessRequest \<Rightarrow> bool"
  assumes permitted: "require req r = (r', None) \<Longrightarrow> permits r req"
begin

lemma guarded_success:
  assumes "guarded require req wrap operation (r, s) = ((r', s'), Inr a)"
  shows "permits r req \<and> operation s = (s', Inr a)"
  using assms permitted [of req r]
  by (auto simp: guarded_def split: prod.splits option.splits)

lemma guarded_denied:
  "require req r = (r', Some err) \<Longrightarrow> guarded require req wrap operation (r, s) = ((r', s), Inl (wrap err))"
  by (simp add: guarded_def)

lemma guarded_changes_permitted:
  assumes "guarded require req wrap operation (r, s) = ((r', s'), res)" and "s' \<noteq> s"
  shows "permits r req"
  using assms permitted [of req r] by (auto simp: guarded_def split: prod.splits option.splits)

end

text \<open>What a permission means: some list of permissions in force allows it and none denies it.\<close>

definition in_force :: "rbac_env \<Rightarrow> gotime \<Rightarrow> rbac_state \<Rightarrow> AccessRequest \<Rightarrow> Permission list \<Rightarrow> bool" where
  "in_force E now st req ps \<longleftrightarrow>
     (case snd (cache_Get E now (req_UserID req) (req_TenantID req) st) of
        Some cached \<Rightarrow> ps = cached
      | None \<Rightarrow> loadUserPermissions (req_UserID req) (req_TenantID req) st = Inr ps)"

definition rbac_permits :: "rbac_env \<Rightarrow> gotime \<Rightarrow> rbac_state \<Rightarrow> AccessRequest \<Rightarrow> bool" where
  "rbac_permits E now st req \<longleftrightarrow>
     (wildcard_request req \<longrightarrow> isSuperAdmin (req_UserID req) (req_TenantID req) st)
     \<and> (\<exists>ps. in_force E now st req ps
          \<and> (\<exists>p \<in> set ps. applies req p \<and> perm_Effect p = PolicyEffectAllow)
          \<and> (\<forall>p \<in> set ps. applies req p \<longrightarrow> perm_Effect p \<noteq> PolicyEffectDeny))"

lemma Require_permits: "Require E now req st = (st', None) \<Longrightarrow> rbac_permits E now st req"
proof -
  assume "Require E now req st = (st', None)"
  then obtain decision where d: "snd (Authorize E now req st) = Inr decision" "Allowed decision"
    using Require_iff [of E now req st] by auto
  then have w: "wildcard_request req \<longrightarrow> isSuperAdmin (req_UserID req) (req_TenantID req) st"
    by (auto simp: Authorize_def wildcard_request_def split: if_splits)
  obtain st1 c where g: "cache_Get E now (req_UserID req) (req_TenantID req) st = (st1, c)"
    by (cases "cache_Get E now (req_UserID req) (req_TenantID req) st")
  have tab: "same_tables st st1" using cache_Get_tables [of st E now "req_UserID req" "req_TenantID req"] g by simp
  obtain ps where "in_force E now st req ps" "Allowed (Evaluate now req ps)"
  proof (cases c)
    case (Some ps)
    with d g w have "Allowed (Evaluate now req ps)"
      by (auto simp: Authorize_def wildcard_request_def Let_def split: if_splits)
    with Some g show ?thesis by (intro that [of ps]) (simp_all add: in_force_def)
  next
    case None
    with d g w obtain ps where "loadUserPermissions (req_UserID req) (req_TenantID req) st1 = Inr ps"
      "Allowed (Evaluate now req ps)"
      by (auto simp: Authorize_def wildcard_request_def Let_def split: if_splits sum.splits)
    with None g show ?thesis
      by (intro that [of ps]) (simp_all add: in_force_def loadUserPermissions_tables [OF tab])
  qed
  with w show ?thesis by (auto simp: rbac_permits_def Evaluate_Allowed)
qed

interpretation rbac: authorizer "Require E now" "rbac_permits E now" for E now
  by unfold_locales (rule Require_permits)

end
