(* ===== verification/Entities.thy ===== *)
theory Entities
  imports Store FSM_Order FSM_KOT FSM_Table FSM_Payment FSM_PurchaseOrder FSM_Inventory FSM_Subscription RBAC_Correct
begin

text \<open>
  The rows the services share (package \<open>models\<close>), as records with the columns the modelled code
  reads or writes, the adapters through which the state machines see them, and the one database
  record.  With its adapter each row satisfies the contract \<open>stored_status\<close>: after an accepted
  event its status column names the machine's state.
\<close>

section \<open>Enumerations\<close>

definition TableStatusAvailable :: string where [state_names]: "TableStatusAvailable = ''available''"
definition TableStatusOccupied :: string where [state_names]: "TableStatusOccupied = ''occupied''"

definition OrderItemStatusPending :: string where [state_names]: "OrderItemStatusPending = ''pending''"

definition OrderTypeDineIn :: string where [state_names]: "OrderTypeDineIn = ''dine-in''"
definition OrderTypeTakeaway :: string where [state_names]: "OrderTypeTakeaway = ''takeaway''"

definition KOTStatusSent :: string where [state_names]: "KOTStatusSent = ''sent''"
definition KOTStatusInProgress :: string where [state_names]: "KOTStatusInProgress = ''in_progress''"
definition KOTStatusCompleted :: string where [state_names]: "KOTStatusCompleted = ''completed''"
definition KOTStatusCancelled :: string where [state_names]: "KOTStatusCancelled = ''cancelled''"

definition KOTPriorityMedium :: string where [state_names]: "KOTPriorityMedium = ''medium''"
definition KOTPriorityUrgent :: string where [state_names]: "KOTPriorityUrgent = ''urgent''"

definition KOTItemStatusPending :: string where [state_names]: "KOTItemStatusPending = ''pending''"
definition KOTItemStatusReady :: string where [state_names]: "KOTItemStatusReady = ''ready''"
definition KOTItemStatusServed :: string where [state_names]: "KOTItemStatusServed = ''served''"
definition KOTItemStatusCancelled :: string where [state_names]: "KOTItemStatusCancelled = ''cancelled''"

definition KitchenStationGeneral :: string where [state_names]: "KitchenStationGeneral = ''general''"
definition KitchenStationGrill :: string where [state_names]: "KitchenStationGrill = ''grill''"
definition KitchenStationFryer :: string where [state_names]: "KitchenStationFryer = ''fryer''"
definition KitchenStationSalad :: string where [state_names]: "KitchenStationSalad = ''salad''"
definition KitchenStationDessert :: string where [state_names]: "KitchenStationDessert = ''dessert''"
definition KitchenStationBeverage :: string where [state_names]: "KitchenStationBeverage = ''beverage''"

definition AuditEventCreate :: string where "AuditEventCreate = ''create''"
definition AuditEventUpdate :: string where "AuditEventUpdate = ''update''"
definition AuditEventDelete :: string where "AuditEventDelete = ''delete''"
definition AuditSeverityInfo :: string where "AuditSeverityInfo = ''info''"
definition AuditSeverityWarning :: string where "AuditSeverityWarning = ''warning''"

section \<open>Orders\<close>

record OrderItemModifier =
  oim_OrderItemModifierID :: uuid
  oim_OrderItemID :: uuid
  oim_MenuItemModifierID :: "uuid option"
  oim_ModifierName :: string
  oim_AdditionalPrice :: f64

record OrderItem =
  oi_OrderItemID :: uuid
  oi_OrderID :: uuid
  oi_Status :: string
  oi_Quantity :: int
  oi_MenuItemID :: "uuid option"
  oi_ItemName :: string
  oi_UnitPrice :: f64
  oi_Notes :: string
  oi_Modifiers :: "OrderItemModifier list"

record Order =
  ord_OrderID :: uuid
  ord_UserID :: uuid
  ord_TenantID :: uuid
  ord_RestaurantID :: uuid
  ord_CustomerID :: "uuid option"
  ord_TableID :: "int option"
  ord_OrderStatus :: string
  ord_OrderType :: string
  ord_TotalAmount :: f64
  ord_CustomerName :: string
  ord_PhoneNumber :: string
  ord_Notes :: string
  ord_CreatedAt :: gotime
  ord_Items :: "OrderItem list"

text \<open>\<open>LineTotal\<close> and \<open>RecalculateTotal\<close> fold the sums in the order of the slices.\<close>

fun modifier_sum :: "f64 \<Rightarrow> OrderItemModifier list \<Rightarrow> f64" where
  "modifier_sum acc [] = acc"
| "modifier_sum acc (m # ms) = modifier_sum (f_add acc (oim_AdditionalPrice m)) ms"

definition LineTotal :: "OrderItem \<Rightarrow> f64" where
  "LineTotal oi =
     f_mul (f_add (oi_UnitPrice oi) (modifier_sum f_zero (oi_Modifiers oi))) (f_of_int (oi_Quantity oi))"

fun total_loop :: "f64 \<Rightarrow> OrderItem list \<Rightarrow> f64" where
  "total_loop acc [] = acc"
| "total_loop acc (item # items) = total_loop (f_add acc (LineTotal item)) items"

definition RecalculateTotal :: "Order \<Rightarrow> Order" where
  "RecalculateTotal ord = ord\<lparr>ord_TotalAmount := total_loop f_zero (ord_Items ord)\<rparr>"

text \<open>The printed identifiers are opaque to the machines.\<close>

definition order_methods :: "(uuid \<Rightarrow> string) \<Rightarrow> Order OrderContext" where
  "order_methods us = \<lparr>oc_GetOrderID = (\<lambda>ord. us (ord_OrderID ord)),
     oc_GetTotalAmount = ord_TotalAmount,
     oc_SetStatus = (\<lambda>st ord. ord\<lparr>ord_OrderStatus := st\<rparr>), oc_GetStatus = ord_OrderStatus\<rparr>"

interpretation stored_order: stored_status "OrderFSM (order_methods us)"
    "oc_SetStatus (order_methods us)" ord_OrderStatus for us
  by unfold_locales (simp add: order_methods_def)

section \<open>Kitchen tickets\<close>

record KOT =
  kot_KOTID :: uuid
  kot_OrderID :: uuid
  kot_RestaurantID :: uuid
  kot_TenantID :: uuid
  kot_KOTNumber :: string
  kot_SequenceNumber :: int
  kot_OrderNumber :: string
  kot_TableNumber :: "int option"
  kot_CustomerName :: string
  kot_OrderType :: string
  kot_GuestCount :: "int option"
  kot_Status :: string
  kot_Priority :: string
  kot_CreatedByUserID :: uuid
  kot_AssignedToChefID :: "uuid option"
  kot_PrintCount :: int
  kot_LastPrintedAt :: "gotime option"

record KOTItem =
  ki_KOTItemID :: uuid
  ki_KOTID :: uuid
  ki_OrderItemID :: uuid
  ki_ItemName :: string
  ki_Quantity :: int
  ki_Notes :: string
  ki_AssignedStation :: string
  ki_Status :: string

definition kot_methods :: "(uuid \<Rightarrow> string) \<Rightarrow> KOT KOTContext" where
  "kot_methods us = \<lparr>kc_GetKOTID = (\<lambda>k. us (kot_KOTID k)),
     kc_SetStatus = (\<lambda>st k. k\<lparr>kot_Status := st\<rparr>), kc_GetPriority = kot_Priority\<rparr>"

interpretation stored_kot: stored_status "KOTFSM (kot_methods us)"
    "kc_SetStatus (kot_methods us)" kot_Status for us
  by unfold_locales (simp add: kot_methods_def)

section \<open>Tables\<close>

record Table =
  tab_TableID :: int
  tab_RestaurantID :: uuid
  tab_Capacity :: int
  tab_Status :: string

definition table_methods :: "Table TableContext" where
  "table_methods = \<lparr>tc_GetTableID = tab_TableID, tc_GetCapacity = tab_Capacity,
     tc_SetStatus = (\<lambda>st t. t\<lparr>tab_Status := st\<rparr>)\<rparr>"

interpretation stored_table: stored_status "TableFSM table_methods"
    "tc_SetStatus table_methods" tab_Status
  by unfold_locales (simp add: table_methods_def)

section \<open>Payments\<close>

record PaymentRecord =
  pay_PaymentRecordID :: uuid
  pay_TenantID :: uuid
  pay_RestaurantID :: uuid
  pay_OrderID :: "uuid option"
  pay_Amount :: f64
  pay_PaymentMethod :: string
  pay_Status :: string
  pay_TransactionID :: string
  pay_PaymentDate :: gotime
  pay_QRImageData :: string
  pay_QRExpiresAt :: "gotime option"
  pay_FonepayTransactionID :: string
  pay_VerifyToken :: string
  pay_EncodedParams :: string
  pay_FailureReason :: string

definition payment_methods :: "(uuid \<Rightarrow> string) \<Rightarrow> PaymentRecord PaymentContext" where
  "payment_methods us = \<lparr>pc_GetPaymentID = (\<lambda>p. us (pay_PaymentRecordID p)),
     pc_SetStatus = (\<lambda>st p. p\<lparr>pay_Status := st\<rparr>), pc_GetAmount = pay_Amount,
     pc_GetFailureReason = pay_FailureReason,
     pc_SetFailureReason = (\<lambda>reason p. p\<lparr>pay_FailureReason := reason\<rparr>)\<rparr>"

lemma PaymentFSM_synced: "synced_definition (PaymentFSM (payment_methods us)) pay_Status"
  by (rule synced_compiled [OF PaymentFSM_Inr PaymentFSM_quiet])
    (simp add: PaymentFSM_builder_def builder_simps payment_methods_def payment_fail_effect_def Let_def
      split: option.splits)

interpretation stored_payment: synced_definition "PaymentFSM (payment_methods us)" pay_Status for us
  by (rule PaymentFSM_synced)

section \<open>Stock\<close>

record PurchaseOrder =
  po_PurchaseOrderID :: uuid
  po_TenantID :: uuid
  po_RestaurantID :: uuid
  po_VendorID :: uuid
  po_OrderNumber :: string
  po_OrderDate :: gotime
  po_ExpectedDeliveryDate :: "gotime option"
  po_ActualDeliveryDate :: "gotime option"
  po_Status :: string
  po_TotalAmount :: f64
  po_CreatedBy :: uuid

definition po_methods :: "(uuid \<Rightarrow> string) \<Rightarrow> PurchaseOrder PurchaseOrderContext" where
  "po_methods us = \<lparr>poc_GetPOID = (\<lambda>po. us (po_PurchaseOrderID po)),
     poc_GetTotalAmount = po_TotalAmount, poc_SetStatus = (\<lambda>st po. po\<lparr>po_Status := st\<rparr>)\<rparr>"

interpretation stored_po: stored_status "PurchaseOrderFSM (po_methods us)"
    "poc_SetStatus (po_methods us)" po_Status for us
  by unfold_locales (simp add: po_methods_def)

text \<open>The inventory adapter pairs the row with a status that is not a column.\<close>

record InventoryItem =
  inv_InventoryItemID :: uuid
  inv_TenantID :: uuid
  inv_RestaurantID :: uuid
  inv_Name :: string
  inv_Description :: string
  inv_SKU :: string
  inv_Category :: string
  inv_UnitOfMeasure :: string
  inv_CurrentQuantity :: f64
  inv_MinimumQuantity :: "f64 option"
  inv_MaximumQuantity :: "f64 option"
  inv_ReorderPoint :: "f64 option"
  inv_UnitCost :: "f64 option"

record inventoryItemAdapter =
  ada_item :: InventoryItem
  ada_stockStatus :: string

definition inventory_methods :: "(uuid \<Rightarrow> string) \<Rightarrow> inventoryItemAdapter InventoryItemContext" where
  "inventory_methods us = \<lparr>ic_GetItemID = (\<lambda>a. us (inv_InventoryItemID (ada_item a))),
     ic_GetCurrentQuantity = (\<lambda>a. inv_CurrentQuantity (ada_item a)),
     ic_GetReorderPoint = (\<lambda>a. inv_ReorderPoint (ada_item a)),
     ic_SetStockStatus = (\<lambda>st a. a\<lparr>ada_stockStatus := st\<rparr>), ic_GetStockStatus = ada_stockStatus\<rparr>"

interpretation stored_item: stored_status "InventoryItemFSM (inventory_methods us)"
    "ic_SetStockStatus (inventory_methods us)" ada_stockStatus for us
  by unfold_locales (simp add: inventory_methods_def)

section \<open>The caller\<close>

text \<open>
  The business packages ask for authorization with a request of their own, which has no context;
  \<open>core.RBACService\<close> gets the same four fields.
\<close>

definition service_request :: "uuid \<Rightarrow> uuid \<Rightarrow> string \<Rightarrow> string \<Rightarrow> AccessRequest" where
  "service_request userID tenantID resource action =
     \<lparr>req_UserID = userID, req_TenantID = tenantID, req_Resource = resource, req_Action = action,
      req_ResourceID = None, req_Context = []\<rparr>"

text \<open>Behind the check a handler steps as its body does.\<close>

lemma guarded_steps:
  assumes "steps R operation" and "reflp R"
  shows "R s (snd (fst (guarded require req wrap operation (r, s))))"
proof (cases "require req r")
  case (Pair r' err)
  show ?thesis
  proof (cases err)
    case None
    obtain s' res where "operation s = (s', res)" by (cases "operation s")
    with assms Pair None show ?thesis by (simp add: guarded_def stepsD)
  next
    case (Some e)
    with assms Pair show ?thesis by (simp add: guarded_def reflpD)
  qed
qed

lemma guarded_Inr:
  "guarded require req wrap operation (r, s) = ((r', s'), Inr a) \<longleftrightarrow>
     require req r = (r', None) \<and> operation s = (s', Inr a)"
  by (auto simp: guarded_def split: prod.splits option.splits)

lemma guarded_Inl:
  "guarded require req wrap operation (r, s) = ((r', s'), Inl e) \<longleftrightarrow>
     (\<exists>err. require req r = (r', Some err) \<and> s' = s \<and> e = wrap err)
     \<or> require req r = (r', None) \<and> operation s = (s', Inl e)"
  by (auto simp: guarded_def split: prod.splits option.splits)

section \<open>Audit and the database\<close>

text \<open>The descriptions and the value snapshots of an audit row are not modelled.\<close>

record AuditTrail =
  aud_TenantID :: uuid
  aud_UserID :: "uuid option"
  aud_RestaurantID :: "uuid option"
  aud_EventType :: string
  aud_EventCategory :: string
  aud_Severity :: string
  aud_EntityType :: string
  aud_EntityID :: string
  aud_Timestamp :: gotime

record db = store +
  db_orders :: "Order list"
  db_kots :: "KOT list"
  db_kotItems :: "KOTItem list"
  db_employees :: "(uuid \<times> uuid) list"
  db_audits :: "AuditTrail list"
  rd_counters :: "(string \<times> int \<times> gotime option) list"
  rd_faults :: "string option list"

definition empty_db :: db where
  "empty_db = \<lparr>faults = [], db_orders = [], db_kots = [], db_kotItems = [], db_employees = [],
     db_audits = [], rd_counters = [], rd_faults = []\<rparr>"

end
