(* ===== verification/FSM_User.thy ===== *)
theory FSM_User
  imports FSM_Fire
begin

text \<open>
  The user-account machine of \<open>utils/FSM.go\<close>.
\<close>

definition UserStatePendingVerification :: string where [state_names]: "UserStatePendingVerification = ''pending_verification''"
definition UserStateActive :: string where [state_names]: "UserStateActive = ''active''"
definition UserStateLocked :: string where [state_names]: "UserStateLocked = ''locked''"
definition UserStateMustChangePassword :: string where [state_names]: "UserStateMustChangePassword = ''must_change_password''"
definition UserStateSuspended :: string where [state_names]: "UserStateSuspended = ''suspended''"
definition UserStateDeactivated :: string where [state_names]: "UserStateDeactivated = ''deactivated''"

definition UserEventVerifyEmail :: string where [state_names]: "UserEventVerifyEmail = ''verify_email''"
definition UserEventLock :: string where [state_names]: "UserEventLock = ''lock''"
definition UserEventUnlock :: string where [state_names]: "UserEventUnlock = ''unlock''"
definition UserEventForcePasswordChange :: string where [state_names]: "UserEventForcePasswordChange = ''force_pw_change''"
definition UserEventPasswordChanged :: string where [state_names]: "UserEventPasswordChanged = ''password_changed''"
definition UserEventSuspend :: string where [state_names]: "UserEventSuspend = ''suspend''"
definition UserEventReactivate :: string where [state_names]: "UserEventReactivate = ''reactivate''"
definition UserEventDeactivate :: string where [state_names]: "UserEventDeactivate = ''deactivate''"

text \<open>The interface a user account gives the machine: it has no status string, only flags.\<close>

record 'o UserAccountContext =
  uc_GetUserID :: "'o \<Rightarrow> string"
  uc_SetIsActive :: "bool \<Rightarrow> 'o \<Rightarrow> 'o"
  uc_SetMustChangePassword :: "bool \<Rightarrow> 'o \<Rightarrow> 'o"
  uc_GetFailedLoginAttempts :: "'o \<Rightarrow> int"

definition UserAccountFSM_builder :: "'o UserAccountContext \<Rightarrow> ('o, string, string) builder" where
  "UserAccountFSM_builder I = build
    [b_State UserStatePendingVerification [Initial, StateDesc ''Awaiting email verification''],
     b_State UserStateActive [StateDesc ''Fully operational account''],
     b_State UserStateLocked [StateDesc ''Temporarily locked due to failed logins''],
     b_State UserStateMustChangePassword [StateDesc ''Password reset required before access''],
     b_State UserStateSuspended [StateDesc ''Admin-suspended, no access''],
     b_State UserStateDeactivated [Terminal, StateDesc ''Soft-deleted, permanently inaccessible''],
     b_Transition UserStatePendingVerification UserEventVerifyEmail UserStateActive
       [Effect (\<lambda>ob e. (uc_SetIsActive I True ob, None)),
        Describe ''Email token validated''],
     b_Transition UserStateActive UserEventLock UserStateLocked
       [Effect (\<lambda>ob e. (uc_SetIsActive I False ob, None)),
        Describe ''Exceeded max failed logins''],
     b_Transition UserStateLocked UserEventUnlock UserStateActive
       [Effect (\<lambda>ob e. (uc_SetIsActive I True ob, None)),
        Describe ''Lockout period expired or admin override''],
     b_Transition UserStateActive UserEventForcePasswordChange UserStateMustChangePassword
       [Effect (\<lambda>ob e. (uc_SetMustChangePassword I True ob, None))],
     b_Transition UserStateMustChangePassword UserEventPasswordChanged UserStateActive
       [Effect (\<lambda>ob e. (uc_SetIsActive I True (uc_SetMustChangePassword I False ob), None))],
     b_Transition UserStateActive UserEventSuspend UserStateSuspended
       [Effect (\<lambda>ob e. (uc_SetIsActive I False ob, None)),
        Describe ''Manual admin action required''],
     b_Transition UserStateSuspended UserEventReactivate UserStateActive
       [Effect (\<lambda>ob e. (uc_SetIsActive I True ob, None))],
     b_Transition UserStateActive UserEventDeactivate UserStateDeactivated
       [Effect (\<lambda>ob e. (uc_SetIsActive I False ob, None))],
     b_Transition UserStateLocked UserEventDeactivate UserStateDeactivated
       [Effect (\<lambda>ob e. (uc_SetIsActive I False ob, None))],
     b_Transition UserStateSuspended UserEventDeactivate UserStateDeactivated
       [Effect (\<lambda>ob e. (uc_SetIsActive I False ob, None))]]"

definition UserAccountFSM :: "'o UserAccountContext \<Rightarrow> ('o, string, string) fsm_definition" where
  "UserAccountFSM I = the (MustCompile (UserAccountFSM_builder I))"

lemma UserAccountFSM_declared: "well_declared (UserAccountFSM_builder I)"
  by (simp add: well_declared_def UserAccountFSM_builder_def builder_simps state_names)

text \<open>The package variable's \<open>MustCompile\<close> does not panic.\<close>

lemma UserAccountFSM_compiles: "MustCompile (UserAccountFSM_builder I) = Some (UserAccountFSM I)"
  using well_declared_MustCompile [OF UserAccountFSM_declared]
  by (simp add: UserAccountFSM_def MustCompile_Inr)

lemmas UserAccountFSM_Inr = UserAccountFSM_compiles [unfolded MustCompile_Inr]

lemma UserAccountFSM_quiet: "quiet_builder (UserAccountFSM_builder I)"
  by (simp add: quiet_builder_def quiet_transition_def UserAccountFSM_builder_def builder_simps Let_def)

lemma user_distinct:
  "distinct [UserStatePendingVerification, UserStateActive, UserStateLocked, UserStateMustChangePassword, UserStateSuspended, UserStateDeactivated]"
  "distinct [UserEventVerifyEmail, UserEventLock, UserEventUnlock, UserEventForcePasswordChange, UserEventPasswordChanged, UserEventSuspend, UserEventReactivate, UserEventDeactivate]"
  by (simp_all add: state_names)

text \<open>The edges, as a table.\<close>

definition user_edges :: "(string \<times> string \<times> string) list" where
  "user_edges =
    [(UserStatePendingVerification, UserEventVerifyEmail, UserStateActive),
     (UserStateActive, UserEventLock, UserStateLocked),
     (UserStateLocked, UserEventUnlock, UserStateActive),
     (UserStateActive, UserEventForcePasswordChange, UserStateMustChangePassword),
     (UserStateMustChangePassword, UserEventPasswordChanged, UserStateActive),
     (UserStateActive, UserEventSuspend, UserStateSuspended),
     (UserStateSuspended, UserEventReactivate, UserStateActive),
     (UserStateActive, UserEventDeactivate, UserStateDeactivated),
     (UserStateLocked, UserEventDeactivate, UserStateDeactivated),
     (UserStateSuspended, UserEventDeactivate, UserStateDeactivated)]"

lemma UserAccountFSM_edge: "edge (UserAccountFSM I) a e c \<longleftrightarrow> (a, e, c) \<in> set user_edges"
  unfolding compiled_edge [OF UserAccountFSM_Inr]
  by (simp add: UserAccountFSM_builder_def builder_simps user_edges_def disj_ac)

lemma UserAccountFSM_IsTerminal: "d_IsTerminal (UserAccountFSM I) s \<longleftrightarrow> s \<in> {UserStateDeactivated}"
  by (simp add: d_IsTerminal_def Compile_Inr(1) [OF UserAccountFSM_Inr] UserAccountFSM_builder_def builder_simps state_names)

interpretation user_fsm: quiet_definition "UserAccountFSM I" for I
  by (rule quiet_compiled [OF UserAccountFSM_Inr UserAccountFSM_quiet])

section \<open>The flags of an account follow its state\<close>

text \<open>
  \<open>models.User\<close> keeps two flags; the machine's state is derived from them and other fields.  This
  is the interface on a record with these fields.
\<close>

record user_account =
  ua_UserID :: string
  ua_IsActive :: bool
  ua_MustChangePassword :: bool
  ua_FailedLoginAttempts :: int

definition user_methods :: "user_account UserAccountContext" where
  "user_methods =
     \<lparr>uc_GetUserID = ua_UserID,
      uc_SetIsActive = (\<lambda>v u. u\<lparr>ua_IsActive := v\<rparr>),
      uc_SetMustChangePassword = (\<lambda>v u. u\<lparr>ua_MustChangePassword := v\<rparr>),
      uc_GetFailedLoginAttempts = ua_FailedLoginAttempts\<rparr>"

definition flags_match :: "user_account \<Rightarrow> string \<Rightarrow> bool" where
  "flags_match u st \<longleftrightarrow>
     ua_IsActive u = (st \<in> {UserStateActive, UserStateMustChangePassword})
     \<and> ua_MustChangePassword u = (st = UserStateMustChangePassword)"

definition user_effect :: "string \<Rightarrow> user_account \<Rightarrow> user_account" where
  "user_effect e u =
     (if e = UserEventForcePasswordChange then u\<lparr>ua_MustChangePassword := True\<rparr>
      else if e = UserEventPasswordChanged then u\<lparr>ua_MustChangePassword := False, ua_IsActive := True\<rparr>
      else u\<lparr>ua_IsActive := e \<in> {UserEventVerifyEmail, UserEventUnlock, UserEventReactivate}\<rparr>)"

lemma user_effect_of:
  assumes "edge (UserAccountFSM user_methods) st (env_Event env) c"
  shows "effect_of (UserAccountFSM user_methods) st env u = user_effect (env_Event env) u"
proof -
  have "\<exists>t \<in> set (b_transitions (UserAccountFSM_builder user_methods)).
      td_from t = st \<and> td_event t = env_Event env \<and> td_to t = c
      \<and> fst (run_hooks (effects t) env u) = user_effect (env_Event env) u"
    using assms unfolding UserAccountFSM_edge user_edges_def
    by (simp add: UserAccountFSM_builder_def builder_simps user_effect_def user_methods_def)
      (elim disjE conjE; simp add: state_names)
  then show ?thesis using compiled_effect_of [OF UserAccountFSM_Inr, of _ user_methods st env u] by metis
qed

lemma flags_match_step:
  assumes "flags_match u st" and "enabled (UserAccountFSM user_methods) u st env"
  shows "flags_match (effect_of (UserAccountFSM user_methods) st env u)
           (target (UserAccountFSM user_methods) st (env_Event env))"
proof -
  note e = enabled_edge [OF assms(2)]
  show ?thesis
    using assms(1) e unfolding user_effect_of [OF e] UserAccountFSM_edge user_edges_def
    by (simp add: flags_match_def user_effect_def) (elim disjE conjE; simp add: state_names)
qed

text \<open>
  Whatever events an account receives, IsActive is set exactly in the states active and
  must_change_password, and MustChangePassword exactly in the latter.
\<close>

theorem user_flags_follow_state:
  assumes "New (UserAccountFSM user_methods) u st = Some m" and "flags_match u st"
  shows "flags_match (m_obj (run_sends m ins)) (m_current (run_sends m ins))"
proof -
  from assms(1) have m: "m_def m = UserAccountFSM user_methods" "\<not> m_inFlight m"
    "m_obj m = u" "m_current m = st"
    by (auto simp: New_Some fresh_machine_def)
  show ?thesis
    using user_fsm.run_sends_invariant [where P = flags_match, OF m(1,2)] flags_match_step assms(2) m(3,4)
    by simp
qed

end
