(* ===== verification/FSM_Analytics.thy ===== *)
theory FSM_Analytics
  imports FSM_Fire
begin

text \<open>
  The analytics pipeline machine of \<open>utils/FSM.go\<close>.
\<close>

definition APStateIdle :: string where [state_names]: "APStateIdle = ''idle''"
definition APStateCollecting :: string where [state_names]: "APStateCollecting = ''collecting''"
definition APStateAggregating :: string where [state_names]: "APStateAggregating = ''aggregating''"
definition APStateEnriching :: string where [state_names]: "APStateEnriching = ''enriching''"
definition APStateDelivering :: string where [state_names]: "APStateDelivering = ''delivering''"
definition APStateCompleted :: string where [state_names]: "APStateCompleted = ''completed''"
definition APStateFailed :: string where [state_names]: "APStateFailed = ''failed''"

definition APEventStartCollect :: string where [state_names]: "APEventStartCollect = ''start_collect''"
definition APEventCollected :: string where [state_names]: "APEventCollected = ''collected''"
definition APEventAggregated :: string where [state_names]: "APEventAggregated = ''aggregated''"
definition APEventEnriched :: string where [state_names]: "APEventEnriched = ''enriched''"
definition APEventDelivered :: string where [state_names]: "APEventDelivered = ''delivered''"
definition APEventFail :: string where [state_names]: "APEventFail = ''fail''"

text \<open>The interface an analytics run gives the machine; \<open>now\<close> below is the clock, read from what the effects can reach.\<close>

record 'o AnalyticsPipelineContext =
  ac_GetPipelineID :: "'o \<Rightarrow> string"
  ac_SetStage :: "string \<Rightarrow> 'o \<Rightarrow> 'o"
  ac_GetRecordCount :: "'o \<Rightarrow> int"
  ac_SetStartedAt :: "gotime \<Rightarrow> 'o \<Rightarrow> 'o"
  ac_SetCompletedAt :: "gotime \<Rightarrow> 'o \<Rightarrow> 'o"
  ac_SetError :: "string \<Rightarrow> 'o \<Rightarrow> 'o"

definition collected_guard :: "'o AnalyticsPipelineContext \<Rightarrow> ('o, string) guard_func" where
  "collected_guard I ob e =
     (ob, if ac_GetRecordCount I ob = 0
          then Some ''cannot aggregate: no records were collected'' else None)"

definition analytics_fail_effect :: "'o AnalyticsPipelineContext \<Rightarrow> ('o, string) effect_func" where
  "analytics_fail_effect I ob e =
     (let ob = ac_SetStage I APStateFailed ob
      in (case meta_get e ''error'' of Some reason \<Rightarrow> ac_SetError I reason ob | None \<Rightarrow> ob, None))"

definition AnalyticsPipelineFSM_builder :: "('o \<Rightarrow> gotime) \<Rightarrow> 'o AnalyticsPipelineContext \<Rightarrow> ('o, string, string) builder" where
  "AnalyticsPipelineFSM_builder now I = build
    [b_State APStateIdle [Initial],
     b_State APStateCollecting [StateDesc ''Fetching raw data from source tables''],
     b_State APStateAggregating [StateDesc ''Computing aggregations and rollups''],
     b_State APStateEnriching [StateDesc ''Computing derived metrics and percentages''],
     b_State APStateDelivering [StateDesc ''Writing results to cache or response''],
     b_State APStateCompleted [Terminal, StateDesc ''Pipeline run finished successfully''],
     b_State APStateFailed [Terminal, StateDesc ''Pipeline run failed''],
     b_Transition APStateIdle APEventStartCollect APStateCollecting
       [Effect (\<lambda>ob e. (ac_SetStartedAt I (now ob) (ac_SetStage I APStateCollecting ob), None)),
        Describe ''Pipeline run initiated''],
     b_Transition APStateCollecting APEventCollected APStateAggregating
       [Guard (collected_guard I),
        Effect (\<lambda>ob e. (ac_SetStage I APStateAggregating ob, None))],
     b_Transition APStateAggregating APEventAggregated APStateEnriching
       [Effect (\<lambda>ob e. (ac_SetStage I APStateEnriching ob, None))],
     b_Transition APStateEnriching APEventEnriched APStateDelivering
       [Effect (\<lambda>ob e. (ac_SetStage I APStateDelivering ob, None))],
     b_Transition APStateDelivering APEventDelivered APStateCompleted
       [Effect (\<lambda>ob e. (ac_SetCompletedAt I (now ob) (ac_SetStage I APStateCompleted ob), None))],
     b_Transition APStateCollecting APEventFail APStateFailed
       [Effect (analytics_fail_effect I)],
     b_Transition APStateAggregating APEventFail APStateFailed
       [Effect (analytics_fail_effect I)],
     b_Transition APStateEnriching APEventFail APStateFailed
       [Effect (analytics_fail_effect I)],
     b_Transition APStateDelivering APEventFail APStateFailed
       [Effect (analytics_fail_effect I)]]"

definition AnalyticsPipelineFSM :: "('o \<Rightarrow> gotime) \<Rightarrow> 'o AnalyticsPipelineContext \<Rightarrow> ('o, string, string) fsm_definition" where
  "AnalyticsPipelineFSM now I = the (MustCompile (AnalyticsPipelineFSM_builder now I))"

lemma AnalyticsPipelineFSM_declared: "well_declared (AnalyticsPipelineFSM_builder now I)"
  by (simp add: well_declared_def AnalyticsPipelineFSM_builder_def builder_simps state_names)

text \<open>The package variable's \<open>MustCompile\<close> does not panic.\<close>

lemma AnalyticsPipelineFSM_compiles: "MustCompile (AnalyticsPipelineFSM_builder now I) = Some (AnalyticsPipelineFSM now I)"
  using well_declared_MustCompile [OF AnalyticsPipelineFSM_declared]
  by (simp add: AnalyticsPipelineFSM_def MustCompile_Inr)

lemmas AnalyticsPipelineFSM_Inr = AnalyticsPipelineFSM_compiles [unfolded MustCompile_Inr]

lemma AnalyticsPipelineFSM_quiet: "quiet_builder (AnalyticsPipelineFSM_builder now I)"
  by (simp add: quiet_builder_def quiet_transition_def AnalyticsPipelineFSM_builder_def builder_simps Let_def collected_guard_def analytics_fail_effect_def)

lemma analytics_distinct:
  "distinct [APStateIdle, APStateCollecting, APStateAggregating, APStateEnriching, APStateDelivering, APStateCompleted, APStateFailed]"
  "distinct [APEventStartCollect, APEventCollected, APEventAggregated, APEventEnriched, APEventDelivered, APEventFail]"
  by (simp_all add: state_names)

text \<open>The edges, as a table.\<close>

definition analytics_edges :: "(string \<times> string \<times> string) list" where
  "analytics_edges =
    [(APStateIdle, APEventStartCollect, APStateCollecting),
     (APStateCollecting, APEventCollected, APStateAggregating),
     (APStateAggregating, APEventAggregated, APStateEnriching),
     (APStateEnriching, APEventEnriched, APStateDelivering),
     (APStateDelivering, APEventDelivered, APStateCompleted),
     (APStateCollecting, APEventFail, APStateFailed),
     (APStateAggregating, APEventFail, APStateFailed),
     (APStateEnriching, APEventFail, APStateFailed),
     (APStateDelivering, APEventFail, APStateFailed)]"

lemma AnalyticsPipelineFSM_edge: "edge (AnalyticsPipelineFSM now I) a e c \<longleftrightarrow> (a, e, c) \<in> set analytics_edges"
  unfolding compiled_edge [OF AnalyticsPipelineFSM_Inr]
  by (simp add: AnalyticsPipelineFSM_builder_def builder_simps analytics_edges_def disj_ac)

lemma AnalyticsPipelineFSM_IsTerminal: "d_IsTerminal (AnalyticsPipelineFSM now I) s \<longleftrightarrow> s \<in> {APStateCompleted, APStateFailed}"
  by (simp add: d_IsTerminal_def Compile_Inr(1) [OF AnalyticsPipelineFSM_Inr] AnalyticsPipelineFSM_builder_def builder_simps state_names)

interpretation analytics_fsm: quiet_definition "AnalyticsPipelineFSM now I" for now I
  by (rule quiet_compiled [OF AnalyticsPipelineFSM_Inr AnalyticsPipelineFSM_quiet])

section \<open>When a pipeline event is accepted\<close>

lemma AnalyticsPipelineFSM_refusal:
  assumes "edge (AnalyticsPipelineFSM now I) st (env_Event env) c"
  shows "refusal (AnalyticsPipelineFSM now I) ob st env = 
    (if env_Event env = APEventCollected
     then map_option (\<lambda>e. TransitionError APStateCollecting APStateAggregating APEventCollected
            PhaseGuard (GuardRejected e)) (snd (collected_guard I ob env))
     else None)"
proof -
  obtain gs where gs: "\<exists>t \<in> set (b_transitions (AnalyticsPipelineFSM_builder now I)).
      td_from t = st \<and> td_event t = env_Event env \<and> td_to t = c \<and> guards t = gs"
    and cases: "env_Event env = APEventCollected \<and> st = APStateCollecting \<and> c = APStateAggregating \<and> gs = [collected_guard I]
      \<or> env_Event env \<noteq> APEventCollected \<and> gs = []"
    using assms unfolding AnalyticsPipelineFSM_edge analytics_edges_def
    by (auto simp: AnalyticsPipelineFSM_builder_def builder_simps state_names)
  have "b_globalGuards (AnalyticsPipelineFSM_builder now I) = []" by (simp add: AnalyticsPipelineFSM_builder_def builder_simps)
  note r = refusal_guards [OF AnalyticsPipelineFSM_Inr this gs, of ob]
  from cases r show ?thesis by (elim disjE) (auto simp: state_names)
qed

lemma analytics_fail_effect_of:
  assumes "edge (AnalyticsPipelineFSM now I) st (env_Event env) c" and "env_Event env = APEventFail"
  shows "effect_of (AnalyticsPipelineFSM now I) st env ob = fst (analytics_fail_effect I ob env)"
proof -
  have "\<exists>t \<in> set (b_transitions (AnalyticsPipelineFSM_builder now I)).
      td_from t = st \<and> td_event t = env_Event env \<and> effects t = [analytics_fail_effect I]"
    using assms unfolding AnalyticsPipelineFSM_edge analytics_edges_def
    by (auto simp: AnalyticsPipelineFSM_builder_def builder_simps state_names)
  from effect_of_effects [OF AnalyticsPipelineFSM_Inr this] show ?thesis by simp
qed

lemma AnalyticsPipelineFSM_target:
  "(st, e, c) \<in> set analytics_edges \<Longrightarrow> target (AnalyticsPipelineFSM now I) st e = c"
  by (rule edge_target) (simp add: AnalyticsPipelineFSM_edge)

end
