(* ===== verification/FSM_Forecast.thy ===== *)
theory FSM_Forecast
  imports FSM_Fire
begin

text \<open>
  The forecast pipeline machine of \<open>utils/FSM.go\<close>.
\<close>

definition FPStateIdle :: string where [state_names]: "FPStateIdle = ''idle''"
definition FPStateIngesting :: string where [state_names]: "FPStateIngesting = ''ingesting''"
definition FPStateFeatureEngineering :: string where [state_names]: "FPStateFeatureEngineering = ''feature_engineering''"
definition FPStateModelTraining :: string where [state_names]: "FPStateModelTraining = ''model_training''"
definition FPStateScoring :: string where [state_names]: "FPStateScoring = ''scoring''"
definition FPStatePostProcessing :: string where [state_names]: "FPStatePostProcessing = ''post_processing''"
definition FPStatePublishing :: string where [state_names]: "FPStatePublishing = ''publishing''"
definition FPStateCompleted :: string where [state_names]: "FPStateCompleted = ''completed''"
definition FPStateFailed :: string where [state_names]: "FPStateFailed = ''failed''"

definition FPEventStartIngest :: string where [state_names]: "FPEventStartIngest = ''start_ingest''"
definition FPEventIngested :: string where [state_names]: "FPEventIngested = ''ingested''"
definition FPEventFeaturesReady :: string where [state_names]: "FPEventFeaturesReady = ''features_ready''"
definition FPEventModelTrained :: string where [state_names]: "FPEventModelTrained = ''model_trained''"
definition FPEventScored :: string where [state_names]: "FPEventScored = ''scored''"
definition FPEventPostProcessed :: string where [state_names]: "FPEventPostProcessed = ''post_processed''"
definition FPEventPublished :: string where [state_names]: "FPEventPublished = ''published''"
definition FPEventFail :: string where [state_names]: "FPEventFail = ''fail''"

text \<open>The interface a forecast run gives the machine; \<open>now\<close> below is the clock, read from what the effects can reach.\<close>

record 'o ForecastPipelineContext =
  fc_GetPipelineID :: "'o \<Rightarrow> string"
  fc_SetStage :: "string \<Rightarrow> 'o \<Rightarrow> 'o"
  fc_GetDataPointCount :: "'o \<Rightarrow> int"
  fc_GetModelAccuracy :: "'o \<Rightarrow> f64"
  fc_SetStartedAt :: "gotime \<Rightarrow> 'o \<Rightarrow> 'o"
  fc_SetCompletedAt :: "gotime \<Rightarrow> 'o \<Rightarrow> 'o"
  fc_SetError :: "string \<Rightarrow> 'o \<Rightarrow> 'o"

definition ingested_guard :: "'o ForecastPipelineContext \<Rightarrow> ('o, string) guard_func" where
  "ingested_guard I ob e =
     (ob, if fc_GetDataPointCount I ob < 7
          then Some (''insufficient data: need at least 7 data points, got '' @ fmt_d (fc_GetDataPointCount I ob))
          else None)"

definition model_trained_guard :: "'o ForecastPipelineContext \<Rightarrow> ('o, string) guard_func" where
  "model_trained_guard I ob e =
     (ob, if f_lt (fc_GetModelAccuracy I ob) f_zero
          then Some (''model accuracy '' @ fmt_f 4 (fc_GetModelAccuracy I ob)
                     @ '' is negative '' @ em_dash @ '' training diverged'')
          else None)"

definition forecast_fail_effect :: "'o ForecastPipelineContext \<Rightarrow> ('o, string) effect_func" where
  "forecast_fail_effect I ob e =
     (let ob = fc_SetStage I FPStateFailed ob
      in (case meta_get e ''error'' of Some reason \<Rightarrow> fc_SetError I reason ob | None \<Rightarrow> ob, None))"

definition ForecastPipelineFSM_builder :: "('o \<Rightarrow> gotime) \<Rightarrow> 'o ForecastPipelineContext \<Rightarrow> ('o, string, string) builder" where
  "ForecastPipelineFSM_builder now I = build
    [b_State FPStateIdle [Initial],
     b_State FPStateIngesting [StateDesc ''Loading historical data from orders and stock movements''],
     b_State FPStateFeatureEngineering [StateDesc ''Computing features: seasonality indices, day-of-week weights, trend components''],
     b_State FPStateModelTraining [StateDesc ''Fitting exponential smoothing model with seasonal decomposition''],
     b_State FPStateScoring [StateDesc ''Generating point forecasts and confidence intervals''],
     b_State FPStatePostProcessing [StateDesc ''Applying business rules, floor/ceiling constraints, rounding''],
     b_State FPStatePublishing [StateDesc ''Writing forecast results to cache and response''],
     b_State FPStateCompleted [Terminal, StateDesc ''Forecast pipeline completed successfully''],
     b_State FPStateFailed [Terminal, StateDesc ''Forecast pipeline failed''],
     b_Transition FPStateIdle FPEventStartIngest FPStateIngesting
       [Effect (\<lambda>ob e. (fc_SetStartedAt I (now ob) (fc_SetStage I FPStateIngesting ob), None))],
     b_Transition FPStateIngesting FPEventIngested FPStateFeatureEngineering
       [Guard (ingested_guard I),
        Effect (\<lambda>ob e. (fc_SetStage I FPStateFeatureEngineering ob, None))],
     b_Transition FPStateFeatureEngineering FPEventFeaturesReady FPStateModelTraining
       [Effect (\<lambda>ob e. (fc_SetStage I FPStateModelTraining ob, None))],
     b_Transition FPStateModelTraining FPEventModelTrained FPStateScoring
       [Guard (model_trained_guard I),
        Effect (\<lambda>ob e. (fc_SetStage I FPStateScoring ob, None))],
     b_Transition FPStateScoring FPEventScored FPStatePostProcessing
       [Effect (\<lambda>ob e. (fc_SetStage I FPStatePostProcessing ob, None))],
     b_Transition FPStatePostProcessing FPEventPostProcessed FPStatePublishing
       [Effect (\<lambda>ob e. (fc_SetStage I FPStatePublishing ob, None))],
     b_Transition FPStatePublishing FPEventPublished FPStateCompleted
       [Effect (\<lambda>ob e. (fc_SetCompletedAt I (now ob) (fc_SetStage I FPStateCompleted ob), None))],
     b_Transition FPStateIngesting FPEventFail FPStateFailed
       [Effect (forecast_fail_effect I)],
     b_Transition FPStateFeatureEngineering FPEventFail FPStateFailed
       [Effect (forecast_fail_effect I)],
     b_Transition FPStateModelTraining FPEventFail FPStateFailed
       [Effect (forecast_fail_effect I)],
     b_Transition FPStateScoring FPEventFail FPStateFailed
       [Effect (forecast_fail_effect I)],
     b_Transition FPStatePostProcessing FPEventFail FPStateFailed
       [Effect (forecast_fail_effect I)],
     b_Transition FPStatePublishing FPEventFail FPStateFailed
       [Effect (forecast_fail_effect I)]]"

definition ForecastPipelineFSM :: "('o \<Rightarrow> gotime) \<Rightarrow> 'o ForecastPipelineContext \<Rightarrow> ('o, string, string) fsm_definition" where
  "ForecastPipelineFSM now I = the (MustCompile (ForecastPipelineFSM_builder now I))"

lemma ForecastPipelineFSM_declared: "well_declared (ForecastPipelineFSM_builder now I)"
  by (simp add: well_declared_def ForecastPipelineFSM_builder_def builder_simps state_names)

text \<open>The package variable's \<open>MustCompile\<close> does not panic.\<close>

lemma ForecastPipelineFSM_compiles: "MustCompile (ForecastPipelineFSM_builder now I) = Some (ForecastPipelineFSM now I)"
  using well_declared_MustCompile [OF ForecastPipelineFSM_declared]
  by (simp add: ForecastPipelineFSM_def MustCompile_Inr)

lemmas ForecastPipelineFSM_Inr = ForecastPipelineFSM_compiles [unfolded MustCompile_Inr]

lemma ForecastPipelineFSM_quiet: "quiet_builder (ForecastPipelineFSM_builder now I)"
  by (simp add: quiet_builder_def quiet_transition_def ForecastPipelineFSM_builder_def builder_simps Let_def ingested_guard_def model_trained_guard_def forecast_fail_effect_def)

lemma forecast_distinct:
  "distinct [FPStateIdle, FPStateIngesting, FPStateFeatureEngineering, FPStateModelTraining, FPStateScoring, FPStatePostProcessing, FPStatePublishing, FPStateCompleted, FPStateFailed]"
  "distinct [FPEventStartIngest, FPEventIngested, FPEventFeaturesReady, FPEventModelTrained, FPEventScored, FPEventPostProcessed, FPEventPublished, FPEventFail]"
  by (simp_all add: state_names)

text \<open>The edges, as a table.\<close>

definition forecast_edges :: "(string \<times> string \<times> string) list" where
  "forecast_edges =
    [(FPStateIdle, FPEventStartIngest, FPStateIngesting),
     (FPStateIngesting, FPEventIngested, FPStateFeatureEngineering),
     (FPStateFeatureEngineering, FPEventFeaturesReady, FPStateModelTraining),
     (FPStateModelTraining, FPEventModelTrained, FPStateScoring),
     (FPStateScoring, FPEventScored, FPStatePostProcessing),
     (FPStatePostProcessing, FPEventPostProcessed, FPStatePublishing),
     (FPStatePublishing, FPEventPublished, FPStateCompleted),
     (FPStateIngesting, FPEventFail, FPStateFailed),
     (FPStateFeatureEngineering, FPEventFail, FPStateFailed),
     (FPStateModelTraining, FPEventFail, FPStateFailed),
     (FPStateScoring, FPEventFail, FPStateFailed),
     (FPStatePostProcessing, FPEventFail, FPStateFailed),
     (FPStatePublishing, FPEventFail, FPStateFailed)]"

lemma ForecastPipelineFSM_edge: "edge (ForecastPipelineFSM now I) a e c \<longleftrightarrow> (a, e, c) \<in> set forecast_edges"
  unfolding compiled_edge [OF ForecastPipelineFSM_Inr]
  by (simp add: ForecastPipelineFSM_builder_def builder_simps forecast_edges_def disj_ac)

lemma ForecastPipelineFSM_IsTerminal: "d_IsTerminal (ForecastPipelineFSM now I) s \<longleftrightarrow> s \<in> {FPStateCompleted, FPStateFailed}"
  by (simp add: d_IsTerminal_def Compile_Inr(1) [OF ForecastPipelineFSM_Inr] ForecastPipelineFSM_builder_def builder_simps state_names)

interpretation forecast_fsm: quiet_definition "ForecastPipelineFSM now I" for now I
  by (rule quiet_compiled [OF ForecastPipelineFSM_Inr ForecastPipelineFSM_quiet])

section \<open>When a pipeline event is accepted\<close>

lemma ForecastPipelineFSM_refusal:
  assumes "edge (ForecastPipelineFSM now I) st (env_Event env) c"
  shows "refusal (ForecastPipelineFSM now I) ob st env = 
    (if env_Event env = FPEventIngested
     then map_option (\<lambda>e. TransitionError FPStateIngesting FPStateFeatureEngineering FPEventIngested
            PhaseGuard (GuardRejected e)) (snd (ingested_guard I ob env))
     else if env_Event env = FPEventModelTrained
     then map_option (\<lambda>e. TransitionError FPStateModelTraining FPStateScoring FPEventModelTrained
            PhaseGuard (GuardRejected e)) (snd (model_trained_guard I ob env))
     else None)"
proof -
  obtain gs where gs: "\<exists>t \<in> set (b_transitions (ForecastPipelineFSM_builder now I)).
      td_from t = st \<and> td_event t = env_Event env \<and> td_to t = c \<and> guards t = gs"
    and cases: "env_Event env = FPEventIngested \<and> st = FPStateIngesting \<and> c = FPStateFeatureEngineering \<and> gs = [ingested_guard I] \<or> 
        env_Event env = FPEventModelTrained \<and> st = FPStateModelTraining \<and> c = FPStateScoring \<and> gs = [model_trained_guard I]
      \<or> env_Event env \<noteq> FPEventIngested \<and> env_Event env \<noteq> FPEventModelTrained \<and> gs = []"
    using assms unfolding ForecastPipelineFSM_edge forecast_edges_def
    by (auto simp: ForecastPipelineFSM_builder_def builder_simps state_names)
  have "b_globalGuards (ForecastPipelineFSM_builder now I) = []" by (simp add: ForecastPipelineFSM_builder_def builder_simps)
  note r = refusal_guards [OF ForecastPipelineFSM_Inr this gs, of ob]
  from cases r show ?thesis by (elim disjE) (auto simp: state_names)
qed

lemma forecast_fail_effect_of:
  assumes "edge (ForecastPipelineFSM now I) st (env_Event env) c" and "env_Event env = FPEventFail"
  shows "effect_of (ForecastPipelineFSM now I) st env ob = fst (forecast_fail_effect I ob env)"
proof -
  have "\<exists>t \<in> set (b_transitions (ForecastPipelineFSM_builder now I)).
      td_from t = st \<and> td_event t = env_Event env \<and> effects t = [forecast_fail_effect I]"
    using assms unfolding ForecastPipelineFSM_edge forecast_edges_def
    by (auto simp: ForecastPipelineFSM_builder_def builder_simps state_names)
  from effect_of_effects [OF ForecastPipelineFSM_Inr this] show ?thesis by simp
qed

lemma ForecastPipelineFSM_target:
  "(st, e, c) \<in> set forecast_edges \<Longrightarrow> target (ForecastPipelineFSM now I) st e = c"
  by (rule edge_target) (simp add: ForecastPipelineFSM_edge)

end
