(* ===== verification/Pipelines.thy ===== *)
theory Pipelines
  imports FSM_Analytics FSM_Forecast
begin

text \<open>
  The pipeline runners \<open>runPipeline\<close> (\<open>services/analytics/analytics.go\<close>) and
  \<open>runForecastPipeline\<close> (\<open>services/analytics/Forecast.go\<close>): they start a machine, run the
  stages' closures one after the other, and send the stage's event after each.

  The closures share the run record with the machine and write to the caller's variables: a
  stage is a function on a \<open>world\<close> that holds the run, the clock and the rest (type \<open>'x\<close>).
\<close>

section \<open>The run records and their interfaces\<close>

record ('r, 'x) world =
  w_run :: 'r
  w_clock :: gotime
  w_data :: 'x

record analyticsPipelineRun =
  apr_pipelineID :: string
  apr_stage :: string
  apr_recordCount :: int
  apr_startedAt :: gotime
  apr_completedAt :: gotime
  apr_errMsg :: string

record forecastPipelineRun =
  fpr_pipelineID :: string
  fpr_stage :: string
  fpr_dataPointCount :: int
  fpr_modelAccuracy :: f64
  fpr_startedAt :: gotime
  fpr_completedAt :: gotime
  fpr_errMsg :: string

definition on_run :: "('r \<Rightarrow> 'r) \<Rightarrow> ('r, 'x) world \<Rightarrow> ('r, 'x) world" where
  "on_run f w = w\<lparr>w_run := f (w_run w)\<rparr>"

definition analytics_methods :: "(analyticsPipelineRun, 'x) world AnalyticsPipelineContext" where
  "analytics_methods =
     \<lparr>ac_GetPipelineID = (\<lambda>w. apr_pipelineID (w_run w)),
      ac_SetStage = (\<lambda>s. on_run (\<lambda>r. r\<lparr>apr_stage := s\<rparr>)),
      ac_GetRecordCount = (\<lambda>w. apr_recordCount (w_run w)),
      ac_SetStartedAt = (\<lambda>t. on_run (\<lambda>r. r\<lparr>apr_startedAt := t\<rparr>)),
      ac_SetCompletedAt = (\<lambda>t. on_run (\<lambda>r. r\<lparr>apr_completedAt := t\<rparr>)),
      ac_SetError = (\<lambda>err. on_run (\<lambda>r. r\<lparr>apr_errMsg := err\<rparr>))\<rparr>"

definition forecast_methods :: "(forecastPipelineRun, 'x) world ForecastPipelineContext" where
  "forecast_methods =
     \<lparr>fc_GetPipelineID = (\<lambda>w. fpr_pipelineID (w_run w)),
      fc_SetStage = (\<lambda>s. on_run (\<lambda>r. r\<lparr>fpr_stage := s\<rparr>)),
      fc_GetDataPointCount = (\<lambda>w. fpr_dataPointCount (w_run w)),
      fc_GetModelAccuracy = (\<lambda>w. fpr_modelAccuracy (w_run w)),
      fc_SetStartedAt = (\<lambda>t. on_run (\<lambda>r. r\<lparr>fpr_startedAt := t\<rparr>)),
      fc_SetCompletedAt = (\<lambda>t. on_run (\<lambda>r. r\<lparr>fpr_completedAt := t\<rparr>)),
      fc_SetError = (\<lambda>err. on_run (\<lambda>r. r\<lparr>fpr_errMsg := err\<rparr>))\<rparr>"

section \<open>The runner\<close>

text \<open>
  The two runners are the same code at two types.  \<open>src i\<close> is what the i-th envelope and call
  read from outside: the fresh identifier, the creation time and the two readings of \<open>Send\<close>.
\<close>

type_synonym ('w, 'e) stage = "'e \<times> ('w \<Rightarrow> 'w \<times> go_error option)"
type_synonym env_supply = "nat \<Rightarrow> string \<times> gotime \<times> gotime \<times> gotime"

datatype ('s, 'e) pipeline_result =
    PipelineDone
  | PipelineStart "('s, 'e) fsm_error"
  | PipelineStage 'e go_error
  | PipelineTransition 'e "('s, 'e) fsm_error"
  | PipelinePanic

definition send_event ::
    "env_supply \<Rightarrow> nat \<Rightarrow> 'e \<Rightarrow> (string \<times> string) list \<Rightarrow> ('w, 's, 'e) machine
       \<Rightarrow> ('w, 's, 'e) machine \<times> ('s, 'e) outcome" where
  "send_event src i event md m =
     (case src i of (new_id, now, t0, t1) \<Rightarrow>
        Send m (fold (\<lambda>(k, v) e. WithMeta e k v) md (NewEnvelope new_id now event None)) t0 t1)"

fun stages_loop ::
    "env_supply \<Rightarrow> 'e \<Rightarrow> nat \<Rightarrow> ('w, 'e) stage list \<Rightarrow> ('w, 's, 'e) machine
       \<Rightarrow> ('w, 's, 'e) machine \<times> ('s, 'e) pipeline_result" where
  "stages_loop src failEvent i [] m = (m, PipelineDone)"
| "stages_loop src failEvent i ((event, run) # stages) m =
     (case run (m_obj m) of
        (ob, Some err) \<Rightarrow>
          (case send_event src i failEvent [(''error'', err)] (m\<lparr>m_obj := ob\<rparr>) of
             (m', Panicked) \<Rightarrow> (m', PipelinePanic)
           | (m', Returned _) \<Rightarrow> (m', PipelineStage event err))
      | (ob, None) \<Rightarrow>
          (case send_event src i event [] (m\<lparr>m_obj := ob\<rparr>) of
             (m', Panicked) \<Rightarrow> (m', PipelinePanic)
           | (m', Returned (Some err)) \<Rightarrow> (m', PipelineTransition event err)
           | (m', Returned None) \<Rightarrow> stages_loop src failEvent (Suc i) stages m'))"

definition run_stages ::
    "('w, 's, 'e) fsm_definition \<Rightarrow> env_supply \<Rightarrow> 's \<Rightarrow> 'e \<Rightarrow> 'e \<Rightarrow> 'w \<Rightarrow> ('w, 'e) stage list
       \<Rightarrow> (('w, 's, 'e) machine \<times> ('s, 'e) pipeline_result) option" where
  "run_stages d src idle startEvent failEvent w stages =
     (case New d w idle of
        None \<Rightarrow> None
      | Some m \<Rightarrow>
          Some (case send_event src 0 startEvent [] m of
             (m', Panicked) \<Rightarrow> (m', PipelinePanic)
           | (m', Returned (Some err)) \<Rightarrow> (m', PipelineStart err)
           | (m', Returned None) \<Rightarrow> stages_loop src failEvent 1 stages m'))"

definition runPipeline ::
    "env_supply \<Rightarrow> (analyticsPipelineRun, 'x) world \<Rightarrow> ((analyticsPipelineRun, 'x) world, string) stage list
       \<Rightarrow> (((analyticsPipelineRun, 'x) world, string, string) machine \<times> (string, string) pipeline_result) option" where
  "runPipeline src w stages =
     run_stages (AnalyticsPipelineFSM w_clock analytics_methods) src APStateIdle APEventStartCollect
       APEventFail w stages"

definition runForecastPipeline ::
    "env_supply \<Rightarrow> (forecastPipelineRun, 'x) world \<Rightarrow> ((forecastPipelineRun, 'x) world, string) stage list
       \<Rightarrow> (((forecastPipelineRun, 'x) world, string, string) machine \<times> (string, string) pipeline_result) option" where
  "runForecastPipeline src w stages =
     run_stages (ForecastPipelineFSM w_clock forecast_methods) src FPStateIdle FPEventStartIngest
       FPEventFail w stages"

lemma send_event_eq:
  "send_event src i event md m =
     Send m (fold (\<lambda>(k, v) e. WithMeta e k v) md (NewEnvelope (fst (src i)) (fst (snd (src i))) event None))
       (fst (snd (snd (src i)))) (snd (snd (snd (src i))))"
  by (simp add: send_event_def split: prod.splits)

definition fail_envelope :: "string \<Rightarrow> gotime \<Rightarrow> 'e \<Rightarrow> go_error \<Rightarrow> 'e envelope" where
  "fail_envelope new_id now event err = WithMeta (NewEnvelope new_id now event None) ''error'' err"

lemma fail_envelope_sel [simp]:
  "env_Event (fail_envelope i now event err) = event"
  "meta_get (fail_envelope i now event err) ''error'' = Some err"
  by (simp_all add: fail_envelope_def WithMeta_def NewEnvelope_def meta_get_def)

lemma NewEnvelope_Event [simp]: "env_Event (NewEnvelope i now event p) = event"
  by (simp add: NewEnvelope_def)

section \<open>What a run of a chain of stages can end in\<close>

fun stage_path :: "('c, 's, 'e) fsm_definition \<Rightarrow> ('s \<Rightarrow> bool) \<Rightarrow> 's \<Rightarrow> 'e list \<Rightarrow> 's \<Rightarrow> bool" where
  "stage_path d Q st [] fin \<longleftrightarrow> st = fin"
| "stage_path d Q st (e # es) fin \<longleftrightarrow> Q st \<and> (\<exists>c. edge d st e c \<and> stage_path d Q c es fin)"

definition always_fails :: "('c, 's, 'e) fsm_definition \<Rightarrow> 'e \<Rightarrow> 's \<Rightarrow> bool" where
  "always_fails d failEvent st \<longleftrightarrow>
     (\<forall>ob env. env_Event env = failEvent \<longrightarrow> refusal d ob st env = None)"

text \<open>The entity after an accepted event is the effect of that event on what the closure left.\<close>

definition ended_by :: "('c, 's, 'e) fsm_definition \<Rightarrow> ('c, 's, 'e) machine \<Rightarrow> 'c \<Rightarrow> 's \<Rightarrow> 'e envelope \<Rightarrow> bool" where
  "ended_by d m ob st env \<longleftrightarrow>
     enabled d ob st env \<and> m_obj m = effect_of d st env ob \<and> m_current m = target d st (env_Event env)"

context quiet_definition
begin

lemma Send_result:
  assumes "m_def m = d" and "\<not> m_inFlight m"
  shows "snd (Send m env t0 t1) = Returned (refusal d (m_obj m) (m_current m) env)"
    and "refusal d (m_obj m) (m_current m) env = None \<Longrightarrow>
      ended_by d (fst (Send m env t0 t1)) (m_obj m) (m_current m) env"
    and "refusal d (m_obj m) (m_current m) env \<noteq> None \<Longrightarrow> fst (Send m env t0 t1) = m"
    and "m_def (fst (Send m env t0 t1)) = d \<and> \<not> m_inFlight (fst (Send m env t0 t1))"
proof -
  obtain m' out where s: "Send m env t0 t1 = (m', out)" by (cases "Send m env t0 t1")
  show "m_def (fst (Send m env t0 t1)) = d \<and> \<not> m_inFlight (fst (Send m env t0 t1))"
    using Send_def_unchanged [OF s] Send_inFlight_unchanged [OF s] assms s by simp
qed (use Send_quiet [OF assms, of env t0 t1] in \<open>auto simp: ended_by_def enabled_def split: option.splits\<close>)

lemma stages_loop_outcome:
  assumes "m_def m = d" and "\<not> m_inFlight m"
    and "stage_path d (always_fails d failEvent) (m_current m) (map fst stages) fin"
    and "stages_loop src failEvent i stages m = (m', res)"
  shows "(res = PipelineDone \<and> m_current m' = fin
           \<and> (stages \<noteq> [] \<longrightarrow> (\<exists>ob st env. ended_by d m' ob st env)))
    \<or> (\<exists>ev err st ob env. res = PipelineStage ev err \<and> ended_by d m' ob st env
         \<and> env_Event env = failEvent \<and> meta_get env ''error'' = Some err)
    \<or> (\<exists>ev err env c. res = PipelineTransition ev err \<and> env_Event env = ev
         \<and> edge d (m_current m') ev c \<and> refusal d (m_obj m') (m_current m') env = Some err)"
  using assms
proof (induction stages arbitrary: m i)
  case Nil
  then show ?case by simp
next
  case (Cons s stages)
  obtain event run where s: "s = (event, run)" by (cases s)
  from Cons.prems(3) obtain c where
    af: "always_fails d failEvent (m_current m)" and c: "edge d (m_current m) event c"
    and rest: "stage_path d (always_fails d failEvent) c (map fst stages) fin" by (auto simp: s)
  obtain ob e where r: "run (m_obj m) = (ob, e)" by (cases "run (m_obj m)")
  define k where "k = m\<lparr>m_obj := ob\<rparr>"
  have k: "m_def k = d" "\<not> m_inFlight k" "m_obj k = ob" "m_current k = m_current m"
    using Cons.prems(1,2) by (simp_all add: k_def)
  obtain new_id now t0 t1 where src: "src i = (new_id, now, t0, t1)" by (cases "src i") auto
  show ?case
  proof (cases e)
    case (Some err)
    let ?env = "fail_envelope new_id now failEvent err"
    have none: "refusal d ob (m_current m) ?env = None" using af by (simp add: always_fails_def)
    note S = Send_result [OF k(1,2), where env = ?env and ?t0.0 = t0 and ?t1.0 = t1, unfolded k none]
    have "stages_loop src failEvent i (s # stages) m = (fst (Send k ?env t0 t1), PipelineStage event err)"
      using S(1) by (simp add: s r Some send_event_def src fail_envelope_def [symmetric] k_def [symmetric]
          split_beta split: outcome.split)
    with Cons.prems(4) S(2) show ?thesis
      by (intro disjI2 disjI1 exI [of _ event] exI [of _ err] exI [of _ "m_current m"] exI [of _ ob]
          exI [of _ ?env]) auto
  next
    case None
    let ?env = "NewEnvelope new_id now event None"
    note S = Send_result [OF k(1,2), where env = ?env and ?t0.0 = t0 and ?t1.0 = t1, unfolded k]
    show ?thesis
    proof (cases "refusal d ob (m_current m) ?env")
      case None
      let ?m = "fst (Send k ?env t0 t1)"
      have step: "stages_loop src failEvent i (s # stages) m = stages_loop src failEvent (Suc i) stages ?m"
        using S(1) None \<open>e = None\<close>
        by (simp add: s r send_event_def src k_def [symmetric] split_beta split: outcome.split)
      have cur: "m_current ?m = c" using S(2) [OF None] edge_target [OF c] by (simp add: ended_by_def)
      from Cons.IH [OF _ _ rest [folded cur]] S(4) Cons.prems(4) step
      have IH: "(res = PipelineDone \<and> m_current m' = fin
           \<and> (stages \<noteq> [] \<longrightarrow> (\<exists>ob st env. ended_by d m' ob st env)))
        \<or> (\<exists>ev err st ob env. res = PipelineStage ev err \<and> ended_by d m' ob st env
             \<and> env_Event env = failEvent \<and> meta_get env ''error'' = Some err)
        \<or> (\<exists>ev err env c. res = PipelineTransition ev err \<and> env_Event env = ev
             \<and> edge d (m_current m') ev c \<and> refusal d (m_obj m') (m_current m') env = Some err)"
        by simp
      have "\<exists>ob st env. ended_by d m' ob st env" if "stages = []"
        using S(2) [OF None] Cons.prems(4) that step by auto
      with IH show ?thesis by blast
    next
      case (Some err)
      then have m': "fst (Send k ?env t0 t1) = k" using S(3) by simp
      have "stages_loop src failEvent i (s # stages) m = (k, PipelineTransition event err)"
        using S(1) Some \<open>e = None\<close> m'
        by (simp add: s r send_event_def src k_def [symmetric] split_beta split: outcome.split)
      with Cons.prems(4) k c Some show ?thesis
        by (intro disjI2 exI [of _ event] exI [of _ err] exI [of _ ?env] exI [of _ c]) auto
    qed
  qed
qed

end

section \<open>The analytics pipeline\<close>

text \<open>The definition at the runner's types; the argument only fixes the type of the closures' data.\<close>

abbreviation analytics_d ::
    "'x itself \<Rightarrow> ((analyticsPipelineRun, 'x) world, string, string) fsm_definition" where
  "analytics_d T \<equiv> AnalyticsPipelineFSM w_clock analytics_methods"

lemma analytics_synced: "synced_definition (analytics_d TYPE('x)) (\<lambda>w. apr_stage (w_run w))"
  by (rule synced_compiled [OF AnalyticsPipelineFSM_Inr AnalyticsPipelineFSM_quiet])
    (simp add: AnalyticsPipelineFSM_builder_def builder_simps analytics_methods_def on_run_def analytics_fail_effect_def Let_def
      split: option.split)

interpretation analytics_run: synced_definition "analytics_d TYPE('x)" "\<lambda>w. apr_stage (w_run w)"
  by (rule analytics_synced)

lemma analytics_fail_target: "edge (analytics_d TYPE('x)) st APEventFail c \<Longrightarrow> c = APStateFailed"
  by (auto simp: AnalyticsPipelineFSM_edge analytics_edges_def state_names)

lemma analytics_fail_unguarded:
  assumes "edge (analytics_d TYPE('x)) st APEventFail c"
  shows "always_fails (analytics_d TYPE('x)) APEventFail st"
  unfolding always_fails_def
proof (intro allI impI)
  fix ob :: "(analyticsPipelineRun, 'x) world" and env :: "string envelope"
  assume e: "env_Event env = APEventFail"
  with assms have "edge (analytics_d TYPE('x)) st (env_Event env) c" by simp
  from AnalyticsPipelineFSM_refusal [OF this, of ob] e show "refusal (analytics_d TYPE('x)) ob st env = None"
    by (simp add: state_names)
qed

lemma analytics_ended_by:
  assumes "ended_by (analytics_d TYPE('x)) m ob st env"
  shows "apr_stage (w_run (m_obj m)) = m_current m"
    and "env_Event env = APEventFail \<Longrightarrow> meta_get env ''error'' = Some err \<Longrightarrow>
      m_current m = APStateFailed \<and> apr_errMsg (w_run (m_obj m)) = err"
proof -
  show "apr_stage (w_run (m_obj m)) = m_current m"
    using assms by (simp add: ended_by_def analytics_run.effect_status)
  assume e: "env_Event env = APEventFail" "meta_get env ''error'' = Some err"
  from assms have ed: "edge (analytics_d TYPE('x)) st APEventFail (m_current m)"
    using enabled_edge [of "analytics_d TYPE('x)" ob st env] e(1) by (simp add: ended_by_def)
  then have "edge (analytics_d TYPE('x)) st (env_Event env) (m_current m)" using e(1) by simp
  from analytics_fail_effect_of [OF this e(1), of ob]
  have "m_obj m = fst (analytics_fail_effect analytics_methods ob env)" using assms by (simp add: ended_by_def)
  with analytics_fail_target [OF ed] e(2) show "m_current m = APStateFailed \<and> apr_errMsg (w_run (m_obj m)) = err"
    by (simp add: analytics_fail_effect_def analytics_methods_def on_run_def)
qed

lemma analytics_chain:
  "stage_path (analytics_d TYPE('x)) (always_fails (analytics_d TYPE('x)) APEventFail) APStateCollecting
     [APEventCollected, APEventAggregated, APEventEnriched, APEventDelivered] APStateCompleted"
proof -
  have af: "always_fails (analytics_d TYPE('x)) APEventFail st"
    if "(st, APEventFail, APStateFailed) \<in> set analytics_edges" for st
    by (rule analytics_fail_unguarded) (use that in \<open>simp add: AnalyticsPipelineFSM_edge\<close>)
  have "always_fails (analytics_d TYPE('x)) APEventFail st"
    if "st \<in> set [APStateCollecting, APStateAggregating, APStateEnriching, APStateDelivering]" for st
    using that by (intro af) (auto simp: analytics_edges_def)
  moreover have "edge (analytics_d TYPE('x)) APStateCollecting APEventCollected APStateAggregating"
    "edge (analytics_d TYPE('x)) APStateAggregating APEventAggregated APStateEnriching"
    "edge (analytics_d TYPE('x)) APStateEnriching APEventEnriched APStateDelivering"
    "edge (analytics_d TYPE('x)) APStateDelivering APEventDelivered APStateCompleted"
    by (simp_all add: AnalyticsPipelineFSM_edge analytics_edges_def)
  ultimately show ?thesis by (simp only: stage_path.simps) (meson list.set_intros)
qed

lemma analytics_start:
  "\<exists>m. New (analytics_d TYPE('x)) w APStateIdle = Some m
     \<and> (\<exists>m'. send_event src 0 APEventStartCollect [] m = (m', Returned None)
          \<and> m_def m' = analytics_d TYPE('x) \<and> \<not> m_inFlight m' \<and> m_current m' = APStateCollecting)"
proof -
  let ?d = "analytics_d TYPE('x)"
  define m where "m = fresh_machine ?d w APStateIdle"
  have m: "m_def m = ?d" "\<not> m_inFlight m" "m_current m = APStateIdle" "m_obj m = w"
    by (simp_all add: m_def fresh_machine_def)
  have New: "New ?d w APStateIdle = Some m" using analytics_fsm.capacity by (simp add: New_Some m_def)
  obtain new_id now t0 t1 where src: "src 0 = (new_id, now, t0, t1)" by (cases "src 0") auto
  let ?env = "NewEnvelope new_id now APEventStartCollect None"
  have "edge ?d APStateIdle (env_Event ?env) APStateCollecting" by (simp add: AnalyticsPipelineFSM_edge analytics_edges_def)
  from AnalyticsPipelineFSM_refusal [OF this, of w] edge_target [OF this]
  have "refusal ?d (m_obj m) (m_current m) ?env = None" "target ?d APStateIdle APEventStartCollect = APStateCollecting"
    by (simp_all add: m state_names)
  with analytics_fsm.Send_result [OF m(1,2), where env = ?env and ?t0.0 = t0 and ?t1.0 = t1] m New show ?thesis
    by (intro exI [of _ m] conjI exI [of _ "fst (Send m ?env t0 t1)"])
      (auto simp: send_event_def src ended_by_def prod_eq_iff)
qed

lemma analytics_collected_refused:
  assumes "edge (analytics_d TYPE('x)) st ev c" and "env_Event env = ev"
    and "refusal (analytics_d TYPE('x)) w st env = Some err"
  shows "ev = APEventCollected \<and> st = APStateCollecting \<and> apr_recordCount (w_run w) = 0
    \<and> err = TransitionError APStateCollecting APStateAggregating APEventCollected PhaseGuard
              (GuardRejected ''cannot aggregate: no records were collected'')"
proof -
  have e: "edge (analytics_d TYPE('x)) st (env_Event env) c"
    using assms(1,2) by simp
  have "ev = APEventCollected"
    using AnalyticsPipelineFSM_refusal [OF e, of w] assms(2,3) by (simp split: if_splits)
  moreover from this have "st = APStateCollecting"
    using assms(1) by (simp add: AnalyticsPipelineFSM_edge analytics_edges_def state_names)
  ultimately show ?thesis
    using AnalyticsPipelineFSM_refusal [OF e, of w] assms(2,3)
    by (auto simp: collected_guard_def analytics_methods_def split: if_splits)
qed

text \<open>
  A run over the four analytics stages always returns: completed when every stage succeeded,
  failed with the stage's error recorded when a stage returned one, and otherwise stopped in
  collecting, and only because no records had been collected.
\<close>

theorem analytics_pipeline_outcome:
  fixes w :: "(analyticsPipelineRun, 'x) world"
  assumes "map fst stages = [APEventCollected, APEventAggregated, APEventEnriched, APEventDelivered]"
  shows "\<exists>m res. runPipeline src w stages = Some (m, res) \<and>
    (case res of
       PipelineDone \<Rightarrow> m_current m = APStateCompleted \<and> apr_stage (w_run (m_obj m)) = APStateCompleted
     | PipelineStage _ err \<Rightarrow>
         m_current m = APStateFailed \<and> apr_stage (w_run (m_obj m)) = APStateFailed
         \<and> apr_errMsg (w_run (m_obj m)) = err
     | PipelineTransition ev err \<Rightarrow>
         ev = APEventCollected \<and> m_current m = APStateCollecting \<and> apr_recordCount (w_run (m_obj m)) = 0
         \<and> err = TransitionError APStateCollecting APStateAggregating APEventCollected PhaseGuard
                   (GuardRejected ''cannot aggregate: no records were collected'')
     | _ \<Rightarrow> False)"
proof -
  let ?d = "analytics_d TYPE('x)"
  obtain m m1 where m: "New ?d w APStateIdle = Some m"
    "send_event src 0 APEventStartCollect [] m = (m1, Returned None)"
    "m_def m1 = ?d" "\<not> m_inFlight m1" "m_current m1 = APStateCollecting"
    using analytics_start [of w src] by blast
  obtain m' res where l: "stages_loop src APEventFail 1 stages m1 = (m', res)"
    by (cases "stages_loop src APEventFail 1 stages m1")
  have run: "runPipeline src w stages = Some (m', res)"
    using m l by (simp add: runPipeline_def run_stages_def)
  have chain: "stage_path ?d (always_fails ?d APEventFail) (m_current m1) (map fst stages) APStateCompleted"
    unfolding m(5) assms by (rule analytics_chain)
  have ne: "stages \<noteq> []" using assms by auto
  from analytics_fsm.stages_loop_outcome [OF m(3,4) chain l] show ?thesis
  proof (elim disjE conjE exE)
    assume "res = PipelineDone" "m_current m' = APStateCompleted"
      "stages \<noteq> [] \<longrightarrow> (\<exists>ob st env. ended_by ?d m' ob st env)"
    with ne analytics_ended_by(1) [of m'] run show ?thesis by fastforce
  next
    fix ev err st ob env
    assume "res = PipelineStage ev err" and b: "ended_by ?d m' ob st env" "env_Event env = APEventFail"
      "meta_get env ''error'' = Some err"
    with analytics_ended_by [OF b(1)] run show ?thesis by simp
  next
    fix ev err env c
    assume "res = PipelineTransition ev err" and b: "env_Event env = ev" "edge ?d (m_current m') ev c"
      "refusal ?d (m_obj m') (m_current m') env = Some err"
    with analytics_collected_refused [OF b(2,1,3)] run show ?thesis by simp
  qed
qed

section \<open>The forecast pipeline\<close>

text \<open>The definition at the runner's types; the argument only fixes the type of the closures' data.\<close>

abbreviation forecast_d ::
    "'x itself \<Rightarrow> ((forecastPipelineRun, 'x) world, string, string) fsm_definition" where
  "forecast_d T \<equiv> ForecastPipelineFSM w_clock forecast_methods"

lemma forecast_synced: "synced_definition (forecast_d TYPE('x)) (\<lambda>w. fpr_stage (w_run w))"
  by (rule synced_compiled [OF ForecastPipelineFSM_Inr ForecastPipelineFSM_quiet])
    (simp add: ForecastPipelineFSM_builder_def builder_simps forecast_methods_def on_run_def forecast_fail_effect_def Let_def
      split: option.split)

interpretation forecast_run: synced_definition "forecast_d TYPE('x)" "\<lambda>w. fpr_stage (w_run w)"
  by (rule forecast_synced)

lemma forecast_fail_target: "edge (forecast_d TYPE('x)) st FPEventFail c \<Longrightarrow> c = FPStateFailed"
  by (auto simp: ForecastPipelineFSM_edge forecast_edges_def state_names)

lemma forecast_fail_unguarded:
  assumes "edge (forecast_d TYPE('x)) st FPEventFail c"
  shows "always_fails (forecast_d TYPE('x)) FPEventFail st"
  unfolding always_fails_def
proof (intro allI impI)
  fix ob :: "(forecastPipelineRun, 'x) world" and env :: "string envelope"
  assume e: "env_Event env = FPEventFail"
  with assms have "edge (forecast_d TYPE('x)) st (env_Event env) c" by simp
  from ForecastPipelineFSM_refusal [OF this, of ob] e show "refusal (forecast_d TYPE('x)) ob st env = None"
    by (simp add: state_names)
qed

lemma forecast_ended_by:
  assumes "ended_by (forecast_d TYPE('x)) m ob st env"
  shows "fpr_stage (w_run (m_obj m)) = m_current m"
    and "env_Event env = FPEventFail \<Longrightarrow> meta_get env ''error'' = Some err \<Longrightarrow>
      m_current m = FPStateFailed \<and> fpr_errMsg (w_run (m_obj m)) = err"
proof -
  show "fpr_stage (w_run (m_obj m)) = m_current m"
    using assms by (simp add: ended_by_def forecast_run.effect_status)
  assume e: "env_Event env = FPEventFail" "meta_get env ''error'' = Some err"
  from assms have ed: "edge (forecast_d TYPE('x)) st FPEventFail (m_current m)"
    using enabled_edge [of "forecast_d TYPE('x)" ob st env] e(1) by (simp add: ended_by_def)
  then have "edge (forecast_d TYPE('x)) st (env_Event env) (m_current m)" using e(1) by simp
  from forecast_fail_effect_of [OF this e(1), of ob]
  have "m_obj m = fst (forecast_fail_effect forecast_methods ob env)" using assms by (simp add: ended_by_def)
  with forecast_fail_target [OF ed] e(2) show "m_current m = FPStateFailed \<and> fpr_errMsg (w_run (m_obj m)) = err"
    by (simp add: forecast_fail_effect_def forecast_methods_def on_run_def)
qed

lemma forecast_chain:
  "stage_path (forecast_d TYPE('x)) (always_fails (forecast_d TYPE('x)) FPEventFail) FPStateIngesting
     [FPEventIngested, FPEventFeaturesReady, FPEventModelTrained, FPEventScored, FPEventPostProcessed, FPEventPublished] FPStateCompleted"
proof -
  have af: "always_fails (forecast_d TYPE('x)) FPEventFail st"
    if "(st, FPEventFail, FPStateFailed) \<in> set forecast_edges" for st
    by (rule forecast_fail_unguarded) (use that in \<open>simp add: ForecastPipelineFSM_edge\<close>)
  have "always_fails (forecast_d TYPE('x)) FPEventFail st"
    if "st \<in> set [FPStateIngesting, FPStateFeatureEngineering, FPStateModelTraining, FPStateScoring, FPStatePostProcessing, FPStatePublishing]" for st
    using that by (intro af) (auto simp: forecast_edges_def)
  moreover have "edge (forecast_d TYPE('x)) FPStateIngesting FPEventIngested FPStateFeatureEngineering"
    "edge (forecast_d TYPE('x)) FPStateFeatureEngineering FPEventFeaturesReady FPStateModelTraining"
    "edge (forecast_d TYPE('x)) FPStateModelTraining FPEventModelTrained FPStateScoring"
    "edge (forecast_d TYPE('x)) FPStateScoring FPEventScored FPStatePostProcessing"
    "edge (forecast_d TYPE('x)) FPStatePostProcessing FPEventPostProcessed FPStatePublishing"
    "edge (forecast_d TYPE('x)) FPStatePublishing FPEventPublished FPStateCompleted"
    by (simp_all add: ForecastPipelineFSM_edge forecast_edges_def)
  ultimately show ?thesis by (simp only: stage_path.simps) (meson list.set_intros)
qed

lemma forecast_start:
  "\<exists>m. New (forecast_d TYPE('x)) w FPStateIdle = Some m
     \<and> (\<exists>m'. send_event src 0 FPEventStartIngest [] m = (m', Returned None)
          \<and> m_def m' = forecast_d TYPE('x) \<and> \<not> m_inFlight m' \<and> m_current m' = FPStateIngesting)"
proof -
  let ?d = "forecast_d TYPE('x)"
  define m where "m = fresh_machine ?d w FPStateIdle"
  have m: "m_def m = ?d" "\<not> m_inFlight m" "m_current m = FPStateIdle" "m_obj m = w"
    by (simp_all add: m_def fresh_machine_def)
  have New: "New ?d w FPStateIdle = Some m" using forecast_fsm.capacity by (simp add: New_Some m_def)
  obtain new_id now t0 t1 where src: "src 0 = (new_id, now, t0, t1)" by (cases "src 0") auto
  let ?env = "NewEnvelope new_id now FPEventStartIngest None"
  have "edge ?d FPStateIdle (env_Event ?env) FPStateIngesting" by (simp add: ForecastPipelineFSM_edge forecast_edges_def)
  from ForecastPipelineFSM_refusal [OF this, of w] edge_target [OF this]
  have "refusal ?d (m_obj m) (m_current m) ?env = None" "target ?d FPStateIdle FPEventStartIngest = FPStateIngesting"
    by (simp_all add: m state_names)
  with forecast_fsm.Send_result [OF m(1,2), where env = ?env and ?t0.0 = t0 and ?t1.0 = t1] m New show ?thesis
    by (intro exI [of _ m] conjI exI [of _ "fst (Send m ?env t0 t1)"])
      (auto simp: send_event_def src ended_by_def prod_eq_iff)
qed

lemma forecast_refused:
  assumes "edge (forecast_d TYPE('x)) st ev c" and "env_Event env = ev"
    and "refusal (forecast_d TYPE('x)) w st env = Some err"
  shows "ev = FPEventIngested \<and> st = FPStateIngesting \<and> fpr_dataPointCount (w_run w) < 7
    \<or> ev = FPEventModelTrained \<and> st = FPStateModelTraining \<and> f_lt (fpr_modelAccuracy (w_run w)) f_zero"
proof -
  have e: "edge (forecast_d TYPE('x)) st (env_Event env) c"
    using assms(1,2) by simp
  have ev: "ev = FPEventIngested \<or> ev = FPEventModelTrained"
    using ForecastPipelineFSM_refusal [OF e, of w] assms(2,3) by (simp split: if_splits)
  then have st: "ev = FPEventIngested \<and> st = FPStateIngesting \<or> ev = FPEventModelTrained \<and> st = FPStateModelTraining"
    using assms(1) by (elim disjE) (simp_all add: ForecastPipelineFSM_edge forecast_edges_def state_names)
  have "FPEventIngested \<noteq> FPEventModelTrained" by (simp add: state_names)
  then show ?thesis
    using ForecastPipelineFSM_refusal [OF e, of w] assms(2,3) st
    by (auto simp: ingested_guard_def model_trained_guard_def forecast_methods_def split: if_splits)
qed

text \<open>
  A run over the six forecast stages always returns: completed when every stage succeeded,
  failed with the stage's error recorded when a stage returned one, and otherwise stopped where
  fewer than seven data points were ingested or the model's accuracy came out negative.
\<close>

theorem forecast_pipeline_outcome:
  fixes w :: "(forecastPipelineRun, 'x) world"
  assumes "map fst stages = [FPEventIngested, FPEventFeaturesReady, FPEventModelTrained, FPEventScored,
             FPEventPostProcessed, FPEventPublished]"
  shows "\<exists>m res. runForecastPipeline src w stages = Some (m, res) \<and>
    (case res of
       PipelineDone \<Rightarrow> m_current m = FPStateCompleted \<and> fpr_stage (w_run (m_obj m)) = FPStateCompleted
     | PipelineStage _ err \<Rightarrow>
         m_current m = FPStateFailed \<and> fpr_stage (w_run (m_obj m)) = FPStateFailed
         \<and> fpr_errMsg (w_run (m_obj m)) = err
     | PipelineTransition ev err \<Rightarrow>
         ev = FPEventIngested \<and> m_current m = FPStateIngesting \<and> fpr_dataPointCount (w_run (m_obj m)) < 7
         \<or> ev = FPEventModelTrained \<and> m_current m = FPStateModelTraining
           \<and> f_lt (fpr_modelAccuracy (w_run (m_obj m))) f_zero
     | _ \<Rightarrow> False)"
proof -
  let ?d = "forecast_d TYPE('x)"
  obtain m m1 where m: "New ?d w FPStateIdle = Some m"
    "send_event src 0 FPEventStartIngest [] m = (m1, Returned None)"
    "m_def m1 = ?d" "\<not> m_inFlight m1" "m_current m1 = FPStateIngesting"
    using forecast_start [of w src] by blast
  obtain m' res where l: "stages_loop src FPEventFail 1 stages m1 = (m', res)"
    by (cases "stages_loop src FPEventFail 1 stages m1")
  have run: "runForecastPipeline src w stages = Some (m', res)"
    using m l by (simp add: runForecastPipeline_def run_stages_def)
  have chain: "stage_path ?d (always_fails ?d FPEventFail) (m_current m1) (map fst stages) FPStateCompleted"
    unfolding m(5) assms by (rule forecast_chain)
  have ne: "stages \<noteq> []" using assms by auto
  from forecast_fsm.stages_loop_outcome [OF m(3,4) chain l] show ?thesis
  proof (elim disjE conjE exE)
    assume "res = PipelineDone" "m_current m' = FPStateCompleted"
      "stages \<noteq> [] \<longrightarrow> (\<exists>ob st env. ended_by ?d m' ob st env)"
    with ne forecast_ended_by(1) [of m'] run show ?thesis by fastforce
  next
    fix ev err st ob env
    assume "res = PipelineStage ev err" and b: "ended_by ?d m' ob st env" "env_Event env = FPEventFail"
      "meta_get env ''error'' = Some err"
    with forecast_ended_by [OF b(1)] run show ?thesis by simp
  next
    fix ev err env c
    assume "res = PipelineTransition ev err" and b: "env_Event env = ev" "edge ?d (m_current m') ev c"
      "refusal ?d (m_obj m') (m_current m') env = Some err"
    with forecast_refused [OF b(2,1,3)] run show ?thesis by simp
  qed
qed

end
