(* ===== verification/FSM_Examples.thy ===== *)
theory FSM_Examples
  imports Entities FSM_User FSM_Correct Pipelines
begin

text \<open>
  The engine's and the machines' theorems at work on concrete rows: one order, table, ticket,
  payment, purchase order, subscription, stock item and account, and runs of their machines.
\<close>

definition no_id :: "uuid \<Rightarrow> string" where
  "no_id u = ''id''"

definition send_of :: "string \<Rightarrow> string envelope \<times> gotime \<times> gotime" where
  "send_of e = (NewEnvelope ''env'' 7 e None, 7, 9)"

definition ex_order :: Order where
  "ex_order = \<lparr>ord_OrderID = 1, ord_UserID = 2, ord_TenantID = 3, ord_RestaurantID = 4,
     ord_CustomerID = None, ord_TableID = Some 7, ord_OrderStatus = ''pending'', ord_OrderType = ''dine-in'',
     ord_TotalAmount = Fin 5, ord_CustomerName = '''', ord_PhoneNumber = '''', ord_Notes = '''',
     ord_CreatedAt = 0, ord_Items = []\<rparr>"

abbreviation "ex_order_fsm \<equiv> OrderFSM (order_methods no_id)"
abbreviation "ex_order_machine \<equiv> fresh_machine ex_order_fsm ex_order OrderStatePending"

definition ex_order_sends :: "(string envelope \<times> gotime \<times> gotime) list" where
  "ex_order_sends = map send_of [''confirm'', ''serve'', ''prepare'', ''ready'', ''serve'']"

lemma order_New: "New (OrderFSM I) ob st = Some (fresh_machine (OrderFSM I) ob st)"
  by (simp add: New_Some order_fsm.capacity)

section \<open>The engine\<close>

theorem run_from_New_wf_witness:
  "wf_machine (run_sends ex_order_machine ex_order_sends)
   \<and> snd (Send (run_sends ex_order_machine ex_order_sends) (fst (send_of ''refund'')) 1 2) \<noteq> Panicked"
  using run_from_New_wf [OF OrderFSM_Inr order_New] .

theorem run_history_window_witness:
  "m_history (run_sends ex_order_machine ex_order_sends) = window 100 (run_log ex_order_machine ex_order_sends)
   \<and> m_seq (run_sends ex_order_machine ex_order_sends) = of_nat (length (run_log ex_order_machine ex_order_sends))
   \<and> length (run_log ex_order_machine ex_order_sends) = 4"
proof -
  have "d_historyCapacity ex_order_fsm = 100" "length (run_log ex_order_machine ex_order_sends) = 4"
    by code_simp+
  with run_history_window [OF order_New [of "order_methods no_id" ex_order OrderStatePending], of ex_order_sends]
  show ?thesis by simp
qed

theorem run_refines_graph_witness:
  "path ex_order_fsm OrderStatePending (map step_of (run_log ex_order_machine ex_order_sends)) OrderStateServed"
proof -
  have "m_current (run_sends ex_order_machine ex_order_sends) = OrderStateServed" by code_simp
  with run_refines_graph [OF order_New [of "order_methods no_id" ex_order OrderStatePending], of ex_order_sends]
  show ?thesis by simp
qed

abbreviation "ex_dead_machine \<equiv> fresh_machine ex_order_fsm ex_order OrderStateCancelled"

theorem terminal_absorbs_witness:
  "run_sends ex_dead_machine ex_order_sends = ex_dead_machine \<and> run_log ex_dead_machine ex_order_sends = []
   \<and> Send ex_dead_machine (fst (send_of ''confirm'')) 1 2 = (ex_dead_machine, Returned (Some ErrTerminalState))"
proof -
  have "IsTerminal ex_dead_machine" "\<not> m_inFlight ex_dead_machine"
    by (simp_all add: IsTerminal_def fresh_machine_def OrderFSM_IsTerminal)
  then show ?thesis by (rule terminal_absorbs)
qed

theorem Send_error_atomic_witness:
  "fst (Send ex_order_machine (fst (send_of ''serve'')) 1 2)
     = ex_order_machine\<lparr>m_obj := m_obj (fst (Send ex_order_machine (fst (send_of ''serve'')) 1 2))\<rparr>"
proof -
  have "snd (Send ex_order_machine (fst (send_of ''serve'')) 1 2)
      = Returned (Some (ErrInvalidTransition ''pending'' ''serve''))" by code_simp
  then show ?thesis by (intro Send_error_atomic) (simp add: prod_eq_iff)
qed

theorem Can_predicts_Send_witness:
  "\<exists>err. Send ex_order_machine (fst (send_of ''serve'')) 1 2 = (ex_order_machine, Returned (Some err)) \<and> blocked err"
proof -
  have "guards_pure (m_def ex_order_machine)" "\<not> m_inFlight ex_order_machine"
    by (simp_all add: fresh_machine_def order_fsm.pure)
  note can = Can_predicts_Send [OF this, of "fst (send_of ''serve'')" 1 2]
  have "snd (Can ex_order_machine (env_Event (fst (send_of ''serve''))) (fst (send_of ''serve''))) = False"
    by code_simp
  with can show ?thesis by simp
qed

theorem BatchSend_spec_witness:
  "\<exists>\<sigma>' rs. BatchSend (\<lambda>p. ex_order_machine) [3, 1] (fst (send_of ''confirm'')) (\<lambda>k. (1, 2))
      = (\<sigma>', Some ((\<forall>r \<in> set rs. br_Err r = None), rs))
    \<and> map br_Index rs = [0, 1] \<and> \<sigma>' 2 = ex_order_machine"
proof -
  have cap: "\<forall>p \<in> set [3, 1]. 0 \<le> d_historyCapacity (m_def ((\<lambda>p. ex_order_machine) p))"
    by (simp add: fresh_machine_def order_fsm.capacity)
  have "distinct [3::nat, 1]" "2 \<notin> set [3::nat, 1]" "[0..<length [3::nat, 1]] = [0, 1]" by simp_all
  with BatchSend_spec [OF cap, of "fst (send_of ''confirm'')" "\<lambda>k. (1, 2)"] show ?thesis by (metis (no_types, lifting))
qed

section \<open>The machines\<close>

theorem order_life_cycle_witness:
  "length (run_log ex_order_machine ex_order_sends) \<le> 5
   \<and> map (env_Event \<circ> rec_Event) (run_log ex_order_machine ex_order_sends)
       = [OrderEventConfirm, OrderEventPrepare, OrderEventReady, OrderEventServe]"
proof -
  have "m_current (run_sends ex_order_machine ex_order_sends) = OrderStateServed" by code_simp
  with order_life_cycle [OF order_New [of "order_methods no_id" ex_order OrderStatePending], of ex_order_sends] show ?thesis by simp
qed

theorem order_confirm_guarded_witness:
  "fst (fire ex_order_fsm ex_order OrderStatePending (fst (send_of ''confirm'')) 1 2) = ex_order\<lparr>ord_OrderStatus := ''confirmed''\<rparr>"
proof -
  have e: "env_Event (fst (send_of ''confirm'')) = OrderEventConfirm"
    by (simp add: send_of_def NewEnvelope_def state_names)
  have "\<not> f_le (oc_GetTotalAmount (order_methods no_id) ex_order) f_zero" by code_simp
  with order_confirm_guarded [OF e, of "order_methods no_id" ex_order 1 2] show ?thesis
    by (simp add: order_methods_def state_names)
qed

definition ex_kot :: KOT where
  "ex_kot = \<lparr>kot_KOTID = 11, kot_OrderID = 1, kot_RestaurantID = 4, kot_TenantID = 3, kot_KOTNumber = ''KOT-1'',
     kot_SequenceNumber = 1, kot_OrderNumber = ''ORD-1'', kot_TableNumber = None, kot_CustomerName = '''',
     kot_OrderType = ''dine-in'', kot_GuestCount = None, kot_Status = ''in_progress'', kot_Priority = ''urgent'',
     kot_CreatedByUserID = 2, kot_AssignedToChefID = None, kot_PrintCount = 0, kot_LastPrintedAt = None\<rparr>"

theorem kot_cancel_guarded_witness:
  "fst (fire (KOTFSM (kot_methods no_id)) ex_kot KOTStateInProgress (fst (send_of ''cancel'')) 1 2) = ex_kot
   \<and> fst (fire (KOTFSM (kot_methods no_id)) ex_kot KOTStateInProgress
        (WithMeta (fst (send_of ''cancel'')) ''force_cancel'' ''true'') 1 2) = ex_kot\<lparr>kot_Status := ''cancelled''\<rparr>"
proof -
  have e: "env_Event (fst (send_of ''cancel'')) = KOTEventCancel"
      "env_Event (WithMeta (fst (send_of ''cancel'')) ''force_cancel'' ''true'') = KOTEventCancel"
    by (simp_all add: send_of_def NewEnvelope_def WithMeta_def Let_def state_names)
  show ?thesis
    using kot_cancel_guarded [OF e(1), of "kot_methods no_id" ex_kot 1 2]
      kot_cancel_guarded [OF e(2), of "kot_methods no_id" ex_kot 1 2]
    by (simp add: kot_methods_def ex_kot_def state_names meta_get_def send_of_def NewEnvelope_def WithMeta_def Let_def)
qed

definition ex_table :: Table where
  "ex_table = \<lparr>tab_TableID = 7, tab_RestaurantID = 4, tab_Capacity = 2, tab_Status = ''occupied''\<rparr>"

theorem table_turnover_witness:
  "\<exists>earlier. map step_of (run_log (fresh_machine (TableFSM table_methods) ex_table TableStateOccupied)
       (map send_of [''release'', ''clean''])) =
    earlier @ [(TableStateOccupied, TableEventRelease, TableStateCleaning),
               (TableStateCleaning, TableEventClean, TableStateAvailable)]"
proof -
  have n: "New (TableFSM table_methods) ex_table TableStateOccupied
      = Some (fresh_machine (TableFSM table_methods) ex_table TableStateOccupied)"
    by (simp add: New_Some table_fsm.capacity)
  have "m_current (run_sends (fresh_machine (TableFSM table_methods) ex_table TableStateOccupied)
      (map send_of [''release'', ''clean''])) = TableStateAvailable" by code_simp
  with n show ?thesis by (rule table_turnover)
qed

definition ex_payment :: PaymentRecord where
  "ex_payment = \<lparr>pay_PaymentRecordID = 21, pay_TenantID = 3, pay_RestaurantID = 4, pay_OrderID = Some 1,
     pay_Amount = Fin 5, pay_PaymentMethod = ''fonepay'', pay_Status = ''pending_qr'', pay_TransactionID = '''',
     pay_PaymentDate = 0, pay_QRImageData = '''', pay_QRExpiresAt = None, pay_FonepayTransactionID = '''', pay_VerifyToken = '''', pay_EncodedParams = '''',
     pay_FailureReason = ''''\<rparr>"

abbreviation "ex_pay_fsm \<equiv> PaymentFSM (payment_methods no_id)"
abbreviation "ex_pay_machine \<equiv> fresh_machine ex_pay_fsm ex_payment PaymentStatePendingQR"

definition ex_pay_sends :: "(string envelope \<times> gotime \<times> gotime) list" where
  "ex_pay_sends = [send_of ''qr_scanned'', send_of ''payment_received'', send_of ''refund'',
     (WithMeta (fst (send_of ''refund'')) ''manager_approved'' ''true'', 1, 2)]"

theorem payment_life_cycle_witness:
  "map (env_Event \<circ> rec_Event) (run_log ex_pay_machine ex_pay_sends)
     = [PaymentEventQRScanned, PaymentEventReceived, PaymentEventRefund]"
proof -
  have n: "New ex_pay_fsm ex_payment PaymentStatePendingQR = Some ex_pay_machine"
    by (simp add: New_Some payment_fsm.capacity)
  have "m_current (run_sends ex_pay_machine ex_pay_sends) = PaymentStateRefunded" by code_simp
  with payment_life_cycle [OF n, of ex_pay_sends] show ?thesis by simp
qed

theorem payment_refund_guarded_witness:
  "fire ex_pay_fsm ex_payment PaymentStateConfirmed
     (WithMeta (fst (send_of ''refund'')) ''manager_approved'' ''true'') 1 2
     = (ex_payment\<lparr>pay_Status := ''refunded''\<rparr>, Returned None)"
proof -
  have e: "env_Event (WithMeta (fst (send_of ''refund'')) ''manager_approved'' ''true'') = PaymentEventRefund"
    by (simp add: send_of_def NewEnvelope_def WithMeta_def Let_def state_names)
  show ?thesis
    using payment_refund_guarded [OF e, of "payment_methods no_id" ex_payment PaymentStateConfirmed 1 2
        "ex_payment\<lparr>pay_Status := ''refunded''\<rparr>"]
    by (simp add: payment_methods_def state_names meta_get_def send_of_def NewEnvelope_def WithMeta_def Let_def)
qed

definition ex_po :: PurchaseOrder where
  "ex_po = \<lparr>po_PurchaseOrderID = 31, po_TenantID = 3, po_RestaurantID = 4, po_VendorID = 32,
     po_OrderNumber = ''PO-1'', po_OrderDate = 0, po_ExpectedDeliveryDate = None, po_ActualDeliveryDate = None,
     po_Status = ''draft'', po_TotalAmount = Fin 9, po_CreatedBy = 2\<rparr>"

abbreviation "ex_po_machine \<equiv> fresh_machine (PurchaseOrderFSM (po_methods no_id)) ex_po POStateDraft"

theorem po_life_cycle_witness:
  "take 2 (map (env_Event \<circ> rec_Event) (run_log ex_po_machine (map send_of [''submit'', ''approve'', ''receive_full''])))
     = [POEventSubmit, POEventApprove]"
proof -
  have n: "New (PurchaseOrderFSM (po_methods no_id)) ex_po POStateDraft = Some ex_po_machine"
    by (simp add: New_Some po_fsm.capacity)
  have "po_goods_arrived (m_current (run_sends ex_po_machine (map send_of [''submit'', ''approve'', ''receive_full''])))"
    by code_simp
  with po_life_cycle [OF n, of "map send_of [''submit'', ''approve'', ''receive_full'']"] show ?thesis by simp
qed

definition subscription_methods :: "(string \<times> bool) SubscriptionContext" where
  "subscription_methods = \<lparr>sc_GetSubscriptionID = (\<lambda>s. ''sub''), sc_SetStatus = (\<lambda>st s. (st, snd s)),
     sc_GetAutoRenew = snd\<rparr>"

theorem subscription_expire_witness:
  "fire (SubscriptionFSM subscription_methods) (''active'', False) SubscriptionStateActive (fst (send_of ''expire'')) 1 2
     = ((''expired'', False), Returned None)"
proof -
  have e: "env_Event (fst (send_of ''expire'')) = SubscriptionEventExpire"
    by (simp add: send_of_def NewEnvelope_def state_names)
  show ?thesis
    using subscription_expire [OF e, of subscription_methods "(''active'', False)" SubscriptionStateActive 1 2
        "(''expired'', False)"]
    by (simp add: subscription_methods_def state_names)
qed

definition ex_item :: inventoryItemAdapter where
  "ex_item = \<lparr>ada_item = \<lparr>inv_InventoryItemID = 41, inv_TenantID = 3, inv_RestaurantID = 4,
     inv_Name = ''Rice'', inv_Description = '''', inv_SKU = '''', inv_Category = '''', inv_UnitOfMeasure = ''kg'',
     inv_CurrentQuantity = Fin 2, inv_MinimumQuantity = None, inv_MaximumQuantity = None,
     inv_ReorderPoint = Some (Fin 3), inv_UnitCost = None\<rparr>, ada_stockStatus = ''active''\<rparr>"

theorem inventory_follows_quantity_witness:
  "ex_item\<lparr>ada_stockStatus := ''low_stock''\<rparr>
     = ic_SetStockStatus (inventory_methods no_id)
         (DeriveInventoryState (ic_GetCurrentQuantity (inventory_methods no_id) ex_item)
            (ic_GetReorderPoint (inventory_methods no_id) ex_item)) ex_item"
proof (rule inventory_follows_quantity)
  show "fire (InventoryItemFSM (inventory_methods no_id)) ex_item InventoryStateActive (fst (send_of ''stock_low'')) 1 2
      = (ex_item\<lparr>ada_stockStatus := ''low_stock''\<rparr>, Returned None)" by code_simp
qed (simp_all add: send_of_def NewEnvelope_def state_names inventory_methods_def ex_item_def)

definition ex_user :: user_account where
  "ex_user = \<lparr>ua_UserID = ''u'', ua_IsActive = False, ua_MustChangePassword = False, ua_FailedLoginAttempts = 0\<rparr>"

abbreviation "ex_user_machine \<equiv> fresh_machine (UserAccountFSM user_methods) ex_user UserStatePendingVerification"

theorem user_flags_follow_state_witness:
  "flags_match (m_obj (run_sends ex_user_machine (map send_of [''verify'', ''force_password_change''])))
     (m_current (run_sends ex_user_machine (map send_of [''verify'', ''force_password_change''])))"
proof (rule user_flags_follow_state)
  show "New (UserAccountFSM user_methods) ex_user UserStatePendingVerification = Some ex_user_machine"
    by (simp add: New_Some user_fsm.capacity)
  show "flags_match ex_user UserStatePendingVerification" by code_simp
qed

section \<open>The pipelines\<close>

definition ex_supply :: env_supply where
  "ex_supply i = (''env'', 1, 2, 3)"

definition ex_run :: "(analyticsPipelineRun, unit) world" where
  "ex_run = \<lparr>w_run = \<lparr>apr_pipelineID = ''run'', apr_stage = ''idle'', apr_recordCount = 0, apr_startedAt = 0,
     apr_completedAt = 0, apr_errMsg = ''''\<rparr>, w_clock = 5, w_data = ()\<rparr>"

text \<open>Collecting finds three records, enrichment fails.\<close>

definition ex_stages :: "((analyticsPipelineRun, unit) world, string) stage list" where
  "ex_stages =
     [(APEventCollected, \<lambda>w. (w\<lparr>w_run := (w_run w)\<lparr>apr_recordCount := 3\<rparr>\<rparr>, None)),
      (APEventAggregated, \<lambda>w. (w, None)), (APEventEnriched, \<lambda>w. (w, Some ''no rates'')),
      (APEventDelivered, \<lambda>w. (w, None))]"

theorem analytics_pipeline_outcome_witness:
  "\<exists>m. runPipeline ex_supply ex_run ex_stages = Some (m, PipelineStage APEventEnriched ''no rates'')
     \<and> m_current m = APStateFailed \<and> apr_errMsg (w_run (m_obj m)) = ''no rates''"
proof -
  have s: "map fst ex_stages = [APEventCollected, APEventAggregated, APEventEnriched, APEventDelivered]"
    by (simp add: ex_stages_def)
  have "map_option snd (runPipeline ex_supply ex_run ex_stages) = Some (PipelineStage APEventEnriched ''no rates'')"
    by code_simp
  with analytics_pipeline_outcome [OF s, of ex_supply ex_run] show ?thesis by auto
qed

definition ex_forecast :: "(forecastPipelineRun, unit) world" where
  "ex_forecast = \<lparr>w_run = \<lparr>fpr_pipelineID = ''run'', fpr_stage = ''idle'', fpr_dataPointCount = 0,
     fpr_modelAccuracy = Fin 1, fpr_startedAt = 0, fpr_completedAt = 0, fpr_errMsg = ''''\<rparr>, w_clock = 5, w_data = ()\<rparr>"

definition ex_forecast_stages :: "((forecastPipelineRun, unit) world, string) stage list" where
  "ex_forecast_stages =
     (FPEventIngested, \<lambda>w. (w\<lparr>w_run := (w_run w)\<lparr>fpr_dataPointCount := 9\<rparr>\<rparr>, None))
     # map (\<lambda>e. (e, \<lambda>w. (w, None)))
         [FPEventFeaturesReady, FPEventModelTrained, FPEventScored, FPEventPostProcessed, FPEventPublished]"

theorem forecast_pipeline_outcome_witness:
  "\<exists>m. runForecastPipeline ex_supply ex_forecast ex_forecast_stages = Some (m, PipelineDone)
     \<and> m_current m = FPStateCompleted"
proof -
  have s: "map fst ex_forecast_stages = [FPEventIngested, FPEventFeaturesReady, FPEventModelTrained, FPEventScored,
             FPEventPostProcessed, FPEventPublished]"
    by (simp add: ex_forecast_stages_def)
  have "map_option snd (runForecastPipeline ex_supply ex_forecast ex_forecast_stages) = Some PipelineDone"
    by code_simp
  with forecast_pipeline_outcome [OF s, of ex_supply ex_forecast] show ?thesis by auto
qed

end
