(* ===== verification/RBAC_Examples.thy ===== *)
theory RBAC_Examples
  imports RBAC_Correct
begin

text \<open>
  The authorization theorems at work on a small tenant: a waiter's role, a manager's that inherits
  it, and two roles that inherit from each other; user 20 is the manager.
\<close>

definition ex_perm :: "string \<Rightarrow> string \<Rightarrow> string \<Rightarrow> Permission" where
  "ex_perm resource action effect = \<lparr>PermissionID = 0, perm_Resource = resource, perm_Action = action,
     perm_Effect = effect, perm_Conditions = []\<rparr>"

definition ex_role :: "uuid \<Rightarrow> string \<Rightarrow> uuid list \<Rightarrow> Permission list \<Rightarrow> RoleRow" where
  "ex_role i name parents perms = \<lparr>RoleID = i, RoleName = name, role_TenantID = 9, IsSystem = True,
     ParentRoleIDs = parents, Policies = [perms]\<rparr>"

definition ex_roles :: "RoleRow list" where
  "ex_roles =
     [ex_role 1 ''waiter'' [] [ex_perm ''order'' ''create'' ''allow''],
      ex_role 2 ''manager'' [1] [ex_perm ''role'' ''update'' ''allow'', ex_perm ''menu'' ''update'' ''deny''],
      ex_role 3 ''a'' [4] [], ex_role 4 ''b'' [3] []]"

definition ex_assigned :: "uuid \<Rightarrow> uuid \<Rightarrow> UserRoleRow" where
  "ex_assigned user role = \<lparr>UserRoleID = 0, ur_UserID = user, ur_RoleID = role, ur_TenantID = 9,
     ur_AssignedBy = 0, ur_AssignedAt = 0\<rparr>"

definition ex_state :: rbac_state where
  "ex_state = \<lparr>rs_roles = ex_roles, rs_userRoles = [ex_assigned 20 2], rs_policies = [], rs_fault = None,
     rs_local = [], rs_redis = [], rs_redis_down = False, rs_audit = [], maxRolesPerUser = 10\<rparr>"

lemma ex_state_roles [simp]: "rs_roles ex_state = ex_roles"
  by (simp add: ex_state_def)

text \<open>A stand-in for the digest and for the printed identifiers.\<close>

definition ex_env :: rbac_env where
  "ex_env = \<lparr>sha256_hex = filter (\<lambda>c. c \<in> set ''0123456789abcdef''),
     uuid_String = (\<lambda>u. if u = 20 then ''20'' else ''5'')\<rparr>"

definition ex_request :: "string \<Rightarrow> string \<Rightarrow> AccessRequest" where
  "ex_request resource action = \<lparr>req_UserID = 20, req_TenantID = 9, req_Resource = resource,
     req_Action = action, req_ResourceID = None, req_Context = []\<rparr>"

theorem ResolvePermissions_sound_complete_witness:
  "set [ex_perm ''role'' ''update'' ''allow'', ex_perm ''menu'' ''update'' ''deny'', ex_perm ''order'' ''create'' ''allow'']
     = (\<Union>r \<in> inherited ex_roles 9 [2]. grants ex_roles 9 r)"
proof -
  have "ResolvePermissions ex_roles [2] 9 = Inr [ex_perm ''role'' ''update'' ''allow'',
      ex_perm ''menu'' ''update'' ''deny'', ex_perm ''order'' ''create'' ''allow'']"
    by code_simp
  from ResolvePermissions_sound_complete [OF this] show ?thesis by blast
qed


theorem Authorize_fresh_witness:
  "\<exists>p \<in> user_permissions 20 9 ex_state. applies (ex_request ''order'' ''create'') p \<and> perm_Effect p = PolicyEffectAllow"
proof -
  let ?req = "ex_request ''order'' ''create''"
  have c: "cache_cold ex_env 7 (req_UserID ?req) (req_TenantID ?req) ex_state" by code_simp
  have w: "\<not> wildcard_request ?req" by code_simp
  have d: "snd (Authorize ex_env 7 ?req ex_state) = Inr \<lparr>Allowed = True, MatchedPolicy = '''', MatchedRole = '''',
      DenyReason = '''', EvaluatedAt = 7, CacheHit = False\<rparr>" by code_simp
  from Authorize_fresh [OF c w d] show ?thesis by (simp add: ex_request_def)
qed

theorem wildcard_needs_superadmin_witness:
  "\<exists>decision. snd (Authorize ex_env 7 (ex_request ''*'' ''read'') ex_state) = Inr decision \<and> \<not> Allowed decision"
proof -
  have "wildcard_request (ex_request ''*'' ''read'')"
    "\<not> isSuperAdmin (req_UserID (ex_request ''*'' ''read'')) (req_TenantID (ex_request ''*'' ''read'')) ex_state"
    by code_simp+
  from wildcard_needs_superadmin [OF this] show ?thesis by blast
qed

theorem InvalidateAll_keeps_cache_witness:
  "fst (InvalidateAll ex_env 9 (cache_Set ex_env 7 20 9 [] ex_state)) = cache_Set ex_env 7 20 9 [] ex_state"
proof (rule InvalidateAll_keeps_cache)
  show "\<forall>s. set (sha256_hex ex_env s) \<subseteq> set ''0123456789abcdef''" by (auto simp: ex_env_def)
  have "rs_redis (cache_Set ex_env 7 20 9 [] ex_state) = [(cacheKey ex_env 20 9, [], 7 + ttlL2)]"
    by (simp add: cache_Set_def Let_def ex_state_def)
  then show "\<forall>key \<in> fst ` set (rs_redis (cache_Set ex_env 7 20 9 [] ex_state)). \<exists>u t. key = cacheKey ex_env u t"
    by auto
qed

abbreviation "ex_assignment \<equiv> AssignRole ex_env 7 50 20 21 1 9 ex_state"

theorem AssignRole_takes_effect_witness:
  "cache_cold ex_env 8 21 9 (fst ex_assignment)
   \<and> user_permissions 21 9 (fst ex_assignment) = user_permissions 21 9 ex_state
       \<union> (\<Union>r \<in> inherited ex_roles 9 [1]. grants ex_roles 9 r)"
proof -
  have "snd ex_assignment = None" by code_simp
  then have "ex_assignment = (fst ex_assignment, None)" by (simp add: prod_eq_iff)
  moreover have "\<not> rs_redis_down ex_state" "rs_roles ex_state = ex_roles" by (simp_all add: ex_state_def)
  ultimately show ?thesis using AssignRole_takes_effect [of ex_env 7 50 20 21 1 9 ex_state "fst ex_assignment" 8] by simp
qed

theorem AssignRole_no_escalation_witness:
  "\<exists>q \<in> user_permissions 20 9 ex_state. perm_Effect q = PolicyEffectAllow
    \<and> matchesResource (perm_Resource q) ''order'' \<and> matchesAction (perm_Action q) ''create''"
proof (rule AssignRole_no_escalation)
  have "ResolvePermissions ex_roles [1] 9 = Inr [ex_perm ''order'' ''create'' ''allow'']" by code_simp
  from ResolvePermissions_grants [OF this] have
    "set [ex_perm ''order'' ''create'' ''allow''] = (\<Union>r \<in> inherited ex_roles 9 [1]. grants ex_roles 9 r)" by simp
  then show "ex_perm ''order'' ''create'' ''allow'' \<in> (\<Union>r \<in> inherited (rs_roles ex_state) 9 [1]. grants (rs_roles ex_state) 9 r)"
    by (metis insertI1 list.simps(15) ex_state_roles)
  have "loadUserPermissions 20 9 ex_state = Inr [ex_perm ''role'' ''update'' ''allow'',
      ex_perm ''menu'' ''update'' ''deny'', ex_perm ''order'' ''create'' ''allow'']" by code_simp
  note held = loadUserPermissions_Inr [OF this, symmetric]
  show "plain_resources (user_permissions 20 9 ex_state)"
    unfolding held plain_resources_def by (simp add: ex_perm_def)
  show "snd ex_assignment = None" "\<not> isSuperAdmin 20 9 ex_state" by code_simp+
qed (simp_all add: ex_perm_def PolicyEffectAllow_def matchesResource_def matchesAction_def)

theorem role_table_invariant_witness:
  "role_table_ok (fst ex_assignment) \<and> role_table_ok (fst (RevokeRole ex_env 7 20 21 1 9 ex_state))"
proof (rule role_table_invariant)
  have "roles_of u t ex_state = (if u = 20 \<and> t = 9 then [ex_assigned 20 2] else [])" for u t
    by (simp add: roles_of_def ex_state_def ex_assigned_def)
  then show "role_table_ok ex_state" by (simp add: role_table_ok_def ex_state_def)
qed

theorem SeedSystemRoles_idempotent_witness:
  "SeedSystemRoles (\<lambda>k. 200 + of_nat k) 9 (fst (SeedSystemRoles (\<lambda>k. 100 + of_nat k) 9 ex_state))
     = (fst (SeedSystemRoles (\<lambda>k. 100 + of_nat k) 9 ex_state), None)"
proof -
  have "rs_fault ex_state = None" by (simp add: ex_state_def)
  from SeedSystemRoles_idempotent [OF this] show ?thesis by blast
qed

end
