(* ===== verification/Redis.thy ===== *)
theory Redis
  imports Entities
begin

text \<open>
  The Redis commands the services use, on keys with an optional deadline.  A key is there until its
  deadline; \<open>rd_faults\<close> schedules which commands fail, as \<open>faults\<close> does for the database.  A cache
  of JSON values is a table of the values themselves.
\<close>

type_synonym 'v rcache = "(string \<times> 'v \<times> gotime option) list"

definition hours :: "int \<Rightarrow> int" where
  "hours n = n * 3600000000000"

definition minutes :: "int \<Rightarrow> int" where
  "minutes n = n * 60000000000"

definition redis_call :: "('z db_scheme, string, unit) op" where
  "redis_call s =
     (case rd_faults s of
        [] \<Rightarrow> (s, Inr ())
      | fault # rest \<Rightarrow>
          (s\<lparr>rd_faults := rest\<rparr>, case fault of None \<Rightarrow> Inr () | Some err \<Rightarrow> Inl err))"

definition live_entry :: "gotime \<Rightarrow> string \<Rightarrow> 'v rcache \<Rightarrow> ('v \<times> gotime option) option" where
  "live_entry now key cache =
     (case map_of cache key of
        Some (v, Some expiry) \<Rightarrow> if now < expiry then Some (v, Some expiry) else None
      | found \<Rightarrow> found)"

section \<open>Counters\<close>

text \<open>\<open>INCR\<close> on a missing or expired key starts at 1.\<close>

definition redis_Incr :: "gotime \<Rightarrow> string \<Rightarrow> ('z db_scheme, string, int) op" where
  "redis_Incr now key =
     bindE redis_call (\<lambda>_ s.
       let (n, expiry) = (case live_entry now key (rd_counters s) of None \<Rightarrow> (0, None) | Some found \<Rightarrow> found)
       in (s\<lparr>rd_counters := AList.update key (n + 1, expiry) (rd_counters s)\<rparr>, Inr (n + 1)))"

definition redis_Expire :: "string \<Rightarrow> gotime \<Rightarrow> ('z db_scheme, string, unit) op" where
  "redis_Expire key deadline =
     bindE redis_call (\<lambda>_. modify (\<lambda>s.
       case map_of (rd_counters s) key of
         None \<Rightarrow> s
       | Some (n, _) \<Rightarrow> s\<lparr>rd_counters := AList.update key (n, Some deadline) (rd_counters s)\<rparr>))"

section \<open>Values\<close>

text \<open>
  \<open>redis_Get\<close> of a missing key is the error \<open>redis.Nil\<close>; the callers only ask whether there was an
  error.  The cache is a component of the state, given by its selector or its update.
\<close>

definition redis_Get ::
    "gotime \<Rightarrow> ('z db_scheme \<Rightarrow> 'v rcache) \<Rightarrow> string \<Rightarrow> ('z db_scheme, string, 'v) op" where
  "redis_Get now sel key =
     bindE redis_call (\<lambda>_ s.
       (s, case live_entry now key (sel s) of None \<Rightarrow> Inl ''redis: nil'' | Some (v, _) \<Rightarrow> Inr v))"

definition redis_Set ::
    "gotime \<Rightarrow> (('v rcache \<Rightarrow> 'v rcache) \<Rightarrow> 'z db_scheme \<Rightarrow> 'z db_scheme) \<Rightarrow> string \<Rightarrow> 'v \<Rightarrow> int
       \<Rightarrow> ('z db_scheme, string, unit) op" where
  "redis_Set now upd key v ttl =
     bindE redis_call (\<lambda>_. modify (upd (AList.update key (v, Some (now + ttl)))))"

definition redis_Del ::
    "(('v rcache \<Rightarrow> 'v rcache) \<Rightarrow> 'z db_scheme \<Rightarrow> 'z db_scheme) \<Rightarrow> string \<Rightarrow> ('z db_scheme, string, unit) op" where
  "redis_Del upd key = bindE redis_call (\<lambda>_. modify (upd (AList.delete key)))"

text \<open>\<open>if v, err := redis.Get(...); err == nil\<close>.\<close>

definition try_get :: "('s, 'f, 'v) op \<Rightarrow> ('s, 'e, 'v option) op" where
  "try_get m s = (fst (m s), Inr (case snd (m s) of Inl _ \<Rightarrow> None | Inr v \<Rightarrow> Some v))"

section \<open>Facts about them\<close>

lemma redis_call_cases:
  obtains fs r where "redis_call s = (s\<lparr>rd_faults := fs\<rparr>, r)"
proof (cases "rd_faults s")
  case Nil
  then have "redis_call s = (s\<lparr>rd_faults := rd_faults s\<rparr>, Inr ())" by (simp add: redis_call_def)
  then show ?thesis by (rule that)
next
  case (Cons f fs)
  then show ?thesis by (intro that) (simp add: redis_call_def)
qed

lemma redis_call_ok [simp]: "rd_faults s = [] \<Longrightarrow> redis_call s = (s, Inr ())"
  by (simp add: redis_call_def)

lemma redis_call_frame [simp]:
  "db_orders (fst (redis_call s)) = db_orders s" "db_kots (fst (redis_call s)) = db_kots s"
  "db_kotItems (fst (redis_call s)) = db_kotItems s" "rd_counters (fst (redis_call s)) = rd_counters s"
  "faults (fst (redis_call s)) = faults s"
  by (cases rule: redis_call_cases [of s]; simp)+

definition redis_blind :: "('z db_scheme \<Rightarrow> 'z db_scheme \<Rightarrow> bool) \<Rightarrow> bool" where
  "redis_blind R \<longleftrightarrow> (\<forall>s fs. R s (s\<lparr>rd_faults := fs\<rparr>))"

lemma steps_redis_call [steps_rules]: "redis_blind R \<Longrightarrow> steps R redis_call"
  unfolding steps_def
proof
  fix s assume "redis_blind R"
  then show "R s (fst (redis_call s))" by (cases rule: redis_call_cases [of s]) (simp add: redis_blind_def)
qed

lemma steps_redis_Get [steps_rules]:
  "reflp R \<Longrightarrow> transp R \<Longrightarrow> redis_blind R \<Longrightarrow> steps R (redis_Get now sel key)"
  unfolding redis_Get_def by (intro steps_rules steps_get) (simp_all add: steps_def reflpD)

lemma steps_redis_Set [steps_rules]:
  "transp R \<Longrightarrow> redis_blind R \<Longrightarrow> (\<And>f s. R s (upd f s)) \<Longrightarrow> steps R (redis_Set now upd key v ttl)"
  unfolding redis_Set_def by (intro steps_rules)

lemma steps_redis_Del [steps_rules]:
  "transp R \<Longrightarrow> redis_blind R \<Longrightarrow> (\<And>f s. R s (upd f s)) \<Longrightarrow> steps R (redis_Del upd key)"
  unfolding redis_Del_def by (intro steps_rules)

lemma steps_try_get [steps_rules]: "steps R m \<Longrightarrow> steps R (try_get m)"
  by (simp add: steps_def try_get_def)

lemma try_get_Inr: "try_get m s = (s', r) \<Longrightarrow> \<exists>v. r = Inr v"
  by (auto simp: try_get_def)

lemma try_get_simps [simp]:
  "m s = (s', Inr v) \<Longrightarrow> try_get m s = (s', Inr (Some v))"
  "m s = (s', Inl e) \<Longrightarrow> try_get m s = (s', Inr None)"
  by (simp_all add: try_get_def)

text \<open>With no fault left, the commands are those of a map.\<close>

lemma redis_ok [simp]:
  "rd_faults s = [] \<Longrightarrow> redis_Get now sel key s
     = (s, case live_entry now key (sel s) of None \<Rightarrow> Inl ''redis: nil'' | Some (v, _) \<Rightarrow> Inr v)"
  "rd_faults s = [] \<Longrightarrow> redis_Set now upd key v ttl s = (upd (AList.update key (v, Some (now + ttl))) s, Inr ())"
  "rd_faults s = [] \<Longrightarrow> redis_Del upd key s = (upd (AList.delete key) s, Inr ())"
  by (simp_all add: redis_Get_def redis_Set_def redis_Del_def)

end
