(* ===== verification/Go_Strings.thy ===== *)
theory Go_Strings
  imports Prelude "HOL-Library.Sublist"
begin

text \<open>
  The functions of Go's package \<open>strings\<close> the services use, on strings as byte lists: case mapping
  and trimming of ASCII text (the letters and blanks outside ASCII are not mapped), substring and
  prefix tests.
\<close>

definition byte_lower :: "char \<Rightarrow> char" where
  "byte_lower c = (if 65 \<le> (of_char c :: nat) \<and> (of_char c :: nat) \<le> 90 then char_of (of_char c + 32 :: nat) else c)"

definition byte_upper :: "char \<Rightarrow> char" where
  "byte_upper c = (if 97 \<le> (of_char c :: nat) \<and> (of_char c :: nat) \<le> 122 then char_of (of_char c - 32 :: nat) else c)"

definition ToLower :: "string \<Rightarrow> string" where
  "ToLower s = map byte_lower s"

definition ToUpper :: "string \<Rightarrow> string" where
  "ToUpper s = map byte_upper s"

definition is_blank :: "char \<Rightarrow> bool" where
  "is_blank c \<longleftrightarrow> (of_char c :: nat) \<in> {9, 10, 11, 12, 13, 32}"

definition TrimSpace :: "string \<Rightarrow> string" where
  "TrimSpace s = rev (dropWhile is_blank (rev (dropWhile is_blank s)))"

definition HasPrefix :: "string \<Rightarrow> string \<Rightarrow> bool" where
  "HasPrefix s pre \<longleftrightarrow> take (length pre) s = pre"

fun str_Contains :: "string \<Rightarrow> string \<Rightarrow> bool" where
  "str_Contains [] sub = (sub = [])"
| "str_Contains (c # s) sub = (HasPrefix (c # s) sub \<or> str_Contains s sub)"

lemma HasPrefix_prefix: "HasPrefix s pre \<longleftrightarrow> prefix pre s"
  by (metis HasPrefix_def append_eq_conv_conj prefix_def take_is_prefix)

lemma Contains_sublist: "str_Contains s sub \<longleftrightarrow> sublist sub s"
  by (induction s) (auto simp: HasPrefix_prefix sublist_Cons_right)

lemma Contains_trans: "str_Contains s t \<Longrightarrow> str_Contains t u \<Longrightarrow> str_Contains s u"
  by (auto simp: Contains_sublist intro: sublist_order.order.trans)

definition EqualFold :: "string \<Rightarrow> string \<Rightarrow> bool" where
  "EqualFold s t \<longleftrightarrow> ToLower s = ToLower t"

lemma TrimSpace_idem: "TrimSpace (TrimSpace s) = TrimSpace s"
proof -
  let ?d = "dropWhile is_blank s"
  let ?t = "rev (dropWhile is_blank (rev ?d))"
  have "dropWhile is_blank ?t = ?t"
  proof (cases ?t)
    case (Cons c cs)
    obtain ys where "rev ?d = ys @ dropWhile is_blank (rev ?d)"
      by (metis takeWhile_dropWhile_id)
    then have "?d = ?t @ rev ys" by (metis rev_append rev_rev_ident)
    with Cons have "hd ?d = c" "?d \<noteq> []" by auto
    then have "\<not> is_blank c" using hd_dropWhile [of is_blank s] by metis
    with Cons show ?thesis by simp
  next
    case Nil
    then show ?thesis by (simp only: Nil dropWhile.simps)
  qed
  then show ?thesis by (simp add: TrimSpace_def dropWhile_idem)
qed

end
