(* ===== verification/Machine_Tables.thy ===== *)
theory Machine_Tables
  imports Store
begin

text \<open>
  Tables whose rows carry the state of a machine in a status column.  \<open>table_follows\<close> says what a
  service may do to such a table: no row disappears or changes its identity, a status moves only
  along edges, and a new row starts where the machine starts.  The locale proves once how the
  building blocks of a handler keep it; each service interprets it on its table.
\<close>

definition keyed :: "('s \<Rightarrow> 'r list) \<Rightarrow> ('r \<Rightarrow> 'k) \<Rightarrow> 's \<Rightarrow> bool" where
  "keyed table key s \<longleftrightarrow> distinct (map key (table s))"

definition row_follows ::
    "('r \<Rightarrow> 'f) \<Rightarrow> ('r \<Rightarrow> 'st) \<Rightarrow> ('st \<times> 'st) set \<Rightarrow> 'r \<Rightarrow> 'r \<Rightarrow> bool" where
  "row_follows identity status moves a b \<longleftrightarrow>
     identity b = identity a \<and> (status a, status b) \<in> moves\<^sup>*"

definition grown_from ::
    "('r \<Rightarrow> 'f) \<Rightarrow> ('r \<Rightarrow> 'st) \<Rightarrow> ('st \<times> 'st) set \<Rightarrow> 'st \<Rightarrow> 'r list \<Rightarrow> 'r list \<Rightarrow> bool" where
  "grown_from identity status moves start rows rows' \<longleftrightarrow>
     (\<exists>old new. rows' = old @ new \<and> list_all2 (row_follows identity status moves) rows old
        \<and> (\<forall>r \<in> set new. (start, status r) \<in> moves\<^sup>*))"

definition table_follows ::
    "('s \<Rightarrow> 'r list) \<Rightarrow> ('r \<Rightarrow> 'k) \<Rightarrow> ('r \<Rightarrow> 'f) \<Rightarrow> ('r \<Rightarrow> 'st) \<Rightarrow> ('st \<times> 'st) set \<Rightarrow> 'st
       \<Rightarrow> 's \<Rightarrow> 's \<Rightarrow> bool" where
  "table_follows table key identity status moves start s s' \<longleftrightarrow>
     (keyed table key s \<longrightarrow>
        keyed table key s' \<and> grown_from identity status moves start (table s) (table s'))"

lemma row_follows_refl [simp]: "row_follows identity status moves r r"
  by (simp add: row_follows_def)

lemma row_follows_same:
  "identity b = identity a \<Longrightarrow> status b = status a \<Longrightarrow> row_follows identity status moves a b"
  by (simp add: row_follows_def)

lemma row_follows_trans:
  "row_follows identity status moves a b \<Longrightarrow> row_follows identity status moves b c
    \<Longrightarrow> row_follows identity status moves a c"
  by (auto simp: row_follows_def)

lemma grown_from_refl [simp]: "grown_from identity status moves start rows rows"
  unfolding grown_from_def by (intro exI [of _ rows] exI [of _ "[]"]) (simp add: list_all2_refl)

lemma grown_from_trans:
  assumes "grown_from identity status moves start a b" and "grown_from identity status moves start b c"
  shows "grown_from identity status moves start a c"
proof -
  let ?f = "row_follows identity status moves"
  obtain old new where b: "b = old @ new" "list_all2 ?f a old" "\<forall>r \<in> set new. (start, status r) \<in> moves\<^sup>*"
    using assms(1) by (auto simp: grown_from_def)
  obtain old' new' where c: "c = old' @ new'" "list_all2 ?f b old'" "\<forall>r \<in> set new'. (start, status r) \<in> moves\<^sup>*"
    using assms(2) by (auto simp: grown_from_def)
  then obtain o1 o2 where o': "old' = o1 @ o2" "list_all2 ?f old o1" "list_all2 ?f new o2"
    using b(1) by (auto simp: list_all2_append1)
  have "(start, status r) \<in> moves\<^sup>*" if r: "r \<in> set o2" for r
  proof -
    obtain q where "q \<in> set new" "?f q r" using o'(3) r by (metis in_set_conv_nth list_all2_conv_all_nth)
    with b(3) show ?thesis by (auto simp: row_follows_def)
  qed
  moreover have "list_all2 ?f a o1"
    by (rule list_all2_trans [OF row_follows_trans b(2) o'(2)])
  ultimately show ?thesis
    unfolding grown_from_def using c(1,3) o'(1) by (intro exI [of _ o1] exI [of _ "o2 @ new'"]) auto
qed

text \<open>A row that was there keeps its identity; where its status is final, it keeps its status too.\<close>

lemma grown_from_member:
  assumes "grown_from identity status moves start rows rows'" and "r \<in> set rows"
  shows "\<exists>r' \<in> set rows'. identity r' = identity r \<and> (status r, status r') \<in> moves\<^sup>*"
proof -
  obtain old new where "rows' = old @ new" "list_all2 (row_follows identity status moves) rows old"
    using assms(1) by (auto simp: grown_from_def)
  moreover obtain i where "i < length rows" "r = rows ! i" using assms(2) by (auto simp: in_set_conv_nth)
  ultimately have "old ! i \<in> set rows'" "row_follows identity status moves r (old ! i)"
    by (auto simp: list_all2_conv_all_nth)
  then show ?thesis by (auto simp: row_follows_def)
qed

lemma final_state: "(a, b) \<in> moves\<^sup>* \<Longrightarrow> a \<notin> Domain moves \<Longrightarrow> b = a"
  by (auto elim: converse_rtranclE)

section \<open>The contract of a status table\<close>

locale machine_table =
  fixes table :: "'z store_scheme \<Rightarrow> 'r list" and key :: "'r \<Rightarrow> 'k::linorder"
    and identity :: "'r \<Rightarrow> 'f" and status :: "'r \<Rightarrow> 'st" and moves :: "('st \<times> 'st) set" and start :: 'st
  assumes table_faults: "table (s\<lparr>faults := fs\<rparr>) = table s"
    and identity_key: "identity a = identity b \<Longrightarrow> key a = key b"
begin

lemma follows_refl: "reflp (table_follows table key identity status moves start)"
  by (rule reflpI) (simp add: table_follows_def)

lemma follows_trans: "transp (table_follows table key identity status moves start)"
  by (rule transpI) (auto simp: table_follows_def intro: grown_from_trans)

lemma follows_same: "table s' = table s \<Longrightarrow> table_follows table key identity status moves start s s'"
  by (simp add: table_follows_def keyed_def)

lemma follows_blind: "fault_blind (table_follows table key identity status moves start)"
  by (simp add: fault_blind_def follows_same table_faults)

lemmas follows_rules = follows_refl follows_trans follows_blind follows_same

lemma follows_update:
  assumes "table s' = update_rows P f (table s)"
    and "\<And>r. r \<in> set (table s) \<Longrightarrow> keyed table key s \<Longrightarrow> P r \<Longrightarrow> row_follows identity status moves r (f r)"
  shows "table_follows table key identity status moves start s s'"
  unfolding table_follows_def
proof (intro impI conjI)
  assume k: "keyed table key s"
  have all: "list_all2 (row_follows identity status moves) (table s) (table s')"
    using assms(2) k by (auto simp: assms(1) update_rows_def list_all2_map2 intro!: list_all2_same [THEN iffD2])
  then have "map key (table s') = map key (table s)"
    by (auto simp: list_all2_conv_all_nth row_follows_def intro!: nth_equalityI identity_key)
  with k show "keyed table key s'" by (simp add: keyed_def)
  show "grown_from identity status moves start (table s) (table s')"
    unfolding grown_from_def using all by (intro exI [of _ "table s'"] exI [of _ "[]"]) simp
qed

lemma follows_insert:
  assumes "table s' = table s @ [r]" and "key r \<notin> key ` set (table s)" and "status r = start"
  shows "table_follows table key identity status moves start s s'"
  unfolding table_follows_def
proof (intro impI conjI)
  assume "keyed table key s"
  with assms show "keyed table key s'" by (simp add: keyed_def)
  show "grown_from identity status moves start (table s) (table s')"
    unfolding grown_from_def using assms
    by (intro exI [of _ "table s"] exI [of _ "[r]"]) (simp add: list_all2_refl)
qed

text \<open>A handler that loads a row may rely on the row being in the table.\<close>

lemma follows_load:
  fixes f :: "'r \<Rightarrow> ('z store_scheme, 'e, 'b) op"
  assumes "\<And>r s. r \<in> set (table s) \<Longrightarrow> P r
    \<Longrightarrow> table_follows table key identity status moves start s (fst (f r s))"
  shows "steps (table_follows table key identity status moves start) (bindE (db_First nf wrap key table P) f)"
  unfolding steps_def
proof
  fix s :: "'z store_scheme"
  obtain s1 r where g: "db_First nf wrap key table P s = (s1, r)" by (cases "db_First nf wrap key table P s")
  show "table_follows table key identity status moves start s (fst (bindE (db_First nf wrap key table P) f s))"
  proof (cases r)
    case (Inl e)
    obtain fs where "s1 = s\<lparr>faults := fs\<rparr>" using db_First_InlD [OF g [unfolded Inl]] ..
    with g Inl show ?thesis by (simp add: follows_same table_faults)
  next
    case (Inr row)
    from db_First_InrD [OF g [unfolded Inr]] obtain fs where
      s1: "s1 = s\<lparr>faults := fs\<rparr>" and row: "row \<in> set (table s1)" "P row" by blast
    have "table_follows table key identity status moves start s s1"
      by (rule follows_same) (simp add: s1 table_faults)
    from transpD [OF follows_trans this assms [OF row]] show ?thesis using g Inr by simp
  qed
qed

end

end
