(* ===== verification/KOT_Service.thy ===== *)
theory KOT_Service
  imports Redis Go_Strings Machine_Tables
begin

text \<open>
  The kitchen-ticket service of \<open>services/business/Kot.go\<close>: ticket numbers, station routing,
  creation, the status events, chef assignment, item status with auto-completion, and printing.

  \<open>require\<close> is the authorizer the service is constructed with; \<open>now\<close> is the clock reading and the
  identifiers \<open>uuid.New()\<close> draws are arguments.  Formatting a date in the process' time zone and
  the midnight before an instant are the functions of \<open>kot_env\<close>, as is the text of a \<open>uuid.UUID\<close>.
\<close>

record kot_env =
  ke_uuid_String :: "uuid \<Rightarrow> string"
  ke_Format_date :: "gotime \<Rightarrow> string"
  ke_midnight :: "gotime \<Rightarrow> gotime"
  ke_envelope_id :: string

definition ResourceKOT :: string where "ResourceKOT = ''kot''"

datatype kot_error =
    ErrKOTNotFound
  | ErrKOTItemNotFound
  | ErrKOTAlreadyExists KOT
  | ErrKOTOrderNotFound
  | ErrKOTInvalidTransition "(string, string) fsm_error"
  | ErrKOTTerminal
  | ErrKOTItemsRequired
  | ErrKOTChefNotFound
  | ErrKOTCancelInProgress
  | KOTDenied rbac_error
  | KOTWrapped string string
  | KOTPanic

record KOTServiceRequest =
  kr_TenantID :: uuid
  kr_RestaurantID :: uuid
  kr_ActorID :: uuid

record CreateKOTItemInput =
  ci_OrderItemID :: uuid
  ci_ItemName :: string
  ci_Quantity :: int
  ci_Notes :: string
  ci_AssignedStation :: string

record CreateKOTInput = KOTServiceRequest +
  ck_OrderID :: uuid
  ck_TableNumber :: "int option"
  ck_CustomerName :: string
  ck_OrderType :: string
  ck_GuestCount :: "int option"
  ck_Priority :: string
  ck_Items :: "CreateKOTItemInput list"

record UpdateKOTInput = KOTServiceRequest +
  uk_KOTID :: uuid
  uk_Priority :: "string option"
  uk_AssignedToChefID :: "uuid option"
  uk_IsManagerActor :: bool

section \<open>Station routing\<close>

definition containsAny :: "string \<Rightarrow> string list \<Rightarrow> bool" where
  "containsAny s keywords \<longleftrightarrow> (\<exists>kw \<in> set keywords. str_Contains s kw)"

definition autoRouteStation :: "string \<Rightarrow> string" where
  "autoRouteStation itemName =
     (let lower = ToLower itemName in
      if containsAny lower [''beer'', ''wine'', ''cocktail'', ''juice'', ''soda'', ''coffee'', ''tea'',
           ''drink'', ''beverage'', ''smoothie'', ''shake'', ''lemonade'']
      then KitchenStationBeverage
      else if containsAny lower [''cake'', ''ice cream'', ''dessert'', ''pudding'', ''brownie'',
           ''tiramisu'', ''cheesecake'', ''pastry'', ''tart'', ''mousse'']
      then KitchenStationDessert
      else if containsAny lower [''steak'', ''burger'', ''grill'', ''bbq'', ''ribs'', ''skewer'',
           ''kebab'', ''lamb chop'', ''pork chop'']
      then KitchenStationGrill
      else if containsAny lower [''fries'', ''fried'', ''nugget'', ''wings'', ''tempura'', ''fritter'',
           ''spring roll'', ''samosa'', ''calamari'']
      then KitchenStationFryer
      else if containsAny lower [''salad'', ''slaw'', ''carpaccio'', ''tartare'', ''sashimi'', ''cold'',
           ''chilled'']
      then KitchenStationSalad
      else KitchenStationGeneral)"

section \<open>Ticket numbers\<close>

definition go_mod :: "int \<Rightarrow> int \<Rightarrow> int" where
  "go_mod a b = sgn a * (\<bar>a\<bar> mod \<bar>b\<bar>)"

definition generateKOTNumber ::
    "kot_env \<Rightarrow> uuid \<Rightarrow> gotime \<Rightarrow> ('z db_scheme, 'e, string \<times> int) op" where
  "generateKOTNumber K tenantID t s =
     (let dateStr = ke_Format_date K t;
          seqKey = ''kot:seq:'' @ ke_uuid_String K tenantID @ '':'' @ dateStr;
          (s, seq) =
            (case redis_Incr t seqKey s of
               (s, Inl err) \<Rightarrow> (s, go_mod t 9999)
             | (s, Inr seq) \<Rightarrow>
                 (if seq = 1
                  then let ttl = ke_midnight K t + hours 25 - t
                       in if ttl > 0 then fst (redis_Expire seqKey (t + ttl) s) else s
                  else s, seq))
      in (s, Inr (''KOT-'' @ dateStr @ ''-'' @ fmt_0d 4 seq, seq)))"

section \<open>Helpers\<close>

definition isKOTTerminal :: "string \<Rightarrow> bool" where
  "isKOTTerminal status \<longleftrightarrow> status = KOTStatusCompleted \<or> status = KOTStatusCancelled"

definition kot_audit ::
    "kot_env \<Rightarrow> gotime \<Rightarrow> KOTServiceRequest \<Rightarrow> string \<Rightarrow> uuid \<Rightarrow> ('z db_scheme, 'e, unit) op" where
  "kot_audit K now req event entityID =
     ignore (db_write (\<lambda>err. err) (\<lambda>s. s\<lparr>db_audits := db_audits s @
       [\<lparr>aud_TenantID = kr_TenantID req, aud_UserID = Some (kr_ActorID req),
         aud_RestaurantID = Some (kr_RestaurantID req), aud_EventType = event, aud_EventCategory = ''kot'',
         aud_Severity = AuditSeverityInfo, aud_EntityType = ''KOT'',
         aud_EntityID = ke_uuid_String K entityID, aud_Timestamp = now\<rparr>]\<rparr>))"

definition getKOTForWrite :: "uuid \<Rightarrow> uuid \<Rightarrow> uuid \<Rightarrow> ('z db_scheme, kot_error, KOT) op" where
  "getKOTForWrite tenantID restaurantID kotID =
     db_First ErrKOTNotFound (KOTWrapped ''get KOT'') kot_KOTID db_kots
       (\<lambda>k. kot_KOTID k = kotID \<and> kot_TenantID k = tenantID \<and> kot_RestaurantID k = restaurantID)"

definition kot_request :: "string \<Rightarrow> 'z KOTServiceRequest_scheme \<Rightarrow> AccessRequest" where
  "kot_request action req = service_request (kr_ActorID req) (kr_TenantID req) ResourceKOT action"

definition caller_of :: "'z KOTServiceRequest_scheme \<Rightarrow> KOTServiceRequest" where
  "caller_of req = \<lparr>kr_TenantID = kr_TenantID req, kr_RestaurantID = kr_RestaurantID req,
     kr_ActorID = kr_ActorID req\<rparr>"

section \<open>Creation\<close>

fun build_kot_items :: "(nat \<Rightarrow> uuid) \<Rightarrow> uuid \<Rightarrow> nat \<Rightarrow> CreateKOTItemInput list \<Rightarrow> KOTItem list" where
  "build_kot_items ids kotID i [] = []"
| "build_kot_items ids kotID i (item # items) =
     \<lparr>ki_KOTItemID = ids i, ki_KOTID = kotID, ki_OrderItemID = ci_OrderItemID item,
      ki_ItemName = TrimSpace (ci_ItemName item), ki_Quantity = ci_Quantity item,
      ki_Notes = TrimSpace (ci_Notes item),
      ki_AssignedStation = (if ci_AssignedStation item = '''' then autoRouteStation (ci_ItemName item)
                            else ci_AssignedStation item),
      ki_Status = KOTItemStatusPending\<rparr> # build_kot_items ids kotID (Suc i) items"

definition build_kot :: "kot_env \<Rightarrow> uuid \<Rightarrow> string \<Rightarrow> int \<Rightarrow> CreateKOTInput \<Rightarrow> KOT" where
  "build_kot K kotID kotNumber seqNum req =
     (let text = ke_uuid_String K (ck_OrderID req)
      in \<lparr>kot_KOTID = kotID, kot_OrderID = ck_OrderID req, kot_RestaurantID = kr_RestaurantID req,
          kot_TenantID = kr_TenantID req, kot_KOTNumber = kotNumber, kot_SequenceNumber = seqNum,
          kot_OrderNumber = ''ORD-'' @ ToUpper (drop (length text - 8) text),
          kot_TableNumber = ck_TableNumber req, kot_CustomerName = TrimSpace (ck_CustomerName req),
          kot_OrderType = ck_OrderType req, kot_GuestCount = ck_GuestCount req,
          kot_Status = KOTStatusSent,
          kot_Priority = (if ck_Priority req = '''' then KOTPriorityMedium else ck_Priority req),
          kot_CreatedByUserID = kr_ActorID req, kot_AssignedToChefID = None, kot_PrintCount = 0,
          kot_LastPrintedAt = None\<rparr>)"

text \<open>
  The order is sent \<open>prepare\<close>; a refusal is audited as a warning and does not stop the creation.
  The row updated is the order's, with the status the adapter wrote.
\<close>

definition advance_order ::
    "kot_env \<Rightarrow> gotime \<Rightarrow> CreateKOTInput \<Rightarrow> Order \<Rightarrow> ('z db_scheme, kot_error, unit) op" where
  "advance_order K now req order =
     (let prepEnv = WithActor (NewEnvelope (ke_envelope_id K) now OrderEventPrepare None)
                      (kr_ActorID req) (kr_TenantID req)
      in case fire (OrderFSM (order_methods (ke_uuid_String K))) order (ord_OrderStatus order) prepEnv now now of
           (order, Returned None) \<Rightarrow>
             db_write (KOTWrapped ''advance order status'') (\<lambda>s. s\<lparr>db_orders :=
               update_rows (\<lambda>o'. ord_OrderID o' = ck_OrderID req)
                 (\<lambda>o'. o'\<lparr>ord_OrderStatus := ord_OrderStatus order\<rparr>) (db_orders s)\<rparr>)
         | (order, Returned (Some fireErr)) \<Rightarrow>
             ignore (db_write (\<lambda>err. err) (\<lambda>s. s\<lparr>db_audits := db_audits s @
               [\<lparr>aud_TenantID = kr_TenantID req, aud_UserID = None, aud_RestaurantID = None,
                 aud_EventType = AuditEventUpdate, aud_EventCategory = ''kot'',
                 aud_Severity = AuditSeverityWarning, aud_EntityType = ''Order'',
                 aud_EntityID = ke_uuid_String K (ck_OrderID req), aud_Timestamp = now\<rparr>]\<rparr>))
         | (order, Panicked) \<Rightarrow> throw KOTPanic)"

text \<open>
  The transaction: the ticket (its number is unique in the tenant), its items, the order.  The
  batches of \<open>CreateInBatches\<close> are one call, as the transaction makes them all or none.
\<close>

definition persist_kot ::
    "kot_env \<Rightarrow> gotime \<Rightarrow> CreateKOTInput \<Rightarrow> Order \<Rightarrow> KOT \<Rightarrow> KOTItem list \<Rightarrow> ('z db_scheme, kot_error, unit) op" where
  "persist_kot K now req order kot kotItems =
     transaction (KOTWrapped '''')
       (thenE (db_insert (KOTWrapped ''persist KOT'')
                (\<lambda>s. \<exists>k \<in> set (db_kots s). kot_KOTID k = kot_KOTID kot
                   \<or> kot_TenantID k = kot_TenantID kot \<and> kot_KOTNumber k = kot_KOTNumber kot)
                (\<lambda>s. s\<lparr>db_kots := db_kots s @ [kot]\<rparr>))
       (thenE (db_insert (KOTWrapped ''persist KOT items'')
                (\<lambda>s. \<not> distinct (map ki_KOTItemID (db_kotItems s @ kotItems)))
                (\<lambda>s. s\<lparr>db_kotItems := db_kotItems s @ map (\<lambda>i. i\<lparr>ki_KOTID := kot_KOTID kot\<rparr>) kotItems\<rparr>))
         (advance_order K now req order)))"

definition new_kot ::
    "kot_env \<Rightarrow> gotime \<Rightarrow> uuid \<Rightarrow> (nat \<Rightarrow> uuid) \<Rightarrow> CreateKOTInput \<Rightarrow> Order \<Rightarrow> ('z db_scheme, kot_error, KOT) op" where
  "new_kot K now kotID item_ids req order =
     bindE (generateKOTNumber K (kr_TenantID req) now) (\<lambda>numbered.
       let kotItems = build_kot_items item_ids kotID 0 (ck_Items req);
           kot = build_kot K kotID (fst numbered) (snd numbered) req
       in thenE (persist_kot K now req order kot kotItems)
          (thenE (kot_audit K now (caller_of req) AuditEventCreate kotID)
            (ret kot)))"

text \<open>The order's ticket is returned with the error when there is one already.\<close>

definition create_kot_for ::
    "kot_env \<Rightarrow> gotime \<Rightarrow> uuid \<Rightarrow> (nat \<Rightarrow> uuid) \<Rightarrow> CreateKOTInput \<Rightarrow> Order \<Rightarrow> ('z db_scheme, kot_error, KOT) op" where
  "create_kot_for K now kotID item_ids req order =
     bindE (db_find (KOTWrapped ''idempotency check'') kot_KOTID db_kots
              (\<lambda>k. kot_OrderID k = ck_OrderID req \<and> kot_RestaurantID k = kr_RestaurantID req
                   \<and> kot_TenantID k = kr_TenantID req)) (\<lambda>existing.
       case existing of
         Some k \<Rightarrow> throw (ErrKOTAlreadyExists k)
       | None \<Rightarrow> new_kot K now kotID item_ids req order)"

definition create_kot ::
    "kot_env \<Rightarrow> gotime \<Rightarrow> uuid \<Rightarrow> (nat \<Rightarrow> uuid) \<Rightarrow> CreateKOTInput \<Rightarrow> ('z db_scheme, kot_error, KOT) op" where
  "create_kot K now kotID item_ids req =
     (if ck_Items req = [] then throw ErrKOTItemsRequired
      else bindE (db_First ErrKOTOrderNotFound (KOTWrapped ''fetch order'') ord_OrderID db_orders
                    (\<lambda>o'. ord_OrderID o' = ck_OrderID req \<and> ord_TenantID o' = kr_TenantID req
                         \<and> ord_RestaurantID o' = kr_RestaurantID req))
             (create_kot_for K now kotID item_ids req))"

definition CreateKOT ::
    "(AccessRequest \<Rightarrow> 'r \<Rightarrow> 'r \<times> rbac_error option) \<Rightarrow> kot_env \<Rightarrow> gotime \<Rightarrow> uuid \<Rightarrow> (nat \<Rightarrow> uuid)
       \<Rightarrow> CreateKOTInput \<Rightarrow> 'r \<times> 'z db_scheme \<Rightarrow> ('r \<times> 'z db_scheme) \<times> (kot_error + KOT)" where
  "CreateKOT require K now kotID item_ids req =
     guarded require (kot_request ActionCreate req) KOTDenied (create_kot K now kotID item_ids req)"

section \<open>Status events\<close>

definition fireKOTEventOnModel ::
    "kot_env \<Rightarrow> gotime \<Rightarrow> KOTServiceRequest \<Rightarrow> KOT \<Rightarrow> string \<Rightarrow> ('z db_scheme, kot_error, KOT) op" where
  "fireKOTEventOnModel K now req kot event =
     (case fire (KOTFSM (kot_methods (ke_uuid_String K))) kot (kot_Status kot)
             (WithActor (NewEnvelope (ke_envelope_id K) now event None) (kr_ActorID req) (kr_TenantID req))
             now now of
        (kot, Returned (Some err)) \<Rightarrow> throw (ErrKOTInvalidTransition err)
      | (kot, Panicked) \<Rightarrow> throw KOTPanic
      | (kot, Returned None) \<Rightarrow>
          thenE (db_write (KOTWrapped ''persist KOT status'') (\<lambda>s. s\<lparr>db_kots :=
                   update_rows (\<lambda>k. kot_KOTID k = kot_KOTID kot)
                     (\<lambda>k. k\<lparr>kot_Status := kot_Status kot\<rparr>) (db_kots s)\<rparr>))
         (thenE (kot_audit K now req AuditEventUpdate (kot_KOTID kot))
           (ret kot)))"

definition fireKOTEvent ::
    "(AccessRequest \<Rightarrow> 'r \<Rightarrow> 'r \<times> rbac_error option) \<Rightarrow> kot_env \<Rightarrow> gotime \<Rightarrow> KOTServiceRequest \<Rightarrow> uuid
       \<Rightarrow> string \<Rightarrow> 'r \<times> 'z db_scheme \<Rightarrow> ('r \<times> 'z db_scheme) \<times> (kot_error + KOT)" where
  "fireKOTEvent require K now req kotID event =
     guarded require (kot_request ActionUpdate req) KOTDenied
       (bindE (getKOTForWrite (kr_TenantID req) (kr_RestaurantID req) kotID) (\<lambda>kot.
          fireKOTEventOnModel K now req kot event))"

definition StartKOT ::
    "(AccessRequest \<Rightarrow> 'r \<Rightarrow> 'r \<times> rbac_error option) \<Rightarrow> kot_env \<Rightarrow> gotime \<Rightarrow> KOTServiceRequest \<Rightarrow> uuid
       \<Rightarrow> 'r \<times> 'z db_scheme \<Rightarrow> ('r \<times> 'z db_scheme) \<times> (kot_error + KOT)" where
  "StartKOT require K now req kotID = fireKOTEvent require K now req kotID KOTEventStart"

definition CompleteKOT ::
    "(AccessRequest \<Rightarrow> 'r \<Rightarrow> 'r \<times> rbac_error option) \<Rightarrow> kot_env \<Rightarrow> gotime \<Rightarrow> KOTServiceRequest \<Rightarrow> uuid
       \<Rightarrow> 'r \<times> 'z db_scheme \<Rightarrow> ('r \<times> 'z db_scheme) \<times> (kot_error + KOT)" where
  "CompleteKOT require K now req kotID = fireKOTEvent require K now req kotID KOTEventComplete"

definition CancelKOT ::
    "(AccessRequest \<Rightarrow> 'r \<Rightarrow> 'r \<times> rbac_error option) \<Rightarrow> kot_env \<Rightarrow> gotime \<Rightarrow> UpdateKOTInput
       \<Rightarrow> 'r \<times> 'z db_scheme \<Rightarrow> ('r \<times> 'z db_scheme) \<times> (kot_error + KOT)" where
  "CancelKOT require K now req =
     guarded require (kot_request ActionUpdate req) KOTDenied
       (bindE (getKOTForWrite (kr_TenantID req) (kr_RestaurantID req) (uk_KOTID req)) (\<lambda>kot.
          if kot_Status kot = KOTStatusInProgress \<and> \<not> uk_IsManagerActor req
          then throw ErrKOTCancelInProgress
          else fireKOTEventOnModel K now (caller_of req) kot KOTEventCancel))"

section \<open>Chef, items and printing\<close>

text \<open>
  The patch of \<open>UpdateKOT\<close>: a new priority, then a chef who must work in the restaurant; a failed
  chef check leaves everything as it was.
\<close>

definition update_kot :: "kot_env \<Rightarrow> gotime \<Rightarrow> UpdateKOTInput \<Rightarrow> ('z db_scheme, kot_error, KOT) op" where
  "update_kot K now req =
     bindE (getKOTForWrite (kr_TenantID req) (kr_RestaurantID req) (uk_KOTID req)) (\<lambda>kot.
     if isKOTTerminal (kot_Status kot) then throw ErrKOTTerminal else
     let kot = (case uk_Priority req of None \<Rightarrow> kot | Some p \<Rightarrow> kot\<lparr>kot_Priority := p\<rparr>)
     in bindE
         (case uk_AssignedToChefID req of
            None \<Rightarrow> ret kot
          | Some chef \<Rightarrow>
              thenE (db_First ErrKOTChefNotFound (KOTWrapped ''verify chef'') fst db_employees
                       (\<lambda>e. e = (chef, kr_RestaurantID req)))
                (ret (kot\<lparr>kot_AssignedToChefID := Some chef\<rparr>))) (\<lambda>kot.
        if uk_Priority req = None \<and> uk_AssignedToChefID req = None then ret kot
        else
          thenE (db_write (KOTWrapped ''update KOT'') (\<lambda>s. s\<lparr>db_kots :=
                   update_rows (\<lambda>k. kot_KOTID k = kot_KOTID kot)
                     (\<lambda>k. let k = (case uk_Priority req of None \<Rightarrow> k | Some p \<Rightarrow> k\<lparr>kot_Priority := p\<rparr>)
                          in (case uk_AssignedToChefID req of
                                None \<Rightarrow> k | Some chef \<Rightarrow> k\<lparr>kot_AssignedToChefID := Some chef\<rparr>))
                     (db_kots s)\<rparr>))
         (thenE (kot_audit K now (caller_of req) AuditEventUpdate (uk_KOTID req))
           (ret kot))))"

definition UpdateKOT ::
    "(AccessRequest \<Rightarrow> 'r \<Rightarrow> 'r \<times> rbac_error option) \<Rightarrow> kot_env \<Rightarrow> gotime \<Rightarrow> UpdateKOTInput
       \<Rightarrow> 'r \<times> 'z db_scheme \<Rightarrow> ('r \<times> 'z db_scheme) \<times> (kot_error + KOT)" where
  "UpdateKOT require K now req = guarded require (kot_request ActionUpdate req) KOTDenied (update_kot K now req)"

text \<open>
  \<open>tryAutoCompleteKOT\<close> runs in a goroutine after the item's update and drops every error.
\<close>

definition item_terminal :: "string \<Rightarrow> bool" where
  "item_terminal status \<longleftrightarrow>
     status \<in> {KOTItemStatusReady, KOTItemStatusServed, KOTItemStatusCancelled}"

definition tryAutoCompleteKOT ::
    "kot_env \<Rightarrow> gotime \<Rightarrow> KOTServiceRequest \<Rightarrow> uuid \<Rightarrow> ('z db_scheme, 'e, unit) op" where
  "tryAutoCompleteKOT K now req kotID = ignore
     (bindE (db_query (KOTWrapped '''') (\<lambda>s.
         length (filter (\<lambda>i. ki_KOTID i = kotID \<and> \<not> item_terminal (ki_Status i)) (db_kotItems s)))) (\<lambda>nonTerminalCount.
      if nonTerminalCount > 0 then throw ErrKOTTerminal else
      bindE (getKOTForWrite (kr_TenantID req) (kr_RestaurantID req) kotID) (\<lambda>kot.
      if kot_Status kot \<noteq> KOTStatusInProgress then throw ErrKOTTerminal
      else fireKOTEventOnModel K now req kot KOTEventComplete)))"

definition update_item_status ::
    "KOTServiceRequest \<Rightarrow> uuid \<Rightarrow> string \<Rightarrow> ('z db_scheme, kot_error, KOTItem) op" where
  "update_item_status req itemID status =
     bindE (bindE (db_call (KOTWrapped ''get KOT item'')) (\<lambda>_ s.
        (s, case first_row ki_KOTItemID (\<lambda>i. ki_KOTItemID i = itemID
                \<and> (\<exists>k \<in> set (db_kots s). kot_KOTID k = ki_KOTID i \<and> kot_TenantID k = kr_TenantID req
                      \<and> kot_RestaurantID k = kr_RestaurantID req)) (db_kotItems s) of
              None \<Rightarrow> Inl ErrKOTItemNotFound | Some item \<Rightarrow> Inr item))) (\<lambda>item.
     thenE (db_write (KOTWrapped ''update KOT item status'') (\<lambda>s. s\<lparr>db_kotItems :=
              update_rows (\<lambda>i. ki_KOTItemID i = ki_KOTItemID item) (\<lambda>i. i\<lparr>ki_Status := status\<rparr>) (db_kotItems s)\<rparr>))
       (ret (item\<lparr>ki_Status := status\<rparr>)))"

definition UpdateKOTItemStatus ::
    "(AccessRequest \<Rightarrow> 'r \<Rightarrow> 'r \<times> rbac_error option) \<Rightarrow> kot_env \<Rightarrow> gotime \<Rightarrow> KOTServiceRequest \<Rightarrow> uuid
       \<Rightarrow> string \<Rightarrow> 'r \<times> 'z db_scheme \<Rightarrow> ('r \<times> 'z db_scheme) \<times> (kot_error + KOTItem)" where
  "UpdateKOTItemStatus require K now req itemID status =
     guarded require (kot_request ActionUpdate req) KOTDenied
       (bindE (update_item_status req itemID status) (\<lambda>item.
        thenE (tryAutoCompleteKOT K now req (ki_KOTID item)) (ret item)))"

definition print_kot :: "gotime \<Rightarrow> KOTServiceRequest \<Rightarrow> uuid \<Rightarrow> ('z db_scheme, kot_error, KOT) op" where
  "print_kot now req kotID =
     bindE (getKOTForWrite (kr_TenantID req) (kr_RestaurantID req) kotID) (\<lambda>kot.
     thenE (db_write (KOTWrapped ''record print'') (\<lambda>s. s\<lparr>db_kots :=
              update_rows (\<lambda>k. kot_KOTID k = kot_KOTID kot)
                (\<lambda>k. k\<lparr>kot_PrintCount := kot_PrintCount k + 1, kot_LastPrintedAt := Some now\<rparr>) (db_kots s)\<rparr>))
       (ret (kot\<lparr>kot_PrintCount := kot_PrintCount kot + 1, kot_LastPrintedAt := Some now\<rparr>)))"

definition PrintKOT ::
    "(AccessRequest \<Rightarrow> 'r \<Rightarrow> 'r \<times> rbac_error option) \<Rightarrow> gotime \<Rightarrow> KOTServiceRequest \<Rightarrow> uuid
       \<Rightarrow> 'r \<times> 'z db_scheme \<Rightarrow> ('r \<times> 'z db_scheme) \<times> (kot_error + KOT)" where
  "PrintKOT require now req kotID =
     guarded require (kot_request ActionUpdate req) KOTDenied (print_kot now req kotID)"

end
