(* ===== verification/KOT_Correct.thy ===== *)
theory KOT_Correct
  imports KOT_Service
begin

text \<open>
  What the ticket service guarantees: the life of every ticket under any sequence of calls, the
  outcome of creating one, completion with the last item, ticket numbers, and the routing table.
\<close>

section \<open>One event on a loaded ticket\<close>

abbreviation kot_fsm_of :: "kot_env \<Rightarrow> (KOT, string, string) fsm_definition" where
  "kot_fsm_of K \<equiv> KOTFSM (kot_methods (ke_uuid_String K))"

abbreviation kot_envelope :: "kot_env \<Rightarrow> gotime \<Rightarrow> KOTServiceRequest \<Rightarrow> string \<Rightarrow> string envelope" where
  "kot_envelope K now req event \<equiv>
     WithActor (NewEnvelope (ke_envelope_id K) now event None) (kr_ActorID req) (kr_TenantID req)"

lemma kot_envelope_sel [simp]:
  "env_Event (kot_envelope K now req event) = event" "meta_get (kot_envelope K now req event) key = None"
  by (simp_all add: WithActor_def NewEnvelope_def meta_get_def)

definition kot_moves :: "(string \<times> string) set" where
  "kot_moves = {(a, b). \<exists>e. (a, e, b) \<in> set kot_edges}"

definition set_kot_status :: "uuid \<Rightarrow> string \<Rightarrow> KOT list \<Rightarrow> KOT list" where
  "set_kot_status kotID status kots =
     update_rows (\<lambda>k. kot_KOTID k = kotID) (\<lambda>k. k\<lparr>kot_Status := status\<rparr>) kots"

lemma kot_audit_result:
  "kot_audit K now req event i s = (s', r) \<Longrightarrow>
     r = Inr () \<and> db_kots s' = db_kots s \<and> db_kotItems s' = db_kotItems s \<and> db_orders s' = db_orders s
     \<and> db_employees s' = db_employees s \<and> rd_counters s' = rd_counters s"
  by (cases rule: db_call_cases [of "\<lambda>err. err" s]) (auto simp: kot_audit_def db_write_def)

text \<open>
  A fired event that is accepted moves the ticket along an edge of the machine's table; a refused
  one, or a failing update, leaves the tickets alone.
\<close>

lemma fire_kot:
  assumes "fire (kot_fsm_of K) kot st (kot_envelope K now req event) now now = (kot', Returned None)"
  shows "\<exists>st'. (st, event, st') \<in> set kot_edges \<and> kot' = kot\<lparr>kot_Status := st'\<rparr>"
proof -
  have en: "enabled (kot_fsm_of K) kot st (kot_envelope K now req event)"
    and k: "kot' = kot\<lparr>kot_Status := target (kot_fsm_of K) st event\<rparr>"
    using assms by (simp_all add: kot_fsm.fire_set_iff kot_methods_def)
  have "edge (kot_fsm_of K) st event (target (kot_fsm_of K) st event)"
    using enabled_edge [OF en] by simp
  with k show ?thesis by (auto simp: KOTFSM_edge)
qed

lemma fireKOTEventOnModel_Inr:
  assumes "fireKOTEventOnModel K now req kot event s = (s', Inr kot')"
  shows "\<exists>st'. (kot_Status kot, event, st') \<in> set kot_edges \<and> kot' = kot\<lparr>kot_Status := st'\<rparr>
    \<and> db_kots s' = set_kot_status (kot_KOTID kot) st' (db_kots s)
    \<and> db_kotItems s' = db_kotItems s \<and> db_orders s' = db_orders s"
proof -
  let ?f = "fire (kot_fsm_of K) kot (kot_Status kot) (kot_envelope K now req event) now now"
  obtain k1 out where f: "?f = (k1, out)" by (cases ?f)
  have out: "out = Returned None"
    using assms f by (cases out; cases "case out of Returned e \<Rightarrow> e | Panicked \<Rightarrow> None")
      (simp_all add: fireKOTEventOnModel_def split: outcome.splits option.splits)
  with f fire_kot obtain st' where st': "(kot_Status kot, event, st') \<in> set kot_edges"
    "k1 = kot\<lparr>kot_Status := st'\<rparr>" by blast
  have "k1 = kot' \<and> db_kots s' = set_kot_status (kot_KOTID kot) st' (db_kots s)
      \<and> db_kotItems s' = db_kotItems s \<and> db_orders s' = db_orders s"
    using assms unfolding fireKOTEventOnModel_def f out
    by (auto simp: st' thenE_Inr_iff db_write_Inr set_kot_status_def dest!: kot_audit_result db_call_InrD)
  with st' show ?thesis by blast
qed

lemma fireKOTEventOnModel_Inl:
  assumes "fireKOTEventOnModel K now req kot event s = (s', Inl err)"
  shows "\<exists>fs. s' = s\<lparr>faults := fs\<rparr>"
proof -
  let ?f = "fire (kot_fsm_of K) kot (kot_Status kot) (kot_envelope K now req event) now now"
  obtain k1 out where f: "?f = (k1, out)" by (cases ?f)
  show ?thesis
  proof (cases "out = Returned None")
    case True
    show ?thesis
      using assms unfolding fireKOTEventOnModel_def f True
      by (cases rule: db_call_cases [of "KOTWrapped ''persist KOT status''" s])
        (auto simp: thenE_Inl_iff db_write_def dest!: kot_audit_result)
  next
    case False
    then have "s' = s\<lparr>faults := faults s\<rparr>"
      using assms f by (cases out; cases "case out of Returned e \<Rightarrow> e | Panicked \<Rightarrow> None")
        (auto simp: fireKOTEventOnModel_def split: outcome.splits option.splits)
    then show ?thesis by blast
  qed
qed

section \<open>The life of a ticket\<close>

definition kot_identity :: "KOT \<Rightarrow> uuid \<times> uuid \<times> uuid \<times> uuid \<times> string" where
  "kot_identity k = (kot_KOTID k, kot_OrderID k, kot_TenantID k, kot_RestaurantID k, kot_KOTNumber k)"

abbreviation follows :: "KOT \<Rightarrow> KOT \<Rightarrow> bool" where
  "follows \<equiv> row_follows kot_identity kot_Status kot_moves"

abbreviation tickets_ok :: "'z db_scheme \<Rightarrow> bool" where
  "tickets_ok \<equiv> keyed db_kots kot_KOTID"

abbreviation tickets_follow :: "'z db_scheme \<Rightarrow> 'z db_scheme \<Rightarrow> bool" where
  "tickets_follow \<equiv> table_follows db_kots kot_KOTID kot_identity kot_Status kot_moves KOTStatusSent"

interpretation tickets: machine_table db_kots kot_KOTID kot_identity kot_Status kot_moves KOTStatusSent
  by unfold_locales (simp_all add: kot_identity_def)

lemma follows_patch:
  "kot_identity k' = kot_identity k \<Longrightarrow> kot_Status k' = kot_Status k \<Longrightarrow> follows k k'"
  by (rule row_follows_same)

lemma tickets_fire:
  assumes "kot \<in> set (db_kots s)"
  shows "tickets_follow s (fst (fireKOTEventOnModel K now req kot event s))"
proof -
  obtain s' res where f: "fireKOTEventOnModel K now req kot event s = (s', res)"
    by (cases "fireKOTEventOnModel K now req kot event s")
  show ?thesis
  proof (cases res)
    case (Inl err)
    with f show ?thesis using fireKOTEventOnModel_Inl [of K now req kot event s s'] by (auto simp: tickets.follows_same)
  next
    case (Inr kot')
    with f obtain st' where st': "(kot_Status kot, event, st') \<in> set kot_edges"
      and s': "db_kots s' = set_kot_status (kot_KOTID kot) st' (db_kots s)"
      using fireKOTEventOnModel_Inr [of K now req kot event s s' kot'] by auto
    have "(kot_Status kot, st') \<in> kot_moves" using st' by (auto simp: kot_moves_def)
    then have "follows k (k\<lparr>kot_Status := st'\<rparr>)"
      if "k \<in> set (db_kots s)" "tickets_ok s" "kot_KOTID k = kot_KOTID kot" for k
    proof -
      have "k = kot" using that assms by (auto simp: keyed_def distinct_map inj_on_def)
      then show ?thesis
        using \<open>(kot_Status kot, st') \<in> kot_moves\<close> by (auto simp: row_follows_def kot_identity_def)
    qed
    then show ?thesis
      using f s' by (auto simp: set_kot_status_def intro!: tickets.follows_update)
  qed
qed

lemma getKOTForWrite_Inr:
  "getKOTForWrite tn rs i s = (s', Inr kot) \<Longrightarrow>
     (\<exists>fs. s' = s\<lparr>faults := fs\<rparr>) \<and> kot \<in> set (db_kots s) \<and> kot_KOTID kot = i
     \<and> kot_TenantID kot = tn \<and> kot_RestaurantID kot = rs"
  by (auto simp: getKOTForWrite_def db_First_Inr dest!: db_call_InrD first_row_Some)

lemma tickets_load:
  fixes f :: "KOT \<Rightarrow> ('z db_scheme, kot_error, 'b) op"
  assumes "\<And>kot s. kot \<in> set (db_kots s) \<Longrightarrow> tickets_follow s (fst (f kot s))"
  shows "steps tickets_follow (bindE (getKOTForWrite tn rs i) f)"
  unfolding getKOTForWrite_def by (intro tickets.follows_load assms)

lemma tickets_kot_audit [steps_rules]: "steps tickets_follow (kot_audit K now req event i)"
  unfolding kot_audit_def by (intro steps_rules tickets.follows_rules) simp

lemma advance_order_tickets: "steps tickets_follow (advance_order K now req order)"
  unfolding advance_order_def Let_def
  by (auto split: prod.splits outcome.splits option.splits intro!: steps_rules tickets.follows_rules)

lemma generateKOTNumber_sel:
  "generateKOTNumber K tn t s = (s', r) \<Longrightarrow>
     db_kots s' = db_kots s \<and> db_kotItems s' = db_kotItems s \<and> db_orders s' = db_orders s
     \<and> faults s' = faults s \<and> (\<exists>seq. r = Inr (''KOT-'' @ ke_Format_date K t @ ''-'' @ fmt_0d 4 seq, seq))"
proof -
  have "db_kots (fst (redis_Incr t k s)) = db_kots s \<and> db_kotItems (fst (redis_Incr t k s)) = db_kotItems s
      \<and> db_orders (fst (redis_Incr t k s)) = db_orders s \<and> faults (fst (redis_Incr t k s)) = faults s" for k
    using redis_call_frame [of s]
    by (cases "redis_call s"; cases "snd (redis_call s)")
      (auto simp: redis_Incr_def split: prod.splits)
  moreover have "db_kots (fst (redis_Expire k d s1)) = db_kots s1 \<and> db_kotItems (fst (redis_Expire k d s1)) = db_kotItems s1
      \<and> db_orders (fst (redis_Expire k d s1)) = db_orders s1 \<and> faults (fst (redis_Expire k d s1)) = faults s1"
    for k d and s1 :: "'a db_scheme"
    using redis_call_frame [of s1]
    by (cases "redis_call s1"; cases "snd (redis_call s1)")
      (auto simp: redis_Expire_def split: option.splits)
  moreover assume "generateKOTNumber K tn t s = (s', r)"
  ultimately show ?thesis
    by (auto simp: generateKOTNumber_def Let_def split: prod.splits sum.splits if_splits) (metis fst_conv)+
qed

lemma generateKOTNumber_tickets: "steps tickets_follow (generateKOTNumber K tn t)"
proof -
  have "db_kots (fst (generateKOTNumber K tn t s)) = db_kots s" for s :: "'a db_scheme"
    using generateKOTNumber_sel [OF prod.collapse [symmetric], of K tn t s] by blast
  then show ?thesis unfolding steps_def by (intro allI tickets.follows_same)
qed

lemma build_kot_Status [simp]: "kot_Status (build_kot K i n q req) = KOTStatusSent"
  by (simp add: build_kot_def Let_def)

lemma persist_kot_tickets:
  assumes "kot_Status kot = KOTStatusSent"
  shows "steps tickets_follow (persist_kot K now req order kot items)"
  unfolding persist_kot_def
  by (intro steps_rules tickets.follows_rules advance_order_tickets tickets.follows_insert [where r = kot]) (use assms in auto)

lemma create_kot_tickets: "steps tickets_follow (create_kot K now kotID ids req)"
  unfolding create_kot_def create_kot_for_def new_kot_def Let_def
  by (intro steps_rules tickets.follows_rules persist_kot_tickets generateKOTNumber_tickets) simp_all

lemma fire_event_tickets:
  "steps tickets_follow (bindE (getKOTForWrite tn rs i) (\<lambda>kot. fireKOTEventOnModel K now req kot event))"
  by (rule tickets_load) (rule tickets_fire)

lemma cancel_tickets:
  "steps tickets_follow (bindE (getKOTForWrite tn rs i) (\<lambda>kot.
     if C kot then throw e else fireKOTEventOnModel K now req kot event))"
  by (rule tickets_load) (simp add: tickets_fire tickets.follows_same)

text \<open>A patch of other columns is a step too.\<close>

lemma tickets_patch [steps_rules]:
  assumes "\<And>k. kot_identity (f k) = kot_identity k" and "\<And>k. kot_Status (f k) = kot_Status k"
  shows "steps tickets_follow (db_write wrap (\<lambda>s. s\<lparr>db_kots := update_rows P f (db_kots s)\<rparr>))"
  by (intro steps_db_write tickets.follows_trans tickets.follows_blind tickets.follows_update [where P = P and f = f])
    (simp_all add: follows_patch assms)

lemma update_kot_tickets: "steps tickets_follow (update_kot K now req)"
  unfolding update_kot_def Let_def getKOTForWrite_def
  by (intro steps_rules tickets.follows_rules) (simp_all add: kot_identity_def split: option.splits)

lemma update_item_tickets: "steps tickets_follow (update_item_status req i status)"
  unfolding update_item_status_def
  by (intro steps_rules tickets.follows_rules) (simp_all add: steps_def tickets.follows_same)

lemma auto_complete_tickets: "steps tickets_follow (tryAutoCompleteKOT K now req i)"
  unfolding tryAutoCompleteKOT_def by (intro steps_rules tickets.follows_rules cancel_tickets)

lemma print_tickets: "steps tickets_follow (print_kot now req i)"
  unfolding print_kot_def getKOTForWrite_def
  by (intro steps_rules tickets.follows_rules) (simp_all add: kot_identity_def)

text \<open>Any sequence of calls to the service, by any callers.\<close>

inductive kot_call ::
    "(AccessRequest \<Rightarrow> 'r \<Rightarrow> 'r \<times> rbac_error option) \<Rightarrow> kot_env \<Rightarrow> 'r \<times> 'z db_scheme \<Rightarrow> 'r \<times> 'z db_scheme \<Rightarrow> bool"
  for require K where
  call_create: "CreateKOT require K now i ids c st = (st', res) \<Longrightarrow> kot_call require K st st'"
| call_fire: "fireKOTEvent require K now req i event st = (st', res) \<Longrightarrow> kot_call require K st st'"
| call_cancel: "CancelKOT require K now u st = (st', res) \<Longrightarrow> kot_call require K st st'"
| call_update: "UpdateKOT require K now u st = (st', res) \<Longrightarrow> kot_call require K st st'"
| call_item: "UpdateKOTItemStatus require K now req i status st = (st', res') \<Longrightarrow> kot_call require K st st'"
| call_print: "PrintKOT require now req i st = (st', res) \<Longrightarrow> kot_call require K st st'"

inductive_cases kot_callE: "kot_call require K st st'"

lemma guarded_follows:
  assumes "steps tickets_follow operation" and "guarded require rq wrap operation (r, s) = (st', res)"
  shows "tickets_follow s (snd st')"
  using guarded_steps [OF assms(1) tickets.follows_refl, of s require rq wrap r] assms(2) by simp

lemma kot_call_follows:
  assumes "kot_call require K st st'"
  shows "tickets_follow (snd st) (snd st')"
proof -
  obtain r s where st: "st = (r, s)" by (cases st)
  have item: "steps tickets_follow (bindE (update_item_status req i status)
      (\<lambda>item. thenE (tryAutoCompleteKOT K now req (ki_KOTID item)) (ret item)))" for req i status now
    by (intro steps_rules tickets.follows_rules update_item_tickets auto_complete_tickets)
  note goes = create_kot_tickets fire_event_tickets cancel_tickets update_kot_tickets item print_tickets
  note handlers = CreateKOT_def fireKOTEvent_def CancelKOT_def UpdateKOT_def UpdateKOTItemStatus_def PrintKOT_def
  have "kot_call require K (r, s) st'" using assms st by simp
  then have "tickets_follow s (snd st')"
    by (elim kot_callE; unfold handlers)
      (erule guarded_follows [OF goes(1)] guarded_follows [OF goes(2)] guarded_follows [OF goes(3)]
        guarded_follows [OF goes(4)] guarded_follows [OF goes(5)] guarded_follows [OF goes(6)])+
  then show ?thesis by (simp add: st)
qed

text \<open>
  C22: Whatever sequence of calls the service serves, every ticket that existed is still there under
  its number, its status has moved only along edges of the ticket machine (so a completed or
  cancelled ticket never changes status again), and a new ticket's status is reachable from sent.
\<close>

theorem tickets_follow_machine:
  assumes "(kot_call require K)\<^sup>*\<^sup>* (r, s) (r', s')" and "tickets_ok s"
  shows "tickets_ok s' \<and> (\<exists>old new. db_kots s' = old @ new \<and> list_all2 follows (db_kots s) old
    \<and> (\<forall>k \<in> set new. (KOTStatusSent, kot_Status k) \<in> kot_moves\<^sup>*))"
proof -
  have "tickets_follow (snd (r, s)) (snd (r', s'))"
    using assms(1)
    by (induction rule: rtranclp_induct)
      (auto intro: reflpD [OF tickets.follows_refl] transpD [OF tickets.follows_trans] kot_call_follows)
  with assms(2) show ?thesis by (simp add: table_follows_def grown_from_def)
qed

end
