(* ===== verification/KOT_Outcomes.thy ===== *)
theory KOT_Outcomes
  imports KOT_Correct
begin

text \<open>
  The outcome of each call of the ticket service: creation is all or nothing, the last finished
  item completes its ticket, an urgent ticket in preparation cannot be cancelled, ticket numbers
  count up through the day, and what the routing table does with overlapping keywords.
\<close>

section \<open>Creation\<close>

text \<open>\<open>prepare\<close> is accepted exactly on a confirmed order.\<close>

lemma fire_prepare:
  assumes "env_Event env = OrderEventPrepare"
  shows "ord_OrderStatus order = OrderStateConfirmed \<Longrightarrow>
      fire (OrderFSM (order_methods us)) order (ord_OrderStatus order) env t0 t1
        = (order\<lparr>ord_OrderStatus := OrderStatePreparing\<rparr>, Returned None)"
    and "ord_OrderStatus order \<noteq> OrderStateConfirmed \<Longrightarrow>
      \<exists>err. fire (OrderFSM (order_methods us)) order (ord_OrderStatus order) env t0 t1 = (order, Returned (Some err))"
proof -
  assume c: "ord_OrderStatus order = OrderStateConfirmed"
  have "target (OrderFSM (order_methods us)) OrderStateConfirmed OrderEventPrepare = OrderStatePreparing"
    by (rule edge_target) (simp add: OrderFSM_edge order_edges_def)
  then show "fire (OrderFSM (order_methods us)) order (ord_OrderStatus order) env t0 t1
        = (order\<lparr>ord_OrderStatus := OrderStatePreparing\<rparr>, Returned None)"
    unfolding c using assms
    by (subst order_fsm.fire_set) (simp_all add: OrderFSM_enabled order_edges_def order_methods_def state_names)
next
  assume "ord_OrderStatus order \<noteq> OrderStateConfirmed"
  then have "\<not> enabled (OrderFSM (order_methods us)) order (ord_OrderStatus order) env"
    using assms by (simp add: OrderFSM_enabled order_edges_def state_names)
  then show "\<exists>err. fire (OrderFSM (order_methods us)) order (ord_OrderStatus order) env t0 t1
      = (order, Returned (Some err))"
    by (auto simp: order_fsm.fire_char enabled_def)
qed

definition ticket_tables :: "'z db_scheme \<Rightarrow> KOT list \<times> KOTItem list \<times> Order list" where
  "ticket_tables s = (db_kots s, db_kotItems s, db_orders s)"

definition order_advanced :: "CreateKOTInput \<Rightarrow> Order \<Rightarrow> Order list \<Rightarrow> Order list" where
  "order_advanced c order orders =
     (if ord_OrderStatus order = OrderStateConfirmed
      then update_rows (\<lambda>o'. ord_OrderID o' = ck_OrderID c) (\<lambda>o'. o'\<lparr>ord_OrderStatus := OrderStatePreparing\<rparr>) orders
      else orders)"

lemma advance_order_Inr:
  assumes "advance_order K now c order s = (s', Inr u)"
  shows "db_kots s' = db_kots s \<and> db_kotItems s' = db_kotItems s
    \<and> db_orders s' = order_advanced c order (db_orders s)"
proof -
  let ?env = "WithActor (NewEnvelope (ke_envelope_id K) now OrderEventPrepare None) (kr_ActorID c) (kr_TenantID c)"
  have e: "env_Event ?env = OrderEventPrepare" by (simp add: WithActor_def NewEnvelope_def)
  show ?thesis
  proof (cases "ord_OrderStatus order = OrderStateConfirmed")
    case True
    show ?thesis
      using assms unfolding advance_order_def Let_def fire_prepare(1) [OF e True]
      by (auto simp: db_write_Inr order_advanced_def True dest!: db_call_InrD)
  next
    case False
    then obtain err where "fire (OrderFSM (order_methods (ke_uuid_String K))) order (ord_OrderStatus order) ?env now now
        = (order, Returned (Some err))" using fire_prepare(2) [OF e] by blast
    with assms False show ?thesis
      by (cases rule: db_call_cases [of "\<lambda>err. err" s])
        (auto simp: advance_order_def Let_def order_advanced_def db_write_def)
  qed
qed

lemma build_kot_items_length [simp]: "length (build_kot_items ids k i items) = length items"
  by (induction ids k i items rule: build_kot_items.induct) simp_all

lemma build_kot_items_KOTID: "\<forall>it \<in> set (build_kot_items ids k i items). ki_KOTID it = k"
  by (induction ids k i items rule: build_kot_items.induct) simp_all

lemma autoRouteStation_nonempty: "autoRouteStation name \<noteq> ''''"
  by (simp add: autoRouteStation_def Let_def state_names)

lemma build_kot_items_station: "\<forall>it \<in> set (build_kot_items ids k i items). ki_AssignedStation it \<noteq> ''''"
  by (induction ids k i items rule: build_kot_items.induct) (simp_all add: autoRouteStation_nonempty)

lemma set_kotid_same: "map (\<lambda>i. i\<lparr>ki_KOTID := k\<rparr>) (build_kot_items ids k j items) = build_kot_items ids k j items"
  by (induction ids k j items rule: build_kot_items.induct) simp_all

lemma persist_kot_Inr:
  assumes "persist_kot K now c order kot items s = (s', Inr u)"
  shows "db_kots s' = db_kots s @ [kot]
    \<and> db_kotItems s' = db_kotItems s @ map (\<lambda>i. i\<lparr>ki_KOTID := kot_KOTID kot\<rparr>) items
    \<and> db_orders s' = order_advanced c order (db_orders s)"
  using assms unfolding persist_kot_def
  by (auto simp: transaction_Inr thenE_Inr_iff db_insert_Inr dest!: db_call_InrD advance_order_Inr)

definition ticket_created :: "kot_env \<Rightarrow> CreateKOTInput \<Rightarrow> KOT \<Rightarrow> 'z db_scheme \<Rightarrow> 'z db_scheme \<Rightarrow> bool" where
  "ticket_created K c kot s s' \<longleftrightarrow>
     kot_OrderID kot = ck_OrderID c \<and> kot_Status kot = KOTStatusSent
     \<and> (\<exists>order items.
          order \<in> set (db_orders s) \<and> ord_OrderID order = ck_OrderID c \<and> ord_TenantID order = kr_TenantID c
          \<and> ord_RestaurantID order = kr_RestaurantID c
          \<and> ticket_tables s' = (db_kots s @ [kot], db_kotItems s @ items, order_advanced c order (db_orders s))
          \<and> length items = length (ck_Items c) \<and> items \<noteq> []
          \<and> (\<forall>it \<in> set items. ki_KOTID it = kot_KOTID kot \<and> ki_AssignedStation it \<noteq> ''''))
     \<and> \<not> (\<exists>k \<in> set (db_kots s). kot_OrderID k = ck_OrderID c \<and> kot_RestaurantID k = kr_RestaurantID c
             \<and> kot_TenantID k = kr_TenantID c)"

lemma new_kot_Inr:
  assumes "new_kot K now kotID ids c order s = (s', Inr kot)"
  shows "kot_KOTID kot = kotID \<and> kot_OrderID kot = ck_OrderID c \<and> kot_Status kot = KOTStatusSent
    \<and> ticket_tables s' = (db_kots s @ [kot], db_kotItems s @ build_kot_items ids kotID 0 (ck_Items c),
        order_advanced c order (db_orders s))"
  using assms unfolding new_kot_def Let_def
  by (auto simp: bindE_Inr_iff thenE_Inr_iff ticket_tables_def set_kotid_same build_kot_def Let_def
      dest!: generateKOTNumber_sel persist_kot_Inr kot_audit_result)

lemma create_kot_Inr:
  assumes "create_kot K now kotID ids c s = (s', Inr kot)"
  shows "ticket_created K c kot s s'"
proof -
  have items: "ck_Items c \<noteq> []" using assms by (auto simp: create_kot_def)
  with assms obtain order s1 where
    f: "db_First ErrKOTOrderNotFound (KOTWrapped ''fetch order'') ord_OrderID db_orders
          (\<lambda>o'. ord_OrderID o' = ck_OrderID c \<and> ord_TenantID o' = kr_TenantID c
               \<and> ord_RestaurantID o' = kr_RestaurantID c) s = (s1, Inr order)"
    and r1: "create_kot_for K now kotID ids c order s1 = (s', Inr kot)"
    unfolding create_kot_def by (auto simp: bindE_Inr_iff)
  from db_First_InrD [OF f] have 1: "order \<in> set (db_orders s)" "ord_OrderID order = ck_OrderID c"
      "ord_TenantID order = kr_TenantID c" "ord_RestaurantID order = kr_RestaurantID c" "ticket_tables s1 = ticket_tables s"
    by (auto simp: ticket_tables_def)
  from r1 obtain s2 existing where
    g: "db_find (KOTWrapped ''idempotency check'') kot_KOTID db_kots
          (\<lambda>k. kot_OrderID k = ck_OrderID c \<and> kot_RestaurantID k = kr_RestaurantID c
               \<and> kot_TenantID k = kr_TenantID c) s1 = (s2, Inr existing)"
    and r: "(case existing of Some k \<Rightarrow> throw (ErrKOTAlreadyExists k)
             | None \<Rightarrow> new_kot K now kotID ids c order) s2 = (s', Inr kot)"
    unfolding create_kot_for_def bindE_Inr_iff by blast
  from r have r2: "new_kot K now kotID ids c order s2 = (s', Inr kot)" and ex: "existing = None"
    by (cases existing; simp)+
  from db_find_InrD [OF g] ex have 2: "ticket_tables s2 = ticket_tables s1"
    and none: "\<not> (\<exists>k \<in> set (db_kots s2). kot_OrderID k = ck_OrderID c \<and> kot_RestaurantID k = kr_RestaurantID c
             \<and> kot_TenantID k = kr_TenantID c)"
    by (auto simp: ticket_tables_def)
  let ?items = "build_kot_items ids kotID 0 (ck_Items c)"
  have "?items \<noteq> []" "length ?items = length (ck_Items c)" using items by (cases "ck_Items c"; simp)+
  with new_kot_Inr [OF r2] 1 2 none show ?thesis
    unfolding ticket_created_def
    by (auto simp: ticket_tables_def build_kot_items_KOTID build_kot_items_station intro!: exI [of _ order])
qed

lemma create_kot_Inl:
  assumes "create_kot K now kotID ids c s = (s', Inl err)"
  shows "ticket_tables s' = ticket_tables s"
proof -
  have pers: "persist_kot K now c order kot items s1 = (s2, Inl e) \<Longrightarrow> ticket_tables s2 = ticket_tables s1"
    for order kot items e and s1 s2 :: "'a db_scheme"
    by (auto simp: persist_kot_def ticket_tables_def dest!: transaction_InlD)
  have new: "new_kot K now kotID ids c order s1 = (s2, Inl e) \<Longrightarrow> ticket_tables s2 = ticket_tables s1"
    for order e and s1 s2 :: "'a db_scheme"
    unfolding new_kot_def Let_def
    by (auto simp: op_iffs ticket_tables_def dest!: generateKOTNumber_sel kot_audit_result)
      (auto dest!: pers simp: ticket_tables_def)
  have each: "create_kot_for K now kotID ids c order s1 = (s2, Inl e) \<Longrightarrow> ticket_tables s2 = ticket_tables s1"
    for order e and s1 s2 :: "'a db_scheme"
    unfolding create_kot_for_def bindE_Inl_iff
    by (elim disjE exE conjE; (drule db_find_InlD db_find_InrD)+; elim exE conjE)
      (auto simp: ticket_tables_def dest!: new split: option.splits)
  show ?thesis
  proof (cases "ck_Items c = []")
    case True
    with assms show ?thesis by (simp add: create_kot_def)
  next
    case False
    with assms show ?thesis
      unfolding create_kot_def bindE_Inl_iff if_not_P [OF False]
      by (elim disjE exE conjE) (auto simp: ticket_tables_def dest!: db_First_InlD db_First_InrD each)
  qed
qed

text \<open>
  C23: Creating a ticket is all or nothing: on success the caller was authorized, the order exists in
  the caller's tenant and restaurant and had no ticket, exactly one ticket (status sent) and its
  items are added, every item has a station, and the order moves from confirmed to preparing if it
  was confirmed; on any error, a database fault included, tickets, items and orders are unchanged.
\<close>

theorem CreateKOT_all_or_nothing:
  assumes "CreateKOT require K now kotID ids c (r, s) = ((r', s'), res)"
  shows "case res of
      Inl err \<Rightarrow> ticket_tables s' = ticket_tables s
    | Inr kot \<Rightarrow> require (kot_request ActionCreate c) r = (r', None) \<and> ticket_created K c kot s s'"
proof (cases res)
  case (Inl err)
  with assms show ?thesis
    by (auto simp: CreateKOT_def guarded_Inl dest: create_kot_Inl)
next
  case (Inr kot)
  with assms show ?thesis
    by (auto simp: CreateKOT_def guarded_Inr dest: create_kot_Inr)
qed

section \<open>Events\<close>

lemma getKOTForWrite_known:
  assumes "faults s = []" and "tickets_ok s" and "kot \<in> set (db_kots s)"
  shows "getKOTForWrite (kot_TenantID kot) (kot_RestaurantID kot) (kot_KOTID kot) s = (s, Inr kot)"
proof -
  have "first_row kot_KOTID (\<lambda>k. kot_KOTID k = kot_KOTID kot \<and> kot_TenantID k = kot_TenantID kot
      \<and> kot_RestaurantID k = kot_RestaurantID kot) (db_kots s) = Some kot"
    using assms(2,3) by (intro first_row_unique) (auto simp: keyed_def distinct_map inj_on_def)
  then show ?thesis by (simp add: getKOTForWrite_def db_First_Inr assms(1))
qed

lemma getKOTForWrite_loaded:
  assumes "getKOTForWrite tn rs i s = (s1, Inr kot)" and "tickets_ok s" and "k \<in> set (db_kots s)" and "kot_KOTID k = i"
  shows "k = kot"
  using getKOTForWrite_Inr [OF assms(1)] assms(2-) by (auto simp: keyed_def distinct_map inj_on_def)

lemma kot_fire_cancel_urgent:
  assumes "kot_Status kot = KOTStatusInProgress" and "kot_Priority kot = KOTPriorityUrgent"
  shows "fireKOTEventOnModel K now req kot KOTEventCancel s =
    (s, Inl (ErrKOTInvalidTransition (TransitionError KOTStateInProgress KOTStateCancelled KOTEventCancel PhaseGuard
      (GuardRejected ''urgent KOT requires force_cancel=true metadata to cancel mid-preparation''))))"
proof -
  have st: "kot_Status kot = KOTStateInProgress" using assms(1) by (simp add: state_names)
  have "refusal (kot_fsm_of K) kot KOTStateInProgress (kot_envelope K now req KOTEventCancel)
    = Some (TransitionError KOTStateInProgress KOTStateCancelled KOTEventCancel PhaseGuard
      (GuardRejected ''urgent KOT requires force_cancel=true metadata to cancel mid-preparation''))"
    using assms(2) by (subst kot_cancel_refusal) (simp_all add: kot_cancel_guard_def kot_methods_def state_names)
  then show ?thesis by (simp add: fireKOTEventOnModel_def st kot_fsm.fire_char)
qed

text \<open>
  An urgent ticket in preparation cannot be cancelled through the service by anyone, manager or
  not: the envelope the service sends never carries the metadata the machine's guard asks for.
\<close>

theorem urgent_ticket_not_cancelled:
  assumes "tickets_ok s" and "kot \<in> set (db_kots s)" and "kot_KOTID kot = uk_KOTID u"
    and "kot_Status kot = KOTStatusInProgress" and "kot_Priority kot = KOTPriorityUrgent"
  shows "\<exists>r' s' err. CancelKOT require K now u (r, s) = ((r', s'), Inl err) \<and> ticket_tables s' = ticket_tables s"
proof -
  let ?body = "bindE (getKOTForWrite (kr_TenantID u) (kr_RestaurantID u) (uk_KOTID u)) (\<lambda>kot.
          if kot_Status kot = KOTStatusInProgress \<and> \<not> uk_IsManagerActor u
          then throw ErrKOTCancelInProgress
          else fireKOTEventOnModel K now (caller_of u) kot KOTEventCancel)"
  obtain s1 res where g: "getKOTForWrite (kr_TenantID u) (kr_RestaurantID u) (uk_KOTID u) s = (s1, res)"
    by (cases "getKOTForWrite (kr_TenantID u) (kr_RestaurantID u) (uk_KOTID u) s")
  have body: "\<exists>err. ?body s = (s1, Inl err) \<and> ticket_tables s1 = ticket_tables s"
  proof (cases res)
    case (Inl err)
    with g show ?thesis
      by (auto simp: ticket_tables_def getKOTForWrite_def dest!: db_First_InlD)
  next
    case (Inr k)
    with g assms have "k = kot" using getKOTForWrite_loaded by blast
    with g Inr assms getKOTForWrite_Inr [of "kr_TenantID u" "kr_RestaurantID u" "uk_KOTID u" s s1 k] show ?thesis
      by (auto simp: kot_fire_cancel_urgent ticket_tables_def)
  qed
  show ?thesis
  proof (cases "require (kot_request ActionUpdate u) r")
    case (Pair r' err)
    with body show ?thesis by (cases err) (auto simp: CancelKOT_def guarded_def)
  qed
qed

section \<open>The last item\<close>

lemma kot_fire_complete:
  assumes "kot_Status kot = KOTStatusInProgress" and "faults s = []"
  shows "\<exists>s'. fireKOTEventOnModel K now req kot KOTEventComplete s = (s', Inr (kot\<lparr>kot_Status := KOTStatusCompleted\<rparr>))
    \<and> db_kots s' = set_kot_status (kot_KOTID kot) KOTStatusCompleted (db_kots s) \<and> db_kotItems s' = db_kotItems s"
proof -
  let ?env = "kot_envelope K now req KOTEventComplete"
  have edge: "edge (kot_fsm_of K) KOTStateInProgress KOTEventComplete KOTStateCompleted"
    by (simp add: KOTFSM_edge kot_edges_def)
  have "refusal (kot_fsm_of K) kot KOTStateInProgress ?env = None"
    by (subst refusal_guards [OF KOTFSM_Inr, where c = KOTStateCompleted and gs = "[]"])
      (simp_all add: KOTFSM_builder_def builder_simps)
  then have f: "fire (kot_fsm_of K) kot (kot_Status kot) ?env now now
      = (kot\<lparr>kot_Status := KOTStatusCompleted\<rparr>, Returned None)"
    using kot_fsm.fire_set [of "kot_methods (ke_uuid_String K)" kot KOTStateInProgress ?env] edge_target [OF edge] assms(1)
    by (simp add: enabled_def kot_methods_def state_names)
  let ?s1 = "s\<lparr>db_kots := set_kot_status (kot_KOTID kot) KOTStatusCompleted (db_kots s)\<rparr>"
  obtain s2 and res :: "kot_error + unit" where
    a: "kot_audit K now req AuditEventUpdate (kot_KOTID kot) ?s1 = (s2, res)"
    by (rule prod.exhaust)
  from kot_audit_result [OF a] a show ?thesis
    unfolding fireKOTEventOnModel_def f
    by (intro exI [of _ s2]) (auto simp: thenE_def bindE_def db_write_def assms(2) set_kot_status_def state_names)
qed

lemma set_kot_status_in:
  "k' \<in> set (set_kot_status i st kots) \<longleftrightarrow> (\<exists>k \<in> set kots. k' = (if kot_KOTID k = i then k\<lparr>kot_Status := st\<rparr> else k))"
  by (simp add: set_kot_status_def update_rows_set)

definition items_finished :: "uuid \<Rightarrow> 'z db_scheme \<Rightarrow> bool" where
  "items_finished i s \<longleftrightarrow> (\<forall>it \<in> set (db_kotItems s). ki_KOTID it = i \<longrightarrow> item_terminal (ki_Status it))"

lemma auto_complete_effect:
  assumes "faults s = []" and "tickets_ok s" and "kot \<in> set (db_kots s)"
  shows "\<exists>s'. tryAutoCompleteKOT K now (\<lparr>kr_TenantID = kot_TenantID kot, kr_RestaurantID = kot_RestaurantID kot, kr_ActorID = a\<rparr>)
      (kot_KOTID kot) s = (s', Inr ())
    \<and> db_kotItems s' = db_kotItems s
    \<and> db_kots s' = (if kot_Status kot = KOTStatusInProgress \<and> items_finished (kot_KOTID kot) s
                    then set_kot_status (kot_KOTID kot) KOTStatusCompleted (db_kots s) else db_kots s)"
proof -
  let ?open = "filter (\<lambda>i. ki_KOTID i = kot_KOTID kot \<and> \<not> item_terminal (ki_Status i)) (db_kotItems s)"
  have n: "?open = [] \<longleftrightarrow> items_finished (kot_KOTID kot) s"
    by (auto simp: items_finished_def filter_empty_conv)
  note get = getKOTForWrite_known [OF assms]
  show ?thesis
  proof (cases "kot_Status kot = KOTStatusInProgress \<and> items_finished (kot_KOTID kot) s")
    case True
    then obtain s' where "fireKOTEventOnModel K now \<lparr>kr_TenantID = kot_TenantID kot,
        kr_RestaurantID = kot_RestaurantID kot, kr_ActorID = a\<rparr> kot KOTEventComplete s
        = (s', Inr (kot\<lparr>kot_Status := KOTStatusCompleted\<rparr>))"
      "db_kots s' = set_kot_status (kot_KOTID kot) KOTStatusCompleted (db_kots s)" "db_kotItems s' = db_kotItems s"
      using kot_fire_complete [of kot s K now] assms(1) by blast
    with True n get assms(1) show ?thesis
      by (auto simp: tryAutoCompleteKOT_def db_query_def bindE_def)
  next
    case False
    with n get assms(1) show ?thesis
      by (auto simp: tryAutoCompleteKOT_def db_query_def bindE_def)
  qed
qed

end
