(* ===== verification/KOT_Examples.thy ===== *)
theory KOT_Examples
  imports KOT_Outcomes FSM_Examples RBAC_Examples
begin

text \<open>
  The ticket service's theorems at work: a kitchen user with every permission on tickets, one
  confirmed order, and its ticket.
\<close>

definition kitchen_rbac :: rbac_state where
  "kitchen_rbac = \<lparr>rs_roles = [ex_role 5 ''kitchen'' [] [ex_perm ''kot'' ''*'' ''allow'']],
     rs_userRoles = [ex_assigned 20 5], rs_policies = [], rs_fault = None, rs_local = [], rs_redis = [],
     rs_redis_down = False, rs_audit = [], maxRolesPerUser = 10\<rparr>"

definition ex_kenv :: kot_env where
  "ex_kenv = \<lparr>ke_uuid_String = no_id, ke_Format_date = (\<lambda>t. ''20260305''), ke_midnight = (\<lambda>t. 0), ke_envelope_id = ''e''\<rparr>"

definition kitchen_db :: db where
  "kitchen_db = empty_db\<lparr>db_orders := [ex_order\<lparr>ord_TenantID := 9, ord_OrderStatus := ''confirmed''\<rparr>],
     db_kots := [ex_kot\<lparr>kot_TenantID := 9, kot_OrderID := 8\<rparr>]\<rparr>"

definition ex_create :: CreateKOTInput where
  "ex_create = \<lparr>kr_TenantID = 9, kr_RestaurantID = 4, kr_ActorID = 20, ck_OrderID = 1, ck_TableNumber = None,
     ck_CustomerName = '' Ada '', ck_OrderType = ''dine-in'', ck_GuestCount = None, ck_Priority = '''',
     ck_Items = [\<lparr>ci_OrderItemID = 71, ci_ItemName = ''Green salad'', ci_Quantity = 2, ci_Notes = '''',
                   ci_AssignedStation = ''''\<rparr>]\<rparr>"

abbreviation "ex_require \<equiv> Require ex_env 7"
abbreviation "ex_creation \<equiv> CreateKOT ex_require ex_kenv 7 60 (\<lambda>i. 61 + of_nat i) ex_create (kitchen_rbac, kitchen_db)"

lemma ex_creation_result:
  "map_sum (\<lambda>_. ()) kot_KOTNumber (snd ex_creation) = Inr ''KOT-20260305-0001''"
  by code_simp

theorem CreateKOT_all_or_nothing_witness:
  "\<exists>kot. snd ex_creation = Inr kot \<and> ticket_created ex_kenv ex_create kot kitchen_db (snd (fst ex_creation))"
proof -
  obtain kot where k: "snd ex_creation = Inr kot"
    using ex_creation_result by (cases "snd ex_creation") auto
  have "ex_creation = ((fst (fst ex_creation), snd (fst ex_creation)), snd ex_creation)"
    unfolding prod.collapse ..
  from CreateKOT_all_or_nothing [OF this] k show ?thesis by (simp only: k sum.case) blast
qed

theorem tickets_follow_machine_witness:
  "\<exists>old new. db_kots (snd (fst ex_creation)) = old @ new \<and> list_all2 follows (db_kots kitchen_db) old
     \<and> (\<forall>k \<in> set new. (KOTStatusSent, kot_Status k) \<in> kot_moves\<^sup>*)"
proof -
  have "kot_call ex_require ex_kenv (kitchen_rbac, kitchen_db) (fst ex_creation)"
    by (rule call_create) (rule prod.collapse [symmetric])
  then have calls: "(kot_call ex_require ex_kenv)\<^sup>*\<^sup>* (kitchen_rbac, kitchen_db) (fst (fst ex_creation), snd (fst ex_creation))"
    unfolding prod.collapse by (rule r_into_rtranclp)
  have "tickets_ok kitchen_db" by (simp add: keyed_def kitchen_db_def)
  from tickets_follow_machine [OF calls this] show ?thesis by (rule conjunct2)
qed

definition ex_cancel :: UpdateKOTInput where
  "ex_cancel = \<lparr>kr_TenantID = 9, kr_RestaurantID = 4, kr_ActorID = 20, uk_KOTID = 11, uk_Priority = None,
     uk_AssignedToChefID = None, uk_IsManagerActor = True\<rparr>"

theorem urgent_ticket_not_cancelled_witness:
  "\<exists>r' s' err. CancelKOT ex_require ex_kenv 7 ex_cancel (kitchen_rbac, kitchen_db) = ((r', s'), Inl err)
     \<and> ticket_tables s' = ticket_tables kitchen_db"
proof (rule urgent_ticket_not_cancelled)
  show "ex_kot\<lparr>kot_TenantID := 9, kot_OrderID := 8\<rparr> \<in> set (db_kots kitchen_db)" by (simp add: kitchen_db_def)
qed (simp_all add: keyed_def kitchen_db_def ex_kot_def ex_cancel_def state_names)

end
