(* ===== verification/Inventory_Service.thy ===== *)
theory Inventory_Service
  imports Redis
begin

text \<open>
  The stock service of \<open>services/inventory/inventory.go\<close>: items with their cache, the movement
  ledger, deduction for orders, low-stock alerts, vendors, menu links and the dashboard numbers.

  Quantities are \<open>float64\<close> in the program and \<open>numeric\<close> columns in the database:
  \<open>se_numeric k\<close> is what a column with \<open>k\<close> decimals returns for a number stored in it.  The tables
  are created without foreign keys.  Alerts run in a goroutine; here they run where they are
  started.
\<close>

record stock_env =
  se_uuid_String :: "uuid \<Rightarrow> string"
  se_envelope_id :: string
  se_numeric :: "nat \<Rightarrow> f64 \<Rightarrow> f64"

section \<open>Rows\<close>

definition StockMovementReasonReceived :: string where "StockMovementReasonReceived = ''received''"
definition StockMovementReasonUsed :: string where "StockMovementReasonUsed = ''used''"
definition StockMovementReasonAdjustment :: string where "StockMovementReasonAdjustment = ''adjustment''"

record StockMovement =
  mv_StockMovementID :: uuid
  mv_TenantID :: uuid
  mv_RestaurantID :: uuid
  mv_InventoryItemID :: uuid
  mv_Reason :: string
  mv_QuantityDelta :: f64
  mv_BalanceAfter :: f64
  mv_ReferenceType :: string
  mv_ReferenceID :: string
  mv_Notes :: string
  mv_CreatedBy :: uuid
  mv_CreatedAt :: gotime

record MenuItemInventoryLink =
  lk_LinkID :: uuid
  lk_TenantID :: uuid
  lk_MenuItemID :: uuid
  lk_InventoryItemID :: uuid
  lk_QuantityPerUnit :: f64
  lk_IsActive :: bool

record Vendor =
  ven_VendorID :: uuid
  ven_TenantID :: uuid
  ven_Name :: string
  ven_ContactName :: string
  ven_Email :: string
  ven_Phone :: string
  ven_Address :: string
  ven_PaymentTerms :: string
  ven_IsActive :: bool

record PurchaseOrderLine =
  pol_PurchaseOrderLineID :: uuid
  pol_PurchaseOrderID :: uuid
  pol_InventoryItemID :: uuid
  pol_Quantity :: f64
  pol_UnitPrice :: f64
  pol_LineTotal :: f64
  pol_ReceivedQuantity :: f64

definition NotificationTypeAlert :: string where "NotificationTypeAlert = ''Alert''"

record Notification =
  ntf_NotificationID :: uuid
  ntf_TenantID :: uuid
  ntf_UserID :: "uuid option"
  ntf_Message :: string
  ntf_NotificationType :: string
  ntf_IsRead :: bool
  ntf_CreatedAt :: gotime

record InventoryStats =
  is_TotalItems :: int
  is_TotalValue :: f64
  is_LowStockCount :: int
  is_OutOfStockCount :: int
  is_ReorderRequired :: int

record stock_db = db +
  st_items :: "InventoryItem list"
  st_moves :: "StockMovement list"
  st_links :: "MenuItemInventoryLink list"
  st_vendors :: "Vendor list"
  st_pos :: "PurchaseOrder list"
  st_poLines :: "PurchaseOrderLine list"
  st_notifications :: "Notification list"
  rd_items :: "InventoryItem rcache"
  rd_stats :: "InventoryStats rcache"
  rd_alerts :: "string rcache"

section \<open>Requests and errors\<close>

datatype inv_error =
    ErrInventoryItemNotFound
  | ErrInventoryItemTenant
  | ErrInventoryItemInUse
  | ErrInventoryLinkNotFound
  | ErrInventoryLinkExists
  | ErrInventoryQuantityInvalid
  | ErrInsufficientInventory f64 f64
  | ErrVendorNotFound
  | ErrZeroAdjustment
  | InvDenied rbac_error
  | InvWrapped string string
  | InvPanic

definition ResourceVendor :: string where "ResourceVendor = ''vendor''"

record InventoryServiceRequest =
  ir_TenantID :: uuid
  ir_RestaurantID :: uuid
  ir_ActorID :: uuid

record CreateItemInput = InventoryServiceRequest +
  cii_Name :: string
  cii_Description :: string
  cii_SKU :: string
  cii_Category :: string
  cii_UnitOfMeasure :: string
  cii_CurrentQuantity :: f64
  cii_MinimumQuantity :: "f64 option"
  cii_MaximumQuantity :: "f64 option"
  cii_ReorderPoint :: "f64 option"
  cii_UnitCost :: "f64 option"

record UpdateItemInput = InventoryServiceRequest +
  uii_InventoryItemID :: uuid
  uii_Name :: "string option"
  uii_Description :: "string option"
  uii_Category :: "string option"
  uii_MinimumQuantity :: "f64 option"
  uii_MaximumQuantity :: "f64 option"
  uii_ReorderPoint :: "f64 option"
  uii_UnitCost :: "f64 option"

record AdjustStockInput = InventoryServiceRequest +
  adj_InventoryItemID :: uuid
  adj_QuantityDelta :: f64
  adj_Reason :: string
  adj_Notes :: string
  adj_ReferenceType :: string
  adj_ReferenceID :: string

record DeductForOrderInput =
  ded_TenantID :: uuid
  ded_RestaurantID :: uuid
  ded_OrderID :: uuid
  ded_Items :: "(uuid \<times> int) list"

record CreateVendorInput = InventoryServiceRequest +
  cvi_Name :: string
  cvi_ContactName :: string
  cvi_Email :: string
  cvi_Phone :: string
  cvi_Address :: string
  cvi_PaymentTerms :: string

record UpdateVendorInput = InventoryServiceRequest +
  uvi_VendorID :: uuid
  uvi_Name :: "string option"
  uvi_ContactName :: "string option"
  uvi_Email :: "string option"
  uvi_Phone :: "string option"
  uvi_Address :: "string option"
  uvi_PaymentTerms :: "string option"
  uvi_IsActive :: "bool option"

record CreateLinkInput = InventoryServiceRequest +
  cli_MenuItemID :: uuid
  cli_InventoryItemID :: uuid
  cli_QuantityPerUnit :: f64

definition inv_request :: "string \<Rightarrow> string \<Rightarrow> 'z InventoryServiceRequest_scheme \<Rightarrow> AccessRequest" where
  "inv_request resource action req = service_request (ir_ActorID req) (ir_TenantID req) resource action"

section \<open>Helpers\<close>

definition itemCacheKey :: "stock_env \<Rightarrow> uuid \<Rightarrow> uuid \<Rightarrow> string" where
  "itemCacheKey E tenantID itemID =
     ''inventory:item:'' @ se_uuid_String E tenantID @ '':'' @ se_uuid_String E itemID"

definition statsCacheKey :: "stock_env \<Rightarrow> uuid \<Rightarrow> uuid \<Rightarrow> string" where
  "statsCacheKey E tenantID restaurantID =
     ''inventory:stats:'' @ se_uuid_String E tenantID @ '':'' @ se_uuid_String E restaurantID"

definition inventoryItemCacheTTL :: int where
  "inventoryItemCacheTTL = minutes 5"

definition inventoryStatsCacheTTL :: int where
  "inventoryStatsCacheTTL = minutes 2"

definition invalidateItemCache :: "stock_env \<Rightarrow> uuid \<Rightarrow> uuid \<Rightarrow> ('z stock_db_scheme, 'e, unit) op" where
  "invalidateItemCache E tenantID itemID = ignore (redis_Del rd_items_update (itemCacheKey E tenantID itemID))"

definition invalidateStatsCache :: "stock_env \<Rightarrow> uuid \<Rightarrow> uuid \<Rightarrow> ('z stock_db_scheme, 'e, unit) op" where
  "invalidateStatsCache E tenantID restaurantID =
     ignore (redis_Del rd_stats_update (statsCacheKey E tenantID restaurantID))"

definition getItemForWrite :: "uuid \<Rightarrow> uuid \<Rightarrow> ('z stock_db_scheme, inv_error, InventoryItem) op" where
  "getItemForWrite tenantID itemID =
     db_First ErrInventoryItemNotFound (InvWrapped ''get inventory item'') inv_InventoryItemID st_items
       (\<lambda>i. inv_InventoryItemID i = itemID \<and> inv_TenantID i = tenantID)"

definition getVendorForWrite :: "uuid \<Rightarrow> uuid \<Rightarrow> ('z stock_db_scheme, inv_error, Vendor) op" where
  "getVendorForWrite tenantID vendorID =
     db_First ErrVendorNotFound (InvWrapped ''get vendor'') ven_VendorID st_vendors
       (\<lambda>v. ven_VendorID v = vendorID \<and> ven_TenantID v = tenantID)"

definition inv_writeAudit ::
    "stock_env \<Rightarrow> gotime \<Rightarrow> 'q InventoryServiceRequest_scheme \<Rightarrow> string \<Rightarrow> string \<Rightarrow> uuid
       \<Rightarrow> ('z stock_db_scheme, 'e, unit) op" where
  "inv_writeAudit E now req event entityType entityID =
     ignore (db_write (\<lambda>err. err) (\<lambda>s. s\<lparr>db_audits := db_audits s @
       [\<lparr>aud_TenantID = ir_TenantID req,
         aud_UserID = (if ir_ActorID req \<noteq> 0 then Some (ir_ActorID req) else None),
         aud_RestaurantID = Some (ir_RestaurantID req), aud_EventType = event,
         aud_EventCategory = ''inventory'', aud_Severity = AuditSeverityInfo, aud_EntityType = entityType,
         aud_EntityID = se_uuid_String E entityID, aud_Timestamp = now\<rparr>]\<rparr>))"

section \<open>Alerts\<close>

text \<open>One alert per item and hour; an item without a reorder point never raises one.\<close>

definition alertKey :: "stock_env \<Rightarrow> InventoryItem \<Rightarrow> string" where
  "alertKey E item = ''inventory:lowstock:alert:'' @ se_uuid_String E (inv_InventoryItemID item)"

definition alert_message :: "InventoryItem \<Rightarrow> f64 \<Rightarrow> string" where
  "alert_message item reorderPoint =
     ''['' @ (if f_eq (inv_CurrentQuantity item) f_zero then ''OUT_OF_STOCK'' else ''LOW_STOCK'') @ ''] ''
       @ inv_Name item @ '': stock at '' @ fmt_f 2 (inv_CurrentQuantity item) @ '' '' @ inv_UnitOfMeasure item
       @ '' (reorder point: '' @ fmt_f 2 reorderPoint @ '')''"

definition checkLowStock ::
    "stock_env \<Rightarrow> gotime \<Rightarrow> uuid \<Rightarrow> uuid \<Rightarrow> InventoryItem \<Rightarrow> ('z stock_db_scheme, 'e, unit) op" where
  "checkLowStock E now notificationID tenantID item =
     (case inv_ReorderPoint item of
        None \<Rightarrow> ret ()
      | Some reorderPoint \<Rightarrow>
          if f_gt (inv_CurrentQuantity item) reorderPoint then ret ()
          else bindE (try_get (redis_Get now rd_alerts (alertKey E item))) (\<lambda>recent.
            if recent \<noteq> None then ret ()
            else thenE (ignore (redis_Set now rd_alerts_update (alertKey E item) ''1'' (hours 1)))
              (ignore (db_write (\<lambda>err. err) (\<lambda>s. s\<lparr>st_notifications := st_notifications s @
                 [\<lparr>ntf_NotificationID = notificationID, ntf_TenantID = tenantID, ntf_UserID = None,
                   ntf_Message = alert_message item reorderPoint, ntf_NotificationType = NotificationTypeAlert,
                   ntf_IsRead = False, ntf_CreatedAt = now\<rparr>]\<rparr>)))))"

text \<open>
  The state before a mutation is not stored, so the event that leads to the derived state is tried
  from every other state until one accepts it.
\<close>

fun stock_sources_loop ::
    "stock_env \<Rightarrow> gotime \<Rightarrow> uuid \<Rightarrow> uuid \<Rightarrow> InventoryItem \<Rightarrow> string \<Rightarrow> string \<Rightarrow> inventoryItemAdapter
       \<Rightarrow> string list \<Rightarrow> ('z stock_db_scheme, inv_error, unit) op" where
  "stock_sources_loop E now notificationID tenantID item event currentState adapter [] = ret ()"
| "stock_sources_loop E now notificationID tenantID item event currentState adapter (src # sources) =
     (if src = currentState
      then stock_sources_loop E now notificationID tenantID item event currentState adapter sources
      else case fire (InventoryItemFSM (inventory_methods (se_uuid_String E))) adapter src
                  (NewEnvelope (se_envelope_id E) now event None) now now of
             (adapter, Returned None) \<Rightarrow>
               if currentState = InventoryStateLowStock \<or> currentState = InventoryStateOutOfStock
               then checkLowStock E now notificationID tenantID item else ret ()
           | (adapter, Returned (Some err)) \<Rightarrow>
               stock_sources_loop E now notificationID tenantID item event currentState adapter sources
           | (adapter, Panicked) \<Rightarrow> throw InvPanic)"

definition evaluateStockTransition ::
    "stock_env \<Rightarrow> gotime \<Rightarrow> uuid \<Rightarrow> uuid \<Rightarrow> InventoryItem \<Rightarrow> ('z stock_db_scheme, inv_error, unit) op" where
  "evaluateStockTransition E now notificationID tenantID item =
     (let currentState = DeriveInventoryState (inv_CurrentQuantity item) (inv_ReorderPoint item);
          adapter = \<lparr>ada_item = item, ada_stockStatus = currentState\<rparr>;
          go = (\<lambda>event. stock_sources_loop E now notificationID tenantID item event currentState adapter
                  [InventoryStateActive, InventoryStateLowStock, InventoryStateOutOfStock])
      in if currentState = InventoryStateOutOfStock then go InventoryEventStockDepleted
         else if currentState = InventoryStateLowStock then go InventoryEventStockLow
         else if currentState = InventoryStateActive then go InventoryEventStockReplenished
         else ret ())"

section \<open>Items\<close>

definition set_quantity :: "stock_env \<Rightarrow> uuid \<Rightarrow> f64 \<Rightarrow> InventoryItem list \<Rightarrow> InventoryItem list" where
  "set_quantity E itemID qty =
     update_rows (\<lambda>i. inv_InventoryItemID i = itemID) (\<lambda>i. i\<lparr>inv_CurrentQuantity := se_numeric E 3 qty\<rparr>)"

definition move_row :: "stock_env \<Rightarrow> StockMovement \<Rightarrow> StockMovement" where
  "move_row E move = move\<lparr>mv_QuantityDelta := se_numeric E 3 (mv_QuantityDelta move),
     mv_BalanceAfter := se_numeric E 3 (mv_BalanceAfter move)\<rparr>"

definition insert_move ::
    "stock_env \<Rightarrow> (string \<Rightarrow> 'e) \<Rightarrow> StockMovement \<Rightarrow> ('z stock_db_scheme, 'e, unit) op" where
  "insert_move E wrap move =
     db_insert wrap (\<lambda>s. mv_StockMovementID move \<in> mv_StockMovementID ` set (st_moves s))
       (\<lambda>s. s\<lparr>st_moves := st_moves s @ [move_row E move]\<rparr>)"

definition item_row :: "stock_env \<Rightarrow> InventoryItem \<Rightarrow> InventoryItem" where
  "item_row E item = item\<lparr>inv_CurrentQuantity := se_numeric E 3 (inv_CurrentQuantity item),
     inv_MinimumQuantity := map_option (se_numeric E 3) (inv_MinimumQuantity item),
     inv_MaximumQuantity := map_option (se_numeric E 3) (inv_MaximumQuantity item),
     inv_ReorderPoint := map_option (se_numeric E 3) (inv_ReorderPoint item),
     inv_UnitCost := map_option (se_numeric E 2) (inv_UnitCost item)\<rparr>"

definition new_item :: "uuid \<Rightarrow> CreateItemInput \<Rightarrow> InventoryItem" where
  "new_item itemID req = \<lparr>inv_InventoryItemID = itemID, inv_TenantID = ir_TenantID req,
     inv_RestaurantID = ir_RestaurantID req, inv_Name = cii_Name req, inv_Description = cii_Description req,
     inv_SKU = cii_SKU req, inv_Category = cii_Category req, inv_UnitOfMeasure = cii_UnitOfMeasure req,
     inv_CurrentQuantity = cii_CurrentQuantity req, inv_MinimumQuantity = cii_MinimumQuantity req,
     inv_MaximumQuantity = cii_MaximumQuantity req, inv_ReorderPoint = cii_ReorderPoint req,
     inv_UnitCost = cii_UnitCost req\<rparr>"

text \<open>The identifiers drawn are the item's, its opening movement's and a possible alert's.\<close>

definition opening_move :: "gotime \<Rightarrow> uuid \<Rightarrow> uuid \<Rightarrow> CreateItemInput \<Rightarrow> StockMovement" where
  "opening_move now itemID moveID req = \<lparr>mv_StockMovementID = moveID, mv_TenantID = ir_TenantID req,
     mv_RestaurantID = ir_RestaurantID req, mv_InventoryItemID = itemID,
     mv_Reason = StockMovementReasonAdjustment, mv_QuantityDelta = cii_CurrentQuantity req,
     mv_BalanceAfter = cii_CurrentQuantity req, mv_ReferenceType = ''opening_stock'',
     mv_ReferenceID = '''', mv_Notes = ''opening stock at item creation'',
     mv_CreatedBy = ir_ActorID req, mv_CreatedAt = now\<rparr>"

definition insert_item ::
    "stock_env \<Rightarrow> gotime \<Rightarrow> uuid \<Rightarrow> uuid \<Rightarrow> CreateItemInput \<Rightarrow> ('z stock_db_scheme, inv_error, unit) op" where
  "insert_item E now itemID moveID req =
     transaction (InvWrapped '''')
       (thenE (db_insert (InvWrapped ''create inventory item'')
                (\<lambda>s. itemID \<in> inv_InventoryItemID ` set (st_items s))
                (\<lambda>s. s\<lparr>st_items := st_items s @ [item_row E (new_item itemID req)]\<rparr>))
         (if f_gt (cii_CurrentQuantity req) f_zero
          then insert_move E (InvWrapped ''create opening movement'') (opening_move now itemID moveID req)
          else ret ()))"

definition create_item ::
    "stock_env \<Rightarrow> gotime \<Rightarrow> uuid \<Rightarrow> uuid \<Rightarrow> uuid \<Rightarrow> CreateItemInput
       \<Rightarrow> ('z stock_db_scheme, inv_error, InventoryItem) op" where
  "create_item E now itemID moveID notificationID req =
     thenE (insert_item E now itemID moveID req)
    (thenE (inv_writeAudit E now req AuditEventCreate ''InventoryItem'' itemID)
    (thenE (invalidateItemCache E (ir_TenantID req) itemID)
    (thenE (invalidateStatsCache E (ir_TenantID req) (ir_RestaurantID req))
    (thenE (evaluateStockTransition E now notificationID (ir_TenantID req) (new_item itemID req))
      (ret (new_item itemID req))))))"

definition CreateItem ::
    "(AccessRequest \<Rightarrow> 'r \<Rightarrow> 'r \<times> rbac_error option) \<Rightarrow> stock_env \<Rightarrow> gotime \<Rightarrow> uuid \<Rightarrow> uuid \<Rightarrow> uuid
       \<Rightarrow> CreateItemInput \<Rightarrow> 'r \<times> 'z stock_db_scheme \<Rightarrow> ('r \<times> 'z stock_db_scheme) \<times> (inv_error + InventoryItem)" where
  "CreateItem require E now itemID moveID notificationID req =
     guarded require (inv_request ResourceInventory ActionCreate req) InvDenied
       (create_item E now itemID moveID notificationID req)"

text \<open>Read-through: a value in the cache answers, otherwise the row does and is cached.\<close>

definition get_item ::
    "stock_env \<Rightarrow> gotime \<Rightarrow> 'q InventoryServiceRequest_scheme \<Rightarrow> uuid
       \<Rightarrow> ('z stock_db_scheme, inv_error, InventoryItem) op" where
  "get_item E now req itemID =
     bindE (try_get (redis_Get now rd_items (itemCacheKey E (ir_TenantID req) itemID))) (\<lambda>cached.
       case cached of
         Some item \<Rightarrow> ret item
       | None \<Rightarrow>
           bindE (getItemForWrite (ir_TenantID req) itemID) (\<lambda>item.
             thenE (ignore (redis_Set now rd_items_update (itemCacheKey E (ir_TenantID req) itemID) item
                              inventoryItemCacheTTL))
               (ret item)))"

definition GetItem ::
    "(AccessRequest \<Rightarrow> 'r \<Rightarrow> 'r \<times> rbac_error option) \<Rightarrow> stock_env \<Rightarrow> gotime \<Rightarrow> InventoryServiceRequest
       \<Rightarrow> uuid \<Rightarrow> 'r \<times> 'z stock_db_scheme \<Rightarrow> ('r \<times> 'z stock_db_scheme) \<times> (inv_error + InventoryItem)" where
  "GetItem require E now req itemID =
     guarded require (inv_request ResourceInventory ActionRead req) InvDenied (get_item E now req itemID)"

definition patch_with :: "'a option \<Rightarrow> ('a \<Rightarrow> 'r \<Rightarrow> 'r) \<Rightarrow> 'r \<Rightarrow> 'r" where
  "patch_with new set_field row = (case new of None \<Rightarrow> row | Some v \<Rightarrow> set_field v row)"

text \<open>The patch of the row; \<open>stored\<close> is the rounding of the columns, or none for the value returned.\<close>

definition patched_item :: "(nat \<Rightarrow> f64 \<Rightarrow> f64) \<Rightarrow> UpdateItemInput \<Rightarrow> InventoryItem \<Rightarrow> InventoryItem" where
  "patched_item stored req item =
     patch_with (uii_UnitCost req) (\<lambda>v i. i\<lparr>inv_UnitCost := Some (stored 2 v)\<rparr>)
    (patch_with (uii_ReorderPoint req) (\<lambda>v i. i\<lparr>inv_ReorderPoint := Some (stored 3 v)\<rparr>)
    (patch_with (uii_MaximumQuantity req) (\<lambda>v i. i\<lparr>inv_MaximumQuantity := Some (stored 3 v)\<rparr>)
    (patch_with (uii_MinimumQuantity req) (\<lambda>v i. i\<lparr>inv_MinimumQuantity := Some (stored 3 v)\<rparr>)
    (patch_with (uii_Category req) (\<lambda>v i. i\<lparr>inv_Category := v\<rparr>)
    (patch_with (uii_Description req) (\<lambda>v i. i\<lparr>inv_Description := v\<rparr>)
    (patch_with (uii_Name req) (\<lambda>v i. i\<lparr>inv_Name := v\<rparr>) item))))))"

definition update_item ::
    "stock_env \<Rightarrow> gotime \<Rightarrow> UpdateItemInput \<Rightarrow> ('z stock_db_scheme, inv_error, InventoryItem) op" where
  "update_item E now req =
     bindE (getItemForWrite (ir_TenantID req) (uii_InventoryItemID req)) (\<lambda>item.
       if inv_RestaurantID item \<noteq> ir_RestaurantID req then throw ErrInventoryItemTenant
       else thenE (db_write (InvWrapped ''update inventory item'') (\<lambda>s. s\<lparr>st_items :=
                update_rows (\<lambda>i. inv_InventoryItemID i = inv_InventoryItemID item)
                  (patched_item (se_numeric E) req) (st_items s)\<rparr>))
           (thenE (inv_writeAudit E now req AuditEventUpdate ''InventoryItem'' (inv_InventoryItemID item))
           (thenE (invalidateItemCache E (ir_TenantID req) (inv_InventoryItemID item))
           (thenE (invalidateStatsCache E (ir_TenantID req) (ir_RestaurantID req))
             (ret (patched_item (\<lambda>k v. v) req item))))))"

definition UpdateItem ::
    "(AccessRequest \<Rightarrow> 'r \<Rightarrow> 'r \<times> rbac_error option) \<Rightarrow> stock_env \<Rightarrow> gotime \<Rightarrow> UpdateItemInput
       \<Rightarrow> 'r \<times> 'z stock_db_scheme \<Rightarrow> ('r \<times> 'z stock_db_scheme) \<times> (inv_error + InventoryItem)" where
  "UpdateItem require E now req =
     guarded require (inv_request ResourceInventory ActionUpdate req) InvDenied (update_item E now req)"

definition delete_item ::
    "stock_env \<Rightarrow> gotime \<Rightarrow> InventoryServiceRequest \<Rightarrow> uuid \<Rightarrow> ('z stock_db_scheme, inv_error, unit) op" where
  "delete_item E now req itemID =
     bindE (getItemForWrite (ir_TenantID req) itemID) (\<lambda>item.
       if inv_RestaurantID item \<noteq> ir_RestaurantID req then throw ErrInventoryItemTenant
       else bindE (db_query (InvWrapped ''link count check'') (\<lambda>s.
                length (filter (\<lambda>l. lk_InventoryItemID l = itemID \<and> lk_IsActive l) (st_links s)))) (\<lambda>linkCount.
         if linkCount > 0 then throw ErrInventoryItemInUse
         else thenE (db_write (InvWrapped ''delete inventory item'') (\<lambda>s. s\<lparr>st_items :=
                filter (\<lambda>i. inv_InventoryItemID i \<noteq> inv_InventoryItemID item) (st_items s)\<rparr>))
             (thenE (inv_writeAudit E now req AuditEventDelete ''InventoryItem'' itemID)
             (thenE (invalidateItemCache E (ir_TenantID req) itemID)
               (invalidateStatsCache E (ir_TenantID req) (ir_RestaurantID req))))))"

definition DeleteItem ::
    "(AccessRequest \<Rightarrow> 'r \<Rightarrow> 'r \<times> rbac_error option) \<Rightarrow> stock_env \<Rightarrow> gotime \<Rightarrow> InventoryServiceRequest
       \<Rightarrow> uuid \<Rightarrow> 'r \<times> 'z stock_db_scheme \<Rightarrow> ('r \<times> 'z stock_db_scheme) \<times> (inv_error + unit)" where
  "DeleteItem require E now req itemID =
     guarded require (inv_request ResourceInventory ActionDelete req) InvDenied (delete_item E now req itemID)"

section \<open>Movements\<close>

definition adjustment :: "gotime \<Rightarrow> uuid \<Rightarrow> AdjustStockInput \<Rightarrow> f64 \<Rightarrow> StockMovement" where
  "adjustment now moveID req newQty = \<lparr>mv_StockMovementID = moveID, mv_TenantID = ir_TenantID req,
     mv_RestaurantID = ir_RestaurantID req, mv_InventoryItemID = adj_InventoryItemID req,
     mv_Reason = adj_Reason req, mv_QuantityDelta = adj_QuantityDelta req, mv_BalanceAfter = newQty,
     mv_ReferenceType = adj_ReferenceType req, mv_ReferenceID = adj_ReferenceID req,
     mv_Notes = adj_Notes req, mv_CreatedBy = ir_ActorID req, mv_CreatedAt = now\<rparr>"

definition write_quantity ::
    "stock_env \<Rightarrow> InventoryItem \<Rightarrow> f64 \<Rightarrow> StockMovement \<Rightarrow> ('z stock_db_scheme, inv_error, unit) op" where
  "write_quantity E item newQty move =
     transaction (InvWrapped '''')
       (thenE (db_write (InvWrapped ''update quantity'')
                (\<lambda>s. s\<lparr>st_items := set_quantity E (inv_InventoryItemID item) newQty (st_items s)\<rparr>))
         (insert_move E (InvWrapped ''create stock movement'') move))"

text \<open>
  The check and the write work on the row as it was loaded: \<open>adjust_item\<close> is the part of
  \<open>AdjustStock\<close> after the load, so that two of them can be interleaved.
\<close>

definition adjust_item ::
    "stock_env \<Rightarrow> gotime \<Rightarrow> uuid \<Rightarrow> uuid \<Rightarrow> AdjustStockInput \<Rightarrow> InventoryItem
       \<Rightarrow> ('z stock_db_scheme, inv_error, StockMovement) op" where
  "adjust_item E now moveID notificationID req item =
     (let newQty = f_add (inv_CurrentQuantity item) (adj_QuantityDelta req);
          move = adjustment now moveID req newQty
      in if inv_RestaurantID item \<noteq> ir_RestaurantID req then throw ErrInventoryItemTenant
         else if f_lt newQty f_zero
         then throw (ErrInsufficientInventory (inv_CurrentQuantity item) (adj_QuantityDelta req))
         else thenE (write_quantity E item newQty move)
             (thenE (invalidateItemCache E (ir_TenantID req) (adj_InventoryItemID req))
             (thenE (invalidateStatsCache E (ir_TenantID req) (ir_RestaurantID req))
             (thenE (evaluateStockTransition E now notificationID (ir_TenantID req)
                       (item\<lparr>inv_CurrentQuantity := newQty\<rparr>))
               (ret move)))))"

definition adjust_stock ::
    "stock_env \<Rightarrow> gotime \<Rightarrow> uuid \<Rightarrow> uuid \<Rightarrow> AdjustStockInput \<Rightarrow> ('z stock_db_scheme, inv_error, StockMovement) op" where
  "adjust_stock E now moveID notificationID req =
     (if f_eq (adj_QuantityDelta req) f_zero then throw ErrZeroAdjustment
      else bindE (getItemForWrite (ir_TenantID req) (adj_InventoryItemID req))
             (adjust_item E now moveID notificationID req))"

definition AdjustStock ::
    "(AccessRequest \<Rightarrow> 'r \<Rightarrow> 'r \<times> rbac_error option) \<Rightarrow> stock_env \<Rightarrow> gotime \<Rightarrow> uuid \<Rightarrow> uuid
       \<Rightarrow> AdjustStockInput \<Rightarrow> 'r \<times> 'z stock_db_scheme \<Rightarrow> ('r \<times> 'z stock_db_scheme) \<times> (inv_error + StockMovement)" where
  "AdjustStock require E now moveID notificationID req =
     guarded require (inv_request ResourceInventory ActionUpdate req) InvDenied
       (adjust_stock E now moveID notificationID req)"

section \<open>Deduction for an order\<close>

text \<open>The deductions are summed per inventory item over the links, in the order they are returned.\<close>

definition ordered_quantity :: "(uuid \<times> int) list \<Rightarrow> uuid \<Rightarrow> int" where
  "ordered_quantity items menuItemID = (case map_of items menuItemID of None \<Rightarrow> 0 | Some n \<Rightarrow> n)"

fun deductions_loop ::
    "(uuid \<times> int) list \<Rightarrow> (uuid \<times> f64) list \<Rightarrow> MenuItemInventoryLink list \<Rightarrow> (uuid \<times> f64) list" where
  "deductions_loop items deductions [] = deductions"
| "deductions_loop items deductions (link # links) =
     (let delta = f_mul (f_of_int (ordered_quantity items (lk_MenuItemID link))) (lk_QuantityPerUnit link);
          itemID = lk_InventoryItemID link
      in case map_of deductions itemID of
           Some d \<Rightarrow> deductions_loop items (AList.update itemID (f_add d delta) deductions) links
         | None \<Rightarrow> deductions_loop items (AList.update itemID delta deductions) links)"

definition deducted_quantity :: "f64 \<Rightarrow> f64 \<Rightarrow> f64" where
  "deducted_quantity current delta =
     (let newQty = f_sub current delta in if f_lt newQty f_zero then f_zero else newQty)"

definition consumption ::
    "stock_env \<Rightarrow> gotime \<Rightarrow> uuid \<Rightarrow> DeductForOrderInput \<Rightarrow> uuid \<Rightarrow> f64 \<Rightarrow> f64 \<Rightarrow> StockMovement" where
  "consumption E now moveID req itemID delta newQty = \<lparr>mv_StockMovementID = moveID,
     mv_TenantID = ded_TenantID req, mv_RestaurantID = ded_RestaurantID req, mv_InventoryItemID = itemID,
     mv_Reason = StockMovementReasonUsed, mv_QuantityDelta = f_neg delta, mv_BalanceAfter = newQty,
     mv_ReferenceType = ''order'', mv_ReferenceID = se_uuid_String E (ded_OrderID req),
     mv_Notes = ''auto-deducted on order creation'', mv_CreatedBy = 0, mv_CreatedAt = now\<rparr>"

text \<open>
  One deduction; whatever fails, the loop continues.  The lock of \<open>SELECT FOR UPDATE\<close> is released
  with its own statement, as there is no transaction around it.
\<close>

definition deduct_one ::
    "stock_env \<Rightarrow> gotime \<Rightarrow> uuid \<Rightarrow> uuid \<Rightarrow> DeductForOrderInput \<Rightarrow> uuid \<Rightarrow> f64
       \<Rightarrow> ('z stock_db_scheme, inv_error, unit) op" where
  "deduct_one E now moveID notificationID req itemID delta =
     ignore
      (bindE (getItemForWrite (ded_TenantID req) itemID) (\<lambda>item.
         let newQty = deducted_quantity (inv_CurrentQuantity item) delta
         in thenE (write_quantity E item newQty (consumption E now moveID req itemID delta newQty))
           (thenE (invalidateItemCache E (ded_TenantID req) itemID)
             (evaluateStockTransition E now notificationID (ded_TenantID req)
               (item\<lparr>inv_CurrentQuantity := newQty\<rparr>)))))"

fun deduct_loop ::
    "stock_env \<Rightarrow> gotime \<Rightarrow> (nat \<Rightarrow> uuid \<times> uuid) \<Rightarrow> DeductForOrderInput \<Rightarrow> nat \<Rightarrow> (uuid \<times> f64) list
       \<Rightarrow> ('z stock_db_scheme, inv_error, unit) op" where
  "deduct_loop E now ids req k [] = ret ()"
| "deduct_loop E now ids req k ((itemID, delta) # deductions) =
     thenE (deduct_one E now (fst (ids k)) (snd (ids k)) req itemID delta)
       (deduct_loop E now ids req (Suc k) deductions)"

text \<open>\<open>sched\<close> is the order in which Go ranges over the map of deductions.\<close>

definition DeductForOrder ::
    "stock_env \<Rightarrow> gotime \<Rightarrow> (nat \<Rightarrow> uuid \<times> uuid) \<Rightarrow> ((uuid \<times> f64) list \<Rightarrow> (uuid \<times> f64) list)
       \<Rightarrow> DeductForOrderInput \<Rightarrow> ('z stock_db_scheme, inv_error, unit) op" where
  "DeductForOrder E now ids sched req =
     (if ded_Items req = [] then ret ()
      else bindE (db_query (InvWrapped ''load inventory links'') (\<lambda>s.
               filter (\<lambda>l. lk_MenuItemID l \<in> fst ` set (ded_Items req) \<and> lk_TenantID l = ded_TenantID req
                          \<and> lk_IsActive l) (st_links s))) (\<lambda>links.
        if links = [] then ret ()
        else thenE (deduct_loop E now ids req 0 (sched (deductions_loop (ded_Items req) [] links)))
               (invalidateStatsCache E (ded_TenantID req) (ded_RestaurantID req))))"

end
