(* ===== verification/Inventory_Correct.thy ===== *)
theory Inventory_Correct
  imports Inventory_Service
begin

text \<open>
  What the stock service guarantees: the ledger agrees with the quantities, an adjustment is all or
  nothing, what a deduction leaves, when an alert is raised, and what the cache returns.
\<close>

declare stock_sources_loop.simps [simp del]

section \<open>Alerts and caches leave the tables alone\<close>

definition stock_tables ::
    "'z stock_db_scheme \<Rightarrow> InventoryItem list \<times> StockMovement list \<times> MenuItemInventoryLink list
       \<times> PurchaseOrder list \<times> PurchaseOrderLine list" where
  "stock_tables s = (st_items s, st_moves s, st_links s, st_pos s, st_poLines s)"

lemma stock_tables_faults [simp]:
  "stock_tables (s\<lparr>faults := fs\<rparr>) = stock_tables s" "stock_tables (s\<lparr>rd_faults := fs\<rparr>) = stock_tables s"
  by (simp_all add: stock_tables_def)

definition same_stock :: "'z stock_db_scheme \<Rightarrow> 'z stock_db_scheme \<Rightarrow> bool" where
  "same_stock s s' \<longleftrightarrow> stock_tables s' = stock_tables s"

lemma same_stock_rules: "reflp same_stock" "transp same_stock" "fault_blind same_stock" "redis_blind same_stock"
  by (auto simp: same_stock_def fault_blind_def redis_blind_def intro: reflpI transpI)

lemma same_stock_run: "steps same_stock m \<Longrightarrow> stock_tables (fst (m s)) = stock_tables s"
  by (simp add: steps_def same_stock_def)

lemma checkLowStock_same: "steps same_stock (checkLowStock E now n t item)"
  unfolding checkLowStock_def
  by (intro steps_rules same_stock_rules) (simp_all add: same_stock_def stock_tables_def)

lemma checkLowStock_Inr: "\<exists>s'. checkLowStock E now n t item s = (s', Inr ())"
proof (cases "inv_ReorderPoint item")
  case None
  then show ?thesis by (simp add: checkLowStock_def)
next
  case (Some rp)
  then show ?thesis
    by (cases "snd (redis_Get now rd_alerts (alertKey E item) s)")
      (auto simp: checkLowStock_def bindE_def thenE_def try_get_def split: prod.splits option.splits)
qed

lemma sources_same: "steps same_stock (stock_sources_loop E now n t item event current adapter sources)"
proof (induction E now n t item event current adapter sources rule: stock_sources_loop.induct)
  case (1 E now n t item event current adapter)
  show ?case by (simp add: same_stock_rules steps_ret stock_sources_loop.simps del: op_simps)
next
  case (2 E now n t item event current adapter src sources)
  then show ?case
    by (auto simp: steps_ret steps_throw same_stock_rules checkLowStock_same stock_sources_loop.simps
        simp del: op_simps split: prod.splits outcome.splits option.splits)
qed

lemma sources_Inr: "\<exists>s'. stock_sources_loop E now n t item event current adapter sources s = (s', Inr ())"
proof (induction E now n t item event current adapter sources rule: stock_sources_loop.induct)
  case (2 E now n t item event current adapter src sources)
  then show ?case
    by (auto simp: stock_sources_loop.simps inventory_fsm.fire_char checkLowStock_Inr
        split: prod.splits outcome.splits option.splits)
qed (simp add: stock_sources_loop.simps)

lemma evaluate_same [steps_rules]: "steps same_stock (evaluateStockTransition E now n t item)"
  unfolding evaluateStockTransition_def Let_def
  by (intro steps_rules same_stock_rules sources_same)

lemma evaluate_Inr: "\<exists>s'. evaluateStockTransition E now n t item s = (s', Inr ())"
  by (simp add: evaluateStockTransition_def Let_def sources_Inr)

lemma invalidate_same [steps_rules]:
  "steps same_stock (invalidateItemCache E t i)" "steps same_stock (invalidateStatsCache E t r)"
  unfolding invalidateItemCache_def invalidateStatsCache_def
  by (intro steps_rules same_stock_rules; simp add: same_stock_def stock_tables_def)+

lemma inv_writeAudit_same [steps_rules]: "steps same_stock (inv_writeAudit E now req event entity i)"
  unfolding inv_writeAudit_def
  by (intro steps_rules same_stock_rules) (simp add: same_stock_def stock_tables_def)

text \<open>What follows a committed write succeeds and leaves the tables alone.\<close>

definition quiet_op :: "('z stock_db_scheme, 'e, unit) op \<Rightarrow> bool" where
  "quiet_op m \<longleftrightarrow> steps same_stock m \<and> (\<forall>s. \<exists>s'. m s = (s', Inr ()))"

lemma quiet_ops [simp]:
  "quiet_op (evaluateStockTransition E now n t item)" "quiet_op (invalidateItemCache E t i)"
  "quiet_op (invalidateStatsCache E t r)" "quiet_op (inv_writeAudit E now req event entity i)"
  by (simp_all add: quiet_op_def steps_rules evaluate_Inr invalidateItemCache_def [abs_def]
      invalidateStatsCache_def [abs_def] inv_writeAudit_def [abs_def] invalidate_same [unfolded invalidateItemCache_def invalidateStatsCache_def]
      inv_writeAudit_same [unfolded inv_writeAudit_def])

lemma quiet_thenE:
  assumes "quiet_op m"
  obtains s1 where "stock_tables s1 = stock_tables s" "thenE m k s = k s1"
proof -
  obtain s1 where s1: "m s = (s1, Inr ())" using assms by (auto simp: quiet_op_def)
  moreover from this assms have "stock_tables s1 = stock_tables s"
    unfolding quiet_op_def using stepsD [of same_stock m s s1] by (auto simp: same_stock_def)
  ultimately show thesis by (intro that [of s1]) (simp_all add: thenE_def)
qed

section \<open>Writing a quantity with its movement\<close>

lemma insert_move_Inr:
  "insert_move E w move s = (s', Inr u) \<Longrightarrow>
     st_moves s' = st_moves s @ [move_row E move] \<and> st_items s' = st_items s \<and> st_links s' = st_links s
     \<and> st_pos s' = st_pos s \<and> st_poLines s' = st_poLines s"
  by (auto simp: insert_move_def db_insert_Inr dest!: db_call_InrD)

lemma write_quantity_Inr:
  assumes "write_quantity E item q move s = (s', Inr u)"
  shows "stock_tables s' = (set_quantity E (inv_InventoryItemID item) q (st_items s), st_moves s @ [move_row E move],
    st_links s, st_pos s, st_poLines s)"
  using assms unfolding write_quantity_def
  by (auto simp: transaction_Inr thenE_Inr_iff db_write_Inr stock_tables_def dest!: db_call_InrD insert_move_Inr)

lemma write_quantity_Inl:
  "write_quantity E item q move s = (s', Inl err) \<Longrightarrow> stock_tables s' = stock_tables s"
  unfolding write_quantity_def by (drule transaction_InlD) auto

lemma insert_item_Inr:
  assumes "insert_item E now i m req s = (s', Inr u)"
  shows "i \<notin> inv_InventoryItemID ` set (st_items s)
    \<and> stock_tables s' = (st_items s @ [item_row E (new_item i req)],
        st_moves s @ (if f_gt (cii_CurrentQuantity req) f_zero then [move_row E (opening_move now i m req)] else []),
        st_links s, st_pos s, st_poLines s)"
  using assms unfolding insert_item_def
  by (auto simp: transaction_Inr thenE_Inr_iff db_insert_Inr stock_tables_def split: if_splits
      dest!: db_call_InrD insert_move_Inr)

lemma insert_item_Inl:
  "insert_item E now i m req s = (s', Inl err) \<Longrightarrow> stock_tables s' = stock_tables s"
  unfolding insert_item_def by (drule transaction_InlD) auto

lemma set_quantity_keys [simp]: "map inv_InventoryItemID (set_quantity E i q items) = map inv_InventoryItemID items"
  by (simp add: set_quantity_def update_rows_def)

lemma set_quantity_cases:
  "r \<in> set (set_quantity E i q items) \<Longrightarrow>
     (r \<in> set items \<and> inv_InventoryItemID r \<noteq> i)
     \<or> (\<exists>r0 \<in> set items. inv_InventoryItemID r0 = i \<and> r = r0\<lparr>inv_CurrentQuantity := se_numeric E 3 q\<rparr>)"
  by (auto simp: set_quantity_def update_rows_set split: if_splits)

section \<open>The adjustment, as a whole\<close>

lemma getItemForWrite_Inr:
  "getItemForWrite t i s = (s1, Inr item) \<Longrightarrow>
     stock_tables s1 = stock_tables s \<and> item \<in> set (st_items s) \<and> inv_InventoryItemID item = i \<and> inv_TenantID item = t"
  unfolding getItemForWrite_def by (drule db_First_InrD) auto

lemma getItemForWrite_Inl: "getItemForWrite t i s = (s1, Inl err) \<Longrightarrow> stock_tables s1 = stock_tables s"
  unfolding getItemForWrite_def by (drule db_First_InlD) auto

definition adjusted ::
    "stock_env \<Rightarrow> gotime \<Rightarrow> uuid \<Rightarrow> AdjustStockInput \<Rightarrow> InventoryItem \<Rightarrow> 'z stock_db_scheme \<Rightarrow> 'z stock_db_scheme \<Rightarrow> bool" where
  "adjusted E now moveID req item s s' \<longleftrightarrow>
     (let newQty = f_add (inv_CurrentQuantity item) (adj_QuantityDelta req)
      in inv_RestaurantID item = ir_RestaurantID req \<and> \<not> f_lt newQty f_zero
         \<and> stock_tables s' = (set_quantity E (inv_InventoryItemID item) newQty (st_items s),
             st_moves s @ [move_row E (adjustment now moveID req newQty)], st_links s, st_pos s, st_poLines s))"

lemma adjust_item_outcome:
  assumes "adjust_item E now m n req item s = (s', res)"
  shows "case res of
      Inr move \<Rightarrow> adjusted E now m req item s s'
        \<and> move = adjustment now m req (f_add (inv_CurrentQuantity item) (adj_QuantityDelta req))
    | Inl err \<Rightarrow> stock_tables s' = stock_tables s"
proof -
  let ?q = "f_add (inv_CurrentQuantity item) (adj_QuantityDelta req)"
  let ?move = "adjustment now m req ?q"
  obtain s1 r where w: "write_quantity E item ?q ?move s = (s1, r)" by (cases "write_quantity E item ?q ?move s")
  show ?thesis
  proof (cases "inv_RestaurantID item = ir_RestaurantID req \<and> \<not> f_lt ?q f_zero")
    case False
    with assms show ?thesis by (auto simp: adjust_item_def Let_def split: if_splits)
  next
    case ok: True
    show ?thesis
    proof (cases r)
      case (Inl err)
      with assms ok w write_quantity_Inl [of E item ?q ?move s s1 err] show ?thesis
        by (auto simp: adjust_item_def Let_def thenE_def)
    next
      case (Inr u)
      let ?k1 = "thenE (invalidateStatsCache E (ir_TenantID req) (ir_RestaurantID req))
        (thenE (evaluateStockTransition E now n (ir_TenantID req) (item\<lparr>inv_CurrentQuantity := ?q\<rparr>)) (ret ?move))"
      have run: "thenE (invalidateItemCache E (ir_TenantID req) (adj_InventoryItemID req)) ?k1 s1 = (s', res)"
        using assms ok w Inr by (simp add: adjust_item_def Let_def thenE_def [of "write_quantity _ _ _ _"])
      obtain s2 where "stock_tables s2 = stock_tables s1"
        "thenE (invalidateItemCache E (ir_TenantID req) (adj_InventoryItemID req)) ?k1 s1 = ?k1 s2"
        by (rule quiet_thenE [OF quiet_ops(2)])
      moreover obtain s3 where "stock_tables s3 = stock_tables s2"
        "?k1 s2 = thenE (evaluateStockTransition E now n (ir_TenantID req) (item\<lparr>inv_CurrentQuantity := ?q\<rparr>)) (ret ?move) s3"
        by (rule quiet_thenE [OF quiet_ops(3)])
      moreover obtain s4 where "stock_tables s4 = stock_tables s3"
        "thenE (evaluateStockTransition E now n (ir_TenantID req) (item\<lparr>inv_CurrentQuantity := ?q\<rparr>)) (ret ?move) s3 = ret ?move s4"
        by (rule quiet_thenE [OF quiet_ops(1)])
      ultimately have "s' = s4" "res = Inr ?move" "stock_tables s4 = stock_tables s1" using run by simp_all
      with write_quantity_Inr [OF w [unfolded Inr]] ok show ?thesis by (simp add: adjusted_def Let_def)
    qed
  qed
qed

lemma adjust_stock_outcome:
  assumes "adjust_stock E now m n req s = (s', res)"
  shows "case res of
      Inr move \<Rightarrow> (\<exists>item \<in> set (st_items s). inv_InventoryItemID item = adj_InventoryItemID req
        \<and> inv_TenantID item = ir_TenantID req \<and> adjusted E now m req item s s'
        \<and> move = adjustment now m req (f_add (inv_CurrentQuantity item) (adj_QuantityDelta req)))
    | Inl err \<Rightarrow> stock_tables s' = stock_tables s"
proof (cases "f_eq (adj_QuantityDelta req) f_zero")
  case True
  with assms show ?thesis by (auto simp: adjust_stock_def)
next
  case False
  obtain s1 r where g: "getItemForWrite (ir_TenantID req) (adj_InventoryItemID req) s = (s1, r)"
    by (cases "getItemForWrite (ir_TenantID req) (adj_InventoryItemID req) s")
  show ?thesis
  proof (cases r)
    case (Inl err)
    with assms False g getItemForWrite_Inl show ?thesis by (auto simp: adjust_stock_def)
  next
    case (Inr item)
    note item = getItemForWrite_Inr [OF g [unfolded Inr]]
    have "adjust_item E now m n req item s1 = (s', res)" using assms False g Inr by (simp add: adjust_stock_def)
    from adjust_item_outcome [OF this] item show ?thesis
      by (auto simp: adjusted_def Let_def stock_tables_def split: sum.splits)
  qed
qed

lemma AdjustStock_outcome:
  assumes "AdjustStock require E now m n req (r, s) = ((r', s'), res)"
  shows "case res of
      Inr move \<Rightarrow> (\<exists>item \<in> set (st_items s). inv_InventoryItemID item = adj_InventoryItemID req
        \<and> inv_TenantID item = ir_TenantID req \<and> adjusted E now m req item s s'
        \<and> move = adjustment now m req (f_add (inv_CurrentQuantity item) (adj_QuantityDelta req)))
    | Inl err \<Rightarrow> stock_tables s' = stock_tables s"
proof (cases res)
  case (Inr move)
  with assms have "adjust_stock E now m n req s = (s', Inr move)"
    by (simp add: AdjustStock_def guarded_Inr)
  from adjust_stock_outcome [OF this] Inr show ?thesis by simp
next
  case (Inl err)
  with assms have "s' = s \<or> (\<exists>e. adjust_stock E now m n req s = (s', Inl e))"
    by (auto simp: AdjustStock_def guarded_Inl)
  with Inl adjust_stock_outcome [of E now m n req s s'] show ?thesis by fastforce
qed

text \<open>
  An adjustment is all or nothing.  On success the item of the caller's tenant and restaurant has
  the sum of its quantity and the delta, which is not negative, and exactly one movement with that
  balance was appended; on an error the stock tables are what they were.
\<close>

theorem AdjustStock_all_or_nothing:
  assumes "AdjustStock require E now m n req (r, s) = ((r', s'), res)"
  shows "case res of
      Inr move \<Rightarrow> (\<exists>item \<in> set (st_items s). inv_InventoryItemID item = adj_InventoryItemID req
        \<and> inv_TenantID item = ir_TenantID req \<and> adjusted E now m req item s s'
        \<and> move = adjustment now m req (f_add (inv_CurrentQuantity item) (adj_QuantityDelta req)))
    | Inl err \<Rightarrow> stock_tables s' = stock_tables s"
  by (rule AdjustStock_outcome [OF assms])

section \<open>The ledger\<close>

definition last_move :: "uuid \<Rightarrow> StockMovement list \<Rightarrow> StockMovement option" where
  "last_move itemID moves = List.find (\<lambda>m. mv_InventoryItemID m = itemID) (rev moves)"

definition ledger_ok :: "'z stock_db_scheme \<Rightarrow> bool" where
  "ledger_ok s \<longleftrightarrow> distinct (map inv_InventoryItemID (st_items s))
     \<and> (\<forall>i \<in> set (st_items s). \<forall>m. last_move (inv_InventoryItemID i) (st_moves s) = Some m
          \<longrightarrow> mv_BalanceAfter m = inv_CurrentQuantity i)"

definition stock_nonneg :: "'z stock_db_scheme \<Rightarrow> bool" where
  "stock_nonneg s \<longleftrightarrow> (\<forall>i \<in> set (st_items s). not_neg (inv_CurrentQuantity i))"

text \<open>What a column returns for a number that is not negative is not negative.\<close>

definition sign_kept :: "stock_env \<Rightarrow> bool" where
  "sign_kept E \<longleftrightarrow> (\<forall>k x. not_neg x \<longrightarrow> not_neg (se_numeric E k x))"

definition stock_step :: "'z stock_db_scheme \<Rightarrow> 'z stock_db_scheme \<Rightarrow> bool" where
  "stock_step s s' \<longleftrightarrow> (\<exists>new. st_moves s' = st_moves s @ new)
     \<and> (ledger_ok s \<longrightarrow> ledger_ok s') \<and> (stock_nonneg s \<longrightarrow> stock_nonneg s')"

lemma stock_step_same: "stock_tables s' = stock_tables s \<Longrightarrow> stock_step s s'"
  by (simp add: stock_step_def stock_tables_def ledger_ok_def stock_nonneg_def)

lemma stock_step_refl: "reflp stock_step"
  by (simp add: reflpI stock_step_same)

lemma stock_step_trans: "transp stock_step"
  by (rule transpI) (auto simp: stock_step_def)

lemma stock_step_blind: "fault_blind stock_step" "redis_blind stock_step"
  by (simp_all add: fault_blind_def redis_blind_def stock_step_same)

lemmas stock_step_rules = stock_step_refl stock_step_trans stock_step_blind

lemma quiet_stock_step: "steps same_stock m \<Longrightarrow> steps stock_step m"
  by (simp add: steps_def same_stock_def stock_step_same)

lemma last_move_append [simp]:
  "last_move i (moves @ [m]) = (if mv_InventoryItemID m = i then Some m else last_move i moves)"
  by (simp add: last_move_def)

lemma last_move_None [simp]: "last_move i moves = None \<longleftrightarrow> i \<notin> mv_InventoryItemID ` set moves"
  by (auto simp: last_move_def find_None_iff)

lemma ledger_write:
  assumes "stock_tables s' = (set_quantity E i q (st_items s), st_moves s @ [move_row E move], l, p, pl)"
    and "mv_InventoryItemID move = i" and "mv_BalanceAfter move = q" and "not_neg q" and "sign_kept E"
  shows "stock_step s s'"
  unfolding stock_step_def
proof (intro conjI impI)
  note s' = assms(1) [unfolded stock_tables_def prod.inject]
  show "\<exists>new. st_moves s' = st_moves s @ new" using s' by simp
  assume ok: "ledger_ok s"
  show "ledger_ok s'"
    unfolding ledger_ok_def
  proof (intro conjI ballI allI impI)
    show "distinct (map inv_InventoryItemID (st_items s'))" using ok s' by (simp add: ledger_ok_def)
    fix r m assume r: "r \<in> set (st_items s')" and m: "last_move (inv_InventoryItemID r) (st_moves s') = Some m"
    from r s' have "(r \<in> set (st_items s) \<and> inv_InventoryItemID r \<noteq> i)
        \<or> (\<exists>r0 \<in> set (st_items s). inv_InventoryItemID r0 = i \<and> r = r0\<lparr>inv_CurrentQuantity := se_numeric E 3 q\<rparr>)"
      by (intro set_quantity_cases) simp
    then show "mv_BalanceAfter m = inv_CurrentQuantity r"
    proof (elim disjE conjE bexE)
      assume "r \<in> set (st_items s)" and "inv_InventoryItemID r \<noteq> i"
      moreover from this m s' assms(2) have "last_move (inv_InventoryItemID r) (st_moves s) = Some m"
        by (simp add: move_row_def)
      ultimately show ?thesis using ok by (simp add: ledger_ok_def)
    next
      fix r0 assume "inv_InventoryItemID r0 = i" and "r = r0\<lparr>inv_CurrentQuantity := se_numeric E 3 q\<rparr>"
      with m s' assms(2,3) show ?thesis by (auto simp: move_row_def)
    qed
  qed
next
  note s' = assms(1) [unfolded stock_tables_def prod.inject]
  assume "stock_nonneg s"
  with s' assms(4,5) show "stock_nonneg s'"
    by (auto simp: stock_nonneg_def sign_kept_def dest!: set_quantity_cases)
qed

lemma ledger_insert:
  assumes "insert_item E now i m req s = (s', res)" and "i \<notin> mv_InventoryItemID ` set (st_moves s)"
    and "not_neg (cii_CurrentQuantity req)" and "sign_kept E"
  shows "stock_step s s'"
proof (cases res)
  case (Inl err)
  with assms(1) show ?thesis by (intro stock_step_same) (simp add: insert_item_Inl)
next
  case (Inr u)
  note ins = insert_item_Inr [OF assms(1) [unfolded Inr]]
  show ?thesis
    unfolding stock_step_def
  proof (intro conjI impI)
    show "\<exists>new. st_moves s' = st_moves s @ new" using ins by (auto simp: stock_tables_def)
    assume ok: "ledger_ok s"
    have items: "st_items s' = st_items s @ [item_row E (new_item i req)]" and new: "i \<notin> inv_InventoryItemID ` set (st_items s)"
      using ins by (simp_all add: stock_tables_def)
    have moves: "st_moves s' = st_moves s \<or> st_moves s' = st_moves s @ [move_row E (opening_move now i m req)]"
      using ins by (auto simp: stock_tables_def)
    have old: "last_move (inv_InventoryItemID r) (st_moves s') = last_move (inv_InventoryItemID r) (st_moves s)"
      if "r \<in> set (st_items s)" for r
      using moves that new by (auto simp: move_row_def opening_move_def)
    have bal: "last_move i (st_moves s') = Some mv \<Longrightarrow> mv_BalanceAfter mv = se_numeric E 3 (cii_CurrentQuantity req)" for mv
      using moves assms(2) last_move_None [of i "st_moves s"] by (auto simp: move_row_def opening_move_def simp del: last_move_None)
    show "ledger_ok s'"
      unfolding ledger_ok_def
    proof (intro conjI ballI allI impI)
      show "distinct (map inv_InventoryItemID (st_items s'))"
        using ok new by (simp add: items ledger_ok_def item_row_def new_item_def)
      fix r mv
      assume "r \<in> set (st_items s')" and mv: "last_move (inv_InventoryItemID r) (st_moves s') = Some mv"
      then consider "r \<in> set (st_items s)" | "r = item_row E (new_item i req)" by (auto simp: items)
      then show "mv_BalanceAfter mv = inv_CurrentQuantity r"
      proof cases
        case 1
        with ok mv old show ?thesis by (auto simp: ledger_ok_def)
      next
        case 2
        with bal mv show ?thesis by (simp add: item_row_def new_item_def)
      qed
    qed
  next
    assume "stock_nonneg s"
    with ins assms(3,4) show "stock_nonneg s'"
      by (auto simp: stock_nonneg_def stock_tables_def item_row_def new_item_def sign_kept_def)
  qed
qed

section \<open>Every call keeps the ledger\<close>

lemma quiet_tail:
  assumes "m s = (s1, Inr a)" and "stock_step s s1" and "steps same_stock k"
  shows "stock_step s (fst (thenE m k s))"
  using assms transpD [OF stock_step_trans assms(2)] quiet_stock_step [OF assms(3)]
  by (simp add: thenE_def steps_def)

lemma write_quantity_step:
  assumes "mv_InventoryItemID move = inv_InventoryItemID item" and "mv_BalanceAfter move = q"
    and "not_neg q" and "sign_kept E" and "steps same_stock k"
  shows "stock_step s (fst (thenE (write_quantity E item q move) k s))"
proof -
  obtain s1 r where w: "write_quantity E item q move s = (s1, r)" by (cases "write_quantity E item q move s")
  show ?thesis
  proof (cases r)
    case (Inl err)
    with w write_quantity_Inl [of E item q move s s1 err] show ?thesis by (simp add: thenE_def stock_step_same)
  next
    case (Inr u)
    from write_quantity_Inr [OF w [unfolded Inr]] have "stock_step s s1"
      by (rule ledger_write) (use assms in simp_all)
    with quiet_tail [of "write_quantity E item q move" s s1 u k] w Inr assms(5) show ?thesis by simp
  qed
qed

lemma load_step:
  assumes "\<And>item s. inv_InventoryItemID item = i \<Longrightarrow> stock_step s (fst (f item s))"
  shows "stock_step s (fst (bindE (getItemForWrite t i) f s))"
proof -
  obtain s1 r where g: "getItemForWrite t i s = (s1, r)" by (cases "getItemForWrite t i s")
  show ?thesis
  proof (cases r)
    case (Inl err)
    with g getItemForWrite_Inl [of t i s s1 err] show ?thesis by (simp add: stock_step_same)
  next
    case (Inr item)
    note l = getItemForWrite_Inr [OF g [unfolded Inr]]
    then have "stock_step s s1" "stock_step s1 (fst (f item s1))" using assms by (simp_all add: stock_step_same)
    with g Inr transpD [OF stock_step_trans] show ?thesis by auto
  qed
qed

lemma adjust_step:
  assumes "sign_kept E"
  shows "steps stock_step (adjust_stock E now m n req)"
proof -
  have "stock_step s (fst (adjust_item E now m n req item s))"
    if "inv_InventoryItemID item = adj_InventoryItemID req" for item and s :: "'a stock_db_scheme"
    using assms that unfolding adjust_item_def Let_def
    by (auto simp: stock_step_same not_neg_iff adjustment_def
        intro!: write_quantity_step steps_rules same_stock_rules)
  then show ?thesis
    unfolding adjust_stock_def
    by (intro steps_if steps_throw stock_step_refl) (simp add: steps_def load_step)
qed

lemma deducted_not_neg: "not_neg (deducted_quantity q d)"
  by (auto simp: deducted_quantity_def Let_def not_neg_iff)

lemma deduct_one_step:
  assumes "sign_kept E"
  shows "steps stock_step (deduct_one E now m n req i d)"
proof -
  have "stock_step s (fst (bindE (getItemForWrite (ded_TenantID req) i) (\<lambda>item.
         let newQty = deducted_quantity (inv_CurrentQuantity item) d
         in thenE (write_quantity E item newQty (consumption E now m req i d newQty))
           (thenE (invalidateItemCache E (ded_TenantID req) i)
             (evaluateStockTransition E now n (ded_TenantID req) (item\<lparr>inv_CurrentQuantity := newQty\<rparr>)))) s))"
    for s :: "'a stock_db_scheme"
    by (rule load_step, unfold Let_def, rule write_quantity_step)
      (simp_all add: consumption_def deducted_not_neg assms steps_rules same_stock_rules)
  then show ?thesis unfolding deduct_one_def by (intro steps_ignore) (simp add: steps_def)
qed

lemma deduct_loop_step: "sign_kept E \<Longrightarrow> steps stock_step (deduct_loop E now ids req k ds)"
proof (induction ds arbitrary: k)
  case Nil
  show ?case unfolding deduct_loop.simps by (intro steps_rules stock_step_rules)
next
  case (Cons d ds)
  obtain i q where "d = (i, q)" by (cases d)
  with Cons show ?case by (auto intro!: steps_thenE stock_step_trans deduct_one_step)
qed

lemma DeductForOrder_step: "sign_kept E \<Longrightarrow> steps stock_step (DeductForOrder E now ids sched req)"
  unfolding DeductForOrder_def
  by (intro steps_rules stock_step_rules deduct_loop_step quiet_stock_step same_stock_rules)

lemma create_step:
  assumes "sign_kept E" and "i \<notin> mv_InventoryItemID ` set (st_moves s)" and "not_neg (cii_CurrentQuantity req)"
  shows "stock_step s (fst (create_item E now i m n req s))"
proof -
  obtain s1 r where w: "insert_item E now i m req s = (s1, r)" by (cases "insert_item E now i m req s")
  from ledger_insert [OF w assms(2,3,1)] have s1: "stock_step s s1" .
  show ?thesis
  proof (cases r)
    case (Inl err)
    with w s1 show ?thesis by (simp add: create_item_def thenE_def)
  next
    case (Inr u)
    show ?thesis
      unfolding create_item_def
      using w s1 Inr by (intro quiet_tail [where ?s1.0 = s1 and a = u] steps_rules same_stock_rules) simp_all
  qed
qed

lemma patched_item_sel [simp]:
  "inv_InventoryItemID (patched_item f req item) = inv_InventoryItemID item"
  "inv_CurrentQuantity (patched_item f req item) = inv_CurrentQuantity item"
  "inv_TenantID (patched_item f req item) = inv_TenantID item"
  by (simp_all add: patched_item_def patch_with_def split: option.splits)

lemma stock_step_patch:
  assumes "\<And>i. inv_InventoryItemID (f i) = inv_InventoryItemID i" and "\<And>i. inv_CurrentQuantity (f i) = inv_CurrentQuantity i"
  shows "stock_step s (s\<lparr>st_items := update_rows P f (st_items s)\<rparr>)"
proof -
  define g where "g q = (if P q then f q else q)" for q
  have "update_rows P f (st_items s) = map g (st_items s)" by (simp add: update_rows_def g_def)
  moreover have "inv_InventoryItemID (g q) = inv_InventoryItemID q" "inv_CurrentQuantity (g q) = inv_CurrentQuantity q" for q
    using assms by (simp_all add: g_def)
  ultimately show ?thesis by (simp add: stock_step_def ledger_ok_def stock_nonneg_def comp_def)
qed

lemma stock_step_delete: "stock_step s (s\<lparr>st_items := filter P (st_items s)\<rparr>)"
  by (auto simp: stock_step_def ledger_ok_def stock_nonneg_def distinct_map_filter)

lemma update_item_step: "steps stock_step (update_item E now req)"
  unfolding update_item_def getItemForWrite_def
  by (intro steps_rules stock_step_rules stock_step_patch quiet_stock_step same_stock_rules) simp_all

lemma delete_item_step: "steps stock_step (delete_item E now req i)"
  unfolding delete_item_def getItemForWrite_def
  by (intro steps_rules stock_step_rules stock_step_delete quiet_stock_step same_stock_rules)

lemma get_item_same: "steps same_stock (get_item E now req i)"
  unfolding get_item_def getItemForWrite_def
  by (intro steps_rules same_stock_rules) (simp_all add: same_stock_def stock_tables_def)

text \<open>
  Any sequence of calls.  A new item's identifier is fresh, as \<open>uuid.New\<close> promises, and its opening
  quantity is not negative, which the service leaves to its callers.
\<close>

inductive stock_call ::
    "(AccessRequest \<Rightarrow> 'r \<Rightarrow> 'r \<times> rbac_error option) \<Rightarrow> stock_env \<Rightarrow> 'r \<times> 'z stock_db_scheme
       \<Rightarrow> 'r \<times> 'z stock_db_scheme \<Rightarrow> bool"
  for require E where
  stock_create: "CreateItem require E now i m n c st = (st', res) \<Longrightarrow> i \<notin> mv_InventoryItemID ` set (st_moves (snd st))
    \<Longrightarrow> not_neg (cii_CurrentQuantity c) \<Longrightarrow> stock_call require E st st'"
| stock_get: "GetItem require E now req i st = (st', res) \<Longrightarrow> stock_call require E st st'"
| stock_update: "UpdateItem require E now u st = (st', res) \<Longrightarrow> stock_call require E st st'"
| stock_delete: "DeleteItem require E now req i st = (st', res') \<Longrightarrow> stock_call require E st st'"
| stock_adjust: "AdjustStock require E now m n a st = (st', moved) \<Longrightarrow> stock_call require E st st'"
| stock_deduct: "DeductForOrder E now ids sched d (snd st) = (s', res') \<Longrightarrow> stock_call require E st (fst st, s')"

inductive_cases stock_callE: "stock_call require E st st'"

lemma guarded_stock_step:
  assumes "steps stock_step operation" and "guarded require rq wrap operation (r, s) = (st', res)"
  shows "stock_step s (snd st')"
  using guarded_steps [OF assms(1) stock_step_refl, of s require rq wrap r] assms(2) by simp

lemma stock_call_step:
  assumes "stock_call require E st st'" and "sign_kept E"
  shows "stock_step (snd st) (snd st')"
  using assms(1)
proof cases
  case (stock_create now i m n c res)
  obtain r s where st: "st = (r, s)" by (cases st)
  obtain r' e where q: "require (inv_request ResourceInventory ActionCreate c) r = (r', e)"
    by (cases "require (inv_request ResourceInventory ActionCreate c) r")
  show ?thesis
  proof (cases e)
    case None
    obtain s' x where "create_item E now i m n c s = (s', x)" by (cases "create_item E now i m n c s")
    with create_step [OF assms(2), of i s c now m n] stock_create st q None show ?thesis
      by (auto simp: CreateItem_def guarded_def)
  next
    case (Some err)
    with stock_create st q show ?thesis by (auto simp: CreateItem_def guarded_def stock_step_same)
  qed
next
  case (stock_get now req i res)
  then show ?thesis unfolding GetItem_def
    by (cases st) (auto dest: guarded_stock_step [OF quiet_stock_step [OF get_item_same]])
next
  case (stock_update now u res)
  then show ?thesis unfolding UpdateItem_def by (cases st) (auto dest: guarded_stock_step [OF update_item_step])
next
  case (stock_delete now req i res')
  then show ?thesis unfolding DeleteItem_def by (cases st) (auto dest: guarded_stock_step [OF delete_item_step])
next
  case (stock_adjust now m n a moved)
  then show ?thesis unfolding AdjustStock_def
    by (cases st) (auto dest: guarded_stock_step [OF adjust_step [OF assms(2)]])
next
  case (stock_deduct now ids sched d s' res')
  then show ?thesis using stepsD [OF DeductForOrder_step [OF assms(2)]] by auto
qed

text \<open>
  C20: Whatever sequence of calls the stock service serves, the movements are only appended to, item
  identifiers stay distinct, every item's quantity is the balance of its last movement, and no
  quantity becomes negative.
\<close>

theorem stock_ledger_invariant:
  assumes "(stock_call require E)\<^sup>*\<^sup>* (r, s) (r', s')" and "sign_kept E" and "ledger_ok s" and "stock_nonneg s"
  shows "ledger_ok s' \<and> stock_nonneg s' \<and> (\<exists>new. st_moves s' = st_moves s @ new)"
proof -
  have "stock_step (snd (r, s)) (snd (r', s'))"
    using assms(1)
    by (induction rule: rtranclp_induct)
      (auto intro: reflpD [OF stock_step_refl] transpD [OF stock_step_trans] stock_call_step assms(2))
  with assms(3,4) show ?thesis by (simp add: stock_step_def)
qed

end
