(* ===== verification/Inventory_Outcomes.thy ===== *)
theory Inventory_Outcomes
  imports Inventory_Correct "HOL-Library.Multiset"
begin

text \<open>
  Three outcomes of the stock service: two adjustments that interleave, the alert after a
  mutation, and what deducting an order leaves.
\<close>

section \<open>Two adjustments of one item\<close>

text \<open>
  \<open>AdjustStock\<close> loads the row outside its transaction and without a lock.  This is the schedule in
  which both callers load before either writes.
\<close>

definition adjust_interleaved ::
    "stock_env \<Rightarrow> gotime \<Rightarrow> uuid \<times> uuid \<Rightarrow> AdjustStockInput \<Rightarrow> uuid \<times> uuid \<Rightarrow> AdjustStockInput
       \<Rightarrow> ('z stock_db_scheme, inv_error, StockMovement \<times> StockMovement) op" where
  "adjust_interleaved E now ids1 req1 ids2 req2 =
     bindE (getItemForWrite (ir_TenantID req1) (adj_InventoryItemID req1)) (\<lambda>item1.
     bindE (getItemForWrite (ir_TenantID req2) (adj_InventoryItemID req2)) (\<lambda>item2.
     bindE (adjust_item E now (fst ids1) (snd ids1) req1 item1) (\<lambda>move1.
     bindE (adjust_item E now (fst ids2) (snd ids2) req2 item2) (\<lambda>move2.
       ret (move1, move2)))))"

lemma set_quantity_twice [simp]: "set_quantity E i q2 (set_quantity E i q1 items) = set_quantity E i q2 items"
  by (simp add: set_quantity_def update_rows_def comp_def)

text \<open>
  When two adjustments of one item both load it before either writes and both succeed, the
  second overwrites the first: the quantity left is as if the first had not happened, while the
  ledger holds both movements.
\<close>

theorem interleaved_adjustment_lost:
  assumes "adjust_interleaved E now ids1 req1 ids2 req2 s = (s', Inr (move1, move2))"
    and "adj_InventoryItemID req2 = adj_InventoryItemID req1" and "ir_TenantID req2 = ir_TenantID req1"
    and "ledger_ok s"
  shows "\<exists>item \<in> set (st_items s). inv_InventoryItemID item = adj_InventoryItemID req1
    \<and> st_items s' = set_quantity E (adj_InventoryItemID req1)
        (f_add (inv_CurrentQuantity item) (adj_QuantityDelta req2)) (st_items s)
    \<and> st_moves s' = st_moves s @ [move_row E move1, move_row E move2]
    \<and> mv_QuantityDelta move1 = adj_QuantityDelta req1"
proof -
  obtain s1 item1 s2 item2 s3 where
    1: "getItemForWrite (ir_TenantID req1) (adj_InventoryItemID req1) s = (s1, Inr item1)"
    and 2: "getItemForWrite (ir_TenantID req1) (adj_InventoryItemID req1) s1 = (s2, Inr item2)"
    and 3: "adjust_item E now (fst ids1) (snd ids1) req1 item1 s2 = (s3, Inr move1)"
    and 4: "adjust_item E now (fst ids2) (snd ids2) req2 item2 s3 = (s', Inr move2)"
    using assms(1-3) unfolding adjust_interleaved_def by (auto simp: bindE_Inr_iff)
  from getItemForWrite_Inr [OF 1] getItemForWrite_Inr [OF 2] have
    tables: "stock_tables s2 = stock_tables s" and
    i1: "item1 \<in> set (st_items s)" "inv_InventoryItemID item1 = adj_InventoryItemID req1" and
    i2: "item2 \<in> set (st_items s)" "inv_InventoryItemID item2 = adj_InventoryItemID req1"
    by (auto simp: stock_tables_def)
  with assms(4) have "item2 = item1" by (auto simp: ledger_ok_def distinct_map inj_on_def)
  with adjust_item_outcome [OF 3] adjust_item_outcome [OF 4] tables i1 i2 show ?thesis
    by (intro bexI [of _ item1]) (auto simp: adjusted_def Let_def stock_tables_def adjustment_def)
qed

section \<open>Alerts\<close>

definition alert_due :: "stock_env \<Rightarrow> gotime \<Rightarrow> InventoryItem \<Rightarrow> 'z stock_db_scheme \<Rightarrow> bool" where
  "alert_due E now item s \<longleftrightarrow>
     (\<exists>rp. inv_ReorderPoint item = Some rp \<and> f_le (inv_CurrentQuantity item) rp)
     \<and> live_entry now (alertKey E item) (rd_alerts s) = None"

definition alert_for :: "gotime \<Rightarrow> uuid \<Rightarrow> uuid \<Rightarrow> InventoryItem \<Rightarrow> Notification" where
  "alert_for now notificationID tenantID item =
     \<lparr>ntf_NotificationID = notificationID, ntf_TenantID = tenantID, ntf_UserID = None,
      ntf_Message = alert_message item (the (inv_ReorderPoint item)),
      ntf_NotificationType = NotificationTypeAlert, ntf_IsRead = False, ntf_CreatedAt = now\<rparr>"

lemma checkLowStock_alert:
  assumes "faults s = []" and "rd_faults s = []" and "inv_CurrentQuantity item \<noteq> NaN" and "inv_ReorderPoint item \<noteq> Some NaN"
  shows "st_notifications (fst (checkLowStock E now n t item s))
    = st_notifications s @ (if alert_due E now item s then [alert_for now n t item] else [])"
proof (cases "inv_ReorderPoint item")
  case None
  then show ?thesis by (simp add: checkLowStock_def alert_due_def)
next
  case (Some rp)
  show ?thesis
  proof (cases "f_gt (inv_CurrentQuantity item) rp")
    case True
    with Some assms f_le_not_gt [of "inv_CurrentQuantity item" rp] show ?thesis
      by (simp add: checkLowStock_def alert_due_def)
  next
    case False
    with Some assms f_le_not_gt [of "inv_CurrentQuantity item" rp] show ?thesis
      by (cases "live_entry now (alertKey E item) (rd_alerts s)")
        (auto simp: checkLowStock_def alert_due_def alert_for_def thenE_def db_write_def)
  qed
qed

lemma active_sources:
  "stock_sources_loop E now n t item event InventoryStateActive adapter sources s = (s, Inr ())"
  by (induction sources arbitrary: adapter)
    (auto simp: stock_sources_loop.simps inventory_fsm.fire_char inventory_distinct [simplified]
      split: prod.splits outcome.splits option.splits)

lemma low_source:
  assumes "inv_ReorderPoint item = Some rp" and "\<not> f_gt (inv_CurrentQuantity item) rp"
    and "\<not> f_le (inv_CurrentQuantity item) f_zero"
  shows "stock_sources_loop E now n t item InventoryEventStockLow InventoryStateLowStock
      \<lparr>ada_item = item, ada_stockStatus = InventoryStateLowStock\<rparr> (InventoryStateActive # sources)
    = checkLowStock E now n t item"
proof -
  let ?env = "NewEnvelope (se_envelope_id E) now InventoryEventStockLow None"
  have ev: "env_Event ?env = InventoryEventStockLow" by (simp add: NewEnvelope_def)
  have "enabled (InventoryItemFSM (inventory_methods (se_uuid_String E)))
      \<lparr>ada_item = item, ada_stockStatus = InventoryStateLowStock\<rparr> InventoryStateActive ?env"
    unfolding active_low_enabled [OF ev] using assms by (simp add: active_low_guard_def inventory_methods_def)
  from inventory_fsm.fire_set [OF this] show ?thesis
    by (simp add: stock_sources_loop.simps inventory_distinct [simplified])
qed

lemma out_source:
  assumes "\<not> f_gt (inv_CurrentQuantity item) f_zero"
  shows "stock_sources_loop E now n t item InventoryEventStockDepleted InventoryStateOutOfStock
      \<lparr>ada_item = item, ada_stockStatus = InventoryStateOutOfStock\<rparr> (InventoryStateActive # sources)
    = checkLowStock E now n t item"
proof -
  let ?env = "NewEnvelope (se_envelope_id E) now InventoryEventStockDepleted None"
  have ev: "env_Event ?env = InventoryEventStockDepleted" by (simp add: NewEnvelope_def)
  have "enabled (InventoryItemFSM (inventory_methods (se_uuid_String E)))
      \<lparr>ada_item = item, ada_stockStatus = InventoryStateOutOfStock\<rparr> InventoryStateActive ?env"
    unfolding active_depleted_enabled [OF ev] using assms by (simp add: active_depleted_guard_def inventory_methods_def)
  from inventory_fsm.fire_set [OF this] show ?thesis
    by (simp add: stock_sources_loop.simps inventory_distinct [simplified])
qed

text \<open>
  With the database and Redis answering and comparable numbers, a mutation that leaves an item
  writes an alert exactly when the quantity is at or below the reorder point and none was sent for
  the item within the hour: whatever the state before, and never for an item without a reorder
  point, not even when it has run out.
\<close>

theorem alert_exactly_when_due:
  assumes "faults s = []" and "rd_faults s = []" and "inv_CurrentQuantity item \<noteq> NaN" and "inv_ReorderPoint item \<noteq> Some NaN"
  shows "st_notifications (fst (evaluateStockTransition E now n t item s))
    = st_notifications s @ (if alert_due E now item s then [alert_for now n t item] else [])"
proof -
  let ?q = "inv_CurrentQuantity item" and ?rp = "inv_ReorderPoint item"
  consider "DeriveInventoryState ?q ?rp = InventoryStateOutOfStock" "f_le ?q f_zero"
    | rp where "DeriveInventoryState ?q ?rp = InventoryStateLowStock" "\<not> f_le ?q f_zero" "?rp = Some rp" "f_le ?q rp"
    | "DeriveInventoryState ?q ?rp = InventoryStateActive" "\<nexists>rp. ?rp = Some rp \<and> f_le ?q rp"
    unfolding DeriveInventoryState_def
    by (cases ?rp; cases "f_le ?q f_zero"; cases "f_le ?q (the ?rp)") simp_all
  then show ?thesis
  proof cases
    case 1
    then have "\<not> f_gt ?q f_zero" using assms(3) f_le_not_gt [of ?q f_zero] by simp
    with 1 show ?thesis by (simp add: evaluateStockTransition_def out_source checkLowStock_alert assms)
  next
    case 2
    then have "\<not> f_gt ?q rp" and "rp \<noteq> NaN" using assms(3,4) f_le_not_gt [of ?q rp] by auto
    with 2 show ?thesis
      by (simp add: evaluateStockTransition_def low_source checkLowStock_alert assms inventory_distinct [simplified])
  next
    case 3
    then have "\<not> alert_due E now item s" by (simp add: alert_due_def)
    with 3 show ?thesis
      by (simp add: evaluateStockTransition_def active_sources inventory_distinct [simplified])
  qed
qed

section \<open>Deducting an order\<close>

definition calm :: "'z stock_db_scheme \<Rightarrow> 'z stock_db_scheme \<Rightarrow> bool" where
  "calm s s' \<longleftrightarrow> (faults s = [] \<longrightarrow> faults s' = [])"

lemma calm_rules: "reflp calm" "transp calm" "redis_blind calm"
  by (auto simp: calm_def redis_blind_def intro: reflpI transpI)

lemma calm_db_write: "(\<And>s. faults (f s) = faults s) \<Longrightarrow> steps calm (db_write w f)"
  by (simp add: steps_def calm_def db_write_def)

lemma calm_evaluate: "steps calm (evaluateStockTransition E now n t item)"
proof -
  have check: "steps calm (checkLowStock E now n t item)" for item and E now n t
    unfolding checkLowStock_def
    by (intro steps_rules calm_rules calm_db_write) (simp_all add: calm_def)
  have "steps calm (stock_sources_loop E now n t item event current adapter sources)"
    for event current adapter sources
    by (induction sources arbitrary: adapter)
      (auto simp: stock_sources_loop.simps check intro!: steps_ret steps_throw calm_rules simp del: op_simps
        split: prod.splits outcome.splits option.splits)
  then show ?thesis unfolding evaluateStockTransition_def Let_def by (intro steps_rules calm_rules)
qed

lemma calm_invalidate: "steps calm (invalidateItemCache E t i)" "steps calm (invalidateStatsCache E t r)"
  unfolding invalidateItemCache_def invalidateStatsCache_def
  by (intro steps_rules calm_rules; simp add: calm_def)+

lemma write_quantity_ok:
  assumes "faults s = []" and "mv_StockMovementID move \<notin> mv_StockMovementID ` set (st_moves s)"
  shows "\<exists>s1. write_quantity E item q move s = (s1, Inr ()) \<and> faults s1 = []"
  using assms
  by (simp add: write_quantity_def transaction_def thenE_def bindE_def db_write_def insert_move_def db_insert_def)

definition deducted_row :: "stock_env \<Rightarrow> f64 \<Rightarrow> InventoryItem \<Rightarrow> InventoryItem" where
  "deducted_row E d r = r\<lparr>inv_CurrentQuantity := se_numeric E 3 (deducted_quantity (inv_CurrentQuantity r) d)\<rparr>"

definition deducted_by ::
    "stock_env \<Rightarrow> uuid \<Rightarrow> (uuid \<Rightarrow> f64 option) \<Rightarrow> InventoryItem \<Rightarrow> InventoryItem" where
  "deducted_by E t ds r =
     (if inv_TenantID r \<noteq> t then r
      else case ds (inv_InventoryItemID r) of None \<Rightarrow> r | Some d \<Rightarrow> deducted_row E d r)"

lemma deducted_by_sel [simp]:
  "inv_InventoryItemID (deducted_by E t ds r) = inv_InventoryItemID r"
  "inv_TenantID (deducted_by E t ds r) = inv_TenantID r"
  by (simp_all add: deducted_by_def deducted_row_def split: option.splits)

lemma getItemForWrite_ok:
  "faults s = [] \<Longrightarrow> getItemForWrite t i s
    = (s, case first_row inv_InventoryItemID (\<lambda>r. inv_InventoryItemID r = i \<and> inv_TenantID r = t) (st_items s) of
            None \<Rightarrow> Inl ErrInventoryItemNotFound | Some item \<Rightarrow> Inr item)"
  by (cases "first_row inv_InventoryItemID (\<lambda>r. inv_InventoryItemID r = i \<and> inv_TenantID r = t) (st_items s)")
    (simp_all add: getItemForWrite_def db_First_def db_find_def bindE_def del: first_row_None)

lemma calm_run: "steps calm m \<Longrightarrow> faults s = [] \<Longrightarrow> faults (fst (m s)) = []"
  by (simp add: steps_def calm_def)

lemma deducted_by_empty [simp]: "map (deducted_by E t Map.empty) items = items"
  by (rule map_idI) (simp add: deducted_by_def)

lemma deduct_one_ok:
  assumes "faults s = []" and "distinct (map inv_InventoryItemID (st_items s))"
    and "m \<notin> mv_StockMovementID ` set (st_moves s)"
  shows "\<exists>s'. deduct_one E now m n req i d s = (s', Inr ()) \<and> faults s' = []
    \<and> st_items s' = map (deducted_by E (ded_TenantID req) [i \<mapsto> d]) (st_items s)
    \<and> mv_StockMovementID ` set (st_moves s') \<subseteq> insert m (mv_StockMovementID ` set (st_moves s))"
proof -
  let ?t = "ded_TenantID req"
  let ?P = "\<lambda>r. inv_InventoryItemID r = i \<and> inv_TenantID r = ?t"
  show ?thesis
  proof (cases "first_row inv_InventoryItemID ?P (st_items s)")
    case None
    then have "deducted_by E ?t [i \<mapsto> d] r = r" if "r \<in> set (st_items s)" for r
      using that by (auto simp: deducted_by_def)
    then have "map (deducted_by E ?t [i \<mapsto> d]) (st_items s) = st_items s" by (simp add: map_idI)
    moreover have "deduct_one E now m n req i d s = (s, Inr ())"
      using None assms(1) by (simp add: deduct_one_def getItemForWrite_ok del: first_row_None)
    ultimately show ?thesis using assms(1) by (intro exI [of _ s]) auto
  next
    case (Some item)
    from first_row_Some [OF this] have item: "item \<in> set (st_items s)" "inv_InventoryItemID item = i" "inv_TenantID item = ?t"
      by simp_all
    let ?q = "deducted_quantity (inv_CurrentQuantity item) d"
    let ?move = "consumption E now m req i d ?q"
    let ?k = "thenE (invalidateItemCache E ?t i) (evaluateStockTransition E now n ?t (item\<lparr>inv_CurrentQuantity := ?q\<rparr>))"
    obtain s1 where w: "write_quantity E item ?q ?move s = (s1, Inr ())" "faults s1 = []"
      using write_quantity_ok [of s ?move E item ?q] assms(1,3) by (auto simp: consumption_def)
    have tables: "stock_tables (fst (?k s1)) = stock_tables s1"
      by (intro same_stock_run steps_rules same_stock_rules)
    have "faults (fst (?k s1)) = []"
      by (intro calm_run w(2) steps_thenE calm_rules calm_invalidate calm_evaluate)
    moreover have "deduct_one E now m n req i d s = (fst (?k s1), Inr ())"
      using assms(1) Some w(1)
      by (simp add: deduct_one_def getItemForWrite_ok thenE_def [of "write_quantity _ _ _ _"] Let_def)
    moreover have "set_quantity E i ?q (st_items s) = map (deducted_by E ?t [i \<mapsto> d]) (st_items s)"
      unfolding set_quantity_def update_rows_def
    proof (rule map_cong [OF refl])
      fix r assume "r \<in> set (st_items s)"
      then have "r = item" if "inv_InventoryItemID r = i"
        using that item assms(2) by (auto simp: distinct_map inj_on_def)
      with item show "(if inv_InventoryItemID r = i then r\<lparr>inv_CurrentQuantity := se_numeric E 3 ?q\<rparr> else r)
          = deducted_by E ?t [i \<mapsto> d] r"
        by (auto simp: deducted_by_def deducted_row_def)
    qed
    moreover note write_quantity_Inr [OF w(1)]
    ultimately show ?thesis
      using tables item by (auto simp: stock_tables_def move_row_def consumption_def)
  qed
qed

lemma deducted_by_Cons:
  assumes "ds i = None"
  shows "deducted_by E t ds (deducted_by E t [i \<mapsto> d] r) = deducted_by E t (ds(i \<mapsto> d)) r"
  using assms by (auto simp: deducted_by_def deducted_row_def split: option.splits)

lemma deduct_loop_ok:
  assumes "faults s = []" and "distinct (map inv_InventoryItemID (st_items s))"
    and "distinct (map fst ds)" and "\<And>j. j \<in> {k..<k + length ds} \<Longrightarrow> fst (ids j) \<notin> mv_StockMovementID ` set (st_moves s)"
    and "inj_on (\<lambda>j. fst (ids j)) {k..<k + length ds}"
  shows "\<exists>s'. deduct_loop E now ids req k ds s = (s', Inr ()) \<and> faults s' = []
    \<and> st_items s' = map (deducted_by E (ded_TenantID req) (map_of ds)) (st_items s)"
  using assms
proof (induction ds arbitrary: s k)
  case Nil
  then show ?case by (simp add: deducted_by_def map_idI)
next
  case (Cons a ds)
  obtain i d where a: "a = (i, d)" by (cases a)
  from deduct_one_ok [OF Cons.prems(1,2) Cons.prems(4) [of k], of E now "snd (ids k)" req i d]
  obtain s1 where s1: "deduct_one E now (fst (ids k)) (snd (ids k)) req i d s = (s1, Inr ())" "faults s1 = []"
    "st_items s1 = map (deducted_by E (ded_TenantID req) [i \<mapsto> d]) (st_items s)"
    "mv_StockMovementID ` set (st_moves s1) \<subseteq> insert (fst (ids k)) (mv_StockMovementID ` set (st_moves s))"
    by auto
  have "fst (ids j) \<notin> mv_StockMovementID ` set (st_moves s1)" if "j \<in> {Suc k..<Suc k + length ds}" for j
  proof
    assume "fst (ids j) \<in> mv_StockMovementID ` set (st_moves s1)"
    with s1(4) have "fst (ids j) = fst (ids k) \<or> fst (ids j) \<in> mv_StockMovementID ` set (st_moves s)" by blast
    with that Cons.prems(4) [of j] inj_onD [OF Cons.prems(5), of j k] show False by auto
  qed
  moreover have "inj_on (\<lambda>j. fst (ids j)) {Suc k..<Suc k + length ds}"
    using Cons.prems(5) by (rule inj_on_subset) auto
  ultimately have "\<And>j. j \<in> {Suc k..<Suc k + length ds} \<Longrightarrow> fst (ids j) \<notin> mv_StockMovementID ` set (st_moves s1)"
    and "inj_on (\<lambda>j. fst (ids j)) {Suc k..<Suc k + length ds}" by blast+
  with Cons.IH [of s1 "Suc k"] Cons.prems s1 obtain s' where
    "deduct_loop E now ids req (Suc k) ds s1 = (s', Inr ())" "faults s' = []"
    "st_items s' = map (deducted_by E (ded_TenantID req) (map_of ds)) (st_items s1)"
    by (auto simp: comp_def)
  moreover have "deduct_loop E now ids req k (a # ds) s = deduct_loop E now ids req (Suc k) ds s1"
    using s1(1) by (simp add: a thenE_def)
  moreover have none: "map_of ds i = None" and m: "map_of (a # ds) = (map_of ds)(i \<mapsto> d)"
    using Cons.prems(3) by (simp_all add: a map_of_eq_None_iff)
  moreover have "map (deducted_by E (ded_TenantID req) (map_of ds)) (st_items s1)
      = map (deducted_by E (ded_TenantID req) (map_of (a # ds))) (st_items s)"
    unfolding s1(3) m map_map by (rule map_cong [OF refl]) (simp only: comp_apply deducted_by_Cons [where ds = "map_of ds" and i = i, OF none])
  ultimately show ?case by (simp only: ex_simps) blast
qed

lemma deductions_loop_distinct:
  "distinct (map fst ds) \<Longrightarrow> distinct (map fst (deductions_loop items ds links))"
  by (induction items ds links rule: deductions_loop.induct)
    (auto simp: Let_def distinct_keys_update split: option.splits)

definition order_deductions :: "DeductForOrderInput \<Rightarrow> MenuItemInventoryLink list \<Rightarrow> (uuid \<times> f64) list" where
  "order_deductions req links = deductions_loop (ded_Items req) []
     (filter (\<lambda>l. lk_MenuItemID l \<in> fst ` set (ded_Items req) \<and> lk_TenantID l = ded_TenantID req
                  \<and> lk_IsActive l) links)"

text \<open>
  What an order takes from a stock item: every active link of the tenant from an ordered menu item to
  it takes the ordered count times the quantity per unit, and these are added up in the order the
  links are loaded.  What is left is the difference, or zero when that is negative.
\<close>

definition taken :: "DeductForOrderInput \<Rightarrow> MenuItemInventoryLink list \<Rightarrow> uuid \<Rightarrow> f64 list" where
  "taken req links i = concat (map (\<lambda>l. case map_of (ded_Items req) (lk_MenuItemID l) of
       Some n \<Rightarrow> if lk_InventoryItemID l = i \<and> lk_TenantID l = ded_TenantID req \<and> lk_IsActive l
                    then [f_mul (f_of_int n) (lk_QuantityPerUnit l)] else []
     | None \<Rightarrow> []) links)"

definition left_after :: "f64 list \<Rightarrow> f64 \<Rightarrow> f64" where
  "left_after amounts stock =
     (let rest = f_sub stock (foldl f_add (hd amounts) (tl amounts)) in if f_lt rest f_zero then f_zero else rest)"

definition depleted :: "stock_env \<Rightarrow> DeductForOrderInput \<Rightarrow> MenuItemInventoryLink list \<Rightarrow> InventoryItem \<Rightarrow> InventoryItem" where
  "depleted E req links r =
     (if inv_TenantID r = ded_TenantID req \<and> taken req links (inv_InventoryItemID r) \<noteq> []
      then r\<lparr>inv_CurrentQuantity := se_numeric E 3 (left_after (taken req links (inv_InventoryItemID r)) (inv_CurrentQuantity r))\<rparr>
      else r)"

lemma deductions_loop_sums:
  "map_of (deductions_loop items acc links) i =
     (let amounts = map (\<lambda>l. f_mul (f_of_int (ordered_quantity items (lk_MenuItemID l))) (lk_QuantityPerUnit l))
                      (filter (\<lambda>l. lk_InventoryItemID l = i) links)
      in case map_of acc i of
           Some d \<Rightarrow> Some (foldl f_add d amounts)
         | None \<Rightarrow> if amounts = [] then None else Some (foldl f_add (hd amounts) (tl amounts)))"
  by (induction items acc links rule: deductions_loop.induct)
    (auto simp: Let_def update_conv' split: option.splits)

lemma taken_filter:
  "taken req links i = map (\<lambda>l. f_mul (f_of_int (ordered_quantity (ded_Items req) (lk_MenuItemID l))) (lk_QuantityPerUnit l))
     (filter (\<lambda>l. lk_InventoryItemID l = i) (filter (\<lambda>l. lk_MenuItemID l \<in> fst ` set (ded_Items req)
        \<and> lk_TenantID l = ded_TenantID req \<and> lk_IsActive l) links))"
  by (induction links)
    (auto simp: taken_def ordered_quantity_def map_of_eq_None_iff split: option.splits, force dest: map_of_SomeD)

lemma depleted_deducted:
  "depleted E req links = deducted_by E (ded_TenantID req) (map_of (order_deductions req links))"
  by (rule ext) (simp add: deducted_by_def depleted_def order_deductions_def deductions_loop_sums taken_filter Let_def
      deducted_row_def deducted_quantity_def left_after_def)

text \<open>
  C24: With the database answering and fresh movement identifiers, deducting an order returns no error
  and lowers every linked item of the tenant exactly once by the sum of what its links take, not
  below zero, leaves every other item alone, and does so whatever order Go ranges over its map in.
\<close>

theorem DeductForOrder_effect:
  assumes "faults s = []" and "ledger_ok s"
    and "mset (sched (order_deductions req (st_links s))) = mset (order_deductions req (st_links s))"
    and "inj_on (\<lambda>j. fst (ids j)) {..<length (order_deductions req (st_links s))}"
    and "\<And>j. j < length (order_deductions req (st_links s)) \<Longrightarrow> fst (ids j) \<notin> mv_StockMovementID ` set (st_moves s)"
  shows "\<exists>s'. DeductForOrder E now ids sched req s = (s', Inr ())
    \<and> st_items s' = map (depleted E req (st_links s)) (st_items s)"
proof -
  let ?ds = "order_deductions req (st_links s)"
  let ?links = "filter (\<lambda>l. lk_MenuItemID l \<in> fst ` set (ded_Items req) \<and> lk_TenantID l = ded_TenantID req
    \<and> lk_IsActive l) (st_links s)"
  have d: "distinct (map fst ?ds)" by (simp add: order_deductions_def deductions_loop_distinct)
  have d': "distinct (map fst (sched ?ds))" and same: "map_of (sched ?ds) = map_of ?ds"
  proof -
    have "mset (map fst (sched ?ds)) = mset (map fst ?ds)" using assms(3) by simp
    with d show d': "distinct (map fst (sched ?ds))" using mset_eq_imp_distinct_iff by blast
    show "map_of (sched ?ds) = map_of ?ds"
      using map_of_inject_set [OF d' d] mset_eq_setD [OF assms(3)] by simp
  qed
  show ?thesis
  proof (cases "?links = []")
    case True
    then have "?ds = []" by (simp add: order_deductions_def)
    with True assms(1) show ?thesis
      by (auto simp: DeductForOrder_def db_query_def bindE_def depleted_deducted)
  next
    case False
    then have items: "ded_Items req \<noteq> []" by auto
    have l: "length (sched ?ds) = length ?ds" using mset_eq_length [OF assms(3)] .
    have "fst (ids j) \<notin> mv_StockMovementID ` set (st_moves s)" if "j \<in> {0..<0 + length (sched ?ds)}" for j
      using assms(5) that by (simp add: l)
    moreover have "inj_on (\<lambda>j. fst (ids j)) {0..<0 + length (sched ?ds)}"
      using assms(4) by (simp add: l lessThan_atLeast0)
    ultimately obtain s1 where s1: "deduct_loop E now ids req 0 (sched ?ds) s = (s1, Inr ())"
        "st_items s1 = map (deducted_by E (ded_TenantID req) (map_of ?ds)) (st_items s)"
      using deduct_loop_ok [OF assms(1) _ d', of 0 ids E now req] assms(2) same
      by (auto simp: ledger_ok_def)
    let ?inv = "invalidateStatsCache E (ded_TenantID req) (ded_RestaurantID req) :: (_, inv_error, unit) op"
    obtain s' where s': "?inv s1 = (s', Inr ())" "stock_tables s' = stock_tables s1"
      using same_stock_run [OF invalidate_same(2), of E "ded_TenantID req" "ded_RestaurantID req" s1]
      by (simp add: invalidateStatsCache_def)
    with False items assms(1) s1 show ?thesis
      unfolding depleted_deducted
      by (auto simp: DeductForOrder_def db_query_def bindE_def thenE_def order_deductions_def stock_tables_def)
  qed
qed

end
