(* ===== verification/Stock_Records.thy ===== *)
theory Stock_Records
  imports Inventory_Service
begin

text \<open>
  The rest of \<open>services/inventory/inventory.go\<close>: vendors, the links from menu items to stock, and
  the dashboard numbers.
\<close>

section \<open>Vendors\<close>

definition new_vendor :: "uuid \<Rightarrow> CreateVendorInput \<Rightarrow> Vendor" where
  "new_vendor vendorID req = \<lparr>ven_VendorID = vendorID, ven_TenantID = ir_TenantID req,
     ven_Name = cvi_Name req, ven_ContactName = cvi_ContactName req, ven_Email = cvi_Email req,
     ven_Phone = cvi_Phone req, ven_Address = cvi_Address req, ven_PaymentTerms = cvi_PaymentTerms req,
     ven_IsActive = True\<rparr>"

definition CreateVendor ::
    "(AccessRequest \<Rightarrow> 'r \<Rightarrow> 'r \<times> rbac_error option) \<Rightarrow> stock_env \<Rightarrow> gotime \<Rightarrow> uuid \<Rightarrow> CreateVendorInput
       \<Rightarrow> 'r \<times> 'z stock_db_scheme \<Rightarrow> ('r \<times> 'z stock_db_scheme) \<times> (inv_error + Vendor)" where
  "CreateVendor require E now vendorID req =
     guarded require (inv_request ResourceVendor ActionCreate req) InvDenied
       (thenE (db_insert (InvWrapped ''create vendor'') (\<lambda>s. vendorID \<in> ven_VendorID ` set (st_vendors s))
                (\<lambda>s. s\<lparr>st_vendors := st_vendors s @ [new_vendor vendorID req]\<rparr>))
       (thenE (inv_writeAudit E now req AuditEventCreate ''Vendor'' vendorID)
         (ret (new_vendor vendorID req))))"

definition GetVendor ::
    "(AccessRequest \<Rightarrow> 'r \<Rightarrow> 'r \<times> rbac_error option) \<Rightarrow> InventoryServiceRequest \<Rightarrow> uuid
       \<Rightarrow> 'r \<times> 'z stock_db_scheme \<Rightarrow> ('r \<times> 'z stock_db_scheme) \<times> (inv_error + Vendor)" where
  "GetVendor require req vendorID =
     guarded require (inv_request ResourceVendor ActionRead req) InvDenied
       (getVendorForWrite (ir_TenantID req) vendorID)"

text \<open>\<open>collate\<close> sorts by name as the database collates strings.\<close>

definition ListVendors ::
    "(AccessRequest \<Rightarrow> 'r \<Rightarrow> 'r \<times> rbac_error option) \<Rightarrow> (Vendor list \<Rightarrow> Vendor list) \<Rightarrow> InventoryServiceRequest \<Rightarrow> bool
       \<Rightarrow> 'r \<times> 'z stock_db_scheme \<Rightarrow> ('r \<times> 'z stock_db_scheme) \<times> (inv_error + Vendor list)" where
  "ListVendors require collate req includeInactive =
     guarded require (inv_request ResourceVendor ActionRead req) InvDenied
       (db_query (InvWrapped ''list vendors'') (\<lambda>s. collate
          (filter (\<lambda>v. ven_TenantID v = ir_TenantID req \<and> (includeInactive \<or> ven_IsActive v)) (st_vendors s))))"

definition patched_vendor :: "UpdateVendorInput \<Rightarrow> Vendor \<Rightarrow> Vendor" where
  "patched_vendor req vendor =
     patch_with (uvi_IsActive req) (\<lambda>v r. r\<lparr>ven_IsActive := v\<rparr>)
    (patch_with (uvi_PaymentTerms req) (\<lambda>v r. r\<lparr>ven_PaymentTerms := v\<rparr>)
    (patch_with (uvi_Address req) (\<lambda>v r. r\<lparr>ven_Address := v\<rparr>)
    (patch_with (uvi_Phone req) (\<lambda>v r. r\<lparr>ven_Phone := v\<rparr>)
    (patch_with (uvi_Email req) (\<lambda>v r. r\<lparr>ven_Email := v\<rparr>)
    (patch_with (uvi_ContactName req) (\<lambda>v r. r\<lparr>ven_ContactName := v\<rparr>)
    (patch_with (uvi_Name req) (\<lambda>v r. r\<lparr>ven_Name := v\<rparr>) vendor))))))"

definition UpdateVendor ::
    "(AccessRequest \<Rightarrow> 'r \<Rightarrow> 'r \<times> rbac_error option) \<Rightarrow> stock_env \<Rightarrow> gotime \<Rightarrow> UpdateVendorInput
       \<Rightarrow> 'r \<times> 'z stock_db_scheme \<Rightarrow> ('r \<times> 'z stock_db_scheme) \<times> (inv_error + Vendor)" where
  "UpdateVendor require E now req =
     guarded require (inv_request ResourceVendor ActionUpdate req) InvDenied
       (bindE (getVendorForWrite (ir_TenantID req) (uvi_VendorID req)) (\<lambda>vendor.
          thenE (db_write (InvWrapped ''update vendor'') (\<lambda>s. s\<lparr>st_vendors :=
                   update_rows (\<lambda>v. ven_VendorID v = ven_VendorID vendor) (patched_vendor req) (st_vendors s)\<rparr>))
         (thenE (inv_writeAudit E now req AuditEventUpdate ''Vendor'' (ven_VendorID vendor))
           (ret (patched_vendor req vendor)))))"

section \<open>Links from menu items\<close>

text \<open>
  The unique index is on the menu item and the inventory item alone, the check before it is on
  active and inactive links of the tenant.
\<close>

definition CreateLink ::
    "(AccessRequest \<Rightarrow> 'r \<Rightarrow> 'r \<times> rbac_error option) \<Rightarrow> stock_env \<Rightarrow> uuid \<Rightarrow> CreateLinkInput
       \<Rightarrow> 'r \<times> 'z stock_db_scheme \<Rightarrow> ('r \<times> 'z stock_db_scheme) \<times> (inv_error + MenuItemInventoryLink)" where
  "CreateLink require E linkID req =
     (let link = \<lparr>lk_LinkID = linkID, lk_TenantID = ir_TenantID req, lk_MenuItemID = cli_MenuItemID req,
                  lk_InventoryItemID = cli_InventoryItemID req, lk_QuantityPerUnit = cli_QuantityPerUnit req,
                  lk_IsActive = True\<rparr>
      in guarded require (inv_request ResourceInventory ActionUpdate req) InvDenied
       (if f_le (cli_QuantityPerUnit req) f_zero then throw ErrInventoryQuantityInvalid
        else bindE (db_find (InvWrapped ''link lookup'') lk_LinkID st_links (\<lambda>l.
                 lk_MenuItemID l = cli_MenuItemID req \<and> lk_InventoryItemID l = cli_InventoryItemID req
                 \<and> lk_TenantID l = ir_TenantID req)) (\<lambda>existing.
          if existing \<noteq> None then throw ErrInventoryLinkExists
          else thenE (db_insert (InvWrapped ''create link'')
                   (\<lambda>s. \<exists>l \<in> set (st_links s). lk_LinkID l = linkID
                      \<or> lk_MenuItemID l = cli_MenuItemID req \<and> lk_InventoryItemID l = cli_InventoryItemID req)
                   (\<lambda>s. s\<lparr>st_links := st_links s @
                      [link\<lparr>lk_QuantityPerUnit := se_numeric E 4 (cli_QuantityPerUnit req)\<rparr>]\<rparr>))
                 (ret link))))"

definition DeleteLink ::
    "(AccessRequest \<Rightarrow> 'r \<Rightarrow> 'r \<times> rbac_error option) \<Rightarrow> InventoryServiceRequest \<Rightarrow> uuid
       \<Rightarrow> 'r \<times> 'z stock_db_scheme \<Rightarrow> ('r \<times> 'z stock_db_scheme) \<times> (inv_error + unit)" where
  "DeleteLink require req linkID =
     guarded require (inv_request ResourceInventory ActionUpdate req) InvDenied
       (bindE (db_call (InvWrapped ''deactivate link'')) (\<lambda>_ s.
          let affected = (\<lambda>l. lk_LinkID l = linkID \<and> lk_TenantID l = ir_TenantID req)
          in (s\<lparr>st_links := update_rows affected (\<lambda>l. l\<lparr>lk_IsActive := False\<rparr>) (st_links s)\<rparr>,
              if filter affected (st_links s) = [] then Inl ErrInventoryLinkNotFound else Inr ())))"

definition ListLinksByMenuItem ::
    "(AccessRequest \<Rightarrow> 'r \<Rightarrow> 'r \<times> rbac_error option) \<Rightarrow> InventoryServiceRequest \<Rightarrow> uuid
       \<Rightarrow> 'r \<times> 'z stock_db_scheme \<Rightarrow> ('r \<times> 'z stock_db_scheme) \<times> (inv_error + MenuItemInventoryLink list)" where
  "ListLinksByMenuItem require req menuItemID =
     guarded require (inv_request ResourceInventory ActionRead req) InvDenied
       (db_query (InvWrapped ''list links'') (\<lambda>s.
          filter (\<lambda>l. lk_MenuItemID l = menuItemID \<and> lk_TenantID l = ir_TenantID req \<and> lk_IsActive l) (st_links s)))"

section \<open>The dashboard\<close>

text \<open>
  The query's counts; \<open>value_of\<close> is the database's sum of quantity times unit cost, which is exact
  there and a \<open>float64\<close> when it is scanned.
\<close>

definition stats_query ::
    "(InventoryItem list \<Rightarrow> f64) \<Rightarrow> uuid \<Rightarrow> uuid \<Rightarrow> InventoryItem list \<Rightarrow> InventoryStats" where
  "stats_query value_of tenantID restaurantID rows =
     (let items = filter (\<lambda>i. inv_TenantID i = tenantID \<and> inv_RestaurantID i = restaurantID) rows;
          low = int (length (filter (\<lambda>i. case inv_ReorderPoint i of None \<Rightarrow> False
                 | Some rp \<Rightarrow> f_gt (inv_CurrentQuantity i) f_zero \<and> f_le (inv_CurrentQuantity i) rp) items));
          out = int (length (filter (\<lambda>i. f_eq (inv_CurrentQuantity i) f_zero) items))
      in \<lparr>is_TotalItems = int (length items), is_TotalValue = value_of items, is_LowStockCount = low,
          is_OutOfStockCount = out, is_ReorderRequired = low + out\<rparr>)"

definition GetInventoryStats ::
    "(AccessRequest \<Rightarrow> 'r \<Rightarrow> 'r \<times> rbac_error option) \<Rightarrow> stock_env \<Rightarrow> gotime \<Rightarrow> (InventoryItem list \<Rightarrow> f64)
       \<Rightarrow> InventoryServiceRequest \<Rightarrow> 'r \<times> 'z stock_db_scheme
       \<Rightarrow> ('r \<times> 'z stock_db_scheme) \<times> (inv_error + InventoryStats)" where
  "GetInventoryStats require E now value_of req =
     (let key = statsCacheKey E (ir_TenantID req) (ir_RestaurantID req)
      in guarded require (inv_request ResourceInventory ActionRead req) InvDenied
       (bindE (try_get (redis_Get now rd_stats key)) (\<lambda>cached.
          case cached of
            Some stats \<Rightarrow> ret stats
          | None \<Rightarrow>
              bindE (db_query (InvWrapped ''stats query'')
                       (\<lambda>s. stats_query value_of (ir_TenantID req) (ir_RestaurantID req) (st_items s))) (\<lambda>stats.
                thenE (ignore (redis_Set now rd_stats_update key stats inventoryStatsCacheTTL)) (ret stats)))))"

text \<open>
  The dashboard counts as low or out of stock exactly the items whose derived state is, as long as
  no quantity is negative or not a number.
\<close>

definition needs_reorder :: "InventoryItem \<Rightarrow> bool" where
  "needs_reorder i \<longleftrightarrow>
     DeriveInventoryState (inv_CurrentQuantity i) (inv_ReorderPoint i)
       \<in> {InventoryStateLowStock, InventoryStateOutOfStock}"

lemma reorder_split:
  assumes "not_neg (inv_CurrentQuantity i)" and "inv_CurrentQuantity i \<noteq> NaN"
  shows "of_bool (needs_reorder i)
    = of_bool (case inv_ReorderPoint i of None \<Rightarrow> False
        | Some rp \<Rightarrow> f_gt (inv_CurrentQuantity i) f_zero \<and> f_le (inv_CurrentQuantity i) rp)
      + (of_bool (f_eq (inv_CurrentQuantity i) f_zero) :: nat)"
  using assms
  by (cases "inv_CurrentQuantity i"; cases "inv_ReorderPoint i")
    (auto simp: needs_reorder_def DeriveInventoryState_def f_eq_def inventory_distinct [simplified])

lemma length_filter_sum:
  "length (filter P xs) = sum_list (map (\<lambda>x. of_bool (P x)) xs)"
  by (induction xs) simp_all

text \<open>
  The dashboard's number of items to reorder is the number of the restaurant's items whose state,
  as the stock machine derives it from quantity and reorder point, is low or out of stock, provided
  no quantity is negative or not a number.
\<close>

theorem stats_agree_with_machine:
  assumes "\<And>i. i \<in> set items \<Longrightarrow> not_neg (inv_CurrentQuantity i) \<and> inv_CurrentQuantity i \<noteq> NaN"
  shows "is_ReorderRequired (stats_query value_of t r items)
    = int (length (filter needs_reorder (filter (\<lambda>i. inv_TenantID i = t \<and> inv_RestaurantID i = r) items)))"
proof -
  let ?items = "filter (\<lambda>i. inv_TenantID i = t \<and> inv_RestaurantID i = r) items"
  have "length (filter needs_reorder ?items)
      = sum_list (map (\<lambda>i. of_bool (case inv_ReorderPoint i of None \<Rightarrow> False
          | Some rp \<Rightarrow> f_gt (inv_CurrentQuantity i) f_zero \<and> f_le (inv_CurrentQuantity i) rp)
          + of_bool (f_eq (inv_CurrentQuantity i) f_zero)) ?items)"
    unfolding length_filter_sum by (intro arg_cong [where f = sum_list] map_cong refl reorder_split) (use assms in auto)
  then show ?thesis by (simp add: stats_query_def Let_def length_filter_sum sum_list_addf)
qed

end
