(* ===== verification/Purchase_Service.thy ===== *)
theory Purchase_Service
  imports Inventory_Service
begin

text \<open>
  Purchase orders (\<open>services/inventory/purchaseOrder.go\<close>): creation with the monthly number, the
  status events, and receiving goods, which books the stock through the stock service line by line
  and without a transaction around the lines.
\<close>

record po_env =
  pe_stock :: stock_env
  pe_Format_month :: "gotime \<Rightarrow> string"
  pe_month_start :: "gotime \<Rightarrow> gotime"
  pe_next_month_start :: "gotime \<Rightarrow> gotime"

abbreviation pe_uuid_String :: "po_env \<Rightarrow> uuid \<Rightarrow> string" where
  "pe_uuid_String P \<equiv> se_uuid_String (pe_stock P)"

datatype po_error =
    ErrPONotFound
  | ErrPOTenantMismatch
  | ErrPOInvalidTransition "(string, string) fsm_error"
  | ErrPONotReceivable string
  | ErrPOLineNotFound uuid
  | ErrPONegativeReceived
  | ErrPOExceedsOrdered uuid f64 f64 f64
  | ErrPOVendorNotFound
  | ErrPONoLines
  | ErrPODuplicateItem
  | ErrPOItemsNotFound
  | POFSMError string "(string, string) fsm_error"
  | PODenied rbac_error
  | POWrapped string string
  | POPanic

definition ResourcePurchaseOrder :: string where "ResourcePurchaseOrder = ''purchase_order''"

record POServiceRequest =
  pr_TenantID :: uuid
  pr_RestaurantID :: uuid
  pr_ActorID :: uuid

record CreatePOLineInput =
  cpl_InventoryItemID :: uuid
  cpl_Quantity :: f64
  cpl_UnitPrice :: f64

record CreatePOInput = POServiceRequest +
  cpo_VendorID :: uuid
  cpo_OrderDate :: gotime
  cpo_ExpectedDeliveryDate :: "gotime option"
  cpo_Lines :: "CreatePOLineInput list"

record ReceivePOLineInput =
  rpl_PurchaseOrderLineID :: uuid
  rpl_ReceivedQuantity :: f64

record ReceivePOInput = POServiceRequest +
  rpo_PurchaseOrderID :: uuid
  rpo_Lines :: "ReceivePOLineInput list"

definition po_request :: "string \<Rightarrow> 'q POServiceRequest_scheme \<Rightarrow> AccessRequest" where
  "po_request action req = service_request (pr_ActorID req) (pr_TenantID req) ResourcePurchaseOrder action"

section \<open>Helpers\<close>

definition getPOForWrite :: "uuid \<Rightarrow> uuid \<Rightarrow> ('z stock_db_scheme, po_error, PurchaseOrder) op" where
  "getPOForWrite tenantID poID =
     db_First ErrPONotFound (POWrapped ''get PO'') po_PurchaseOrderID st_pos
       (\<lambda>po. po_PurchaseOrderID po = poID \<and> po_TenantID po = tenantID)"

definition po_writeAudit ::
    "po_env \<Rightarrow> gotime \<Rightarrow> 'q POServiceRequest_scheme \<Rightarrow> string \<Rightarrow> uuid \<Rightarrow> ('z stock_db_scheme, 'e, unit) op" where
  "po_writeAudit P now req event entityID =
     ignore (db_write (\<lambda>err. err) (\<lambda>s. s\<lparr>db_audits := db_audits s @
       [\<lparr>aud_TenantID = pr_TenantID req,
         aud_UserID = (if pr_ActorID req \<noteq> 0 then Some (pr_ActorID req) else None),
         aud_RestaurantID = Some (pr_RestaurantID req), aud_EventType = event,
         aud_EventCategory = ''purchase_order'', aud_Severity = AuditSeverityInfo,
         aud_EntityType = ''PurchaseOrder'', aud_EntityID = pe_uuid_String P entityID, aud_Timestamp = now\<rparr>]\<rparr>))"

text \<open>
  \<open>PO-YYYYMM-n\<close>: the month's counter in Redis, or the number of the tenant's orders of the month
  when Redis does not answer (zero when the database does not either).
\<close>

definition generatePONumber ::
    "po_env \<Rightarrow> gotime \<Rightarrow> uuid \<Rightarrow> gotime \<Rightarrow> ('z stock_db_scheme, 'e, string) op" where
  "generatePONumber P now tenantID t s =
     (let monthStr = pe_Format_month P t;
          seqKey = ''po:seq:'' @ pe_uuid_String P tenantID @ '':'' @ monthStr;
          (s, seq) =
            (case redis_Incr now seqKey s of
               (s, Inl err) \<Rightarrow>
                 (case db_query (\<lambda>err. err) (\<lambda>s. int (length (filter (\<lambda>po. po_TenantID po = tenantID
                          \<and> po_OrderDate po \<ge> pe_month_start P t) (st_pos s)))) s of
                    (s, Inl err) \<Rightarrow> (s, 0 + 1)
                  | (s, Inr count) \<Rightarrow> (s, count + 1))
             | (s, Inr seq) \<Rightarrow>
                 (if seq = 1 then fst (redis_Expire seqKey (pe_next_month_start P t + hours 48) s) else s, seq))
      in (s, Inr (''PO-'' @ monthStr @ ''-'' @ fmt_0d 6 seq)))"

section \<open>Creation\<close>

fun duplicate_item :: "uuid list \<Rightarrow> CreatePOLineInput list \<Rightarrow> bool" where
  "duplicate_item seen [] \<longleftrightarrow> False"
| "duplicate_item seen (l # ls) \<longleftrightarrow>
     cpl_InventoryItemID l \<in> set seen \<or> duplicate_item (cpl_InventoryItemID l # seen) ls"

fun po_total :: "f64 \<Rightarrow> CreatePOLineInput list \<Rightarrow> f64" where
  "po_total acc [] = acc"
| "po_total acc (l # ls) = po_total (f_add acc (f_mul (cpl_Quantity l) (cpl_UnitPrice l))) ls"

definition new_po :: "uuid \<Rightarrow> string \<Rightarrow> CreatePOInput \<Rightarrow> PurchaseOrder" where
  "new_po poID poNumber req = \<lparr>po_PurchaseOrderID = poID, po_TenantID = pr_TenantID req,
     po_RestaurantID = pr_RestaurantID req, po_VendorID = cpo_VendorID req, po_OrderNumber = poNumber,
     po_OrderDate = cpo_OrderDate req, po_ExpectedDeliveryDate = cpo_ExpectedDeliveryDate req,
     po_ActualDeliveryDate = None, po_Status = POStateDraft,
     po_TotalAmount = po_total f_zero (cpo_Lines req), po_CreatedBy = pr_ActorID req\<rparr>"

definition new_po_line :: "uuid \<Rightarrow> uuid \<Rightarrow> CreatePOLineInput \<Rightarrow> PurchaseOrderLine" where
  "new_po_line lineID poID l = \<lparr>pol_PurchaseOrderLineID = lineID, pol_PurchaseOrderID = poID,
     pol_InventoryItemID = cpl_InventoryItemID l, pol_Quantity = cpl_Quantity l,
     pol_UnitPrice = cpl_UnitPrice l, pol_LineTotal = f_mul (cpl_Quantity l) (cpl_UnitPrice l),
     pol_ReceivedQuantity = f_zero\<rparr>"

definition po_row :: "stock_env \<Rightarrow> PurchaseOrder \<Rightarrow> PurchaseOrder" where
  "po_row E po = po\<lparr>po_TotalAmount := se_numeric E 2 (po_TotalAmount po)\<rparr>"

definition po_line_row :: "stock_env \<Rightarrow> PurchaseOrderLine \<Rightarrow> PurchaseOrderLine" where
  "po_line_row E l = l\<lparr>pol_Quantity := se_numeric E 3 (pol_Quantity l),
     pol_UnitPrice := se_numeric E 2 (pol_UnitPrice l), pol_LineTotal := se_numeric E 2 (pol_LineTotal l),
     pol_ReceivedQuantity := se_numeric E 3 (pol_ReceivedQuantity l)\<rparr>"

fun insert_po_lines ::
    "stock_env \<Rightarrow> (nat \<Rightarrow> uuid) \<Rightarrow> uuid \<Rightarrow> nat \<Rightarrow> CreatePOLineInput list \<Rightarrow> ('z stock_db_scheme, po_error, unit) op" where
  "insert_po_lines E ids poID k [] = ret ()"
| "insert_po_lines E ids poID k (l # ls) =
     thenE (db_insert (POWrapped ''create PO line'')
              (\<lambda>s. ids k \<in> pol_PurchaseOrderLineID ` set (st_poLines s))
              (\<lambda>s. s\<lparr>st_poLines := st_poLines s @ [po_line_row E (new_po_line (ids k) poID l)]\<rparr>))
       (insert_po_lines E ids poID (Suc k) ls)"

definition persist_po ::
    "stock_env \<Rightarrow> (nat \<Rightarrow> uuid) \<Rightarrow> PurchaseOrder \<Rightarrow> CreatePOLineInput list \<Rightarrow> ('z stock_db_scheme, po_error, unit) op" where
  "persist_po E ids po lines =
     transaction (POWrapped '''')
       (thenE (db_insert (POWrapped ''create PO'')
                (\<lambda>s. \<exists>q \<in> set (st_pos s). po_PurchaseOrderID q = po_PurchaseOrderID po
                   \<or> po_TenantID q = po_TenantID po \<and> po_OrderNumber q = po_OrderNumber po)
                (\<lambda>s. s\<lparr>st_pos := st_pos s @ [po_row E po]\<rparr>))
         (insert_po_lines E ids (po_PurchaseOrderID po) 0 lines))"

text \<open>The result of the count is used without looking at the query's error.\<close>

definition count_items ::
    "CreatePOInput \<Rightarrow> ('z stock_db_scheme, 'e, nat) op" where
  "count_items req s =
     (case db_query (\<lambda>err. err) (\<lambda>s. length (filter (\<lambda>i.
              inv_InventoryItemID i \<in> cpl_InventoryItemID ` set (cpo_Lines req)
              \<and> inv_TenantID i = pr_TenantID req \<and> inv_RestaurantID i = pr_RestaurantID req) (st_items s))) s of
        (s, Inl err) \<Rightarrow> (s, Inr 0)
      | (s, Inr n) \<Rightarrow> (s, Inr n))"

definition create_po ::
    "po_env \<Rightarrow> gotime \<Rightarrow> uuid \<Rightarrow> (nat \<Rightarrow> uuid) \<Rightarrow> CreatePOInput \<Rightarrow> ('z stock_db_scheme, po_error, PurchaseOrder) op" where
  "create_po P now poID ids req =
     (if cpo_Lines req = [] then throw ErrPONoLines
      else bindE (db_First ErrPOVendorNotFound (POWrapped ''vendor lookup'') ven_VendorID st_vendors
               (\<lambda>v. ven_VendorID v = cpo_VendorID req \<and> ven_TenantID v = pr_TenantID req \<and> ven_IsActive v)) (\<lambda>vendor.
        if duplicate_item [] (cpo_Lines req) then throw ErrPODuplicateItem
        else bindE (count_items req) (\<lambda>invCount.
          if invCount \<noteq> length (cpo_Lines req) then throw ErrPOItemsNotFound
          else bindE (generatePONumber P now (pr_TenantID req) (cpo_OrderDate req)) (\<lambda>poNumber.
            let po = new_po poID poNumber req
            in thenE (persist_po (pe_stock P) ids po (cpo_Lines req))
              (thenE (po_writeAudit P now req AuditEventCreate poID)
                (ret po))))))"

definition CreatePurchaseOrder ::
    "(AccessRequest \<Rightarrow> 'r \<Rightarrow> 'r \<times> rbac_error option) \<Rightarrow> po_env \<Rightarrow> gotime \<Rightarrow> uuid \<Rightarrow> (nat \<Rightarrow> uuid)
       \<Rightarrow> CreatePOInput \<Rightarrow> 'r \<times> 'z stock_db_scheme \<Rightarrow> ('r \<times> 'z stock_db_scheme) \<times> (po_error + PurchaseOrder)" where
  "CreatePurchaseOrder require P now poID ids req =
     guarded require (po_request ActionCreate req) PODenied (create_po P now poID ids req)"

section \<open>Status events\<close>

abbreviation po_fsm_of :: "po_env \<Rightarrow> (PurchaseOrder, string, string) fsm_definition" where
  "po_fsm_of P \<equiv> PurchaseOrderFSM (po_methods (pe_uuid_String P))"

definition po_envelope :: "po_env \<Rightarrow> gotime \<Rightarrow> 'q POServiceRequest_scheme \<Rightarrow> string \<Rightarrow> string envelope" where
  "po_envelope P now req event =
     WithActor (NewEnvelope (se_envelope_id (pe_stock P)) now event None) (pr_ActorID req) (pr_TenantID req)"

definition update_po ::
    "string \<Rightarrow> uuid \<Rightarrow> (PurchaseOrder \<Rightarrow> PurchaseOrder) \<Rightarrow> ('z stock_db_scheme, po_error, unit) op" where
  "update_po what poID f =
     db_write (POWrapped what) (\<lambda>s. s\<lparr>st_pos := update_rows (\<lambda>q. po_PurchaseOrderID q = poID) f (st_pos s)\<rparr>)"

definition fire_po ::
    "po_env \<Rightarrow> gotime \<Rightarrow> POServiceRequest \<Rightarrow> string \<Rightarrow> PurchaseOrder \<Rightarrow> ('z stock_db_scheme, po_error, PurchaseOrder) op" where
  "fire_po P now req event po =
     (if po_RestaurantID po \<noteq> pr_RestaurantID req then throw ErrPOTenantMismatch
      else case fire (po_fsm_of P) po (po_Status po) (po_envelope P now req event) now now of
             (po, Returned (Some err)) \<Rightarrow> throw (ErrPOInvalidTransition err)
           | (po, Panicked) \<Rightarrow> throw POPanic
           | (po, Returned None) \<Rightarrow>
               thenE (update_po ''persist PO status'' (po_PurchaseOrderID po) (\<lambda>q. q\<lparr>po_Status := po_Status po\<rparr>))
              (thenE (po_writeAudit P now req AuditEventUpdate (po_PurchaseOrderID po))
                (ret po)))"

definition firePOEvent ::
    "(AccessRequest \<Rightarrow> 'r \<Rightarrow> 'r \<times> rbac_error option) \<Rightarrow> po_env \<Rightarrow> gotime \<Rightarrow> POServiceRequest \<Rightarrow> uuid
       \<Rightarrow> string \<Rightarrow> 'r \<times> 'z stock_db_scheme \<Rightarrow> ('r \<times> 'z stock_db_scheme) \<times> (po_error + PurchaseOrder)" where
  "firePOEvent require P now req poID event =
     guarded require (po_request ActionUpdate req) PODenied
       (bindE (getPOForWrite (pr_TenantID req) poID) (fire_po P now req event))"

definition SubmitPurchaseOrder ::
    "(AccessRequest \<Rightarrow> 'r \<Rightarrow> 'r \<times> rbac_error option) \<Rightarrow> po_env \<Rightarrow> gotime \<Rightarrow> POServiceRequest \<Rightarrow> uuid
       \<Rightarrow> 'r \<times> 'z stock_db_scheme \<Rightarrow> ('r \<times> 'z stock_db_scheme) \<times> (po_error + PurchaseOrder)" where
  "SubmitPurchaseOrder require P now req poID = firePOEvent require P now req poID POEventSubmit"

definition ApprovePurchaseOrder ::
    "(AccessRequest \<Rightarrow> 'r \<Rightarrow> 'r \<times> rbac_error option) \<Rightarrow> po_env \<Rightarrow> gotime \<Rightarrow> POServiceRequest \<Rightarrow> uuid
       \<Rightarrow> 'r \<times> 'z stock_db_scheme \<Rightarrow> ('r \<times> 'z stock_db_scheme) \<times> (po_error + PurchaseOrder)" where
  "ApprovePurchaseOrder require P now req poID = firePOEvent require P now req poID POEventApprove"

definition CancelPurchaseOrder ::
    "(AccessRequest \<Rightarrow> 'r \<Rightarrow> 'r \<times> rbac_error option) \<Rightarrow> po_env \<Rightarrow> gotime \<Rightarrow> POServiceRequest \<Rightarrow> uuid
       \<Rightarrow> 'r \<times> 'z stock_db_scheme \<Rightarrow> ('r \<times> 'z stock_db_scheme) \<times> (po_error + PurchaseOrder)" where
  "CancelPurchaseOrder require P now req poID = firePOEvent require P now req poID POEventCancel"

section \<open>Receiving\<close>

text \<open>The authorizer's state beside the database: an operation on the one leaves the other alone.\<close>

definition on_db :: "('s, 'e, 'a) op \<Rightarrow> ('r \<times> 's, 'e, 'a) op" where
  "on_db m rs = (case m (snd rs) of (s, x) \<Rightarrow> ((fst rs, s), x))"

definition find_line :: "uuid \<Rightarrow> PurchaseOrderLine list \<Rightarrow> PurchaseOrderLine option" where
  "find_line lineID lines = List.find (\<lambda>l. pol_PurchaseOrderLineID l = lineID) lines"

text \<open>
  The inputs are validated against the lines as they were loaded, each input on its own; the loop
  then works on the lines as it goes, which are one object per identifier.
\<close>

fun validate_received :: "PurchaseOrderLine list \<Rightarrow> ReceivePOLineInput list \<Rightarrow> po_error option" where
  "validate_received lines [] = None"
| "validate_received lines (rl # rls) =
     (case find_line (rpl_PurchaseOrderLineID rl) lines of
        None \<Rightarrow> Some (ErrPOLineNotFound (rpl_PurchaseOrderLineID rl))
      | Some line \<Rightarrow>
          if f_lt (rpl_ReceivedQuantity rl) f_zero then Some ErrPONegativeReceived
          else if f_gt (f_add (pol_ReceivedQuantity line) (rpl_ReceivedQuantity rl)) (pol_Quantity line)
          then Some (ErrPOExceedsOrdered (rpl_PurchaseOrderLineID rl) (pol_Quantity line)
                       (pol_ReceivedQuantity line) (rpl_ReceivedQuantity rl))
          else validate_received lines rls)"

definition set_received :: "uuid \<Rightarrow> f64 \<Rightarrow> PurchaseOrderLine list \<Rightarrow> PurchaseOrderLine list" where
  "set_received lineID qty =
     update_rows (\<lambda>l. pol_PurchaseOrderLineID l = lineID) (\<lambda>l. l\<lparr>pol_ReceivedQuantity := qty\<rparr>)"

definition receipt ::
    "po_env \<Rightarrow> ReceivePOInput \<Rightarrow> PurchaseOrder \<Rightarrow> PurchaseOrderLine \<Rightarrow> ReceivePOLineInput \<Rightarrow> AdjustStockInput" where
  "receipt P req po line rl =
     \<lparr>ir_TenantID = pr_TenantID req, ir_RestaurantID = pr_RestaurantID req, ir_ActorID = pr_ActorID req,
      adj_InventoryItemID = pol_InventoryItemID line, adj_QuantityDelta = rpl_ReceivedQuantity rl,
      adj_Reason = StockMovementReasonReceived,
      adj_Notes = ''received against PO '' @ po_OrderNumber po @ '', line ''
        @ pe_uuid_String P (rpl_PurchaseOrderLineID rl),
      adj_ReferenceType = ''purchase_order'', adj_ReferenceID = pe_uuid_String P (po_PurchaseOrderID po)\<rparr>"

fun receive_loop ::
    "(AccessRequest \<Rightarrow> 'r \<Rightarrow> 'r \<times> rbac_error option) \<Rightarrow> po_env \<Rightarrow> gotime \<Rightarrow> (nat \<Rightarrow> uuid \<times> uuid)
       \<Rightarrow> ReceivePOInput \<Rightarrow> PurchaseOrder \<Rightarrow> nat \<Rightarrow> PurchaseOrderLine list \<Rightarrow> ReceivePOLineInput list
       \<Rightarrow> ('r \<times> 'z stock_db_scheme, po_error, PurchaseOrderLine list) op" where
  "receive_loop require P now ids req po k lines [] = ret lines"
| "receive_loop require P now ids req po k lines (rl # rls) =
     (if f_eq (rpl_ReceivedQuantity rl) f_zero
      then receive_loop require P now ids req po (Suc k) lines rls
      else case find_line (rpl_PurchaseOrderLineID rl) lines of
             None \<Rightarrow> throw POPanic
           | Some line \<Rightarrow>
               let newReceived = f_add (pol_ReceivedQuantity line) (rpl_ReceivedQuantity rl)
               in thenE (on_db (db_write (POWrapped ''update line received qty'') (\<lambda>s. s\<lparr>st_poLines :=
                       set_received (pol_PurchaseOrderLineID line) (se_numeric (pe_stock P) 3 newReceived)
                         (st_poLines s)\<rparr>)))
                 (thenE (ignore (AdjustStock require (pe_stock P) now (fst (ids k)) (snd (ids k))
                           (receipt P req po line rl)))
                   (receive_loop require P now ids req po (Suc k)
                      (set_received (pol_PurchaseOrderLineID line) newReceived lines) rls)))"

definition fully_received :: "PurchaseOrderLine list \<Rightarrow> bool" where
  "fully_received lines \<longleftrightarrow> \<not> (\<exists>l \<in> set lines. f_lt (pol_ReceivedQuantity l) (pol_Quantity l))"

definition finish_receive ::
    "po_env \<Rightarrow> gotime \<Rightarrow> ReceivePOInput \<Rightarrow> PurchaseOrder \<Rightarrow> bool \<Rightarrow> ('z stock_db_scheme, po_error, PurchaseOrder) op" where
  "finish_receive P now req po fullyReceived =
     (if fullyReceived \<or> po_Status po = POStateApproved
      then let fsmEvent = (if fullyReceived then POEventReceiveFull else POEventReceivePartial)
           in case fire (po_fsm_of P) po (po_Status po) (po_envelope P now req fsmEvent) now now of
                (po, Returned (Some err)) \<Rightarrow> throw (POFSMError fsmEvent err)
              | (po, Panicked) \<Rightarrow> throw POPanic
              | (po, Returned None) \<Rightarrow>
                  thenE (update_po ''persist PO receive status'' (po_PurchaseOrderID po)
                           (\<lambda>q. (if fullyReceived then q\<lparr>po_ActualDeliveryDate := Some now\<rparr> else q)
                                  \<lparr>po_Status := po_Status po\<rparr>))
                 (thenE (po_writeAudit P now req AuditEventUpdate (po_PurchaseOrderID po))
                   (ret (if fullyReceived then po\<lparr>po_ActualDeliveryDate := Some now\<rparr> else po)))
      else thenE (update_po ''update PO timestamp'' (po_PurchaseOrderID po) (\<lambda>q. q)) (ret po))"

definition load_lines :: "PurchaseOrder \<Rightarrow> ('z stock_db_scheme, po_error, PurchaseOrderLine list) op" where
  "load_lines po = db_query (POWrapped ''load PO lines'')
     (\<lambda>s. filter (\<lambda>l. pol_PurchaseOrderID l = po_PurchaseOrderID po) (st_poLines s))"

definition receive_lines ::
    "(AccessRequest \<Rightarrow> 'r \<Rightarrow> 'r \<times> rbac_error option) \<Rightarrow> po_env \<Rightarrow> gotime \<Rightarrow> (nat \<Rightarrow> uuid \<times> uuid)
       \<Rightarrow> ReceivePOInput \<Rightarrow> PurchaseOrder \<Rightarrow> PurchaseOrderLine list
       \<Rightarrow> ('r \<times> 'z stock_db_scheme, po_error, PurchaseOrder) op" where
  "receive_lines require P now ids req po allLines =
     (case validate_received allLines (rpo_Lines req) of
        Some err \<Rightarrow> throw err
      | None \<Rightarrow>
          bindE (receive_loop require P now ids req po 0 allLines (rpo_Lines req)) (\<lambda>lines.
            on_db (finish_receive P now req po (fully_received lines))))"

definition receive_loaded ::
    "(AccessRequest \<Rightarrow> 'r \<Rightarrow> 'r \<times> rbac_error option) \<Rightarrow> po_env \<Rightarrow> gotime \<Rightarrow> (nat \<Rightarrow> uuid \<times> uuid)
       \<Rightarrow> ReceivePOInput \<Rightarrow> PurchaseOrder \<Rightarrow> ('r \<times> 'z stock_db_scheme, po_error, PurchaseOrder) op" where
  "receive_loaded require P now ids req po =
     (if po_RestaurantID po \<noteq> pr_RestaurantID req then throw ErrPOTenantMismatch
      else if po_Status po \<noteq> POStateApproved \<and> po_Status po \<noteq> POStatePartiallyReceived
      then throw (ErrPONotReceivable (po_Status po))
      else bindE (on_db (load_lines po)) (receive_lines require P now ids req po))"

definition receive_po ::
    "(AccessRequest \<Rightarrow> 'r \<Rightarrow> 'r \<times> rbac_error option) \<Rightarrow> po_env \<Rightarrow> gotime \<Rightarrow> (nat \<Rightarrow> uuid \<times> uuid)
       \<Rightarrow> ReceivePOInput \<Rightarrow> ('r \<times> 'z stock_db_scheme, po_error, PurchaseOrder) op" where
  "receive_po require P now ids req =
     bindE (on_db (getPOForWrite (pr_TenantID req) (rpo_PurchaseOrderID req)))
       (receive_loaded require P now ids req)"

definition ReceivePurchaseOrder ::
    "(AccessRequest \<Rightarrow> 'r \<Rightarrow> 'r \<times> rbac_error option) \<Rightarrow> po_env \<Rightarrow> gotime \<Rightarrow> (nat \<Rightarrow> uuid \<times> uuid)
       \<Rightarrow> ReceivePOInput \<Rightarrow> 'r \<times> 'z stock_db_scheme \<Rightarrow> ('r \<times> 'z stock_db_scheme) \<times> (po_error + PurchaseOrder)" where
  "ReceivePurchaseOrder require P now ids req rs =
     (case require (po_request ActionUpdate req) (fst rs) of
        (r, Some err) \<Rightarrow> ((r, snd rs), Inl (PODenied err))
      | (r, None) \<Rightarrow> receive_po require P now ids req (r, snd rs))"

definition GetPurchaseOrder ::
    "(AccessRequest \<Rightarrow> 'r \<Rightarrow> 'r \<times> rbac_error option) \<Rightarrow> POServiceRequest \<Rightarrow> uuid
       \<Rightarrow> 'r \<times> 'z stock_db_scheme
       \<Rightarrow> ('r \<times> 'z stock_db_scheme) \<times> (po_error + PurchaseOrder \<times> PurchaseOrderLine list)" where
  "GetPurchaseOrder require req poID =
     guarded require (po_request ActionRead req) PODenied
       (bindE (getPOForWrite (pr_TenantID req) poID) (\<lambda>po. bindE (load_lines po) (\<lambda>lines. ret (po, lines))))"

end
