(* ===== verification/Purchase_Receiving.thy ===== *)
theory Purchase_Receiving
  imports Purchase_Correct
begin

text \<open>
  Receiving goods: what is received stays within what was ordered when the input names no line
  twice, what happens when it does, and what a caller without the stock permission leaves.
\<close>

section \<open>Received and ordered\<close>

definition line_ok :: "stock_env \<Rightarrow> PurchaseOrderLine \<Rightarrow> bool" where
  "line_ok E l \<longleftrightarrow> se_numeric E 3 (pol_Quantity l) = pol_Quantity l
     \<and> not_neg (pol_ReceivedQuantity l) \<and> f_le (pol_ReceivedQuantity l) (pol_Quantity l)"

definition lines_ok :: "stock_env \<Rightarrow> 'z stock_db_scheme \<Rightarrow> bool" where
  "lines_ok E s \<longleftrightarrow> distinct (map pol_PurchaseOrderLineID (st_poLines s)) \<and> (\<forall>l \<in> set (st_poLines s). line_ok E l)"

text \<open>A numeric column keeps the order of the numbers stored in it.\<close>

definition order_kept :: "stock_env \<Rightarrow> bool" where
  "order_kept E \<longleftrightarrow> (\<forall>k x y. f_le x y \<longrightarrow> f_le (se_numeric E k x) (se_numeric E k y))"

lemma f_le_not_NaN: "f_le a b \<Longrightarrow> a \<noteq> NaN \<and> b \<noteq> NaN"
  by (cases a; cases b) auto

lemma f_add_not_NaN: "not_neg a \<Longrightarrow> not_neg b \<Longrightarrow> a \<noteq> NaN \<Longrightarrow> b \<noteq> NaN \<Longrightarrow> f_add a b \<noteq> NaN"
  by (cases a; cases b) (auto simp: rnd_def Let_def)

lemma line_ok_receive:
  assumes "line_ok E line" and "\<not> f_lt q f_zero" and "q \<noteq> NaN"
    and "\<not> f_gt (f_add (pol_ReceivedQuantity line) q) (pol_Quantity line)"
    and "order_kept E" and "sign_kept E" and "pol_Quantity l = pol_Quantity line"
  shows "line_ok E (l\<lparr>pol_ReceivedQuantity := se_numeric E 3 (f_add (pol_ReceivedQuantity line) q)\<rparr>)"
proof -
  let ?n = "f_add (pol_ReceivedQuantity line) q"
  have q: "not_neg q" using assms(2) by (simp add: not_neg_iff)
  have r: "not_neg (pol_ReceivedQuantity line)" "f_le (pol_ReceivedQuantity line) (pol_Quantity line)"
    using assms(1) by (simp_all add: line_ok_def)
  note nn = f_le_not_NaN [OF r(2)]
  have "?n \<noteq> NaN" using f_add_not_NaN [OF r(1) q] nn assms(3) by blast
  with assms(4) nn have "f_le ?n (pol_Quantity line)" by (simp add: f_le_not_gt)
  then have "f_le (se_numeric E 3 ?n) (pol_Quantity line)"
    using assms(1,5) by (metis line_ok_def order_kept_def)
  with assms(1,6,7) q r(1) show ?thesis by (auto simp: line_ok_def sign_kept_def not_neg_add)
qed

definition receivable :: "stock_env \<Rightarrow> PurchaseOrderLine list \<Rightarrow> PurchaseOrderLine list \<Rightarrow> ReceivePOLineInput \<Rightarrow> bool" where
  "receivable E rows lines rl \<longleftrightarrow>
     rpl_ReceivedQuantity rl \<noteq> NaN \<and> \<not> f_lt (rpl_ReceivedQuantity rl) f_zero
     \<and> (\<exists>line. find_line (rpl_PurchaseOrderLineID rl) lines = Some line \<and> line_ok E line
          \<and> \<not> f_gt (f_add (pol_ReceivedQuantity line) (rpl_ReceivedQuantity rl)) (pol_Quantity line)
          \<and> (\<forall>l \<in> set rows. pol_PurchaseOrderLineID l = rpl_PurchaseOrderLineID rl \<longrightarrow> pol_Quantity l = pol_Quantity line))"

lemma find_line_Some: "find_line i lines = Some l \<Longrightarrow> l \<in> set lines \<and> pol_PurchaseOrderLineID l = i"
  by (auto simp: find_line_def find_Some_iff)

lemma find_line_other: "j \<noteq> i \<Longrightarrow> find_line i (set_received j q lines) = find_line i lines"
  by (induction lines) (auto simp: find_line_def set_received_def update_rows_def)

lemma find_line_same:
  "find_line i lines = Some l \<Longrightarrow> find_line i (set_received i q lines) = Some (l\<lparr>pol_ReceivedQuantity := q\<rparr>)"
  by (induction lines) (auto simp: find_line_def set_received_def update_rows_def)

lemma receivable_set:
  assumes "receivable E rows lines rl" and "rpl_PurchaseOrderLineID rl \<noteq> j"
  shows "receivable E (set_received j q rows) (set_received j q' lines) rl"
proof -
  have "pol_Quantity l = pol_Quantity line"
    if "l \<in> set (set_received j q rows)" "pol_PurchaseOrderLineID l = rpl_PurchaseOrderLineID rl"
      "\<forall>l \<in> set rows. pol_PurchaseOrderLineID l = rpl_PurchaseOrderLineID rl \<longrightarrow> pol_Quantity l = pol_Quantity line"
    for l line using that assms(2) by (auto simp: set_received_def update_rows_set split: if_splits)
  with assms show ?thesis unfolding receivable_def by (metis find_line_other)
qed

lemma lines_ok_write:
  assumes "lines_ok E s" and "receivable E (st_poLines s) lines rl" and "order_kept E" and "sign_kept E"
    and "find_line (rpl_PurchaseOrderLineID rl) lines = Some line"
    and "st_poLines s' = set_received (pol_PurchaseOrderLineID line)
       (se_numeric E 3 (f_add (pol_ReceivedQuantity line) (rpl_ReceivedQuantity rl))) (st_poLines s)"
  shows "lines_ok E s'"
proof -
  have i: "pol_PurchaseOrderLineID line = rpl_PurchaseOrderLineID rl" using find_line_Some [OF assms(5)] by simp
  have "map pol_PurchaseOrderLineID (st_poLines s') = map pol_PurchaseOrderLineID (st_poLines s)"
    by (simp add: assms(6) set_received_def update_rows_key)
  moreover have "line_ok E l" if "l \<in> set (st_poLines s')" for l
  proof -
    from that obtain l0 where l0: "l0 \<in> set (st_poLines s)" and l: "l = (if pol_PurchaseOrderLineID l0 = rpl_PurchaseOrderLineID rl
        then l0\<lparr>pol_ReceivedQuantity := se_numeric E 3 (f_add (pol_ReceivedQuantity line) (rpl_ReceivedQuantity rl))\<rparr> else l0)"
      by (auto simp: assms(6) i set_received_def update_rows_set)
    show ?thesis
    proof (cases "pol_PurchaseOrderLineID l0 = rpl_PurchaseOrderLineID rl")
      case False
      with l l0 assms(1) show ?thesis by (simp add: lines_ok_def)
    next
      case True
      with assms(2,5) l0 have "line_ok E line" "\<not> f_lt (rpl_ReceivedQuantity rl) f_zero" "rpl_ReceivedQuantity rl \<noteq> NaN"
        "\<not> f_gt (f_add (pol_ReceivedQuantity line) (rpl_ReceivedQuantity rl)) (pol_Quantity line)"
        "pol_Quantity l0 = pol_Quantity line" by (auto simp: receivable_def)
      with line_ok_receive [of E line "rpl_ReceivedQuantity rl" l0] assms(3,4) l True show ?thesis by simp
    qed
  qed
  ultimately show ?thesis using assms(1) by (simp add: lines_ok_def)
qed

lemma receive_loop_lines_ok:
  assumes "order_kept (pe_stock P)" and "sign_kept (pe_stock P)"
  shows "lines_ok (pe_stock P) (snd rs) \<Longrightarrow> distinct (map rpl_PurchaseOrderLineID rls)
    \<Longrightarrow> (\<forall>rl \<in> set rls. receivable (pe_stock P) (st_poLines (snd rs)) lines rl)
    \<Longrightarrow> lines_ok (pe_stock P) (snd (fst (receive_loop require P now ids req po k lines rls rs)))"
proof (induction rls arbitrary: k lines rs)
  case Nil
  then show ?case by simp
next
  case (Cons rl rls)
  let ?E = "pe_stock P"
  show ?case
  proof (cases "f_eq (rpl_ReceivedQuantity rl) f_zero")
    case True
    with Cons show ?thesis by simp
  next
    case False
    obtain line where line: "find_line (rpl_PurchaseOrderLineID rl) lines = Some line"
      using Cons.prems(3) by (auto simp: receivable_def)
    then have i: "pol_PurchaseOrderLineID line = rpl_PurchaseOrderLineID rl" using find_line_Some by auto
    let ?n = "f_add (pol_ReceivedQuantity line) (rpl_ReceivedQuantity rl)"
    let ?w = "db_write (POWrapped ''update line received qty'') (\<lambda>s. s\<lparr>st_poLines :=
      set_received (pol_PurchaseOrderLineID line) (se_numeric ?E 3 ?n) (st_poLines s)\<rparr>)"
    obtain r s where rs: "rs = (r, s)" by (cases rs)
    obtain s1 x where w: "?w s = (s1, x)" by (cases "?w s")
    show ?thesis
    proof (cases x)
      case (Inl err)
      then have "st_poLines s1 = st_poLines s"
        using w by (cases rule: db_call_cases [of "POWrapped ''update line received qty''" s]) (auto simp: db_write_def)
      with False line w Inl rs Cons.prems(1) show ?thesis
        by (simp add: on_db_def thenE_def Let_def lines_ok_def)
    next
      case (Inr u)
      then have lines1: "st_poLines s1 = set_received (pol_PurchaseOrderLineID line) (se_numeric ?E 3 ?n) (st_poLines s)"
        using w by (auto simp: db_write_Inr dest!: db_call_InrD)
      let ?adj = "AdjustStock require ?E now (fst (ids k)) (snd (ids k)) (receipt P req po line rl) (r, s1)"
      let ?rs2 = "fst ?adj"
      have rs2: "st_poLines (snd ?rs2) = st_poLines s1" by (simp add: AdjustStock_frame)
      have "lines_ok ?E s1"
        by (rule lines_ok_write [OF _ _ assms line lines1]) (use Cons.prems(1,3) in \<open>simp_all add: rs\<close>)
      with rs2 have "lines_ok ?E (snd ?rs2)" by (simp add: lines_ok_def)
      moreover have "\<forall>q \<in> set rls. receivable ?E (st_poLines (snd ?rs2)) (set_received (pol_PurchaseOrderLineID line) ?n lines) q"
      proof
        fix q assume "q \<in> set rls"
        with Cons.prems(2,3) rs have "receivable ?E (st_poLines s) lines q" "rpl_PurchaseOrderLineID q \<noteq> pol_PurchaseOrderLineID line"
          by (auto simp: i image_iff)
        then show "receivable ?E (st_poLines (snd ?rs2)) (set_received (pol_PurchaseOrderLineID line) ?n lines) q"
          unfolding rs2 lines1 by (rule receivable_set)
      qed
      ultimately have "lines_ok ?E (snd (fst (receive_loop require P now ids req po (Suc k)
          (set_received (pol_PurchaseOrderLineID line) ?n lines) rls ?rs2)))"
        using Cons.IH [of ?rs2] Cons.prems(2) by simp
      with False line w Inr rs show ?thesis by (simp add: on_db_def thenE_def Let_def)
    qed
  qed
qed

lemma validated_receivable:
  assumes "validate_received lines rls = None" and "lines_ok E s" and "set lines \<subseteq> set (st_poLines s)"
    and "\<forall>rl \<in> set rls. rpl_ReceivedQuantity rl \<noteq> NaN"
  shows "\<forall>rl \<in> set rls. receivable E (st_poLines s) lines rl"
  using assms(1,4)
proof (induction rls)
  case (Cons rl rls)
  then obtain line where f: "find_line (rpl_PurchaseOrderLineID rl) lines = Some line"
    and v: "\<not> f_lt (rpl_ReceivedQuantity rl) f_zero"
      "\<not> f_gt (f_add (pol_ReceivedQuantity line) (rpl_ReceivedQuantity rl)) (pol_Quantity line)"
      "validate_received lines rls = None"
    by (auto split: option.splits if_splits)
  from find_line_Some [OF f] assms(3) have line: "line \<in> set (st_poLines s)"
    "pol_PurchaseOrderLineID line = rpl_PurchaseOrderLineID rl" by auto
  then have "l = line" if "l \<in> set (st_poLines s)" "pol_PurchaseOrderLineID l = rpl_PurchaseOrderLineID rl" for l
    using that assms(2) by (auto simp: lines_ok_def distinct_map inj_on_def)
  moreover have "line_ok E line" using line assms(2) by (simp add: lines_ok_def)
  ultimately have "receivable E (st_poLines s) lines rl"
    unfolding receivable_def using f v(1,2) Cons.prems(2) by auto
  with Cons.IH [OF v(3)] Cons.prems(2) show ?case by simp
qed simp

definition same_po_lines :: "'z stock_db_scheme \<Rightarrow> 'z stock_db_scheme \<Rightarrow> bool" where
  "same_po_lines s s' \<longleftrightarrow> st_poLines s' = st_poLines s"

lemma same_po_lines_rules: "reflp same_po_lines" "transp same_po_lines" "fault_blind same_po_lines"
  by (auto simp: same_po_lines_def fault_blind_def intro: reflpI transpI)

lemma steps_outcome:
  assumes "reflp R" and "\<And>ob. steps R (accepted ob)"
  shows "steps R (case result of (ob, Returned None) \<Rightarrow> accepted ob
    | (ob, Returned (Some err)) \<Rightarrow> throw (refused err) | (ob, Panicked) \<Rightarrow> throw panic)"
proof (cases result)
  case (Pair ob out)
  with assms show ?thesis
    by (cases out; cases "case out of Returned e \<Rightarrow> e | Panicked \<Rightarrow> None") (simp_all add: steps_throw del: op_simps)
qed

lemma finish_same_po_lines:
  assumes "finish_receive P now req po full s = (s', res)"
  shows "st_poLines s' = st_poLines s"
proof -
  have upd: "steps same_po_lines (update_po what i f)" for what i f
    unfolding update_po_def by (intro steps_rules same_po_lines_rules) (simp add: same_po_lines_def)
  have aud: "steps same_po_lines (po_writeAudit P now req ev i)" for ev i
    unfolding po_writeAudit_def by (intro steps_rules same_po_lines_rules) (simp add: same_po_lines_def)
  have "steps same_po_lines (finish_receive P now req po full)"
    unfolding finish_receive_def Let_def
    by (intro steps_rules steps_outcome same_po_lines_rules upd aud)
  from stepsD [OF this assms] show ?thesis by (simp add: same_po_lines_def)
qed

lemma lines_ok_same: "st_poLines s' = st_poLines s \<Longrightarrow> lines_ok E s' = lines_ok E s"
  by (simp add: lines_ok_def)

text \<open>
  C21: When every line holds at most what was ordered, a call of ReceivePurchaseOrder whose input names
  no line twice leaves it so, whatever it returns and wherever it fails, columns that keep sign and
  order of the numbers being assumed.
\<close>

theorem received_within_ordered:
  assumes "ReceivePurchaseOrder require P now ids req (r, s) = ((r', s'), res)"
    and "lines_ok (pe_stock P) s" and "distinct (map rpl_PurchaseOrderLineID (rpo_Lines req))"
    and "\<forall>rl \<in> set (rpo_Lines req). rpl_ReceivedQuantity rl \<noteq> NaN"
    and "order_kept (pe_stock P)" and "sign_kept (pe_stock P)"
  shows "lines_ok (pe_stock P) s'"
proof -
  let ?E = "pe_stock P"
  have loaded: "lines_ok ?E (snd (fst (receive_lines require P now ids req po lines (q, s2))))"
    if s2: "st_poLines s2 = st_poLines s" and sub: "set lines \<subseteq> set (st_poLines s)" for q s2 po lines
  proof (cases "validate_received lines (rpo_Lines req)")
    case (Some err)
    with s2 assms(2) show ?thesis by (simp add: receive_lines_def lines_ok_def)
  next
    case None
    obtain rs3 x where l: "receive_loop require P now ids req po 0 lines (rpo_Lines req) (q, s2) = (rs3, x)"
      by (cases "receive_loop require P now ids req po 0 lines (rpo_Lines req) (q, s2)")
    have ok2: "lines_ok ?E s2" using assms(2) s2 by (simp add: lines_ok_def)
    then have "lines_ok ?E (snd rs3)"
      using receive_loop_lines_ok [OF assms(5,6), of "(q, s2)" "rpo_Lines req" lines require now ids req po 0] l
        validated_receivable [OF None ok2] sub s2 assms(3,4) by simp
    show ?thesis
    proof (cases x)
      case (Inl err)
      with l None \<open>lines_ok ?E (snd rs3)\<close> show ?thesis by (simp add: receive_lines_def)
    next
      case (Inr out)
      obtain s4 r4 where f: "finish_receive P now req po (fully_received out) (snd rs3) = (s4, r4)"
        by (cases "finish_receive P now req po (fully_received out) (snd rs3)")
      with l None Inr lines_ok_same [OF finish_same_po_lines [OF f], of ?E] \<open>lines_ok ?E (snd rs3)\<close> show ?thesis
        by (simp add: receive_lines_def on_db_def)
    qed
  qed
  have "lines_ok ?E (snd (fst (receive_loaded require P now ids req po (q, s1))))"
    if "st_poLines s1 = st_poLines s" for q s1 po
  proof -
    obtain s2 x where l: "load_lines po s1 = (s2, x)" by (cases "load_lines po s1")
    have "steps same_po_lines (load_lines po)" unfolding load_lines_def by (intro steps_rules same_po_lines_rules)
    from stepsD [OF this l] that have s2: "st_poLines s2 = st_poLines s" by (simp add: same_po_lines_def)
    have "set lines \<subseteq> set (st_poLines s)" if "x = Inr lines" for lines
      using l s2 that by (auto simp: load_lines_def db_query_Inr)
    with loaded [OF s2] lines_ok_same [OF s2, of ?E] lines_ok_same [OF that, of ?E] l assms(2) show ?thesis
      by (cases x) (simp_all add: receive_loaded_def bindE_def on_db_def)
  qed
  note body = this
  have "lines_ok ?E (snd (fst (receive_po require P now ids req (q, s))))" for q
  proof -
    let ?g = "getPOForWrite (pr_TenantID req) (rpo_PurchaseOrderID req)"
    obtain s1 x where g: "?g s = (s1, x)" by (cases "?g s")
    have "steps same_po_lines ?g" unfolding getPOForWrite_def by (intro steps_rules same_po_lines_rules)
    from stepsD [OF this g] have s1: "st_poLines s1 = st_poLines s" by (simp add: same_po_lines_def)
    with body [OF s1] lines_ok_same [OF s1, of ?E] g assms(2) show ?thesis
      by (cases x) (simp_all add: receive_po_def bindE_def on_db_def)
  qed
  with assms(1,2) show ?thesis
    by (auto simp: ReceivePurchaseOrder_def split: prod.splits option.splits) (metis fst_conv snd_conv)
qed

section \<open>A line named twice\<close>

text \<open>
  The inputs are checked one by one against the line as it was loaded, so naming a line twice
  passes whenever naming it once does; the loop then adds both, and the line is left with twice
  the quantity, however little was ordered.
\<close>

theorem repeated_line_over_receives:
  assumes "validate_received lines [\<lparr>rpl_PurchaseOrderLineID = i, rpl_ReceivedQuantity = q\<rparr>] = None"
    and "\<not> f_eq q f_zero" and "find_line i lines = Some line"
  shows "let rl = \<lparr>rpl_PurchaseOrderLineID = i, rpl_ReceivedQuantity = q\<rparr>
    in validate_received lines [rl, rl] = None
       \<and> (\<forall>rs rs' out. receive_loop require P now ids req po k lines [rl, rl] rs = (rs', Inr out)
            \<longrightarrow> find_line i out = Some (line\<lparr>pol_ReceivedQuantity := f_add (f_add (pol_ReceivedQuantity line) q) q\<rparr>))"
proof -
  let ?rl = "\<lparr>rpl_PurchaseOrderLineID = i, rpl_ReceivedQuantity = q\<rparr>"
  let ?n = "f_add (pol_ReceivedQuantity line) q"
  have i: "pol_PurchaseOrderLineID line = i" using find_line_Some [OF assms(3)] by simp
  have "validate_received lines [?rl, ?rl] = None" using assms(1,3) by (auto split: if_splits)
  moreover have "find_line i out = Some (line\<lparr>pol_ReceivedQuantity := f_add ?n q\<rparr>)"
    if "receive_loop require P now ids req po k lines [?rl, ?rl] rs = (rs', Inr out)" for rs rs' out
  proof -
    have first: "find_line i (set_received i ?n lines) = Some (line\<lparr>pol_ReceivedQuantity := ?n\<rparr>)"
      by (rule find_line_same [OF assms(3)])
    from find_line_same [OF first, of "f_add ?n q"]
    have "find_line i (set_received i (f_add ?n q) (set_received i ?n lines))
      = Some (line\<lparr>pol_ReceivedQuantity := f_add ?n q\<rparr>)" by simp
    moreover have "out = set_received i (f_add ?n q) (set_received i ?n lines)"
      using that assms(2,3) first i by (auto simp: Let_def thenE_Inr_iff)
    ultimately show ?thesis by simp
  qed
  ultimately show ?thesis unfolding Let_def by blast
qed

section \<open>Receiving without the stock permission\<close>

definition same_levels :: "'z stock_db_scheme \<Rightarrow> 'z stock_db_scheme \<Rightarrow> bool" where
  "same_levels s s' \<longleftrightarrow> st_items s' = st_items s \<and> st_moves s' = st_moves s"

lemma same_levels_rules: "reflp same_levels" "transp same_levels" "fault_blind same_levels"
  by (auto simp: same_levels_def fault_blind_def intro: reflpI transpI)

lemma AdjustStock_denied:
  "snd (require (inv_request ResourceInventory ActionUpdate a) (fst rs)) \<noteq> None
    \<Longrightarrow> snd (fst (AdjustStock require E now m n a rs)) = snd rs"
  by (auto simp: AdjustStock_def guarded_def split: prod.splits)

lemma receive_loop_same_levels:
  assumes "\<forall>r. snd (require (service_request (pr_ActorID req) (pr_TenantID req) ResourceInventory ActionUpdate) r) \<noteq> None"
  shows "steps (beside same_levels) (receive_loop require P now ids req po k lines rls)"
proof (induction rls arbitrary: k lines)
  case Nil
  show ?case unfolding receive_loop.simps by (intro steps_rules beside_rules same_levels_rules)
next
  case (Cons rl rls)
  have adj: "steps (beside same_levels) (AdjustStock require (pe_stock P) now m n (receipt P req po line rl))" for m n line
    using assms
    by (simp add: steps_def beside_def same_levels_def AdjustStock_denied inv_request_def receipt_def)
  show ?case
    unfolding receive_loop.simps Let_def
    by (intro steps_rules beside_rules same_levels_rules Cons.IH adj steps_on_db) (simp_all add: same_levels_def)
qed

lemma finish_same_levels: "steps same_levels (finish_receive P now req po full)"
proof -
  have upd: "steps same_levels (update_po what i f)" for what i f
    unfolding update_po_def by (intro steps_rules same_levels_rules) (simp add: same_levels_def)
  have aud: "steps same_levels (po_writeAudit P now req ev i)" for ev i
    unfolding po_writeAudit_def by (intro steps_rules same_levels_rules) (simp add: same_levels_def)
  show ?thesis
    unfolding finish_receive_def Let_def by (intro steps_rules steps_outcome same_levels_rules upd aud)
qed

lemma finish_receive_status:
  assumes "finish_receive P now req po full s = (s', Inr po')"
    and "po_Status po = POStateApproved \<or> po_Status po = POStatePartiallyReceived"
  shows "po_Status po' = (if full then POStateReceived else POStatePartiallyReceived)"
proof (cases "full \<or> po_Status po = POStateApproved")
  case False
  with assms show ?thesis by (auto simp: finish_receive_def thenE_Inr_iff)
next
  case True
  let ?ev = "if full then POEventReceiveFull else POEventReceivePartial"
  obtain po1 out where f: "fire (po_fsm_of P) po (po_Status po) (po_envelope P now req ?ev) now now = (po1, out)"
    by (cases "fire (po_fsm_of P) po (po_Status po) (po_envelope P now req ?ev) now now")
  have out: "out = Returned None"
    using assms(1) True f by (cases out; cases "case out of Returned e \<Rightarrow> e | Panicked \<Rightarrow> None")
      (simp_all add: finish_receive_def Let_def split: outcome.splits option.splits)
  from fire_po_edge [of P po now req ?ev now now po1] f out obtain st where
    st: "(po_Status po, ?ev, st) \<in> set po_edges" "po1 = po\<lparr>po_Status := st\<rparr>" by auto
  have "po_Status po' = st"
    using assms(1) True f out st by (auto simp: finish_receive_def Let_def thenE_Inr_iff)
  with st(1) assms(2) True show ?thesis
    by (cases full) (auto simp: po_edges_def state_names)
qed

text \<open>
  A caller who may update purchase orders but not the inventory still receives: the call succeeds
  and moves the order to received or partially received, while no quantity changes and no movement
  is written, because the error of the stock adjustment is dropped.
\<close>

theorem received_without_stock:
  assumes "ReceivePurchaseOrder require P now ids req (r, s) = ((r', s'), Inr po)"
    and "\<forall>r. snd (require (service_request (pr_ActorID req) (pr_TenantID req) ResourceInventory ActionUpdate) r) \<noteq> None"
  shows "st_items s' = st_items s \<and> st_moves s' = st_moves s
    \<and> po_Status po \<in> {POStateReceived, POStatePartiallyReceived}"
proof -
  obtain q where run: "receive_po require P now ids req (q, s) = ((r', s'), Inr po)"
    using assms(1) by (auto simp: ReceivePurchaseOrder_def split: prod.splits option.splits)
  then obtain po0 s1 where 1: "getPOForWrite (pr_TenantID req) (rpo_PurchaseOrderID req) s = (s1, Inr po0)"
    and run1: "receive_loaded require P now ids req po0 (q, s1) = ((r', s'), Inr po)"
    by (auto simp: receive_po_def bindE_Inr_iff on_db_Inr)
  then obtain lines s2 where 2: "load_lines po0 s1 = (s2, Inr lines)"
    and st: "po_Status po0 = POStateApproved \<or> po_Status po0 = POStatePartiallyReceived"
    and run2: "receive_lines require P now ids req po0 lines (q, s2) = ((r', s'), Inr po)"
    by (auto simp: receive_loaded_def bindE_Inr_iff on_db_Inr split: if_splits)
  then obtain q3 s3 out where 3: "receive_loop require P now ids req po0 0 lines (rpo_Lines req) (q, s2) = ((q3, s3), Inr out)"
    and 4: "finish_receive P now req po0 (fully_received out) s3 = (s', Inr po)"
    by (auto simp: receive_lines_def bindE_Inr_iff on_db_Inr split: option.splits)
  have "same_levels s s1" "same_levels s1 s2"
    using 1 2 by (auto simp: getPOForWrite_def load_lines_def db_query_Inr same_levels_def dest!: db_First_InrD db_call_InrD)
  moreover have "same_levels s2 s3"
    using stepsD [OF receive_loop_same_levels [of require req, OF assms(2)] 3] by (simp add: beside_def)
  moreover have "same_levels s3 s'" by (rule stepsD [OF finish_same_levels 4])
  ultimately show ?thesis using finish_receive_status [OF 4 st] by (simp add: same_levels_def)
qed

end
