(* ===== verification/Stock_Examples.thy ===== *)
theory Stock_Examples
  imports Inventory_Outcomes Stock_Records Purchase_Receiving KOT_Examples
begin

text \<open>
  The theorems on stock and purchase orders at work: one restaurant with one kilo-priced item, one
  menu link and one approved purchase order for it.
\<close>

definition ex_senv :: stock_env where
  "ex_senv = \<lparr>se_uuid_String = no_id, se_envelope_id = ''e'', se_numeric = (\<lambda>k x. x)\<rparr>"

definition ex_penv :: po_env where
  "ex_penv = \<lparr>pe_stock = ex_senv, pe_Format_month = (\<lambda>t. ''202603''), pe_month_start = (\<lambda>t. 0),
     pe_next_month_start = (\<lambda>t. 90)\<rparr>"

abbreviation "rice \<equiv> (ada_item ex_item)\<lparr>inv_TenantID := 9, inv_CurrentQuantity := Fin 5\<rparr>"

abbreviation "rice_line \<equiv> \<lparr>pol_PurchaseOrderLineID = 51, pol_PurchaseOrderID = 50, pol_InventoryItemID = 41,
   pol_Quantity = Fin 8, pol_UnitPrice = Fin 2, pol_LineTotal = Fin 16, pol_ReceivedQuantity = Fin 0\<rparr>"

definition stock_room :: stock_db where
  "stock_room = \<lparr>faults = [], db_orders = [], db_kots = [], db_kotItems = [], db_employees = [],
     db_audits = [], rd_counters = [], rd_faults = [], st_items = [rice], st_moves = [],
     st_links = [\<lparr>lk_LinkID = 61, lk_TenantID = 9, lk_MenuItemID = 62, lk_InventoryItemID = 41,
                  lk_QuantityPerUnit = Fin 2, lk_IsActive = True\<rparr>],
     st_vendors = [\<lparr>ven_VendorID = 63, ven_TenantID = 9, ven_Name = ''Mill'', ven_ContactName = '''',
                    ven_Email = '''', ven_Phone = '''', ven_Address = '''', ven_PaymentTerms = '''',
                    ven_IsActive = True\<rparr>],
     st_pos = [\<lparr>po_PurchaseOrderID = 50, po_TenantID = 9, po_RestaurantID = 4, po_VendorID = 63,
                po_OrderNumber = ''PO-202602-000001'', po_OrderDate = 0, po_ExpectedDeliveryDate = None,
                po_ActualDeliveryDate = None, po_Status = POStateApproved, po_TotalAmount = Fin 16,
                po_CreatedBy = 20\<rparr>],
     st_poLines = [rice_line], st_notifications = [], rd_items = [], rd_stats = [], rd_alerts = []\<rparr>"

lemma ex_senv_column [simp]: "se_numeric ex_senv k x = x" "pe_stock ex_penv = ex_senv"
  by (simp_all add: ex_senv_def ex_penv_def)

lemma columns_kept: "sign_kept ex_senv" "order_kept ex_senv"
  by (simp_all add: sign_kept_def order_kept_def)

lemma stock_room_ok: "ledger_ok stock_room" "stock_nonneg stock_room" "lines_ok ex_senv stock_room"
  by (simp_all add: stock_room_def ledger_ok_def last_move_def stock_nonneg_def lines_ok_def line_ok_def)

theorem stats_agree_with_machine_witness:
  "is_ReorderRequired (stats_query (\<lambda>_. Fin 0) 9 4 [rice\<lparr>inv_CurrentQuantity := Fin 2\<rparr>]) = 1"
proof -
  have "is_ReorderRequired (stats_query (\<lambda>_. Fin 0) 9 4 [rice\<lparr>inv_CurrentQuantity := Fin 2\<rparr>])
    = int (length (filter needs_reorder (filter (\<lambda>i. inv_TenantID i = 9 \<and> inv_RestaurantID i = 4)
        [rice\<lparr>inv_CurrentQuantity := Fin 2\<rparr>])))"
    by (rule stats_agree_with_machine) simp
  also have "\<dots> = 1" by code_simp
  finally show ?thesis .
qed

section \<open>Adjustments\<close>

definition ex_adjust :: AdjustStockInput where
  "ex_adjust = \<lparr>ir_TenantID = 9, ir_RestaurantID = 4, ir_ActorID = 20, adj_InventoryItemID = 41,
     adj_QuantityDelta = Fin (- 3), adj_Reason = ''waste'', adj_Notes = '''', adj_ReferenceType = '''',
     adj_ReferenceID = ''''\<rparr>"

definition allow_all :: "AccessRequest \<Rightarrow> unit \<Rightarrow> unit \<times> rbac_error option" where
  "allow_all rq r = (r, None)"

abbreviation "ex_adjusting \<equiv> AdjustStock allow_all ex_senv 7 70 71 ex_adjust ((), stock_room)"

lemma ex_adjusting_result: "map_sum (\<lambda>_. ()) mv_BalanceAfter (snd ex_adjusting) = Inr (Fin 2)"
  by code_simp

theorem AdjustStock_all_or_nothing_witness:
  "\<exists>item \<in> set (st_items stock_room). adjusted ex_senv 7 70 ex_adjust item stock_room (snd (fst ex_adjusting))"
proof -
  obtain move where k: "snd ex_adjusting = Inr move"
    using ex_adjusting_result by (cases "snd ex_adjusting") auto
  have "ex_adjusting = ((fst (fst ex_adjusting), snd (fst ex_adjusting)), snd ex_adjusting)"
    unfolding prod.collapse ..
  from AdjustStock_all_or_nothing [OF this] show ?thesis unfolding k sum.case by blast
qed

theorem stock_ledger_invariant_witness:
  "ledger_ok (snd (fst ex_adjusting)) \<and> stock_nonneg (snd (fst ex_adjusting))
     \<and> (\<exists>new. st_moves (snd (fst ex_adjusting)) = st_moves stock_room @ new)"
proof -
  have "stock_call allow_all ex_senv ((), stock_room) (fst ex_adjusting)"
    by (rule stock_adjust) (rule prod.collapse [symmetric])
  then have calls: "(stock_call allow_all ex_senv)\<^sup>*\<^sup>* ((), stock_room) (fst (fst ex_adjusting), snd (fst ex_adjusting))"
    unfolding prod.collapse by (rule r_into_rtranclp)
  show ?thesis by (rule stock_ledger_invariant [OF calls columns_kept(1) stock_room_ok(1,2)])
qed

text \<open>Two adjustments that overlap leave five less three, not five less six.\<close>

abbreviation "ex_overlap \<equiv> adjust_interleaved ex_senv 7 (70, 71) ex_adjust (72, 73) ex_adjust stock_room"

lemma ex_overlap_result:
  "map_sum (\<lambda>_. ()) (\<lambda>(a, b). (mv_BalanceAfter a, mv_BalanceAfter b)) (snd ex_overlap) = Inr (Fin 2, Fin 2)"
  by code_simp

theorem interleaved_adjustment_lost_witness:
  "\<exists>s' move1 move2. ex_overlap = (s', Inr (move1, move2)) \<and> length (st_moves s') = 2
     \<and> (\<forall>item \<in> set (st_items s'). inv_CurrentQuantity item = f_add (Fin 5) (Fin (- 3)))"
proof -
  obtain s' res where run: "ex_overlap = (s', res)" by (cases ex_overlap)
  obtain move1 move2 where "res = Inr (move1, move2)"
    using ex_overlap_result unfolding run by (cases res) auto
  note run = run [unfolded this]
  from interleaved_adjustment_lost [OF run refl refl stock_room_ok(1)] run show ?thesis
    by (auto simp: stock_room_def ex_adjust_def set_quantity_def update_rows_def ex_item_def)
qed

theorem alert_exactly_when_due_witness:
  "length (st_notifications (fst (evaluateStockTransition ex_senv 7 70 9 (rice\<lparr>inv_CurrentQuantity := Fin 0\<rparr>) stock_room))) = 1
   \<and> st_notifications (fst (evaluateStockTransition ex_senv 7 70 9
        (rice\<lparr>inv_CurrentQuantity := Fin 0, inv_ReorderPoint := None\<rparr>) stock_room)) = []"
proof
  have nn: "faults stock_room = []" "rd_faults stock_room = []" by (simp_all add: stock_room_def)
  show "length (st_notifications (fst (evaluateStockTransition ex_senv 7 70 9 (rice\<lparr>inv_CurrentQuantity := Fin 0\<rparr>) stock_room))) = 1"
    by (subst alert_exactly_when_due [OF nn])
      (simp_all add: alert_due_def live_entry_def ex_item_def stock_room_def)
  show "st_notifications (fst (evaluateStockTransition ex_senv 7 70 9
        (rice\<lparr>inv_CurrentQuantity := Fin 0, inv_ReorderPoint := None\<rparr>) stock_room)) = []"
    by (subst alert_exactly_when_due [OF nn])
      (simp_all add: alert_due_def live_entry_def ex_item_def stock_room_def)
qed

definition ex_deduct :: DeductForOrderInput where
  "ex_deduct = \<lparr>ded_TenantID = 9, ded_RestaurantID = 4, ded_OrderID = 1, ded_Items = [(62, 2)]\<rparr>"

lemma ex_deductions: "order_deductions ex_deduct (st_links stock_room) = [(41, Fin 4)]"
  by code_simp

theorem DeductForOrder_effect_witness:
  "\<exists>s'. DeductForOrder ex_senv 7 (\<lambda>k. (80, 81)) rev ex_deduct stock_room = (s', Inr ())
     \<and> map inv_CurrentQuantity (st_items s') = [Fin 1]"
proof -
  have room: "faults stock_room = []" "st_moves stock_room = []" by (simp_all add: stock_room_def)
  have "\<exists>s'. DeductForOrder ex_senv 7 (\<lambda>k. (80, 81)) rev ex_deduct stock_room = (s', Inr ())
      \<and> st_items s' = map (depleted ex_senv ex_deduct (st_links stock_room)) (st_items stock_room)"
    by (rule DeductForOrder_effect [OF room(1) stock_room_ok(1)])
      (simp_all add: ex_deductions room(2) inj_on_def)
  moreover have "map inv_CurrentQuantity (map (depleted ex_senv ex_deduct (st_links stock_room)) (st_items stock_room))
      = [Fin 1]" by code_simp
  ultimately show ?thesis by auto
qed

section \<open>Purchase orders\<close>

definition ex_purchase :: CreatePOInput where
  "ex_purchase = \<lparr>pr_TenantID = 9, pr_RestaurantID = 4, pr_ActorID = 20, cpo_VendorID = 63,
     cpo_OrderDate = 1, cpo_ExpectedDeliveryDate = None,
     cpo_Lines = [\<lparr>cpl_InventoryItemID = 41, cpl_Quantity = Fin 8, cpl_UnitPrice = Fin 2\<rparr>]\<rparr>"

abbreviation "ex_purchasing \<equiv> CreatePurchaseOrder allow_all ex_penv 7 90 (\<lambda>i. 91 + of_nat i) ex_purchase ((), stock_room)"

lemma ex_purchasing_result:
  "map_sum (\<lambda>_. ()) (\<lambda>po. (po_OrderNumber po, po_TotalAmount po)) (snd ex_purchasing)
     = Inr (''PO-202603-000001'', Fin 16)"
  by code_simp

theorem CreatePurchaseOrder_all_or_nothing_witness:
  "\<exists>po. snd ex_purchasing = Inr po \<and> po_created ex_penv ex_purchase po stock_room (snd (fst ex_purchasing))"
proof -
  obtain po where k: "snd ex_purchasing = Inr po"
    using ex_purchasing_result by (cases "snd ex_purchasing") auto
  have "ex_purchasing = ((fst (fst ex_purchasing), snd (fst ex_purchasing)), snd ex_purchasing)"
    unfolding prod.collapse ..
  from CreatePurchaseOrder_all_or_nothing [OF this] k show ?thesis by (simp only: k sum.case) blast
qed

theorem purchase_orders_follow_machine_witness:
  "distinct (map po_PurchaseOrderID (st_pos (snd (fst ex_purchasing))))
    \<and> grown_from po_identity po_Status po_moves POStateDraft (st_pos stock_room) (st_pos (snd (fst ex_purchasing)))"
proof -
  have "po_call allow_all ex_penv ((), stock_room) (fst ex_purchasing)"
    by (rule po_create) (rule prod.collapse [symmetric])
  then have calls: "(po_call allow_all ex_penv)\<^sup>*\<^sup>* ((), stock_room) (fst (fst ex_purchasing), snd (fst ex_purchasing))"
    unfolding prod.collapse by (rule r_into_rtranclp)
  have "distinct (map po_PurchaseOrderID (st_pos stock_room))" by (simp add: stock_room_def)
  from purchase_orders_follow_machine [OF calls this] show ?thesis .
qed

text \<open>Five of the eight ordered arrive; a clerk without access to the inventory takes them in.\<close>

definition ex_receive :: "ReceivePOLineInput list \<Rightarrow> ReceivePOInput" where
  "ex_receive lines = \<lparr>pr_TenantID = 9, pr_RestaurantID = 4, pr_ActorID = 20, rpo_PurchaseOrderID = 50,
     rpo_Lines = lines\<rparr>"

abbreviation "five_arrive \<equiv> \<lparr>rpl_PurchaseOrderLineID = 51, rpl_ReceivedQuantity = Fin 5\<rparr>"

definition orders_only :: "AccessRequest \<Rightarrow> unit \<Rightarrow> unit \<times> rbac_error option" where
  "orders_only rq r = (r, if req_Resource rq = ResourceInventory then Some (ErrPermissionDenied ''inventory'') else None)"

abbreviation "ex_receiving require \<equiv> ReceivePurchaseOrder require ex_penv 7 (\<lambda>k. (100, 101)) (ex_receive [five_arrive]) ((), stock_room)"

lemma ex_receiving_result:
  "map_sum (\<lambda>_. ()) po_Status (snd (ex_receiving orders_only)) = Inr ''partially_received''"
  by code_simp

theorem received_within_ordered_witness:
  "lines_ok ex_senv (snd (fst (ex_receiving allow_all)))"
proof -
  have run: "ex_receiving allow_all
      = ((fst (fst (ex_receiving allow_all)), snd (fst (ex_receiving allow_all))), snd (ex_receiving allow_all))"
    unfolding prod.collapse ..
  have "lines_ok (pe_stock ex_penv) (snd (fst (ex_receiving allow_all)))"
    by (rule received_within_ordered [OF run]) (simp_all add: stock_room_ok columns_kept ex_receive_def)
  then show ?thesis by simp
qed

theorem received_without_stock_witness:
  "\<exists>po. snd (ex_receiving orders_only) = Inr po \<and> st_items (snd (fst (ex_receiving orders_only))) = st_items stock_room
     \<and> po_Status po \<in> {POStateReceived, POStatePartiallyReceived}"
proof -
  obtain po where k: "snd (ex_receiving orders_only) = Inr po"
    using ex_receiving_result by (cases "snd (ex_receiving orders_only)") auto
  have run: "ex_receiving orders_only
      = ((fst (fst (ex_receiving orders_only)), snd (fst (ex_receiving orders_only))), Inr po)"
    unfolding prod.collapse k [symmetric] ..
  have "\<forall>r. snd (orders_only (service_request (pr_ActorID (ex_receive [five_arrive]))
      (pr_TenantID (ex_receive [five_arrive])) ResourceInventory ActionUpdate) r) \<noteq> None"
    by (simp add: orders_only_def service_request_def)
  from received_without_stock [OF run this] k show ?thesis by blast
qed

text \<open>Five and five of eight.\<close>

theorem repeated_line_over_receives_witness:
  "validate_received [rice_line] [five_arrive, five_arrive] = None
   \<and> (\<exists>rs' out. receive_loop allow_all ex_penv 7 (\<lambda>k. (100 + of_nat (2 * k), 101 + of_nat (2 * k)))
          (ex_receive []) (hd (st_pos stock_room)) 0 [rice_line] [five_arrive, five_arrive] ((), stock_room) = (rs', Inr out)
        \<and> map_option pol_ReceivedQuantity (find_line 51 out) = Some (Fin 10))"
  (is "_ \<and> (\<exists>rs' out. ?run = _ \<and> _)")
proof -
  have "map_sum (\<lambda>_. ()) (\<lambda>_. ()) (snd ?run) = Inr ()" by code_simp
  then obtain out where k: "snd ?run = Inr out" by (cases "snd ?run") auto
  have run: "?run = (fst ?run, Inr out)" unfolding k [symmetric] prod.collapse ..
  have pre: "validate_received [rice_line] [five_arrive] = None" "\<not> f_eq (Fin 5) f_zero"
    "find_line 51 [rice_line] = Some rice_line"
    by code_simp+
  note twice = repeated_line_over_receives [OF pre, unfolded Let_def]
  from twice [THEN conjunct2] run
  have "find_line 51 out = Some (rice_line\<lparr>pol_ReceivedQuantity := f_add (f_add (pol_ReceivedQuantity rice_line) (Fin 5)) (Fin 5)\<rparr>)"
    by blast
  moreover have "f_add (f_add (Fin 0) (Fin 5)) (Fin 5) = Fin 10" by code_simp
  ultimately have "map_option pol_ReceivedQuantity (find_line 51 out) = Some (Fin 10)" by (simp del: f_add.simps)
  with run show ?thesis using twice [THEN conjunct1] by (intro conjI exI)
qed

end
