(* ===== verification/Go_Strconv.thy ===== *)
theory Go_Strconv
  imports Float64 Go_Strings
begin

text \<open>
  The functions of Go's package \<open>strconv\<close> the services use: \<open>ParseBool\<close>, \<open>Atoi\<close> and
  \<open>ParseFloat\<close> for 64 bits.  \<open>None\<close> is an error; the result of a range error is not used by the
  callers.
\<close>

section \<open>Truth values and integers\<close>

definition ParseBool :: "string \<Rightarrow> bool option" where
  "ParseBool s =
     (if s \<in> {''1'', ''t'', ''T'', ''TRUE'', ''true'', ''True''} then Some True
      else if s \<in> {''0'', ''f'', ''F'', ''FALSE'', ''false'', ''False''} then Some False
      else None)"

text \<open>The value of a digit below the base, ten or sixteen.\<close>

definition digit_of :: "nat \<Rightarrow> char \<Rightarrow> nat option" where
  "digit_of base c =
     (let n = of_char (byte_lower c) :: nat;
          d = (if 48 \<le> n \<and> n \<le> 57 then n - 48 else if 97 \<le> n \<and> n \<le> 102 then n - 87 else 99)
      in if d < base then Some d else None)"

definition split_sign :: "string \<Rightarrow> bool \<times> string" where
  "split_sign s =
     (case s of [] \<Rightarrow> (False, [])
      | c # cs \<Rightarrow> if c = CHR ''-'' then (True, cs) else if c = CHR ''+'' then (False, cs) else (False, s))"

fun all_digits :: "nat \<Rightarrow> string \<Rightarrow> nat option" where
  "all_digits acc [] = Some acc"
| "all_digits acc (c # cs) = (case digit_of 10 c of None \<Rightarrow> None | Some d \<Rightarrow> all_digits (10 * acc + d) cs)"

definition Atoi :: "string \<Rightarrow> int option" where
  "Atoi s =
     (let (neg, ds) = split_sign s
      in if ds = [] then None
         else case all_digits 0 ds of
                None \<Rightarrow> None
              | Some n \<Rightarrow>
                  let v = (if neg then - int n else int n)
                  in if - (2 ^ 63) \<le> v \<and> v < 2 ^ 63 then Some v else None)"

section \<open>Floating-point numbers\<close>

text \<open>Digits with one optional point; underscores are skipped here and judged separately.\<close>

fun scan_mantissa :: "nat \<Rightarrow> nat \<Rightarrow> nat option \<Rightarrow> bool \<Rightarrow> string \<Rightarrow> nat \<times> nat option \<times> bool \<times> string" where
  "scan_mantissa base mant decimals saw [] = (mant, decimals, saw, [])"
| "scan_mantissa base mant decimals saw (c # cs) =
     (if c = CHR ''_'' then scan_mantissa base mant decimals saw cs
      else if c = CHR ''.''
      then (if decimals = None then scan_mantissa base mant (Some 0) saw cs else (mant, decimals, saw, c # cs))
      else case digit_of base c of
             None \<Rightarrow> (mant, decimals, saw, c # cs)
           | Some d \<Rightarrow> scan_mantissa base (base * mant + d) (map_option Suc decimals) True cs)"

fun scan_exponent :: "nat \<Rightarrow> string \<Rightarrow> nat \<times> string" where
  "scan_exponent e [] = (e, [])"
| "scan_exponent e (c # cs) =
     (if c = CHR ''_'' then scan_exponent e cs
      else case digit_of 10 c of
             None \<Rightarrow> (e, c # cs)
           | Some d \<Rightarrow> scan_exponent (if e < 10000 then 10 * e + d else e) cs)"

text \<open>An underscore stands between digits, a base prefix counting as one.\<close>

datatype seen = Start | Digit | Underscore | Other

fun underscores_ok :: "nat \<Rightarrow> seen \<Rightarrow> string \<Rightarrow> bool" where
  "underscores_ok base prev [] \<longleftrightarrow> prev \<noteq> Underscore"
| "underscores_ok base prev (c # cs) \<longleftrightarrow>
     (if digit_of base c \<noteq> None then underscores_ok base Digit cs
      else if c = CHR ''_'' then prev = Digit \<and> underscores_ok base Underscore cs
      else prev \<noteq> Underscore \<and> underscores_ok base Other cs)"

definition parse_exponent :: "char \<Rightarrow> string \<Rightarrow> (int \<times> bool) option" where
  "parse_exponent marker s =
     (case s of
        [] \<Rightarrow> Some (0, False)
      | c # cs \<Rightarrow>
          if byte_lower c \<noteq> marker then None
          else let (neg, ds) = split_sign cs
               in case ds of
                    [] \<Rightarrow> None
                  | d # _ \<Rightarrow>
                      if digit_of 10 d = None then None
                      else let (e, rest) = scan_exponent 0 ds
                           in if rest \<noteq> [] then None else Some (if neg then - int e else int e, True))"

definition hex_prefixed :: "string \<Rightarrow> bool" where
  "hex_prefixed s \<longleftrightarrow> 2 < length s \<and> s ! 0 = CHR ''0'' \<and> byte_lower (s ! 1) = CHR ''x''"

text \<open>The exact value of a well-formed literal without its sign.\<close>

definition parse_magnitude :: "string \<Rightarrow> rat option" where
  "parse_magnitude s =
     (let hex = hex_prefixed s;
          base = (if hex then 16 else 10);
          body = (if hex then drop 2 s else s);
          (mant, decimals, saw, rest) = scan_mantissa base 0 None False body;
          places = (case decimals of None \<Rightarrow> 0 | Some k \<Rightarrow> int k)
      in if \<not> saw then None
         else case parse_exponent (if hex then CHR ''p'' else CHR ''e'') rest of
                None \<Rightarrow> None
              | Some (e, present) \<Rightarrow>
                  if hex \<and> \<not> present then None
                  else if \<not> underscores_ok base (if hex then Digit else Start) body then None
                  else Some (of_nat mant * (if hex then 2 powi (e - 4 * places) else 10 powi (e - places))))"

definition ParseFloat :: "string \<Rightarrow> f64 option" where
  "ParseFloat s =
     (let (neg, u) = split_sign s
      in if ToLower u \<in> {''inf'', ''infinity''} then Some (if neg then NegInf else PosInf)
         else if ToLower s = ''nan'' then Some NaN
         else case parse_magnitude u of
                None \<Rightarrow> None
              | Some v \<Rightarrow>
                  (case rnd (if neg then - v else v) of
                     Fin r \<Rightarrow> Some (Fin r)
                   | overflow \<Rightarrow> None))"

end
