(* ===== verification/Settings.thy ===== *)
theory Settings
  imports Inventory_Service Go_Strconv "HOL-Library.Product_Lexorder"
begin

text \<open>
  The settings service (\<open>services/business/settings.go\<close>): the restaurant's profile and the
  key/value settings, both read through Redis.  Nothing the program writes invalidates a cached
  setting, so a reader may see a value for \<open>settingsCacheTTL\<close> after it changed.
\<close>

section \<open>Rows\<close>

text \<open>The columns of the profile that the order pipeline reads.\<close>

record RestaurantProfile =
  prof_ProfileID :: uuid
  prof_RestaurantID :: uuid
  prof_TenantID :: uuid
  prof_CurrencyCode :: string
  prof_ServiceChargePct :: f64
  prof_TaxInclusivePricing :: bool
  prof_DefaultTaxRate :: f64
  prof_AlcoholTaxRate :: f64

record TenantSetting =
  ts_SettingID :: uuid
  ts_TenantID :: uuid
  ts_Key :: string
  ts_Value :: string

record SettingOverride =
  so_OverrideID :: uuid
  so_TenantID :: uuid
  so_RestaurantID :: "uuid option"
  so_Key :: string
  so_Value :: string
  so_Priority :: int

record settings_db = stock_db +
  cfg_profiles :: "RestaurantProfile list"
  cfg_settings :: "TenantSetting list"
  cfg_overrides :: "SettingOverride list"
  rd_profiles :: "RestaurantProfile rcache"
  rd_settings :: "string rcache"

datatype settings_error =
    ProfileNotFound uuid
  | SettingNotFound string
  | SettingUnparsable string string
  | SettingsWrapped string string

definition settingsCacheTTL :: int where
  "settingsCacheTTL = minutes 2"

definition settingsProfileTTL :: int where
  "settingsProfileTTL = minutes 5"

section \<open>The profile\<close>

definition profileCacheKey :: "(uuid \<Rightarrow> string) \<Rightarrow> uuid \<Rightarrow> string" where
  "profileCacheKey us restaurantID = ''profile:'' @ us restaurantID"

definition GetRestaurantProfile ::
    "(uuid \<Rightarrow> string) \<Rightarrow> gotime \<Rightarrow> uuid \<Rightarrow> ('z settings_db_scheme, settings_error, RestaurantProfile) op" where
  "GetRestaurantProfile us now restaurantID =
     bindE (try_get (redis_Get now rd_profiles (profileCacheKey us restaurantID))) (\<lambda>cached.
       case cached of
         Some p \<Rightarrow> ret p
       | None \<Rightarrow>
           bindE (db_First (ProfileNotFound restaurantID) (SettingsWrapped ''GetRestaurantProfile'')
                    prof_ProfileID cfg_profiles (\<lambda>p. prof_RestaurantID p = restaurantID)) (\<lambda>p.
             thenE (ignore (redis_Set now rd_profiles_update (profileCacheKey us restaurantID) p settingsProfileTTL))
               (ret p)))"

definition InvalidateProfileCache ::
    "(uuid \<Rightarrow> string) \<Rightarrow> uuid \<Rightarrow> ('z settings_db_scheme, 'e, unit) op" where
  "InvalidateProfileCache us restaurantID = ignore (redis_Del rd_profiles_update (profileCacheKey us restaurantID))"

section \<open>Settings\<close>

definition buildSettingCacheKey :: "(uuid \<Rightarrow> string) \<Rightarrow> uuid \<Rightarrow> uuid option \<Rightarrow> string \<Rightarrow> string" where
  "buildSettingCacheKey us tenantID restaurantID key =
     (case restaurantID of
        Some r \<Rightarrow> ''setting:'' @ us tenantID @ '':'' @ us r @ '':'' @ key
      | None \<Rightarrow> ''setting:'' @ us tenantID @ '':tenant:'' @ key)"

text \<open>The override of the restaurant with the highest priority, or the tenant's setting.\<close>

definition find_override ::
    "uuid \<Rightarrow> uuid option \<Rightarrow> string \<Rightarrow> ('z settings_db_scheme, settings_error, string option) op" where
  "find_override tenantID restaurantID key =
     (case restaurantID of
        None \<Rightarrow> ret None
      | Some r \<Rightarrow>
          bindE (db_find (SettingsWrapped ''setting override lookup'') (\<lambda>o'. (- so_Priority o', so_OverrideID o'))
                   cfg_overrides (\<lambda>o'. so_TenantID o' = tenantID \<and> so_RestaurantID o' = Some r \<and> so_Key o' = key))
            (\<lambda>found. ret (map_option so_Value found)))"

definition find_setting ::
    "uuid \<Rightarrow> string \<Rightarrow> ('z settings_db_scheme, settings_error, string option) op" where
  "find_setting tenantID key =
     bindE (db_find (SettingsWrapped ''tenant setting lookup'') ts_SettingID cfg_settings
              (\<lambda>t. ts_TenantID t = tenantID \<and> ts_Key t = key))
       (\<lambda>found. ret (map_option ts_Value found))"

definition read_setting ::
    "uuid \<Rightarrow> uuid option \<Rightarrow> string \<Rightarrow> ('z settings_db_scheme, settings_error, string) op" where
  "read_setting tenantID restaurantID key =
     bindE (find_override tenantID restaurantID key) (\<lambda>override.
       case override of
         Some value \<Rightarrow> ret value
       | None \<Rightarrow>
           bindE (find_setting tenantID key) (\<lambda>setting.
             case setting of Some value \<Rightarrow> ret value | None \<Rightarrow> throw (SettingNotFound key)))"

definition GetSetting ::
    "(uuid \<Rightarrow> string) \<Rightarrow> gotime \<Rightarrow> uuid \<Rightarrow> uuid option \<Rightarrow> string \<Rightarrow> ('z settings_db_scheme, settings_error, string) op" where
  "GetSetting us now tenantID restaurantID key =
     (let cacheKey = buildSettingCacheKey us tenantID restaurantID key
      in bindE (try_get (redis_Get now rd_settings cacheKey)) (\<lambda>cached.
           case cached of
             Some value \<Rightarrow> ret value
           | None \<Rightarrow>
               bindE (read_setting tenantID restaurantID key) (\<lambda>value.
                 thenE (ignore (redis_Set now rd_settings_update cacheKey value settingsCacheTTL))
                   (ret value))))"

definition parsed ::
    "(string \<Rightarrow> 'a option) \<Rightarrow> string \<Rightarrow> ('s, settings_error, string) op \<Rightarrow> ('s, settings_error, 'a) op" where
  "parsed parse key m =
     bindE m (\<lambda>raw. case parse raw of None \<Rightarrow> throw (SettingUnparsable key raw) | Some v \<Rightarrow> ret v)"

definition GetBool ::
    "(uuid \<Rightarrow> string) \<Rightarrow> gotime \<Rightarrow> uuid \<Rightarrow> uuid option \<Rightarrow> string \<Rightarrow> ('z settings_db_scheme, settings_error, bool) op" where
  "GetBool us now tenantID restaurantID key = parsed ParseBool key (GetSetting us now tenantID restaurantID key)"

definition GetFloat ::
    "(uuid \<Rightarrow> string) \<Rightarrow> gotime \<Rightarrow> uuid \<Rightarrow> uuid option \<Rightarrow> string \<Rightarrow> ('z settings_db_scheme, settings_error, f64) op" where
  "GetFloat us now tenantID restaurantID key = parsed ParseFloat key (GetSetting us now tenantID restaurantID key)"

definition GetInt ::
    "(uuid \<Rightarrow> string) \<Rightarrow> gotime \<Rightarrow> uuid \<Rightarrow> uuid option \<Rightarrow> string \<Rightarrow> ('z settings_db_scheme, settings_error, int) op" where
  "GetInt us now tenantID restaurantID key = parsed Atoi key (GetSetting us now tenantID restaurantID key)"

text \<open>\<open>v, err := ...; if err != nil { v = fallback }\<close>.\<close>

definition or_else :: "('s, 'e, 'a) op \<Rightarrow> 'a \<Rightarrow> ('s, 'f, 'a) op" where
  "or_else m fallback s = (fst (m s), Inr (case snd (m s) of Inl _ \<Rightarrow> fallback | Inr v \<Rightarrow> v))"

lemma steps_or_else [steps_rules]: "steps R m \<Longrightarrow> steps R (or_else m fallback)"
  by (simp add: steps_def or_else_def)

text \<open>\<open>fmt.Errorf("what: %w", err)\<close>.\<close>

definition wrapE :: "('e \<Rightarrow> 'f) \<Rightarrow> ('s, 'e, 'a) op \<Rightarrow> ('s, 'f, 'a) op" where
  "wrapE f m s = (fst (m s), case snd (m s) of Inl e \<Rightarrow> Inl (f e) | Inr v \<Rightarrow> Inr v)"

lemma steps_wrapE [steps_rules]: "steps R m \<Longrightarrow> steps R (wrapE f m)"
  by (simp add: steps_def wrapE_def)

lemma wrapE_Inr: "wrapE f m s = (s', Inr v) \<longleftrightarrow> m s = (s', Inr v)"
  by (cases "m s") (auto simp: wrapE_def split: sum.splits)

end
