(* ===== verification/Taxes.thy ===== *)
theory Taxes
  imports Settings
begin

text \<open>
  The tax calculator (\<open>services/business/Taxes.go\<close>).  The configuration is read from the profile and
  four settings; the amounts are then computed from it without further calls, here in
  \<open>compute_tax\<close>.
\<close>

section \<open>Items and results\<close>

record ModifierForTax =
  mt_Name :: string
  mt_AdditionalPrice :: f64

record OrderItemForTax =
  it_ItemName :: string
  it_UnitPrice :: f64
  it_Quantity :: int
  it_TaxCategory :: string
  it_Modifiers :: "ModifierForTax list"

record ItemTaxDetail =
  td_ItemName :: string
  td_Quantity :: int
  td_UnitPrice :: f64
  td_LineTotal :: f64
  td_TaxRate :: f64
  td_TaxAmount :: f64
  td_TaxCategory :: string

record TaxBreakdown =
  tb_SubtotalBeforeTax :: f64
  tb_ServiceChargeAmount :: f64
  tb_TaxableAmount :: f64
  tb_TotalTaxAmount :: f64
  tb_GrandTotal :: f64
  tb_StandardTaxAmount :: f64
  tb_AlcoholTaxAmount :: f64
  tb_TaxIncludedInPrice :: bool
  tb_TaxRate :: f64
  tb_ItemTaxBreakdown :: "ItemTaxDetail list"

record TaxConfiguration =
  tc_TaxEnabled :: bool
  tc_TaxInclusivePricing :: bool
  tc_DefaultTaxRate :: f64
  tc_AlcoholTaxRate :: f64
  tc_TakeawayTaxRate :: f64
  tc_ServiceChargeBeforeTax :: bool
  tc_RoundTaxAmount :: bool
  tc_ShowTaxBreakdown :: bool
  tc_TaxLabel :: string

section \<open>Configuration\<close>

abbreviation hundred :: f64 where
  "hundred \<equiv> Fin 100"

definition tax_configuration :: "RestaurantProfile \<Rightarrow> bool \<Rightarrow> string \<Rightarrow> f64 \<Rightarrow> bool \<Rightarrow> TaxConfiguration" where
  "tax_configuration profile taxEnabled taxLabel takeawayTaxRate serviceChargeBeforeTax =
     \<lparr>tc_TaxEnabled = taxEnabled, tc_TaxInclusivePricing = prof_TaxInclusivePricing profile,
      tc_DefaultTaxRate = f_div (prof_DefaultTaxRate profile) hundred,
      tc_AlcoholTaxRate = f_div (prof_AlcoholTaxRate profile) hundred,
      tc_TakeawayTaxRate = f_div takeawayTaxRate hundred,
      tc_ServiceChargeBeforeTax = serviceChargeBeforeTax, tc_RoundTaxAmount = True,
      tc_ShowTaxBreakdown = True, tc_TaxLabel = taxLabel\<rparr>"

definition GetTaxConfiguration ::
    "(uuid \<Rightarrow> string) \<Rightarrow> gotime \<Rightarrow> uuid \<Rightarrow> uuid \<Rightarrow> ('z settings_db_scheme, settings_error, TaxConfiguration) op" where
  "GetTaxConfiguration us now tenantID restaurantID =
     bindE (GetRestaurantProfile us now restaurantID) (\<lambda>profile.
     bindE (or_else (GetBool us now tenantID (Some restaurantID) ''tax_enabled'') True) (\<lambda>taxEnabled.
     bindE (or_else (GetSetting us now tenantID (Some restaurantID) ''tax_label'') ''Tax'') (\<lambda>taxLabel.
     bindE (or_else (GetFloat us now tenantID (Some restaurantID) ''takeaway_tax_rate'')
              (prof_DefaultTaxRate profile)) (\<lambda>takeawayTaxRate.
     bindE (or_else (GetBool us now tenantID (Some restaurantID) ''service_charge_before_tax'') True)
       (\<lambda>serviceChargeBeforeTax.
       ret (tax_configuration profile taxEnabled taxLabel takeawayTaxRate serviceChargeBeforeTax))))))"

section \<open>Computation\<close>

definition roundTo2Decimals :: "f64 \<Rightarrow> f64" where
  "roundTo2Decimals value = f_div (f_of_int (f_to_int (f_add (f_mul value hundred) (Fin (1 / 2))))) hundred"

fun line_loop :: "f64 \<Rightarrow> int \<Rightarrow> ModifierForTax list \<Rightarrow> f64" where
  "line_loop lineTotal quantity [] = lineTotal"
| "line_loop lineTotal quantity (m # ms) =
     line_loop (f_add lineTotal (f_mul (mt_AdditionalPrice m) (f_of_int quantity))) quantity ms"

definition line_total :: "OrderItemForTax \<Rightarrow> f64" where
  "line_total item =
     line_loop (f_mul (it_UnitPrice item) (f_of_int (it_Quantity item))) (it_Quantity item) (it_Modifiers item)"

definition line_detail :: "OrderItemForTax \<Rightarrow> ItemTaxDetail" where
  "line_detail item = \<lparr>td_ItemName = it_ItemName item, td_Quantity = it_Quantity item,
     td_UnitPrice = it_UnitPrice item, td_LineTotal = line_total item, td_TaxRate = f_zero,
     td_TaxAmount = f_zero, td_TaxCategory = it_TaxCategory item\<rparr>"

fun subtotal_loop :: "f64 \<Rightarrow> OrderItemForTax list \<Rightarrow> f64" where
  "subtotal_loop subtotal [] = subtotal"
| "subtotal_loop subtotal (item # items) = subtotal_loop (f_add subtotal (line_total item)) items"

definition start_breakdown :: "TaxConfiguration \<Rightarrow> OrderItemForTax list \<Rightarrow> TaxBreakdown" where
  "start_breakdown config items = \<lparr>tb_SubtotalBeforeTax = subtotal_loop f_zero items,
     tb_ServiceChargeAmount = f_zero, tb_TaxableAmount = f_zero, tb_TotalTaxAmount = f_zero,
     tb_GrandTotal = f_zero, tb_StandardTaxAmount = f_zero, tb_AlcoholTaxAmount = f_zero,
     tb_TaxIncludedInPrice = tc_TaxInclusivePricing config, tb_TaxRate = f_zero,
     tb_ItemTaxBreakdown = map line_detail items\<rparr>"

definition included_rate :: "TaxConfiguration \<Rightarrow> string \<Rightarrow> f64" where
  "included_rate config category =
     (if category = ''alcohol'' then tc_AlcoholTaxRate config
      else if category = ''exempt'' then f_zero
      else tc_DefaultTaxRate config)"

definition item_rate :: "TaxConfiguration \<Rightarrow> string \<Rightarrow> string \<Rightarrow> f64" where
  "item_rate config orderType category =
     (if category = ''alcohol'' then tc_AlcoholTaxRate config
      else if category = ''takeaway''
      then (if orderType = ''takeaway'' \<or> orderType = ''delivery''
            then tc_TakeawayTaxRate config else tc_DefaultTaxRate config)
      else if category = ''exempt'' then f_zero
      else tc_DefaultTaxRate config)"

text \<open>One step of either loop: the rate and the tax of an item, added to its category's sum.\<close>

definition add_tax :: "string \<Rightarrow> f64 \<Rightarrow> TaxBreakdown \<Rightarrow> TaxBreakdown" where
  "add_tax category tax b =
     (if category = ''alcohol'' then b\<lparr>tb_AlcoholTaxAmount := f_add (tb_AlcoholTaxAmount b) tax\<rparr>
      else b\<lparr>tb_StandardTaxAmount := f_add (tb_StandardTaxAmount b) tax\<rparr>)
     \<lparr>tb_TotalTaxAmount := f_add (tb_TotalTaxAmount b) tax\<rparr>"

definition set_item_tax :: "nat \<Rightarrow> f64 \<Rightarrow> f64 \<Rightarrow> TaxBreakdown \<Rightarrow> TaxBreakdown" where
  "set_item_tax i rate tax b = b\<lparr>tb_ItemTaxBreakdown := (tb_ItemTaxBreakdown b)[i :=
     (tb_ItemTaxBreakdown b ! i)\<lparr>td_TaxRate := rate, td_TaxAmount := tax\<rparr>]\<rparr>"

fun included_loop :: "TaxConfiguration \<Rightarrow> nat \<Rightarrow> OrderItemForTax list \<Rightarrow> TaxBreakdown \<Rightarrow> TaxBreakdown" where
  "included_loop config i [] b = b"
| "included_loop config i (item # items) b =
     (let rate = included_rate config (it_TaxCategory item);
          lineTotal = td_LineTotal (tb_ItemTaxBreakdown b ! i);
          tax = f_sub lineTotal (f_div lineTotal (f_add (Fin 1) rate))
      in included_loop config (Suc i) items
           (add_tax (it_TaxCategory item) tax (set_item_tax i rate tax b)))"

fun item_tax_loop ::
    "TaxConfiguration \<Rightarrow> string \<Rightarrow> nat \<Rightarrow> OrderItemForTax list \<Rightarrow> TaxBreakdown \<Rightarrow> TaxBreakdown" where
  "item_tax_loop config orderType i [] b = b"
| "item_tax_loop config orderType i (item # items) b =
     (let rate = item_rate config orderType (it_TaxCategory item);
          tax = f_mul (td_LineTotal (tb_ItemTaxBreakdown b ! i)) rate
      in item_tax_loop config orderType (Suc i) items
           (add_tax (it_TaxCategory item) tax (set_item_tax i rate tax b)))"

definition round_taxes :: "TaxBreakdown \<Rightarrow> TaxBreakdown" where
  "round_taxes b = b\<lparr>tb_TotalTaxAmount := roundTo2Decimals (tb_TotalTaxAmount b),
     tb_StandardTaxAmount := roundTo2Decimals (tb_StandardTaxAmount b),
     tb_AlcoholTaxAmount := roundTo2Decimals (tb_AlcoholTaxAmount b)\<rparr>"

definition extractIncludedTax :: "TaxConfiguration \<Rightarrow> OrderItemForTax list \<Rightarrow> TaxBreakdown \<Rightarrow> TaxBreakdown" where
  "extractIncludedTax config items b =
     (let b = round_taxes (included_loop config 0 items b)
      in b\<lparr>tb_TaxableAmount := f_sub (tb_SubtotalBeforeTax b) (tb_TotalTaxAmount b),
           tb_GrandTotal := tb_SubtotalBeforeTax b\<rparr>)"

definition service_charge :: "TaxConfiguration \<Rightarrow> f64 \<Rightarrow> TaxBreakdown \<Rightarrow> TaxBreakdown" where
  "service_charge config serviceChargePct b =
     (let subtotal = tb_SubtotalBeforeTax b;
          charge = f_mul subtotal (f_div serviceChargePct hundred)
      in if f_gt serviceChargePct f_zero
         then b\<lparr>tb_ServiceChargeAmount := charge,
                tb_TaxableAmount := (if tc_ServiceChargeBeforeTax config then f_add subtotal charge else subtotal)\<rparr>
         else b\<lparr>tb_TaxableAmount := subtotal\<rparr>)"

definition service_charge_tax :: "TaxConfiguration \<Rightarrow> f64 \<Rightarrow> TaxBreakdown \<Rightarrow> TaxBreakdown" where
  "service_charge_tax config serviceChargePct b =
     (let tax = f_mul (tb_ServiceChargeAmount b) (tc_DefaultTaxRate config)
      in if tc_ServiceChargeBeforeTax config \<and> f_gt serviceChargePct f_zero
         then b\<lparr>tb_StandardTaxAmount := f_add (tb_StandardTaxAmount b) tax,
                tb_TotalTaxAmount := f_add (tb_TotalTaxAmount b) tax\<rparr>
         else b)"

definition grand_total :: "TaxConfiguration \<Rightarrow> f64 \<Rightarrow> TaxBreakdown \<Rightarrow> TaxBreakdown" where
  "grand_total config serviceChargePct b =
     (let sum = f_add (tb_SubtotalBeforeTax b) (tb_TotalTaxAmount b);
          sum = (if \<not> tc_ServiceChargeBeforeTax config \<and> f_gt serviceChargePct f_zero
                 then f_add sum (tb_ServiceChargeAmount b) else sum)
      in b\<lparr>tb_GrandTotal := roundTo2Decimals sum\<rparr>)"

definition compute_tax :: "TaxConfiguration \<Rightarrow> string \<Rightarrow> OrderItemForTax list \<Rightarrow> f64 \<Rightarrow> TaxBreakdown" where
  "compute_tax config orderType items serviceChargePct =
     (let b = start_breakdown config items
      in if tc_TaxInclusivePricing config then extractIncludedTax config items b
         else if \<not> tc_TaxEnabled config
         then b\<lparr>tb_TaxableAmount := tb_SubtotalBeforeTax b, tb_GrandTotal := tb_SubtotalBeforeTax b\<rparr>
         else let b = item_tax_loop config orderType 0 items (service_charge config serviceChargePct b);
                  b = service_charge_tax config serviceChargePct b
              in grand_total config serviceChargePct (if tc_RoundTaxAmount config then round_taxes b else b))"

definition CalculateTax ::
    "(uuid \<Rightarrow> string) \<Rightarrow> gotime \<Rightarrow> uuid \<Rightarrow> uuid \<Rightarrow> string \<Rightarrow> OrderItemForTax list \<Rightarrow> f64
       \<Rightarrow> ('z settings_db_scheme, settings_error, TaxBreakdown) op" where
  "CalculateTax us now tenantID restaurantID orderType items serviceChargePct =
     bindE (GetTaxConfiguration us now tenantID restaurantID) (\<lambda>config.
       ret (compute_tax config orderType items serviceChargePct))"

section \<open>Categories\<close>

text \<open>
  The flags of a menu item, a JSON object: a flag counts when it is \<open>true\<close>, the string, or
  prints so.  Only the scalar values matter; an array or an object prints in brackets.
\<close>

datatype json_value = JBool bool | JString string | JNumber f64 | JNull | JCompound

definition isFlagTrue :: "(string \<times> json_value) list \<Rightarrow> string \<Rightarrow> bool" where
  "isFlagTrue flags key =
     (case map_of flags key of
        None \<Rightarrow> False
      | Some (JBool b) \<Rightarrow> b
      | Some (JString s) \<Rightarrow> s = ''true''
      | Some _ \<Rightarrow> False)"

definition DetermineTaxCategory :: "(string \<times> json_value) list \<Rightarrow> string" where
  "DetermineTaxCategory flags =
     (if isFlagTrue flags ''alcohol'' then ''alcohol''
      else if isFlagTrue flags ''tax_exempt'' then ''exempt''
      else if isFlagTrue flags ''takeaway_eligible'' then ''takeaway''
      else ''standard'')"

end
