(* ===== verification/Float_Error.thy ===== *)
theory Float_Error
  imports Float64
begin

text \<open>
  Error analysis for \<open>float64\<close> expressions without cancellation.  \<open>approx k s x a\<close> says that \<open>a\<close>
  is a computed value of the exact number \<open>x\<close> behind at most \<open>k\<close> roundings, and that \<open>x\<close> is zero
  or between \<open>2^-s\<close> and \<open>2^s\<close>, so that no rounding under- or overflowed.
\<close>

section \<open>One rounding\<close>

definition ulp :: rat where
  "ulp = 1 / 2 ^ 53"

lemma ulp_bounds: "0 < ulp" "ulp < 1" "ulp \<le> 1"
  by (simp_all add: ulp_def)

lemma round_rat_rel:
  assumes "2 powi (- 1022) \<le> x"
  shows "\<bar>round_rat x - x\<bar> \<le> x * ulp"
proof -
  have pos: "0 < x" using assms by (rule less_le_trans [rotated]) simp
  have lo: "2 powi ilog2 x \<le> x" and hi: "x < 2 powi (ilog2 x + 1)" using ilog2_bounds [OF pos] by auto
  from assms hi have "(2::rat) powi (- 1022) < 2 powi (ilog2 x + 1)" by linarith
  then have "- 1022 \<le> ilog2 x" unfolding powi_less_cancel by linarith
  then have q: "quantum x = ilog2 x - 52" using pos by (simp add: quantum_def)
  let ?p = "2 powi quantum x :: rat"
  have p: "0 < ?p" by simp
  have "round_rat x - x = (of_int (rne (x / ?p)) - x / ?p) * ?p"
    using pos by (simp add: round_rat_def algebra_simps)
  then have "\<bar>round_rat x - x\<bar> = \<bar>of_int (rne (x / ?p)) - x / ?p\<bar> * ?p"
    using p by (simp add: abs_mult)
  also have "\<dots> \<le> 1 / 2 * ?p" using rne_error [of "x / ?p"] p by (rule mult_right_mono [OF _ less_imp_le])
  also have "\<dots> = 2 powi ilog2 x * ulp" unfolding q ulp_def by (simp add: power_int_diff)
  also have "\<dots> \<le> x * ulp" using lo ulp_bounds by (simp add: mult_right_mono)
  finally show ?thesis .
qed

lemma rnd_rel:
  assumes "2 powi (- 1022) \<le> x" and "x \<le> 2 ^ 1000"
  obtains r where "rnd x = Fin r" and "x * (1 - ulp) \<le> r" and "r \<le> x * (1 + ulp)"
proof -
  note e = round_rat_rel [OF assms(1)]
  have pos: "0 < x" using assms(1) by (rule less_le_trans [rotated]) simp
  have lo: "x * (1 - ulp) \<le> round_rat x" and hi: "round_rat x \<le> x * (1 + ulp)"
    using e by (simp_all add: abs_le_iff algebra_simps)
  have "x * (1 + ulp) \<le> 2 ^ 1000 * 2" using assms(2) pos ulp_bounds by (intro mult_mono) simp_all
  also have "\<dots> < f64_limit" unfolding f64_limit_def
    using power_strict_increasing [of 1001 1024 "2::rat"] by simp
  finally have "round_rat x < f64_limit" using hi by simp
  moreover have "0 \<le> round_rat x" using pos by (simp add: round_rat_nonneg)
  then have "- f64_limit < round_rat x" using f64_limit_pos(1) by linarith
  ultimately have "rnd x = Fin (round_rat x)" by (simp add: rnd_def Let_def)
  with that lo hi show ?thesis by blast
qed

section \<open>Sizes\<close>

definition sized :: "nat \<Rightarrow> rat \<Rightarrow> bool" where
  "sized s x \<longleftrightarrow> x = 0 \<or> 1 / 2 ^ s \<le> x \<and> x \<le> 2 ^ s"

lemma sized_nonneg: "sized s x \<Longrightarrow> 0 \<le> x"
  by (auto simp: sized_def intro: order_trans [rotated])

lemma sized_zero [simp]: "sized s 0"
  by (simp add: sized_def)

lemma sized_mono:
  assumes "sized s x" and "s \<le> t"
  shows "sized t x"
proof -
  have "(2::rat) ^ s \<le> 2 ^ t" using assms(2) by (rule power_increasing) simp
  moreover from this have "1 / (2::rat) ^ t \<le> 1 / 2 ^ s" by (simp add: frac_le)
  ultimately show ?thesis using assms(1) by (auto simp: sized_def intro: order_trans)
qed

lemma sized_add:
  assumes "sized s x" and "sized s y"
  shows "sized (Suc s) (x + y)"
proof (cases "x = 0 \<or> y = 0")
  case True
  with assms sized_mono [of s _ "Suc s"] show ?thesis by auto
next
  case False
  with assms have "1 / 2 ^ s \<le> x" "x \<le> 2 ^ s" "1 / 2 ^ s \<le> y" "y \<le> 2 ^ s" by (auto simp: sized_def)
  moreover have "1 / (2::rat) ^ Suc s \<le> 1 / 2 ^ s" "(0::rat) \<le> 1 / 2 ^ s" by (simp_all add: field_simps)
  ultimately have "1 / (2::rat) ^ Suc s \<le> x + y" "x + y \<le> 2 * 2 ^ s" by linarith+
  then show ?thesis unfolding sized_def power_Suc by blast
qed

lemma sized_mult:
  assumes "sized s x" and "sized t y"
  shows "sized (s + t) (x * y)"
proof (cases "x = 0 \<or> y = 0")
  case True
  then show ?thesis by auto
next
  case False
  with assms have b: "1 / 2 ^ s \<le> x" "x \<le> 2 ^ s" "1 / 2 ^ t \<le> y" "y \<le> 2 ^ t" by (auto simp: sized_def)
  have "1 / 2 ^ s * (1 / 2 ^ t) \<le> x * y" using b by (intro mult_mono) (simp_all add: sized_nonneg [OF assms(1)])
  moreover have "x * y \<le> 2 ^ s * 2 ^ t"
    using b sized_nonneg [OF assms(1)] sized_nonneg [OF assms(2)] by (intro mult_mono) simp_all
  ultimately show ?thesis by (simp add: sized_def power_add)
qed

section \<open>Many roundings\<close>

definition approx :: "nat \<Rightarrow> nat \<Rightarrow> rat \<Rightarrow> f64 \<Rightarrow> bool" where
  "approx k s x a \<longleftrightarrow> sized s x \<and> (\<exists>r. a = Fin r \<and> x * (1 - ulp) ^ k \<le> r \<and> r \<le> x * (1 + ulp) ^ k)"

lemma approx_exact: "sized s x \<Longrightarrow> approx 0 s x (Fin x)"
  by (simp add: approx_def)

lemma approx_sized: "approx k s x a \<Longrightarrow> sized s x"
  by (simp add: approx_def)

lemma approx_nonneg: "approx k s x a \<Longrightarrow> 0 \<le> x"
  by (rule sized_nonneg [OF approx_sized])

lemma lower_power:
  assumes "k \<le> 1000"
  shows "1 / 2 \<le> (1 - ulp) ^ k" and "(1 + ulp) ^ k \<le> 2"
proof -
  have ku: "of_nat k * ulp \<le> 1 / 4"
  proof -
    have "of_nat k * ulp \<le> 1000 * ulp" using assms ulp_bounds by (intro mult_right_mono) simp_all
    then show ?thesis by (simp add: ulp_def)
  qed
  have "1 + of_nat k * (- ulp) \<le> (1 + - ulp) ^ k" by (rule Bernoulli_inequality) (simp add: ulp_def)
  with ku have l: "1 / 2 \<le> (1 - ulp) ^ k" by simp
  then show "1 / 2 \<le> (1 - ulp) ^ k" .
  have "(1 + ulp) ^ k * (1 - ulp) ^ k = (1 - ulp * ulp) ^ k"
    by (simp flip: power_mult_distrib add: algebra_simps)
  also have "\<dots> \<le> 1" by (rule power_le_one) (simp_all add: ulp_def)
  finally have "(1 + ulp) ^ k * (1 - ulp) ^ k \<le> 1" .
  moreover have "(1 + ulp) ^ k * (1 / 2) \<le> (1 + ulp) ^ k * (1 - ulp) ^ k"
    using l ulp_bounds by (intro mult_left_mono) simp_all
  ultimately show "(1 + ulp) ^ k \<le> 2" by linarith
qed

lemma approx_mono:
  assumes "approx j s x a" and "j \<le> k" and "s \<le> t"
  shows "approx k t x a"
proof -
  from assms(1) have nn: "0 \<le> x" by (rule approx_nonneg)
  have "(1 - ulp) ^ k \<le> (1 - ulp) ^ j" using assms(2) ulp_bounds by (intro power_decreasing) simp_all
  then have "x * (1 - ulp) ^ k \<le> x * (1 - ulp) ^ j" using nn by (rule mult_left_mono)
  moreover have "(1 + ulp) ^ j \<le> (1 + ulp) ^ k" using assms(2) ulp_bounds by (intro power_increasing) simp_all
  then have "x * (1 + ulp) ^ j \<le> x * (1 + ulp) ^ k" using nn by (rule mult_left_mono)
  ultimately show ?thesis using assms sized_mono [of s x t] by (auto simp: approx_def)
qed

text \<open>The step all operations share: one more rounding of a value already near \<open>x\<close>.\<close>

lemma approx_rnd:
  assumes "sized s x" and "x * (1 - ulp) ^ k \<le> v" and "v \<le> x * (1 + ulp) ^ k" and "k \<le> 1000" and "s \<le> 900"
  shows "approx (Suc k) s x (rnd v)"
proof (cases "x = 0")
  case True
  with assms(2,3) have "v = 0" by simp
  then show ?thesis using True by (simp add: approx_def rnd_small)
next
  case False
  with assms(1) have x: "1 / 2 ^ s \<le> x" "x \<le> 2 ^ s" "0 \<le> x" by (auto simp: sized_def sized_nonneg)
  note p = lower_power [OF assms(4)]
  have "(2::rat) ^ s \<le> 2 ^ 900" using assms(5) by (rule power_increasing) simp
  then have "1 / (2::rat) ^ 900 \<le> 1 / 2 ^ s" by (intro frac_le) simp_all
  have "2 powi (- 1022) \<le> (1 / 2 ^ 900) * (1 / 2 :: rat)"
    using power_increasing [of 901 1022 "2::rat"] by (simp add: power_int_minus divide_simps)
  also have "\<dots> \<le> x * (1 - ulp) ^ k"
    by (rule mult_mono) (use x(3) p(1) order_trans [OF \<open>1 / (2::rat) ^ 900 \<le> 1 / 2 ^ s\<close> x(1)] in \<open>simp_all only: zero_le_divide_1_iff zero_le_power zero_le_numeral\<close>)
  also note assms(2)
  finally have lo: "2 powi (- 1022) \<le> v" .
  have "v \<le> x * (1 + ulp) ^ k" by (rule assms(3))
  also have "\<dots> \<le> 2 ^ 900 * 2"
    using x p \<open>(2::rat) ^ s \<le> 2 ^ 900\<close> ulp_bounds by (intro mult_mono) simp_all
  also have "\<dots> \<le> 2 ^ 1000" using power_increasing [of 901 1000 "2::rat"] by simp
  finally have hi: "v \<le> 2 ^ 1000" .
  obtain r where r: "rnd v = Fin r" "v * (1 - ulp) \<le> r" "r \<le> v * (1 + ulp)" using rnd_rel [OF lo hi] .
  have "x * (1 - ulp) ^ k * (1 - ulp) \<le> v * (1 - ulp)"
    using assms(2) ulp_bounds by (intro mult_right_mono) simp_all
  moreover have "v * (1 + ulp) \<le> x * (1 + ulp) ^ k * (1 + ulp)"
    using assms(3) ulp_bounds by (intro mult_right_mono) simp_all
  ultimately show ?thesis using r assms(1) by (auto simp: approx_def mult_ac)
qed

lemma approx_add:
  assumes "approx k s x a" and "approx k s y b" and "k \<le> 1000" and "s < 900"
  shows "approx (Suc k) (Suc s) (x + y) (f_add a b)"
proof -
  from assms(1,2) obtain r q where r: "a = Fin r" "x * (1 - ulp) ^ k \<le> r" "r \<le> x * (1 + ulp) ^ k"
    and q: "b = Fin q" "y * (1 - ulp) ^ k \<le> q" "q \<le> y * (1 + ulp) ^ k" by (auto simp: approx_def)
  have "sized (Suc s) (x + y)" using assms(1,2) by (simp add: approx_def sized_add)
  then have "approx (Suc k) (Suc s) (x + y) (rnd (r + q))"
    by (rule approx_rnd) (use r q assms in \<open>simp_all add: distrib_right add_mono\<close>)
  then show ?thesis by (simp add: r q)
qed

lemma approx_mult:
  assumes "approx j s x a" and "approx k t y b" and "j + k \<le> 1000" and "s + t \<le> 900"
  shows "approx (Suc (j + k)) (s + t) (x * y) (f_mul a b)"
proof -
  from assms(1,2) obtain r q where r: "a = Fin r" "x * (1 - ulp) ^ j \<le> r" "r \<le> x * (1 + ulp) ^ j"
    and q: "b = Fin q" "y * (1 - ulp) ^ k \<le> q" "q \<le> y * (1 + ulp) ^ k" by (auto simp: approx_def)
  have nn: "0 \<le> x" "0 \<le> y" by (rule approx_nonneg [OF assms(1)], rule approx_nonneg [OF assms(2)])
  then have "0 \<le> x * (1 - ulp) ^ j" "0 \<le> y * (1 - ulp) ^ k" using ulp_bounds by simp_all
  then have "x * (1 - ulp) ^ j * (y * (1 - ulp) ^ k) \<le> r * q"
    and "r * q \<le> x * (1 + ulp) ^ j * (y * (1 + ulp) ^ k)"
    using r q nn ulp_bounds by (intro mult_mono; simp; linarith)+
  then have "x * y * (1 - ulp) ^ (j + k) \<le> r * q" "r * q \<le> x * y * (1 + ulp) ^ (j + k)"
    by (simp_all add: power_add mult_ac)
  moreover have "sized (s + t) (x * y)" using assms(1,2) by (simp add: approx_def sized_mult)
  ultimately have "approx (Suc (j + k)) (s + t) (x * y) (rnd (r * q))"
    using assms by (intro approx_rnd)
  then show ?thesis by (simp add: r q)
qed

lemma approx_div:
  assumes "approx k s x a" and "k \<le> 1000" and "s + 7 \<le> 900"
  shows "approx (Suc k) (s + 7) (x / 100) (f_div a (Fin 100))"
proof -
  from assms(1) obtain r where r: "a = Fin r" "x * (1 - ulp) ^ k \<le> r" "r \<le> x * (1 + ulp) ^ k"
    by (auto simp: approx_def)
  have "sized (s + 7) (x * (1 / 100))"
    by (rule sized_mult) (use assms(1) in \<open>simp_all add: approx_def sized_def\<close>)
  then have "approx (Suc k) (s + 7) (x / 100) (rnd (r / 100))"
    by (intro approx_rnd) (use r assms in simp_all)
  then show ?thesis by (simp add: r)
qed

lemma approx_int:
  assumes "0 \<le> n" and "n \<le> 2 ^ s" and "s \<le> 53"
  shows "approx 0 s (of_int n) (f_of_int n)"
proof -
  have "(2::int) ^ s \<le> 2 ^ 53" using assms(3) by (rule power_increasing) simp
  then have "f_of_int n = Fin (of_int n)" using assms by (intro f_of_int_exact) simp
  moreover have "sized s (of_int n)"
  proof (cases "n = 0")
    case False
    with assms(1) have "(1::rat) \<le> of_int n" by simp
    then have "1 / (2::rat) ^ s \<le> of_int n" by (rule order_trans [rotated]) simp
    moreover have "(of_int n :: rat) \<le> 2 ^ s"
      using assms(2) of_int_le_iff [of n "2 ^ s", where ?'a = rat] by simp
    ultimately show ?thesis unfolding sized_def by blast
  qed simp
  ultimately show ?thesis by (simp add: approx_def)
qed

text \<open>A few hundred roundings move a value by a small fraction of itself.\<close>

lemma approx_error:
  assumes "approx k s x a" and "k \<le> 1000"
  obtains r where "a = Fin r" and "0 \<le> r" and "\<bar>r - x\<bar> \<le> x * (2 * of_nat k * ulp)"
proof -
  from assms(1) obtain r where r: "a = Fin r" "x * (1 - ulp) ^ k \<le> r" "r \<le> x * (1 + ulp) ^ k"
    by (auto simp: approx_def)
  have nn: "0 \<le> x" using assms(1) by (rule approx_nonneg)
  have "1 + of_nat k * (- ulp) \<le> (1 + - ulp) ^ k" by (rule Bernoulli_inequality) (simp add: ulp_def)
  then have l: "1 - of_nat k * ulp \<le> (1 - ulp) ^ k" by simp
  have up: "(1 + ulp) ^ j \<le> 1 + 2 * of_nat j * ulp" if "j \<le> 1000" for j
    using that
  proof (induction j)
    case (Suc j)
    have "(1 + ulp) ^ Suc j = (1 + ulp) ^ j + ulp * (1 + ulp) ^ j" by (simp add: algebra_simps)
    also have "\<dots> \<le> (1 + 2 * of_nat j * ulp) + ulp * 2"
      using Suc lower_power(2) [of j] ulp_bounds by (intro add_mono mult_left_mono) simp_all
    finally show ?case by (simp add: algebra_simps)
  qed simp
  have "x * (1 - of_nat k * ulp) \<le> r" using l nn r(2) by (meson mult_left_mono order_trans)
  moreover have "r \<le> x * (1 + 2 * of_nat k * ulp)" using up [OF assms(2)] nn r(3) by (meson mult_left_mono order_trans)
  moreover have "0 \<le> x * (of_nat k * ulp)" using nn ulp_bounds by simp
  ultimately have "\<bar>r - x\<bar> \<le> x * (2 * of_nat k * ulp)" by (simp add: abs_le_iff algebra_simps)
  moreover have "0 \<le> x * (1 - ulp) ^ k" using nn ulp_bounds by simp
  with r(2) have "0 \<le> r" by linarith
  ultimately show ?thesis using that r(1) by blast
qed

end
