(* ===== verification/Taxes_Correct.thy ===== *)
theory Taxes_Correct
  imports Taxes Float_Error
begin

text \<open>
  The tax calculator against exact arithmetic: what is charged is the exact tax to within a cent,
  rounding leaves whole cents alone, and the grand total leaves a taxed service charge out.
\<close>

section \<open>The exact amounts\<close>

fun val :: "f64 \<Rightarrow> rat" where
  "val (Fin r) = r" | "val _ = 0"

definition exact_line :: "OrderItemForTax \<Rightarrow> rat" where
  "exact_line item =
     (val (it_UnitPrice item) + sum_list (map (\<lambda>m. val (mt_AdditionalPrice m)) (it_Modifiers item)))
       * of_int (it_Quantity item)"

definition exact_subtotal :: "OrderItemForTax list \<Rightarrow> rat" where
  "exact_subtotal items = sum_list (map exact_line items)"

definition exact_charge :: "OrderItemForTax list \<Rightarrow> f64 \<Rightarrow> rat" where
  "exact_charge items pct = (if f_gt pct f_zero then exact_subtotal items * (val pct / 100) else 0)"

definition exact_tax :: "TaxConfiguration \<Rightarrow> string \<Rightarrow> OrderItemForTax list \<Rightarrow> f64 \<Rightarrow> rat" where
  "exact_tax config orderType items pct =
     sum_list (map (\<lambda>item. exact_line item * val (item_rate config orderType (it_TaxCategory item))) items)
     + (if tc_ServiceChargeBeforeTax config then exact_charge items pct * val (tc_DefaultTaxRate config) else 0)"

text \<open>Amounts a price column, a rate or a percentage can hold.\<close>

definition amount_ok :: "f64 \<Rightarrow> bool" where
  "amount_ok a \<longleftrightarrow> (case a of Fin r \<Rightarrow> sized 40 r | _ \<Rightarrow> False)"

definition item_ok :: "OrderItemForTax \<Rightarrow> bool" where
  "item_ok item \<longleftrightarrow> amount_ok (it_UnitPrice item) \<and> (\<forall>m \<in> set (it_Modifiers item). amount_ok (mt_AdditionalPrice m))
     \<and> 0 \<le> it_Quantity item \<and> it_Quantity item \<le> 2 ^ 20"

definition rates_ok :: "TaxConfiguration \<Rightarrow> bool" where
  "rates_ok config \<longleftrightarrow> amount_ok (tc_DefaultTaxRate config) \<and> amount_ok (tc_AlcoholTaxRate config)
     \<and> amount_ok (tc_TakeawayTaxRate config)"

text \<open>The number of modifiers of the item that has most.\<close>

definition most_modifiers :: "OrderItemForTax list \<Rightarrow> nat" where
  "most_modifiers items = fold (\<lambda>item n. max (length (it_Modifiers item)) n) items 0"

lemma amount_approx: "amount_ok a \<Longrightarrow> approx 0 40 (val a) a"
  by (cases a) (simp_all add: amount_ok_def approx_exact)

lemma item_rate_ok: "rates_ok config \<Longrightarrow> amount_ok (item_rate config orderType category)"
  by (simp add: rates_ok_def item_rate_def) (simp add: amount_ok_def)

lemma fold_max:
  "length (it_Modifiers item) \<le> fold (\<lambda>item n. max (length (it_Modifiers item)) n) items k"
  if "item \<in> set items \<or> length (it_Modifiers item) \<le> k"
  using that by (induction items arbitrary: k) (auto simp: max.coboundedI2)

lemma most_modifiers_ge: "item \<in> set items \<Longrightarrow> length (it_Modifiers item) \<le> most_modifiers items"
  unfolding most_modifiers_def by (rule fold_max) simp

section \<open>The loops\<close>

text \<open>The total tax of the second loop, without the per-item details it also writes.\<close>

fun tax_sum :: "TaxConfiguration \<Rightarrow> string \<Rightarrow> f64 \<Rightarrow> OrderItemForTax list \<Rightarrow> f64" where
  "tax_sum config orderType acc [] = acc"
| "tax_sum config orderType acc (item # items) =
     tax_sum config orderType
       (f_add acc (f_mul (line_total item) (item_rate config orderType (it_TaxCategory item)))) items"

lemma add_tax_sel [simp]:
  "tb_TotalTaxAmount (add_tax c t b) = f_add (tb_TotalTaxAmount b) t"
  "tb_ItemTaxBreakdown (add_tax c t b) = tb_ItemTaxBreakdown b"
  "tb_SubtotalBeforeTax (add_tax c t b) = tb_SubtotalBeforeTax b"
  "tb_ServiceChargeAmount (add_tax c t b) = tb_ServiceChargeAmount b"
  by (simp_all add: add_tax_def)

lemma set_item_tax_sel [simp]:
  "tb_TotalTaxAmount (set_item_tax i r t b) = tb_TotalTaxAmount b"
  "tb_SubtotalBeforeTax (set_item_tax i r t b) = tb_SubtotalBeforeTax b"
  "tb_ServiceChargeAmount (set_item_tax i r t b) = tb_ServiceChargeAmount b"
  "map td_LineTotal (tb_ItemTaxBreakdown (set_item_tax i r t b)) = map td_LineTotal (tb_ItemTaxBreakdown b)"
  by (simp_all add: set_item_tax_def map_update)
    (metis list_update_beyond list_update_id length_map not_le nth_map)

lemma item_tax_loop_sel [simp]:
  "tb_SubtotalBeforeTax (item_tax_loop config orderType i items b) = tb_SubtotalBeforeTax b"
  "tb_ServiceChargeAmount (item_tax_loop config orderType i items b) = tb_ServiceChargeAmount b"
  by (induction config orderType i items b rule: item_tax_loop.induct) (simp_all add: Let_def)

lemma item_tax_loop_total:
  assumes "map td_LineTotal (tb_ItemTaxBreakdown b) = pre @ map line_total items" and "length pre = i"
  shows "tb_TotalTaxAmount (item_tax_loop config orderType i items b) = tax_sum config orderType (tb_TotalTaxAmount b) items"
  using assms
proof (induction config orderType i items b arbitrary: "pre" rule: item_tax_loop.induct)
  case (2 config orderType i item items b)
  from 2(2) have "length (tb_ItemTaxBreakdown b) = length (pre @ map line_total (item # items))"
    by (metis length_map)
  then have "i < length (tb_ItemTaxBreakdown b)" using 2(3) by simp
  then have "td_LineTotal (tb_ItemTaxBreakdown b ! i) = map td_LineTotal (tb_ItemTaxBreakdown b) ! i" by simp
  also have "\<dots> = line_total item" unfolding 2(2) using 2(3) by (simp add: nth_append)
  finally have "td_LineTotal (tb_ItemTaxBreakdown b ! i) = line_total item" .
  with 2(1) [of _ _ "pre @ [line_total item]"] 2(2,3) show ?case by (simp add: Let_def)
qed simp

section \<open>Behind how many roundings the sums are\<close>

lemma line_loop_approx:
  assumes "approx k s x acc" and "1 \<le> k" and "60 \<le> s" and "k + length ms \<le> 900" and "s + length ms \<le> 800"
    and "\<forall>m \<in> set ms. amount_ok (mt_AdditionalPrice m)" and "0 \<le> q" and "q \<le> 2 ^ 20"
  shows "approx (k + length ms) (s + length ms)
    (x + sum_list (map (\<lambda>m. val (mt_AdditionalPrice m)) ms) * of_int q) (line_loop acc q ms)"
  using assms
proof (induction ms arbitrary: k s x acc)
  case (Cons m ms)
  have "approx 1 60 (val (mt_AdditionalPrice m) * of_int q) (f_mul (mt_AdditionalPrice m) (f_of_int q))"
    using approx_mult [OF amount_approx approx_int [of q 20], of "mt_AdditionalPrice m"] Cons.prems by simp
  then have "approx k s (val (mt_AdditionalPrice m) * of_int q) (f_mul (mt_AdditionalPrice m) (f_of_int q))"
    by (rule approx_mono) (use Cons.prems in simp_all)
  with Cons.prems have "approx (Suc k) (Suc s) (x + val (mt_AdditionalPrice m) * of_int q)
      (f_add acc (f_mul (mt_AdditionalPrice m) (f_of_int q)))"
    by (intro approx_add) simp_all
  from Cons.IH [OF this] Cons.prems show ?case by (simp add: algebra_simps)
qed simp

lemma line_total_approx:
  assumes "item_ok item" and "length (it_Modifiers item) \<le> n" and "n \<le> 500"
  shows "approx (Suc n) (60 + n) (exact_line item) (line_total item)"
proof -
  have "approx 1 60 (val (it_UnitPrice item) * of_int (it_Quantity item))
      (f_mul (it_UnitPrice item) (f_of_int (it_Quantity item)))"
    using approx_mult [OF amount_approx approx_int [of "it_Quantity item" 20], of "it_UnitPrice item"] assms
    by (simp add: item_ok_def)
  from line_loop_approx [OF this, of "it_Modifiers item" "it_Quantity item"] assms
  have "approx (1 + length (it_Modifiers item)) (60 + length (it_Modifiers item)) (exact_line item) (line_total item)"
    by (simp add: item_ok_def line_total_def exact_line_def distrib_right)
  then show ?thesis by (rule approx_mono) (use assms in simp_all)
qed

lemma subtotal_loop_approx:
  assumes "approx k s x acc" and "Suc n \<le> k" and "60 + n \<le> s" and "n + length items \<le> 500"
    and "k + length items \<le> 1000" and "s + length items \<le> 900"
    and "\<forall>item \<in> set items. item_ok item \<and> length (it_Modifiers item) \<le> n"
  shows "approx (k + length items) (s + length items) (x + exact_subtotal items) (subtotal_loop acc items)"
  using assms
proof (induction items arbitrary: k s x acc)
  case (Cons item items)
  have "approx (Suc n) (60 + n) (exact_line item) (line_total item)"
    using Cons.prems by (intro line_total_approx) auto
  then have "approx k s (exact_line item) (line_total item)" by (rule approx_mono) (use Cons.prems in simp_all)
  with Cons.prems have "approx (Suc k) (Suc s) (x + exact_line item) (f_add acc (line_total item))"
    by (intro approx_add) simp_all
  from Cons.IH [OF this] Cons.prems show ?case by (simp add: exact_subtotal_def add.assoc)
qed (simp add: exact_subtotal_def)

lemma tax_sum_approx:
  assumes "approx k s x acc" and "n + 2 \<le> k" and "100 + n \<le> s" and "n + length items \<le> 500"
    and "k + length items \<le> 1000" and "s + length items \<le> 900" and "rates_ok config"
    and "\<forall>item \<in> set items. item_ok item \<and> length (it_Modifiers item) \<le> n"
  shows "approx (k + length items) (s + length items)
    (x + sum_list (map (\<lambda>item. exact_line item * val (item_rate config orderType (it_TaxCategory item))) items))
    (tax_sum config orderType acc items)"
  using assms
proof (induction items arbitrary: k s x acc)
  case (Cons item items)
  let ?rate = "item_rate config orderType (it_TaxCategory item)"
  have "approx (Suc n) (60 + n) (exact_line item) (line_total item)"
    using Cons.prems by (intro line_total_approx) auto
  then have "approx (Suc (Suc n + 0)) ((60 + n) + 40) (exact_line item * val ?rate) (f_mul (line_total item) ?rate)"
    by (rule approx_mult [OF _ amount_approx [OF item_rate_ok]]) (use Cons.prems in simp_all)
  then have "approx k s (exact_line item * val ?rate) (f_mul (line_total item) ?rate)"
    by (rule approx_mono) (use Cons.prems in simp_all)
  with Cons.prems have "approx (Suc k) (Suc s) (x + exact_line item * val ?rate) (f_add acc (f_mul (line_total item) ?rate))"
    by (intro approx_add) simp_all
  from Cons.IH [OF this] Cons.prems show ?case by (simp add: add.assoc)
qed simp

section \<open>Rounding to cents\<close>

text \<open>One rounding in absolute terms, for values that may also be very small.\<close>

lemma rnd_abs:
  assumes "0 \<le> x" and "x \<le> 2 ^ 1000"
  obtains r where "rnd x = Fin r" and "0 \<le> r" and "\<bar>r - x\<bar> \<le> x * ulp + 1 / 2 ^ 100"
proof (cases "2 powi (- 1022) \<le> x")
  case True
  obtain r where r: "rnd x = Fin r" "x * (1 - ulp) \<le> r" "r \<le> x * (1 + ulp)" using rnd_rel [OF True assms(2)] .
  then have "\<bar>r - x\<bar> \<le> x * ulp" by (simp add: abs_le_iff algebra_simps)
  moreover have "0 \<le> x * (1 - ulp)" using assms(1) ulp_bounds by simp
  moreover have "(0::rat) \<le> 1 / 2 ^ 100" by simp
  ultimately show ?thesis using that [OF r(1)] r(2) by linarith
next
  case False
  let ?m = "2 powi (- 1022) :: rat"
  have "representable ?m" unfolding representable_def by (intro exI [of _ 1] exI [of _ "- 1022"]) simp
  then have "round_rat ?m = ?m" by (rule round_rat_exact)
  moreover have "x \<le> ?m" using False by simp
  ultimately have "round_rat x \<le> ?m" using round_rat_mono [of x ?m] by simp
  moreover have "0 \<le> round_rat x" using assms(1) by (rule round_rat_nonneg)
  moreover have m: "?m \<le> 1 / 2 ^ 100" using power_increasing [of 100 1022 "2::rat"] by (simp add: power_int_minus divide_simps)
  moreover have "0 \<le> x * ulp" using assms(1) ulp_bounds by simp
  ultimately have "\<bar>round_rat x - x\<bar> \<le> x * ulp + 1 / 2 ^ 100" using \<open>x \<le> ?m\<close> assms(1) by linarith
  moreover have "x \<le> 1" using \<open>x \<le> ?m\<close> m by (rule order_trans [OF order_trans]) simp
  then have "rnd x = Fin (round_rat x)" using assms(1) by (intro rnd_small) simp
  ultimately show ?thesis using that \<open>0 \<le> round_rat x\<close> by blast
qed

lemma tiny: "(1::rat) / 2 ^ 100 \<le> 1 / 1000000000" "ulp \<le> 1 / 1000000000000000"
  by (simp_all add: ulp_def)

lemma f_to_int_floor: "0 \<le> z \<Longrightarrow> z < 2 ^ 63 \<Longrightarrow> f_to_int (Fin z) = \<lfloor>z\<rfloor>"
proof -
  assume z: "0 \<le> z" "z < 2 ^ 63"
  then have "0 \<le> \<lfloor>z\<rfloor>" by simp
  moreover have "\<lfloor>z\<rfloor> < 2 ^ 63" using z(2) by (simp add: floor_less_iff)
  ultimately show ?thesis using z(1) by (simp add: f_to_int_def trunc_rat_def)
qed

text \<open>What is truncated: a hundred times the value and a half, up to two roundings.\<close>

lemma cents_bounds:
  assumes "0 \<le> v" and "v \<le> 2 ^ 42"
  obtains z where "f_add (f_mul (Fin v) hundred) (Fin (1 / 2)) = Fin z" and "0 \<le> z"
    and "\<bar>z - (v * 100 + 1 / 2)\<bar> \<le> v * 201 * ulp + 1 / 100000000"
proof -
  have "v * 100 \<le> 2 ^ 42 * 100" using assms(2) by simp
  also have "\<dots> \<le> (2::rat) ^ 1000" using power_increasing [of 49 1000 "2::rat"] by simp
  finally obtain w where w: "rnd (v * 100) = Fin w" "0 \<le> w" "\<bar>w - v * 100\<bar> \<le> v * 100 * ulp + 1 / 2 ^ 100"
    using rnd_abs [of "v * 100"] assms(1) by auto
  have u: "v * 100 * ulp \<le> 1" using assms(2) by (simp add: ulp_def)
  have wb: "w \<le> v * 100 + v * 100 * ulp + 1 / 1000000000" using w(3) tiny by (simp add: abs_le_iff)
  then have "w + 1 / 2 \<le> 2 ^ 42 * 100 + 2" using u assms(2) by simp
  also have "\<dots> \<le> (2::rat) ^ 1000" using power_increasing [of 50 1000 "2::rat"] by simp
  finally obtain z where z: "rnd (w + 1 / 2) = Fin z" "0 \<le> z" "\<bar>z - (w + 1 / 2)\<bar> \<le> (w + 1 / 2) * ulp + 1 / 2 ^ 100"
    using rnd_abs [of "w + 1 / 2"] w(2) by auto
  have "(w + 1 / 2) * ulp \<le> (v * 100 + 2) * ulp" using wb u by (intro mult_right_mono) (simp_all add: ulp_def)
  then have "\<bar>z - (v * 100 + 1 / 2)\<bar> \<le> (v * 100 + 2) * ulp + v * 100 * ulp + 2 / 1000000000"
    using z(3) w(3) tiny by linarith
  also have "\<dots> = v * 200 * ulp + 2 * ulp + 2 / 1000000000" by (simp add: algebra_simps)
  also have "\<dots> \<le> v * 201 * ulp + 1 / 100000000"
    using tiny(2) mult_nonneg_nonneg [OF assms(1), of ulp] ulp_bounds by (simp add: algebra_simps)
  finally show ?thesis using that z w(1) by simp
qed

text \<open>
  Amounts in whole cents survive roundTo2Decimals: rounding an amount again changes nothing,
  although neither the amount nor its hundredfold is exact in binary.
\<close>

theorem roundTo2Decimals_cents:
  assumes "0 \<le> n" and "n \<le> 2 ^ 48"
  shows "roundTo2Decimals (f_div (f_of_int n) hundred) = f_div (f_of_int n) hundred"
proof -
  have i: "f_of_int n = Fin (of_int n)" using assms by (intro f_of_int_exact) simp
  have n: "0 \<le> (of_int n :: rat)" "(of_int n :: rat) \<le> 2 ^ 48"
    using assms of_int_le_iff [of n "2 ^ 48", where ?'a = rat] by simp_all
  then obtain v where v: "rnd (of_int n / 100) = Fin v" "0 \<le> v"
      "\<bar>v - of_int n / 100\<bar> \<le> of_int n / 100 * ulp + 1 / 2 ^ 100"
    using rnd_abs [of "of_int n / 100"] power_increasing [of 48 1000 "2::rat"] by auto
  have nu: "of_int n * ulp \<le> 1 / 32" using n(2) by (simp add: ulp_def)
  have vb: "\<bar>v * 100 - of_int n\<bar> \<le> of_int n * ulp + 1 / 1000000" using v(3) tiny(1) by (simp add: abs_le_iff field_simps)
  then have "v \<le> 2 ^ 42" using n(2) nu by (simp add: abs_le_iff)
  with v(2) obtain z where z: "f_add (f_mul (Fin v) hundred) (Fin (1 / 2)) = Fin z" "0 \<le> z"
      "\<bar>z - (v * 100 + 1 / 2)\<bar> \<le> v * 201 * ulp + 1 / 100000000"
    using cents_bounds by blast
  have "v * 201 * ulp \<le> (of_int n * 3) * ulp + 1 / 1000000"
  proof -
    have "v * 201 \<le> of_int n * 3 + 10" using vb nu n(1) by (simp add: abs_le_iff)
    then have "v * 201 * ulp \<le> (of_int n * 3 + 10) * ulp" using ulp_bounds by (intro mult_right_mono) simp_all
    then show ?thesis using tiny(2) by (simp add: algebra_simps)
  qed
  then have "\<bar>z - (of_int n + 1 / 2)\<bar> < 1 / 2" using z(3) vb nu by linarith
  then have "of_int n \<le> z" "z < of_int n + 1" unfolding abs_less_iff by linarith+
  then have "\<lfloor>z\<rfloor> = n" by (simp add: floor_eq_iff)
  moreover have "z < 2 ^ 63" using \<open>z < of_int n + 1\<close> n(2) by simp
  ultimately have "f_to_int (Fin z) = n" using z(2) by (simp add: f_to_int_floor)
  with z(1) v(1) show ?thesis by (simp add: roundTo2Decimals_def i)
qed

lemma round2_error:
  assumes "0 \<le> v" and "v \<le> 2 ^ 32"
  obtains r where "roundTo2Decimals (Fin v) = Fin r" and "0 \<le> r" and "\<bar>r - v\<bar> \<le> 51 / 10000"
proof -
  obtain z where z: "f_add (f_mul (Fin v) hundred) (Fin (1 / 2)) = Fin z" "0 \<le> z"
      "\<bar>z - (v * 100 + 1 / 2)\<bar> \<le> v * 201 * ulp + 1 / 100000000"
  proof -
    have "v \<le> 2 ^ 42" using assms(2) by simp
    from cents_bounds [OF assms(1) this] that show ?thesis by blast
  qed
  have vu: "v * 201 * ulp \<le> 1 / 1000" using assms(2) by (simp add: ulp_def)
  have zb: "z \<le> 2 ^ 42" using z(3) vu assms(2) by (simp add: abs_le_iff)
  then have fi: "f_to_int (Fin z) = \<lfloor>z\<rfloor>" using z(2) by (intro f_to_int_floor) simp_all
  have fl: "of_int \<lfloor>z\<rfloor> \<le> z" "z < of_int \<lfloor>z\<rfloor> + 1" by linarith+
  have n: "0 \<le> \<lfloor>z\<rfloor>" "(of_int \<lfloor>z\<rfloor> :: rat) \<le> 2 ^ 42" using z(2) zb fl(1) by simp_all
  have "\<lfloor>z\<rfloor> \<le> 2 ^ 42" using n(2) of_int_le_iff [of "\<lfloor>z\<rfloor>" "2 ^ 42", where ?'a = rat] by simp
  then have i: "f_of_int \<lfloor>z\<rfloor> = Fin (of_int \<lfloor>z\<rfloor>)" using n(1) by (intro f_of_int_exact) simp
  obtain r where r: "rnd (of_int \<lfloor>z\<rfloor> / 100) = Fin r" "0 \<le> r"
      "\<bar>r - of_int \<lfloor>z\<rfloor> / 100\<bar> \<le> of_int \<lfloor>z\<rfloor> / 100 * ulp + 1 / 2 ^ 100"
    using rnd_abs [of "of_int \<lfloor>z\<rfloor> / 100"] n power_increasing [of 42 1000 "2::rat"] by auto
  have "of_int \<lfloor>z\<rfloor> / 100 * ulp \<le> 2 ^ 42 / 100 * ulp" using n(2) ulp_bounds by (intro mult_right_mono divide_right_mono) simp_all
  then have "of_int \<lfloor>z\<rfloor> / 100 * ulp \<le> 1 / 100000" by (rule order_trans) (simp add: ulp_def)
  then have "r - v \<le> 51 / 10000" "v - r \<le> 51 / 10000"
    using r(3) fl z(3) vu tiny(1) unfolding abs_le_iff by linarith+
  then have "\<bar>r - v\<bar> \<le> 51 / 10000" by (intro abs_leI) simp_all
  moreover have "roundTo2Decimals (Fin v) = Fin r" by (simp only: roundTo2Decimals_def z(1) fi i f_div.simps r(1)) simp
  ultimately show ?thesis using that r(2) by blast
qed

section \<open>The tax and the grand total\<close>

abbreviation "rounded_config config \<equiv> rates_ok config \<and> tc_TaxEnabled config \<and> \<not> tc_TaxInclusivePricing config \<and> tc_RoundTaxAmount config"

text \<open>The unrounded total tax of the second branch of \<open>compute_tax\<close>.\<close>

definition raw_tax :: "TaxConfiguration \<Rightarrow> string \<Rightarrow> OrderItemForTax list \<Rightarrow> f64 \<Rightarrow> f64" where
  "raw_tax config orderType items pct =
     (let total = tax_sum config orderType f_zero items;
          charge = f_mul (subtotal_loop f_zero items) (f_div pct hundred)
      in if tc_ServiceChargeBeforeTax config \<and> f_gt pct f_zero
         then f_add total (f_mul charge (tc_DefaultTaxRate config)) else total)"

lemma service_charge_sel [simp]:
  "tb_TotalTaxAmount (service_charge config pct b) = tb_TotalTaxAmount b"
  "tb_SubtotalBeforeTax (service_charge config pct b) = tb_SubtotalBeforeTax b"
  "tb_ItemTaxBreakdown (service_charge config pct b) = tb_ItemTaxBreakdown b"
  "f_gt pct f_zero \<Longrightarrow> tb_ServiceChargeAmount (service_charge config pct b)
     = f_mul (tb_SubtotalBeforeTax b) (f_div pct hundred)"
  by (simp_all add: service_charge_def Let_def)

lemma start_breakdown_sel [simp]:
  "tb_TotalTaxAmount (start_breakdown config items) = f_zero"
  "tb_SubtotalBeforeTax (start_breakdown config items) = subtotal_loop f_zero items"
  "map td_LineTotal (tb_ItemTaxBreakdown (start_breakdown config items)) = map line_total items"
  by (simp_all add: start_breakdown_def line_detail_def)

lemma compute_tax_total:
  assumes "rounded_config config"
  shows "tb_TotalTaxAmount (compute_tax config orderType items pct) = roundTo2Decimals (raw_tax config orderType items pct)"
    and "tb_GrandTotal (compute_tax config orderType items pct) = roundTo2Decimals
      (let total = f_add (subtotal_loop f_zero items) (roundTo2Decimals (raw_tax config orderType items pct))
       in if \<not> tc_ServiceChargeBeforeTax config \<and> f_gt pct f_zero
          then f_add total (f_mul (subtotal_loop f_zero items) (f_div pct hundred)) else total)"
  using assms item_tax_loop_total [of "service_charge config pct (start_breakdown config items)" "[]" items 0 config orderType]
  by (simp_all add: compute_tax_def grand_total_def round_taxes_def service_charge_tax_def raw_tax_def Let_def)

text \<open>Orders of at most five hundred items and modifiers.\<close>

definition order_ok :: "OrderItemForTax list \<Rightarrow> f64 \<Rightarrow> bool" where
  "order_ok items pct \<longleftrightarrow> (\<forall>item \<in> set items. item_ok item) \<and> length items + most_modifiers items \<le> 500 \<and> amount_ok pct"

lemma approx_zero: "approx k s 0 f_zero"
  by (simp add: approx_def)

lemma subtotal_approx:
  assumes "order_ok items pct"
  shows "approx 600 700 (exact_subtotal items) (subtotal_loop f_zero items)"
proof -
  let ?n = "most_modifiers items"
  have "approx (Suc ?n + length items) (60 + ?n + length items) (0 + exact_subtotal items) (subtotal_loop f_zero items)"
    by (rule subtotal_loop_approx [where n = ?n, OF approx_zero [of "Suc ?n" "60 + ?n"]])
      (use assms most_modifiers_ge [of _ items] in \<open>auto simp: order_ok_def\<close>)
  then show ?thesis by (simp only: add_0) (erule approx_mono; use assms in \<open>simp add: order_ok_def\<close>)
qed

lemma charge_approx:
  assumes "order_ok items pct" and "f_gt pct f_zero"
  shows "approx 602 747 (exact_charge items pct) (f_mul (subtotal_loop f_zero items) (f_div pct hundred))"
proof -
  have "approx 1 47 (val pct / 100) (f_div pct hundred)"
    using approx_div [OF amount_approx [of pct]] assms by (simp add: order_ok_def)
  from approx_mult [OF subtotal_approx [OF assms(1)] this] assms(2) show ?thesis by (simp add: exact_charge_def)
qed

lemma raw_tax_approx:
  assumes "order_ok items pct" and "rates_ok config"
  shows "approx 604 788 (exact_tax config orderType items pct) (raw_tax config orderType items pct)"
proof -
  let ?n = "most_modifiers items"
  let ?tax = "sum_list (map (\<lambda>item. exact_line item * val (item_rate config orderType (it_TaxCategory item))) items)"
  have "approx (?n + 2 + length items) (100 + ?n + length items) (0 + ?tax) (tax_sum config orderType f_zero items)"
    by (rule tax_sum_approx [where n = ?n, OF approx_zero [of "?n + 2" "100 + ?n"]])
      (use assms most_modifiers_ge [of _ items] in \<open>auto simp: order_ok_def\<close>)
  then have t: "approx 603 787 ?tax (tax_sum config orderType f_zero items)"
    by (simp only: add_0) (erule approx_mono; use assms in \<open>simp add: order_ok_def\<close>)
  show ?thesis
  proof (cases "tc_ServiceChargeBeforeTax config \<and> f_gt pct f_zero")
    case True
    let ?charge = "f_mul (subtotal_loop f_zero items) (f_div pct hundred)"
    have "amount_ok (tc_DefaultTaxRate config)" using assms(2) by (simp add: rates_ok_def)
    from approx_mult [OF charge_approx [OF assms(1)] amount_approx [OF this]] True
    have "approx 603 787 (exact_charge items pct * val (tc_DefaultTaxRate config))
        (f_mul ?charge (tc_DefaultTaxRate config))" by simp
    from approx_add [OF t this] True show ?thesis by (simp add: exact_tax_def raw_tax_def Let_def)
  next
    case False
    then have "exact_tax config orderType items pct = ?tax" "raw_tax config orderType items pct = tax_sum config orderType f_zero items"
      by (auto simp: exact_tax_def exact_charge_def raw_tax_def Let_def)
    then show ?thesis using approx_mono [OF t, of 604 788] by simp
  qed
qed

lemma approx_close:
  assumes "approx k s x a" and "k \<le> 700" and "x \<le> 1000000000"
  obtains r where "a = Fin r" and "0 \<le> r" and "\<bar>r - x\<bar> \<le> 2 / 10000"
proof -
  obtain r where r: "a = Fin r" "0 \<le> r" "\<bar>r - x\<bar> \<le> x * (2 * of_nat k * ulp)"
    using approx_error [OF assms(1)] assms(2) by auto
  have "x * (2 * of_nat k * ulp) \<le> 1000000000 * (2 * 700 * ulp)"
    using assms(2,3) approx_nonneg [OF assms(1)] ulp_bounds by (intro mult_mono mult_right_mono) simp_all
  also have "\<dots> \<le> 2 / 10000" by (simp add: ulp_def)
  finally show ?thesis using that r by fastforce
qed

lemma sum_close:
  assumes "0 \<le> a" and "0 \<le> b" and "a \<le> 2500000000" and "b \<le> 1500000000"
  obtains r where "f_add (Fin a) (Fin b) = Fin r" and "0 \<le> r" and "\<bar>r - (a + b)\<bar> \<le> 1 / 100000"
proof -
  have "a + b \<le> 4000000000" using assms by simp
  then have "a + b \<le> 2 ^ 1000" using power_increasing [of 32 1000 "2::rat"] by simp
  then obtain r where r: "rnd (a + b) = Fin r" "0 \<le> r" "\<bar>r - (a + b)\<bar> \<le> (a + b) * ulp + 1 / 2 ^ 100"
    using rnd_abs [of "a + b"] assms by auto
  have "(a + b) * ulp \<le> 4000000000 * ulp" using \<open>a + b \<le> 4000000000\<close> ulp_bounds by (intro mult_right_mono) simp_all
  moreover have "4000000000 * ulp \<le> 1 / 1000000" by (simp add: ulp_def)
  ultimately have "\<bar>r - (a + b)\<bar> \<le> 1 / 100000" using r(3) tiny(1) by simp
  with that r show ?thesis by simp
qed

text \<open>
  C5: With tax on top of the prices, the computed tax is the exact tax to within a cent, and the
  grand total is within two cents of the exact subtotal and tax, to which the service charge is
  added only when it is charged after tax: under the default, a taxed charge is not charged.
\<close>

theorem tax_within_a_cent:
  assumes "rounded_config config" and "order_ok items pct"
    and "exact_subtotal items \<le> 1000000000" and "exact_tax config orderType items pct \<le> 1000000000"
    and "exact_charge items pct \<le> 1000000000"
  shows "\<exists>tax grand. tb_TotalTaxAmount (compute_tax config orderType items pct) = Fin tax
    \<and> \<bar>tax - exact_tax config orderType items pct\<bar> < 1 / 100
    \<and> tb_GrandTotal (compute_tax config orderType items pct) = Fin grand
    \<and> \<bar>grand - (exact_subtotal items + exact_tax config orderType items pct
         + (if tc_ServiceChargeBeforeTax config then 0 else exact_charge items pct))\<bar> < 2 / 100"
proof -
  let ?T = "exact_tax config orderType items pct" and ?S = "exact_subtotal items" and ?C = "exact_charge items pct"
  obtain t where t: "raw_tax config orderType items pct = Fin t" "0 \<le> t" "\<bar>t - ?T\<bar> \<le> 2 / 10000"
    using approx_close [OF raw_tax_approx [OF assms(2)]] assms(1,4) by force
  obtain s where s: "subtotal_loop f_zero items = Fin s" "0 \<le> s" "\<bar>s - ?S\<bar> \<le> 2 / 10000"
    using approx_close [OF subtotal_approx [OF assms(2)]] assms(3) by force
  have "t \<le> 1000000001" using t(3) assms(4) unfolding abs_le_iff by linarith
  then have "t \<le> 2 ^ 32" by simp
  with t(2) obtain tax where tax: "roundTo2Decimals (Fin t) = Fin tax" "0 \<le> tax" "\<bar>tax - t\<bar> \<le> 51 / 10000"
    using round2_error by blast
  obtain u where u: "f_add (Fin s) (Fin tax) = Fin u" "0 \<le> u" "\<bar>u - (s + tax)\<bar> \<le> 1 / 100000"
  proof -
    have "s \<le> 2500000000" "tax \<le> 1500000000" using s t tax assms(3,4) unfolding abs_le_iff by linarith+
    with sum_close [OF s(2) tax(2)] that show ?thesis by blast
  qed
  let ?late = "\<not> tc_ServiceChargeBeforeTax config \<and> f_gt pct f_zero"
  obtain g where g: "(if ?late then f_add (Fin u) (f_mul (Fin s) (f_div pct hundred)) else Fin u) = Fin g"
    "0 \<le> g" "\<bar>g - (?S + ?T + (if tc_ServiceChargeBeforeTax config then 0 else ?C))\<bar> \<le> 60 / 10000"
  proof (cases ?late)
    case True
    obtain c where c: "f_mul (Fin s) (f_div pct hundred) = Fin c" "0 \<le> c" "\<bar>c - ?C\<bar> \<le> 2 / 10000"
      using approx_close [OF charge_approx [OF assms(2)]] assms(5) True s(1) by force
    have "u \<le> 2500000000" "c \<le> 1500000000" using u s t tax c assms(3-5) unfolding abs_le_iff by linarith+
    then obtain g where "f_add (Fin u) (Fin c) = Fin g" "0 \<le> g" "\<bar>g - (u + c)\<bar> \<le> 1 / 100000"
      using sum_close [of u c] u c by blast
    then show ?thesis using that True c u s t tax unfolding abs_le_iff by simp
  next
    case False
    then show ?thesis using that u s t tax unfolding abs_le_iff exact_charge_def by auto
  qed
  have "g \<le> 3000000001" using g(3) assms(3-5) unfolding abs_le_iff by (auto split: if_splits)
  then have "g \<le> 2 ^ 32" by simp
  with g(2) obtain grand where grand: "roundTo2Decimals (Fin g) = Fin grand" "\<bar>grand - g\<bar> \<le> 51 / 10000"
    using round2_error by blast
  have "\<bar>tax - ?T\<bar> < 1 / 100" using tax t unfolding abs_le_iff abs_less_iff by linarith
  moreover have "\<bar>grand - (?S + ?T + (if tc_ServiceChargeBeforeTax config then 0 else ?C))\<bar> < 2 / 100"
    using grand g(3) unfolding abs_le_iff abs_less_iff by linarith
  moreover have "tb_TotalTaxAmount (compute_tax config orderType items pct) = Fin tax"
    by (simp only: compute_tax_total [OF assms(1)] t(1) tax(1))
  moreover have "tb_GrandTotal (compute_tax config orderType items pct) = Fin grand"
    by (simp only: compute_tax_total [OF assms(1)] t(1) tax(1) s(1) u(1) g(1) grand(1) Let_def)
  ultimately show ?thesis by blast
qed

end
