(* ===== verification/Order_Service.thy ===== *)
theory Order_Service
  imports Taxes
begin

text \<open>
  Submitting an order (\<open>services/business/Order.go\<close>): the idempotency check and authorization, the
  validation against profile, table, menu and stock, and the transaction that writes the order with
  its lines, taxes, log, audit row, table status and outbox event.  The outbox relay is in
  \<open>Outbox_Relay\<close>.  The deadlines of the contexts are not modelled.
\<close>

record order_env =
  oe_uuid_String :: "uuid \<Rightarrow> string"
  oe_envelope_id :: string
  oe_Format_stamp :: "gotime \<Rightarrow> string"
  oe_Format_date :: "gotime \<Rightarrow> string"
  oe_suffix :: string
  oe_numeric :: "nat \<Rightarrow> f64 \<Rightarrow> f64"
  oe_json_error :: string

section \<open>Rows\<close>

record MenuItem =
  mi_MenuItemID :: uuid
  mi_TenantID :: uuid
  mi_RestaurantID :: uuid
  mi_Name :: string
  mi_BasePrice :: f64
  mi_IsAvailable :: bool
  mi_PreparationTimeMinutes :: "int option"
  mi_DietaryFlags :: "(string \<times> json_value) list"

record MenuItemModifier =
  mm_MenuItemModifierID :: uuid
  mm_MenuItemID :: uuid
  mm_Name :: string
  mm_PriceAdjustment :: f64
  mm_IsAvailable :: bool

record OrderTaxBreakdown =
  otb_TaxBreakdownID :: uuid
  otb_OrderID :: uuid
  otb_StandardTaxAmount :: f64
  otb_AlcoholTaxAmount :: f64
  otb_TotalTaxAmount :: f64
  otb_ServiceChargeAmount :: f64
  otb_TaxIncludedInPrice :: bool
  otb_TaxRate :: f64
  otb_CreatedAt :: gotime

record OrderLog =
  ol_LogID :: uuid
  ol_OrderID :: uuid
  ol_UserID :: uuid
  ol_Action :: string
  ol_Timestamp :: gotime

record OrderCreatedItemPayload =
  pi_OrderItemID :: uuid
  pi_MenuItemID :: "uuid option"
  pi_ItemName :: string
  pi_Quantity :: int
  pi_UnitPrice :: f64
  pi_KitchenStation :: string

record OrderCreatedPayload =
  op_OrderID :: uuid
  op_TenantID :: uuid
  op_RestaurantID :: uuid
  op_TableID :: "int option"
  op_OrderType :: string
  op_KOTNumber :: string
  op_ActorID :: uuid
  op_OccurredAt :: gotime
  op_Items :: "OrderCreatedItemPayload list"

definition OutboxStatusPending :: string where "OutboxStatusPending = ''pending''"
definition OutboxStatusProcessing :: string where "OutboxStatusProcessing = ''processing''"
definition OutboxStatusDelivered :: string where "OutboxStatusDelivered = ''delivered''"
definition OutboxStatusFailed :: string where "OutboxStatusFailed = ''failed''"

text \<open>A payload column that does not unmarshal is \<open>None\<close>.\<close>

record OutboxEvent =
  ob_OutboxEventID :: uuid
  ob_TenantID :: uuid
  ob_AggregateType :: string
  ob_AggregateID :: string
  ob_EventType :: string
  ob_Payload :: "OrderCreatedPayload option"
  ob_Status :: string
  ob_Attempts :: int
  ob_LastAttemptAt :: "gotime option"
  ob_NextRetryAt :: gotime
  ob_CreatedAt :: gotime
  ob_ProcessedAt :: "gotime option"
  ob_Error :: string

section \<open>Requests and responses\<close>

record SubmitOrderModifierRequest =
  sm_MenuItemModifierID :: uuid
  sm_ClientPrice :: f64

record SubmitOrderItemRequest =
  si_MenuItemID :: uuid
  si_Quantity :: int
  si_Notes :: string
  si_Modifiers :: "SubmitOrderModifierRequest list"
  si_ClientUnitPrice :: f64

record SubmitOrderRequest =
  sub_IdempotencyKey :: string
  sub_RestaurantID :: uuid
  sub_TableID :: "int option"
  sub_CustomerID :: "uuid option"
  sub_CustomerName :: string
  sub_PhoneNumber :: string
  sub_OrderType :: string
  sub_Notes :: string
  sub_Items :: "SubmitOrderItemRequest list"

record TaxBreakdownDTO =
  dto_StandardTaxAmount :: f64
  dto_AlcoholTaxAmount :: f64
  dto_TaxIncludedInPrice :: bool
  dto_ItemDetails :: "ItemTaxDetail list"

record SubmitOrderResponse =
  sr_OrderID :: uuid
  sr_OrderStatus :: string
  sr_SubTotal :: f64
  sr_TaxAmount :: f64
  sr_ServiceChargeAmount :: f64
  sr_DiscountAmount :: f64
  sr_GrandTotal :: f64
  sr_KOTNumber :: string
  sr_EstimatedReadyMinutes :: int
  sr_TaxBreakdown :: TaxBreakdownDTO
  sr_Cached :: bool

record ValidationFailure =
  vf_Field :: string
  vf_Code :: string
  vf_Message :: string

datatype order_error =
    ErrIdempotencyCheck string
  | ErrIdempotentReplay SubmitOrderResponse
  | ErrEmptyOrder
  | ErrRestaurantProfile settings_error
  | ErrTableLookup string
  | ErrTableNotAvailable int string
  | ErrValidation "ValidationFailure list"
  | ErrBuildItems settings_error
  | ErrTableSeat "(string, string) fsm_error"
  | ErrTableTaken int
  | OrderDenied rbac_error
  | OrderWrapped string string
  | OrderPanic

record order_db = settings_db +
  od_tables :: "Table list"
  od_menuItems :: "MenuItem list"
  od_menuModifiers :: "MenuItemModifier list"
  od_items :: "OrderItem list"
  od_modifiers :: "OrderItemModifier list"
  od_taxes :: "OrderTaxBreakdown list"
  od_logs :: "OrderLog list"
  od_outbox :: "OutboxEvent list"
  rd_orders :: "SubmitOrderResponse rcache"
  rd_revenue :: "string rcache"

section \<open>Idempotency\<close>

definition idempotencyTTL :: int where
  "idempotencyTTL = hours 24"

definition idempotencyKey :: "order_env \<Rightarrow> uuid \<Rightarrow> SubmitOrderRequest \<Rightarrow> string" where
  "idempotencyKey E tenantID req =
     ''idempotency:order:'' @ oe_uuid_String E tenantID @ '':'' @ sub_IdempotencyKey req"

definition checkIdempotency ::
    "gotime \<Rightarrow> string \<Rightarrow> ('z order_db_scheme, order_error, SubmitOrderResponse option) op" where
  "checkIdempotency now key s =
     (case redis_Get now rd_orders key s of
        (s, Inr resp) \<Rightarrow> (s, Inr (Some resp))
      | (s, Inl err) \<Rightarrow> (s, if err = ''redis: nil'' then Inr None else Inl (ErrIdempotencyCheck err)))"

text \<open>\<open>json.Marshal\<close> refuses NaN and the infinities; then nothing is cached.\<close>

definition json_float :: "f64 \<Rightarrow> bool" where
  "json_float a \<longleftrightarrow> (case a of Fin _ \<Rightarrow> True | _ \<Rightarrow> False)"

definition json_response :: "SubmitOrderResponse \<Rightarrow> bool" where
  "json_response resp \<longleftrightarrow>
     list_all json_float [sr_SubTotal resp, sr_TaxAmount resp, sr_ServiceChargeAmount resp, sr_DiscountAmount resp,
       sr_GrandTotal resp, dto_StandardTaxAmount (sr_TaxBreakdown resp), dto_AlcoholTaxAmount (sr_TaxBreakdown resp)]
     \<and> list_all (\<lambda>d. list_all json_float [td_UnitPrice d, td_LineTotal d, td_TaxRate d, td_TaxAmount d])
         (dto_ItemDetails (sr_TaxBreakdown resp))"

definition cacheIdempotencyResult ::
    "gotime \<Rightarrow> string \<Rightarrow> SubmitOrderResponse \<Rightarrow> ('z order_db_scheme, 'e, unit) op" where
  "cacheIdempotencyResult now key resp =
     (if json_response resp then ignore (redis_Set now rd_orders_update key resp idempotencyTTL) else ret ())"

section \<open>Validation\<close>

record domainContext =
  dc_profile :: RestaurantProfile
  dc_table :: "Table option"
  dc_menuItems :: "(uuid \<times> MenuItem) list"
  dc_modifiers :: "(uuid \<times> MenuItemModifier) list"
  dc_estReadyMins :: int

definition load_table ::
    "order_env \<Rightarrow> gotime \<Rightarrow> SubmitOrderRequest \<Rightarrow> ('z order_db_scheme, order_error, Table option) op" where
  "load_table E now req =
     (case sub_TableID req of
        None \<Rightarrow> ret None
      | Some tableID \<Rightarrow>
          if sub_OrderType req \<noteq> ''dine-in'' then ret None
          else bindE (db_First (ErrTableLookup ''record not found'') ErrTableLookup tab_TableID od_tables
                 (\<lambda>t. tab_TableID t = tableID \<and> tab_RestaurantID t = sub_RestaurantID req)) (\<lambda>table.
            if can_fire (TableFSM table_methods) table (tab_Status table)
                 (NewEnvelope (oe_envelope_id E) now TableEventSeat None)
            then ret (Some table)
            else throw (ErrTableNotAvailable (tab_TableID table) (tab_Status table))))"

definition load_menu ::
    "uuid \<Rightarrow> SubmitOrderRequest \<Rightarrow> ('z order_db_scheme, order_error, (uuid \<times> MenuItem) list) op" where
  "load_menu tenantID req =
     db_query (OrderWrapped ''menu item load'') (\<lambda>s. map (\<lambda>mi. (mi_MenuItemID mi, mi))
       (filter (\<lambda>mi. mi_MenuItemID mi \<in> si_MenuItemID ` set (sub_Items req) \<and> mi_TenantID mi = tenantID
          \<and> mi_RestaurantID mi = sub_RestaurantID req \<and> mi_IsAvailable mi) (od_menuItems s)))"

definition items_field :: "nat \<Rightarrow> string \<Rightarrow> string" where
  "items_field i name = ''items['' @ fmt_d (int i) @ ''].'' @ name"

definition unavailable :: "order_env \<Rightarrow> nat \<Rightarrow> SubmitOrderItemRequest \<Rightarrow> ValidationFailure" where
  "unavailable E i item = \<lparr>vf_Field = items_field i ''menu_item_id'', vf_Code = ''item_unavailable'',
     vf_Message = ''menu item '' @ oe_uuid_String E (si_MenuItemID item) @ '' is not available or does not exist''\<rparr>"

definition price_mismatch :: "nat \<Rightarrow> SubmitOrderItemRequest \<Rightarrow> MenuItem \<Rightarrow> ValidationFailure" where
  "price_mismatch i item mi = \<lparr>vf_Field = items_field i ''unit_price'', vf_Code = ''price_mismatch'',
     vf_Message = ''submitted price '' @ fmt_f 2 (si_ClientUnitPrice item) @ '' does not match current price ''
       @ fmt_f 2 (mi_BasePrice mi)\<rparr>"

text \<open>The client's price may be off by one percent.\<close>

definition price_off :: "f64 \<Rightarrow> f64 \<Rightarrow> bool" where
  "price_off basePrice clientPrice =
     (let priceDelta = f_sub basePrice clientPrice;
          priceDelta = (if f_lt priceDelta f_zero then f_neg priceDelta else priceDelta)
      in f_gt priceDelta (f_mul basePrice (rnd (1 / 100))))"

definition later_ready :: "int \<Rightarrow> MenuItem \<Rightarrow> int" where
  "later_ready mins mi =
     (case mi_PreparationTimeMinutes mi of None \<Rightarrow> mins | Some p \<Rightarrow> if p > mins then p else mins)"

fun check_items ::
    "order_env \<Rightarrow> (uuid \<times> MenuItem) list \<Rightarrow> nat \<Rightarrow> int \<Rightarrow> SubmitOrderItemRequest list
       \<Rightarrow> ValidationFailure list \<times> int" where
  "check_items E menu i mins [] = ([], mins)"
| "check_items E menu i mins (item # items) =
     (case map_of menu (si_MenuItemID item) of
        None \<Rightarrow>
          let (failures, mins) = check_items E menu (Suc i) mins items
          in (unavailable E i item # failures, mins)
      | Some mi \<Rightarrow>
          let (failures, mins) = check_items E menu (Suc i) (later_ready mins mi) items
          in ((if price_off (mi_BasePrice mi) (si_ClientUnitPrice item) then [price_mismatch i item mi] else [])
                @ failures, mins))"

definition load_modifiers ::
    "SubmitOrderRequest \<Rightarrow> ('z order_db_scheme, order_error, (uuid \<times> MenuItemModifier) list) op" where
  "load_modifiers req =
     (let ids = concat (map (\<lambda>item. map sm_MenuItemModifierID (si_Modifiers item)) (sub_Items req))
      in if ids = [] then ret []
         else db_query (OrderWrapped ''modifier load'') (\<lambda>s. map (\<lambda>m. (mm_MenuItemModifierID m, m))
                (filter (\<lambda>m. mm_MenuItemModifierID m \<in> set ids \<and> mm_IsAvailable m) (od_menuModifiers s))))"

fun check_item_modifiers ::
    "order_env \<Rightarrow> (uuid \<times> MenuItemModifier) list \<Rightarrow> nat \<Rightarrow> nat \<Rightarrow> SubmitOrderModifierRequest list
       \<Rightarrow> ValidationFailure list" where
  "check_item_modifiers E modifiers i j [] = []"
| "check_item_modifiers E modifiers i j (m # ms) =
     (if map_of modifiers (sm_MenuItemModifierID m) = None
      then [\<lparr>vf_Field = items_field i (''modifiers['' @ fmt_d (int j) @ ''].menu_item_modifier_id''),
             vf_Code = ''modifier_unavailable'',
             vf_Message = ''modifier '' @ oe_uuid_String E (sm_MenuItemModifierID m) @ '' is not available''\<rparr>]
      else []) @ check_item_modifiers E modifiers i (Suc j) ms"

fun check_modifiers ::
    "order_env \<Rightarrow> (uuid \<times> MenuItemModifier) list \<Rightarrow> nat \<Rightarrow> SubmitOrderItemRequest list \<Rightarrow> ValidationFailure list" where
  "check_modifiers E modifiers i [] = []"
| "check_modifiers E modifiers i (item # items) =
     check_item_modifiers E modifiers i 0 (si_Modifiers item) @ check_modifiers E modifiers (Suc i) items"

text \<open>
  Every link of an ordered menu item to a stock item of the restaurant, active or not, is compared
  with the stock on its own.  An error of the query lets the order pass.
\<close>

definition stock_rows ::
    "uuid \<Rightarrow> SubmitOrderRequest \<Rightarrow> 'z order_db_scheme \<Rightarrow> (MenuItemInventoryLink \<times> InventoryItem) list" where
  "stock_rows tenantID req s =
     [(link, item). link \<leftarrow> st_links s, lk_MenuItemID link \<in> si_MenuItemID ` set (sub_Items req),
        item \<leftarrow> st_items s, inv_InventoryItemID item = lk_InventoryItemID link \<and> inv_TenantID item = tenantID
          \<and> inv_RestaurantID item = sub_RestaurantID req]"

definition requested_quantity :: "SubmitOrderRequest \<Rightarrow> uuid \<Rightarrow> int" where
  "requested_quantity req menuItemID =
     sum_list (map si_Quantity (filter (\<lambda>item. si_MenuItemID item = menuItemID) (sub_Items req)))"

definition stock_failures ::
    "order_env \<Rightarrow> SubmitOrderRequest \<Rightarrow> (MenuItemInventoryLink \<times> InventoryItem) list \<Rightarrow> ValidationFailure list" where
  "stock_failures E req rows =
     concat (map (\<lambda>(link, item).
       let ordered = f_mul (f_of_int (requested_quantity req (lk_MenuItemID link))) (lk_QuantityPerUnit link)
       in if f_lt (inv_CurrentQuantity item) ordered
          then [\<lparr>vf_Field = ''items'', vf_Code = ''insufficient_stock'',
                 vf_Message = ''item '' @ oe_uuid_String E (lk_MenuItemID link) @ '': need '' @ fmt_f 2 ordered
                   @ '' units, only '' @ fmt_f 2 (inv_CurrentQuantity item) @ '' available''\<rparr>]
          else []) rows)"

definition checkInventoryStock ::
    "order_env \<Rightarrow> uuid \<Rightarrow> SubmitOrderRequest \<Rightarrow> ('z order_db_scheme, order_error, unit) op" where
  "checkInventoryStock E tenantID req =
     bindE (or_else (db_query (\<lambda>err. err) (stock_rows tenantID req)) []) (\<lambda>rows.
       let failures = stock_failures E req rows
       in if failures = [] then ret () else throw (ErrValidation failures))"

definition validateDomain ::
    "order_env \<Rightarrow> gotime \<Rightarrow> uuid \<Rightarrow> SubmitOrderRequest \<Rightarrow> ('z order_db_scheme, order_error, domainContext) op" where
  "validateDomain E now tenantID req =
     (if sub_Items req = [] then throw ErrEmptyOrder
      else bindE (wrapE ErrRestaurantProfile (GetRestaurantProfile (oe_uuid_String E) now (sub_RestaurantID req))) (\<lambda>profile.
           bindE (load_table E now req) (\<lambda>table.
           bindE (load_menu tenantID req) (\<lambda>menu.
           bindE (load_modifiers req) (\<lambda>modifiers.
             let (item_failures, mins) = check_items E menu 0 0 (sub_Items req);
                 failures = item_failures @ check_modifiers E modifiers 0 (sub_Items req)
             in if failures \<noteq> [] then throw (ErrValidation failures)
                else thenE (checkInventoryStock E tenantID req)
                       (ret \<lparr>dc_profile = profile, dc_table = table, dc_menuItems = menu,
                             dc_modifiers = modifiers, dc_estReadyMins = mins\<rparr>))))))"

end
