(* ===== verification/Order_Submission.thy ===== *)
theory Order_Submission
  imports Order_Service
begin

text \<open>
  The transaction of \<open>SubmitOrder\<close> and the pipeline around it.  The identifiers drawn in the
  transaction are an argument; the rows are written one by one and rolled back together.
\<close>

record order_ids =
  ids_order :: uuid
  ids_item :: "nat \<Rightarrow> uuid"
  ids_modifier :: "nat \<Rightarrow> nat \<Rightarrow> uuid"
  ids_tax :: uuid
  ids_log :: uuid
  ids_outbox :: uuid

section \<open>Building the order\<close>

definition the_menu_item :: "domainContext \<Rightarrow> uuid \<Rightarrow> MenuItem" where
  "the_menu_item dc menuItemID =
     (case map_of (dc_menuItems dc) menuItemID of
        Some mi \<Rightarrow> mi
      | None \<Rightarrow> \<lparr>mi_MenuItemID = 0, mi_TenantID = 0, mi_RestaurantID = 0, mi_Name = '''', mi_BasePrice = f_zero,
                 mi_IsAvailable = False, mi_PreparationTimeMinutes = None, mi_DietaryFlags = []\<rparr>)"

definition the_modifier :: "domainContext \<Rightarrow> uuid \<Rightarrow> MenuItemModifier" where
  "the_modifier dc modifierID =
     (case map_of (dc_modifiers dc) modifierID of
        Some m \<Rightarrow> m
      | None \<Rightarrow> \<lparr>mm_MenuItemModifierID = 0, mm_MenuItemID = 0, mm_Name = '''', mm_PriceAdjustment = f_zero,
                mm_IsAvailable = False\<rparr>)"

definition build_modifier :: "order_ids \<Rightarrow> nat \<Rightarrow> nat \<Rightarrow> MenuItemModifier \<Rightarrow> OrderItemModifier" where
  "build_modifier ids i j m = \<lparr>oim_OrderItemModifierID = ids_modifier ids i j, oim_OrderItemID = 0,
     oim_MenuItemModifierID = Some (mm_MenuItemModifierID m), oim_ModifierName = mm_Name m,
     oim_AdditionalPrice = mm_PriceAdjustment m\<rparr>"

definition build_item :: "order_ids \<Rightarrow> domainContext \<Rightarrow> nat \<Rightarrow> SubmitOrderItemRequest \<Rightarrow> OrderItem" where
  "build_item ids dc i item =
     (let mi = the_menu_item dc (si_MenuItemID item)
      in \<lparr>oi_OrderItemID = ids_item ids i, oi_OrderID = ids_order ids, oi_Status = OrderItemStatusPending,
          oi_Quantity = si_Quantity item, oi_MenuItemID = Some (mi_MenuItemID mi), oi_ItemName = mi_Name mi,
          oi_UnitPrice = mi_BasePrice mi, oi_Notes = si_Notes item,
          oi_Modifiers = map (\<lambda>(j, m). build_modifier ids i j (the_modifier dc (sm_MenuItemModifierID m)))
            (enumerate 0 (si_Modifiers item))\<rparr>)"

definition build_items :: "order_ids \<Rightarrow> domainContext \<Rightarrow> SubmitOrderRequest \<Rightarrow> OrderItem list" where
  "build_items ids dc req = map (\<lambda>(i, item). build_item ids dc i item) (enumerate 0 (sub_Items req))"

definition build_tax_item :: "domainContext \<Rightarrow> SubmitOrderItemRequest \<Rightarrow> OrderItemForTax" where
  "build_tax_item dc item =
     (let mi = the_menu_item dc (si_MenuItemID item)
      in \<lparr>it_ItemName = mi_Name mi, it_UnitPrice = mi_BasePrice mi, it_Quantity = si_Quantity item,
          it_TaxCategory = DetermineTaxCategory (mi_DietaryFlags mi),
          it_Modifiers = map (\<lambda>m. let mm = the_modifier dc (sm_MenuItemModifierID m)
            in \<lparr>mt_Name = mm_Name mm, mt_AdditionalPrice = mm_PriceAdjustment mm\<rparr>) (si_Modifiers item)\<rparr>)"

definition buildOrderItemsWithTax ::
    "order_env \<Rightarrow> gotime \<Rightarrow> order_ids \<Rightarrow> uuid \<Rightarrow> SubmitOrderRequest \<Rightarrow> domainContext
       \<Rightarrow> ('z order_db_scheme, order_error, OrderItem list \<times> TaxBreakdown) op" where
  "buildOrderItemsWithTax E now ids tenantID req dc =
     bindE (wrapE ErrBuildItems (CalculateTax (oe_uuid_String E) now tenantID (sub_RestaurantID req)
              (sub_OrderType req) (map (build_tax_item dc) (sub_Items req))
              (prof_ServiceChargePct (dc_profile dc)))) (\<lambda>tax.
       ret (build_items ids dc req, tax))"

definition new_order ::
    "gotime \<Rightarrow> order_ids \<Rightarrow> uuid \<Rightarrow> uuid \<Rightarrow> SubmitOrderRequest \<Rightarrow> OrderItem list \<Rightarrow> TaxBreakdown \<Rightarrow> Order" where
  "new_order now ids actorID tenantID req items tax =
     \<lparr>ord_OrderID = ids_order ids, ord_UserID = actorID, ord_TenantID = tenantID,
      ord_RestaurantID = sub_RestaurantID req, ord_CustomerID = sub_CustomerID req, ord_TableID = sub_TableID req,
      ord_OrderStatus = OrderItemStatusPending, ord_OrderType = sub_OrderType req,
      ord_TotalAmount = tb_GrandTotal tax, ord_CustomerName = sub_CustomerName req,
      ord_PhoneNumber = sub_PhoneNumber req, ord_Notes = sub_Notes req, ord_CreatedAt = now, ord_Items = items\<rparr>"

section \<open>The rows\<close>

text \<open>
  Associations are omitted from the order row and from the item rows; the creation hook of an item
  replaces a quantity that is not positive by one, in the row and in the slice.
\<close>

definition order_row :: "order_env \<Rightarrow> Order \<Rightarrow> Order" where
  "order_row E order = order\<lparr>ord_TotalAmount := oe_numeric E 2 (ord_TotalAmount order), ord_Items := []\<rparr>"

definition created_item :: "OrderItem \<Rightarrow> OrderItem" where
  "created_item item = (if oi_Quantity item \<le> 0 then item\<lparr>oi_Quantity := 1\<rparr> else item)"

definition item_row_of :: "order_env \<Rightarrow> OrderItem \<Rightarrow> OrderItem" where
  "item_row_of E item = (created_item item)\<lparr>oi_UnitPrice := oe_numeric E 2 (oi_UnitPrice item), oi_Modifiers := []\<rparr>"

definition modifier_row :: "order_env \<Rightarrow> OrderItem \<Rightarrow> OrderItemModifier \<Rightarrow> OrderItemModifier" where
  "modifier_row E item m = m\<lparr>oim_OrderItemID := oi_OrderItemID item,
     oim_AdditionalPrice := oe_numeric E 2 (oim_AdditionalPrice m)\<rparr>"

fun persist_modifiers ::
    "order_env \<Rightarrow> OrderItem \<Rightarrow> OrderItemModifier list \<Rightarrow> ('z order_db_scheme, order_error, unit) op" where
  "persist_modifiers E item [] = ret ()"
| "persist_modifiers E item (m # ms) =
     thenE (db_insert (OrderWrapped ''persist modifier'')
              (\<lambda>s. oim_OrderItemModifierID m \<in> oim_OrderItemModifierID ` set (od_modifiers s))
              (\<lambda>s. s\<lparr>od_modifiers := od_modifiers s @ [modifier_row E item m]\<rparr>))
       (persist_modifiers E item ms)"

fun persist_items :: "order_env \<Rightarrow> OrderItem list \<Rightarrow> ('z order_db_scheme, order_error, unit) op" where
  "persist_items E [] = ret ()"
| "persist_items E (item # items) =
     thenE (db_insert (OrderWrapped ''persist item'')
              (\<lambda>s. oi_OrderItemID item \<in> oi_OrderItemID ` set (od_items s))
              (\<lambda>s. s\<lparr>od_items := od_items s @ [item_row_of E item]\<rparr>))
    (thenE (persist_modifiers E item (oi_Modifiers item))
      (persist_items E items))"

definition tax_row :: "order_env \<Rightarrow> gotime \<Rightarrow> order_ids \<Rightarrow> TaxBreakdown \<Rightarrow> OrderTaxBreakdown" where
  "tax_row E now ids tax = \<lparr>otb_TaxBreakdownID = ids_tax ids, otb_OrderID = ids_order ids,
     otb_StandardTaxAmount = oe_numeric E 4 (tb_StandardTaxAmount tax),
     otb_AlcoholTaxAmount = oe_numeric E 4 (tb_AlcoholTaxAmount tax),
     otb_TotalTaxAmount = oe_numeric E 4 (tb_TotalTaxAmount tax),
     otb_ServiceChargeAmount = oe_numeric E 4 (tb_ServiceChargeAmount tax),
     otb_TaxIncludedInPrice = tb_TaxIncludedInPrice tax, otb_TaxRate = oe_numeric E 4 (tb_TaxRate tax),
     otb_CreatedAt = now\<rparr>"

definition persist_order ::
    "order_env \<Rightarrow> gotime \<Rightarrow> order_ids \<Rightarrow> uuid \<Rightarrow> uuid \<Rightarrow> SubmitOrderRequest \<Rightarrow> OrderItem list \<Rightarrow> TaxBreakdown
       \<Rightarrow> ('z order_db_scheme, order_error, unit) op" where
  "persist_order E now ids actorID tenantID req items tax =
     thenE (db_insert (OrderWrapped ''persist order'') (\<lambda>s. ids_order ids \<in> ord_OrderID ` set (db_orders s))
              (\<lambda>s. s\<lparr>db_orders := db_orders s @ [order_row E (new_order now ids actorID tenantID req items tax)]\<rparr>))
    (thenE (persist_items E items)
    (thenE (db_insert (OrderWrapped ''persist tax breakdown'')
              (\<lambda>s. \<exists>t \<in> set (od_taxes s). otb_TaxBreakdownID t = ids_tax ids \<or> otb_OrderID t = ids_order ids)
              (\<lambda>s. s\<lparr>od_taxes := od_taxes s @ [tax_row E now ids tax]\<rparr>))
    (thenE (db_insert (OrderWrapped ''persist order log'') (\<lambda>s. ids_log ids \<in> ol_LogID ` set (od_logs s))
              (\<lambda>s. s\<lparr>od_logs := od_logs s @ [\<lparr>ol_LogID = ids_log ids, ol_OrderID = ids_order ids,
                 ol_UserID = actorID, ol_Action = ''order_submitted'', ol_Timestamp = now\<rparr>]\<rparr>))
      (db_write (OrderWrapped ''persist audit'') (\<lambda>s. s\<lparr>db_audits := db_audits s @
         [\<lparr>aud_TenantID = tenantID, aud_UserID = Some actorID, aud_RestaurantID = Some (sub_RestaurantID req),
           aud_EventType = AuditEventCreate, aud_EventCategory = ''order'', aud_Severity = AuditSeverityInfo,
           aud_EntityType = ''order'', aud_EntityID = oe_uuid_String E (ids_order ids), aud_Timestamp = now\<rparr>]\<rparr>)))))"

text \<open>
  The event is sent on the loaded table, whose status the machine then has changed; the update asks
  for a row that still has the status of the loaded table.
\<close>

definition claim_table :: "Table \<Rightarrow> ('z order_db_scheme, order_error, unit) op" where
  "claim_table table =
     bindE (db_call (OrderWrapped ''table status update'')) (\<lambda>_ s.
       let free = (\<lambda>t. tab_TableID t = tab_TableID table \<and> tab_Status t = tab_Status table)
       in (s\<lparr>od_tables := update_rows free (\<lambda>t. t\<lparr>tab_Status := TableStateOccupied\<rparr>) (od_tables s)\<rparr>,
           if filter free (od_tables s) = [] then Inl (ErrTableTaken (tab_TableID table)) else Inr ()))"

definition seat_table ::
    "order_env \<Rightarrow> gotime \<Rightarrow> uuid \<Rightarrow> uuid \<Rightarrow> SubmitOrderRequest \<Rightarrow> Table option
       \<Rightarrow> ('z order_db_scheme, order_error, unit) op" where
  "seat_table E now actorID tenantID req loaded =
     (case loaded of
        None \<Rightarrow> ret ()
      | Some table \<Rightarrow>
          if sub_OrderType req \<noteq> ''dine-in'' then ret ()
          else case fire (TableFSM table_methods) table (tab_Status table)
                      (WithActor (NewEnvelope (oe_envelope_id E) now TableEventSeat None) actorID tenantID) now now of
                 (table, Returned (Some err)) \<Rightarrow> throw (ErrTableSeat err)
               | (table, Panicked) \<Rightarrow> throw OrderPanic
               | (table, Returned None) \<Rightarrow> claim_table table)"

definition buildOutboxPayload ::
    "gotime \<Rightarrow> order_ids \<Rightarrow> uuid \<Rightarrow> SubmitOrderRequest \<Rightarrow> uuid \<Rightarrow> string \<Rightarrow> OrderItem list \<Rightarrow> OrderCreatedPayload" where
  "buildOutboxPayload now ids tenantID req actorID kotNumber items =
     \<lparr>op_OrderID = ids_order ids, op_TenantID = tenantID, op_RestaurantID = sub_RestaurantID req,
      op_TableID = sub_TableID req, op_OrderType = sub_OrderType req, op_KOTNumber = kotNumber,
      op_ActorID = actorID, op_OccurredAt = now,
      op_Items = map (\<lambda>item. \<lparr>pi_OrderItemID = oi_OrderItemID item, pi_MenuItemID = oi_MenuItemID item,
         pi_ItemName = oi_ItemName item, pi_Quantity = oi_Quantity item, pi_UnitPrice = oi_UnitPrice item,
         pi_KitchenStation = KitchenStationGeneral\<rparr>) items\<rparr>"

definition json_payload :: "OrderCreatedPayload \<Rightarrow> bool" where
  "json_payload payload \<longleftrightarrow> list_all (\<lambda>i. json_float (pi_UnitPrice i)) (op_Items payload)"

definition new_event :: "order_env \<Rightarrow> gotime \<Rightarrow> order_ids \<Rightarrow> uuid \<Rightarrow> OrderCreatedPayload \<Rightarrow> OutboxEvent" where
  "new_event E now ids tenantID payload =
     \<lparr>ob_OutboxEventID = ids_outbox ids, ob_TenantID = tenantID, ob_AggregateType = ''order'',
      ob_AggregateID = oe_uuid_String E (ids_order ids), ob_EventType = ''OrderCreated'', ob_Payload = Some payload,
      ob_Status = OutboxStatusPending, ob_Attempts = 0, ob_LastAttemptAt = None, ob_NextRetryAt = now,
      ob_CreatedAt = now, ob_ProcessedAt = None, ob_Error = ''''\<rparr>"

definition persist_outbox ::
    "order_env \<Rightarrow> gotime \<Rightarrow> order_ids \<Rightarrow> uuid \<Rightarrow> OrderCreatedPayload \<Rightarrow> ('z order_db_scheme, order_error, unit) op" where
  "persist_outbox E now ids tenantID payload =
     (if \<not> json_payload payload then throw (OrderWrapped ''marshal outbox payload'' ''json: unsupported value'')
      else db_insert (OrderWrapped ''persist outbox'') (\<lambda>s. ids_outbox ids \<in> ob_OutboxEventID ` set (od_outbox s))
             (\<lambda>s. s\<lparr>od_outbox := od_outbox s @ [new_event E now ids tenantID payload]\<rparr>))"

section \<open>The transaction\<close>

definition order_generateKOTNumber :: "order_env \<Rightarrow> gotime \<Rightarrow> string" where
  "order_generateKOTNumber E now = oe_Format_stamp E now @ ''-'' @ oe_suffix E"

definition toTaxBreakdownDTO :: "TaxBreakdown \<Rightarrow> TaxBreakdownDTO" where
  "toTaxBreakdownDTO tax = \<lparr>dto_StandardTaxAmount = tb_StandardTaxAmount tax,
     dto_AlcoholTaxAmount = tb_AlcoholTaxAmount tax, dto_TaxIncludedInPrice = tb_TaxIncludedInPrice tax,
     dto_ItemDetails = tb_ItemTaxBreakdown tax\<rparr>"

definition order_response ::
    "order_env \<Rightarrow> gotime \<Rightarrow> order_ids \<Rightarrow> domainContext \<Rightarrow> TaxBreakdown \<Rightarrow> SubmitOrderResponse" where
  "order_response E now ids dc tax =
     \<lparr>sr_OrderID = ids_order ids, sr_OrderStatus = ''pending'', sr_SubTotal = tb_SubtotalBeforeTax tax,
      sr_TaxAmount = tb_TotalTaxAmount tax, sr_ServiceChargeAmount = tb_ServiceChargeAmount tax,
      sr_DiscountAmount = f_zero, sr_GrandTotal = tb_GrandTotal tax, sr_KOTNumber = order_generateKOTNumber E now,
      sr_EstimatedReadyMinutes = dc_estReadyMins dc, sr_TaxBreakdown = toTaxBreakdownDTO tax, sr_Cached = False\<rparr>"

definition rollback_on_error :: "('z store_scheme, 'e, 'a) op \<Rightarrow> ('z store_scheme, 'e, 'a) op" where
  "rollback_on_error body s =
     (case body s of (s', Inl e) \<Rightarrow> (s\<lparr>faults := faults s'\<rparr>, Inl e) | (s', Inr a) \<Rightarrow> (s', Inr a))"

definition write_order ::
    "order_env \<Rightarrow> gotime \<Rightarrow> order_ids \<Rightarrow> uuid \<Rightarrow> uuid \<Rightarrow> SubmitOrderRequest \<Rightarrow> domainContext \<Rightarrow> OrderItem list
       \<Rightarrow> TaxBreakdown \<Rightarrow> ('z order_db_scheme, order_error, unit) op" where
  "write_order E now ids actorID tenantID req dc items tax =
     rollback_on_error
       (thenE (persist_order E now ids actorID tenantID req items tax)
       (thenE (seat_table E now actorID tenantID req (dc_table dc))
       (thenE (persist_outbox E now ids tenantID
                 (buildOutboxPayload now ids tenantID req actorID (order_generateKOTNumber E now) (map created_item items)))
         (db_call (OrderWrapped '''')))))"

text \<open>
  The tax calculator reads through connections of its own, and what it caches is not rolled back;
  it comes before the first row is written.
\<close>

definition runTransaction ::
    "order_env \<Rightarrow> gotime \<Rightarrow> order_ids \<Rightarrow> uuid \<Rightarrow> uuid \<Rightarrow> SubmitOrderRequest \<Rightarrow> domainContext
       \<Rightarrow> ('z order_db_scheme, order_error, SubmitOrderResponse) op" where
  "runTransaction E now ids actorID tenantID req dc =
     thenE (db_call (OrderWrapped ''''))
       (bindE (buildOrderItemsWithTax E now ids tenantID req dc) (\<lambda>(items, tax).
         thenE (write_order E now ids actorID tenantID req dc items tax)
           (ret (order_response E now ids dc tax))))"

definition place_order ::
    "order_env \<Rightarrow> gotime \<Rightarrow> order_ids \<Rightarrow> uuid \<Rightarrow> uuid \<Rightarrow> SubmitOrderRequest
       \<Rightarrow> ('z order_db_scheme, order_error, SubmitOrderResponse) op" where
  "place_order E now ids actorID tenantID req =
     bindE (validateDomain E now tenantID req) (\<lambda>dc. runTransaction E now ids actorID tenantID req dc)"

text \<open>The replay comes before the authorization.\<close>

definition SubmitOrder ::
    "(AccessRequest \<Rightarrow> 'r \<Rightarrow> 'r \<times> rbac_error option) \<Rightarrow> order_env \<Rightarrow> gotime \<Rightarrow> order_ids \<Rightarrow> uuid \<Rightarrow> uuid
       \<Rightarrow> SubmitOrderRequest \<Rightarrow> 'r \<times> 'z order_db_scheme
       \<Rightarrow> ('r \<times> 'z order_db_scheme) \<times> (order_error + SubmitOrderResponse)" where
  "SubmitOrder require E now ids actorID tenantID req rs =
     (case checkIdempotency now (idempotencyKey E tenantID req) (snd rs) of
        (s, Inl err) \<Rightarrow> ((fst rs, s), Inl err)
      | (s, Inr (Some cached)) \<Rightarrow> ((fst rs, s), Inl (ErrIdempotentReplay (cached\<lparr>sr_Cached := True\<rparr>)))
      | (s, Inr None) \<Rightarrow>
          guarded require (service_request actorID tenantID ResourceOrder ActionCreate) OrderDenied
            (place_order E now ids actorID tenantID req) (fst rs, s))"

text \<open>
  The goroutine that an accepted submission starts on its way out.  It runs at some moment after the
  call has returned, or never when the process stops before.
\<close>

definition store_answer ::
    "order_env \<Rightarrow> gotime \<Rightarrow> uuid \<Rightarrow> SubmitOrderRequest \<Rightarrow> SubmitOrderResponse \<Rightarrow> ('z order_db_scheme, order_error, unit) op" where
  "store_answer E now tenantID req resp = cacheIdempotencyResult now (idempotencyKey E tenantID req) resp"

end
