(* ===== verification/Order_Correct.thy ===== *)
theory Order_Correct
  imports Order_Submission
begin

text \<open>
  What submitting an order does: everything or nothing, the same answer for the same key, no
  dangling reference in the tables, and never a dine-in order at a table.
\<close>

section \<open>What does not touch the orders\<close>

definition order_tables ::
    "'z order_db_scheme \<Rightarrow> (Order list \<times> OrderItem list \<times> OrderItemModifier list) \<times> OrderTaxBreakdown list
       \<times> OrderLog list \<times> OutboxEvent list \<times> Table list \<times> MenuItem list \<times> KOT list" where
  "order_tables s = ((db_orders s, od_items s, od_modifiers s), od_taxes s, od_logs s, od_outbox s, od_tables s,
     od_menuItems s, db_kots s)"

definition untouched :: "'z order_db_scheme \<Rightarrow> 'z order_db_scheme \<Rightarrow> bool" where
  "untouched s s' \<longleftrightarrow> order_tables s' = order_tables s"

lemma untouched_rules:
  "reflp untouched" "transp untouched" "fault_blind untouched" "redis_blind untouched"
  "untouched s (s\<lparr>rd_faults := fs\<rparr>)" "untouched s (rd_profiles_update f s)" "untouched s (rd_settings_update g s)"
  "untouched s (rd_orders_update h s)" "untouched s (s\<lparr>faults := es\<rparr>)"
  by (auto simp: untouched_def order_tables_def fault_blind_def redis_blind_def intro: reflpI transpI)

lemma profile_untouched: "steps untouched (GetRestaurantProfile us now restaurantID)"
  unfolding GetRestaurantProfile_def by (intro steps_rules untouched_rules)

lemma setting_untouched: "steps untouched (GetSetting us now tenantID restaurantID key)"
  unfolding GetSetting_def read_setting_def find_override_def find_setting_def Let_def
  by (intro steps_rules untouched_rules)

lemma parsed_untouched:
  "steps untouched (GetBool us now tenantID restaurantID key)" "steps untouched (GetFloat us now tenantID restaurantID key)"
  unfolding GetBool_def GetFloat_def parsed_def by (intro steps_rules untouched_rules setting_untouched)+

lemma tax_untouched: "steps untouched (CalculateTax us now tenantID restaurantID orderType items pct)"
  unfolding CalculateTax_def GetTaxConfiguration_def
  by (intro steps_rules untouched_rules profile_untouched setting_untouched parsed_untouched)

lemma build_untouched: "steps untouched (buildOrderItemsWithTax E now ids tenantID req dc)"
  unfolding buildOrderItemsWithTax_def by (intro steps_rules untouched_rules tax_untouched)

lemma validate_untouched: "steps untouched (validateDomain E now tenantID req)"
  unfolding validateDomain_def load_table_def load_menu_def load_modifiers_def checkInventoryStock_def Let_def
    case_prod_unfold
  by (intro steps_rules untouched_rules profile_untouched)

lemma cache_untouched: "steps untouched (cacheIdempotencyResult now key resp)"
  unfolding cacheIdempotencyResult_def by (intro steps_rules untouched_rules)

lemma checkIdempotency_untouched:
  assumes "checkIdempotency now key s = (s', r)"
  shows "untouched s s'"
proof -
  obtain s1 q where g: "redis_Get now rd_orders key s = (s1, q)" by (cases "redis_Get now rd_orders key s")
  have "steps untouched (redis_Get now rd_orders key)" by (intro steps_rules untouched_rules)
  then have "untouched s s1" using g by (rule stepsD)
  moreover have "s' = s1" using assms g by (auto simp: checkIdempotency_def split: sum.splits)
  ultimately show ?thesis by simp
qed

lemmas untouched_steps = profile_untouched setting_untouched tax_untouched build_untouched validate_untouched
  cache_untouched

section \<open>The rows of an order\<close>

definition modifier_rows :: "order_env \<Rightarrow> OrderItem list \<Rightarrow> OrderItemModifier list" where
  "modifier_rows E items = concat (map (\<lambda>item. map (modifier_row E item) (oi_Modifiers item)) items)"

lemma persist_modifiers_Inr:
  "persist_modifiers E item ms s = (s', Inr u) \<Longrightarrow>
     order_tables s' = ((db_orders s, od_items s, od_modifiers s @ map (modifier_row E item) ms), snd (order_tables s))"
proof (induction E item ms arbitrary: s rule: persist_modifiers.induct)
  case (1 E item)
  then show ?case by (simp add: order_tables_def)
next
  case (2 E item m ms)
  then show ?case by (auto simp: thenE_Inr_iff db_insert_Inr order_tables_def dest!: db_call_InrD)
qed

lemma persist_items_Inr:
  "persist_items E items s = (s', Inr u) \<Longrightarrow>
     order_tables s' = ((db_orders s, od_items s @ map (item_row_of E) items, od_modifiers s @ modifier_rows E items),
       snd (order_tables s))"
proof (induction E items arbitrary: s rule: persist_items.induct)
  case (1 E)
  then show ?case by (simp add: order_tables_def modifier_rows_def)
next
  case (2 E item items)
  then show ?case
    by (auto simp: thenE_Inr_iff db_insert_Inr order_tables_def modifier_rows_def dest!: db_call_InrD persist_modifiers_Inr)
qed

lemma persist_order_Inr:
  assumes "persist_order E now ids actorID tenantID req items tax s = (s', Inr u)"
  shows "ids_order ids \<notin> ord_OrderID ` set (db_orders s) \<and> (\<exists>log. ol_OrderID log = ids_order ids \<and>
    order_tables s' = ((db_orders s @ [order_row E (new_order now ids actorID tenantID req items tax)],
        od_items s @ map (item_row_of E) items, od_modifiers s @ modifier_rows E items),
      od_taxes s @ [tax_row E now ids tax], od_logs s @ [log], od_outbox s, od_tables s, od_menuItems s, db_kots s))"
  using assms unfolding persist_order_def
  by (auto simp: thenE_Inr_iff db_insert_Inr db_write_Inr order_tables_def dest!: db_call_InrD persist_items_Inr)

text \<open>An accepted seat event has set the status of the loaded table before the update asks for it.\<close>

lemma seat_enabled:
  assumes "env_Event env = TableEventSeat"
  shows "enabled (TableFSM I) table st env \<longleftrightarrow> st = TableStateAvailable"
  by (subst compiled_enabled [OF TableFSM_Inr]; simp add: TableFSM_builder_def builder_simps assms state_names)

lemma seat_fired:
  assumes "env_Event env = TableEventSeat"
  shows "fire (TableFSM table_methods) table (tab_Status table) env now now = (table', Returned None) \<longleftrightarrow>
    tab_Status table = TableStateAvailable \<and> table' = table\<lparr>tab_Status := TableStateOccupied\<rparr>"
proof -
  have "target (TableFSM table_methods) TableStateAvailable TableEventSeat = TableStateOccupied"
    by (rule TableFSM_targets)
  then show ?thesis
    by (auto simp: table_fsm.fire_set_iff seat_enabled [OF assms] assms table_methods_def)
qed

lemma claim_table_Inr:
  assumes "claim_table table s = (s', Inr u)"
  shows "(\<exists>t \<in> set (od_tables s). tab_TableID t = tab_TableID table \<and> tab_Status t = tab_Status table)
    \<and> order_tables s' = (fst (order_tables s), od_taxes s, od_logs s, od_outbox s,
        update_rows (\<lambda>t. tab_TableID t = tab_TableID table \<and> tab_Status t = tab_Status table)
          (\<lambda>t. t\<lparr>tab_Status := TableStateOccupied\<rparr>) (od_tables s), od_menuItems s, db_kots s)"
  using assms unfolding claim_table_def Let_def
  by (auto simp: bindE_Inr_iff order_tables_def filter_empty_conv dest!: db_call_InrD split: if_splits)

definition seat_envelope :: "order_env \<Rightarrow> gotime \<Rightarrow> uuid \<Rightarrow> uuid \<Rightarrow> string envelope" where
  "seat_envelope E now actorID tenantID =
     WithActor (NewEnvelope (oe_envelope_id E) now TableEventSeat None) actorID tenantID"

lemma seat_envelope_event: "env_Event (seat_envelope E now actorID tenantID) = TableEventSeat"
  by (simp add: seat_envelope_def WithActor_def NewEnvelope_def)

text \<open>The update asks for an occupied table and leaves it occupied.\<close>

lemma seat_table_Inr:
  assumes "seat_table E now actorID tenantID req loaded s = (s', Inr u)"
  shows "order_tables s' = order_tables s \<and> (sub_OrderType req = ''dine-in'' \<longrightarrow> (\<forall>table. loaded = Some table \<longrightarrow>
    tab_Status table = TableStateAvailable
    \<and> (\<exists>t \<in> set (od_tables s). tab_TableID t = tab_TableID table \<and> tab_Status t = TableStateOccupied)))"
proof (cases "loaded = None \<or> sub_OrderType req \<noteq> ''dine-in''")
  case True
  with assms show ?thesis by (auto simp: seat_table_def split: option.splits)
next
  case False
  then obtain table where l: "loaded = Some table" and d: "sub_OrderType req = ''dine-in''" by auto
  obtain table' out where f: "fire (TableFSM table_methods) table (tab_Status table)
      (seat_envelope E now actorID tenantID) now now = (table', out)"
    by fastforce
  have run: "(case (table', out) of (t, Returned (Some err)) \<Rightarrow> throw (ErrTableSeat err)
      | (t, Panicked) \<Rightarrow> throw OrderPanic | (t, Returned None) \<Rightarrow> claim_table t) s = (s', Inr u)"
    using assms d f by (simp add: seat_table_def l seat_envelope_def)
  then have out: "out = Returned None" by (cases out rule: outcome.exhaust) (auto split: option.splits)
  with run have c: "claim_table table' s = (s', Inr u)" by simp
  from f out have st: "tab_Status table = TableStateAvailable" and t': "table' = table\<lparr>tab_Status := TableStateOccupied\<rparr>"
    using seat_fired [OF seat_envelope_event] by blast+
  have same: "update_rows (\<lambda>t. tab_TableID t = tab_TableID table' \<and> tab_Status t = tab_Status table')
      (\<lambda>t. t\<lparr>tab_Status := TableStateOccupied\<rparr>) rows = rows" for rows
    unfolding update_rows_def t' by (rule map_idI) simp
  from claim_table_Inr [OF c] show ?thesis
    unfolding same by (auto simp: l st t' order_tables_def)
qed

lemma persist_outbox_Inr:
  assumes "persist_outbox E now ids tenantID payload s = (s', Inr u)"
  shows "ids_outbox ids \<notin> ob_OutboxEventID ` set (od_outbox s)
    \<and> order_tables s' = (fst (order_tables s), od_taxes s, od_logs s,
        od_outbox s @ [new_event E now ids tenantID payload], od_tables s, od_menuItems s, db_kots s)"
  using assms unfolding persist_outbox_def
  by (auto simp: db_insert_Inr order_tables_def dest!: db_call_InrD split: if_splits)

lemma rollback_on_error_Inr: "rollback_on_error body s = (s', Inr a) \<longleftrightarrow> body s = (s', Inr a)"
  by (auto simp: rollback_on_error_def split: prod.splits sum.splits)

lemma rollback_on_error_Inl: "rollback_on_error body s = (s', Inl e) \<Longrightarrow> \<exists>fs. s' = s\<lparr>faults := fs\<rparr>"
  by (auto simp: rollback_on_error_def split: prod.splits sum.splits)

abbreviation order_payload ::
    "order_env \<Rightarrow> gotime \<Rightarrow> order_ids \<Rightarrow> uuid \<Rightarrow> uuid \<Rightarrow> SubmitOrderRequest \<Rightarrow> OrderItem list \<Rightarrow> OrderCreatedPayload" where
  "order_payload E now ids actorID tenantID req items \<equiv>
     buildOutboxPayload now ids tenantID req actorID (order_generateKOTNumber E now) (map created_item items)"

lemma write_order_Inr:
  assumes "write_order E now ids actorID tenantID req dc items tax s = (s', Inr u)"
  shows "ids_order ids \<notin> ord_OrderID ` set (db_orders s) \<and> ids_outbox ids \<notin> ob_OutboxEventID ` set (od_outbox s)
    \<and> (\<exists>log. ol_OrderID log = ids_order ids \<and>
    order_tables s' = ((db_orders s @ [order_row E (new_order now ids actorID tenantID req items tax)],
        od_items s @ map (item_row_of E) items, od_modifiers s @ modifier_rows E items),
      od_taxes s @ [tax_row E now ids tax], od_logs s @ [log],
      od_outbox s @ [new_event E now ids tenantID (order_payload E now ids actorID tenantID req items)],
      od_tables s, od_menuItems s, db_kots s))
    \<and> (sub_OrderType req = ''dine-in'' \<longrightarrow> (\<forall>table. dc_table dc = Some table \<longrightarrow>
        tab_Status table = TableStateAvailable
        \<and> (\<exists>t \<in> set (od_tables s). tab_TableID t = tab_TableID table \<and> tab_Status t = TableStateOccupied)))"
proof -
  from assms obtain s1 s2 s3 where 1: "persist_order E now ids actorID tenantID req items tax s = (s1, Inr ())"
    and 2: "seat_table E now actorID tenantID req (dc_table dc) s1 = (s2, Inr ())"
    and 3: "persist_outbox E now ids tenantID (order_payload E now ids actorID tenantID req items) s2 = (s3, Inr ())"
    and 4: "db_call (OrderWrapped '''') s3 = (s', Inr ())"
    unfolding write_order_def rollback_on_error_Inr thenE_Inr_iff by auto
  from db_call_InrD [OF 4] have "order_tables s' = order_tables s3" by (auto simp: order_tables_def)
  with persist_order_Inr [OF 1] seat_table_Inr [OF 2] persist_outbox_Inr [OF 3] show ?thesis
    unfolding order_tables_def by (auto)
qed

section \<open>What validation has established\<close>

lemma check_items_clean:
  "fst (check_items E menu i mins items) = [] \<longleftrightarrow>
     (\<forall>item \<in> set items. \<exists>mi. map_of menu (si_MenuItemID item) = Some mi
        \<and> \<not> price_off (mi_BasePrice mi) (si_ClientUnitPrice item))"
  by (induction E menu i mins items rule: check_items.induct) (auto split: option.splits prod.splits)

definition on_menu :: "uuid \<Rightarrow> SubmitOrderRequest \<Rightarrow> 'z order_db_scheme \<Rightarrow> SubmitOrderItemRequest \<Rightarrow> MenuItem \<Rightarrow> bool" where
  "on_menu tenantID req s item mi \<longleftrightarrow>
     mi \<in> set (od_menuItems s) \<and> mi_MenuItemID mi = si_MenuItemID item \<and> mi_TenantID mi = tenantID
     \<and> mi_RestaurantID mi = sub_RestaurantID req \<and> mi_IsAvailable mi
     \<and> \<not> price_off (mi_BasePrice mi) (si_ClientUnitPrice item)"

definition validated :: "uuid \<Rightarrow> SubmitOrderRequest \<Rightarrow> 'z order_db_scheme \<Rightarrow> domainContext \<Rightarrow> bool" where
  "validated tenantID req s dc \<longleftrightarrow>
     sub_Items req \<noteq> []
     \<and> (\<forall>item \<in> set (sub_Items req). on_menu tenantID req s item (the_menu_item dc (si_MenuItemID item)))
     \<and> (\<forall>tableID. sub_OrderType req = ''dine-in'' \<longrightarrow> sub_TableID req = Some tableID \<longrightarrow>
          (\<exists>table \<in> set (od_tables s). dc_table dc = Some table \<and> tab_TableID table = tableID))"

lemma load_table_Inr:
  assumes "load_table E now req s = (s', Inr found)"
    and "sub_OrderType req = ''dine-in''" and "sub_TableID req = Some tableID"
  shows "\<exists>table \<in> set (od_tables s). found = Some table \<and> tab_TableID table = tableID"
proof -
  obtain s1 table where l: "db_First (ErrTableLookup ''record not found'') ErrTableLookup tab_TableID od_tables
        (\<lambda>t. tab_TableID t = tableID \<and> tab_RestaurantID t = sub_RestaurantID req) s = (s1, Inr table)"
    and f: "found = Some table"
    using assms unfolding load_table_def by (auto simp: bindE_Inr_iff split: if_splits)
  from db_First_InrD [OF l] f show ?thesis by auto
qed

lemma load_menu_Inr:
  assumes "load_menu tenantID req s = (s', Inr menu)" and "map_of menu k = Some mi"
  shows "mi \<in> set (od_menuItems s) \<and> mi_MenuItemID mi = k \<and> mi_TenantID mi = tenantID
    \<and> mi_RestaurantID mi = sub_RestaurantID req \<and> mi_IsAvailable mi"
proof -
  obtain fs where "menu = map (\<lambda>mi. (mi_MenuItemID mi, mi))
      (filter (\<lambda>mi. mi_MenuItemID mi \<in> si_MenuItemID ` set (sub_Items req) \<and> mi_TenantID mi = tenantID
          \<and> mi_RestaurantID mi = sub_RestaurantID req \<and> mi_IsAvailable mi) (od_menuItems (s\<lparr>faults := fs\<rparr>)))"
    using assms(1) unfolding load_menu_def db_query_Inr by (auto dest!: db_call_InrD)
  with map_of_SomeD [OF assms(2)] show ?thesis by auto
qed

lemma validateDomain_Inr:
  assumes "validateDomain E now tenantID req s = (s', Inr dc)"
  shows "validated tenantID req s dc"
proof -
  have items: "sub_Items req \<noteq> []" using assms by (auto simp: validateDomain_def)
  with assms obtain profile s1 table s2 menu s3 modifiers s4 where
    1: "wrapE ErrRestaurantProfile (GetRestaurantProfile (oe_uuid_String E) now (sub_RestaurantID req)) s = (s1, Inr profile)"
    and 2: "load_table E now req s1 = (s2, Inr table)"
    and 3: "load_menu tenantID req s2 = (s3, Inr menu)"
    and 4: "load_modifiers req s3 = (s4, Inr modifiers)"
    and 5: "(let (item_failures, mins) = check_items E menu 0 0 (sub_Items req);
                 failures = item_failures @ check_modifiers E modifiers 0 (sub_Items req)
             in if failures \<noteq> [] then throw (ErrValidation failures)
                else thenE (checkInventoryStock E tenantID req)
                       (ret \<lparr>dc_profile = profile, dc_table = table, dc_menuItems = menu,
                             dc_modifiers = modifiers, dc_estReadyMins = mins\<rparr>)) s4 = (s', Inr dc)"
    unfolding validateDomain_def bindE_Inr_iff if_not_P [OF items] by blast
  have u1: "untouched s s1" by (rule stepsD [OF steps_wrapE [OF profile_untouched] 1])
  have "steps untouched (load_table E now req)"
    unfolding load_table_def by (intro steps_rules untouched_rules)
  then have u2: "untouched s1 s2" using 2 by (rule stepsD)
  from 5 have clean: "fst (check_items E menu 0 0 (sub_Items req)) = []"
    and dc: "dc_menuItems dc = menu" "dc_table dc = table"
    by (auto simp: Let_def thenE_Inr_iff split: prod.splits if_splits)
  have "on_menu tenantID req s item (the_menu_item dc (si_MenuItemID item))" if "item \<in> set (sub_Items req)" for item
  proof -
    from clean that obtain mi where mi: "map_of menu (si_MenuItemID item) = Some mi"
      and p: "\<not> price_off (mi_BasePrice mi) (si_ClientUnitPrice item)" by (auto simp: check_items_clean)
    have "the_menu_item dc (si_MenuItemID item) = mi" by (simp add: the_menu_item_def dc mi)
    with load_menu_Inr [OF 3 mi] p u1 u2 show ?thesis
      by (simp add: on_menu_def untouched_def order_tables_def)
  qed
  with items load_table_Inr [OF 2] u1 show ?thesis
    unfolding validated_def by (auto simp: dc untouched_def order_tables_def)
qed

section \<open>Submission\<close>

definition ordered_line ::
    "order_env \<Rightarrow> order_ids \<Rightarrow> nat \<Rightarrow> SubmitOrderItemRequest \<Rightarrow> MenuItem \<Rightarrow> OrderItem \<Rightarrow> bool" where
  "ordered_line E ids i item mi line \<longleftrightarrow>
     oi_OrderItemID line = ids_item ids i \<and> oi_OrderID line = ids_order ids
     \<and> oi_MenuItemID line = Some (mi_MenuItemID mi) \<and> oi_UnitPrice line = oe_numeric E 2 (mi_BasePrice mi)
     \<and> oi_Quantity line = (if si_Quantity item \<le> 0 then 1 else si_Quantity item)
     \<and> oi_Status line = OrderItemStatusPending"

definition announces :: "OutboxEvent \<Rightarrow> Order \<Rightarrow> OrderItem list \<Rightarrow> bool" where
  "announces event order lines \<longleftrightarrow>
     ob_Status event = OutboxStatusPending \<and> ob_Attempts event = 0
     \<and> (\<exists>payload. ob_Payload event = Some payload \<and> op_OrderID payload = ord_OrderID order
          \<and> op_TenantID payload = ord_TenantID order
          \<and> map (\<lambda>i. (pi_OrderItemID i, pi_Quantity i)) (op_Items payload)
              = map (\<lambda>l. (oi_OrderItemID l, oi_Quantity l)) lines)"

definition order_placed ::
    "order_env \<Rightarrow> gotime \<Rightarrow> order_ids \<Rightarrow> uuid \<Rightarrow> uuid \<Rightarrow> SubmitOrderRequest \<Rightarrow> SubmitOrderResponse
       \<Rightarrow> 'z order_db_scheme \<Rightarrow> 'z order_db_scheme \<Rightarrow> bool" where
  "order_placed E now ids actorID tenantID req resp s s' \<longleftrightarrow>
     (\<exists>order lines modifiers tax log event.
        order_tables s' = ((db_orders s @ [order], od_items s @ lines, od_modifiers s @ modifiers),
          od_taxes s @ [tax_row E now ids tax], od_logs s @ [log], od_outbox s @ [event], od_tables s, od_menuItems s, db_kots s)
        \<and> ord_OrderID order \<notin> ord_OrderID ` set (db_orders s)
        \<and> ord_OrderID order = ids_order ids \<and> sr_OrderID resp = ids_order ids \<and> ord_TenantID order = tenantID
        \<and> ord_RestaurantID order = sub_RestaurantID req \<and> ord_UserID order = actorID
        \<and> ord_OrderStatus order = OrderItemStatusPending
        \<and> ord_TotalAmount order = oe_numeric E 2 (sr_GrandTotal resp) \<and> sr_GrandTotal resp = tb_GrandTotal tax
        \<and> ol_OrderID log = ids_order ids
        \<and> lines \<noteq> [] \<and> length lines = length (sub_Items req)
        \<and> (\<forall>i < length lines. \<exists>mi. on_menu tenantID req s (sub_Items req ! i) mi
             \<and> ordered_line E ids i (sub_Items req ! i) mi (lines ! i))
        \<and> (\<forall>m \<in> set modifiers. oim_OrderItemID m \<in> oi_OrderItemID ` set lines)
        \<and> ob_OutboxEventID event \<notin> ob_OutboxEventID ` set (od_outbox s) \<and> announces event order lines)"

lemma build_items_length [simp]: "length (build_items ids dc req) = length (sub_Items req)"
  by (simp add: build_items_def)

lemma build_items_nth:
  "i < length (sub_Items req) \<Longrightarrow> build_items ids dc req ! i = build_item ids dc i (sub_Items req ! i)"
  by (simp add: build_items_def nth_enumerate_eq)

lemma ordered_line_built:
  "mi_MenuItemID mi = si_MenuItemID item \<Longrightarrow> mi = the_menu_item dc (si_MenuItemID item) \<Longrightarrow>
     ordered_line E ids i item mi (item_row_of E (build_item ids dc i item))"
  by (simp add: ordered_line_def item_row_of_def created_item_def build_item_def Let_def)

lemma payload_announces:
  "announces (new_event E now ids tenantID (order_payload E now ids actorID tenantID req items))
     (order_row E (new_order now ids actorID tenantID req items tax)) (map (item_row_of E) items)"
  by (simp add: announces_def new_event_def buildOutboxPayload_def order_row_def new_order_def item_row_of_def
      created_item_def OutboxStatusPending_def)

lemma modifier_rows_items: "m \<in> set (modifier_rows E items) \<Longrightarrow> oim_OrderItemID m \<in> oi_OrderItemID ` set (map (item_row_of E) items)"
  by (auto simp: modifier_rows_def modifier_row_def item_row_of_def created_item_def image_image)

lemma runTransaction_Inr:
  assumes "runTransaction E now ids actorID tenantID req dc s = (s', Inr resp)"
  shows "\<exists>tax s1. untouched s s1 \<and> resp = order_response E now ids dc tax
    \<and> write_order E now ids actorID tenantID req dc (build_items ids dc req) tax s1 = (s', Inr ())"
proof -
  from assms obtain s1 s2 items tax where 1: "db_call (OrderWrapped '''') s = (s1, Inr ())"
    and 2: "buildOrderItemsWithTax E now ids tenantID req dc s1 = (s2, Inr (items, tax))"
    and 3: "write_order E now ids actorID tenantID req dc items tax s2 = (s', Inr ())"
    and 4: "resp = order_response E now ids dc tax"
    unfolding runTransaction_def thenE_Inr_iff bindE_Inr_iff by (auto simp: thenE_Inr_iff)
  have items: "items = build_items ids dc req"
    using 2 by (auto simp: buildOrderItemsWithTax_def bindE_Inr_iff)
  have "untouched s s1" using db_call_InrD [OF 1] untouched_rules(9) by blast
  moreover have "untouched s1 s2" by (rule stepsD [OF build_untouched 2])
  ultimately have "untouched s s2" using untouched_rules(2) by (meson transpD)
  with 3 4 items show ?thesis by blast
qed

lemma runTransaction_Inl:
  assumes "runTransaction E now ids actorID tenantID req dc s = (s', Inl err)"
  shows "untouched s s'"
proof -
  have w: "untouched s s1" if "write_order E now ids actorID tenantID req dc items tax s = (s1, Inl e)"
    for s s1 items tax e
    using rollback_on_error_Inl [OF that [unfolded write_order_def]] untouched_rules(9) by blast
  from assms consider "\<exists>e. db_call (OrderWrapped '''') s = (s', Inl e)"
    | s1 e where "db_call (OrderWrapped '''') s = (s1, Inr ())" "buildOrderItemsWithTax E now ids tenantID req dc s1 = (s', Inl e)"
    | s1 s2 items tax e where "db_call (OrderWrapped '''') s = (s1, Inr ())"
      "buildOrderItemsWithTax E now ids tenantID req dc s1 = (s2, Inr (items, tax))"
      "write_order E now ids actorID tenantID req dc items tax s2 = (s', Inl e)"
    unfolding runTransaction_def thenE_Inl_iff bindE_Inl_iff by (auto simp: thenE_Inl_iff)
  then show ?thesis
  proof cases
    case 1
    then show ?thesis by (auto dest!: db_call_Inl simp: untouched_def) (metis untouched_def untouched_rules(9))
  next
    case 2
    from stepsD [OF build_untouched 2(2)] db_call_InrD [OF 2(1)] show ?thesis
      by (auto simp: untouched_def order_tables_def)
  next
    case 3
    from w [OF 3(3)] stepsD [OF build_untouched 3(2)] db_call_InrD [OF 3(1)] show ?thesis
      by (auto simp: untouched_def order_tables_def)
  qed
qed

lemma validated_untouched: "untouched s s1 \<Longrightarrow> validated tenantID req s1 dc = validated tenantID req s dc"
  by (simp add: validated_def on_menu_def untouched_def order_tables_def)

lemma written_order_placed:
  assumes w: "write_order E now ids actorID tenantID req dc (build_items ids dc req) tax s = (s', Inr ())"
    and v: "validated tenantID req s dc"
  shows "order_placed E now ids actorID tenantID req (order_response E now ids dc tax) s s'"
proof -
  let ?items = "build_items ids dc req"
  let ?order = "order_row E (new_order now ids actorID tenantID req ?items tax)"
  from write_order_Inr [OF w] obtain log where fresh: "ids_order ids \<notin> ord_OrderID ` set (db_orders s)"
      "ids_outbox ids \<notin> ob_OutboxEventID ` set (od_outbox s)"
    and log: "ol_OrderID log = ids_order ids"
    and rows: "order_tables s' = ((db_orders s @ [?order],
        od_items s @ map (item_row_of E) ?items, od_modifiers s @ modifier_rows E ?items),
      od_taxes s @ [tax_row E now ids tax], od_logs s @ [log],
      od_outbox s @ [new_event E now ids tenantID (order_payload E now ids actorID tenantID req ?items)],
      od_tables s, od_menuItems s, db_kots s)" by blast
  have line: "\<exists>mi. on_menu tenantID req s (sub_Items req ! i) mi
      \<and> ordered_line E ids i (sub_Items req ! i) mi (map (item_row_of E) ?items ! i)"
    if "i < length (map (item_row_of E) ?items)" for i
  proof -
    let ?mi = "the_menu_item dc (si_MenuItemID (sub_Items req ! i))"
    have i: "i < length (sub_Items req)" using that by simp
    then have m: "on_menu tenantID req s (sub_Items req ! i) ?mi" using v by (simp add: validated_def)
    then have "mi_MenuItemID ?mi = si_MenuItemID (sub_Items req ! i)" by (simp add: on_menu_def)
    then have "ordered_line E ids i (sub_Items req ! i) ?mi (item_row_of E (build_item ids dc i (sub_Items req ! i)))"
      by (rule ordered_line_built) simp
    with m i show ?thesis by (auto simp: build_items_nth)
  qed
  have "sub_Items req \<noteq> []" using v by (simp add: validated_def)
  then have "?items \<noteq> []" using build_items_length [of ids dc req] by (metis length_0_conv)
  with line fresh log rows modifier_rows_items payload_announces show ?thesis
    unfolding order_placed_def
    by (intro exI [of _ ?order] exI [of _ "map (item_row_of E) ?items"] exI [of _ "modifier_rows E ?items"]
        exI [of _ tax] exI [of _ log] exI conjI)
      (auto simp: order_row_def new_order_def order_response_def new_event_def)
qed

lemma place_order_Inr:
  assumes "place_order E now ids actorID tenantID req s = (s', Inr resp)"
  shows "order_placed E now ids actorID tenantID req resp s s'"
proof -
  from assms obtain dc s1 where 1: "validateDomain E now tenantID req s = (s1, Inr dc)"
    and 2: "runTransaction E now ids actorID tenantID req dc s1 = (s', Inr resp)"
    unfolding place_order_def bindE_Inr_iff by auto
  from runTransaction_Inr [OF 2] obtain tax s3 where 4: "untouched s1 s3" "resp = order_response E now ids dc tax"
    "write_order E now ids actorID tenantID req dc (build_items ids dc req) tax s3 = (s', Inr ())" by blast
  have u: "untouched s s1" using 1 by (rule stepsD [OF validate_untouched])
  have "validated tenantID req s3 dc"
    using validateDomain_Inr [OF 1] 4(1) u by (simp add: validated_untouched)
  from written_order_placed [OF 4(3) this] 4(1,2) u show ?thesis
    by (simp add: order_placed_def untouched_def order_tables_def on_menu_def)
qed

lemma place_order_Inl:
  assumes "place_order E now ids actorID tenantID req s = (s', Inl err)"
  shows "untouched s s'"
proof -
  from assms consider "\<exists>e. validateDomain E now tenantID req s = (s', Inl e)"
    | s1 dc e where "validateDomain E now tenantID req s = (s1, Inr dc)"
      "runTransaction E now ids actorID tenantID req dc s1 = (s', Inl e)"
    unfolding place_order_def bindE_Inl_iff by auto
  then show ?thesis
  proof cases
    case 1
    with stepsD [OF validate_untouched] show ?thesis by blast
  next
    case 2
    from stepsD [OF validate_untouched 2(1)] runTransaction_Inl [OF 2(2)] show ?thesis
      by (simp add: untouched_def)
  qed
qed

lemma SubmitOrder_cases:
  assumes "SubmitOrder require E now ids actorID tenantID req (r, s) = ((r', s'), res)"
  obtains (failed) err where "res = Inl err" "untouched s s'"
  | (placed) s1 resp where "res = Inr resp" "untouched s s1"
      "require (service_request actorID tenantID ResourceOrder ActionCreate) r = (r', None)"
      "place_order E now ids actorID tenantID req s1 = (s', Inr resp)"
proof -
  obtain s1 q where c: "checkIdempotency now (idempotencyKey E tenantID req) s = (s1, q)"
    by (cases "checkIdempotency now (idempotencyKey E tenantID req) s")
  note u = checkIdempotency_untouched [OF c]
  show thesis
  proof (cases "q = Inr None")
    case False
    with assms c u have "(\<exists>err. res = Inl err) \<and> untouched s s'"
      by (auto simp: SubmitOrder_def split: sum.splits option.splits)
    then show thesis using failed by blast
  next
    case True
    with assms c have g: "guarded require (service_request actorID tenantID ResourceOrder ActionCreate)
      OrderDenied (place_order E now ids actorID tenantID req) (r, s1) = ((r', s'), res)"
      by (simp add: SubmitOrder_def)
    show thesis
    proof (cases res)
      case (Inl err)
      with g have "s' = s1 \<or> (\<exists>e. place_order E now ids actorID tenantID req s1 = (s', Inl e))"
        by (auto simp: guarded_Inl)
      then have "untouched s1 s'" using place_order_Inl by (auto simp: untouched_def)
      with u have "untouched s s'" by (simp add: untouched_def)
      with Inl show thesis by (rule failed)
    next
      case (Inr resp)
      with g u show thesis by (intro placed [of resp s1]) (simp_all add: guarded_Inr)
    qed
  qed
qed


section \<open>Dine-in orders at a table\<close>

lemma dine_in_not_placed:
  assumes p: "place_order E now ids actorID tenantID req s = (s', Inr resp)"
    and d: "sub_OrderType req = ''dine-in''" "sub_TableID req = Some tableID"
    and u: "distinct (map tab_TableID (od_tables s))"
  shows False
proof -
  from p obtain dc s1 where 1: "validateDomain E now tenantID req s = (s1, Inr dc)"
    and 2: "runTransaction E now ids actorID tenantID req dc s1 = (s', Inr resp)"
    unfolding place_order_def bindE_Inr_iff by auto
  from validateDomain_Inr [OF 1] d obtain table where
    t: "table \<in> set (od_tables s)" "dc_table dc = Some table" by (auto simp: validated_def)
  from runTransaction_Inr [OF 2] obtain tax s3 where 3: "untouched s1 s3"
    "write_order E now ids actorID tenantID req dc (build_items ids dc req) tax s3 = (s', Inr ())" by blast
  have tables: "od_tables s3 = od_tables s"
    using 3(1) stepsD [OF validate_untouched 1] by (simp add: untouched_def order_tables_def)
  from write_order_Inr [OF 3(2)] d(1) t(2) obtain t' where available: "tab_Status table = TableStateAvailable"
    and t': "t' \<in> set (od_tables s)" "tab_TableID t' = tab_TableID table" "tab_Status t' = TableStateOccupied"
    unfolding tables by blast
  from u t(1) t'(1,2) have "t' = table" by (auto simp: distinct_map dest: inj_onD)
  with available t'(3) show False by (simp add: state_names)
qed

text \<open>
  C26: A dine-in order that names a table is never accepted: the seat event writes occupied into the
  loaded table, and the update that takes the table then asks for a row that is already occupied.
  The submission fails with every table unchanged, for each table that is available.
\<close>

theorem dine_in_never_accepted:
  assumes "sub_OrderType req = ''dine-in''" and "sub_TableID req = Some tableID"
    and "distinct (map tab_TableID (od_tables s))"
    and "SubmitOrder require E now ids actorID tenantID req (r, s) = ((r', s'), res)"
  shows "(\<exists>err. res = Inl err) \<and> order_tables s' = order_tables s"
  using assms(4)
proof (cases rule: SubmitOrder_cases)
  case (failed err)
  then show ?thesis by (simp add: untouched_def)
next
  case (placed s1 resp)
  have "distinct (map tab_TableID (od_tables s1))" using assms(3) placed(2) by (simp add: untouched_def order_tables_def)
  from dine_in_not_placed [OF placed(4) assms(1,2) this] show ?thesis ..
qed

section \<open>Repeated submissions\<close>

definition redis_up :: "'z order_db_scheme \<Rightarrow> 'z order_db_scheme \<Rightarrow> bool" where
  "redis_up s s' \<longleftrightarrow> rd_faults s = [] \<longrightarrow> rd_faults s' = [] \<and> rd_orders s' = rd_orders s"

lemma redis_call_up: "steps redis_up redis_call"
  by (simp add: steps_def redis_up_def)

lemma redis_up_rules:
  "reflp redis_up" "transp redis_up" "fault_blind redis_up"
  by (auto simp: redis_up_def fault_blind_def intro: reflpI transpI)

lemma redis_Get_up: "steps redis_up (redis_Get now sel key)"
  unfolding redis_Get_def by (intro steps_rules redis_call_up redis_up_rules steps_get) (simp_all add: steps_def redis_up_def)

lemma redis_Set_up:
  "(\<And>f s. rd_faults (upd f s) = rd_faults s \<and> rd_orders (upd f s) = rd_orders s) \<Longrightarrow> steps redis_up (redis_Set now upd key v ttl)"
  unfolding redis_Set_def by (intro steps_rules redis_call_up redis_up_rules) (simp add: redis_up_def)

lemmas redis_up_steps = redis_up_rules redis_Get_up redis_Set_up

lemma settings_up:
  "steps redis_up (GetRestaurantProfile us now restaurantID)"
  "steps redis_up (GetSetting us now tenantID r key)"
  unfolding GetRestaurantProfile_def GetSetting_def read_setting_def find_override_def find_setting_def Let_def
  by (intro steps_rules redis_up_steps; simp)+

lemma parsed_up: "steps redis_up (GetBool us now tenantID r key)" "steps redis_up (GetFloat us now tenantID r key)"
  unfolding GetBool_def GetFloat_def parsed_def by (intro steps_rules redis_up_rules settings_up)+

lemma tax_up: "steps redis_up (CalculateTax us now tenantID restaurantID orderType items pct)"
  unfolding CalculateTax_def GetTaxConfiguration_def
  by (intro steps_rules redis_up_rules settings_up parsed_up)

lemma validate_up: "steps redis_up (validateDomain E now tenantID req)"
  unfolding validateDomain_def load_table_def load_menu_def load_modifiers_def checkInventoryStock_def Let_def
    case_prod_unfold
  by (intro steps_rules redis_up_rules settings_up)

lemma redis_up_writes:
  "(\<And>s. rd_faults (f s) = rd_faults s \<and> rd_orders (f s) = rd_orders s) \<Longrightarrow> steps redis_up (db_insert wrap conflict f)"
  "(\<And>s. rd_faults (f s) = rd_faults s \<and> rd_orders (f s) = rd_orders s) \<Longrightarrow> steps redis_up (db_write wrap f)"
  by (intro steps_rules redis_up_rules; simp add: redis_up_def)+

lemma modifiers_up: "steps redis_up (persist_modifiers E item ms)"
  by (induction E item ms rule: persist_modifiers.induct; simp del: op_simps; intro steps_rules redis_up_rules redis_up_writes)
    simp_all

lemma items_up: "steps redis_up (persist_items E items)"
  by (induction E items rule: persist_items.induct; simp del: op_simps;
      intro steps_rules redis_up_rules redis_up_writes modifiers_up) simp_all

lemma steps_rollback [steps_rules]: "fault_blind R \<Longrightarrow> steps R body \<Longrightarrow> steps R (rollback_on_error body)"
  by (auto simp: steps_def rollback_on_error_def fault_blindD split: prod.splits sum.splits) (metis fst_conv)

lemma write_up: "steps redis_up (write_order E now ids actorID tenantID req dc items tax)"
proof -
  have "steps redis_up (claim_table table)" for table
    unfolding claim_table_def Let_def
    by (intro steps_rules redis_up_rules) (simp add: steps_def redis_up_def)
  then have "steps redis_up (seat_table E now actorID tenantID req loaded)" for loaded
    unfolding seat_table_def by (auto intro!: steps_rules redis_up_rules split: prod.splits outcome.splits option.splits)
  then show ?thesis
    unfolding write_order_def persist_order_def persist_outbox_def
    by (intro steps_rules redis_up_rules redis_up_writes items_up) simp_all
qed

lemma run_up: "steps redis_up (runTransaction E now ids actorID tenantID req dc)"
  unfolding runTransaction_def buildOrderItemsWithTax_def case_prod_unfold
  by (intro steps_rules redis_up_rules tax_up write_up)

lemma place_order_up: "steps redis_up (place_order E now ids actorID tenantID req)"
  unfolding place_order_def by (intro steps_rules redis_up_rules validate_up run_up)

lemma unanswered:
  "rd_faults s = [] \<Longrightarrow> checkIdempotency now key s = (s, Inr None) \<longleftrightarrow> live_entry now key (rd_orders s) = None"
  by (auto simp: checkIdempotency_def redis_Get_def bindE_def split: option.splits)

lemma expired_later: "live_entry now key cache = None \<Longrightarrow> now \<le> later \<Longrightarrow> live_entry later key cache = None"
  by (auto simp: live_entry_def split: option.splits if_splits)

lemma store_answer_ok:
  assumes "rd_faults s = []" and "json_response resp"
  shows "rd_faults (fst (store_answer E now tenantID req resp s)) = []"
    and "map_of (rd_orders (fst (store_answer E now tenantID req resp s))) (idempotencyKey E tenantID req)
      = Some (resp, Some (now + idempotencyTTL))"
  using assms by (simp_all add: store_answer_def cacheIdempotencyResult_def redis_Set_def bindE_def update_conv')

lemma accepted_unanswered:
  assumes "SubmitOrder require E now ids actorID tenantID req (r, s) = ((r1, s1), Inr resp)" and "rd_faults s = []"
  shows "rd_faults s1 = [] \<and> rd_orders s1 = rd_orders s
    \<and> live_entry now (idempotencyKey E tenantID req) (rd_orders s) = None"
proof -
  obtain s0 q where c: "checkIdempotency now (idempotencyKey E tenantID req) s = (s0, q)"
    by (cases "checkIdempotency now (idempotencyKey E tenantID req) s")
  have p: "place_order E now ids actorID tenantID req s0 = (s1, Inr resp)" and q: "q = Inr None"
    using assms(1) c by (auto simp: SubmitOrder_def guarded_Inr split: sum.splits option.splits)
  have s0: "s0 = s"
    using c assms(2) by (auto simp: checkIdempotency_def redis_Get_def bindE_def split: sum.splits option.splits if_splits)
  then have "live_entry now (idempotencyKey E tenantID req) (rd_orders s) = None"
    using c q unanswered [OF assms(2)] by simp
  with stepsD [OF place_order_up p] assms(2) s0 show ?thesis by (simp add: redis_up_def)
qed

lemma replay:
  assumes "rd_faults s = []" and "map_of (rd_orders s) (idempotencyKey E tenantID req) = Some (resp, Some expiry)"
    and "now < expiry"
  shows "SubmitOrder require E now ids actorID tenantID req (r, s)
    = ((r, s), Inl (ErrIdempotentReplay (resp\<lparr>sr_Cached := True\<rparr>)))"
  using assms by (simp add: SubmitOrder_def checkIdempotency_def live_entry_def)


section \<open>References between the tables\<close>

definition order_refs :: "'z order_db_scheme \<Rightarrow> bool" where
  "order_refs s \<longleftrightarrow>
     distinct (map ord_OrderID (db_orders s)) \<and> distinct (map oi_OrderItemID (od_items s))
     \<and> distinct (map otb_OrderID (od_taxes s))
     \<and> oi_OrderID ` set (od_items s) \<subseteq> ord_OrderID ` set (db_orders s)
     \<and> oim_OrderItemID ` set (od_modifiers s) \<subseteq> oi_OrderItemID ` set (od_items s)
     \<and> otb_OrderID ` set (od_taxes s) \<subseteq> ord_OrderID ` set (db_orders s)
     \<and> ol_OrderID ` set (od_logs s) \<subseteq> ord_OrderID ` set (db_orders s)"

definition items_unique :: "'z order_db_scheme \<Rightarrow> 'z order_db_scheme \<Rightarrow> bool" where
  "items_unique s s' \<longleftrightarrow>
     (distinct (map oi_OrderItemID (od_items s)) \<longrightarrow> distinct (map oi_OrderItemID (od_items s')))"

lemma items_unique_rules:
  "reflp items_unique" "transp items_unique" "fault_blind items_unique"
  by (auto simp: items_unique_def fault_blind_def intro: reflpI transpI)

lemma untouched_unique: "untouched s s' \<Longrightarrow> items_unique s s'"
  by (simp add: untouched_def items_unique_def order_tables_def)

lemma items_unique_writes:
  "(\<And>s. od_items (f s) = od_items s) \<Longrightarrow> steps items_unique (db_insert wrap conflict f)"
  "(\<And>s. od_items (f s) = od_items s) \<Longrightarrow> steps items_unique (db_write wrap f)"
  by (intro steps_rules items_unique_rules; simp add: items_unique_def)+

lemma modifiers_unique: "steps items_unique (persist_modifiers E item ms)"
  by (induction E item ms rule: persist_modifiers.induct; simp del: op_simps;
      intro steps_rules items_unique_rules items_unique_writes) simp_all

lemma item_inserted:
  "steps items_unique (db_insert wrap (\<lambda>s. oi_OrderItemID item \<in> oi_OrderItemID ` set (od_items s))
     (\<lambda>s. s\<lparr>od_items := od_items s @ [item_row_of E item]\<rparr>))"
  by (intro steps_rules items_unique_rules)
    (auto simp: items_unique_def item_row_of_def created_item_def)

lemma items_stay_unique: "steps items_unique (persist_items E items)"
  by (induction E items rule: persist_items.induct; simp del: op_simps;
      intro steps_rules items_unique_rules item_inserted modifiers_unique)

lemma taxes_unique:
  assumes "persist_order E now ids actorID tenantID req items tax s = (s', Inr u)"
  shows "ids_order ids \<notin> otb_OrderID ` set (od_taxes s)"
  using assms unfolding persist_order_def
  by (auto simp: thenE_Inr_iff db_insert_Inr db_write_Inr order_tables_def tax_row_def
      dest!: db_call_InrD persist_items_Inr)

lemma persist_order_unique: "steps items_unique (persist_order E now ids actorID tenantID req items tax)"
  unfolding persist_order_def
  by (intro steps_rules items_unique_rules items_unique_writes items_stay_unique) simp_all

lemma write_order_keys:
  assumes w: "write_order E now ids actorID tenantID req dc items tax s = (s', Inr u)"
  shows "ids_order ids \<notin> otb_OrderID ` set (od_taxes s) \<and> items_unique s s'"
proof -
  from w obtain s1 s2 s3 where 1: "persist_order E now ids actorID tenantID req items tax s = (s1, Inr ())"
    and 2: "seat_table E now actorID tenantID req (dc_table dc) s1 = (s2, Inr ())"
    and 3: "persist_outbox E now ids tenantID (order_payload E now ids actorID tenantID req items) s2 = (s3, Inr ())"
    and 4: "db_call (OrderWrapped '''') s3 = (s', Inr ())"
    unfolding write_order_def rollback_on_error_Inr thenE_Inr_iff by auto
  have "od_items s' = od_items s1"
    using seat_table_Inr [OF 2] persist_outbox_Inr [OF 3] db_call_InrD [OF 4] by (auto simp: order_tables_def)
  with taxes_unique [OF 1] stepsD [OF persist_order_unique 1] show ?thesis by (simp add: items_unique_def)
qed

lemma place_order_keys:
  assumes "place_order E now ids actorID tenantID req s = (s', Inr resp)"
  shows "ids_order ids \<notin> otb_OrderID ` set (od_taxes s) \<and> items_unique s s'"
proof -
  from assms obtain dc s1 where 1: "validateDomain E now tenantID req s = (s1, Inr dc)"
    and 2: "runTransaction E now ids actorID tenantID req dc s1 = (s', Inr resp)"
    unfolding place_order_def bindE_Inr_iff by auto
  from runTransaction_Inr [OF 2] obtain tax s3 where 4: "untouched s1 s3"
    "write_order E now ids actorID tenantID req dc (build_items ids dc req) tax s3 = (s', Inr ())" by blast
  from write_order_keys [OF 4(2)] 4(1) stepsD [OF validate_untouched 1]
  show ?thesis by (simp add: untouched_def order_tables_def items_unique_def)
qed

lemma placed_refs:
  assumes p: "order_placed E now ids actorID tenantID req resp s s'"
    and k: "ids_order ids \<notin> otb_OrderID ` set (od_taxes s)" "items_unique s s'"
    and refs: "order_refs s"
  shows "order_refs s'"
proof -
  from p obtain order lines modifiers tax log event where
    rows: "order_tables s' = ((db_orders s @ [order], od_items s @ lines, od_modifiers s @ modifiers),
          od_taxes s @ [tax_row E now ids tax], od_logs s @ [log], od_outbox s @ [event], od_tables s, od_menuItems s, db_kots s)"
    and fresh: "ord_OrderID order \<notin> ord_OrderID ` set (db_orders s)" "ord_OrderID order = ids_order ids"
    and log: "ol_OrderID log = ids_order ids"
    and lines: "\<forall>i < length lines. \<exists>mi. on_menu tenantID req s (sub_Items req ! i) mi
             \<and> ordered_line E ids i (sub_Items req ! i) mi (lines ! i)"
    and mods: "\<forall>m \<in> set modifiers. oim_OrderItemID m \<in> oi_OrderItemID ` set lines"
    unfolding order_placed_def by blast
  from lines have l: "\<forall>l \<in> set lines. oi_OrderID l = ids_order ids"
    by (auto simp: in_set_conv_nth ordered_line_def)
  have "distinct (map oi_OrderItemID (od_items s'))" using k(2) refs by (simp add: items_unique_def order_refs_def)
  moreover have "distinct (map ord_OrderID (db_orders s'))" "distinct (map otb_OrderID (od_taxes s'))"
    using rows fresh k(1) refs by (auto simp: order_tables_def order_refs_def tax_row_def)
  moreover have "oi_OrderID ` set (od_items s') \<subseteq> ord_OrderID ` set (db_orders s')"
    "oim_OrderItemID ` set (od_modifiers s') \<subseteq> oi_OrderItemID ` set (od_items s')"
    "otb_OrderID ` set (od_taxes s') \<subseteq> ord_OrderID ` set (db_orders s')"
    "ol_OrderID ` set (od_logs s') \<subseteq> ord_OrderID ` set (db_orders s')"
    using rows fresh(2) log l mods refs by (auto simp: order_tables_def order_refs_def tax_row_def)
  ultimately show ?thesis by (simp add: order_refs_def)
qed

text \<open>
  C7: The order tables stay well-formed: order ids, line ids and tax rows are unique and every line,
  modifier, tax row and log entry belongs to a row that exists, after any submission of any request.
\<close>

theorem SubmitOrder_keeps_references:
  assumes "order_refs s"
    and "SubmitOrder require E now ids actorID tenantID req (r, s) = ((r', s'), res)"
  shows "order_refs s'"
  using assms(2)
proof (cases rule: SubmitOrder_cases)
  case (failed err)
  with assms(1) show ?thesis by (simp add: untouched_def order_tables_def order_refs_def)
next
  case (placed s1 resp)
  have refs: "order_refs s1" using assms(1) placed(2) by (simp add: untouched_def order_tables_def order_refs_def)
  show ?thesis
    using place_order_keys [OF placed(4)] by (intro placed_refs [OF place_order_Inr [OF placed(4)] _ _ refs]) simp_all
qed

end
