(* ===== verification/Outbox_Relay.thy ===== *)
theory Outbox_Relay
  imports Order_Correct
begin

text \<open>
  The outbox relay of \<open>services/business/Order.go\<close>: the notifiers the default order service is built
  with, the delivery of one event, a batch, and the worker loop.  \<open>Updates\<close> writes the columns of
  the row and the same fields of the struct it is given; its errors are dropped.  The deadline of a
  batch is not modelled.
\<close>

definition outboxWorkerBackoff :: int where
  "outboxWorkerBackoff = 5000000000"

definition maxOutboxRetries :: int where
  "maxOutboxRetries = 10"

section \<open>Notifiers\<close>

text \<open>\<open>dn_type\<close> is what \<open>%T\<close> prints.\<close>

record 's DownstreamNotifier =
  dn_type :: string
  dn_EventType :: string
  dn_Notify :: "OrderCreatedPayload \<Rightarrow> 's \<Rightarrow> 's \<times> (string + unit)"

definition ticket_of :: "uuid \<Rightarrow> OrderCreatedPayload \<Rightarrow> KOT" where
  "ticket_of kotID payload =
     \<lparr>kot_KOTID = kotID, kot_OrderID = op_OrderID payload, kot_RestaurantID = op_RestaurantID payload,
      kot_TenantID = op_TenantID payload, kot_KOTNumber = ''KOT-'' @ op_KOTNumber payload,
      kot_SequenceNumber = 1, kot_OrderNumber = '''', kot_TableNumber = op_TableID payload,
      kot_CustomerName = '''', kot_OrderType = op_OrderType payload, kot_GuestCount = None,
      kot_Status = KOTStatusSent, kot_Priority = KOTPriorityMedium, kot_CreatedByUserID = op_ActorID payload,
      kot_AssignedToChefID = None, kot_PrintCount = 0, kot_LastPrintedAt = None\<rparr>"

text \<open>Zero values take the defaults of their columns.\<close>

definition ticket_item :: "uuid \<Rightarrow> uuid \<Rightarrow> OrderCreatedItemPayload \<Rightarrow> KOTItem" where
  "ticket_item itemID kotID item =
     \<lparr>ki_KOTItemID = itemID, ki_KOTID = kotID, ki_OrderItemID = pi_OrderItemID item, ki_ItemName = pi_ItemName item,
      ki_Quantity = (if pi_Quantity item = 0 then 1 else pi_Quantity item), ki_Notes = '''',
      ki_AssignedStation = (if pi_KitchenStation item = '''' then ''General'' else pi_KitchenStation item),
      ki_Status = KOTItemStatusPending\<rparr>"

fun insert_ticket_items ::
    "(nat \<Rightarrow> uuid) \<Rightarrow> nat \<Rightarrow> uuid \<Rightarrow> OrderCreatedItemPayload list \<Rightarrow> ('z db_scheme, string, unit) op" where
  "insert_ticket_items itemIDs i kotID [] = ret ()"
| "insert_ticket_items itemIDs i kotID (item # items) =
     thenE (db_insert (\<lambda>err. err) (\<lambda>s. itemIDs i \<in> ki_KOTItemID ` set (db_kotItems s))
              (\<lambda>s. s\<lparr>db_kotItems := db_kotItems s @ [ticket_item (itemIDs i) kotID item]\<rparr>))
       (insert_ticket_items itemIDs (Suc i) kotID items)"

definition create_ticket ::
    "uuid \<Rightarrow> (nat \<Rightarrow> uuid) \<Rightarrow> OrderCreatedPayload \<Rightarrow> ('z db_scheme, string, unit) op" where
  "create_ticket kotID itemIDs payload =
     transaction (\<lambda>err. err)
       (thenE (db_insert (\<lambda>err. err)
                (\<lambda>s. \<exists>k \<in> set (db_kots s). kot_KOTID k = kotID
                   \<or> kot_TenantID k = op_TenantID payload \<and> kot_KOTNumber k = ''KOT-'' @ op_KOTNumber payload)
                (\<lambda>s. s\<lparr>db_kots := db_kots s @ [ticket_of kotID payload]\<rparr>))
         (insert_ticket_items itemIDs 0 kotID (op_Items payload)))"

definition KOTNotifier_Notify ::
    "uuid \<Rightarrow> (nat \<Rightarrow> uuid) \<Rightarrow> OrderCreatedPayload \<Rightarrow> ('z db_scheme, string, unit) op" where
  "KOTNotifier_Notify kotID itemIDs payload =
     bindE (db_find (\<lambda>err. ''kotnotifier: lookup: '' @ err) kot_KOTID db_kots
              (\<lambda>k. kot_OrderID k = op_OrderID payload \<and> kot_TenantID k = op_TenantID payload)) (\<lambda>existing.
       case existing of Some k \<Rightarrow> ret () | None \<Rightarrow> create_ticket kotID itemIDs payload)"

definition InventoryNotifier_Notify :: "OrderCreatedPayload \<Rightarrow> ('s, string, unit) op" where
  "InventoryNotifier_Notify payload = ret ()"

definition AnalyticsNotifier_Notify ::
    "order_env \<Rightarrow> OrderCreatedPayload \<Rightarrow> ('z order_db_scheme, string, unit) op" where
  "AnalyticsNotifier_Notify E payload =
     redis_Del rd_revenue_update (''analytics:revenue:'' @ oe_uuid_String E (op_TenantID payload) @ '':''
       @ oe_Format_date E (op_OccurredAt payload))"

text \<open>The notifiers of \<open>NewDefaultOrderService\<close>; the identifiers of a new ticket are arguments.\<close>

definition default_notifiers ::
    "order_env \<Rightarrow> uuid \<Rightarrow> (nat \<Rightarrow> uuid) \<Rightarrow> 'z order_db_scheme DownstreamNotifier list" where
  "default_notifiers E kotID itemIDs =
     [\<lparr>dn_type = ''*business.KOTNotifier'', dn_EventType = ''OrderCreated'',
       dn_Notify = KOTNotifier_Notify kotID itemIDs\<rparr>,
      \<lparr>dn_type = ''*business.InventoryNotifier'', dn_EventType = ''OrderCreated'',
       dn_Notify = InventoryNotifier_Notify\<rparr>,
      \<lparr>dn_type = ''*business.AnalyticsNotifier'', dn_EventType = ''OrderCreated'',
       dn_Notify = AnalyticsNotifier_Notify E\<rparr>]"

section \<open>One event\<close>

definition update_event ::
    "uuid \<Rightarrow> (OutboxEvent \<Rightarrow> OutboxEvent) \<Rightarrow> ('z order_db_scheme, 'e, unit) op" where
  "update_event eventID f =
     ignore (db_write (\<lambda>err. err) (\<lambda>s. s\<lparr>od_outbox := update_rows (\<lambda>ev. ob_OutboxEventID ev = eventID) f (od_outbox s)\<rparr>))"

definition start_attempt :: "gotime \<Rightarrow> int \<Rightarrow> OutboxEvent \<Rightarrow> OutboxEvent" where
  "start_attempt now attempts ev =
     ev\<lparr>ob_Status := OutboxStatusProcessing, ob_LastAttemptAt := Some now, ob_Attempts := attempts\<rparr>"

definition failOutboxEvent :: "OutboxEvent \<Rightarrow> string \<Rightarrow> ('z order_db_scheme, 'e, unit) op" where
  "failOutboxEvent event reason =
     update_event (ob_OutboxEventID event) (\<lambda>ev. ev\<lparr>ob_Status := OutboxStatusFailed, ob_Error := reason\<rparr>)"

fun strings_Join :: "string list \<Rightarrow> string \<Rightarrow> string" where
  "strings_Join [] sep = ''''"
| "strings_Join [x] sep = x"
| "strings_Join (x # y # xs) sep = x @ sep @ strings_Join (y # xs) sep"

fun deliver ::
    "string \<Rightarrow> OrderCreatedPayload \<Rightarrow> 's DownstreamNotifier list \<Rightarrow> ('s, 'e, string list) op" where
  "deliver eventType payload [] = ret []"
| "deliver eventType payload (n # ns) =
     (if dn_EventType n \<noteq> eventType then deliver eventType payload ns
      else (\<lambda>s. case dn_Notify n payload s of
             (s, Inl err) \<Rightarrow> bindE (deliver eventType payload ns) (\<lambda>errs. ret ((dn_type n @ '': '' @ err) # errs)) s
           | (s, Inr _) \<Rightarrow> deliver eventType payload ns s))"

text \<open>The exponent is the number of this attempt, which the first update has stored in the struct.\<close>

definition retry_delay :: "int \<Rightarrow> int" where
  "retry_delay attempts = outboxWorkerBackoff * 2 ^ nat (min attempts 6)"

definition retry_event :: "gotime \<Rightarrow> int \<Rightarrow> string list \<Rightarrow> OutboxEvent \<Rightarrow> OutboxEvent" where
  "retry_event now attempts errs ev =
     ev\<lparr>ob_Status := (if attempts \<ge> maxOutboxRetries then OutboxStatusFailed else OutboxStatusPending),
        ob_NextRetryAt := now + retry_delay attempts, ob_Error := strings_Join errs ''; ''\<rparr>"

definition settle_event :: "gotime \<Rightarrow> OutboxEvent \<Rightarrow> OutboxEvent" where
  "settle_event now ev = ev\<lparr>ob_Status := OutboxStatusDelivered, ob_ProcessedAt := Some now, ob_Error := ''''\<rparr>"

definition processOneOutboxEvent ::
    "order_env \<Rightarrow> 'z order_db_scheme DownstreamNotifier list \<Rightarrow> gotime \<Rightarrow> gotime \<Rightarrow> OutboxEvent
       \<Rightarrow> ('z order_db_scheme, 'e, unit) op" where
  "processOneOutboxEvent E notifiers now later event =
     (let event = start_attempt now (ob_Attempts event + 1) event
      in thenE (update_event (ob_OutboxEventID event) (start_attempt now (ob_Attempts event)))
           (case ob_Payload event of
              None \<Rightarrow> failOutboxEvent event (''unmarshal failed: '' @ oe_json_error E)
            | Some payload \<Rightarrow>
                bindE (deliver (ob_EventType event) payload notifiers) (\<lambda>errs.
                  if errs \<noteq> [] then update_event (ob_OutboxEventID event) (retry_event later (ob_Attempts event) errs)
                  else update_event (ob_OutboxEventID event) (settle_event later))))"

section \<open>The worker\<close>

text \<open>The identifiers and clock readings of the k-th event of a batch.\<close>

record relay_draw =
  rl_kotID :: uuid
  rl_itemID :: "nat \<Rightarrow> uuid"
  rl_now :: gotime
  rl_later :: gotime

fun process_events ::
    "order_env \<Rightarrow> (nat \<Rightarrow> relay_draw) \<Rightarrow> nat \<Rightarrow> OutboxEvent list \<Rightarrow> ('z order_db_scheme, 'e, unit) op" where
  "process_events E draw k [] = ret ()"
| "process_events E draw k (event # events) =
     thenE (processOneOutboxEvent E (default_notifiers E (rl_kotID (draw k)) (rl_itemID (draw k)))
              (rl_now (draw k)) (rl_later (draw k)) event)
       (process_events E draw (Suc k) events)"

definition due_events :: "gotime \<Rightarrow> 'z order_db_scheme \<Rightarrow> OutboxEvent list" where
  "due_events now s =
     take 50 (sort_key ob_NextRetryAt
       (filter (\<lambda>ev. ob_Status ev = OutboxStatusPending \<and> ob_NextRetryAt ev \<le> now) (od_outbox s)))"

definition processOutboxBatch ::
    "order_env \<Rightarrow> gotime \<Rightarrow> (nat \<Rightarrow> relay_draw) \<Rightarrow> ('z order_db_scheme, 'e, unit) op" where
  "processOutboxBatch E now draw =
     bindE (or_else (db_query (\<lambda>err. err) (due_events now)) []) (\<lambda>events. process_events E draw 0 events)"

text \<open>What the worker's \<open>select\<close> receives.\<close>

datatype signal = Tick gotime "nat \<Rightarrow> relay_draw" | Stop

fun outboxRelayLoop :: "order_env \<Rightarrow> signal list \<Rightarrow> ('z order_db_scheme, 'e, unit) op" where
  "outboxRelayLoop E [] = ret ()"
| "outboxRelayLoop E (Stop # signals) = ret ()"
| "outboxRelayLoop E (Tick now draw # signals) =
     thenE (processOutboxBatch E now draw) (outboxRelayLoop E signals)"

end
