(* ===== verification/Outbox_Correct.thy ===== *)
theory Outbox_Correct
  imports Outbox_Relay
begin

text \<open>
  What the relay guarantees: at most one kitchen ticket per order and one for every delivered event,
  events that left the pending state are never touched again, bounded attempts and delays.
\<close>

section \<open>Notifiers\<close>

definition ticket_for :: "OrderCreatedPayload \<Rightarrow> 'z db_scheme \<Rightarrow> bool" where
  "ticket_for payload s \<longleftrightarrow>
     (\<exists>k \<in> set (db_kots s). kot_OrderID k = op_OrderID payload \<and> kot_TenantID k = op_TenantID payload)"

definition tickets :: "'z db_scheme \<Rightarrow> KOT list \<times> KOTItem list" where
  "tickets s = (db_kots s, db_kotItems s)"

fun ticket_items :: "(nat \<Rightarrow> uuid) \<Rightarrow> nat \<Rightarrow> uuid \<Rightarrow> OrderCreatedItemPayload list \<Rightarrow> KOTItem list" where
  "ticket_items itemIDs i kotID [] = []"
| "ticket_items itemIDs i kotID (item # items) =
     ticket_item (itemIDs i) kotID item # ticket_items itemIDs (Suc i) kotID items"

lemma insert_ticket_items_Inr:
  "insert_ticket_items itemIDs i kotID items s = (s', Inr u) \<Longrightarrow>
     tickets s' = (db_kots s, db_kotItems s @ ticket_items itemIDs i kotID items)"
proof (induction itemIDs i kotID items arbitrary: s rule: insert_ticket_items.induct)
  case (1 itemIDs i kotID)
  then show ?case by (simp add: tickets_def)
next
  case (2 itemIDs i kotID item items)
  then show ?case by (auto simp: thenE_Inr_iff db_insert_Inr tickets_def dest!: db_call_InrD)
qed

lemma create_ticket_Inr:
  assumes "create_ticket kotID itemIDs payload s = (s', Inr u)"
  shows "tickets s' = (db_kots s @ [ticket_of kotID payload], db_kotItems s @ ticket_items itemIDs 0 kotID (op_Items payload))"
  using assms unfolding create_ticket_def
  by (auto simp: transaction_Inr thenE_Inr_iff db_insert_Inr tickets_def dest!: db_call_InrD insert_ticket_items_Inr)

lemma create_ticket_Inl: "create_ticket kotID itemIDs payload s = (s', Inl e) \<Longrightarrow> tickets s' = tickets s"
  unfolding create_ticket_def by (auto simp: tickets_def dest!: transaction_InlD)

text \<open>A delivery makes the order's only ticket, with one pending item per line, or finds one.\<close>

lemma KOTNotifier_outcome:
  assumes "KOTNotifier_Notify kotID itemIDs payload s = (s', res)"
  shows "case res of
      Inl err \<Rightarrow> tickets s' = tickets s
    | Inr u \<Rightarrow> ticket_for payload s \<and> tickets s' = tickets s
        \<or> \<not> ticket_for payload s \<and> tickets s' = (db_kots s @ [ticket_of kotID payload],
            db_kotItems s @ ticket_items itemIDs 0 kotID (op_Items payload))"
proof -
  let ?f = "db_find (\<lambda>err. ''kotnotifier: lookup: '' @ err) kot_KOTID db_kots
              (\<lambda>k. kot_OrderID k = op_OrderID payload \<and> kot_TenantID k = op_TenantID payload)"
  obtain s1 q where f: "?f s = (s1, q)" by (cases "?f s")
  show ?thesis
  proof (cases q)
    case (Inl e)
    with assms f db_find_InlD [OF f [unfolded Inl]] show ?thesis
      by (auto simp: KOTNotifier_Notify_def tickets_def)
  next
    case (Inr existing)
    from db_find_InrD [OF f [unfolded Inr]] obtain fs where s1: "s1 = s\<lparr>faults := fs\<rparr>"
      and e: "first_row kot_KOTID (\<lambda>k. kot_OrderID k = op_OrderID payload \<and> kot_TenantID k = op_TenantID payload)
        (db_kots s) = existing" by auto
    show ?thesis
    proof (cases existing)
      case None
      then have n: "\<not> ticket_for payload s" using e by (simp add: ticket_for_def)
      have c: "create_ticket kotID itemIDs payload s1 = (s', res)"
        using assms f Inr None by (simp add: KOTNotifier_Notify_def)
      then show ?thesis
        using n s1 create_ticket_Inl [of kotID itemIDs payload s1 s'] create_ticket_Inr [of kotID itemIDs payload s1 s']
        by (cases res) (auto simp: tickets_def)
    next
      case (Some k)
      then have "ticket_for payload s" using first_row_Some [of kot_KOTID _ "db_kots s" k] e by (auto simp: ticket_for_def)
      with assms f Inr Some s1 show ?thesis by (auto simp: KOTNotifier_Notify_def tickets_def)
    qed
  qed
qed

text \<open>
  What every consumer of the relay promises: it leaves the outbox alone, tickets are only added, an
  order never gets a second one.
\<close>

definition ticket_key :: "KOT \<Rightarrow> uuid \<times> uuid" where
  "ticket_key k = (kot_OrderID k, kot_TenantID k)"

definition consumed :: "'z order_db_scheme \<Rightarrow> 'z order_db_scheme \<Rightarrow> bool" where
  "consumed s s' \<longleftrightarrow> od_outbox s' = od_outbox s \<and> (\<exists>new. db_kots s' = db_kots s @ new)
     \<and> (distinct (map ticket_key (db_kots s)) \<longrightarrow> distinct (map ticket_key (db_kots s')))"

lemma consumed_refl: "consumed s s"
  by (simp add: consumed_def)

lemma consumed_trans: "consumed a b \<Longrightarrow> consumed b c \<Longrightarrow> consumed a c"
  by (auto simp: consumed_def)

lemma consumed_rules:
  "reflp consumed" "transp consumed" "fault_blind consumed" "redis_blind consumed"
  by (rule reflpI, rule consumed_refl) (rule transpI, erule (1) consumed_trans,
    simp_all add: fault_blind_def redis_blind_def consumed_def)

lemma consumed_ticket_for: "consumed s s' \<Longrightarrow> ticket_for payload s \<Longrightarrow> ticket_for payload s'"
  by (auto simp: consumed_def ticket_for_def)

locale consumer =
  fixes notify :: "OrderCreatedPayload \<Rightarrow> ('z order_db_scheme, string, unit) op"
  assumes outbox_kept: "od_outbox (fst (notify payload s)) = od_outbox s"
    and tickets_added: "\<exists>new. db_kots (fst (notify payload s)) = db_kots s @ new"
    and one_ticket: "distinct (map ticket_key (db_kots s)) \<Longrightarrow> distinct (map ticket_key (db_kots (fst (notify payload s))))"
begin

lemma consumes: "steps consumed (notify payload)"
  using outbox_kept tickets_added one_ticket by (auto simp: steps_def consumed_def)

lemma notified: "notify payload s = (s', r) \<Longrightarrow> consumed s s'"
  by (rule stepsD [OF consumes])

end

lemma KOTNotifier_frame: "od_outbox (fst (KOTNotifier_Notify kotID itemIDs payload s)) = od_outbox s"
proof -
  have refl: "reflp (\<lambda>s s' :: 'z order_db_scheme. od_outbox s' = od_outbox s)"
    "transp (\<lambda>s s' :: 'z order_db_scheme. od_outbox s' = od_outbox s)"
    "fault_blind (\<lambda>s s' :: 'z order_db_scheme. od_outbox s' = od_outbox s)"
    by (auto simp: fault_blind_def intro: reflpI transpI)
  have "steps (\<lambda>s s' :: 'z order_db_scheme. od_outbox s' = od_outbox s) (insert_ticket_items itemIDs i kotID items)"
    for i items
    by (induction itemIDs i kotID items rule: insert_ticket_items.induct; simp del: op_simps;
        intro steps_rules refl) simp_all
  then have "steps (\<lambda>s s' :: 'z order_db_scheme. od_outbox s' = od_outbox s) (KOTNotifier_Notify kotID itemIDs payload)"
    unfolding KOTNotifier_Notify_def create_ticket_def by (intro steps_rules refl) simp_all
  then show ?thesis by (rule steps_run)
qed

lemma KOTNotifier_tickets:
  "(\<exists>new. db_kots (fst (KOTNotifier_Notify kotID itemIDs payload s)) = db_kots s @ new)
   \<and> (distinct (map ticket_key (db_kots s))
        \<longrightarrow> distinct (map ticket_key (db_kots (fst (KOTNotifier_Notify kotID itemIDs payload s)))))"
proof -
  obtain s' res where run: "KOTNotifier_Notify kotID itemIDs payload s = (s', res)"
    by (cases "KOTNotifier_Notify kotID itemIDs payload s")
  have "ticket_key (ticket_of kotID payload) \<notin> ticket_key ` set (db_kots s)" if "\<not> ticket_for payload s"
    using that by (auto simp: ticket_for_def ticket_key_def ticket_of_def)
  with KOTNotifier_outcome [OF run] show ?thesis
    by (auto simp: run tickets_def split: sum.splits)
qed

interpretation kot_consumer: consumer "KOTNotifier_Notify kotID itemIDs" for kotID itemIDs
  using KOTNotifier_frame KOTNotifier_tickets by unfold_locales blast+

interpretation inventory_consumer: consumer InventoryNotifier_Notify
  by unfold_locales (simp_all add: InventoryNotifier_Notify_def)

lemma redis_outbox: "steps (\<lambda>s s'. od_outbox s' = od_outbox s \<and> db_kots s' = db_kots s) (AnalyticsNotifier_Notify E payload)"
  unfolding AnalyticsNotifier_Notify_def
  by (intro steps_rules) (auto simp: redis_blind_def intro: transpI)

interpretation analytics_consumer: consumer "AnalyticsNotifier_Notify E" for E
  using redis_outbox [of E, unfolded steps_def] by unfold_locales auto

section \<open>Delivery\<close>

lemma deliver_consumed:
  assumes "\<forall>n \<in> set notifiers. steps consumed (dn_Notify n payload)"
  shows "steps consumed (deliver eventType payload notifiers :: ('z order_db_scheme, 'e, string list) op)"
  using assms
proof (induction notifiers)
  case Nil
  show ?case by (simp del: op_simps) (intro steps_rules consumed_rules)
next
  case (Cons n ns)
  then have ih: "steps consumed (deliver eventType payload ns :: ('z order_db_scheme, 'e, string list) op)" by simp
  show ?case
  proof (cases "dn_EventType n \<noteq> eventType")
    case True
    with ih show ?thesis by simp
  next
    case False
    have k: "steps consumed (bindE (deliver eventType payload ns) (\<lambda>errs. ret (x # errs)) :: ('z order_db_scheme, 'e, string list) op)"
      for x by (intro steps_rules consumed_rules ih)
    have n: "steps consumed (dn_Notify n payload)" using Cons by simp
    show ?thesis
      unfolding steps_def
    proof
      fix s
      obtain s1 r where m: "dn_Notify n payload s = (s1, r)" by (cases "dn_Notify n payload s")
      note s1 = consumed_trans [OF stepsD [OF n m]]
      then show "consumed s (fst ((deliver eventType payload (n # ns) :: ('z order_db_scheme, 'e, string list) op) s))"
        using m False s1 [OF steps_run [OF k]] s1 [OF steps_run [OF ih]] by (cases r) auto
    qed
  qed
qed

lemma default_consumed: "\<forall>n \<in> set (default_notifiers E kotID itemIDs). steps consumed (dn_Notify n payload)"
  by (simp add: default_notifiers_def kot_consumer.consumes inventory_consumer.consumes analytics_consumer.consumes)

lemma deliver_default: "deliver eventType payload (default_notifiers E kotID itemIDs) s = (s', r) \<Longrightarrow> consumed s s'"
  by (rule stepsD [OF deliver_consumed [OF default_consumed]])

lemma deliver_total: "\<exists>s' errs. deliver eventType payload notifiers s = (s', Inr errs)"
proof (induction notifiers arbitrary: s)
  case Nil
  show ?case by simp
next
  case (Cons n ns)
  obtain s1 r where m: "dn_Notify n payload s = (s1, r)" by (cases "dn_Notify n payload s")
  from Cons [of s] Cons [of s1] m show ?case by (cases r) auto
qed

lemma deliver_default_clean:
  assumes "deliver ''OrderCreated'' payload (default_notifiers E kotID itemIDs) s = (s', Inr [] :: 'e + string list)"
  shows "ticket_for payload s'"
proof -
  obtain s1 r where k: "KOTNotifier_Notify kotID itemIDs payload s = (s1, r)"
    by (cases "KOTNotifier_Notify kotID itemIDs payload s")
  let ?rest = "tl (default_notifiers E kotID itemIDs)"
  from assms k have r: "r = Inr ()"
    by (cases r) (auto simp: default_notifiers_def bindE_Inr_iff)
  with assms k have "deliver ''OrderCreated'' payload ?rest s1 = (s', Inr [] :: 'e + string list)" by (simp add: default_notifiers_def)
  moreover have "\<forall>n \<in> set ?rest. steps consumed (dn_Notify n payload)"
    by (simp add: default_notifiers_def inventory_consumer.consumes analytics_consumer.consumes)
  ultimately have c: "consumed s1 s'" using stepsD [OF deliver_consumed] by blast
  have "ticket_for payload s1"
    using KOTNotifier_outcome [OF k] r
    by (auto simp: ticket_for_def tickets_def ticket_of_def)
  with c show ?thesis by (rule consumed_ticket_for)
qed

definition touch :: "uuid \<Rightarrow> (OutboxEvent \<Rightarrow> OutboxEvent) \<Rightarrow> OutboxEvent list \<Rightarrow> OutboxEvent list" where
  "touch eventID f rows = update_rows (\<lambda>ev. ob_OutboxEventID ev = eventID) f rows"

text \<open>An update is written or, at a fault, is not.\<close>

definition maybe_touch ::
    "uuid \<Rightarrow> (OutboxEvent \<Rightarrow> OutboxEvent) \<Rightarrow> OutboxEvent list \<Rightarrow> OutboxEvent list \<Rightarrow> bool" where
  "maybe_touch eventID f rows rows' \<longleftrightarrow> rows' = rows \<or> rows' = touch eventID f rows"

lemma update_event_outcome:
  "update_event eventID f s = (s', r) \<Longrightarrow>
     r = Inr () \<and> tickets s' = tickets s \<and> maybe_touch eventID f (od_outbox s) (od_outbox s')"
  by (cases rule: db_call_cases [of "\<lambda>err. err" s])
    (auto simp: update_event_def db_write_def tickets_def maybe_touch_def touch_def)

text \<open>What the second update of an attempt writes.\<close>

definition verdict ::
    "order_env \<Rightarrow> gotime \<Rightarrow> int \<Rightarrow> OrderCreatedPayload option \<Rightarrow> string list \<Rightarrow> OutboxEvent \<Rightarrow> OutboxEvent" where
  "verdict E later attempts payload errs ev =
     (if payload = None then ev\<lparr>ob_Status := OutboxStatusFailed, ob_Error := ''unmarshal failed: '' @ oe_json_error E\<rparr>
      else if errs \<noteq> [] then retry_event later attempts errs ev else settle_event later ev)"

lemma processOne_outcome:
  fixes s :: "'z order_db_scheme" and r :: "'e + unit"
  assumes "processOneOutboxEvent E (default_notifiers E kotID itemIDs) now later event s = (s', r)"
  shows "\<exists>errs rows. maybe_touch (ob_OutboxEventID event) (start_attempt now (ob_Attempts event + 1)) (od_outbox s) rows
    \<and> maybe_touch (ob_OutboxEventID event)
        (verdict E later (ob_Attempts event + 1) (ob_Payload event) errs) rows (od_outbox s')
    \<and> (\<exists>new. db_kots s' = db_kots s @ new)
    \<and> (distinct (map ticket_key (db_kots s)) \<longrightarrow> distinct (map ticket_key (db_kots s')))
    \<and> (\<forall>payload. ob_Payload event = Some payload \<longrightarrow> ob_EventType event = ''OrderCreated'' \<longrightarrow> errs = []
        \<longrightarrow> ticket_for payload s')"
proof -
  let ?i = "ob_OutboxEventID event" and ?a = "ob_Attempts event + 1"
  let ?event = "start_attempt now ?a event"
  have sel: "ob_OutboxEventID ?event = ?i" "ob_Attempts ?event = ?a" "ob_Payload ?event = ob_Payload event"
    "ob_EventType ?event = ob_EventType event" by (simp_all add: start_attempt_def)
  obtain s1 :: "'z order_db_scheme" and r1 :: "'e + unit"
    where 1: "update_event ?i (start_attempt now ?a) s = (s1, r1)"
    by (cases "update_event ?i (start_attempt now ?a) s :: 'z order_db_scheme \<times> ('e + unit)")
  note u1 = update_event_outcome [OF 1]
  show ?thesis
  proof (cases "ob_Payload event")
    case None
    with assms 1 u1 have 2: "update_event ?i (\<lambda>ev. ev\<lparr>ob_Status := OutboxStatusFailed,
        ob_Error := ''unmarshal failed: '' @ oe_json_error E\<rparr>) s1 = (s', r)"
      by (simp add: processOneOutboxEvent_def Let_def thenE_def sel failOutboxEvent_def)
    have "verdict E later ?a None [] = (\<lambda>ev. ev\<lparr>ob_Status := OutboxStatusFailed,
        ob_Error := ''unmarshal failed: '' @ oe_json_error E\<rparr>)" by (simp add: verdict_def fun_eq_iff)
    with u1 update_event_outcome [OF 2] None show ?thesis
      by (intro exI [of _ "[]"] exI [of _ "od_outbox s1"]) (auto simp: tickets_def)
  next
    case (Some payload)
    obtain s2 errs where 2: "deliver (ob_EventType event) payload (default_notifiers E kotID itemIDs) s1
        = (s2, Inr errs :: 'e + string list)"
      by (metis deliver_total)
    have v: "verdict E later ?a (Some payload) errs =
        (if errs \<noteq> [] then retry_event later ?a errs else settle_event later)"
      by (simp add: verdict_def fun_eq_iff)
    from assms 1 u1 Some 2 have 3: "update_event ?i (verdict E later ?a (Some payload) errs) s2 = (s', r)"
      unfolding v by (auto simp: processOneOutboxEvent_def Let_def thenE_def sel)
    note c = deliver_default [OF 2]
    have t: "ticket_for payload s'" if "ob_EventType event = ''OrderCreated''" "errs = []"
      using deliver_default_clean [OF 2 [unfolded that]] update_event_outcome [OF 3]
      by (simp add: ticket_for_def tickets_def)
    from u1 c update_event_outcome [OF 3] t Some show ?thesis
      by (intro exI [of _ errs] exI [of _ "od_outbox s1"]) (auto simp: tickets_def consumed_def)
  qed
qed

section \<open>The outbox under the relay\<close>

definition ident :: "OutboxEvent \<Rightarrow> uuid \<times> string \<times> OrderCreatedPayload option" where
  "ident ev = (ob_OutboxEventID ev, ob_EventType ev, ob_Payload ev)"

lemma ident_kept [simp]: "ident (start_attempt now a ev) = ident ev" "ident (verdict E later a p errs ev) = ident ev"
  by (simp_all add: ident_def start_attempt_def verdict_def retry_event_def settle_event_def)

lemma maybe_touch_ident:
  "maybe_touch i f rows rows' \<Longrightarrow> (\<And>ev. ident (f ev) = ident ev) \<Longrightarrow> map ident rows' = map ident rows"
  by (auto simp: maybe_touch_def touch_def update_rows_def)

lemma map_ident_ids: "map ident rows' = map ident rows \<Longrightarrow> map ob_OutboxEventID rows' = map ob_OutboxEventID rows"
proof -
  have ids: "map ob_OutboxEventID xs = map fst (map ident xs)" for xs by (simp add: ident_def comp_def)
  show "map ident rows' = map ident rows \<Longrightarrow> ?thesis" by (simp only: ids)
qed

lemma same_key_same_row: "distinct (map key rows) \<Longrightarrow> a \<in> set rows \<Longrightarrow> b \<in> set rows \<Longrightarrow> key a = key b \<Longrightarrow> a = b"
  by (simp add: distinct_map inj_on_def)

lemma maybe_touch_row:
  "maybe_touch i f rows rows' \<Longrightarrow> ev \<in> set rows' \<Longrightarrow> \<exists>q \<in> set rows. ev = q \<or> ob_OutboxEventID q = i \<and> ev = f q"
  by (auto simp: maybe_touch_def touch_def update_rows_set split: if_splits)

lemma maybe_touch_other:
  "maybe_touch i f rows rows' \<Longrightarrow> ev \<in> set rows \<Longrightarrow> ob_OutboxEventID ev \<noteq> i \<Longrightarrow> ev \<in> set rows'"
  by (auto simp: maybe_touch_def touch_def update_rows_set)

text \<open>A row after an attempt: as it was, in processing, or with the verdict.\<close>

lemma attempted_row:
  assumes "maybe_touch i (start_attempt now a) rows0 rows1" and "maybe_touch i (verdict E later a p errs) rows1 rows2"
    and "ev \<in> set rows2"
  obtains (same) "ev \<in> set rows0"
  | (started) q where "q \<in> set rows0" "ob_OutboxEventID q = i" "ev = start_attempt now a q"
  | (judged) q where "q \<in> set rows0" "ob_OutboxEventID q = i" "ev = verdict E later a p errs q"
  | (both) q where "q \<in> set rows0" "ob_OutboxEventID q = i" "ev = verdict E later a p errs (start_attempt now a q)"
  using maybe_touch_row [OF assms(2,3)] maybe_touch_row [OF assms(1)] by (metis ident_kept(1) ident_def prod.inject)

definition relay_ok :: "'z order_db_scheme \<Rightarrow> bool" where
  "relay_ok s \<longleftrightarrow> distinct (map ob_OutboxEventID (od_outbox s)) \<and> distinct (map ticket_key (db_kots s))
     \<and> (\<forall>ev \<in> set (od_outbox s). ob_Status ev = OutboxStatusDelivered \<longrightarrow> ob_EventType ev = ''OrderCreated''
          \<longrightarrow> (\<exists>payload. ob_Payload ev = Some payload \<and> ticket_for payload s))"

definition attempts_ok :: "OutboxEvent list \<Rightarrow> bool" where
  "attempts_ok rows \<longleftrightarrow> (\<forall>ev \<in> set rows. 0 \<le> ob_Attempts ev \<and> ob_Attempts ev \<le> maxOutboxRetries
     \<and> (ob_Status ev = OutboxStatusPending \<longrightarrow> ob_Attempts ev < maxOutboxRetries))"

lemmas outbox_names = OutboxStatusPending_def OutboxStatusProcessing_def OutboxStatusDelivered_def OutboxStatusFailed_def

lemma verdict_delivered:
  "ob_Status (verdict E later a p errs ev) = OutboxStatusDelivered \<longleftrightarrow> p \<noteq> None \<and> errs = []"
  by (simp add: verdict_def retry_event_def settle_event_def outbox_names)

lemma verdict_pending:
  "ob_Status (verdict E later a p errs ev) = OutboxStatusPending \<longleftrightarrow> p \<noteq> None \<and> errs \<noteq> [] \<and> a < maxOutboxRetries"
  by (auto simp: verdict_def retry_event_def settle_event_def outbox_names)

lemma verdict_attempts [simp]: "ob_Attempts (verdict E later a p errs ev) = ob_Attempts ev"
  by (simp add: verdict_def retry_event_def settle_event_def)

lemma start_attempt_sel [simp]:
  "ob_Attempts (start_attempt now a ev) = a" "ob_Status (start_attempt now a ev) = OutboxStatusProcessing"
  by (simp_all add: start_attempt_def)

lemma processOne_ok:
  assumes run: "processOneOutboxEvent E (default_notifiers E kotID itemIDs) now later event s = (s', r)"
    and ok: "relay_ok s" and known: "event \<in> set (od_outbox s)"
  shows "relay_ok s' \<and> map ident (od_outbox s') = map ident (od_outbox s)"
proof -
  let ?a = "ob_Attempts event + 1" and ?i = "ob_OutboxEventID event"
  from processOne_outcome [OF run] obtain errs rows where
    t1: "maybe_touch ?i (start_attempt now ?a) (od_outbox s) rows"
    and t2: "maybe_touch ?i (verdict E later ?a (ob_Payload event) errs) rows (od_outbox s')"
    and kots: "\<exists>new. db_kots s' = db_kots s @ new"
      "distinct (map ticket_key (db_kots s)) \<longrightarrow> distinct (map ticket_key (db_kots s'))"
    and made: "\<forall>payload. ob_Payload event = Some payload \<longrightarrow> ob_EventType event = ''OrderCreated'' \<longrightarrow> errs = []
        \<longrightarrow> ticket_for payload s'" by blast
  have idents: "map ident (od_outbox s') = map ident (od_outbox s)"
    using maybe_touch_ident [OF t1] maybe_touch_ident [OF t2] by simp
  have keep: "ticket_for p s \<Longrightarrow> ticket_for p s'" for p using kots(1) by (auto simp: ticket_for_def)
  have hit: "\<exists>payload. ob_Payload ev = Some payload \<and> ticket_for payload s'"
    if "q \<in> set (od_outbox s)" "ob_OutboxEventID q = ?i" "ident ev = ident q"
      "ob_EventType ev = ''OrderCreated''" "ob_Payload event \<noteq> None" "errs = []" for ev q
  proof -
    from that(1,2) known ok have "q = event" by (metis relay_ok_def same_key_same_row)
    with that(3) have "ident ev = ident event" by simp
    with made that(4-6) show ?thesis by (auto simp: ident_def)
  qed
  have "\<exists>payload. ob_Payload ev = Some payload \<and> ticket_for payload s'"
    if "ev \<in> set (od_outbox s')" "ob_Status ev = OutboxStatusDelivered" "ob_EventType ev = ''OrderCreated''" for ev
    using t1 t2 that(1)
  proof (cases rule: attempted_row)
    case same
    with ok that keep show ?thesis by (auto simp: relay_ok_def)
  next
    case (started q)
    with that(2) show ?thesis by (simp add: outbox_names)
  next
    case (judged q)
    with that verdict_delivered show ?thesis by (intro hit [of q ev]) auto
  next
    case (both q)
    with that verdict_delivered show ?thesis by (intro hit [of q ev]) auto
  qed
  with ok kots idents map_ident_ids [OF idents] show ?thesis by (simp add: relay_ok_def)
qed

lemma processOne_attempts:
  assumes run: "processOneOutboxEvent E (default_notifiers E kotID itemIDs) now later event s = (s', r)"
    and u: "distinct (map ob_OutboxEventID (od_outbox s))" and ok: "attempts_ok (od_outbox s)"
    and known: "event \<in> set (od_outbox s)" and p: "ob_Status event = OutboxStatusPending"
  shows "attempts_ok (od_outbox s')"
proof -
  have a: "0 \<le> ob_Attempts event" "ob_Attempts event < maxOutboxRetries"
    using ok known p by (simp_all add: attempts_ok_def)
  from processOne_outcome [OF run] obtain errs rows where
    t1: "maybe_touch (ob_OutboxEventID event) (start_attempt now (ob_Attempts event + 1)) (od_outbox s) rows"
    and t2: "maybe_touch (ob_OutboxEventID event)
      (verdict E later (ob_Attempts event + 1) (ob_Payload event) errs) rows (od_outbox s')" by blast
  have "0 \<le> ob_Attempts ev \<and> ob_Attempts ev \<le> maxOutboxRetries
      \<and> (ob_Status ev = OutboxStatusPending \<longrightarrow> ob_Attempts ev < maxOutboxRetries)"
    if "ev \<in> set (od_outbox s')" for ev
    using t1 t2 that
  proof (cases rule: attempted_row)
    case same
    with ok show ?thesis by (simp add: attempts_ok_def)
  next
    case (started q)
    with a show ?thesis by (simp add: outbox_names)
  next
    case (judged q)
    with known u have "q = event" by (metis same_key_same_row)
    with judged a show ?thesis by simp
  next
    case (both q)
    with a show ?thesis by (simp add: verdict_pending)
  qed
  then show ?thesis by (simp add: attempts_ok_def)
qed

lemma processOne_others:
  assumes run: "processOneOutboxEvent E (default_notifiers E kotID itemIDs) now later event s = (s', r)"
    and "ev \<in> set (od_outbox s)" and "ob_OutboxEventID ev \<noteq> ob_OutboxEventID event"
  shows "ev \<in> set (od_outbox s')"
  using processOne_outcome [OF run] assms(2,3) maybe_touch_other by metis

text \<open>The events of a batch are rows of the outbox until their turn comes.\<close>

definition batch_of :: "OutboxEvent list \<Rightarrow> OutboxEvent list \<Rightarrow> bool" where
  "batch_of events rows \<longleftrightarrow> distinct (map ob_OutboxEventID events) \<and> set events \<subseteq> set rows
     \<and> (\<forall>ev \<in> set events. ob_Status ev = OutboxStatusPending)"

lemma batch_of_rest:
  assumes "processOneOutboxEvent E (default_notifiers E kotID itemIDs) now later event s = (s', r)"
    and "batch_of (event # events) (od_outbox s)"
  shows "batch_of events (od_outbox s')"
proof -
  have "ev \<in> set (od_outbox s')" if "ev \<in> set events" for ev
  proof (rule processOne_others [OF assms(1)])
    show "ev \<in> set (od_outbox s)" using that assms(2) by (auto simp: batch_of_def)
    have "ob_OutboxEventID ev \<in> ob_OutboxEventID ` set events" using that by simp
    then show "ob_OutboxEventID ev \<noteq> ob_OutboxEventID event" using assms(2) by (auto simp: batch_of_def)
  qed
  with assms(2) show ?thesis by (auto simp: batch_of_def)
qed

lemma due_events_batch:
  assumes "distinct (map ob_OutboxEventID (od_outbox s))"
  shows "batch_of (due_events now s) (od_outbox s)"
proof -
  let ?due = "filter (\<lambda>ev. ob_Status ev = OutboxStatusPending \<and> ob_NextRetryAt ev \<le> now) (od_outbox s)"
  have "distinct (map ob_OutboxEventID ?due)" using assms by (rule distinct_map_filter)
  then have d: "distinct ?due" and inj: "inj_on ob_OutboxEventID (set ?due)" by (simp_all only: distinct_map)
  have "distinct (due_events now s)" unfolding due_events_def by (rule distinct_take) (simp only: distinct_sort d)
  moreover have sub: "set (due_events now s) \<subseteq> set ?due"
    using set_take_subset [of 50 "sort_key ob_NextRetryAt ?due"] by (simp only: due_events_def set_sort)
  ultimately have "distinct (map ob_OutboxEventID (due_events now s))"
    by (simp only: distinct_map inj_on_subset [OF inj sub])
  with sub show ?thesis by (auto simp: batch_of_def)
qed

lemma process_events_ok:
  assumes "process_events E draw k events s = (s', r)" and "batch_of events (od_outbox s)" and "relay_ok s"
  shows "relay_ok s' \<and> map ident (od_outbox s') = map ident (od_outbox s)
    \<and> (attempts_ok (od_outbox s) \<longrightarrow> attempts_ok (od_outbox s'))
    \<and> (\<forall>ev \<in> set (od_outbox s). ob_Status ev \<noteq> OutboxStatusPending \<longrightarrow> ev \<in> set (od_outbox s'))"
  using assms
proof (induction events arbitrary: k s)
  case Nil
  then show ?case by simp
next
  case (Cons event events)
  let ?d = "draw k"
  obtain s1 r1 where 1: "processOneOutboxEvent E (default_notifiers E (rl_kotID ?d) (rl_itemID ?d)) (rl_now ?d) (rl_later ?d)
      event s = (s1, r1 :: 'b + unit)"
    by (cases "processOneOutboxEvent E (default_notifiers E (rl_kotID ?d) (rl_itemID ?d)) (rl_now ?d) (rl_later ?d)
      event s :: 'a order_db_scheme \<times> ('b + unit)")
  have e: "event \<in> set (od_outbox s)" "ob_Status event = OutboxStatusPending"
    using Cons.prems(2) by (auto simp: batch_of_def)
  note ok1 = processOne_ok [OF 1 Cons.prems(3) e(1)]
  have other: "ev \<in> set (od_outbox s1)" if "ev \<in> set (od_outbox s)" "ob_Status ev \<noteq> OutboxStatusPending" for ev
  proof (rule processOne_others [OF 1 that(1)])
    show "ob_OutboxEventID ev \<noteq> ob_OutboxEventID event"
      using that e Cons.prems(3) by (metis relay_ok_def same_key_same_row)
  qed
  have att: "attempts_ok (od_outbox s) \<longrightarrow> attempts_ok (od_outbox s1)"
    using processOne_attempts [OF 1 _ _ e] Cons.prems(3) by (simp add: relay_ok_def)
  show ?case
  proof (cases r1)
    case (Inl err)
    with Cons.prems(1) 1 have "s' = s1" by (simp add: thenE_def)
    with ok1 other att show ?thesis by simp
  next
    case (Inr u)
    with Cons.prems(1) 1 have "process_events E draw (Suc k) events s1 = (s', r)" by (simp add: thenE_def)
    from Cons.IH [OF this batch_of_rest [OF 1 Cons.prems(2)]] ok1 other att show ?thesis by simp
  qed
qed

lemma batch_ok:
  assumes run: "processOutboxBatch E now draw s = (s', r)" and ok: "relay_ok s"
  shows "relay_ok s' \<and> map ident (od_outbox s') = map ident (od_outbox s)
    \<and> (attempts_ok (od_outbox s) \<longrightarrow> attempts_ok (od_outbox s'))
    \<and> (\<forall>ev \<in> set (od_outbox s). ob_Status ev \<noteq> OutboxStatusPending \<longrightarrow> ev \<in> set (od_outbox s'))"
proof -
  obtain s1 r1 where c: "db_query (\<lambda>err. err) (due_events now) s = (s1, r1 :: string + OutboxEvent list)"
    by (cases "db_query (\<lambda>err. err) (due_events now) s :: 'a order_db_scheme \<times> (string + OutboxEvent list)")
  obtain events where e: "events = [] \<or> events = due_events now s"
    and q: "or_else (db_query (\<lambda>err. err) (due_events now)) [] s = (s1, Inr events :: 'b + OutboxEvent list)"
    and fs: "\<exists>fs. s1 = s\<lparr>faults := fs\<rparr>"
  proof (cases r1)
    case (Inl err)
    with c have "\<exists>fs. s1 = s\<lparr>faults := fs\<rparr>" by (auto simp: db_query_def bindE_Inl_iff dest!: db_call_Inl)
    with c Inl show thesis by (intro that [of "[]"]) (simp_all add: or_else_def)
  next
    case (Inr events)
    with c have "\<exists>fs. s1 = s\<lparr>faults := fs\<rparr> \<and> events = due_events now s"
      by (auto simp: db_query_Inr due_events_def dest!: db_call_InrD)
    with c Inr show thesis by (intro that [of events]) (auto simp: or_else_def)
  qed
  have s1: "od_outbox s1 = od_outbox s" "relay_ok s1" using fs ok by (auto simp: relay_ok_def ticket_for_def)
  have b: "batch_of events (od_outbox s1)"
    using e due_events_batch [of s now] ok s1(1) by (auto simp: relay_ok_def batch_of_def)
  have "process_events E draw 0 events s1 = (s', r)" using run q by (simp add: processOutboxBatch_def)
  from process_events_ok [OF this b s1(2)] s1(1) show ?thesis by simp
qed

lemma loop_ok:
  "outboxRelayLoop E signals s = (s', r) \<Longrightarrow> relay_ok s \<Longrightarrow>
     relay_ok s' \<and> (attempts_ok (od_outbox s) \<longrightarrow> attempts_ok (od_outbox s'))
     \<and> (\<forall>ev \<in> set (od_outbox s). ob_Status ev \<noteq> OutboxStatusPending \<longrightarrow> ev \<in> set (od_outbox s'))"
proof (induction E signals arbitrary: s rule: outboxRelayLoop.induct)
  case (3 E now draw signals)
  obtain s1 r1 where b: "processOutboxBatch E now draw s = (s1, r1 :: 'b + unit)"
    by (cases "processOutboxBatch E now draw s :: 'a order_db_scheme \<times> ('b + unit)")
  note ok = batch_ok [OF b 3(3)]
  show ?case
  proof (cases r1)
    case (Inl err)
    with 3(2) b have "s' = s1" by (simp add: thenE_def)
    with ok show ?thesis by simp
  next
    case (Inr u)
    with 3(2) b have "outboxRelayLoop E signals s1 = (s', r)" by (simp add: thenE_def)
    from 3(1) [OF this] ok show ?thesis by simp
  qed
qed simp_all

section \<open>Submissions and the relay together\<close>

inductive order_run :: "'r \<times> 'z order_db_scheme \<Rightarrow> 'r \<times> 'z order_db_scheme \<Rightarrow> bool" where
  start: "order_run a a"
| submit: "order_run a (r, s) \<Longrightarrow> SubmitOrder require E now ids actorID tenantID req (r, s) = (b, res) \<Longrightarrow> order_run a b"
| store: "order_run a (r, s) \<Longrightarrow> store_answer E stored tenantID req resp s = (s', res'') \<Longrightarrow> order_run a (r, s')"
| relay: "order_run a (r, s) \<Longrightarrow> outboxRelayLoop E signals s = (s', res' :: unit + unit) \<Longrightarrow> order_run a (r, s')"

lemma placed_relay_ok:
  assumes "order_placed E now ids actorID tenantID req resp s s'" and "relay_ok s"
  shows "relay_ok s' \<and> (attempts_ok (od_outbox s) \<longrightarrow> attempts_ok (od_outbox s'))"
  using assms unfolding order_placed_def announces_def
  by (auto simp: order_tables_def relay_ok_def ticket_for_def attempts_ok_def outbox_names maxOutboxRetries_def)

lemma submit_relay_ok:
  assumes "SubmitOrder require E now ids actorID tenantID req (r, s) = ((r', s'), res)" and "relay_ok s"
  shows "relay_ok s' \<and> (attempts_ok (od_outbox s) \<longrightarrow> attempts_ok (od_outbox s'))"
  using assms(1)
proof (cases rule: SubmitOrder_cases)
  case (failed err)
  with assms(2) show ?thesis by (simp add: untouched_def order_tables_def relay_ok_def ticket_for_def)
next
  case (placed s1 resp)
  have ok: "relay_ok s1" and a: "od_outbox s1 = od_outbox s"
    using placed(2) assms(2) by (simp_all add: untouched_def order_tables_def relay_ok_def ticket_for_def)
  from placed_relay_ok [OF place_order_Inr [OF placed(4)] ok] a show ?thesis by simp
qed

lemma order_run_ok:
  "order_run a b \<Longrightarrow> relay_ok (snd a) \<Longrightarrow>
     relay_ok (snd b) \<and> (attempts_ok (od_outbox (snd a)) \<longrightarrow> attempts_ok (od_outbox (snd b)))"
proof (induction rule: order_run.induct)
  case (submit a r s require E now ids actorID tenantID req b res)
  then show ?case using submit_relay_ok [of require E now ids actorID tenantID req r s "fst b" "snd b" res] by simp
next
  case (store a r s E stored tenantID req resp s' res'')
  then have "untouched s s'" using stepsD [OF cache_untouched] by (simp add: store_answer_def)
  with store show ?case by (simp add: untouched_def order_tables_def relay_ok_def ticket_for_def)
next
  case (relay a r s E signals s' res')
  then show ?case using loop_ok [OF relay(2)] by simp
qed simp

text \<open>
  C4: Under any interleaving of submissions and relay runs, faults included, no order ever has two
  kitchen tickets and every delivered order event has its ticket.
\<close>

theorem delivered_orders_have_one_ticket:
  assumes "order_run (r, s) (r', s')" and "relay_ok s"
    and "ev \<in> set (od_outbox s')" and "ob_Status ev = OutboxStatusDelivered" and "ob_EventType ev = ''OrderCreated''"
  shows "\<exists>payload. ob_Payload ev = Some payload
    \<and> (\<exists>!k. k \<in> set (db_kots s') \<and> kot_OrderID k = op_OrderID payload \<and> kot_TenantID k = op_TenantID payload)"
proof -
  have ok: "relay_ok s'" using order_run_ok [OF assms(1)] assms(2) by simp
  with assms(3-5) obtain payload where p: "ob_Payload ev = Some payload" and t: "ticket_for payload s'"
    unfolding relay_ok_def by blast
  from ok have d: "distinct (map ticket_key (db_kots s'))" by (simp add: relay_ok_def)
  have "k1 = k2" if "k1 \<in> set (db_kots s')" "k2 \<in> set (db_kots s')" "ticket_key k1 = ticket_key k2" for k1 k2
    using d that by (rule same_key_same_row)
  with t have "\<exists>!k. k \<in> set (db_kots s') \<and> kot_OrderID k = op_OrderID payload \<and> kot_TenantID k = op_TenantID payload"
    unfolding ticket_for_def ticket_key_def by (metis)
  with p show ?thesis by blast
qed


text \<open>
  An event that has left the pending state is never touched again: whatever the relay does, its
  row stays as it is.  So an event whose final update was lost remains in processing for ever.
\<close>

theorem settled_events_untouched:
  assumes "outboxRelayLoop E signals s = (s', r)" and "relay_ok s"
    and "ev \<in> set (od_outbox s)" and "ob_Status ev \<noteq> OutboxStatusPending"
  shows "ev \<in> set (od_outbox s')"
  using loop_ok [OF assms(1,2)] assms(3,4) by blast

section \<open>A delivery with nothing in its way\<close>

lemma insert_ticket_items_ok:
  assumes "faults s = []" and "\<forall>j < length items. itemIDs (i + j) \<notin> ki_KOTItemID ` set (db_kotItems s)"
    and "inj_on itemIDs {i..<i + length items}"
  shows "insert_ticket_items itemIDs i kotID items s
    = (s\<lparr>db_kotItems := db_kotItems s @ ticket_items itemIDs i kotID items\<rparr>, Inr ())"
  using assms
proof (induction items arbitrary: i s)
  case Nil
  then show ?case by simp
next
  case (Cons item items)
  let ?s1 = "s\<lparr>db_kotItems := db_kotItems s @ [ticket_item (itemIDs i) kotID item]\<rparr>"
  have fresh: "itemIDs i \<notin> ki_KOTItemID ` set (db_kotItems s)" using Cons.prems(2) by force
  have rest: "itemIDs (Suc i + j) \<notin> ki_KOTItemID ` set (db_kotItems ?s1)" if "j < length items" for j
  proof -
    have "itemIDs (Suc i + j) \<noteq> itemIDs i"
      using inj_onD [OF Cons.prems(3), of "Suc i + j" i] that by auto
    moreover have "itemIDs (i + Suc j) \<notin> ki_KOTItemID ` set (db_kotItems s)" using Cons.prems(2) that by auto
    ultimately show ?thesis by (simp add: ticket_item_def)
  qed
  have "inj_on itemIDs {Suc i..<Suc i + length items}" using Cons.prems(3) by (rule inj_on_subset) auto
  from Cons.IH [of ?s1 "Suc i", OF _ _ this] rest Cons.prems(1) fresh show ?case
    by (simp add: thenE_def db_insert_def)
qed

lemma KOTNotifier_ok:
  assumes "faults s = []" and "\<not> ticket_for payload s"
    and "\<not> (\<exists>k \<in> set (db_kots s). kot_KOTID k = kotID
           \<or> kot_TenantID k = op_TenantID payload \<and> kot_KOTNumber k = ''KOT-'' @ op_KOTNumber payload)"
    and "\<forall>j < length (op_Items payload). itemIDs j \<notin> ki_KOTItemID ` set (db_kotItems s)"
    and "inj_on itemIDs {0..<length (op_Items payload)}"
  shows "KOTNotifier_Notify kotID itemIDs payload s
    = (s\<lparr>db_kots := db_kots s @ [ticket_of kotID payload],
         db_kotItems := db_kotItems s @ ticket_items itemIDs 0 kotID (op_Items payload)\<rparr>, Inr ())"
proof -
  have "first_row kot_KOTID (\<lambda>k. kot_OrderID k = op_OrderID payload \<and> kot_TenantID k = op_TenantID payload) (db_kots s) = None"
    using assms(2) by (simp add: ticket_for_def)
  then have "KOTNotifier_Notify kotID itemIDs payload s = create_ticket kotID itemIDs payload s"
    using assms(1) by (simp add: KOTNotifier_Notify_def db_find_def del: first_row_None)
  moreover have "insert_ticket_items itemIDs 0 kotID (op_Items payload) (s\<lparr>db_kots := db_kots s @ [ticket_of kotID payload]\<rparr>)
      = (s\<lparr>db_kots := db_kots s @ [ticket_of kotID payload],
           db_kotItems := db_kotItems s @ ticket_items itemIDs 0 kotID (op_Items payload)\<rparr>, Inr ())"
    using assms by (subst insert_ticket_items_ok) simp_all
  ultimately show ?thesis
    using assms(1,3) by (simp add: create_ticket_def transaction_def thenE_def db_insert_def)
qed


end
