(* ===== verification/Order_Examples.thy ===== *)
theory Order_Examples
  imports Taxes_Correct Outbox_Correct Stock_Examples
begin

text \<open>
  The theorems on taxes, orders and the outbox at work: a restaurant with one table and one dish, a
  takeaway order for two of it, and a relay run over its event.
\<close>

section \<open>Taxes\<close>

theorem roundTo2Decimals_cents_witness: "roundTo2Decimals (f_div (f_of_int 1999) hundred) = f_div (f_of_int 1999) hundred"
  by (rule roundTo2Decimals_cents) simp_all

definition ex_config :: TaxConfiguration where
  "ex_config = \<lparr>tc_TaxEnabled = True, tc_TaxInclusivePricing = False, tc_DefaultTaxRate = Fin (1 / 8),
     tc_AlcoholTaxRate = Fin (1 / 4), tc_TakeawayTaxRate = Fin (1 / 8), tc_ServiceChargeBeforeTax = True,
     tc_RoundTaxAmount = True, tc_ShowTaxBreakdown = True, tc_TaxLabel = ''VAT''\<rparr>"

definition ex_taxed :: "OrderItemForTax list" where
  "ex_taxed = [\<lparr>it_ItemName = ''Momo'', it_UnitPrice = Fin 8, it_Quantity = 2, it_TaxCategory = ''standard'',
     it_Modifiers = []\<rparr>]"

theorem tax_within_a_cent_witness:
  "\<exists>tax grand. tb_TotalTaxAmount (compute_tax ex_config ''takeaway'' ex_taxed (Fin 10)) = Fin tax
    \<and> \<bar>tax - 11 / 5\<bar> < 1 / 100
    \<and> tb_GrandTotal (compute_tax ex_config ''takeaway'' ex_taxed (Fin 10)) = Fin grand \<and> \<bar>grand - 91 / 5\<bar> < 2 / 100"
proof -
  have x: "exact_subtotal ex_taxed = 16" "exact_charge ex_taxed (Fin 10) = 8 / 5"
    "exact_tax ex_config ''takeaway'' ex_taxed (Fin 10) = 11 / 5"
    by code_simp+
  have "rounded_config ex_config" "order_ok ex_taxed (Fin 10)" by code_simp+
  moreover have "tc_ServiceChargeBeforeTax ex_config" by (simp add: ex_config_def)
  ultimately show ?thesis using tax_within_a_cent [of ex_config ex_taxed "Fin 10" "''takeaway''"] by (simp add: x)
qed

section \<open>Orders\<close>

definition ex_oenv :: order_env where
  "ex_oenv = \<lparr>oe_uuid_String = no_id, oe_envelope_id = ''e'', oe_Format_stamp = (\<lambda>t. ''20260301-120000''),
     oe_Format_date = (\<lambda>t. ''2026-03-01''), oe_suffix = ''ab12'', oe_numeric = (\<lambda>k x. x), oe_json_error = ''eof''\<rparr>"

definition diner :: order_db where
  "diner = \<lparr>faults = [], db_orders = [], db_kots = [], db_kotItems = [], db_employees = [],
     db_audits = [], rd_counters = [], rd_faults = [], st_items = [], st_moves = [], st_links = [],
     st_vendors = [], st_pos = [], st_poLines = [], st_notifications = [], rd_items = [], rd_stats = [], rd_alerts = [],
     cfg_profiles = [\<lparr>prof_ProfileID = 80, prof_RestaurantID = 4, prof_TenantID = 9, prof_CurrencyCode = ''NPR'',
        prof_ServiceChargePct = Fin 0, prof_TaxInclusivePricing = False, prof_DefaultTaxRate = Fin (25 / 2),
        prof_AlcoholTaxRate = Fin 20\<rparr>],
     cfg_settings = [], cfg_overrides = [], rd_profiles = [], rd_settings = [],
     od_tables = [\<lparr>tab_TableID = 3, tab_RestaurantID = 4, tab_Capacity = 2, tab_Status = TableStateAvailable\<rparr>],
     od_menuItems = [\<lparr>mi_MenuItemID = 62, mi_TenantID = 9, mi_RestaurantID = 4, mi_Name = ''Momo'',
        mi_BasePrice = Fin 8, mi_IsAvailable = True, mi_PreparationTimeMinutes = Some 15, mi_DietaryFlags = []\<rparr>],
     od_menuModifiers = [], od_items = [], od_modifiers = [], od_taxes = [], od_logs = [], od_outbox = [],
     rd_orders = [], rd_revenue = []\<rparr>"

definition ex_ids :: order_ids where
  "ex_ids = \<lparr>ids_order = 90, ids_item = (\<lambda>i. 91 + of_nat i), ids_modifier = (\<lambda>i j. 0), ids_tax = 95, ids_log = 96,
     ids_outbox = 97\<rparr>"

definition ex_order :: SubmitOrderRequest where
  "ex_order = \<lparr>sub_IdempotencyKey = ''k1'', sub_RestaurantID = 4, sub_TableID = None, sub_CustomerID = None,
     sub_CustomerName = ''Ada'', sub_PhoneNumber = '''', sub_OrderType = ''takeaway'', sub_Notes = '''',
     sub_Items = [\<lparr>si_MenuItemID = 62, si_Quantity = 2, si_Notes = '''', si_Modifiers = [], si_ClientUnitPrice = Fin 8\<rparr>]\<rparr>"

abbreviation "ex_submit \<equiv> SubmitOrder allow_all ex_oenv 5 ex_ids 20 9 ex_order ((), diner)"

text \<open>The submission in its stages, each evaluated on its own.\<close>

definition ex_dc :: domainContext where
  "ex_dc = \<lparr>dc_profile = hd (cfg_profiles diner), dc_table = None, dc_menuItems = [(62, hd (od_menuItems diner))],
     dc_modifiers = [], dc_estReadyMins = 15\<rparr>"

definition ex_tax :: TaxBreakdown where
  "ex_tax = \<lparr>tb_SubtotalBeforeTax = Fin 16, tb_ServiceChargeAmount = Fin 0, tb_TaxableAmount = Fin 16,
     tb_TotalTaxAmount = Fin 2, tb_GrandTotal = Fin 18, tb_StandardTaxAmount = Fin 2, tb_AlcoholTaxAmount = Fin 0,
     tb_TaxIncludedInPrice = False, tb_TaxRate = Fin 0,
     tb_ItemTaxBreakdown = [\<lparr>td_ItemName = ''Momo'', td_Quantity = 2, td_UnitPrice = Fin 8, td_LineTotal = Fin 16,
        td_TaxRate = Fin (1 / 8), td_TaxAmount = Fin 2, td_TaxCategory = ''standard''\<rparr>]\<rparr>"

definition diner_read :: order_db where
  "diner_read = diner\<lparr>rd_profiles := [(profileCacheKey no_id 4, hd (cfg_profiles diner), Some (5 + settingsProfileTTL))]\<rparr>"

definition diner_written :: order_db where
  "diner_written = fst (write_order ex_oenv 5 ex_ids 20 9 ex_order ex_dc (build_items ex_ids ex_dc ex_order) ex_tax diner_read)"

lemma ex_checked: "checkIdempotency 5 (idempotencyKey ex_oenv 9 ex_order) diner = (diner, Inr None)"
  by code_simp

lemma ex_validated: "validateDomain ex_oenv 5 9 ex_order diner = (diner_read, Inr ex_dc)"
  by code_simp

lemma ex_built:
  "buildOrderItemsWithTax ex_oenv 5 ex_ids 9 ex_order ex_dc diner_read
     = (diner_read, Inr (build_items ex_ids ex_dc ex_order, ex_tax))"
  by code_simp

lemma ex_written:
  "write_order ex_oenv 5 ex_ids 20 9 ex_order ex_dc (build_items ex_ids ex_dc ex_order) ex_tax diner_read
     = (diner_written, Inr ())"
proof -
  have "snd (write_order ex_oenv 5 ex_ids 20 9 ex_order ex_dc (build_items ex_ids ex_dc ex_order) ex_tax diner_read)
      = Inr ()" by code_simp
  then show ?thesis unfolding diner_written_def by (metis prod.collapse)
qed

abbreviation "ex_resp \<equiv> order_response ex_oenv 5 ex_ids ex_dc ex_tax"

lemma ex_resp_json: "json_response ex_resp"
  by code_simp

lemma ex_faults: "faults diner = []" "rd_faults diner = []" "faults diner_read = []"
  by (simp_all add: diner_def diner_read_def)

lemma ex_submit_result: "snd ex_submit = Inr ex_resp"
proof -
  have run: "runTransaction ex_oenv 5 ex_ids 20 9 ex_order ex_dc diner_read = (diner_written, Inr ex_resp)"
    using ex_built ex_written by (simp add: runTransaction_def thenE_def ex_faults)
  have "\<exists>s. place_order ex_oenv 5 ex_ids 20 9 ex_order diner = (s, Inr ex_resp)"
    using ex_validated run by (simp add: place_order_def bindE_def)
  then show ?thesis using ex_checked by (auto simp: SubmitOrder_def guarded_def allow_all_def)
qed


theorem SubmitOrder_keeps_references_witness: "order_refs (snd (fst ex_submit))"
proof -
  have run: "ex_submit = ((fst (fst ex_submit), snd (fst ex_submit)), snd ex_submit)" unfolding prod.collapse ..
  have "order_refs diner" by (simp add: order_refs_def diner_def)
  from SubmitOrder_keeps_references [OF this run] show ?thesis .
qed

text \<open>The same key from another caller whom nobody authorized, for nothing at all.\<close>

definition deny_all :: "AccessRequest \<Rightarrow> unit \<Rightarrow> unit \<times> rbac_error option" where
  "deny_all rq r = (r, Some (ErrPermissionDenied ''order''))"

abbreviation "ex_stored \<equiv> fst (store_answer ex_oenv 6 9 ex_order ex_resp (snd (fst ex_submit)))"


abbreviation "ex_dine_in \<equiv> ex_order\<lparr>sub_OrderType := ''dine-in'', sub_TableID := Some 3\<rparr>"

theorem dine_in_never_accepted_witness:
  "\<exists>err. snd (SubmitOrder allow_all ex_oenv 5 ex_ids 20 9 ex_dine_in ((), diner)) = Inl err"
proof -
  let ?run = "SubmitOrder allow_all ex_oenv 5 ex_ids 20 9 ex_dine_in ((), diner)"
  have run: "?run = ((fst (fst ?run), snd (fst ?run)), snd ?run)" unfolding prod.collapse ..
  have "distinct (map tab_TableID (od_tables diner))" by (simp add: diner_def)
  from dine_in_never_accepted [OF _ _ this run, of 3] show ?thesis by simp
qed

section \<open>The outbox\<close>

definition ex_payload :: OrderCreatedPayload where
  "ex_payload = \<lparr>op_OrderID = 90, op_TenantID = 9, op_RestaurantID = 4, op_TableID = None, op_OrderType = ''takeaway'',
     op_KOTNumber = ''n1'', op_ActorID = 20, op_OccurredAt = 5,
     op_Items = [\<lparr>pi_OrderItemID = 91, pi_MenuItemID = Some 62, pi_ItemName = ''Momo'', pi_Quantity = 2,
        pi_UnitPrice = Fin 8, pi_KitchenStation = ''general''\<rparr>]\<rparr>"

definition ex_event :: OutboxEvent where
  "ex_event = \<lparr>ob_OutboxEventID = 97, ob_TenantID = 9, ob_AggregateType = ''order'', ob_AggregateID = ''90'',
     ob_EventType = ''OrderCreated'', ob_Payload = Some ex_payload, ob_Status = OutboxStatusPending, ob_Attempts = 0,
     ob_LastAttemptAt = None, ob_NextRetryAt = 5, ob_CreatedAt = 5, ob_ProcessedAt = None, ob_Error = ''''\<rparr>"

abbreviation "ex_outbox \<equiv> diner\<lparr>od_outbox := [ex_event]\<rparr>"

definition ex_draw :: "nat \<Rightarrow> relay_draw" where
  "ex_draw k = \<lparr>rl_kotID = 100, rl_itemID = (\<lambda>i. 101 + of_nat i), rl_now = 6, rl_later = 7\<rparr>"

abbreviation "ex_relay \<equiv> outboxRelayLoop ex_oenv [Tick 6 ex_draw, Stop] ex_outbox :: order_db \<times> (unit + unit)"

lemma ex_relay_result: "map (\<lambda>ev. (ob_Status ev, ob_Attempts ev)) (od_outbox (fst ex_relay)) = [(''delivered'', 1)]"
  by code_simp

lemma ex_relay_run: "ex_relay = (fst ex_relay, snd ex_relay)"
  unfolding prod.collapse ..

lemma ex_outbox_ok: "relay_ok ex_outbox" "attempts_ok (od_outbox ex_outbox)"
  by (simp_all add: relay_ok_def attempts_ok_def diner_def ex_event_def outbox_names maxOutboxRetries_def)

lemma ex_relay_order_run: "order_run ((), ex_outbox) ((), fst ex_relay)"
  by (rule order_run.relay [OF order_run.start ex_relay_run])

theorem delivered_orders_have_one_ticket_witness:
  "\<exists>ev \<in> set (od_outbox (fst ex_relay)). \<exists>payload. ob_Payload ev = Some payload
    \<and> (\<exists>!k. k \<in> set (db_kots (fst ex_relay)) \<and> kot_OrderID k = op_OrderID payload \<and> kot_TenantID k = op_TenantID payload)"
proof -
  have "map ob_EventType (od_outbox (fst ex_relay)) = [''OrderCreated'']" by code_simp
  with ex_relay_result obtain ev where ev: "od_outbox (fst ex_relay) = [ev]" "ob_Status ev = ''delivered''"
    "ob_EventType ev = ''OrderCreated''" by (auto simp: map_eq_Cons_conv)
  from delivered_orders_have_one_ticket [OF ex_relay_order_run ex_outbox_ok(1), of ev] ev show ?thesis
    by (simp add: outbox_names)
qed


text \<open>An event left in processing stays there.\<close>

abbreviation "ex_stuck \<equiv> ex_event\<lparr>ob_Status := OutboxStatusProcessing\<rparr>"

theorem settled_events_untouched_witness:
  "ex_stuck \<in> set (od_outbox (fst (outboxRelayLoop ex_oenv [Tick 6 ex_draw] (diner\<lparr>od_outbox := [ex_stuck]\<rparr>)
     :: order_db \<times> (unit + unit))))"
proof -
  let ?run = "outboxRelayLoop ex_oenv [Tick 6 ex_draw] (diner\<lparr>od_outbox := [ex_stuck]\<rparr>) :: order_db \<times> (unit + unit)"
  have run: "?run = (fst ?run, snd ?run)" unfolding prod.collapse ..
  have "relay_ok (diner\<lparr>od_outbox := [ex_stuck]\<rparr>)" by (simp add: relay_ok_def diner_def outbox_names)
  from settled_events_untouched [OF run this, of ex_stuck] show ?thesis by (simp add: outbox_names)
qed


end
