(* ===== verification/Go_Encoding.thy ===== *)
theory Go_Encoding
  imports Go_Strings
begin

text \<open>
  The encodings of the standard library the payment service uses, on strings of bytes:
  \<open>encoding/base64\<close> and \<open>encoding/hex\<close> (encoding only) and \<open>net/url.ParseQuery\<close>.
\<close>

section \<open>Base64 and hexadecimal\<close>

definition base64_digit :: "nat \<Rightarrow> char" where
  "base64_digit n = ''ABCDEFGHIJKLMNOPQRSTUVWXYZabcdefghijklmnopqrstuvwxyz0123456789+/'' ! n"

abbreviation byte :: "char \<Rightarrow> nat" where
  "byte c \<equiv> of_char c"

fun base64_Encode :: "string \<Rightarrow> string" where
  "base64_Encode (a # b # c # bs) =
     [base64_digit (byte a div 4), base64_digit (byte a mod 4 * 16 + byte b div 16),
      base64_digit (byte b mod 16 * 4 + byte c div 64), base64_digit (byte c mod 64)] @ base64_Encode bs"
| "base64_Encode [a, b] =
     [base64_digit (byte a div 4), base64_digit (byte a mod 4 * 16 + byte b div 16),
      base64_digit (byte b mod 16 * 4), CHR ''='']"
| "base64_Encode [a] = [base64_digit (byte a div 4), base64_digit (byte a mod 4 * 16), CHR ''='', CHR ''='']"
| "base64_Encode [] = []"

definition hex_digit :: "nat \<Rightarrow> char" where
  "hex_digit n = ''0123456789abcdef'' ! n"

definition hex_Encode :: "string \<Rightarrow> string" where
  "hex_Encode bs = concat (map (\<lambda>b. [hex_digit (byte b div 16), hex_digit (byte b mod 16)]) bs)"

section \<open>Query strings\<close>

definition unhex :: "char \<Rightarrow> nat option" where
  "unhex c =
     (let n = byte c
      in if 48 \<le> n \<and> n \<le> 57 then Some (n - 48)
         else if 97 \<le> n \<and> n \<le> 102 then Some (n - 87)
         else if 65 \<le> n \<and> n \<le> 70 then Some (n - 55) else None)"

text \<open>The left result is the escape that is refused, at most three bytes.\<close>

fun QueryUnescape :: "string \<Rightarrow> string + string" where
  "QueryUnescape [] = Inr []"
| "QueryUnescape (c # s) =
     (if c = CHR ''%''
      then case s of
             a # b # rest \<Rightarrow>
               (case (unhex a, unhex b) of
                  (Some x, Some y) \<Rightarrow> map_sum (\<lambda>bad. bad) (\<lambda>t. char_of (16 * x + y) # t) (QueryUnescape rest)
                | _ \<Rightarrow> Inl [c, a, b])
           | _ \<Rightarrow> Inl (c # s)
      else map_sum (\<lambda>bad. bad) (\<lambda>t. (if c = CHR ''+'' then CHR '' '' else c) # t) (QueryUnescape s))"

definition strings_Cut :: "char \<Rightarrow> string \<Rightarrow> string \<times> string" where
  "strings_Cut sep s = (takeWhile (\<lambda>c. c \<noteq> sep) s, drop 1 (dropWhile (\<lambda>c. c \<noteq> sep) s))"

lemma strings_Cut_shorter: "s \<noteq> [] \<Longrightarrow> length (snd (strings_Cut sep s)) < length s"
  by (cases s) (auto simp: strings_Cut_def less_Suc_eq_le intro: order_trans [OF diff_le_self length_dropWhile_le])

definition escape_error :: "(string \<Rightarrow> string) \<Rightarrow> string \<Rightarrow> string" where
  "escape_error quote bad = ''invalid URL escape '' @ quote bad"

text \<open>
  One parameter: the pair it adds, if any, and the error so far.  A semicolon replaces an earlier
  error, an escape only sets the first.
\<close>

definition query_param ::
    "(string \<Rightarrow> string) \<Rightarrow> string \<Rightarrow> string option \<Rightarrow> (string \<times> string) option \<times> string option" where
  "query_param quote param err =
     (if CHR '';'' \<in> set param then (None, Some ''invalid semicolon separator in query'')
      else if param = '''' then (None, err)
      else let (key, value) = strings_Cut (CHR ''='') param
           in case QueryUnescape key of
                Inl bad \<Rightarrow> (None, if err = None then Some (escape_error quote bad) else err)
              | Inr key \<Rightarrow>
                  (case QueryUnescape value of
                     Inl bad \<Rightarrow> (None, if err = None then Some (escape_error quote bad) else err)
                   | Inr value \<Rightarrow> (Some (key, value), err)))"

function parse_query ::
    "(string \<Rightarrow> string) \<Rightarrow> string \<Rightarrow> (string \<times> string) list \<Rightarrow> string option
       \<Rightarrow> (string \<times> string) list \<times> string option" where
  "parse_query quote query values err =
     (if query = '''' then (values, err)
      else let (param, rest) = strings_Cut (CHR ''&'') query;
               (pair, err) = query_param quote param err
           in parse_query quote rest (case pair of None \<Rightarrow> values | Some kv \<Rightarrow> values @ [kv]) err)"
  by pat_completeness auto
termination
proof (relation "measure (\<lambda>(quote, query, values, err). length query)", goal_cases)
  case (2 quote query vs err cut param rest)
  then have "rest = snd (strings_Cut (CHR ''&'') query)" by (metis snd_conv)
  with 2 show ?case using strings_Cut_shorter by simp
qed simp

declare parse_query.simps [simp del]

text \<open>The parameters in the order they come, so that the first of a key is found first.\<close>

definition ParseQuery :: "(string \<Rightarrow> string) \<Rightarrow> string \<Rightarrow> string + (string \<times> string) list" where
  "ParseQuery quote query =
     (case parse_query quote query [] None of (values, None) \<Rightarrow> Inr values | (_, Some err) \<Rightarrow> Inl err)"

end
