(* ===== verification/Payment_Service.thy ===== *)
theory Payment_Service
  imports Redis Machine_Tables Go_Encoding
begin

text \<open>
  The payment service of \<open>services/business/Payment.go\<close>: QR payments with the provider's callback,
  expiry, refunds, cash and card payments, and invoices.

  The provider is a package outside the repository: what it answers to a request is an argument of
  the calls that ask it, \<open>None\<close> when the service is built without one.  The random token, the
  identifiers and the clock readings are arguments too.  A goroutine runs after its handler.
\<close>

record pay_env =
  ye_uuid_String :: "uuid \<Rightarrow> string"
  ye_envelope_id :: string
  ye_Format_month :: "gotime \<Rightarrow> string"
  ye_month_start :: "gotime \<Rightarrow> gotime"
  ye_next_month_start :: "gotime \<Rightarrow> gotime"
  ye_numeric :: "nat \<Rightarrow> f64 \<Rightarrow> f64"
  ye_Quote :: "string \<Rightarrow> string"

definition PaymentMethodFonepay :: string where
  "PaymentMethodFonepay = ''fonepay''"

definition fonepayQRTTL :: int where
  "fonepayQRTTL = minutes 30"

section \<open>Rows, requests and results\<close>

record Invoice =
  ivc_InvoiceID :: uuid
  ivc_TenantID :: uuid
  ivc_RestaurantID :: uuid
  ivc_OrderID :: "uuid option"
  ivc_InvoiceNumber :: string
  ivc_InvoiceDate :: gotime
  ivc_DueDate :: "gotime option"
  ivc_Subtotal :: f64
  ivc_TaxAmount :: f64
  ivc_DiscountAmount :: f64
  ivc_TotalAmount :: f64
  ivc_Status :: string

record pay_db = db +
  pm_payments :: "PaymentRecord list"
  pm_invoices :: "Invoice list"

record PaymentServiceRequest =
  ps_TenantID :: uuid
  ps_RestaurantID :: uuid
  ps_ActorID :: uuid

record InitiateQRInput = PaymentServiceRequest +
  iq_OrderID :: "uuid option"
  iq_Amount :: f64
  iq_Description :: string
  iq_Remarks2 :: string

record HandleCallbackInput =
  cb_VerifyToken :: string
  cb_EncodedParams :: string

record RefundInput = PaymentServiceRequest +
  rf_PaymentRecordID :: uuid
  rf_ManagerApproved :: bool

record CreateCashCardInput = PaymentServiceRequest +
  cc_OrderID :: "uuid option"
  cc_Amount :: f64
  cc_PaymentMethod :: string
  cc_TransactionID :: string
  cc_PaymentDate :: gotime

record QRPaymentResult =
  qp_PaymentRecordID :: uuid
  qp_QRImageBase64 :: string
  qp_FonepayTransactionID :: string
  qp_ExpiresAt :: gotime
  qp_VerifyToken :: string
  qp_Amount :: f64

text \<open>The provider's requests and answers, as far as the service uses them.\<close>

record QRRequest =
  qr_Amount :: int
  qr_OrderID :: string
  qr_Description :: string
  qr_Remarks2 :: string

record QRResponse =
  qs_QRImageData :: string
  qs_TransactionID :: string

record VerifyResponse =
  vr_Success :: bool
  vr_Status :: string
  vr_TransactionID :: string

record fonepay_provider =
  fp_GenerateQR :: "QRRequest \<Rightarrow> string + QRResponse"
  fp_VerifyPayment :: "(string \<Rightarrow> string option) \<Rightarrow> string + VerifyResponse"

datatype payment_error =
    ErrPaymentNotFound
  | ErrPaymentTenantMismatch
  | ErrQRAlreadyPending
  | ErrInvalidVerifyToken
  | ErrPaymentNotFonepay
  | ErrPaymentInvalidFSMEvent string string "(string, string) fsm_error"
  | ErrRefundNotApproved
  | RegenerateRefused string
  | PaymentDenied rbac_error
  | PaymentWrapped string string
  | PaymentPanic

definition payment_request :: "string \<Rightarrow> 'q PaymentServiceRequest_scheme \<Rightarrow> AccessRequest" where
  "payment_request action req = service_request (ps_ActorID req) (ps_TenantID req) ResourcePayment action"

section \<open>Helpers\<close>

definition IsQRExpired :: "gotime \<Rightarrow> PaymentRecord \<Rightarrow> bool" where
  "IsQRExpired now record =
     (case pay_QRExpiresAt record of None \<Rightarrow> False | Some expiry \<Rightarrow> now > expiry)"

definition IsFonepayQR :: "PaymentRecord \<Rightarrow> bool" where
  "IsFonepayQR record \<longleftrightarrow> pay_PaymentMethod record = PaymentMethodFonepay"

definition getPaymentForWrite ::
    "uuid \<Rightarrow> uuid \<Rightarrow> ('z pay_db_scheme, payment_error, PaymentRecord) op" where
  "getPaymentForWrite tenantID paymentRecordID =
     db_First ErrPaymentNotFound (PaymentWrapped ''get payment'') pay_PaymentRecordID pm_payments
       (\<lambda>p. pay_PaymentRecordID p = paymentRecordID \<and> pay_TenantID p = tenantID)"

text \<open>The 32 bytes the system's generator returned, or its error.\<close>

definition generateSecureToken :: "string + string \<Rightarrow> ('s, payment_error, string) op" where
  "generateSecureToken random =
     (case random of
        Inl err \<Rightarrow> throw (PaymentWrapped ''generate verify token'' err)
      | Inr b \<Rightarrow> ret (hex_Encode b))"

definition pay_writeAudit ::
    "pay_env \<Rightarrow> gotime \<Rightarrow> uuid \<Rightarrow> uuid \<Rightarrow> uuid \<Rightarrow> string \<Rightarrow> uuid \<Rightarrow> ('z pay_db_scheme, 'e, unit) op" where
  "pay_writeAudit E now tenantID restaurantID actorID event entityID =
     ignore (db_write (\<lambda>err. err) (\<lambda>s. s\<lparr>db_audits := db_audits s @
       [\<lparr>aud_TenantID = tenantID, aud_UserID = (if actorID \<noteq> 0 then Some actorID else None),
         aud_RestaurantID = Some restaurantID, aud_EventType = event, aud_EventCategory = ''payment'',
         aud_Severity = AuditSeverityInfo, aud_EntityType = ''PaymentRecord'',
         aud_EntityID = ye_uuid_String E entityID, aud_Timestamp = now\<rparr>]\<rparr>))"

text \<open>The record with what the event changed in it; the caller writes it back.\<close>

definition firePaymentFSM ::
    "pay_env \<Rightarrow> gotime \<Rightarrow> PaymentRecord \<Rightarrow> string \<Rightarrow> (string \<times> string) list
       \<Rightarrow> ('s, payment_error, PaymentRecord) op" where
  "firePaymentFSM E now record event meta =
     (let env = fold (\<lambda>(k, v) env. WithMeta env k v) meta (NewEnvelope (ye_envelope_id E) now event None)
      in case fire (PaymentFSM (payment_methods (ye_uuid_String E))) record (pay_Status record) env now now of
           (record, Returned None) \<Rightarrow> ret record
         | (record, Returned (Some err)) \<Rightarrow> throw (ErrPaymentInvalidFSMEvent (pay_Status record) event err)
         | (record, Panicked) \<Rightarrow> throw PaymentPanic)"

definition update_payment ::
    "string \<Rightarrow> uuid \<Rightarrow> (PaymentRecord \<Rightarrow> PaymentRecord) \<Rightarrow> ('z pay_db_scheme, payment_error, unit) op" where
  "update_payment what paymentID f =
     db_write (PaymentWrapped what)
       (\<lambda>s. s\<lparr>pm_payments := update_rows (\<lambda>p. pay_PaymentRecordID p = paymentID) f (pm_payments s)\<rparr>)"

definition failPayment ::
    "pay_env \<Rightarrow> gotime \<Rightarrow> PaymentRecord \<Rightarrow> string \<Rightarrow> ('z pay_db_scheme, payment_error, PaymentRecord) op" where
  "failPayment E now record reason =
     bindE (firePaymentFSM E now record PaymentEventFail [(''failure_reason'', reason)]) (\<lambda>record.
       thenE (update_payment ''persist failure'' (pay_PaymentRecordID record)
                (\<lambda>p. p\<lparr>pay_Status := pay_Status record, pay_FailureReason := reason\<rparr>))
         (ret (record\<lparr>pay_FailureReason := reason\<rparr>)))"

definition insert_payment ::
    "pay_env \<Rightarrow> string \<Rightarrow> PaymentRecord \<Rightarrow> ('z pay_db_scheme, payment_error, unit) op" where
  "insert_payment E what record =
     db_insert (PaymentWrapped what)
       (\<lambda>s. pay_PaymentRecordID record \<in> pay_PaymentRecordID ` set (pm_payments s))
       (\<lambda>s. s\<lparr>pm_payments := pm_payments s @ [record\<lparr>pay_Amount := ye_numeric E 2 (pay_Amount record)\<rparr>]\<rparr>)"

section \<open>QR payments\<close>

text \<open>The identifiers and random bytes one call draws.\<close>

record pay_draw =
  yd_record :: uuid
  yd_correlation :: uuid
  yd_random :: "string + string"

definition active_qr :: "PaymentRecord \<Rightarrow> bool" where
  "active_qr p \<longleftrightarrow> pay_Status p \<in> {PaymentStatePendingQR, PaymentStateAwaitingConfirm}"

definition no_active_qr ::
    "'q InitiateQRInput_scheme \<Rightarrow> ('z pay_db_scheme, payment_error, unit) op" where
  "no_active_qr req =
     (case iq_OrderID req of
        None \<Rightarrow> ret ()
      | Some orderID \<Rightarrow>
          bindE (db_find (PaymentWrapped ''idempotency check'') pay_PaymentRecordID pm_payments
                   (\<lambda>p. pay_OrderID p = Some orderID \<and> pay_RestaurantID p = ps_RestaurantID req
                      \<and> pay_TenantID p = ps_TenantID req \<and> active_qr p)) (\<lambda>existing.
            case existing of Some p \<Rightarrow> throw ErrQRAlreadyPending | None \<Rightarrow> ret ()))"

text \<open>The provider is asked for the whole rupees of the amount.\<close>

definition qr_request :: "pay_env \<Rightarrow> uuid \<Rightarrow> 'q InitiateQRInput_scheme \<Rightarrow> QRRequest" where
  "qr_request E correlation req =
     \<lparr>qr_Amount = f_to_int (iq_Amount req), qr_OrderID = ye_uuid_String E correlation,
      qr_Description = iq_Description req, qr_Remarks2 = iq_Remarks2 req\<rparr>"

definition qr_record ::
    "gotime \<Rightarrow> uuid \<Rightarrow> string \<Rightarrow> QRResponse \<Rightarrow> 'q InitiateQRInput_scheme \<Rightarrow> PaymentRecord" where
  "qr_record now recordID token resp req =
     \<lparr>pay_PaymentRecordID = recordID, pay_TenantID = ps_TenantID req, pay_RestaurantID = ps_RestaurantID req,
      pay_OrderID = iq_OrderID req, pay_Amount = iq_Amount req, pay_PaymentMethod = PaymentMethodFonepay,
      pay_Status = PaymentStatePendingQR, pay_TransactionID = '''', pay_PaymentDate = now,
      pay_QRImageData = base64_Encode (qs_QRImageData resp), pay_QRExpiresAt = Some (now + fonepayQRTTL),
      pay_FonepayTransactionID = qs_TransactionID resp, pay_VerifyToken = token, pay_EncodedParams = '''',
      pay_FailureReason = ''''\<rparr>"

definition qr_result :: "gotime \<Rightarrow> PaymentRecord \<Rightarrow> QRPaymentResult" where
  "qr_result now record =
     \<lparr>qp_PaymentRecordID = pay_PaymentRecordID record, qp_QRImageBase64 = pay_QRImageData record,
      qp_FonepayTransactionID = pay_FonepayTransactionID record, qp_ExpiresAt = now + fonepayQRTTL,
      qp_VerifyToken = pay_VerifyToken record, qp_Amount = pay_Amount record\<rparr>"

definition initiate_qr ::
    "fonepay_provider \<Rightarrow> pay_env \<Rightarrow> gotime \<Rightarrow> pay_draw \<Rightarrow> 'q InitiateQRInput_scheme
       \<Rightarrow> ('z pay_db_scheme, payment_error, QRPaymentResult) op" where
  "initiate_qr P E now d req =
     thenE (no_active_qr req)
       (bindE (generateSecureToken (yd_random d)) (\<lambda>token.
          case fp_GenerateQR P (qr_request E (yd_correlation d) req) of
            Inl err \<Rightarrow> throw (PaymentWrapped ''fonepay GenerateQR'' err)
          | Inr resp \<Rightarrow>
              let record = qr_record now (yd_record d) token resp req
              in thenE (insert_payment E ''persist payment record'' record)
                (thenE (pay_writeAudit E now (ps_TenantID req) (ps_RestaurantID req) (ps_ActorID req)
                          AuditEventCreate (yd_record d))
                   (ret (qr_result now record)))))"

definition InitiateQRPayment ::
    "(AccessRequest \<Rightarrow> 'r \<Rightarrow> 'r \<times> rbac_error option) \<Rightarrow> fonepay_provider option \<Rightarrow> pay_env \<Rightarrow> gotime \<Rightarrow> pay_draw
       \<Rightarrow> 'q InitiateQRInput_scheme \<Rightarrow> 'r \<times> 'z pay_db_scheme
       \<Rightarrow> ('r \<times> 'z pay_db_scheme) \<times> (payment_error + QRPaymentResult)" where
  "InitiateQRPayment require provider E now d req rs =
     (case provider of
        None \<Rightarrow> (rs, Inl ErrPaymentNotFonepay)
      | Some P \<Rightarrow>
          guarded require (payment_request ActionCreate req) PaymentDenied (initiate_qr P E now d req) rs)"

definition regeneration :: "'q PaymentServiceRequest_scheme \<Rightarrow> PaymentRecord \<Rightarrow> InitiateQRInput" where
  "regeneration req old =
     \<lparr>ps_TenantID = ps_TenantID req, ps_RestaurantID = ps_RestaurantID req, ps_ActorID = ps_ActorID req,
      iq_OrderID = pay_OrderID old, iq_Amount = pay_Amount old, iq_Description = '''', iq_Remarks2 = ''''\<rparr>"

definition regenerable :: "uuid \<Rightarrow> uuid \<Rightarrow> ('z pay_db_scheme, payment_error, PaymentRecord) op" where
  "regenerable tenantID paymentRecordID =
     bindE (getPaymentForWrite tenantID paymentRecordID) (\<lambda>old.
       if \<not> IsFonepayQR old then throw ErrPaymentNotFonepay
       else if pay_Status old \<noteq> PaymentStateFailed then throw (RegenerateRefused (pay_Status old))
       else ret old)"

text \<open>The second call asks for authorization once more.\<close>

definition RegenerateQR ::
    "(AccessRequest \<Rightarrow> 'r \<Rightarrow> 'r \<times> rbac_error option) \<Rightarrow> fonepay_provider option \<Rightarrow> pay_env \<Rightarrow> gotime \<Rightarrow> pay_draw
       \<Rightarrow> 'q PaymentServiceRequest_scheme \<Rightarrow> uuid \<Rightarrow> 'r \<times> 'z pay_db_scheme
       \<Rightarrow> ('r \<times> 'z pay_db_scheme) \<times> (payment_error + QRPaymentResult)" where
  "RegenerateQR require provider E now d req paymentRecordID rs =
     (case provider of
        None \<Rightarrow> (rs, Inl ErrPaymentNotFonepay)
      | Some P \<Rightarrow>
          (case guarded require (payment_request ActionCreate req) PaymentDenied
                  (regenerable (ps_TenantID req) paymentRecordID) rs of
             (rs, Inl err) \<Rightarrow> (rs, Inl err)
           | (rs, Inr old) \<Rightarrow> InitiateQRPayment require provider E now d (regeneration req old) rs))"

section \<open>The callback\<close>

definition tryAdvanceOrderToServed ::
    "pay_env \<Rightarrow> gotime \<Rightarrow> uuid \<Rightarrow> uuid \<Rightarrow> ('z pay_db_scheme, 'e, unit) op" where
  "tryAdvanceOrderToServed E now tenantID orderID =
     ignore (bindE (db_First '''' (\<lambda>err. err) ord_OrderID db_orders
               (\<lambda>order. ord_OrderID order = orderID \<and> ord_TenantID order = tenantID)) (\<lambda>order.
       case fire (OrderFSM (order_methods (ye_uuid_String E))) order (ord_OrderStatus order)
              (NewEnvelope (ye_envelope_id E) now OrderEventServe None) now now of
         (order, Returned None) \<Rightarrow>
           db_write (\<lambda>err. err) (\<lambda>s. s\<lparr>db_orders := update_rows (\<lambda>o'. ord_OrderID o' = orderID)
             (\<lambda>o'. o'\<lparr>ord_OrderStatus := ord_OrderStatus order\<rparr>) (db_orders s)\<rparr>)
       | _ \<Rightarrow> ret ()))"

definition confirm_payment ::
    "pay_env \<Rightarrow> gotime \<Rightarrow> PaymentRecord \<Rightarrow> VerifyResponse \<Rightarrow> ('z pay_db_scheme, payment_error, PaymentRecord) op" where
  "confirm_payment E now record resp =
     bindE (firePaymentFSM E now record PaymentEventReceived []) (\<lambda>record.
       let record = record\<lparr>pay_TransactionID := vr_TransactionID resp\<rparr>
       in thenE (update_payment ''persist confirmed'' (pay_PaymentRecordID record)
                   (\<lambda>p. p\<lparr>pay_Status := pay_Status record, pay_TransactionID := vr_TransactionID resp\<rparr>))
         (thenE (pay_writeAudit E now (pay_TenantID record) (pay_RestaurantID record) 0 AuditEventUpdate
                   (pay_PaymentRecordID record))
         (thenE (case pay_OrderID record of
                   None \<Rightarrow> ret () | Some orderID \<Rightarrow> tryAdvanceOrderToServed E now (pay_TenantID record) orderID)
           (ret record))))"

definition verify_payment ::
    "fonepay_provider \<Rightarrow> pay_env \<Rightarrow> gotime \<Rightarrow> string \<Rightarrow> PaymentRecord
       \<Rightarrow> ('z pay_db_scheme, payment_error, PaymentRecord) op" where
  "verify_payment P E now params record =
     (case ParseQuery (ye_Quote E) params of
        Inl err \<Rightarrow> failPayment E now record (''invalid callback params: '' @ err)
      | Inr parsed \<Rightarrow>
          (case fp_VerifyPayment P (map_of parsed) of
             Inl err \<Rightarrow> failPayment E now record (''VerifyPayment error: '' @ err)
           | Inr resp \<Rightarrow>
               if \<not> vr_Success resp
               then failPayment E now record (''Fonepay verification failed (status: '' @ vr_Status resp @ '')'')
               else confirm_payment E now record resp))"

definition scan_payment ::
    "fonepay_provider \<Rightarrow> pay_env \<Rightarrow> gotime \<Rightarrow> string \<Rightarrow> PaymentRecord
       \<Rightarrow> ('z pay_db_scheme, payment_error, PaymentRecord) op" where
  "scan_payment P E now params record =
     bindE (firePaymentFSM E now record PaymentEventQRScanned []) (\<lambda>record.
       let record = record\<lparr>pay_EncodedParams := params\<rparr>
       in thenE (update_payment ''persist awaiting_confirm'' (pay_PaymentRecordID record)
                   (\<lambda>p. p\<lparr>pay_Status := pay_Status record, pay_EncodedParams := params\<rparr>))
            (verify_payment P E now params record))"

definition HandleFonepayCallback ::
    "fonepay_provider option \<Rightarrow> pay_env \<Rightarrow> gotime \<Rightarrow> HandleCallbackInput
       \<Rightarrow> ('z pay_db_scheme, payment_error, PaymentRecord) op" where
  "HandleFonepayCallback provider E now req =
     (case provider of
        None \<Rightarrow> throw ErrPaymentNotFonepay
      | Some P \<Rightarrow>
          bindE (db_First ErrInvalidVerifyToken (PaymentWrapped ''lookup by verify_token'') pay_PaymentRecordID
                   pm_payments (\<lambda>p. pay_VerifyToken p = cb_VerifyToken req)) (\<lambda>record.
            if pay_Status record \<noteq> PaymentStatePendingQR then ret record
            else if IsQRExpired now record
            then failPayment E now record ''QR code expired before callback received''
            else scan_payment P E now (cb_EncodedParams req) record))"

section \<open>Expiry\<close>

fun fail_all :: "pay_env \<Rightarrow> gotime \<Rightarrow> PaymentRecord list \<Rightarrow> ('z pay_db_scheme, payment_error, unit) op" where
  "fail_all E now [] = ret ()"
| "fail_all E now (record # records) =
     thenE (ignore (failPayment E now record ''QR code expired'')) (fail_all E now records)"

definition ExpireStaleQRs :: "pay_env \<Rightarrow> gotime \<Rightarrow> ('z pay_db_scheme, payment_error, unit) op" where
  "ExpireStaleQRs E now =
     bindE (db_query (PaymentWrapped ''query stale QRs'') (\<lambda>s. filter (\<lambda>p. pay_Status p = PaymentStatePendingQR
              \<and> (case pay_QRExpiresAt p of None \<Rightarrow> False | Some expiry \<Rightarrow> expiry < now)) (pm_payments s)))
       (fail_all E now)"

section \<open>Refunds, cash and card\<close>

definition refund_payment ::
    "pay_env \<Rightarrow> gotime \<Rightarrow> 'q RefundInput_scheme \<Rightarrow> ('z pay_db_scheme, payment_error, PaymentRecord) op" where
  "refund_payment E now req =
     (if \<not> rf_ManagerApproved req then throw ErrRefundNotApproved
      else bindE (getPaymentForWrite (ps_TenantID req) (rf_PaymentRecordID req)) (\<lambda>record.
        if pay_RestaurantID record \<noteq> ps_RestaurantID req then throw ErrPaymentTenantMismatch
        else bindE (firePaymentFSM E now record PaymentEventRefund [(''manager_approved'', ''true'')]) (\<lambda>record.
          thenE (update_payment ''persist refund'' (pay_PaymentRecordID record)
                   (\<lambda>p. p\<lparr>pay_Status := pay_Status record\<rparr>))
         (thenE (pay_writeAudit E now (ps_TenantID req) (ps_RestaurantID req) (ps_ActorID req) AuditEventUpdate
                   (pay_PaymentRecordID record))
           (ret record)))))"

definition RefundPayment ::
    "(AccessRequest \<Rightarrow> 'r \<Rightarrow> 'r \<times> rbac_error option) \<Rightarrow> pay_env \<Rightarrow> gotime \<Rightarrow> 'q RefundInput_scheme
       \<Rightarrow> 'r \<times> 'z pay_db_scheme \<Rightarrow> ('r \<times> 'z pay_db_scheme) \<times> (payment_error + PaymentRecord)" where
  "RefundPayment require E now req =
     guarded require (payment_request ActionUpdate req) PaymentDenied (refund_payment E now req)"

definition cash_record :: "uuid \<Rightarrow> 'q CreateCashCardInput_scheme \<Rightarrow> PaymentRecord" where
  "cash_record recordID req =
     \<lparr>pay_PaymentRecordID = recordID, pay_TenantID = ps_TenantID req, pay_RestaurantID = ps_RestaurantID req,
      pay_OrderID = cc_OrderID req, pay_Amount = cc_Amount req, pay_PaymentMethod = cc_PaymentMethod req,
      pay_Status = PaymentStateConfirmed, pay_TransactionID = cc_TransactionID req,
      pay_PaymentDate = cc_PaymentDate req, pay_QRImageData = '''', pay_QRExpiresAt = None,
      pay_FonepayTransactionID = '''', pay_VerifyToken = '''', pay_EncodedParams = '''', pay_FailureReason = ''''\<rparr>"

definition record_cash ::
    "pay_env \<Rightarrow> gotime \<Rightarrow> uuid \<Rightarrow> 'q CreateCashCardInput_scheme \<Rightarrow> ('z pay_db_scheme, payment_error, PaymentRecord) op" where
  "record_cash E now recordID req =
     thenE (insert_payment E ''persist cash/card payment'' (cash_record recordID req))
    (thenE (pay_writeAudit E now (ps_TenantID req) (ps_RestaurantID req) (ps_ActorID req) AuditEventCreate recordID)
      (ret (cash_record recordID req)))"

definition RecordCashOrCard ::
    "(AccessRequest \<Rightarrow> 'r \<Rightarrow> 'r \<times> rbac_error option) \<Rightarrow> pay_env \<Rightarrow> gotime \<Rightarrow> uuid \<Rightarrow> 'q CreateCashCardInput_scheme
       \<Rightarrow> 'r \<times> 'z pay_db_scheme \<Rightarrow> ('r \<times> 'z pay_db_scheme) \<times> (payment_error + PaymentRecord)" where
  "RecordCashOrCard require E now recordID req =
     guarded require (payment_request ActionCreate req) PaymentDenied (record_cash E now recordID req)"

definition GetPayment ::
    "(AccessRequest \<Rightarrow> 'r \<Rightarrow> 'r \<times> rbac_error option) \<Rightarrow> 'q PaymentServiceRequest_scheme \<Rightarrow> uuid
       \<Rightarrow> 'r \<times> 'z pay_db_scheme \<Rightarrow> ('r \<times> 'z pay_db_scheme) \<times> (payment_error + PaymentRecord)" where
  "GetPayment require req paymentRecordID =
     guarded require (payment_request ActionRead req) PaymentDenied
       (getPaymentForWrite (ps_TenantID req) paymentRecordID)"

section \<open>Invoices\<close>

definition generateInvoiceNumber ::
    "pay_env \<Rightarrow> gotime \<Rightarrow> uuid \<Rightarrow> gotime \<Rightarrow> ('z pay_db_scheme, 'e, string) op" where
  "generateInvoiceNumber E now tenantID t s =
     (let monthStr = ye_Format_month E t;
          seqKey = ''invoice:seq:'' @ ye_uuid_String E tenantID @ '':'' @ monthStr;
          (s, seq) =
            (case redis_Incr now seqKey s of
               (s, Inl err) \<Rightarrow>
                 (case db_query (\<lambda>err. err) (\<lambda>s. int (length (filter (\<lambda>i. ivc_TenantID i = tenantID
                          \<and> ivc_InvoiceDate i \<ge> ye_month_start E t) (pm_invoices s)))) s of
                    (s, Inl err) \<Rightarrow> (s, 0 + 1)
                  | (s, Inr count) \<Rightarrow> (s, count + 1))
             | (s, Inr seq) \<Rightarrow>
                 (if seq = 1 then fst (redis_Expire seqKey (ye_next_month_start E t + hours 48) s) else s, seq))
      in (s, Inr (''INV-'' @ monthStr @ ''-'' @ fmt_0d 6 seq)))"

definition new_invoice ::
    "uuid \<Rightarrow> string \<Rightarrow> 'q PaymentServiceRequest_scheme \<Rightarrow> uuid option \<Rightarrow> f64 \<Rightarrow> f64 \<Rightarrow> f64 \<Rightarrow> gotime \<Rightarrow> gotime option
       \<Rightarrow> Invoice" where
  "new_invoice invoiceID number req orderID subtotal taxAmount discountAmount invoiceDate dueDate =
     \<lparr>ivc_InvoiceID = invoiceID, ivc_TenantID = ps_TenantID req, ivc_RestaurantID = ps_RestaurantID req,
      ivc_OrderID = orderID, ivc_InvoiceNumber = number, ivc_InvoiceDate = invoiceDate, ivc_DueDate = dueDate,
      ivc_Subtotal = subtotal, ivc_TaxAmount = taxAmount, ivc_DiscountAmount = discountAmount,
      ivc_TotalAmount = f_sub (f_add subtotal taxAmount) discountAmount, ivc_Status = ''issued''\<rparr>"

definition invoice_row :: "pay_env \<Rightarrow> Invoice \<Rightarrow> Invoice" where
  "invoice_row E i = i\<lparr>ivc_Subtotal := ye_numeric E 2 (ivc_Subtotal i), ivc_TaxAmount := ye_numeric E 2 (ivc_TaxAmount i),
     ivc_DiscountAmount := ye_numeric E 2 (ivc_DiscountAmount i), ivc_TotalAmount := ye_numeric E 2 (ivc_TotalAmount i)\<rparr>"

definition create_invoice ::
    "pay_env \<Rightarrow> gotime \<Rightarrow> uuid \<Rightarrow> 'q PaymentServiceRequest_scheme \<Rightarrow> uuid option \<Rightarrow> f64 \<Rightarrow> f64 \<Rightarrow> f64 \<Rightarrow> gotime
       \<Rightarrow> gotime option \<Rightarrow> ('z pay_db_scheme, payment_error, Invoice) op" where
  "create_invoice E now invoiceID req orderID subtotal taxAmount discountAmount invoiceDate dueDate =
     bindE (generateInvoiceNumber E now (ps_TenantID req) invoiceDate) (\<lambda>number.
       let inv = new_invoice invoiceID number req orderID subtotal taxAmount discountAmount invoiceDate dueDate
       in thenE (db_insert (PaymentWrapped ''create invoice'')
                   (\<lambda>s. \<exists>i \<in> set (pm_invoices s). ivc_InvoiceID i = invoiceID
                      \<or> ivc_TenantID i = ps_TenantID req \<and> ivc_InvoiceNumber i = number)
                   (\<lambda>s. s\<lparr>pm_invoices := pm_invoices s @ [invoice_row E inv]\<rparr>))
            (ret inv))"

definition CreateInvoice ::
    "(AccessRequest \<Rightarrow> 'r \<Rightarrow> 'r \<times> rbac_error option) \<Rightarrow> pay_env \<Rightarrow> gotime \<Rightarrow> uuid
       \<Rightarrow> 'q PaymentServiceRequest_scheme \<Rightarrow> uuid option \<Rightarrow> f64 \<Rightarrow> f64 \<Rightarrow> f64 \<Rightarrow> gotime \<Rightarrow> gotime option
       \<Rightarrow> 'r \<times> 'z pay_db_scheme \<Rightarrow> ('r \<times> 'z pay_db_scheme) \<times> (payment_error + Invoice)" where
  "CreateInvoice require E now invoiceID req orderID subtotal taxAmount discountAmount invoiceDate dueDate =
     guarded require (payment_request ActionCreate req) PaymentDenied
       (create_invoice E now invoiceID req orderID subtotal taxAmount discountAmount invoiceDate dueDate)"

end
