(* ===== verification/Payment_Correct.thy ===== *)
theory Payment_Correct
  imports Payment_Service
begin

text \<open>
  What the payment service keeps: statuses move along the edges of the payment machine, an order has
  at most one QR in flight, and a QR payment is confirmed by a verified callback only.
\<close>

section \<open>Events on a loaded record\<close>

definition payment_moves :: "(string \<times> string) set" where
  "payment_moves = {(a, b). \<exists>e. (a, e, b) \<in> set payment_edges}"

definition payment_identity ::
    "PaymentRecord \<Rightarrow> uuid \<times> uuid \<times> uuid \<times> uuid option \<times> f64 \<times> string \<times> string \<times> gotime option" where
  "payment_identity p = (pay_PaymentRecordID p, pay_TenantID p, pay_RestaurantID p, pay_OrderID p, pay_Amount p,
     pay_PaymentMethod p, pay_VerifyToken p, pay_QRExpiresAt p)"

lemma payment_identity_fields:
  assumes "payment_identity p = payment_identity q"
  shows "pay_PaymentRecordID p = pay_PaymentRecordID q" "pay_TenantID p = pay_TenantID q"
    "pay_RestaurantID p = pay_RestaurantID q" "pay_OrderID p = pay_OrderID q" "pay_Amount p = pay_Amount q"
    "pay_PaymentMethod p = pay_PaymentMethod q" "pay_VerifyToken p = pay_VerifyToken q"
    "pay_QRExpiresAt p = pay_QRExpiresAt q"
  using assms by (simp_all add: payment_identity_def)

lemma fold_WithMeta_Event: "env_Event (fold (\<lambda>(k, v) env. WithMeta env k v) meta env) = env_Event env"
  by (induction meta arbitrary: env) (auto simp: WithMeta_def)

lemma payment_effect_identity:
  assumes "(st, env_Event env, st') \<in> set payment_edges"
  shows "payment_identity (effect_of (PaymentFSM (payment_methods us)) st env p) = payment_identity p"
proof -
  have "effect_of (PaymentFSM (payment_methods us)) st env p
      = (if st = PaymentStatePendingQR \<and> env_Event env = PaymentEventQRScanned
         then pc_SetStatus (payment_methods us) PaymentStateAwaitingConfirm p
         else if env_Event env = PaymentEventReceived then pc_SetStatus (payment_methods us) PaymentStateConfirmed p
         else if env_Event env = PaymentEventFail then fst (payment_fail_effect (payment_methods us) p env)
         else if env_Event env = PaymentEventExpire
         then pc_SetFailureReason (payment_methods us) ''QR code expired'' (pc_SetStatus (payment_methods us) PaymentStateFailed p)
         else pc_SetStatus (payment_methods us) PaymentStateRefunded p)"
    using assms payment_distinct unfolding payment_edges_def
    by (auto simp: PaymentFSM_effects)
  then show ?thesis
    by (simp add: payment_identity_def payment_methods_def payment_fail_effect_def Let_def split: option.splits)
qed

lemma fire_payment:
  assumes "fire (PaymentFSM (payment_methods us)) p (pay_Status p) env t0 t1 = (p', Returned None)"
  shows "(pay_Status p, env_Event env, pay_Status p') \<in> set payment_edges \<and> payment_identity p' = payment_identity p"
proof -
  let ?d = "PaymentFSM (payment_methods us)"
  have en: "enabled ?d p (pay_Status p) env" and p': "p' = effect_of ?d (pay_Status p) env p"
    using assms by (simp_all add: payment_fsm.fire_success_iff)
  have e: "(pay_Status p, env_Event env, target ?d (pay_Status p) (env_Event env)) \<in> set payment_edges"
    using enabled_edge [OF en] PaymentFSM_edge by metis
  have "pay_Status p' = target ?d (pay_Status p) (env_Event env)"
    by (rule stored_payment.fire_status [OF assms])
  with e payment_effect_identity [OF e, of us p] p' show ?thesis by simp
qed

lemma firePaymentFSM_cases:
  obtains err where "firePaymentFSM E now record event meta s = (s, Inl err)"
  | p where "firePaymentFSM E now record event meta s = (s, Inr p)"
      "(pay_Status record, event, pay_Status p) \<in> set payment_edges" "payment_identity p = payment_identity record"
proof -
  let ?env = "fold (\<lambda>(k, v) env. WithMeta env k v) meta (NewEnvelope (ye_envelope_id E) now event None)"
  obtain p out where f: "fire (PaymentFSM (payment_methods (ye_uuid_String E))) record (pay_Status record) ?env now now
      = (p, out)" by fastforce
  have ev: "env_Event ?env = event" by (simp add: fold_WithMeta_Event NewEnvelope_def)
  consider "out = Returned None" | err where "out = Returned (Some err)" | "out = Panicked"
    by (metis option.exhaust outcome.exhaust)
  then show thesis
  proof cases
    case 1
    show thesis
    proof (rule that(2))
      show "firePaymentFSM E now record event meta s = (s, Inr p)"
        by (simp add: firePaymentFSM_def Let_def f 1)
    qed (use fire_payment [OF f [unfolded 1]] ev in simp_all)
  next
    case 2
    show thesis
      by (rule that(1) [of "ErrPaymentInvalidFSMEvent (pay_Status p) event err"])
        (simp add: firePaymentFSM_def Let_def f 2)
  next
    case 3
    show thesis
      by (rule that(1) [of PaymentPanic]) (simp add: firePaymentFSM_def Let_def f 3)
  qed
qed

section \<open>What the building blocks do to the records\<close>

text \<open>
  The row of one payment is rewritten, its identity kept; every row it becomes satisfies \<open>Q\<close>.  Or
  nothing happened.
\<close>

definition rewritten ::
    "uuid \<Rightarrow> (PaymentRecord \<Rightarrow> bool) \<Rightarrow> PaymentRecord list \<Rightarrow> PaymentRecord list \<Rightarrow> bool" where
  "rewritten i Q rows rows' \<longleftrightarrow> rows' = rows \<or>
     (\<exists>f. rows' = update_rows (\<lambda>p. pay_PaymentRecordID p = i) f rows
        \<and> (\<forall>q. payment_identity (f q) = payment_identity q \<and> Q (f q)))"

lemma rewritten_refl [simp]: "rewritten i Q rows rows"
  by (simp add: rewritten_def)

lemma rewritten_mono: "rewritten i Q rows rows' \<Longrightarrow> (\<And>q. Q q \<Longrightarrow> Q' q) \<Longrightarrow> rewritten i Q' rows rows'"
  unfolding rewritten_def by blast

lemma rewritten_update:
  "(\<And>q. payment_identity (f q) = payment_identity q) \<Longrightarrow> (\<And>q. Q (f q))
    \<Longrightarrow> rewritten i Q rows (update_rows (\<lambda>p. pay_PaymentRecordID p = i) f rows)"
  unfolding rewritten_def by blast

lemma rewritten_trans:
  assumes "rewritten i Q a b" and "rewritten i Q b c"
  shows "rewritten i Q a c"
proof (cases "b = a \<or> c = b")
  case True
  with assms show ?thesis by auto
next
  case False
  with assms obtain f g where
    f: "b = update_rows (\<lambda>p. pay_PaymentRecordID p = i) f a" "\<forall>q. payment_identity (f q) = payment_identity q \<and> Q (f q)"
    and g: "c = update_rows (\<lambda>p. pay_PaymentRecordID p = i) g b" "\<forall>q. payment_identity (g q) = payment_identity q \<and> Q (g q)"
    by (auto simp: rewritten_def)
  have "pay_PaymentRecordID (f q) = pay_PaymentRecordID q" for q
    using f(2) payment_identity_fields(1) by blast
  then have "c = update_rows (\<lambda>p. pay_PaymentRecordID p = i) (g \<circ> f) a"
    by (auto simp: f(1) g(1) update_rows_def)
  with f(2) g(2) show ?thesis unfolding rewritten_def by (intro disjI2 exI [of _ "g \<circ> f"]) simp
qed

lemma pay_writeAudit_result:
  "pay_writeAudit E now tn rs a ev i s = (s', r) \<Longrightarrow> r = Inr () \<and> pm_payments s' = pm_payments s"
  by (cases rule: db_call_cases [of "\<lambda>err. err" s]) (auto simp: pay_writeAudit_def db_write_def)

definition same_payments :: "'z pay_db_scheme \<Rightarrow> 'z pay_db_scheme \<Rightarrow> bool" where
  "same_payments s s' \<longleftrightarrow> pm_payments s' = pm_payments s"

lemma same_payments_rules:
  "reflp same_payments" "transp same_payments" "fault_blind same_payments" "same_payments s s"
  by (auto simp: same_payments_def fault_blind_def intro: reflpI transpI)

lemma tryAdvance_same:
  fixes s :: "'z pay_db_scheme" and res :: "payment_error + unit"
  assumes "tryAdvanceOrderToServed E now tn i s = (s', res)"
  shows "res = Inr () \<and> pm_payments s' = pm_payments s"
proof -
  have "steps same_payments (tryAdvanceOrderToServed E now tn i :: ('z pay_db_scheme, payment_error, unit) op)"
    unfolding tryAdvanceOrderToServed_def
    by (intro steps_rules same_payments_rules)
      (auto simp: same_payments_def split: prod.splits outcome.splits option.splits
        intro!: steps_rules same_payments_rules)
  from stepsD [OF this assms] assms show ?thesis
    by (auto simp: same_payments_def tryAdvanceOrderToServed_def)
qed

lemma update_payment_cases:
  assumes "update_payment what i f s = (s', r)"
  obtains e where "r = Inl e" "pm_payments s' = pm_payments s"
  | "r = Inr ()" "pm_payments s' = update_rows (\<lambda>p. pay_PaymentRecordID p = i) f (pm_payments s)"
  using assms
  by (cases rule: db_call_cases [of "PaymentWrapped what" s]) (auto simp: update_payment_def db_write_def)

lemma payment_edges_sources:
  "(a, PaymentEventFail, b) \<in> set payment_edges \<Longrightarrow> b = PaymentStateFailed"
  "(a, PaymentEventReceived, b) \<in> set payment_edges \<Longrightarrow> a = PaymentStateAwaitingConfirm \<and> b = PaymentStateConfirmed"
  "(a, PaymentEventQRScanned, b) \<in> set payment_edges \<Longrightarrow> a = PaymentStatePendingQR \<and> b = PaymentStateAwaitingConfirm"
  "(a, PaymentEventRefund, b) \<in> set payment_edges \<Longrightarrow> a = PaymentStateConfirmed \<and> b = PaymentStateRefunded"
  by (auto simp: payment_edges_def state_names)

lemma failPayment_rows:
  assumes "failPayment E now record reason s = (s', r)"
  shows "rewritten (pay_PaymentRecordID record) (\<lambda>q. pay_Status q = PaymentStateFailed) (pm_payments s) (pm_payments s')"
proof (cases rule: firePaymentFSM_cases [of E now "record" PaymentEventFail "[(''failure_reason'', reason)]" s])
  case (1 err)
  with assms show ?thesis by (simp add: failPayment_def bindE_def)
next
  case (2 p)
  note st = payment_edges_sources(1) [OF 2(2)]
  let ?u = "update_payment ''persist failure'' (pay_PaymentRecordID p)
      (\<lambda>q. q\<lparr>pay_Status := pay_Status p, pay_FailureReason := reason\<rparr>)"
  obtain s1 ru where u: "?u s = (s1, ru)" by (cases "?u s")
  have "s' = s1" using assms u 2(1) by (cases ru) (auto simp: failPayment_def bindE_def thenE_def)
  with u show ?thesis
    by (cases rule: update_payment_cases [OF u])
      (auto simp: payment_identity_fields(1) [OF 2(3)] st payment_identity_def intro!: rewritten_update)
qed

text \<open>The provider confirmed the payment that the callback's parameters name.\<close>

definition verified :: "fonepay_provider option \<Rightarrow> pay_env \<Rightarrow> string \<Rightarrow> string \<Rightarrow> bool" where
  "verified provider E params transactionID \<longleftrightarrow>
     (\<exists>P parsed resp. provider = Some P \<and> ParseQuery (ye_Quote E) params = Inr parsed
        \<and> fp_VerifyPayment P (map_of parsed) = Inr resp \<and> vr_Success resp \<and> vr_TransactionID resp = transactionID)"

lemma confirm_payment_rows:
  assumes "confirm_payment E now record resp s = (s', r)"
  shows "rewritten (pay_PaymentRecordID record)
    (\<lambda>q. pay_Status q = PaymentStateConfirmed \<and> pay_TransactionID q = vr_TransactionID resp)
    (pm_payments s) (pm_payments s')"
proof (cases rule: firePaymentFSM_cases [of E now "record" PaymentEventReceived "[]" s])
  case (1 err)
  with assms show ?thesis by (simp add: confirm_payment_def bindE_def)
next
  case (2 p)
  note st = payment_edges_sources(2) [OF 2(2)]
  let ?u = "update_payment ''persist confirmed'' (pay_PaymentRecordID p)
      (\<lambda>q. q\<lparr>pay_Status := pay_Status p, pay_TransactionID := vr_TransactionID resp\<rparr>)"
  obtain s1 ru where u: "?u s = (s1, ru)" by (cases "?u s")
  have "pm_payments s' = pm_payments s1"
    using assms u 2(1) unfolding confirm_payment_def Let_def
    by (cases ru; cases r)
      (auto simp: op_iffs bindE_def thenE_def split: prod.splits sum.splits option.splits
        dest!: pay_writeAudit_result tryAdvance_same)
  with u show ?thesis
    by (cases rule: update_payment_cases [OF u])
      (auto simp: payment_identity_fields(1) [OF 2(3)] st payment_identity_def intro!: rewritten_update)
qed

abbreviation settled :: "fonepay_provider option \<Rightarrow> pay_env \<Rightarrow> string \<Rightarrow> PaymentRecord \<Rightarrow> bool" where
  "settled provider E params q \<equiv> pay_Status q = PaymentStateFailed
     \<or> pay_Status q = PaymentStateConfirmed \<and> verified provider E params (pay_TransactionID q)"

lemma verify_payment_rows:
  assumes "verify_payment P E now params record s = (s', r)"
  shows "rewritten (pay_PaymentRecordID record) (settled (Some P) E params) (pm_payments s) (pm_payments s')"
proof -
  have failed: ?thesis if "failPayment E now record reason s = (s', r)" for reason
    by (rule rewritten_mono [OF failPayment_rows [OF that]]) simp
  show ?thesis
  proof (cases "ParseQuery (ye_Quote E) params")
    case (Inl err)
    with assms have "failPayment E now record (''invalid callback params: '' @ err) s = (s', r)"
      by (simp add: verify_payment_def)
    then show ?thesis by (rule failed)
  next
    case parsed: (Inr parsed)
    show ?thesis
    proof (cases "fp_VerifyPayment P (map_of parsed)")
      case (Inl err)
      with assms parsed have "failPayment E now record (''VerifyPayment error: '' @ err) s = (s', r)"
        by (simp add: verify_payment_def)
      then show ?thesis by (rule failed)
    next
      case resp: (Inr resp)
      show ?thesis
      proof (cases "vr_Success resp")
        case False
        with assms parsed resp
        have "failPayment E now record (''Fonepay verification failed (status: '' @ vr_Status resp @ '')'') s = (s', r)"
          by (simp add: verify_payment_def)
        then show ?thesis by (rule failed)
      next
        case True
        with assms parsed resp have "confirm_payment E now record resp s = (s', r)"
          by (simp add: verify_payment_def)
        from confirm_payment_rows [OF this] show ?thesis
          by (rule rewritten_mono) (use parsed resp True in \<open>auto simp: verified_def\<close>)
      qed
    qed
  qed
qed

lemma scan_payment_rows:
  assumes "scan_payment P E now params record s = (s', r)"
  shows "rewritten (pay_PaymentRecordID record)
    (\<lambda>q. pay_Status q = PaymentStateAwaitingConfirm \<or> settled (Some P) E params q) (pm_payments s) (pm_payments s')"
proof (cases rule: firePaymentFSM_cases [of E now "record" PaymentEventQRScanned "[]" s])
  case (1 err)
  with assms show ?thesis by (simp add: scan_payment_def bindE_def)
next
  case (2 p)
  note st = payment_edges_sources(3) [OF 2(2)] and i = payment_identity_fields(1) [OF 2(3)]
  let ?u = "update_payment ''persist awaiting_confirm'' (pay_PaymentRecordID p)
      (\<lambda>q. q\<lparr>pay_Status := pay_Status p, pay_EncodedParams := params\<rparr>)"
  let ?Q = "\<lambda>q. pay_Status q = PaymentStateAwaitingConfirm \<or> settled (Some P) E params q"
  obtain s1 ru where u: "?u s = (s1, ru)" by (cases "?u s")
  have 1: "rewritten (pay_PaymentRecordID record) ?Q (pm_payments s) (pm_payments s1)"
    using u by (cases rule: update_payment_cases [OF u])
      (auto simp: i st payment_identity_def intro!: rewritten_update)
  show ?thesis
  proof (cases ru)
    case (Inl err)
    with assms u 2(1) 1 show ?thesis by (auto simp: scan_payment_def bindE_def thenE_def)
  next
    case (Inr x)
    with assms u 2(1) have "verify_payment P E now params (p\<lparr>pay_EncodedParams := params\<rparr>) s1 = (s', r)"
      by (simp add: scan_payment_def bindE_def thenE_def)
    from verify_payment_rows [OF this] have
      "rewritten (pay_PaymentRecordID record) ?Q (pm_payments s1) (pm_payments s')"
      by (auto simp: i elim: rewritten_mono)
    with 1 show ?thesis by (rule rewritten_trans)
  qed
qed

section \<open>The ledger\<close>

text \<open>
  The calls the service serves.  What the provider answers is part of a call, since it may answer
  differently the next time; \<open>None\<close> is a service built without a provider.
\<close>

datatype payment_call =
    Initiate "fonepay_provider option" gotime pay_draw InitiateQRInput
  | Regenerate "fonepay_provider option" gotime pay_draw PaymentServiceRequest uuid
  | Callback "fonepay_provider option" gotime HandleCallbackInput
  | Expire gotime
  | Refund gotime RefundInput
  | CashOrCard gotime uuid CreateCashCardInput
  | Look PaymentServiceRequest uuid
  | Bill gotime uuid PaymentServiceRequest "uuid option" f64 f64 f64 gotime "gotime option"

fun serve ::
    "(AccessRequest \<Rightarrow> 'r \<Rightarrow> 'r \<times> rbac_error option) \<Rightarrow> pay_env \<Rightarrow> payment_call \<Rightarrow> 'r \<times> 'z pay_db_scheme
       \<Rightarrow> 'r \<times> 'z pay_db_scheme" where
  "serve require E (Initiate provider now d req) rs = fst (InitiateQRPayment require provider E now d req rs)"
| "serve require E (Regenerate provider now d req i) rs = fst (RegenerateQR require provider E now d req i rs)"
| "serve require E (Callback provider now req) (r, s) = (r, fst (HandleFonepayCallback provider E now req s))"
| "serve require E (Expire now) (r, s) = (r, fst (ExpireStaleQRs E now s))"
| "serve require E (Refund now req) rs = fst (RefundPayment require E now req rs)"
| "serve require E (CashOrCard now i req) rs = fst (RecordCashOrCard require E now i req rs)"
| "serve require E (Look req i) rs = fst (GetPayment require req i rs)"
| "serve require E (Bill now i req orderID sub tax disc date due) rs
     = fst (CreateInvoice require E now i req orderID sub tax disc date due rs)"

text \<open>
  The contract: a call rewrites records its rules allow, or appends one its rules allow, or does
  nothing.  Nothing is ever deleted, and an amount never changes.
\<close>

definition in_flight :: "uuid \<Rightarrow> uuid \<Rightarrow> uuid \<Rightarrow> PaymentRecord \<Rightarrow> bool" where
  "in_flight tenantID restaurantID orderID p \<longleftrightarrow>
     pay_OrderID p = Some orderID \<and> pay_RestaurantID p = restaurantID \<and> pay_TenantID p = tenantID \<and> active_qr p"

fun ledger_move :: "pay_env \<Rightarrow> payment_call \<Rightarrow> PaymentRecord \<Rightarrow> PaymentRecord \<Rightarrow> bool" where
  "ledger_move E (Callback provider now req) p q \<longleftrightarrow>
     pay_VerifyToken p = cb_VerifyToken req \<and> pay_Status p = PaymentStatePendingQR
     \<and> (pay_Status q = PaymentStateFailed
        \<or> \<not> IsQRExpired now p \<and> (pay_Status q = PaymentStateAwaitingConfirm
            \<or> pay_Status q = PaymentStateConfirmed \<and> verified provider E (cb_EncodedParams req) (pay_TransactionID q)))"
| "ledger_move E (Expire now) p q \<longleftrightarrow>
     pay_Status p = PaymentStatePendingQR \<and> IsQRExpired now p \<and> pay_Status q = PaymentStateFailed"
| "ledger_move E (Refund now req) p q \<longleftrightarrow>
     rf_ManagerApproved req \<and> pay_PaymentRecordID p = rf_PaymentRecordID req \<and> pay_TenantID p = ps_TenantID req
     \<and> pay_RestaurantID p = ps_RestaurantID req \<and> pay_Status p = PaymentStateConfirmed
     \<and> pay_Status q = PaymentStateRefunded"
| "ledger_move E c p q \<longleftrightarrow> False"

definition fresh_qr ::
    "PaymentRecord list \<Rightarrow> 'q PaymentServiceRequest_scheme \<Rightarrow> uuid option \<Rightarrow> PaymentRecord \<Rightarrow> bool" where
  "fresh_qr rows req orderID q \<longleftrightarrow>
     pay_Status q = PaymentStatePendingQR \<and> IsFonepayQR q \<and> pay_OrderID q = orderID
     \<and> pay_TenantID q = ps_TenantID req \<and> pay_RestaurantID q = ps_RestaurantID req
     \<and> (case orderID of None \<Rightarrow> True
        | Some i \<Rightarrow> \<not> list_ex (in_flight (ps_TenantID req) (ps_RestaurantID req) i) rows)"

fun ledger_new :: "payment_call \<Rightarrow> PaymentRecord list \<Rightarrow> PaymentRecord \<Rightarrow> bool" where
  "ledger_new (Initiate provider now d req) rows q \<longleftrightarrow> provider \<noteq> None \<and> fresh_qr rows req (iq_OrderID req) q"
| "ledger_new (Regenerate provider now d req i) rows q \<longleftrightarrow>
     provider \<noteq> None \<and> list_ex (\<lambda>old. pay_PaymentRecordID old = i \<and> IsFonepayQR old
       \<and> pay_Status old = PaymentStateFailed \<and> fresh_qr rows req (pay_OrderID old) q) rows"
| "ledger_new (CashOrCard now i req) rows q \<longleftrightarrow>
     pay_Status q = PaymentStateConfirmed \<and> pay_PaymentMethod q = cc_PaymentMethod req
     \<and> pay_OrderID q = cc_OrderID req"
| "ledger_new c rows q \<longleftrightarrow> False"

definition rows_moved ::
    "(PaymentRecord \<Rightarrow> PaymentRecord \<Rightarrow> bool) \<Rightarrow> PaymentRecord list \<Rightarrow> PaymentRecord list \<Rightarrow> bool" where
  "rows_moved M = list_all2 (\<lambda>a b. b = a \<or> payment_identity b = payment_identity a \<and> M a b)"

definition ledger_step :: "pay_env \<Rightarrow> payment_call \<Rightarrow> PaymentRecord list \<Rightarrow> PaymentRecord list \<Rightarrow> bool" where
  "ledger_step E c rows rows' \<longleftrightarrow> rows_moved (ledger_move E c) rows rows'
     \<or> (\<exists>q. rows' = rows @ [q] \<and> pay_PaymentRecordID q \<notin> pay_PaymentRecordID ` set rows \<and> ledger_new c rows q)"

lemma rows_moved_refl [simp]: "rows_moved M rows rows"
  by (simp add: rows_moved_def list_all2_refl)

lemma ledger_step_refl [simp]: "ledger_step E c rows rows"
  by (simp add: ledger_step_def)

lemma rows_moved_keys:
  assumes "rows_moved M rows rows'"
  shows "map pay_PaymentRecordID rows' = map pay_PaymentRecordID rows"
  using assms unfolding rows_moved_def
  by (induction rule: list_all2_induct) (auto dest: payment_identity_fields(1))

lemma rows_moved_trans:
  assumes "rows_moved M a b" and "rows_moved M b c" and "\<And>p q r. M p q \<Longrightarrow> M q r \<Longrightarrow> M p r"
  shows "rows_moved M a c"
  unfolding rows_moved_def
proof (rule list_all2_trans [OF _ assms(1,2) [unfolded rows_moved_def]])
  fix p q r
  assume "q = p \<or> payment_identity q = payment_identity p \<and> M p q"
    and "r = q \<or> payment_identity r = payment_identity q \<and> M q r"
  then show "r = p \<or> payment_identity r = payment_identity p \<and> M p r"
    using assms(3) [of p q r] by auto
qed

lemma rewritten_moved:
  assumes "rewritten (pay_PaymentRecordID p) Q rows rows'" and "p \<in> set rows"
    and "distinct (map pay_PaymentRecordID rows)"
    and "\<And>q. Q q \<Longrightarrow> payment_identity q = payment_identity p \<Longrightarrow> M p q"
  shows "rows_moved M rows rows'"
proof (cases "rows' = rows")
  case False
  with assms(1) obtain f where
    f: "rows' = update_rows (\<lambda>q. pay_PaymentRecordID q = pay_PaymentRecordID p) f rows"
      "\<forall>q. payment_identity (f q) = payment_identity q \<and> Q (f q)" by (auto simp: rewritten_def)
  have "a = p" if "a \<in> set rows" "pay_PaymentRecordID a = pay_PaymentRecordID p" for a
    using that assms(2,3) by (auto simp: distinct_map inj_on_def)
  with f assms(4) show ?thesis
    unfolding rows_moved_def update_rows_def by (auto simp: list_all2_map2 intro!: list_all2_same [THEN iffD2])
qed simp

section \<open>Each call keeps the contract\<close>

lemma no_active_qr_result:
  assumes "no_active_qr req s = (s', r)"
  shows "pm_payments s' = pm_payments s \<and> (r = Inr () \<longrightarrow>
    (case iq_OrderID req of None \<Rightarrow> True
     | Some i \<Rightarrow> \<not> list_ex (in_flight (ps_TenantID req) (ps_RestaurantID req) i) (pm_payments s)))"
proof (cases "iq_OrderID req")
  case None
  with assms show ?thesis by (simp add: no_active_qr_def)
next
  case (Some i)
  let ?P = "\<lambda>p. pay_OrderID p = Some i \<and> pay_RestaurantID p = ps_RestaurantID req
    \<and> pay_TenantID p = ps_TenantID req \<and> active_qr p"
  let ?find = "db_find (PaymentWrapped ''idempotency check'') pay_PaymentRecordID pm_payments ?P"
  obtain s1 r1 where f: "?find s = (s1, r1)" by (cases "?find s")
  show ?thesis
  proof (cases r1)
    case (Inl e)
    with assms f show ?thesis by (auto simp: no_active_qr_def Some dest!: db_find_InlD)
  next
    case (Inr found)
    from db_find_InrD [OF f [unfolded Inr]] have "pm_payments s1 = pm_payments s"
      "found = None \<longleftrightarrow> \<not> (\<exists>p \<in> set (pm_payments s). ?P p)" by auto
    with assms f Inr show ?thesis
      by (cases found) (auto simp: no_active_qr_def Some list_ex_iff in_flight_def)
  qed
qed

lemma insert_payment_cases:
  assumes "insert_payment E what q s = (s', r)"
  shows "pm_payments s' = pm_payments s
    \<or> pay_PaymentRecordID q \<notin> pay_PaymentRecordID ` set (pm_payments s)
      \<and> pm_payments s' = pm_payments s @ [q\<lparr>pay_Amount := ye_numeric E 2 (pay_Amount q)\<rparr>]"
  using assms
  by (cases rule: db_call_cases [of "PaymentWrapped what" s])
    (auto simp: insert_payment_def db_insert_def split: if_splits)

lemma initiate_qr_rows:
  assumes "initiate_qr P E now d req s = (s', r)"
  shows "pm_payments s' = pm_payments s \<or> (\<exists>q. pm_payments s' = pm_payments s @ [q]
    \<and> pay_PaymentRecordID q \<notin> pay_PaymentRecordID ` set (pm_payments s)
    \<and> fresh_qr (pm_payments s) req (iq_OrderID req) q)"
proof -
  let ?check = "no_active_qr req :: ('a pay_db_scheme, payment_error, unit) op"
  obtain s1 r1 where c: "?check s = (s1, r1)" by (cases "?check s")
  note no = no_active_qr_result [OF c]
  show ?thesis
  proof (cases r1)
    case (Inl e)
    with assms c no show ?thesis by (simp add: initiate_qr_def thenE_def)
  next
    case (Inr x)
    show ?thesis
    proof (cases "\<exists>b resp. yd_random d = Inr b \<and> fp_GenerateQR P (qr_request E (yd_correlation d) req) = Inr resp")
      case False
      with assms c no Inr show ?thesis
        by (auto simp: initiate_qr_def thenE_def bindE_def generateSecureToken_def split: sum.splits)
    next
      case True
      then obtain b resp where b: "yd_random d = Inr b"
        and g: "fp_GenerateQR P (qr_request E (yd_correlation d) req) = Inr resp" by blast
      let ?q = "qr_record now (yd_record d) (hex_Encode b) resp req"
      let ?ins = "insert_payment E ''persist payment record'' ?q :: ('a pay_db_scheme, payment_error, unit) op"
      obtain s2 r2 where i: "?ins s1 = (s2, r2)" by (cases "?ins s1")
      have "pm_payments s' = pm_payments s2"
        using assms c Inr b g i
        by (cases r2)
          (auto simp: initiate_qr_def thenE_def bindE_def generateSecureToken_def Let_def split: prod.splits sum.splits
            dest!: pay_writeAudit_result)
      with insert_payment_cases [OF i] no Inr show ?thesis
        by (auto simp: qr_record_def fresh_qr_def IsFonepayQR_def split: option.splits)
    qed
  qed
qed

lemma guarded_rows:
  assumes "\<And>s s' r. operation s = (s', r) \<Longrightarrow> Q (pm_payments s) (pm_payments s')" and "\<And>rows. Q rows rows"
  shows "Q (pm_payments s) (pm_payments (snd (fst (guarded require req wrap operation (r, s)))))"
proof (cases "require req r")
  case (Pair r' err)
  obtain s' res where "operation s = (s', res)" by (cases "operation s")
  with assms Pair show ?thesis by (cases err) (auto simp: guarded_def)
qed

text \<open>The handlers' bodies, in the order of the calls.\<close>

lemma InitiateQRPayment_rows:
  "ledger_step E (Initiate provider now d req) (pm_payments s)
     (pm_payments (snd (fst (InitiateQRPayment require provider E now d req (r, s)))))"
proof (cases provider)
  case None
  then show ?thesis by (simp add: InitiateQRPayment_def)
next
  case (Some P)
  show ?thesis
    unfolding InitiateQRPayment_def Some option.case
    by (rule guarded_rows [where Q = "ledger_step E (Initiate (Some P) now d req)"])
      (auto simp: ledger_step_def dest!: initiate_qr_rows)
qed

lemma regenerable_result:
  assumes "regenerable tenantID i s = (s', r)"
  shows "pm_payments s' = pm_payments s \<and> (\<forall>old. r = Inr old \<longrightarrow> old \<in> set (pm_payments s)
    \<and> pay_PaymentRecordID old = i \<and> IsFonepayQR old \<and> pay_Status old = PaymentStateFailed)"
proof -
  let ?get = "getPaymentForWrite tenantID i :: ('a pay_db_scheme, payment_error, PaymentRecord) op"
  obtain s1 r1 where g: "?get s = (s1, r1)" by (cases "?get s")
  show ?thesis
  proof (cases r1)
    case (Inl e)
    with assms g show ?thesis by (auto simp: regenerable_def getPaymentForWrite_def dest!: db_First_InlD)
  next
    case (Inr old)
    with assms g show ?thesis
      by (auto simp: regenerable_def getPaymentForWrite_def dest!: db_First_InrD split: if_splits)
  qed
qed

lemma fresh_regeneration [simp]:
  "fresh_qr rows (regeneration req old) orderID q \<longleftrightarrow> fresh_qr rows req orderID q"
  "iq_OrderID (regeneration req old) = pay_OrderID old"
proof -
  have "ps_TenantID (regeneration req old) = ps_TenantID req" "ps_RestaurantID (regeneration req old) = ps_RestaurantID req"
    by (simp_all add: regeneration_def)
  then show "fresh_qr rows (regeneration req old) orderID q \<longleftrightarrow> fresh_qr rows req orderID q"
    by (simp add: fresh_qr_def split: option.split)
qed (simp add: regeneration_def)

lemma RegenerateQR_rows:
  "ledger_step E (Regenerate provider now d req i) (pm_payments s)
     (pm_payments (snd (fst (RegenerateQR require provider E now d req i (r, s)))))"
proof (cases provider)
  case None
  then show ?thesis by (simp add: RegenerateQR_def)
next
  case (Some P)
  let ?g = "guarded require (payment_request ActionCreate req) PaymentDenied
      (regenerable (ps_TenantID req) i :: ('a pay_db_scheme, payment_error, PaymentRecord) op)"
  obtain r1 s1 res where g: "?g (r, s) = ((r1, s1), res)" by (metis surj_pair)
  show ?thesis
  proof (cases res)
    case (Inl e)
    have "pm_payments s1 = pm_payments s"
      using g Inl by (auto simp: guarded_Inl dest!: regenerable_result)
    then show ?thesis using g Inl by (simp add: RegenerateQR_def Some)
  next
    case (Inr old)
    from g Inr have "regenerable (ps_TenantID req) i s = (s1, Inr old)" by (simp add: guarded_Inr)
    from regenerable_result [OF this] have old: "pm_payments s1 = pm_payments s" "old \<in> set (pm_payments s)"
      "pay_PaymentRecordID old = i" "IsFonepayQR old" "pay_Status old = PaymentStateFailed" by auto
    have "RegenerateQR require provider E now d req i (r, s)
        = InitiateQRPayment require (Some P) E now d (regeneration req old) (r1, s1)"
      using g Inr by (simp add: RegenerateQR_def Some)
    with InitiateQRPayment_rows [of E "Some P" now d "regeneration req old" s1 require r1]
    have "ledger_step E (Initiate (Some P) now d (regeneration req old)) (pm_payments s)
        (pm_payments (snd (fst (RegenerateQR require provider E now d req i (r, s)))))" by (simp add: old)
    then show ?thesis unfolding ledger_step_def
    proof (elim disjE exE conjE)
      fix q assume "pm_payments (snd (fst (RegenerateQR require provider E now d req i (r, s)))) = pm_payments s @ [q]"
        and "pay_PaymentRecordID q \<notin> pay_PaymentRecordID ` set (pm_payments s)"
        and "ledger_new (Initiate (Some P) now d (regeneration req old)) (pm_payments s) q"
      with old Some show "rows_moved (ledger_move E (Regenerate provider now d req i)) (pm_payments s)
          (pm_payments (snd (fst (RegenerateQR require provider E now d req i (r, s)))))
        \<or> (\<exists>q. pm_payments (snd (fst (RegenerateQR require provider E now d req i (r, s)))) = pm_payments s @ [q]
          \<and> pay_PaymentRecordID q \<notin> pay_PaymentRecordID ` set (pm_payments s)
          \<and> ledger_new (Regenerate provider now d req i) (pm_payments s) q)"
        by (intro disjI2 exI [of _ q]) (auto simp: list_ex_iff)
    qed (simp add: rows_moved_def)
  qed
qed

lemma HandleFonepayCallback_rows:
  assumes "HandleFonepayCallback provider E now req s = (s', r)"
    and "distinct (map pay_PaymentRecordID (pm_payments s))"
  shows "rows_moved (ledger_move E (Callback provider now req)) (pm_payments s) (pm_payments s')"
proof (cases provider)
  case None
  with assms(1) show ?thesis by (simp add: HandleFonepayCallback_def)
next
  case (Some P)
  let ?get = "db_First ErrInvalidVerifyToken (PaymentWrapped ''lookup by verify_token'') pay_PaymentRecordID
    pm_payments (\<lambda>p. pay_VerifyToken p = cb_VerifyToken req) :: ('a pay_db_scheme, payment_error, PaymentRecord) op"
  obtain s1 r1 where g: "?get s = (s1, r1)" by (cases "?get s")
  show ?thesis
  proof (cases r1)
    case (Inl e)
    with assms(1) g Some show ?thesis by (auto simp: HandleFonepayCallback_def dest!: db_First_InlD)
  next
    case (Inr p)
    from db_First_InrD [OF g [unfolded Inr]] have p: "p \<in> set (pm_payments s)" "pay_VerifyToken p = cb_VerifyToken req"
      and s1: "pm_payments s1 = pm_payments s" by auto
    note move = rewritten_moved [OF _ p(1) assms(2)]
    consider "pay_Status p \<noteq> PaymentStatePendingQR" | "pay_Status p = PaymentStatePendingQR" "IsQRExpired now p"
      | "pay_Status p = PaymentStatePendingQR" "\<not> IsQRExpired now p" by blast
    then show ?thesis
    proof cases
      case 1
      with assms(1) g Inr Some s1 show ?thesis by (simp add: HandleFonepayCallback_def)
    next
      case 2
      with assms(1) g Inr Some have "failPayment E now p ''QR code expired before callback received'' s1 = (s', r)"
        by (simp add: HandleFonepayCallback_def)
      from failPayment_rows [OF this] 2 p s1 show ?thesis by (auto intro: move)
    next
      case 3
      with assms(1) g Inr Some have "scan_payment P E now (cb_EncodedParams req) p s1 = (s', r)"
        by (simp add: HandleFonepayCallback_def)
      from scan_payment_rows [OF this] 3 p s1 Some show ?thesis by (auto intro: move)
    qed
  qed
qed

text \<open>The expiry job works on the records it read first; their rows are distinct.\<close>

lemma fail_all_rows:
  assumes "fail_all E now records s = (s', r)"
    and "distinct (map pay_PaymentRecordID records)" and "set records \<subseteq> set (pm_payments s)"
    and "distinct (map pay_PaymentRecordID (pm_payments s))"
    and "\<forall>p \<in> set records. pay_Status p = PaymentStatePendingQR \<and> IsQRExpired now p"
  shows "rows_moved (ledger_move E (Expire now)) (pm_payments s) (pm_payments s')"
  using assms
proof (induction records arbitrary: s)
  case Nil
  then show ?case by simp
next
  case (Cons p records)
  let ?M = "ledger_move E (Expire now)"
  obtain s1 r1 where f: "failPayment E now p ''QR code expired'' s = (s1, r1)"
    by (cases "failPayment E now p ''QR code expired'' s")
  have rest: "fail_all E now records s1 = (s', r)" using Cons.prems(1) f by (simp add: thenE_def)
  note rw = failPayment_rows [OF f]
  have first: "rows_moved ?M (pm_payments s) (pm_payments s1)"
    by (rule rewritten_moved [OF rw]) (use Cons.prems in auto)
  have "q \<in> set (pm_payments s1)" if "q \<in> set records" for q
  proof -
    have "q \<in> set (pm_payments s)" "pay_PaymentRecordID q \<noteq> pay_PaymentRecordID p"
      using that Cons.prems(2,3) by (auto simp: image_iff)
    then show ?thesis using rw by (auto simp: rewritten_def update_rows_set)
  qed
  moreover have "distinct (map pay_PaymentRecordID (pm_payments s1))"
    using rows_moved_keys [OF first] Cons.prems(4) by simp
  ultimately have "rows_moved ?M (pm_payments s1) (pm_payments s')"
    using Cons.prems by (intro Cons.IH [OF rest]) auto
  with first show ?case by (rule rows_moved_trans) (simp add: state_names)
qed

lemma ExpireStaleQRs_rows:
  assumes "ExpireStaleQRs E now s = (s', r)"
    and "distinct (map pay_PaymentRecordID (pm_payments s))"
  shows "rows_moved (ledger_move E (Expire now)) (pm_payments s) (pm_payments s')"
proof (cases rule: db_call_cases [of "PaymentWrapped ''query stale QRs''" s])
  case (1 fs)
  let ?stale = "filter (\<lambda>p. pay_Status p = PaymentStatePendingQR
    \<and> (case pay_QRExpiresAt p of None \<Rightarrow> False | Some expiry \<Rightarrow> expiry < now)) (pm_payments s)"
  have "fail_all E now ?stale (s\<lparr>faults := fs\<rparr>) = (s', r)"
    using assms(1) 1 by (simp add: ExpireStaleQRs_def db_query_def)
  then have "rows_moved (ledger_move E (Expire now)) (pm_payments (s\<lparr>faults := fs\<rparr>)) (pm_payments s')"
    by (rule fail_all_rows [OF _ distinct_map_filter [OF assms(2)]])
      (simp_all add: assms(2) IsQRExpired_def subset_iff)
  moreover have "pm_payments (s\<lparr>faults := fs\<rparr>) = pm_payments s" by simp
  ultimately show ?thesis by (simp only:)
next
  case (2 fs err)
  with assms(1) show ?thesis by (auto simp: ExpireStaleQRs_def db_query_def)
qed

lemma refund_payment_rows:
  assumes "refund_payment E now req s = (s', r)"
    and "distinct (map pay_PaymentRecordID (pm_payments s))"
  shows "rows_moved (ledger_move E (Refund now req)) (pm_payments s) (pm_payments s')"
proof -
  let ?get = "getPaymentForWrite (ps_TenantID req) (rf_PaymentRecordID req)
    :: ('a pay_db_scheme, payment_error, PaymentRecord) op"
  obtain s1 r1 where g: "?get s = (s1, r1)" by (cases "?get s")
  show ?thesis
  proof (cases "rf_ManagerApproved req \<and> (\<exists>p. r1 = Inr p \<and> pay_RestaurantID p = ps_RestaurantID req)")
    case False
    with assms(1) g show ?thesis
      by (cases r1) (auto simp: refund_payment_def getPaymentForWrite_def dest!: db_First_InlD db_First_InrD split: if_splits)
  next
    case True
    then obtain p where r1: "r1 = Inr p" and req: "rf_ManagerApproved req" "pay_RestaurantID p = ps_RestaurantID req" by blast
    from db_First_InrD [OF g [unfolded getPaymentForWrite_def r1]] have s1: "pm_payments s1 = pm_payments s"
      and p: "p \<in> set (pm_payments s)" "pay_PaymentRecordID p = rf_PaymentRecordID req" "pay_TenantID p = ps_TenantID req"
      by auto
    show ?thesis
    proof (cases rule: firePaymentFSM_cases [of E now p PaymentEventRefund "[(''manager_approved'', ''true'')]" s1])
      case (1 err)
      with assms(1) g r1 req s1 show ?thesis by (simp add: refund_payment_def bindE_def)
    next
      case (2 q)
      note st = payment_edges_sources(4) [OF 2(2)] and i = payment_identity_fields(1) [OF 2(3)]
      let ?u = "update_payment ''persist refund'' (pay_PaymentRecordID q) (\<lambda>x. x\<lparr>pay_Status := pay_Status q\<rparr>)
        :: ('a pay_db_scheme, payment_error, unit) op"
      obtain s2 r2 where u: "?u s1 = (s2, r2)" by (cases "?u s1")
      have "pm_payments s' = pm_payments s2"
        using assms(1) g r1 req 2(1) u
        by (cases r2)
          (auto simp: refund_payment_def thenE_def bindE_def split: prod.splits sum.splits dest!: pay_writeAudit_result)
      moreover have "rewritten (pay_PaymentRecordID p) (\<lambda>x. pay_Status x = PaymentStateRefunded) (pm_payments s) (pm_payments s2)"
        using u by (cases rule: update_payment_cases [OF u])
          (auto simp: i st s1 payment_identity_def intro!: rewritten_update)
      ultimately show ?thesis
        using p st req by (auto intro: rewritten_moved [OF _ p(1) assms(2)])
    qed
  qed
qed

lemma record_cash_rows:
  assumes "record_cash E now i req s = (s', r)"
  shows "ledger_step E (CashOrCard now i req) (pm_payments s) (pm_payments s')"
proof -
  let ?ins = "insert_payment E ''persist cash/card payment'' (cash_record i req)
    :: ('a pay_db_scheme, payment_error, unit) op"
  obtain s1 r1 where u: "?ins s = (s1, r1)" by (cases "?ins s")
  have "pm_payments s' = pm_payments s1"
    using assms u
    by (cases r1) (auto simp: record_cash_def thenE_def bindE_def split: prod.splits sum.splits dest!: pay_writeAudit_result)
  with insert_payment_cases [OF u] show ?thesis by (auto simp: ledger_step_def cash_record_def)
qed

lemma generateInvoiceNumber_same:
  fixes s :: "'z pay_db_scheme"
  assumes "generateInvoiceNumber E now tn t s = (s', r)"
  shows "pm_payments s' = pm_payments s"
proof -
  have call: "pm_payments (fst (redis_call x)) = pm_payments x" for x :: "'z pay_db_scheme"
    by (cases rule: redis_call_cases [of x]) simp
  have incr: "redis_Incr t' k x = (y, z) \<Longrightarrow> pm_payments y = pm_payments x" for t' k z and x y :: "'z pay_db_scheme"
    using call [of x] by (cases "redis_call x"; cases "snd (redis_call x)")
      (auto simp: redis_Incr_def split: prod.splits)
  have expire: "pm_payments (fst (redis_Expire k t' x)) = pm_payments x" for t' k and x :: "'z pay_db_scheme"
    using call [of x] by (cases "redis_call x"; cases "snd (redis_call x)")
      (auto simp: redis_Expire_def split: prod.splits option.splits)
  have query: "db_query w sel x = (y, z) \<Longrightarrow> pm_payments y = pm_payments x"
    for w :: "string \<Rightarrow> string" and sel :: "'z pay_db_scheme \<Rightarrow> int" and z and x y :: "'z pay_db_scheme"
    by (cases rule: db_call_cases [of w x]) (auto simp: db_query_def)
  show ?thesis
    using assms unfolding generateInvoiceNumber_def Let_def
    by (auto split: prod.splits sum.splits if_splits simp: expire dest!: incr query)
qed

lemma create_invoice_same:
  assumes "create_invoice E now i req orderID sub tax disc date due s = (s', r)"
  shows "pm_payments s' = pm_payments s"
proof -
  obtain s1 r1 where g: "(generateInvoiceNumber E now (ps_TenantID req) date
      :: ('a pay_db_scheme, payment_error, string) op) s = (s1, r1)" by fastforce
  note same = generateInvoiceNumber_same [OF g]
  show ?thesis
  proof (cases r1)
    case (Inl e)
    with assms g same show ?thesis by (simp add: create_invoice_def)
  next
    case (Inr n)
    with assms g same show ?thesis
      by (cases rule: db_call_cases [of "PaymentWrapped ''create invoice''" s1])
        (auto simp: create_invoice_def thenE_def bindE_def db_insert_def Let_def split: if_splits)
  qed
qed

abbreviation payments_keyed :: "'r \<times> 'z pay_db_scheme \<Rightarrow> bool" where
  "payments_keyed st \<equiv> distinct (map pay_PaymentRecordID (pm_payments (snd st)))"

lemma serve_ledger:
  fixes st :: "'r \<times> 'z pay_db_scheme"
  assumes "payments_keyed st"
  shows "ledger_step E c (pm_payments (snd st)) (pm_payments (snd (serve require E c st)))"
proof (cases st)
  case (Pair r s)
  have moved: "rows_moved M (pm_payments s) (pm_payments (snd (fst (guarded require rq wrap operation (r, s)))))"
    if "\<And>s' res. operation s = (s', res) \<Longrightarrow> rows_moved M (pm_payments s) (pm_payments s')"
    for M rq and wrap :: "rbac_error \<Rightarrow> payment_error" and operation :: "('z pay_db_scheme, payment_error, PaymentRecord) op"
    using that by (cases "require rq r"; cases "snd (require rq r)"; cases "operation s") (auto simp: guarded_def)
  have s: "distinct (map pay_PaymentRecordID (pm_payments s))" using assms Pair by simp
  show ?thesis
  proof (cases c)
    case (Initiate provider now d req)
    then show ?thesis using InitiateQRPayment_rows Pair by simp
  next
    case (Regenerate provider now d req i)
    then show ?thesis using RegenerateQR_rows Pair by simp
  next
    case (Callback provider now req)
    then show ?thesis
      using HandleFonepayCallback_rows [OF prod.collapse [symmetric] s] Pair by (simp add: ledger_step_def)
  next
    case (Expire now)
    then show ?thesis
      using ExpireStaleQRs_rows [OF prod.collapse [symmetric] s] Pair by (simp add: ledger_step_def)
  next
    case (Refund now req)
    then show ?thesis
      using moved [of "refund_payment E now req"] refund_payment_rows [OF _ s] Pair
      by (simp add: ledger_step_def RefundPayment_def)
  next
    case (CashOrCard now i req)
    have "ledger_step E c (pm_payments s) (pm_payments (snd (fst (RecordCashOrCard require E now i req (r, s)))))"
      unfolding RecordCashOrCard_def CashOrCard
      by (rule guarded_rows [where Q = "ledger_step E (CashOrCard now i req)"]) (simp_all add: record_cash_rows)
    then show ?thesis using CashOrCard Pair by simp
  next
    case (Look req i)
    have "pm_payments s' = pm_payments s" if "getPaymentForWrite (ps_TenantID req) i s = (s', res)"
      for s s' :: "'z pay_db_scheme" and res
      using that by (cases res) (auto simp: getPaymentForWrite_def dest!: db_First_InlD db_First_InrD)
    then have "pm_payments (snd (fst (GetPayment require req i (r, s)))) = pm_payments s"
      unfolding GetPayment_def by (intro guarded_rows [where Q = "\<lambda>a b. b = a"]) auto
    then show ?thesis using Look Pair by simp
  next
    case (Bill now i req orderID sub tax disc date due)
    have "pm_payments (snd (fst (CreateInvoice require E now i req orderID sub tax disc date due (r, s)))) = pm_payments s"
      unfolding CreateInvoice_def by (rule guarded_rows [where Q = "\<lambda>a b. b = a"]) (auto dest: create_invoice_same)
    then show ?thesis using Bill Pair by simp
  qed
qed

lemma ledger_step_keys:
  assumes "ledger_step E c rows rows'" and "distinct (map pay_PaymentRecordID rows)"
  shows "distinct (map pay_PaymentRecordID rows')"
  using assms rows_moved_keys by (auto simp: ledger_step_def)

text \<open>Any sequence of calls, by any callers.\<close>

definition serve_all ::
    "(AccessRequest \<Rightarrow> 'r \<Rightarrow> 'r \<times> rbac_error option) \<Rightarrow> pay_env \<Rightarrow> payment_call list \<Rightarrow> 'r \<times> 'z pay_db_scheme
       \<Rightarrow> 'r \<times> 'z pay_db_scheme" where
  "serve_all require E calls st = fold (serve require E) calls st"

lemma serve_all_induct:
  assumes "payments_keyed st" and "Q (pm_payments (snd st))"
    and "\<And>c rows rows'. ledger_step E c rows rows' \<Longrightarrow> distinct (map pay_PaymentRecordID rows) \<Longrightarrow> Q rows \<Longrightarrow> Q rows'"
  shows "payments_keyed (serve_all require E calls st) \<and> Q (pm_payments (snd (serve_all require E calls st)))"
  using assms(1,2) unfolding serve_all_def
proof (induction calls arbitrary: st)
  case Nil
  then show ?case by simp
next
  case (Cons c calls)
  note step = serve_ledger [OF Cons.prems(1), of E c require]
  from Cons.IH [of "serve require E c st"] ledger_step_keys [OF step Cons.prems(1)] assms(3) [OF step Cons.prems]
  show ?case by simp
qed

section \<open>What follows from the contract\<close>

text \<open>
  C8: Every call of the payment service, in any state and with any database faults, is a step of the
  ledger's contract: it rewrites records along the edges it may, for the reasons it may, or appends
  one record its request allows, or leaves the ledger alone; identifiers stay distinct.
\<close>

theorem payment_service_refines_ledger:
  assumes "payments_keyed st"
  shows "ledger_step E c (pm_payments (snd st)) (pm_payments (snd (serve require E c st)))
    \<and> payments_keyed (serve require E c st)"
  using serve_ledger [OF assms] ledger_step_keys [OF serve_ledger [OF assms] assms] by blast

lemma ledger_move_edge:
  assumes "ledger_move E c p q"
  shows "(pay_Status p, pay_Status q) \<in> payment_moves\<^sup>*"
proof -
  have e: "(a, b) \<in> payment_moves" if "(a, ev, b) \<in> set payment_edges" for a ev b
    using that unfolding payment_moves_def by blast
  have "(PaymentStatePendingQR, PaymentStateAwaitingConfirm) \<in> payment_moves"
    "(PaymentStateAwaitingConfirm, PaymentStateConfirmed) \<in> payment_moves"
    "(PaymentStatePendingQR, PaymentStateFailed) \<in> payment_moves"
    "(PaymentStateConfirmed, PaymentStateRefunded) \<in> payment_moves"
    by (rule e [of _ PaymentEventQRScanned] e [of _ PaymentEventReceived] e [of _ PaymentEventExpire]
          e [of _ PaymentEventRefund], simp add: payment_edges_def)+
  with assms show ?thesis
    by (cases c) (auto intro: rtrancl_trans r_into_rtrancl)
qed

lemma rows_moved_follow:
  assumes "rows_moved (ledger_move E c) rows rows'"
  shows "list_all2 (row_follows payment_identity pay_Status payment_moves) rows rows'"
  using assms unfolding rows_moved_def
  by (rule list_all2_mono) (auto simp: row_follows_def intro: ledger_move_edge)

definition rows_kept :: "PaymentRecord list \<Rightarrow> PaymentRecord list \<Rightarrow> bool" where
  "rows_kept rows rows' \<longleftrightarrow> list_all2 (row_follows payment_identity pay_Status payment_moves) rows (take (length rows) rows')"

lemma rows_kept_step:
  assumes "rows_kept rows0 rows" and "ledger_step E c rows rows'"
  shows "rows_kept rows0 rows'"
proof -
  let ?f = "row_follows payment_identity pay_Status payment_moves"
  have len: "length rows0 \<le> length rows"
    using list_all2_lengthD [OF assms(1) [unfolded rows_kept_def]] by simp
  have "list_all2 ?f (take (length rows0) rows) (take (length rows0) rows')"
    using assms(2) unfolding ledger_step_def
  proof (elim disjE exE conjE)
    assume "rows_moved (ledger_move E c) rows rows'"
    then show ?thesis by (intro list_all2_takeI rows_moved_follow)
  next
    fix q assume "rows' = rows @ [q]"
    with len show ?thesis by (simp add: list_all2_refl)
  qed
  from list_all2_trans [OF row_follows_trans assms(1) [unfolded rows_kept_def] this]
  show ?thesis by (simp add: rows_kept_def)
qed

text \<open>
  C10: Whatever the payment service is asked to do, no record is ever deleted or renumbered, none
  changes its amount, method, order, restaurant or token, and each status has moved only along
  edges of the payment machine; so a failed or refunded payment stays so.
\<close>

theorem payments_follow_machine:
  assumes "payments_keyed st"
  shows "list_all2 (row_follows payment_identity pay_Status payment_moves) (pm_payments (snd st))
    (take (length (pm_payments (snd st))) (pm_payments (snd (serve_all require E calls st))))"
proof -
  have "rows_kept (pm_payments (snd st)) (pm_payments (snd st))"
    by (simp add: rows_kept_def list_all2_refl)
  with assms have "payments_keyed (serve_all require E calls st)
      \<and> rows_kept (pm_payments (snd st)) (pm_payments (snd (serve_all require E calls st)))"
    by (rule serve_all_induct [where Q = "rows_kept (pm_payments (snd st))"]) (rule rows_kept_step)
  then show ?thesis by (simp add: rows_kept_def)
qed

section \<open>One QR in flight per order\<close>

definition flight_key :: "PaymentRecord \<Rightarrow> uuid \<times> uuid \<times> uuid option" where
  "flight_key p = (pay_TenantID p, pay_RestaurantID p, pay_OrderID p)"

definition flights :: "PaymentRecord list \<Rightarrow> (uuid \<times> uuid \<times> uuid option) list" where
  "flights rows = map flight_key (filter (\<lambda>p. active_qr p \<and> pay_OrderID p \<noteq> None) rows)"

lemma ledger_move_active: "ledger_move E c p q \<Longrightarrow> active_qr q \<Longrightarrow> active_qr p"
  by (cases c) (auto simp: active_qr_def state_names)

lemma rows_moved_flights:
  assumes "rows_moved (ledger_move E c) rows rows'"
  shows "set (flights rows') \<subseteq> set (flights rows) \<and> (distinct (flights rows) \<longrightarrow> distinct (flights rows'))"
  using assms unfolding rows_moved_def
proof (induction rule: list_all2_induct)
  case (Cons a rows b rows')
  have "flight_key b = flight_key a" "pay_OrderID b = pay_OrderID a" "active_qr b \<longrightarrow> active_qr a"
    using Cons.hyps(1) ledger_move_active [of E c a b] by (auto simp: flight_key_def dest: payment_identity_fields(2-4))
  with Cons.IH show ?case by (auto simp: flights_def)
qed (simp add: flights_def)

lemma fresh_qr_flights:
  assumes "fresh_qr rows req orderID q" and "pay_OrderID q \<noteq> None"
  shows "flight_key q \<notin> set (flights rows)"
proof
  assume "flight_key q \<in> set (flights rows)"
  then obtain p where p: "p \<in> set rows" "active_qr p" "flight_key p = flight_key q" by (auto simp: flights_def)
  obtain i where i: "orderID = Some i" "pay_OrderID q = Some i" using assms by (auto simp: fresh_qr_def)
  have "pay_OrderID p = Some i" "pay_TenantID p = ps_TenantID req" "pay_RestaurantID p = ps_RestaurantID req"
    using p(3) i assms(1) by (simp_all add: flight_key_def fresh_qr_def)
  with p(1,2) i assms(1) show False by (auto simp: fresh_qr_def list_ex_iff in_flight_def)
qed

lemma ledger_new_flights:
  assumes "ledger_new c rows q" and "active_qr q" and "pay_OrderID q \<noteq> None"
  shows "flight_key q \<notin> set (flights rows)"
proof -
  have "pay_Status q \<noteq> PaymentStateConfirmed" using assms(2) by (auto simp: active_qr_def state_names)
  with assms(1) show ?thesis
    by (cases c) (auto simp: list_ex_iff dest!: fresh_qr_flights [OF _ assms(3)])
qed

lemma ledger_step_flights:
  assumes "ledger_step E c rows rows'" and "distinct (flights rows)"
  shows "distinct (flights rows')"
  using assms(1) unfolding ledger_step_def
proof (elim disjE exE conjE)
  assume "rows_moved (ledger_move E c) rows rows'"
  with assms(2) rows_moved_flights show ?thesis by blast
next
  fix q assume q: "rows' = rows @ [q]" "ledger_new c rows q"
  show ?thesis
    using assms(2) ledger_new_flights [OF q(2)] by (auto simp: q(1) flights_def)
qed

text \<open>
  C11: No sequence of calls gives an order two QR payments in flight: per tenant, restaurant and order
  at most one record is waiting for a scan or for its confirmation.
\<close>

theorem one_qr_in_flight:
  assumes "payments_keyed st" and "distinct (flights (pm_payments (snd st)))"
  shows "distinct (flights (pm_payments (snd (serve_all require E calls st))))"
  using serve_all_induct [where Q = "\<lambda>rows. distinct (flights rows)", OF assms] ledger_step_flights by blast

section \<open>Who confirms a payment\<close>

lemma ledger_step_row:
  assumes "ledger_step E c rows rows'" and "distinct (map pay_PaymentRecordID rows)"
    and "p \<in> set rows" and "p' \<in> set rows'" and "pay_PaymentRecordID p' = pay_PaymentRecordID p"
  shows "p' = p \<or> payment_identity p' = payment_identity p \<and> ledger_move E c p p'"
  using assms(1) unfolding ledger_step_def
proof (elim disjE exE conjE)
  assume m: "rows_moved (ledger_move E c) rows rows'"
  obtain j where j: "j < length rows'" "p' = rows' ! j" using assms(4) by (auto simp: in_set_conv_nth)
  have len: "length rows' = length rows" using m by (auto simp: rows_moved_def dest: list_all2_lengthD)
  have step: "rows' ! j = rows ! j \<or> payment_identity (rows' ! j) = payment_identity (rows ! j) \<and> ledger_move E c (rows ! j) (rows' ! j)"
    using m j len by (simp add: rows_moved_def list_all2_conv_all_nth)
  then have "pay_PaymentRecordID (rows ! j) = pay_PaymentRecordID p"
    using assms(5) j(2) by (auto dest: payment_identity_fields(1))
  then have "rows ! j = p" using assms(2,3) j(1) len by (auto simp: distinct_map inj_on_def)
  with step j(2) show ?thesis by simp
next
  fix q assume "rows' = rows @ [q]" "pay_PaymentRecordID q \<notin> pay_PaymentRecordID ` set rows"
  with assms(2-5) show ?thesis by (auto simp: distinct_map inj_on_def image_iff)
qed

text \<open>
  C9: A payment that was not confirmed becomes confirmed by one kind of call only: a callback with its
  token, before its QR expired, whose parameters the provider answered as successful; the record
  then carries the provider's transaction and its amount is the one that was asked for.
\<close>

theorem confirmed_only_when_verified:
  assumes "payments_keyed st" and "p \<in> set (pm_payments (snd st))"
    and "p' \<in> set (pm_payments (snd (serve require E c st)))"
    and "pay_PaymentRecordID p' = pay_PaymentRecordID p"
    and "pay_Status p \<noteq> PaymentStateConfirmed" and "pay_Status p' = PaymentStateConfirmed"
  shows "\<exists>provider now req. c = Callback provider now req \<and> pay_VerifyToken p = cb_VerifyToken req
    \<and> pay_Status p = PaymentStatePendingQR \<and> \<not> IsQRExpired now p
    \<and> verified provider E (cb_EncodedParams req) (pay_TransactionID p') \<and> pay_Amount p' = pay_Amount p"
proof -
  have "payment_identity p' = payment_identity p \<and> ledger_move E c p p'"
    using ledger_step_row [OF serve_ledger [OF assms(1)] assms(1-4)] assms(5,6) by auto
  then have m: "ledger_move E c p p'" and "pay_Amount p' = pay_Amount p"
    by (auto dest: payment_identity_fields(5))
  with assms(6) show ?thesis by (cases c) (auto simp: state_names)
qed

section \<open>A confirmation that is lost\<close>

lemma ledger_move_awaiting: "ledger_move E c p q \<Longrightarrow> pay_Status p \<noteq> PaymentStateAwaitingConfirm"
  by (cases c) (auto simp: state_names)

lemma ledger_step_awaiting:
  assumes "ledger_step E c rows rows'" and "p \<in> set rows" and "pay_Status p = PaymentStateAwaitingConfirm"
  shows "p \<in> set rows'"
  using assms(1) unfolding ledger_step_def
proof (elim disjE exE conjE)
  assume m: "rows_moved (ledger_move E c) rows rows'"
  obtain j where "j < length rows" "p = rows ! j" using assms(2) by (auto simp: in_set_conv_nth)
  with m assms(3) ledger_move_awaiting have "rows' ! j = p" "j < length rows'"
    by (auto simp: rows_moved_def list_all2_conv_all_nth)
  then show ?thesis by (metis nth_mem)
qed (use assms(2) in auto)

lemma initiate_qr_blocked:
  assumes "p \<in> set (pm_payments s)" and "pay_Status p = PaymentStateAwaitingConfirm"
    and "iq_OrderID req = pay_OrderID p" and "pay_OrderID p \<noteq> None"
    and "ps_TenantID req = pay_TenantID p" and "ps_RestaurantID req = pay_RestaurantID p"
  shows "\<exists>s' err. initiate_qr P E now d req s = (s', Inl err)"
proof -
  obtain i where i: "pay_OrderID p = Some i" using assms(4) by blast
  let ?check = "no_active_qr req :: ('a pay_db_scheme, payment_error, unit) op"
  obtain s1 r1 where c: "?check s = (s1, r1)" by (cases "?check s")
  have "list_ex (in_flight (ps_TenantID req) (ps_RestaurantID req) i) (pm_payments s)"
    using assms i by (auto simp: list_ex_iff in_flight_def active_qr_def)
  with no_active_qr_result [OF c] assms(3) i have "r1 \<noteq> Inr ()" by auto
  with c show ?thesis by (cases r1) (auto simp: initiate_qr_def thenE_def)
qed

text \<open>
  A payment whose confirmation was lost after the scan is stuck: whatever the service is asked to
  do afterwards, the record stays as it is, awaiting its confirmation (callbacks, the expiry job
  and refunds included), and no new QR can be issued for its order.
\<close>

theorem lost_confirmation_is_final:
  assumes "payments_keyed st" and "p \<in> set (pm_payments (snd st))"
    and "pay_Status p = PaymentStateAwaitingConfirm" and "pay_OrderID p \<noteq> None"
    and "iq_OrderID req = pay_OrderID p" and "ps_TenantID req = pay_TenantID p"
    and "ps_RestaurantID req = pay_RestaurantID p"
  shows "p \<in> set (pm_payments (snd (serve_all require E calls st)))
    \<and> (\<exists>err. snd (InitiateQRPayment require provider E now d req (serve_all require E calls st)) = Inl err)"
proof
  let ?st = "serve_all require E calls st"
  show p: "p \<in> set (pm_payments (snd ?st))"
    using serve_all_induct [where Q = "\<lambda>rows. p \<in> set rows", OF assms(1,2)]
      ledger_step_awaiting [OF _ _ assms(3)] by blast
  obtain r s where st: "?st = (r, s)" by fastforce
  show "\<exists>err. snd (InitiateQRPayment require provider E now d req ?st) = Inl err"
  proof (cases provider)
    case None
    then show ?thesis by (simp add: InitiateQRPayment_def)
  next
    case (Some P)
    obtain s' err where "initiate_qr P E now d req s = (s', Inl err)"
      using initiate_qr_blocked [OF _ assms(3) assms(5,4,6,7), of s P E now d] p st by auto
    then show ?thesis
      by (cases "require (payment_request ActionCreate req) r"; cases "snd (require (payment_request ActionCreate req) r)")
        (auto simp: InitiateQRPayment_def Some st guarded_def)
  qed
qed

section \<open>A callback without faults\<close>

lemma firePaymentFSM_accepted:
  assumes "(pay_Status p, event, st') \<in> set payment_edges" and "event \<noteq> PaymentEventRefund"
  shows "firePaymentFSM E now p event meta s = (s, Inr (effect_of (PaymentFSM (payment_methods (ye_uuid_String E)))
    (pay_Status p) (fold (\<lambda>(k, v) env. WithMeta env k v) meta (NewEnvelope (ye_envelope_id E) now event None)) p))"
proof -
  let ?d = "PaymentFSM (payment_methods (ye_uuid_String E))"
  let ?env = "fold (\<lambda>(k, v) env. WithMeta env k v) meta (NewEnvelope (ye_envelope_id E) now event None)"
  have ev: "env_Event ?env = event" by (simp add: fold_WithMeta_Event NewEnvelope_def)
  have e: "edge ?d (pay_Status p) (env_Event ?env) st'" using assms(1) by (simp add: PaymentFSM_edge ev)
  have "enabled ?d p (pay_Status p) ?env"
    using e PaymentFSM_refusal [OF e, of p] assms(2) by (auto simp: enabled_def edge_def ev)
  then have "fire ?d p (pay_Status p) ?env now now = (effect_of ?d (pay_Status p) ?env p, Returned None)"
    by (simp add: payment_fsm.fire_success_iff)
  then show ?thesis by (simp add: firePaymentFSM_def Let_def)
qed

lemma fire_scanned:
  assumes "pay_Status p = PaymentStatePendingQR"
  shows "firePaymentFSM E now p PaymentEventQRScanned [] s = (s, Inr (p\<lparr>pay_Status := PaymentStateAwaitingConfirm\<rparr>))"
proof -
  let ?I = "payment_methods (ye_uuid_String E)" and ?env = "NewEnvelope (ye_envelope_id E) now PaymentEventQRScanned None"
  have "effect_of (PaymentFSM ?I) PaymentStatePendingQR ?env p = pc_SetStatus ?I PaymentStateAwaitingConfirm p"
    by (rule payment_scan_effect) (simp add: NewEnvelope_def)
  also have "\<dots> = p\<lparr>pay_Status := PaymentStateAwaitingConfirm\<rparr>" by (simp add: payment_methods_def)
  finally have effect: "effect_of (PaymentFSM ?I) PaymentStatePendingQR ?env p = p\<lparr>pay_Status := PaymentStateAwaitingConfirm\<rparr>" .
  have "(pay_Status p, PaymentEventQRScanned, PaymentStateAwaitingConfirm) \<in> set payment_edges"
    by (simp add: payment_edges_def assms)
  moreover have "PaymentEventQRScanned \<noteq> PaymentEventRefund" by (simp add: state_names)
  ultimately show ?thesis
    using firePaymentFSM_accepted [of p PaymentEventQRScanned PaymentStateAwaitingConfirm E now "[]" s] by (simp add: assms effect)
qed

lemma fire_received:
  assumes "pay_Status p = PaymentStateAwaitingConfirm"
  shows "firePaymentFSM E now p PaymentEventReceived [] s = (s, Inr (p\<lparr>pay_Status := PaymentStateConfirmed\<rparr>))"
proof -
  let ?I = "payment_methods (ye_uuid_String E)" and ?env = "NewEnvelope (ye_envelope_id E) now PaymentEventReceived None"
  have "effect_of (PaymentFSM ?I) PaymentStateAwaitingConfirm ?env p = pc_SetStatus ?I PaymentStateConfirmed p"
    by (rule payment_receive_effect) (simp add: NewEnvelope_def)
  also have "\<dots> = p\<lparr>pay_Status := PaymentStateConfirmed\<rparr>" by (simp add: payment_methods_def)
  finally have effect: "effect_of (PaymentFSM ?I) PaymentStateAwaitingConfirm ?env p = p\<lparr>pay_Status := PaymentStateConfirmed\<rparr>" .
  have "(pay_Status p, PaymentEventReceived, PaymentStateConfirmed) \<in> set payment_edges"
    by (simp add: payment_edges_def assms)
  moreover have "PaymentEventReceived \<noteq> PaymentEventRefund" by (simp add: state_names)
  ultimately show ?thesis
    using firePaymentFSM_accepted [of p PaymentEventReceived PaymentStateConfirmed E now "[]" s] by (simp add: assms effect)
qed

lemma fire_fail:
  assumes "pay_Status p = PaymentStatePendingQR \<or> pay_Status p = PaymentStateAwaitingConfirm"
  shows "firePaymentFSM E now p PaymentEventFail [(''failure_reason'', reason)] s
    = (s, Inr (p\<lparr>pay_Status := PaymentStateFailed, pay_FailureReason := reason\<rparr>))"
proof -
  let ?env = "WithMeta (NewEnvelope (ye_envelope_id E) now PaymentEventFail None) ''failure_reason'' reason"
  have "env_Event ?env = PaymentEventFail" by (simp add: WithMeta_def NewEnvelope_def)
  moreover have "meta_get ?env ''failure_reason'' = Some reason"
    by (simp add: WithMeta_def NewEnvelope_def meta_get_def)
  ultimately show ?thesis
    using assms
    by (subst firePaymentFSM_accepted [where st' = PaymentStateFailed])
      (auto simp: payment_edges_def payment_fail_effect_of payment_fail_effect_def payment_methods_def state_names)
qed

text \<open>The record after the provider was asked about it, and after the whole callback.\<close>

definition failed_with :: "string \<Rightarrow> PaymentRecord \<Rightarrow> PaymentRecord" where
  "failed_with reason p = p\<lparr>pay_Status := PaymentStateFailed, pay_FailureReason := reason\<rparr>"

definition scanned_with :: "string \<Rightarrow> PaymentRecord \<Rightarrow> PaymentRecord" where
  "scanned_with params p = p\<lparr>pay_Status := PaymentStateAwaitingConfirm, pay_EncodedParams := params\<rparr>"

definition confirmed_with :: "VerifyResponse \<Rightarrow> PaymentRecord \<Rightarrow> PaymentRecord" where
  "confirmed_with resp p = p\<lparr>pay_Status := PaymentStateConfirmed, pay_TransactionID := vr_TransactionID resp\<rparr>"

definition verification_outcome :: "fonepay_provider \<Rightarrow> pay_env \<Rightarrow> string \<Rightarrow> PaymentRecord \<Rightarrow> PaymentRecord" where
  "verification_outcome P E params p =
     (case ParseQuery (ye_Quote E) params of
        Inl err \<Rightarrow> failed_with (''invalid callback params: '' @ err) p
      | Inr parsed \<Rightarrow>
          (case fp_VerifyPayment P (map_of parsed) of
             Inl err \<Rightarrow> failed_with (''VerifyPayment error: '' @ err) p
           | Inr resp \<Rightarrow>
               if vr_Success resp then confirmed_with resp p
               else failed_with (''Fonepay verification failed (status: '' @ vr_Status resp @ '')'') p))"

definition callback_outcome ::
    "fonepay_provider \<Rightarrow> pay_env \<Rightarrow> gotime \<Rightarrow> string \<Rightarrow> PaymentRecord \<Rightarrow> PaymentRecord" where
  "callback_outcome P E now params p =
     (if IsQRExpired now p then failed_with ''QR code expired before callback received'' p
      else verification_outcome P E params (scanned_with params p))"

lemma outcome_identity [simp]:
  "pay_PaymentRecordID (failed_with reason p) = pay_PaymentRecordID p"
  "pay_PaymentRecordID (scanned_with params p) = pay_PaymentRecordID p"
  "pay_PaymentRecordID (confirmed_with resp p) = pay_PaymentRecordID p"
  "pay_PaymentRecordID (verification_outcome P E params p) = pay_PaymentRecordID p"
  by (simp_all add: failed_with_def scanned_with_def confirmed_with_def verification_outcome_def split: sum.split)

text \<open>The one row of a payment, and the ledger with that row replaced.\<close>

definition only_row :: "PaymentRecord \<Rightarrow> PaymentRecord list \<Rightarrow> bool" where
  "only_row p rows \<longleftrightarrow> (\<forall>r \<in> set rows. pay_PaymentRecordID r = pay_PaymentRecordID p \<longrightarrow> r = p)"

definition stored :: "PaymentRecord \<Rightarrow> PaymentRecord list \<Rightarrow> PaymentRecord list" where
  "stored q rows = update_rows (\<lambda>r. pay_PaymentRecordID r = pay_PaymentRecordID q) (\<lambda>_. q) rows"

lemma stored_facts:
  "only_row q (stored q rows)"
  "pay_PaymentRecordID q = pay_PaymentRecordID p \<Longrightarrow> stored q (stored p rows) = stored q rows"
  by (auto simp: only_row_def stored_def update_rows_def)

lemma stored_member:
  "r \<in> set rows \<Longrightarrow> pay_PaymentRecordID r = pay_PaymentRecordID q \<Longrightarrow> q \<in> set (stored q rows)"
  "r \<in> set rows \<Longrightarrow> pay_PaymentRecordID r \<noteq> pay_PaymentRecordID q \<Longrightarrow> r \<in> set (stored q rows)"
  by (force simp: stored_def update_rows_set)+

lemma update_payment_ok:
  assumes "faults s = []" and "only_row p (pm_payments s)" and "pay_PaymentRecordID (f p) = pay_PaymentRecordID p"
  shows "update_payment what (pay_PaymentRecordID p) f s
    = (s\<lparr>pm_payments := stored (f p) (pm_payments s)\<rparr>, Inr ())"
proof -
  have "update_rows (\<lambda>r. pay_PaymentRecordID r = pay_PaymentRecordID p) f (pm_payments s) = stored (f p) (pm_payments s)"
    unfolding stored_def update_rows_def using assms(2,3) by (intro map_cong refl) (auto simp: only_row_def)
  with assms(1) show ?thesis by (simp add: update_payment_def db_write_def)
qed

lemma failPayment_ok:
  assumes "faults s = []" and "only_row p (pm_payments s)"
    and "pay_Status p = PaymentStatePendingQR \<or> pay_Status p = PaymentStateAwaitingConfirm"
  shows "failPayment E now p reason s
    = (s\<lparr>pm_payments := stored (failed_with reason p) (pm_payments s)\<rparr>, Inr (failed_with reason p))"
  using update_payment_ok [OF assms(1,2),
      of "\<lambda>p. p\<lparr>pay_Status := PaymentStateFailed, pay_FailureReason := reason\<rparr>" "''persist failure''"]
  by (simp add: failPayment_def thenE_def bindE_def fire_fail [OF assms(3)] failed_with_def)

lemma tryAdvance_faults:
  fixes s :: "'z pay_db_scheme" and res :: "payment_error + unit"
  assumes "tryAdvanceOrderToServed E now tn i s = (s', res)" and "faults s = []"
  shows "faults s' = []"
proof -
  let ?P = "\<lambda>order. ord_OrderID order = i \<and> ord_TenantID order = tn"
  show ?thesis
  proof (cases "first_row ord_OrderID ?P (db_orders s)")
    case None
    with assms show ?thesis
      by (simp del: first_row_None add: tryAdvanceOrderToServed_def db_First_def db_find_def bindE_def)
  next
    case (Some order)
    obtain order' out where f: "fire (OrderFSM (order_methods (ye_uuid_String E))) order (ord_OrderStatus order)
        (NewEnvelope (ye_envelope_id E) now OrderEventServe None) now now = (order', out)" by fastforce
    show ?thesis
      using assms Some f
      by (auto simp: tryAdvanceOrderToServed_def db_First_def db_find_def bindE_def db_write_def
          split: outcome.splits option.splits)
  qed
qed

lemma confirm_payment_ok:
  assumes "faults s = []" and "only_row p (pm_payments s)" and "pay_Status p = PaymentStateAwaitingConfirm"
  shows "\<exists>s'. confirm_payment E now p resp s = (s', Inr (confirmed_with resp p)) \<and> faults s' = []
    \<and> pm_payments s' = stored (confirmed_with resp p) (pm_payments s)"
proof -
  let ?s1 = "s\<lparr>pm_payments := stored (confirmed_with resp p) (pm_payments s)\<rparr>"
  have u: "update_payment ''persist confirmed'' (pay_PaymentRecordID p)
      (\<lambda>p. p\<lparr>pay_Status := PaymentStateConfirmed, pay_TransactionID := vr_TransactionID resp\<rparr>) s = (?s1, Inr ())"
    using update_payment_ok [OF assms(1,2),
        of "\<lambda>p. p\<lparr>pay_Status := PaymentStateConfirmed, pay_TransactionID := vr_TransactionID resp\<rparr>"]
    by (simp add: confirmed_with_def)
  obtain s2 ra where w: "(pay_writeAudit E now (pay_TenantID p) (pay_RestaurantID p) 0 AuditEventUpdate
      (pay_PaymentRecordID p) :: ('a pay_db_scheme, payment_error, unit) op) ?s1 = (s2, ra)" by fastforce
  let ?advance = "(case pay_OrderID p of None \<Rightarrow> ret () | Some i \<Rightarrow> tryAdvanceOrderToServed E now (pay_TenantID p) i)
    :: ('a pay_db_scheme, payment_error, unit) op"
  obtain s3 rt where a: "?advance s2 = (s3, rt)" by (cases "?advance s2")
  have "faults s2 = []" using w assms(1) by (auto simp: pay_writeAudit_def db_write_def)
  then have 3: "rt = Inr () \<and> pm_payments s3 = pm_payments s2 \<and> faults s3 = []"
    using a tryAdvance_same [of E now _ _ s2 s3 rt] tryAdvance_faults [of E now _ _ s2 s3 rt]
    by (cases "pay_OrderID p") auto
  with pay_writeAudit_result [OF w] u w a show ?thesis
    by (cases "pay_OrderID p")
      (simp_all add: confirm_payment_def Let_def thenE_def bindE_def fire_received [OF assms(3)] confirmed_with_def)
qed

lemma verify_payment_ok:
  assumes "faults s = []" and "only_row p (pm_payments s)" and "pay_Status p = PaymentStateAwaitingConfirm"
  shows "\<exists>s'. verify_payment P E now params p s = (s', Inr (verification_outcome P E params p)) \<and> faults s' = []
    \<and> pm_payments s' = stored (verification_outcome P E params p) (pm_payments s)"
proof -
  note fail = failPayment_ok [OF assms(1,2) disjI2 [OF assms(3)]]
  show ?thesis
  proof (cases "ParseQuery (ye_Quote E) params")
    case (Inl err)
    then show ?thesis by (simp add: verify_payment_def verification_outcome_def fail assms(1))
  next
    case parsed: (Inr parsed)
    show ?thesis
    proof (cases "fp_VerifyPayment P (map_of parsed)")
      case (Inl err)
      then show ?thesis by (simp add: verify_payment_def verification_outcome_def fail parsed assms(1))
    next
      case (Inr resp)
      then show ?thesis
        using confirm_payment_ok [OF assms(1-3), of E now resp]
        by (cases "vr_Success resp") (simp_all add: verify_payment_def verification_outcome_def fail parsed assms(1))
    qed
  qed
qed

lemma scan_payment_ok:
  assumes "faults s = []" and "only_row p (pm_payments s)" and "pay_Status p = PaymentStatePendingQR"
  shows "\<exists>s'. scan_payment P E now params p s = (s', Inr (verification_outcome P E params (scanned_with params p))) \<and> faults s' = []
    \<and> pm_payments s' = stored (verification_outcome P E params (scanned_with params p)) (pm_payments s)"
proof -
  let ?q = "scanned_with params p"
  let ?s1 = "s\<lparr>pm_payments := stored ?q (pm_payments s)\<rparr>"
  have u: "update_payment ''persist awaiting_confirm'' (pay_PaymentRecordID p)
      (\<lambda>p. p\<lparr>pay_Status := PaymentStateAwaitingConfirm, pay_EncodedParams := params\<rparr>) s = (?s1, Inr ())"
    using update_payment_ok [OF assms(1,2),
        of "\<lambda>p. p\<lparr>pay_Status := PaymentStateAwaitingConfirm, pay_EncodedParams := params\<rparr>"]
    by (simp add: scanned_with_def)
  have "scan_payment P E now params p s = verify_payment P E now params ?q ?s1"
    using u by (simp add: scan_payment_def thenE_def bindE_def fire_scanned [OF assms(3)] scanned_with_def)
  moreover have "\<exists>s'. verify_payment P E now params ?q ?s1 = (s', Inr (verification_outcome P E params ?q)) \<and> faults s' = []
      \<and> pm_payments s' = stored (verification_outcome P E params ?q) (pm_payments ?s1)"
    by (rule verify_payment_ok) (simp_all add: assms(1) stored_facts(1) scanned_with_def)
  ultimately show ?thesis by (simp add: stored_facts(2))
qed

lemma HandleFonepayCallback_ok:
  assumes "faults s = []" and "distinct (map pay_PaymentRecordID (pm_payments s))" and "p \<in> set (pm_payments s)"
    and "pay_Status p = PaymentStatePendingQR" and "pay_VerifyToken p = cb_VerifyToken req"
    and "\<forall>r \<in> set (pm_payments s). pay_VerifyToken r = pay_VerifyToken p \<longrightarrow> r = p"
  shows "\<exists>s'. HandleFonepayCallback (Some P) E now req s
      = (s', Inr (callback_outcome P E now (cb_EncodedParams req) p)) \<and> faults s' = []
    \<and> pm_payments s' = stored (callback_outcome P E now (cb_EncodedParams req) p) (pm_payments s)"
proof -
  let ?params = "cb_EncodedParams req"
  have only: "only_row p (pm_payments s)"
    using assms(2,3) by (auto simp: only_row_def distinct_map inj_on_def)
  have "first_row pay_PaymentRecordID (\<lambda>r. pay_VerifyToken r = cb_VerifyToken req) (pm_payments s) = Some p"
    by (rule first_row_unique [OF assms(3)]) (use assms(5,6) in simp_all)
  then have load: "db_First ErrInvalidVerifyToken (PaymentWrapped ''lookup by verify_token'') pay_PaymentRecordID
      pm_payments (\<lambda>r. pay_VerifyToken r = cb_VerifyToken req) s = (s, Inr p)"
    using assms(1) by (simp add: db_First_Inr)
  show ?thesis
  proof (cases "IsQRExpired now p")
    case True
    have "HandleFonepayCallback (Some P) E now req s
        = failPayment E now p ''QR code expired before callback received'' s"
      by (simp add: HandleFonepayCallback_def bindE_def load assms(4) True)
    then show ?thesis
      by (simp add: assms(1) callback_outcome_def True failPayment_ok [OF assms(1) only disjI1 [OF assms(4)]])
  next
    case False
    have "HandleFonepayCallback (Some P) E now req s = scan_payment P E now ?params p s"
      by (simp add: HandleFonepayCallback_def bindE_def load assms(4) False)
    then show ?thesis
      using scan_payment_ok [OF assms(1) only assms(4), of P E now ?params] by (simp add: callback_outcome_def False)
  qed
qed

text \<open>
  C19: When the database works, a callback for a pending payment always settles it at once: the record
  is stored and returned as the outcome of the callback, failed with the reason (expired, parameters
  that do not parse, a provider error, a refusal by the provider) or confirmed with the provider's
  transaction, and no other payment is touched.
\<close>

theorem callback_settles:
  assumes "faults s = []" and "distinct (map pay_PaymentRecordID (pm_payments s))" and "p \<in> set (pm_payments s)"
    and "pay_Status p = PaymentStatePendingQR" and "pay_VerifyToken p = cb_VerifyToken req"
    and "\<forall>r \<in> set (pm_payments s). pay_VerifyToken r = pay_VerifyToken p \<longrightarrow> r = p"
  shows "\<exists>s'. HandleFonepayCallback (Some P) E now req s
      = (s', Inr (callback_outcome P E now (cb_EncodedParams req) p))
    \<and> pm_payments s' = stored (callback_outcome P E now (cb_EncodedParams req) p) (pm_payments s)"
  using HandleFonepayCallback_ok [OF assms, of P E now] by blast

text \<open>
  The parameters of a callback are not tied to the payment its token names: one receipt the
  provider accepts confirms every pending payment in turn, whatever their amounts, and all of them
  carry the same transaction.
\<close>

theorem one_receipt_confirms_two:
  assumes "faults s = []" and "distinct (map pay_PaymentRecordID (pm_payments s))"
    and "distinct (map pay_VerifyToken (pm_payments s))"
    and "p \<in> set (pm_payments s)" and "q \<in> set (pm_payments s)" and "p \<noteq> q"
    and "pay_Status p = PaymentStatePendingQR" and "pay_Status q = PaymentStatePendingQR"
    and "\<not> IsQRExpired now p" and "\<not> IsQRExpired now q"
    and "ParseQuery (ye_Quote E) params = Inr parsed" and "fp_VerifyPayment P (map_of parsed) = Inr resp"
    and "vr_Success resp"
  shows "\<exists>s1 s2. HandleFonepayCallback (Some P) E now \<lparr>cb_VerifyToken = pay_VerifyToken p, cb_EncodedParams = params\<rparr> s
      = (s1, Inr (confirmed_with resp (scanned_with params p)))
    \<and> HandleFonepayCallback (Some P) E now \<lparr>cb_VerifyToken = pay_VerifyToken q, cb_EncodedParams = params\<rparr> s1
      = (s2, Inr (confirmed_with resp (scanned_with params q)))
    \<and> confirmed_with resp (scanned_with params p) \<in> set (pm_payments s2)
    \<and> confirmed_with resp (scanned_with params q) \<in> set (pm_payments s2)"
proof -
  let ?p = "confirmed_with resp (scanned_with params p)" and ?q = "confirmed_with resp (scanned_with params q)"
  have out: "callback_outcome P E now params r = confirmed_with resp (scanned_with params r)"
    if "\<not> IsQRExpired now r" for r
    using that assms(11-13) by (simp add: callback_outcome_def verification_outcome_def)
  have tok: "\<forall>r \<in> set (pm_payments s). pay_VerifyToken r = pay_VerifyToken p \<longrightarrow> r = p"
      "\<forall>r \<in> set (pm_payments s). pay_VerifyToken r = pay_VerifyToken q \<longrightarrow> r = q"
    using assms(3-5) by (auto simp: distinct_map inj_on_def)
  have ids: "pay_PaymentRecordID p \<noteq> pay_PaymentRecordID q" "pay_VerifyToken p \<noteq> pay_VerifyToken q"
    using assms(2-6) by (auto simp: distinct_map inj_on_def)
  obtain s1 where 1: "HandleFonepayCallback (Some P) E now \<lparr>cb_VerifyToken = pay_VerifyToken p, cb_EncodedParams = params\<rparr> s
      = (s1, Inr ?p)" "faults s1 = []" "pm_payments s1 = stored ?p (pm_payments s)"
    using HandleFonepayCallback_ok [OF assms(1,2,4,7) _ tok(1), of "\<lparr>cb_VerifyToken = pay_VerifyToken p, cb_EncodedParams = params\<rparr>" P E now]
    by (auto simp: out [OF assms(9)])
  have keys: "map pay_PaymentRecordID (pm_payments s1) = map pay_PaymentRecordID (pm_payments s)"
    by (simp add: 1(3) stored_def update_rows_def)
  have q: "q \<in> set (pm_payments s1)"
    unfolding 1(3) using assms(5) ids(1) by (intro stored_member(2)) simp_all
  have tok1: "\<forall>r \<in> set (pm_payments s1). pay_VerifyToken r = pay_VerifyToken q \<longrightarrow> r = q"
    using tok(2) ids(2) by (auto simp: 1(3) stored_def update_rows_set confirmed_with_def scanned_with_def)
  obtain s2 where 2: "HandleFonepayCallback (Some P) E now \<lparr>cb_VerifyToken = pay_VerifyToken q, cb_EncodedParams = params\<rparr> s1
      = (s2, Inr ?q)" "pm_payments s2 = stored ?q (pm_payments s1)"
    using HandleFonepayCallback_ok [OF 1(2) _ q assms(8) _ tok1, of "\<lparr>cb_VerifyToken = pay_VerifyToken q, cb_EncodedParams = params\<rparr>" P E now]
      assms(2) by (auto simp: out [OF assms(10)] keys)
  have "?p \<in> set (pm_payments s1)" unfolding 1(3) by (rule stored_member(1) [OF assms(4)]) simp
  then have "?p \<in> set (pm_payments s2)" unfolding 2(2) by (rule stored_member(2)) (simp add: ids(1))
  moreover have "?q \<in> set (pm_payments s2)" unfolding 2(2) by (rule stored_member(1) [OF q]) simp
  ultimately show ?thesis using 1(1) 2(1) by blast
qed
end
