(* ===== verification/Payment_Reports.thy ===== *)
theory Payment_Reports
  imports Payment_Service
begin

text \<open>
  The reading side of \<open>services/business/Payment.go\<close>: the filtered list of payments and the revenue
  summary.  The order of a column and the sum of a column are the database's: arguments of the calls,
  as are the starts of the day, week and month.
\<close>

record report_env =
  re_order :: "string \<Rightarrow> bool \<Rightarrow> PaymentRecord list \<Rightarrow> PaymentRecord list"
  re_SUM :: "f64 list \<Rightarrow> f64"
  re_today :: "gotime \<Rightarrow> gotime"
  re_AddDate :: "gotime \<Rightarrow> int \<Rightarrow> int \<Rightarrow> int \<Rightarrow> gotime"

section \<open>The list\<close>

record ListPaymentsFilter = PaymentServiceRequest +
  lf_OrderID :: "uuid option"
  lf_PaymentMethod :: "string option"
  lf_Status :: "string option"
  lf_DateFrom :: "gotime option"
  lf_DateTo :: "gotime option"
  lf_MinAmount :: "f64 option"
  lf_MaxAmount :: "f64 option"
  lf_Page :: int
  lf_PageSize :: int
  lf_SortBy :: string
  lf_SortOrder :: string

definition unless_given :: "('v \<Rightarrow> bool) \<Rightarrow> 'v option \<Rightarrow> bool" where
  "unless_given P x = (case x of None \<Rightarrow> True | Some v \<Rightarrow> P v)"

definition selected :: "ListPaymentsFilter \<Rightarrow> PaymentRecord \<Rightarrow> bool" where
  "selected f p \<longleftrightarrow>
     pay_TenantID p = ps_TenantID f \<and> pay_RestaurantID p = ps_RestaurantID f
     \<and> unless_given (\<lambda>orderID. pay_OrderID p = Some orderID) (lf_OrderID f)
     \<and> unless_given (\<lambda>m. pay_PaymentMethod p = m) (lf_PaymentMethod f)
     \<and> unless_given (\<lambda>st. pay_Status p = st) (lf_Status f)
     \<and> unless_given (\<lambda>t. pay_PaymentDate p \<ge> t) (lf_DateFrom f)
     \<and> unless_given (\<lambda>t. pay_PaymentDate p \<le> t) (lf_DateTo f)
     \<and> unless_given (\<lambda>a. f_le a (pay_Amount p)) (lf_MinAmount f)
     \<and> unless_given (\<lambda>a. f_le (pay_Amount p) a) (lf_MaxAmount f)"

definition sort_column :: "ListPaymentsFilter \<Rightarrow> string" where
  "sort_column f =
     (if lf_SortBy f = ''amount'' then ''amount''
      else if lf_SortBy f = ''status'' then ''status'' else ''payment_date'')"

definition page_of :: "ListPaymentsFilter \<Rightarrow> 'a list \<Rightarrow> 'a list" where
  "page_of f rows =
     (let size = (if lf_PageSize f \<le> 0 then 20 else lf_PageSize f);
          page = (if lf_Page f \<le> 0 then 1 else lf_Page f)
      in take (nat size) (drop (nat ((page - 1) * size)) rows))"

definition list_payments ::
    "report_env \<Rightarrow> ListPaymentsFilter \<Rightarrow> ('z pay_db_scheme, payment_error, PaymentRecord list \<times> int) op" where
  "list_payments R f =
     bindE (db_query (PaymentWrapped ''count payments'')
              (\<lambda>s. int (length (filter (selected f) (pm_payments s))))) (\<lambda>n.
       bindE (db_query (PaymentWrapped ''list payments'')
                (\<lambda>s. page_of f (re_order R (sort_column f) (EqualFold (lf_SortOrder f) ''asc'')
                                 (filter (selected f) (pm_payments s))))) (\<lambda>records.
         ret (records, n)))"

definition ListPayments ::
    "(AccessRequest \<Rightarrow> 'r \<Rightarrow> 'r \<times> rbac_error option) \<Rightarrow> report_env \<Rightarrow> ListPaymentsFilter
       \<Rightarrow> 'r \<times> 'z pay_db_scheme \<Rightarrow> ('r \<times> 'z pay_db_scheme) \<times> (payment_error + PaymentRecord list \<times> int)" where
  "ListPayments require R f =
     guarded require (payment_request ActionRead f) PaymentDenied (list_payments R f)"

section \<open>The summary\<close>

record PaymentStats =
  pst_TotalRevenue :: f64
  pst_TotalTransactions :: int
  pst_AvgTransactionVal :: f64
  pst_RevenueByMethod :: "string \<Rightarrow> f64 option"
  pst_TodayRevenue :: f64
  pst_WeekRevenue :: f64
  pst_MonthRevenue :: f64

text \<open>
  The queries run on one statement: a \<open>Where\<close> adds a condition to those the earlier queries left in
  it, a \<open>Select\<close> replaces the columns.  \<open>since\<close> holds the dates added so far.  A query that fails
  leaves its variable at zero.
\<close>

definition counted :: "'q PaymentServiceRequest_scheme \<Rightarrow> gotime list \<Rightarrow> 'z pay_db_scheme \<Rightarrow> PaymentRecord list" where
  "counted req since s = filter (\<lambda>p. pay_TenantID p = ps_TenantID req \<and> pay_RestaurantID p = ps_RestaurantID req
     \<and> pay_Status p = PaymentStateConfirmed \<and> list_all (\<lambda>t. pay_PaymentDate p \<ge> t) since) (pm_payments s)"

definition scan_or :: "'a \<Rightarrow> ('z pay_db_scheme \<Rightarrow> 'a) \<Rightarrow> ('z pay_db_scheme, payment_error, 'a) op" where
  "scan_or zero sel s =
     (case (db_query (\<lambda>err. err) sel :: ('z pay_db_scheme, string, 'a) op) s of
        (s', Inl err) \<Rightarrow> (s', Inr zero) | (s', Inr v) \<Rightarrow> (s', Inr v))"

definition revenue_since ::
    "report_env \<Rightarrow> 'q PaymentServiceRequest_scheme \<Rightarrow> gotime list \<Rightarrow> ('z pay_db_scheme, payment_error, f64) op" where
  "revenue_since R req since =
     scan_or f_zero (\<lambda>s. if counted req since s = [] then f_zero else re_SUM R (map pay_Amount (counted req since s)))"

definition by_method ::
    "report_env \<Rightarrow> 'q PaymentServiceRequest_scheme \<Rightarrow> gotime list \<Rightarrow> 'z pay_db_scheme \<Rightarrow> (string \<times> f64) list" where
  "by_method R req since s =
     map (\<lambda>m. (m, re_SUM R (map pay_Amount (filter (\<lambda>p. pay_PaymentMethod p = m) (counted req since s)))))
       (remdups (map pay_PaymentMethod (counted req since s)))"

definition payment_stats ::
    "report_env \<Rightarrow> gotime \<Rightarrow> 'q PaymentServiceRequest_scheme \<Rightarrow> ('z pay_db_scheme, payment_error, PaymentStats) op" where
  "payment_stats R now req =
     (let today = re_today R now; weekAgo = re_AddDate R today 0 0 (-7); monthAgo = re_AddDate R today 0 (-1) 0
      in bindE (scan_or (f_zero, 0) (\<lambda>s. (if counted req [] s = [] then f_zero else re_SUM R (map pay_Amount (counted req [] s)),
                  int (length (counted req [] s))))) (\<lambda>(overall, n).
         bindE (revenue_since R req [today]) (\<lambda>todayTotal.
         bindE (revenue_since R req [today, weekAgo]) (\<lambda>weekTotal.
         bindE (revenue_since R req [today, weekAgo, monthAgo]) (\<lambda>monthTotal.
         bindE (scan_or [] (by_method R req [today, weekAgo, monthAgo])) (\<lambda>byMethod.
           ret \<lparr>pst_TotalRevenue = overall, pst_TotalTransactions = n,
                pst_AvgTransactionVal = (if n > 0 then f_div overall (f_of_int n) else f_zero),
                pst_RevenueByMethod = map_of byMethod, pst_TodayRevenue = todayTotal,
                pst_WeekRevenue = weekTotal, pst_MonthRevenue = monthTotal\<rparr>))))))"

definition GetPaymentStats ::
    "(AccessRequest \<Rightarrow> 'r \<Rightarrow> 'r \<times> rbac_error option) \<Rightarrow> report_env \<Rightarrow> gotime \<Rightarrow> 'q PaymentServiceRequest_scheme
       \<Rightarrow> 'r \<times> 'z pay_db_scheme \<Rightarrow> ('r \<times> 'z pay_db_scheme) \<times> (payment_error + PaymentStats)" where
  "GetPaymentStats require R now req =
     guarded require (payment_request ActionRead req) PaymentDenied (payment_stats R now req)"

section \<open>What the summary sums up\<close>

lemma scan_or_ok [simp]: "faults s = [] \<Longrightarrow> scan_or zero sel s = (s, Inr (sel s))"
  by (simp add: scan_or_def db_query_def)

lemma counted_since:
  assumes "weekAgo \<le> today" and "monthAgo \<le> today"
  shows "counted req [today, weekAgo] s = counted req [today] s"
    and "counted req [today, weekAgo, monthAgo] s = counted req [today] s"
  using assms by (auto simp: counted_def intro!: filter_cong)

text \<open>
  The revenue of the week and of the month is the revenue of today, and the revenue by method
  covers today's payments only: each query keeps the date conditions of the ones before it.
\<close>

theorem stats_periods_collapse:
  assumes "faults s = []" and "re_AddDate R (re_today R now) 0 0 (-7) \<le> re_today R now"
    and "re_AddDate R (re_today R now) 0 (-1) 0 \<le> re_today R now"
    and "require (payment_request ActionRead req) r = (r', None)"
  shows "\<exists>stats. GetPaymentStats require R now req (r, s) = ((r', s), Inr stats)
    \<and> pst_WeekRevenue stats = pst_TodayRevenue stats \<and> pst_MonthRevenue stats = pst_TodayRevenue stats
    \<and> dom (pst_RevenueByMethod stats) = pay_PaymentMethod ` set (counted req [re_today R now] s)
    \<and> pst_TotalTransactions stats = int (length (counted req [] s))"
proof -
  note same = counted_since [OF assms(2,3), of req s]
  have run: "\<exists>stats. payment_stats R now req s = (s, Inr stats)
    \<and> pst_WeekRevenue stats = pst_TodayRevenue stats \<and> pst_MonthRevenue stats = pst_TodayRevenue stats
    \<and> dom (pst_RevenueByMethod stats) = pay_PaymentMethod ` set (counted req [re_today R now] s)
    \<and> pst_TotalTransactions stats = int (length (counted req [] s))"
    unfolding payment_stats_def Let_def
    by (simp add: bindE_def revenue_since_def assms(1) same by_method_def dom_map_of_conv_image_fst image_image)
  then show ?thesis using assms(4) by (auto simp: GetPaymentStats_def guarded_def)
qed

end
