(* ===== verification/Payment_Examples.thy ===== *)
theory Payment_Examples
  imports Payment_Correct Payment_Reports
begin

text \<open>Two QR payments and one that is stuck, and the properties of the payment service on them.\<close>

definition ex_pay_env :: pay_env where
  "ex_pay_env = \<lparr>ye_uuid_String = (\<lambda>_. ''id''), ye_envelope_id = ''env'', ye_Format_month = (\<lambda>_. ''202601''),
     ye_month_start = (\<lambda>t. t), ye_next_month_start = (\<lambda>t. t), ye_numeric = (\<lambda>_ x. x), ye_Quote = (\<lambda>s. s)\<rparr>"

definition ex_qr :: "uuid \<Rightarrow> string \<Rightarrow> string \<Rightarrow> PaymentRecord" where
  "ex_qr i token status = \<lparr>pay_PaymentRecordID = i, pay_TenantID = 3, pay_RestaurantID = 4, pay_OrderID = Some i,
     pay_Amount = Fin 5, pay_PaymentMethod = ''fonepay'', pay_Status = status, pay_TransactionID = '''',
     pay_PaymentDate = 0, pay_QRImageData = '''', pay_QRExpiresAt = Some 100, pay_FonepayTransactionID = ''F'',
     pay_VerifyToken = token, pay_EncodedParams = '''', pay_FailureReason = ''''\<rparr>"

definition ex_ledger :: "PaymentRecord list" where
  "ex_ledger = [ex_qr 1 ''t1'' PaymentStatePendingQR, ex_qr 2 ''t2'' PaymentStatePendingQR,
     ex_qr 3 ''t3'' PaymentStateAwaitingConfirm]"

definition ex_pay_db :: pay_db where
  "ex_pay_db = \<lparr>faults = [], db_orders = [], db_kots = [], db_kotItems = [], db_employees = [], db_audits = [],
     rd_counters = [], rd_faults = [], pm_payments = ex_ledger, pm_invoices = []\<rparr>"

definition ex_answer :: VerifyResponse where
  "ex_answer = \<lparr>vr_Success = True, vr_Status = ''success'', vr_TransactionID = ''T9''\<rparr>"

definition ex_provider :: fonepay_provider where
  "ex_provider = \<lparr>fp_GenerateQR = (\<lambda>_. Inl ''down''), fp_VerifyPayment = (\<lambda>_. Inr ex_answer)\<rparr>"

definition allow_all :: "AccessRequest \<Rightarrow> nat \<Rightarrow> nat \<times> rbac_error option" where
  "allow_all req n = (Suc n, None)"

abbreviation "ex_callback \<equiv> \<lparr>cb_VerifyToken = ''t1'', cb_EncodedParams = ''''\<rparr>"

lemma ex_qr_sel [simp]:
  "pay_PaymentRecordID (ex_qr i token st) = i" "pay_Status (ex_qr i token st) = st"
  "pay_VerifyToken (ex_qr i token st) = token" "pay_OrderID (ex_qr i token st) = Some i"
  "pay_TenantID (ex_qr i token st) = 3" "pay_RestaurantID (ex_qr i token st) = 4"
  by (simp_all add: ex_qr_def)

lemma ex_ledger_facts:
  "pm_payments ex_pay_db = ex_ledger" "faults ex_pay_db = []"
  "distinct (map pay_PaymentRecordID ex_ledger)" "distinct (map pay_VerifyToken ex_ledger)"
  "distinct (flights ex_ledger)"
  "ex_qr 1 ''t1'' PaymentStatePendingQR \<in> set ex_ledger" "ex_qr 2 ''t2'' PaymentStatePendingQR \<in> set ex_ledger"
  "ex_qr 3 ''t3'' PaymentStateAwaitingConfirm \<in> set ex_ledger"
  "\<forall>r \<in> set ex_ledger. pay_VerifyToken r = ''t1'' \<longrightarrow> r = ex_qr 1 ''t1'' PaymentStatePendingQR"
  "ex_qr 1 ''t1'' PaymentStatePendingQR \<noteq> ex_qr 2 ''t2'' PaymentStatePendingQR"
  by (simp_all add: ex_pay_db_def ex_ledger_def ex_qr_def flights_def flight_key_def active_qr_def)

lemma ex_parse: "ParseQuery (ye_Quote ex_pay_env) '''' = Inr []"
  by code_simp

lemma ex_not_expired: "\<not> IsQRExpired 50 (ex_qr i token status)"
  by (simp add: IsQRExpired_def ex_qr_def)

lemma ex_verify: "fp_VerifyPayment ex_provider m = Inr ex_answer"
  by (simp add: ex_provider_def)

theorem payment_service_refines_ledger_witness:
  "ledger_step ex_pay_env (Expire 200) ex_ledger (pm_payments (snd (serve allow_all ex_pay_env (Expire 200) (0, ex_pay_db))))"
  using payment_service_refines_ledger [of "(0, ex_pay_db)" ex_pay_env "Expire 200" allow_all]
  by (simp add: ex_ledger_facts)

theorem payments_follow_machine_witness:
  "list_all2 (row_follows payment_identity pay_Status payment_moves) ex_ledger
    (take (length ex_ledger) (pm_payments (snd (serve_all allow_all ex_pay_env
      [Expire 50, Callback (Some ex_provider) 50 ex_callback] (0, ex_pay_db)))))"
  using payments_follow_machine [of "(0, ex_pay_db)" allow_all ex_pay_env
      "[Expire 50, Callback (Some ex_provider) 50 ex_callback]"]
  by (simp add: ex_ledger_facts)

theorem one_qr_in_flight_witness:
  "distinct (flights (pm_payments (snd (serve_all allow_all ex_pay_env
      [Callback (Some ex_provider) 50 ex_callback, Expire 200] (0, ex_pay_db)))))"
  using one_qr_in_flight [of "(0, ex_pay_db)" allow_all ex_pay_env
      "[Callback (Some ex_provider) 50 ex_callback, Expire 200]"]
  by (simp add: ex_ledger_facts)

lemma ex_callback_result:
  "\<exists>s'. HandleFonepayCallback (Some ex_provider) ex_pay_env 50 ex_callback ex_pay_db
      = (s', Inr (confirmed_with ex_answer (scanned_with '''' (ex_qr 1 ''t1'' PaymentStatePendingQR))))
    \<and> pm_payments s' = stored (confirmed_with ex_answer (scanned_with '''' (ex_qr 1 ''t1'' PaymentStatePendingQR))) ex_ledger"
proof -
  let ?p = "ex_qr 1 ''t1'' PaymentStatePendingQR"
  have out: "callback_outcome ex_provider ex_pay_env 50 '''' ?p = confirmed_with ex_answer (scanned_with '''' ?p)"
    unfolding callback_outcome_def verification_outcome_def ex_parse
    by (simp add: ex_not_expired ex_verify) (simp add: ex_answer_def)
  note f = ex_ledger_facts [folded ex_ledger_facts(1)]
  have "\<exists>s'. HandleFonepayCallback (Some ex_provider) ex_pay_env 50 ex_callback ex_pay_db
      = (s', Inr (callback_outcome ex_provider ex_pay_env 50 (cb_EncodedParams ex_callback) ?p)) \<and> faults s' = []
    \<and> pm_payments s' = stored (callback_outcome ex_provider ex_pay_env 50 (cb_EncodedParams ex_callback) ?p) (pm_payments ex_pay_db)"
    by (rule HandleFonepayCallback_ok [OF ex_ledger_facts(2) f(3,6)]) (use f(9) in simp_all)
  then show ?thesis unfolding HandleCallbackInput.simps out ex_ledger_facts(1) by blast
qed

theorem confirmed_only_when_verified_witness:
  "verified (Some ex_provider) ex_pay_env '''' ''T9''"
proof -
  let ?p = "ex_qr 1 ''t1'' PaymentStatePendingQR"
  let ?p' = "confirmed_with ex_answer (scanned_with '''' ?p)"
  have 1: "payments_keyed (0, ex_pay_db)" "?p \<in> set (pm_payments (snd (0, ex_pay_db)))"
    by (simp_all add: ex_ledger_facts)
  have 2: "?p' \<in> set (pm_payments (snd (serve allow_all ex_pay_env (Callback (Some ex_provider) 50 ex_callback) (0, ex_pay_db))))"
    using ex_callback_result stored_member(1) [OF ex_ledger_facts(6), of ?p'] by auto
  have 3: "pay_PaymentRecordID ?p' = pay_PaymentRecordID ?p" by simp
  have 4: "pay_Status ?p \<noteq> PaymentStateConfirmed" "pay_Status ?p' = PaymentStateConfirmed" "pay_TransactionID ?p' = ''T9''"
    by (simp_all add: ex_qr_def confirmed_with_def scanned_with_def ex_answer_def state_names)
  show ?thesis using confirmed_only_when_verified [OF 1 2 3 4(1,2)] 4(3) by auto
qed

theorem lost_confirmation_is_final_witness:
  "ex_qr 3 ''t3'' PaymentStateAwaitingConfirm
     \<in> set (pm_payments (snd (serve_all allow_all ex_pay_env [Expire 200] (0, ex_pay_db))))"
proof -
  let ?p = "ex_qr 3 ''t3'' PaymentStateAwaitingConfirm"
  let ?req = "\<lparr>ps_TenantID = 3, ps_RestaurantID = 4, ps_ActorID = 5, iq_OrderID = Some 3, iq_Amount = Fin 5,
        iq_Description = '''', iq_Remarks2 = ''''\<rparr>"
  have 1: "payments_keyed (0, ex_pay_db)" "?p \<in> set (pm_payments (snd (0, ex_pay_db)))"
    by (simp_all add: ex_ledger_facts)
  have 2: "pay_OrderID ?p \<noteq> None" "iq_OrderID ?req = pay_OrderID ?p" "ps_TenantID ?req = pay_TenantID ?p"
    "ps_RestaurantID ?req = pay_RestaurantID ?p" by simp_all
  show ?thesis by (rule conjunct1 [OF lost_confirmation_is_final [OF 1 ex_qr_sel(2) 2]])
qed

theorem callback_settles_witness:
  "callback_outcome ex_provider ex_pay_env 200 '''' (ex_qr 1 ''t1'' PaymentStatePendingQR)
      \<in> set (pm_payments (fst (HandleFonepayCallback (Some ex_provider) ex_pay_env 200 ex_callback ex_pay_db)))"
proof -
  let ?p = "ex_qr 1 ''t1'' PaymentStatePendingQR"
  have same: "pay_PaymentRecordID ?p = pay_PaymentRecordID (callback_outcome ex_provider ex_pay_env 200 '''' ?p)"
    by (simp add: callback_outcome_def)
  note f = ex_ledger_facts [folded ex_ledger_facts(1)]
  have "\<exists>s'. HandleFonepayCallback (Some ex_provider) ex_pay_env 200 ex_callback ex_pay_db
      = (s', Inr (callback_outcome ex_provider ex_pay_env 200 (cb_EncodedParams ex_callback) ?p))
    \<and> pm_payments s' = stored (callback_outcome ex_provider ex_pay_env 200 (cb_EncodedParams ex_callback) ?p) (pm_payments ex_pay_db)"
    by (rule callback_settles [OF ex_ledger_facts(2) f(3,6)]) (use f(9) in simp_all)
  with stored_member(1) [OF ex_ledger_facts(6) same] show ?thesis
    unfolding HandleCallbackInput.simps ex_ledger_facts(1) by auto
qed

theorem one_receipt_confirms_two_witness:
  "\<exists>s1 s2. HandleFonepayCallback (Some ex_provider) ex_pay_env 50 ex_callback ex_pay_db
      = (s1, Inr (confirmed_with ex_answer (scanned_with '''' (ex_qr 1 ''t1'' PaymentStatePendingQR))))
    \<and> HandleFonepayCallback (Some ex_provider) ex_pay_env 50 \<lparr>cb_VerifyToken = ''t2'', cb_EncodedParams = ''''\<rparr> s1
      = (s2, Inr (confirmed_with ex_answer (scanned_with '''' (ex_qr 2 ''t2'' PaymentStatePendingQR))))"
proof -
  let ?p = "ex_qr 1 ''t1'' PaymentStatePendingQR" and ?q = "ex_qr 2 ''t2'' PaymentStatePendingQR"
  have ok: "vr_Success ex_answer" by (simp add: ex_answer_def)
  note f = ex_ledger_facts [folded ex_ledger_facts(1)]
  from one_receipt_confirms_two [OF ex_ledger_facts(2) f(3,4,6,7,10) ex_qr_sel(2) ex_qr_sel(2) ex_not_expired ex_not_expired ex_parse
      ex_verify ok, unfolded ex_qr_sel(3)]
  show ?thesis by blast
qed

definition ex_report :: report_env where
  "ex_report = \<lparr>re_order = (\<lambda>_ _ rows. rows), re_SUM = (\<lambda>xs. fold f_add xs f_zero), re_today = (\<lambda>t. t - t mod 100),
     re_AddDate = (\<lambda>t y m d. t + (y * 365 + m * 30 + d) * 100)\<rparr>"

theorem stats_periods_collapse_witness:
  "\<exists>stats. GetPaymentStats allow_all ex_report 250 \<lparr>ps_TenantID = 3, ps_RestaurantID = 4, ps_ActorID = 5\<rparr> (0, ex_pay_db)
      = ((1, ex_pay_db), Inr stats)
    \<and> pst_WeekRevenue stats = pst_TodayRevenue stats \<and> pst_MonthRevenue stats = pst_TodayRevenue stats"
proof -
  let ?req = "\<lparr>ps_TenantID = 3, ps_RestaurantID = 4, ps_ActorID = 5\<rparr> :: PaymentServiceRequest"
  have "re_AddDate ex_report (re_today ex_report 250) 0 0 (-7) \<le> re_today ex_report 250"
    "re_AddDate ex_report (re_today ex_report 250) 0 (-1) 0 \<le> re_today ex_report 250"
    by (simp_all add: ex_report_def)
  moreover have "allow_all (payment_request ActionRead ?req) 0 = (1, None)" by (simp add: allow_all_def)
  ultimately show ?thesis
    using stats_periods_collapse [OF ex_ledger_facts(2), of ex_report 250 allow_all ?req 0 1] by blast
qed

end
