(* ===== verification/Auth_Passwords.thy ===== *)
theory Auth_Passwords
  imports Go_Encoding GoFmt
begin

text \<open>
  Passwords in \<open>services/core/auth.go\<close>: the Argon2id string a password is stored as and its
  comparison, the strength rules, and the look-up in the breach database.  Argon2 and SHA-1 are
  arguments; so is the answer of the breach service.
\<close>

section \<open>The standard library\<close>

text \<open>\<open>base64.RawStdEncoding\<close>: no padding; line ends are skipped, trailing bits are not checked.\<close>

fun base64_RawEncode :: "string \<Rightarrow> string" where
  "base64_RawEncode (a # b # c # bs) =
     [base64_digit (byte a div 4), base64_digit (byte a mod 4 * 16 + byte b div 16),
      base64_digit (byte b mod 16 * 4 + byte c div 64), base64_digit (byte c mod 64)] @ base64_RawEncode bs"
| "base64_RawEncode [a, b] =
     [base64_digit (byte a div 4), base64_digit (byte a mod 4 * 16 + byte b div 16), base64_digit (byte b mod 16 * 4)]"
| "base64_RawEncode [a] = [base64_digit (byte a div 4), base64_digit (byte a mod 4 * 16)]"
| "base64_RawEncode [] = []"

definition unbase64 :: "char \<Rightarrow> nat option" where
  "unbase64 c =
     (let n = byte c
      in if 65 \<le> n \<and> n \<le> 90 then Some (n - 65) else if 97 \<le> n \<and> n \<le> 122 then Some (n - 71)
         else if 48 \<le> n \<and> n \<le> 57 then Some (n + 4) else if n = 43 then Some 62 else if n = 47 then Some 63 else None)"

fun raw_bytes :: "nat list \<Rightarrow> string option" where
  "raw_bytes (a # b # c # d # ns) =
     map_option (\<lambda>bs. [char_of (a * 4 + b div 16), char_of (b mod 16 * 16 + c div 4), char_of (c mod 4 * 64 + d)] @ bs) (raw_bytes ns)"
| "raw_bytes [a, b, c] = Some [char_of (a * 4 + b div 16), char_of (b mod 16 * 16 + c div 4)]"
| "raw_bytes [a, b] = Some [char_of (a * 4 + b div 16)]"
| "raw_bytes [a] = None"
| "raw_bytes [] = Some []"

definition base64_RawDecode :: "string \<Rightarrow> string option" where
  "base64_RawDecode s =
     (let digits = map unbase64 (filter (\<lambda>c. c \<noteq> CHR 10 \<and> c \<noteq> CHR 13) s)
      in if None \<in> set digits then None else raw_bytes (map the digits))"

fun strings_Split :: "char \<Rightarrow> string \<Rightarrow> string list" where
  "strings_Split sep [] = [[]]"
| "strings_Split sep (c # s) =
     (if c = sep then [] # strings_Split sep s
      else case strings_Split sep s of [] \<Rightarrow> [[c]] | part # parts \<Rightarrow> (c # part) # parts)"

fun split_lines :: "string \<Rightarrow> string list" where
  "split_lines [] = [[]]"
| "split_lines [c] = [[c]]"
| "split_lines (c # d # s) =
     (if c = CHR 13 \<and> d = CHR 10 then [] # split_lines s
      else case split_lines (d # s) of [] \<Rightarrow> [[c]] | part # parts \<Rightarrow> (c # part) # parts)"

text \<open>\<open>Sscanf\<close> with \<open>%d\<close> into an unsigned integer, and with a literal.\<close>

definition decimal :: "char \<Rightarrow> bool" where
  "decimal c \<longleftrightarrow> 48 \<le> byte c \<and> byte c \<le> 57"

definition scan_uint :: "nat \<Rightarrow> string \<Rightarrow> (nat \<times> string) option" where
  "scan_uint bits s =
     (let s = dropWhile (\<lambda>c. is_blank c \<and> c \<noteq> CHR 10) s; ds = takeWhile decimal s; n = read_digits 0 ds
      in if ds = [] \<or> n \<ge> 2 ^ bits then None else Some (n, dropWhile decimal s))"

definition scan_literal :: "string \<Rightarrow> string \<Rightarrow> string option" where
  "scan_literal lit s = (if HasPrefix s lit then Some (drop (length lit) s) else None)"

section \<open>Hashing and comparing\<close>

type_synonym argon2_IDKey = "string \<Rightarrow> string \<Rightarrow> nat \<Rightarrow> nat \<Rightarrow> nat \<Rightarrow> nat \<Rightarrow> string"

text \<open>The salt is the 16 random bytes, or the error of the generator; the constants are printed.\<close>

definition HashPwd :: "argon2_IDKey \<Rightarrow> string + string \<Rightarrow> string \<Rightarrow> string + string" where
  "HashPwd IDKey random password =
     (case random of
        Inl err \<Rightarrow> Inl err
      | Inr salt \<Rightarrow>
          let memory = 64 * 1024; iterations = 3; parallelism = 2; keyLength = 32;
              hash = IDKey password salt iterations memory parallelism keyLength
          in Inr (''$argon2id$v=19$m=65536,t=3,p=2$'' @ base64_RawEncode salt @ ''$'' @ base64_RawEncode hash))"

text \<open>The parameters: memory, iterations, parallelism; what follows them is not looked at.\<close>

definition scan_parameters :: "string \<Rightarrow> (nat \<times> nat \<times> nat) option" where
  "scan_parameters s =
     (case Option.bind (scan_literal ''m='' s) (scan_uint 32) of
        None \<Rightarrow> None
      | Some (memory, s) \<Rightarrow>
          (case Option.bind (scan_literal '',t='' s) (scan_uint 32) of
             None \<Rightarrow> None
           | Some (iterations, s) \<Rightarrow>
               (case Option.bind (scan_literal '',p='' s) (scan_uint 8) of
                  None \<Rightarrow> None
                | Some (parallelism, s) \<Rightarrow> Some (memory, iterations, parallelism))))"

text \<open>\<open>IDKey\<close> panics without an iteration or a thread.\<close>

datatype compared = Compared bool | CompareError | ComparePanic

definition ComparePwd :: "argon2_IDKey \<Rightarrow> string \<Rightarrow> string \<Rightarrow> compared" where
  "ComparePwd IDKey password encodedHash =
     (let parts = strings_Split (CHR ''$'') encodedHash
      in if length parts \<noteq> 6 then CompareError
         else case (scan_parameters (parts ! 3), base64_RawDecode (parts ! 4), base64_RawDecode (parts ! 5)) of
                (Some (memory, iterations, parallelism), Some salt, Some decodedHash) \<Rightarrow>
                  if iterations = 0 \<or> parallelism = 0 then ComparePanic
                  else Compared (IDKey password salt iterations memory parallelism (length decodedHash) = decodedHash)
              | _ \<Rightarrow> CompareError)"

section \<open>Strength and breaches\<close>

definition special_characters :: string where
  "special_characters = ''!@#$%^&*()_+-=[]{}|;:,.<>?''"

datatype weakness = TooShort int | MissingClass

definition ValidatePasswordStrength :: "int \<Rightarrow> string \<Rightarrow> weakness option" where
  "ValidatePasswordStrength minLen password =
     (if int (length password) < minLen then Some (TooShort minLen)
      else let hasUpper = list_ex (\<lambda>c. 65 \<le> byte c \<and> byte c \<le> 90) password;
               hasLower = list_ex (\<lambda>c. 97 \<le> byte c \<and> byte c \<le> 122) password;
               hasNumber = list_ex decimal password;
               hasSpecial = list_ex (\<lambda>c. c \<in> set special_characters) password
           in if \<not> hasUpper \<or> \<not> hasLower \<or> \<not> hasNumber \<or> \<not> hasSpecial then Some MissingClass else None)"

text \<open>
  The service's answer to a prefix: an error, or a status and a body that may fail to arrive.  Any
  failure counts as not breached.
\<close>

fun breach_lines :: "string \<Rightarrow> string list \<Rightarrow> bool" where
  "breach_lines sfx [] = False"
| "breach_lines sfx (line # rest) =
     (if CHR '':'' \<notin> set line then breach_lines sfx rest
      else if EqualFold (fst (strings_Cut (CHR '':'') line)) sfx then True
      else breach_lines sfx rest)"

definition CheckPasswordBreach ::
    "bool \<Rightarrow> (string \<Rightarrow> string) \<Rightarrow> (string \<Rightarrow> string + int \<times> (string + string)) \<Rightarrow> string \<Rightarrow> bool" where
  "CheckPasswordBreach enabled sha1 range_api password =
     (if \<not> enabled then False
      else let fullHash = ToUpper (hex_Encode (sha1 password)); sfx = drop 5 fullHash
           in case range_api (take 5 fullHash) of
                Inl err \<Rightarrow> False
              | Inr (status, body) \<Rightarrow>
                  if status \<noteq> 200 then False
                  else case body of Inl err \<Rightarrow> False | Inr text \<Rightarrow> breach_lines sfx (split_lines text))"

section \<open>What is stored compares with the password\<close>

abbreviation alphabet :: string where
  "alphabet \<equiv> ''ABCDEFGHIJKLMNOPQRSTUVWXYZabcdefghijklmnopqrstuvwxyz0123456789+/''"

lemma alphabet_facts:
  "map unbase64 alphabet = map Some [0..<64]" "CHR 10 \<notin> set alphabet" "CHR 13 \<notin> set alphabet"
  "CHR ''$'' \<notin> set alphabet"
  by code_simp+

lemma base64_digits:
  assumes "n < 64"
  shows "unbase64 (base64_digit n) = Some n" and "base64_digit n \<noteq> CHR 10" and "base64_digit n \<noteq> CHR 13"
    and "base64_digit n \<noteq> CHR ''$''"
proof -
  have len: "length alphabet = 64" by simp
  then have "alphabet ! n \<in> set alphabet" using assms by (metis nth_mem)
  then show "base64_digit n \<noteq> CHR 10" "base64_digit n \<noteq> CHR 13" "base64_digit n \<noteq> CHR ''$''"
    using alphabet_facts(2-4) unfolding base64_digit_def by metis+
  have "map unbase64 alphabet ! n = map Some [0..<64] ! n" by (simp only: alphabet_facts(1))
  moreover have "map unbase64 alphabet ! n = unbase64 (alphabet ! n)" by (rule nth_map) (simp only: len assms)
  moreover have "map Some [0..<64] ! n = Some n" using assms by (simp del: upt_rec_numeral)
  ultimately show "unbase64 (base64_digit n) = Some n" unfolding base64_digit_def by simp
qed

lemma byte_bound: "byte c < 256"
proof -
  have "byte c mod 256 = byte c" by simp
  then show ?thesis by (metis mod_less_divisor zero_less_numeral)
qed

lemma byte_parts [simp]:
  "byte c div 16 div 16 = 0" "byte c div 16 mod 16 = byte c div 16"
  "byte c div 64 div 4 = 0" "byte c div 64 mod 4 = byte c div 64"
  using byte_bound [of c] by (simp_all add: div_mult2_eq [symmetric] less_mult_imp_div_less)

lemma char_of_byte: "char_of (byte c) = c"
  by simp

text \<open>The digits of an encoding and what they decode to.\<close>

fun sextets :: "string \<Rightarrow> nat list" where
  "sextets (a # b # c # bs) =
     [byte a div 4, byte a mod 4 * 16 + byte b div 16, byte b mod 16 * 4 + byte c div 64, byte c mod 64] @ sextets bs"
| "sextets [a, b] = [byte a div 4, byte a mod 4 * 16 + byte b div 16, byte b mod 16 * 4]"
| "sextets [a] = [byte a div 4, byte a mod 4 * 16]"
| "sextets [] = []"

lemma RawEncode_sextets: "base64_RawEncode s = map base64_digit (sextets s)"
  by (induction s rule: base64_RawEncode.induct) simp_all

lemma sextets_bound: "\<forall>n \<in> set (sextets s). n < 64"
proof (induction s rule: sextets.induct)
  case (1 a b c bs)
  then show ?case using byte_bound [of a] byte_bound [of b] byte_bound [of c] by (auto; linarith)
next
  case (2 a b)
  then show ?case using byte_bound [of a] byte_bound [of b] by (auto; linarith)
next
  case (3 a)
  then show ?case using byte_bound [of a] by (auto; linarith)
qed simp

lemma raw_bytes_sextets: "raw_bytes (sextets s) = Some s"
  by (induction s rule: sextets.induct) simp_all

lemma RawDecode_RawEncode: "base64_RawDecode (base64_RawEncode s) = Some s"
proof -
  have plain: "filter (\<lambda>c. c \<noteq> CHR 10 \<and> c \<noteq> CHR 13) (base64_RawEncode s) = base64_RawEncode s"
    using sextets_bound [of s] by (auto simp: RawEncode_sextets filter_id_conv base64_digits)
  have "map unbase64 (base64_RawEncode s) = map Some (sextets s)"
    using sextets_bound [of s] by (auto simp: RawEncode_sextets base64_digits)
  then show ?thesis
    by (simp add: base64_RawDecode_def plain raw_bytes_sextets comp_def image_iff)
qed

lemma RawEncode_no_dollar: "CHR ''$'' \<notin> set (base64_RawEncode s)"
  using sextets_bound [of s] base64_digits(4) unfolding RawEncode_sextets by fastforce

lemma Split_part: "sep \<notin> set a \<Longrightarrow> strings_Split sep (a @ sep # s) = a # strings_Split sep s"
  by (induction a) auto

lemma Split_last: "sep \<notin> set a \<Longrightarrow> strings_Split sep a = [a]"
  by (induction a) auto

lemma parameters_computed: "scan_parameters ''m=65536,t=3,p=2'' = Some (65536, 3, 2)"
  by (simp add: scan_parameters_def scan_uint_def scan_literal_def HasPrefix_def decimal_def is_blank_def Let_def)

lemma hash_parts:
  "strings_Split (CHR ''$'') (''$argon2id$v=19$m=65536,t=3,p=2$'' @ base64_RawEncode salt @ ''$'' @ base64_RawEncode hash)
   = ['''', ''argon2id'', ''v=19'', ''m=65536,t=3,p=2'', base64_RawEncode salt, base64_RawEncode hash]"
proof -
  let ?d = "CHR ''$''"
  have "''$argon2id$v=19$m=65536,t=3,p=2$'' @ base64_RawEncode salt @ ''$'' @ base64_RawEncode hash
    = '''' @ ?d # (''argon2id'' @ ?d # (''v=19'' @ ?d # (''m=65536,t=3,p=2'' @ ?d #
        (base64_RawEncode salt @ ?d # base64_RawEncode hash))))" by simp
  moreover have "?d \<notin> set ''''" "?d \<notin> set ''argon2id''" "?d \<notin> set ''v=19''" "?d \<notin> set ''m=65536,t=3,p=2''"
    by simp_all
  ultimately show ?thesis
    by (simp only: Split_part Split_last RawEncode_no_dollar not_False_eq_True)
qed

lemma ComparePwd_encoded:
  assumes "HashPwd IDKey (Inr salt) stored = Inr encoded" and "length (IDKey stored salt 3 65536 2 32) = 32"
  shows "ComparePwd IDKey password encoded = Compared (IDKey password salt 3 65536 2 32 = IDKey stored salt 3 65536 2 32)"
proof -
  have e: "encoded = ''$argon2id$v=19$m=65536,t=3,p=2$'' @ base64_RawEncode salt @ ''$''
      @ base64_RawEncode (IDKey stored salt 3 65536 2 32)"
    using assms(1) by (simp add: HashPwd_def Let_def)
  show ?thesis
    unfolding ComparePwd_def e hash_parts Let_def
    by (simp add: parameters_computed RawDecode_RawEncode assms(2))
qed

text \<open>
  C31: Hashing and comparing fit together: a password compares as equal with the string stored for
  another exactly when Argon2 gives both the same key, so the password that was stored always does.
\<close>

theorem ComparePwd_HashPwd:
  assumes "HashPwd IDKey (Inr salt) stored = Inr encoded"
    and "length (IDKey stored salt 3 65536 2 32) = 32"
  shows "ComparePwd IDKey password encoded
      = Compared (IDKey password salt 3 65536 2 32 = IDKey stored salt 3 65536 2 32)
    \<and> ComparePwd IDKey stored encoded = Compared True"
  using ComparePwd_encoded [OF assms] by simp

end
