(* ===== verification/Auth_Records.thy ===== *)
theory Auth_Records
  imports Redis Auth_Passwords Float64
begin

text \<open>
  The services behind \<open>services/core/auth.go\<close>: tokens, sessions in Redis, password history, rate
  limits, the risk score, known devices and the log of security events.

  JSON Web Tokens, SHA-256, one-time passwords, geographic look-ups and the mathematical functions
  are fields of the environment; random bytes and fresh identifiers are arguments.  The metadata of
  a security event and the e-mails are not modelled.
\<close>

record claims =
  cl_jti :: string
  cl_iss :: string
  cl_aud :: string
  cl_user_id :: string
  cl_tenant_id :: string
  cl_session_id :: string
  cl_exp :: int
  cl_iat :: int

record auth_env =
  ae_uuid_String :: "uuid \<Rightarrow> string"
  ae_uuid_Parse :: "string \<Rightarrow> uuid option"
  ae_IDKey :: argon2_IDKey
  ae_sha256 :: "string \<Rightarrow> string"
  ae_sha1 :: "string \<Rightarrow> string"
  ae_range_api :: "string \<Rightarrow> string + int \<times> (string + string)"
  ae_SignedString :: "claims \<Rightarrow> string + string"
  ae_ParseToken :: "string \<Rightarrow> string + string option \<times> int option"
  ae_totp_Validate :: "gotime \<Rightarrow> string \<Rightarrow> string \<Rightarrow> bool"
  ae_GetCountry :: "string \<Rightarrow> string"
  ae_GetCoordinates :: "string \<Rightarrow> f64 \<times> f64"
  ae_Lookup :: "string \<Rightarrow> string"
  ae_Sin :: "f64 \<Rightarrow> f64"
  ae_Cos :: "f64 \<Rightarrow> f64"
  ae_Atan2 :: "f64 \<Rightarrow> f64 \<Rightarrow> f64"
  ae_Sqrt :: "f64 \<Rightarrow> f64"

section \<open>Names\<close>

definition EventUserRegistered :: string where "EventUserRegistered = ''user_registered''"
definition EventLoginSuccess :: string where "EventLoginSuccess = ''login_success''"
definition EventLoginFailed :: string where "EventLoginFailed = ''login_failed''"
definition EventLoginBlockedLocked :: string where "EventLoginBlockedLocked = ''login_blocked_locked''"
definition EventLoginBlockedInactive :: string where "EventLoginBlockedInactive = ''login_blocked_inactive''"
definition EventAccountLocked :: string where "EventAccountLocked = ''account_locked''"
definition Event2FAVerificationFailed :: string where "Event2FAVerificationFailed = ''2fa_verification_failed''"
definition Event2FAVerificationSuccess :: string where "Event2FAVerificationSuccess = ''2fa_verification_success''"
definition EventPasswordChanged :: string where "EventPasswordChanged = ''password_changed''"
definition EventTokenReuse :: string where "EventTokenReuse = ''token_reuse_detected''"
definition EventHighRiskAccess :: string where "EventHighRiskAccess = ''high_risk_access''"

definition SeverityInfo :: string where "SeverityInfo = ''info''"
definition SeverityWarning :: string where "SeverityWarning = ''warning''"
definition SeverityCritical :: string where "SeverityCritical = ''critical''"

datatype auth_error =
    ErrInvalidCredentials
  | ErrAccountLocked gotime
  | ErrAccountInactive
  | ErrEmailNotVerified
  | ErrInvalidToken
  | ErrSessionNotFound
  | ErrRateLimitExceeded
  | ErrInvalid2FACode
  | ErrMaxSessionsReached
  | ErrPasswordTooWeak weakness
  | ErrPasswordReused int
  | ErrPasswordBreached
  | AuthMessage string
  | AuthFailure string
  | AuthPanic

section \<open>Rows\<close>

record User =
  us_UserID :: uuid
  us_UserName :: string
  us_FullName :: string
  us_Email :: string
  us_Phone :: string
  us_PasswordHash :: string
  us_IsActive :: bool
  us_TenantID :: uuid
  us_DeletedAt :: "gotime option"
  us_PrimaryRole :: string
  us_IsEmailVerified :: bool
  us_TwoFactorEnabled :: bool
  us_TwoFactorSecret :: string
  us_FailedLoginAttempts :: int
  us_LockedUntil :: "gotime option"
  us_LastLoginAt :: "gotime option"
  us_LastLoginIP :: string
  us_LastLoginLocation :: string
  us_PasswordChangedAt :: "gotime option"
  us_IsDeleted :: bool
  us_GoogleID :: string
  us_AvatarURL :: string

record PasswordHistory =
  ph_PasswordHistoryID :: uuid
  ph_UserID :: uuid
  ph_PasswordHash :: string
  ph_CreatedAt :: gotime

record RefreshToken =
  rt_TokenID :: uuid
  rt_UserID :: uuid
  rt_TokenHash :: string
  rt_DeviceID :: string
  rt_DeviceFingerprint :: string
  rt_DeviceType :: string
  rt_UserRole :: string
  rt_IPAddress :: string
  rt_UserAgent :: string
  rt_Location :: string
  rt_ExpiresAt :: gotime
  rt_IsRevoked :: bool
  rt_RevokedAt :: "gotime option"
  rt_RevokedReason :: string
  rt_CreatedAt :: gotime

record DeviceRegistry =
  dv_DeviceID :: uuid
  dv_UserID :: uuid
  dv_DeviceFingerprint :: string
  dv_DeviceName :: string
  dv_IsTrusted :: bool
  dv_LoginCount :: int
  dv_FirstSeenAt :: gotime
  dv_LastSeenAt :: gotime
  dv_LastSeenIP :: string
  dv_LastSeenLocation :: string

record SecurityEvent =
  se_UserID :: "uuid option"
  se_EventType :: string
  se_EventSeverity :: string
  se_IPAddress :: string
  se_UserAgent :: string
  se_Location :: string
  se_Success :: bool
  se_Timestamp :: gotime

record EmailVerificationToken =
  ev_TokenID :: uuid
  ev_UserID :: uuid
  ev_Token :: string
  ev_ExpiresAt :: gotime
  ev_CreatedAt :: gotime

record Tenant =
  tn_TenantID :: uuid
  tn_Name :: string
  tn_Status :: string

record SessionData =
  sd_UserID :: uuid
  sd_TenantID :: uuid
  sd_Email :: string
  sd_Role :: string
  sd_DeviceType :: string
  sd_IPAddress :: string
  sd_UserAgent :: string
  sd_LoginAt :: gotime

text \<open>A set and a sorted set in Redis are lists without repetitions.\<close>

record auth_db = db +
  au_users :: "User list"
  au_refresh :: "RefreshToken list"
  au_history :: "PasswordHistory list"
  au_devices :: "DeviceRegistry list"
  au_events :: "SecurityEvent list"
  au_verify :: "EmailVerificationToken list"
  au_tenants :: "Tenant list"
  rd_sessions :: "SessionData rcache"
  rd_user_sessions :: "string list rcache"
  rd_pending :: "(string \<times> string) list rcache"
  rd_blacklist :: "string rcache"
  rd_windows :: "int list rcache"
  rd_resets :: "string rcache"
  rd_states :: "string rcache"

section \<open>Tokens\<close>

definition HashToken :: "auth_env \<Rightarrow> string \<Rightarrow> string" where
  "HashToken E token = hex_Encode (ae_sha256 E token)"

definition base64_URLEncode :: "string \<Rightarrow> string" where
  "base64_URLEncode s =
     map (\<lambda>c. if c = CHR ''+'' then CHR ''-'' else if c = CHR ''/'' then CHR ''_'' else c) (base64_Encode s)"

definition GenerateSecureToken :: "string + string \<Rightarrow> ('s, auth_error, string) op" where
  "GenerateSecureToken random =
     (case random of Inl err \<Rightarrow> throw (AuthFailure err) | Inr b \<Rightarrow> ret (base64_URLEncode b))"

definition unix :: "gotime \<Rightarrow> int" where
  "unix t = t div 1000000000"

definition GenerateAccessToken ::
    "auth_env \<Rightarrow> gotime \<Rightarrow> uuid \<Rightarrow> uuid \<Rightarrow> uuid \<Rightarrow> string \<Rightarrow> int \<Rightarrow> ('s, auth_error, string) op" where
  "GenerateAccessToken E now jti userID tenantID sessionID ttl =
     (case ae_SignedString E
             \<lparr>cl_jti = ae_uuid_String E jti, cl_iss = ''rms-auth'', cl_aud = ''rms-api'',
              cl_user_id = ae_uuid_String E userID, cl_tenant_id = ae_uuid_String E tenantID,
              cl_session_id = sessionID, cl_exp = unix (now + ttl), cl_iat = unix now\<rparr> of
        Inl err \<Rightarrow> throw (AuthFailure err) | Inr token \<Rightarrow> ret token)"

definition failing :: "('s, string, 'a) op \<Rightarrow> ('s, auth_error, 'a) op" where
  "failing m s = (case m s of (s', Inl err) \<Rightarrow> (s', Inl (AuthFailure err)) | (s', Inr v) \<Rightarrow> (s', Inr v))"

definition BlacklistToken :: "gotime \<Rightarrow> string \<Rightarrow> int \<Rightarrow> ('z auth_db_scheme, auth_error, unit) op" where
  "BlacklistToken now jti ttl =
     (if ttl \<le> 0 then ret () else failing (redis_Set now rd_blacklist_update (''blacklist:'' @ jti) ''1'' ttl))"

text \<open>The parsed token: its \<open>jti\<close> and \<open>exp\<close> claims where they have the right type.\<close>

definition BlacklistAccessToken :: "auth_env \<Rightarrow> gotime \<Rightarrow> string \<Rightarrow> ('z auth_db_scheme, auth_error, unit) op" where
  "BlacklistAccessToken E now tokenString =
     (case ae_ParseToken E tokenString of
        Inl err \<Rightarrow> throw (AuthFailure err)
      | Inr (None, _) \<Rightarrow> throw (AuthMessage ''missing jti claim'')
      | Inr (Some jti, expiry) \<Rightarrow>
          (if jti = '''' then throw (AuthMessage ''missing jti claim'')
           else case expiry of
                  None \<Rightarrow> throw (AuthMessage ''missing exp claim'')
                | Some seconds \<Rightarrow> BlacklistToken now jti (seconds * 1000000000 - now)))"

text \<open>A reading that tells a missing key from an error.\<close>

definition redis_Lookup ::
    "gotime \<Rightarrow> ('z db_scheme \<Rightarrow> 'v rcache) \<Rightarrow> string \<Rightarrow> ('z db_scheme, string, 'v option) op" where
  "redis_Lookup now sel key =
     bindE redis_call (\<lambda>_ s. (s, Inr (map_option fst (live_entry now key (sel s)))))"

definition IsTokenBlacklisted :: "gotime \<Rightarrow> string \<Rightarrow> ('z auth_db_scheme, auth_error, bool) op" where
  "IsTokenBlacklisted now jti =
     bindE (failing (redis_Lookup now rd_blacklist (''blacklist:'' @ jti))) (\<lambda>found.
       ret (case found of None \<Rightarrow> False | Some v \<Rightarrow> v = ''1''))"

section \<open>Sessions\<close>

definition sessionKey :: "auth_env \<Rightarrow> uuid \<Rightarrow> string \<Rightarrow> string" where
  "sessionKey E userID sessionID = ''session:'' @ ae_uuid_String E userID @ '':'' @ sessionID"

definition userSessionsKey :: "auth_env \<Rightarrow> uuid \<Rightarrow> string" where
  "userSessionsKey E userID = ''user_sessions:'' @ ae_uuid_String E userID"

definition members :: "auth_env \<Rightarrow> gotime \<Rightarrow> uuid \<Rightarrow> 'z auth_db_scheme \<Rightarrow> string list" where
  "members E now userID s =
     (case live_entry now (userSessionsKey E userID) (rd_user_sessions s) of None \<Rightarrow> [] | Some (ids, _) \<Rightarrow> ids)"

text \<open>
  A \<open>Set\<close> without a positive lifetime sets no deadline; an \<open>Expire\<close> without one deletes the key.
  The commands of a pipeline travel together.
\<close>

definition CreateSession ::
    "auth_env \<Rightarrow> gotime \<Rightarrow> uuid \<Rightarrow> string \<Rightarrow> SessionData \<Rightarrow> int \<Rightarrow> ('z auth_db_scheme, auth_error, unit) op" where
  "CreateSession E now userID sessionID session ttl =
     failing (bindE redis_call (\<lambda>_. modify (\<lambda>s.
       let ids = List.insert sessionID (members E now userID s);
           s = s\<lparr>rd_sessions := AList.update (sessionKey E userID sessionID)
                   (session, if ttl > 0 then Some (now + ttl) else None) (rd_sessions s)\<rparr>
       in if ttl > 0
          then s\<lparr>rd_user_sessions := AList.update (userSessionsKey E userID) (ids, Some (now + ttl)) (rd_user_sessions s)\<rparr>
          else s\<lparr>rd_user_sessions := AList.delete (userSessionsKey E userID) (rd_user_sessions s)\<rparr>)))"

definition GetUserSessions :: "auth_env \<Rightarrow> gotime \<Rightarrow> uuid \<Rightarrow> ('z auth_db_scheme, auth_error, string list) op" where
  "GetUserSessions E now userID = failing (bindE redis_call (\<lambda>_ s. (s, Inr (members E now userID s))))"

definition GetSession :: "auth_env \<Rightarrow> gotime \<Rightarrow> uuid \<Rightarrow> string \<Rightarrow> ('z auth_db_scheme, auth_error, SessionData) op" where
  "GetSession E now userID sessionID =
     bindE (failing (redis_Lookup now rd_sessions (sessionKey E userID sessionID))) (\<lambda>found.
       case found of None \<Rightarrow> throw ErrSessionNotFound | Some session \<Rightarrow> ret session)"

definition RevokeAllUserSessions :: "auth_env \<Rightarrow> gotime \<Rightarrow> uuid \<Rightarrow> ('z auth_db_scheme, auth_error, unit) op" where
  "RevokeAllUserSessions E now userID =
     bindE (GetUserSessions E now userID) (\<lambda>sessionIDs.
       if sessionIDs = [] then ret ()
       else failing (bindE redis_call (\<lambda>_. modify (\<lambda>s.
              s\<lparr>rd_sessions := fold (\<lambda>sessionID. AList.delete (sessionKey E userID sessionID)) sessionIDs (rd_sessions s),
                rd_user_sessions := AList.delete (userSessionsKey E userID) (rd_user_sessions s)\<rparr>))))"

definition RevokeSession :: "auth_env \<Rightarrow> gotime \<Rightarrow> uuid \<Rightarrow> string \<Rightarrow> ('z auth_db_scheme, auth_error, unit) op" where
  "RevokeSession E now userID sessionID =
     failing (bindE redis_call (\<lambda>_. modify (\<lambda>s.
       s\<lparr>rd_sessions := AList.delete (sessionKey E userID sessionID) (rd_sessions s),
         rd_user_sessions :=
           (case live_entry now (userSessionsKey E userID) (rd_user_sessions s) of
              None \<Rightarrow> rd_user_sessions s
            | Some (ids, deadline) \<Rightarrow>
                if removeAll sessionID ids = [] then AList.delete (userSessionsKey E userID) (rd_user_sessions s)
                else AList.update (userSessionsKey E userID) (removeAll sessionID ids, deadline) (rd_user_sessions s))\<rparr>)))"

definition CountUserSessions :: "auth_env \<Rightarrow> gotime \<Rightarrow> uuid \<Rightarrow> ('z auth_db_scheme, auth_error, int) op" where
  "CountUserSessions E now userID =
     failing (bindE redis_call (\<lambda>_ s. (s, Inr (int (length (members E now userID s))))))"

section \<open>Password history\<close>

fun history_check :: "argon2_IDKey \<Rightarrow> int \<Rightarrow> string \<Rightarrow> PasswordHistory list \<Rightarrow> auth_error option" where
  "history_check IDKey limit newPassword [] = None"
| "history_check IDKey limit newPassword (h # hs) =
     (case ComparePwd IDKey newPassword (ph_PasswordHash h) of
        CompareError \<Rightarrow> history_check IDKey limit newPassword hs
      | ComparePanic \<Rightarrow> Some AuthPanic
      | Compared match \<Rightarrow> if match then Some (ErrPasswordReused limit) else history_check IDKey limit newPassword hs)"

definition CheckPasswordHistory ::
    "auth_env \<Rightarrow> int \<Rightarrow> uuid \<Rightarrow> string \<Rightarrow> ('z auth_db_scheme, auth_error, unit) op" where
  "CheckPasswordHistory E limit userID newPassword =
     bindE (db_query AuthFailure (\<lambda>s. take (nat limit)
              (sort_key (\<lambda>h. - ph_CreatedAt h) (filter (\<lambda>h. ph_UserID h = userID) (au_history s))))) (\<lambda>history.
       raise (\<lambda>err. err) (history_check (ae_IDKey E) limit newPassword history))"

definition insert_history :: "PasswordHistory \<Rightarrow> ('z auth_db_scheme, auth_error, unit) op" where
  "insert_history h =
     db_insert AuthFailure (\<lambda>s. ph_PasswordHistoryID h \<in> ph_PasswordHistoryID ` set (au_history s))
       (\<lambda>s. s\<lparr>au_history := au_history s @ [h]\<rparr>)"

definition SavePasswordHistory :: "gotime \<Rightarrow> uuid \<Rightarrow> uuid \<Rightarrow> string \<Rightarrow> ('z auth_db_scheme, auth_error, unit) op" where
  "SavePasswordHistory now historyID userID passwordHash =
     insert_history \<lparr>ph_PasswordHistoryID = historyID, ph_UserID = userID, ph_PasswordHash = passwordHash, ph_CreatedAt = now\<rparr>"

section \<open>Rate limits and lockouts\<close>

text \<open>The script runs at once; the clock is in whole seconds, and a second is its own member.\<close>

definition admitted :: "gotime \<Rightarrow> string \<Rightarrow> int \<Rightarrow> 'z auth_db_scheme \<Rightarrow> int list" where
  "admitted now key windowStart s =
     filter (\<lambda>t. t > windowStart) (case live_entry now key (rd_windows s) of None \<Rightarrow> [] | Some (ts, _) \<Rightarrow> ts)"

definition store_window ::
    "string \<Rightarrow> int list \<Rightarrow> gotime option \<Rightarrow> 'z auth_db_scheme \<Rightarrow> 'z auth_db_scheme" where
  "store_window key ts deadline s =
     s\<lparr>rd_windows := (if ts = [] then AList.delete key (rd_windows s)
                      else AList.update key (ts, deadline) (rd_windows s))\<rparr>"

definition window_script ::
    "gotime \<Rightarrow> string \<Rightarrow> int \<Rightarrow> int \<Rightarrow> 'z auth_db_scheme \<Rightarrow> 'z auth_db_scheme \<times> bool" where
  "window_script now key limit seconds s =
     (let ts = admitted now key (unix now - seconds) s;
          deadline = (case map_of (rd_windows s) key of None \<Rightarrow> None | Some (_, deadline) \<Rightarrow> deadline)
      in if int (length ts) \<ge> limit then (store_window key ts deadline s, False)
         else if seconds > 0
         then (store_window key (List.insert (unix now) ts) (Some (now + seconds * 1000000000)) s, True)
         else (store_window key [] None s, True))"

definition checkRateLimit :: "gotime \<Rightarrow> string \<Rightarrow> int \<Rightarrow> int \<Rightarrow> ('z auth_db_scheme, auth_error, unit) op" where
  "checkRateLimit now key limit win =
     bindE (failing (bindE redis_call (\<lambda>_ s.
              case window_script now key limit (sgn win * (\<bar>win\<bar> div 1000000000)) s of (s', b) \<Rightarrow> (s', Inr b)))) (\<lambda>b.
       if b then ret () else throw ErrRateLimitExceeded)"

definition CheckIPRateLimit :: "gotime \<Rightarrow> string \<Rightarrow> int \<Rightarrow> int \<Rightarrow> ('z auth_db_scheme, auth_error, unit) op" where
  "CheckIPRateLimit now ip limit win = checkRateLimit now (''ratelimit:ip:'' @ ip) limit win"

definition CalculateLockoutDuration :: "int \<Rightarrow> int" where
  "CalculateLockoutDuration failedAttempts =
     (if failedAttempts \<ge> 20 then hours 24
      else if failedAttempts \<ge> 10 then minutes 30
      else if failedAttempts \<ge> 5 then minutes 5
      else 0)"

section \<open>The risk of a login\<close>

definition f_pi :: f64 where
  "f_pi = Fin (884279719003555 / 281474976710656)"

definition calculateDistance :: "auth_env \<Rightarrow> f64 \<Rightarrow> f64 \<Rightarrow> f64 \<Rightarrow> f64 \<Rightarrow> f64" where
  "calculateDistance E lat1 lon1 lat2 lon2 =
     (let rad = (\<lambda>x. f_div (f_mul x f_pi) (Fin 180));
          half_sin = (\<lambda>x. ae_Sin E (f_div x (Fin 2)));
          dLat = rad (f_sub lat2 lat1); dLon = rad (f_sub lon2 lon1); lat1Rad = rad lat1; lat2Rad = rad lat2;
          a = f_add (f_mul (half_sin dLat) (half_sin dLat))
                (f_mul (f_mul (f_mul (ae_Cos E lat1Rad) (ae_Cos E lat2Rad)) (half_sin dLon)) (half_sin dLon));
          c = f_mul (Fin 2) (ae_Atan2 E (ae_Sqrt E a) (ae_Sqrt E (f_sub (Fin 1) a)))
      in f_mul (Fin 6371) c)"

text \<open>\<open>Duration.Hours\<close>: whole hours and the rest, division rounding towards zero.\<close>

definition duration_Hours :: "int \<Rightarrow> f64" where
  "duration_Hours d =
     (let h = hours 1; hour = (if d < 0 then - ((- d) div h) else d div h); nsec = d - hour * h
      in f_add (f_of_int hour) (f_div (f_of_int nsec) (f_of_int h)))"

definition isImpossibleTravel :: "auth_env \<Rightarrow> gotime \<Rightarrow> string \<Rightarrow> string \<Rightarrow> gotime option \<Rightarrow> bool" where
  "isImpossibleTravel E now lastIP currentIP lastLoginAt =
     (case lastLoginAt of
        None \<Rightarrow> False
      | Some t \<Rightarrow>
          let (lastLat, lastLon) = ae_GetCoordinates E lastIP; (currentLat, currentLon) = ae_GetCoordinates E currentIP
          in f_lt (f_mul (duration_Hours (now - t)) (Fin 1000)) (calculateDistance E lastLat lastLon currentLat currentLon))"

record RiskScore =
  rk_Score :: int
  rk_Factors :: "string list"
  rk_RequiresMFA :: bool

definition risk_of_address :: "auth_env \<Rightarrow> gotime \<Rightarrow> User \<Rightarrow> string \<Rightarrow> int \<times> string list" where
  "risk_of_address E now user ipAddress =
     (if us_LastLoginIP user \<noteq> '''' \<and> us_LastLoginIP user \<noteq> ipAddress
      then let country = ae_GetCountry E (us_LastLoginIP user) \<noteq> ae_GetCountry E ipAddress;
               travel = isImpossibleTravel E now (us_LastLoginIP user) ipAddress (us_LastLoginAt user)
           in (20 + (if country then 30 else 0) + (if travel then 50 else 0),
               [''ip_changed''] @ (if country then [''country_changed''] else [])
                 @ (if travel then [''impossible_travel''] else []))
      else (0, []))"

definition find_device :: "uuid \<Rightarrow> string \<Rightarrow> ('z auth_db_scheme, string, DeviceRegistry) op" where
  "find_device userID deviceFingerprint =
     db_First ''record not found'' (\<lambda>err. err) dv_DeviceID au_devices
       (\<lambda>d. dv_UserID d = userID \<and> dv_DeviceFingerprint d = deviceFingerprint)"

definition CalculateRiskScore ::
    "auth_env \<Rightarrow> gotime \<Rightarrow> User \<Rightarrow> string \<Rightarrow> string \<Rightarrow> ('z auth_db_scheme, auth_error, RiskScore) op" where
  "CalculateRiskScore E now user ipAddress deviceFingerprint =
     bindE (try_get (find_device (us_UserID user) deviceFingerprint)) (\<lambda>device.
       let (score, factors) = risk_of_address E now user ipAddress;
           (score, factors) =
             (case device of
                None \<Rightarrow> (score + 25, factors @ [''new_device''])
              | Some d \<Rightarrow> if \<not> dv_IsTrusted d then (score + 15, factors @ [''untrusted_device'']) else (score, factors));
           (score, factors) =
             (if us_FailedLoginAttempts user > 0
              then (score + us_FailedLoginAttempts user * 5, factors @ [''recent_failed_attempts'']) else (score, factors))
       in ret \<lparr>rk_Score = score, rk_Factors = factors, rk_RequiresMFA = score \<ge> 50\<rparr>)"

section \<open>Events and devices\<close>

definition LogSecurityEvent ::
    "auth_env \<Rightarrow> gotime \<Rightarrow> uuid option \<Rightarrow> string \<Rightarrow> string \<Rightarrow> string \<Rightarrow> string \<Rightarrow> bool \<Rightarrow> ('z auth_db_scheme, 'e, unit) op" where
  "LogSecurityEvent E now userID eventType severity ipAddress userAgent success =
     ignore (db_write (\<lambda>err. err) (\<lambda>s. s\<lparr>au_events := au_events s @
       [\<lparr>se_UserID = userID, se_EventType = eventType, se_EventSeverity = severity, se_IPAddress = ipAddress,
         se_UserAgent = userAgent, se_Location = ae_Lookup E ipAddress, se_Success = success, se_Timestamp = now\<rparr>]\<rparr>))"

definition parseDeviceName :: "string \<Rightarrow> string" where
  "parseDeviceName userAgent =
     (let ua = ToLower userAgent;
          browser = (if str_Contains ua ''chrome'' then ''Chrome'' else if str_Contains ua ''firefox'' then ''Firefox''
                     else if str_Contains ua ''safari'' then ''Safari'' else if str_Contains ua ''edge'' then ''Edge''
                     else ''Unknown'');
          os = (if str_Contains ua ''windows'' then ''Windows'' else if str_Contains ua ''mac'' then ''macOS''
                else if str_Contains ua ''linux'' then ''Linux'' else if str_Contains ua ''android'' then ''Android''
                else if str_Contains ua ''iphone'' \<or> str_Contains ua ''ipad'' then ''iOS'' else ''Unknown'')
      in browser @ '' on '' @ os)"

definition new_device :: "gotime \<Rightarrow> uuid \<Rightarrow> uuid \<Rightarrow> string \<Rightarrow> string \<Rightarrow> string \<Rightarrow> string \<Rightarrow> DeviceRegistry" where
  "new_device now deviceID userID deviceFingerprint ipAddress userAgent location =
     \<lparr>dv_DeviceID = deviceID, dv_UserID = userID, dv_DeviceFingerprint = deviceFingerprint,
      dv_DeviceName = parseDeviceName userAgent, dv_IsTrusted = False, dv_LoginCount = 0, dv_FirstSeenAt = now,
      dv_LastSeenAt = now, dv_LastSeenIP = ipAddress, dv_LastSeenLocation = location\<rparr>"

definition seen_device :: "gotime \<Rightarrow> string \<Rightarrow> string \<Rightarrow> DeviceRegistry \<Rightarrow> DeviceRegistry" where
  "seen_device now ipAddress location d =
     d\<lparr>dv_LastSeenAt := now, dv_LastSeenIP := ipAddress, dv_LastSeenLocation := location,
       dv_IsTrusted := dv_IsTrusted d \<or> dv_LoginCount d \<ge> 5, dv_LoginCount := dv_LoginCount d + 1\<rparr>"

definition RegisterOrUpdateDevice ::
    "gotime \<Rightarrow> uuid \<Rightarrow> uuid \<Rightarrow> string \<Rightarrow> string \<Rightarrow> string \<Rightarrow> string \<Rightarrow> ('z auth_db_scheme, auth_error, DeviceRegistry) op" where
  "RegisterOrUpdateDevice now deviceID userID deviceFingerprint ipAddress userAgent location =
     bindE (try_get (find_device userID deviceFingerprint)) (\<lambda>found.
       case found of
         None \<Rightarrow>
           let d = new_device now deviceID userID deviceFingerprint ipAddress userAgent location
           in thenE (db_insert AuthFailure (\<lambda>s. deviceID \<in> dv_DeviceID ` set (au_devices s))
                       (\<lambda>s. s\<lparr>au_devices := au_devices s @ [d]\<rparr>)) (ret d)
       | Some device \<Rightarrow>
           let d = seen_device now ipAddress location device
           in thenE (db_write AuthFailure (\<lambda>s. s\<lparr>au_devices :=
                       update_rows (\<lambda>x. dv_DeviceID x = dv_DeviceID device) (\<lambda>_. d) (au_devices s)\<rparr>)) (ret d))"

end
