(* ===== verification/Auth_Service.thy ===== *)
theory Auth_Service
  imports Auth_Records
begin

text \<open>
  The authentication service of \<open>services/core/auth.go\<close>: registration, login with its checks and
  lockouts, the second factor, rotation of refresh tokens, and changing a password.

  \<open>Updates\<close> on a loaded user writes the columns to the row and, whatever becomes of the query, to
  the loaded value.  A deleted user is invisible to every query.
\<close>

record TokenDuration =
  ttl_AccessToken :: int
  ttl_RefreshToken :: int

record TokenTTLConfig =
  tt_ByRole :: "(string \<times> TokenDuration) list"
  tt_ByDevice :: "(string \<times> TokenDuration) list"
  tt_Default :: TokenDuration

record auth_config =
  ac_ttlConfig :: TokenTTLConfig
  ac_maxSessions :: int
  ac_passwordMinLen :: int
  ac_passwordHistory :: int
  ac_breachCheckEnabled :: bool

text \<open>What one call draws: identifiers and random bytes.\<close>

record auth_draw =
  ad_random :: "string + string"
  ad_salt :: "string + string"
  ad_jti :: uuid
  ad_session :: uuid
  ad_token :: uuid
  ad_device :: uuid
  ad_user :: uuid
  ad_history :: uuid
  ad_tenant :: uuid

text \<open>Where a request comes from.\<close>

record origin =
  og_ipAddress :: string
  og_userAgent :: string
  og_deviceFingerprint :: string

record LoginRequest =
  lr_Email :: string
  lr_Password :: string
  lr_DeviceType :: string

record RegisterRequest =
  rr_Email :: string
  rr_TenantID :: uuid
  rr_UserName :: string
  rr_Password :: string
  rr_FullName :: string
  rr_Phone :: string

record RegisterResponse =
  rp_UserID :: uuid
  rp_Email :: string
  rp_FullName :: string

record UserInfo =
  ui_UserID :: uuid
  ui_Email :: string
  ui_FullName :: string
  ui_TenantID :: uuid
  ui_TenantName :: string
  ui_DefaultRole :: string

record LoginResponse =
  lp_Token :: "string option"
  lp_RefreshToken :: "string option"
  lp_ExpiresAt :: "gotime option"
  lp_User :: "UserInfo option"
  lp_Requires2FA :: bool
  lp_PendingSessionID :: string
  lp_Message :: string

section \<open>Helpers\<close>

definition determineTokenTTL :: "auth_config \<Rightarrow> string \<Rightarrow> string \<Rightarrow> TokenDuration" where
  "determineTokenTTL cfg userRole deviceType =
     (case map_of (tt_ByRole (ac_ttlConfig cfg)) userRole of
        Some ttl \<Rightarrow> ttl
      | None \<Rightarrow>
          (case map_of (tt_ByDevice (ac_ttlConfig cfg)) deviceType of
             Some ttl \<Rightarrow> ttl | None \<Rightarrow> tt_Default (ac_ttlConfig cfg)))"

definition revokeAllRefreshTokens :: "gotime \<Rightarrow> uuid \<Rightarrow> string \<Rightarrow> ('z auth_db_scheme, auth_error, unit) op" where
  "revokeAllRefreshTokens now userID reason =
     db_write AuthFailure (\<lambda>s. s\<lparr>au_refresh := update_rows (\<lambda>t. rt_UserID t = userID)
       (\<lambda>t. t\<lparr>rt_IsRevoked := True, rt_RevokedAt := Some now, rt_RevokedReason := reason\<rparr>) (au_refresh s)\<rparr>)"

definition createEmailVerificationToken ::
    "gotime \<Rightarrow> auth_draw \<Rightarrow> uuid \<Rightarrow> ('z auth_db_scheme, auth_error, string) op" where
  "createEmailVerificationToken now d userID =
     bindE (GenerateSecureToken (ad_random d)) (\<lambda>token.
       thenE (db_insert AuthFailure
                (\<lambda>s. \<exists>v \<in> set (au_verify s). ev_TokenID v = ad_token d \<or> ev_Token v = token)
                (\<lambda>s. s\<lparr>au_verify := au_verify s @ [\<lparr>ev_TokenID = ad_token d, ev_UserID = userID, ev_Token = token,
                        ev_ExpiresAt = now + hours 24, ev_CreatedAt = now\<rparr>]\<rparr>))
         (ret token))"

definition createPending2FASession ::
    "auth_env \<Rightarrow> gotime \<Rightarrow> auth_draw \<Rightarrow> uuid \<Rightarrow> origin \<Rightarrow> ('z auth_db_scheme, auth_error, string) op" where
  "createPending2FASession E now d userID og =
     (let sessionID = ae_uuid_String E (ad_session d);
          sessionData = [(''user_id'', ae_uuid_String E userID), (''ip_address'', og_ipAddress og),
                         (''user_agent'', og_userAgent og)]
      in thenE (failing (redis_Set now rd_pending_update (''pending_2fa:'' @ sessionID) sessionData (minutes 5)))
           (ret sessionID))"

definition user_by_email :: "string \<Rightarrow> ('z auth_db_scheme, string, User) op" where
  "user_by_email email =
     db_First ''record not found'' (\<lambda>err. err) us_UserID au_users
       (\<lambda>u. us_Email u = ToLower email \<and> us_DeletedAt u = None)"

definition user_by_id :: "uuid \<Rightarrow> ('z auth_db_scheme, string, User) op" where
  "user_by_id userID =
     db_First ''record not found'' (\<lambda>err. err) us_UserID au_users
       (\<lambda>u. us_UserID u = userID \<and> us_DeletedAt u = None)"

definition update_user :: "User \<Rightarrow> (User \<Rightarrow> User) \<Rightarrow> ('z auth_db_scheme, auth_error, unit) op" where
  "update_user user f =
     db_write AuthFailure (\<lambda>s. s\<lparr>au_users :=
       update_rows (\<lambda>u. us_UserID u = us_UserID user \<and> us_DeletedAt u = None) f (au_users s)\<rparr>)"

definition log_event ::
    "auth_env \<Rightarrow> gotime \<Rightarrow> origin \<Rightarrow> uuid option \<Rightarrow> string \<Rightarrow> string \<Rightarrow> bool \<Rightarrow> ('z auth_db_scheme, 'e, unit) op" where
  "log_event E now og userID eventType severity success =
     LogSecurityEvent E now userID eventType severity (og_ipAddress og) (og_userAgent og) success"

definition handleFailedLogin :: "auth_env \<Rightarrow> gotime \<Rightarrow> origin \<Rightarrow> User \<Rightarrow> ('z auth_db_scheme, auth_error, unit) op" where
  "handleFailedLogin E now og user =
     (let attempts = us_FailedLoginAttempts user + 1; lockout = CalculateLockoutDuration attempts
      in if lockout > 0
         then thenE (log_event E now og (Some (us_UserID user)) EventAccountLocked SeverityCritical False)
                (ignore (update_user user
                   (\<lambda>u. u\<lparr>us_FailedLoginAttempts := attempts, us_LockedUntil := Some (now + lockout)\<rparr>)))
         else thenE (log_event E now og (Some (us_UserID user)) EventLoginFailed SeverityWarning False)
                (ignore (update_user user (\<lambda>u. u\<lparr>us_FailedLoginAttempts := attempts\<rparr>))))"

section \<open>Tokens for a session\<close>

definition insert_refresh :: "RefreshToken \<Rightarrow> ('z auth_db_scheme, auth_error, unit) op" where
  "insert_refresh t =
     db_insert AuthFailure
       (\<lambda>s. \<exists>t' \<in> set (au_refresh s). rt_TokenID t' = rt_TokenID t \<or> rt_TokenHash t' = rt_TokenHash t)
       (\<lambda>s. s\<lparr>au_refresh := au_refresh s @ [t]\<rparr>)"

definition new_refresh ::
    "auth_env \<Rightarrow> gotime \<Rightarrow> auth_draw \<Rightarrow> origin \<Rightarrow> User \<Rightarrow> string \<Rightarrow> string \<Rightarrow> TokenDuration \<Rightarrow> RefreshToken" where
  "new_refresh E now d og user token deviceType ttl =
     \<lparr>rt_TokenID = ad_token d, rt_UserID = us_UserID user, rt_TokenHash = HashToken E token,
      rt_DeviceID = ae_uuid_String E (ad_session d), rt_DeviceFingerprint = og_deviceFingerprint og,
      rt_DeviceType = deviceType, rt_UserRole = us_PrimaryRole user, rt_IPAddress = og_ipAddress og,
      rt_UserAgent = og_userAgent og, rt_Location = ae_Lookup E (og_ipAddress og),
      rt_ExpiresAt = now + ttl_RefreshToken ttl, rt_IsRevoked = False, rt_RevokedAt = None,
      rt_RevokedReason = '''', rt_CreatedAt = now\<rparr>"

definition user_info :: "User \<Rightarrow> string \<Rightarrow> UserInfo" where
  "user_info user tenantName =
     \<lparr>ui_UserID = us_UserID user, ui_Email = us_Email user, ui_FullName = us_FullName user,
      ui_TenantID = us_TenantID user, ui_TenantName = tenantName, ui_DefaultRole = us_PrimaryRole user\<rparr>"

definition session_data :: "gotime \<Rightarrow> origin \<Rightarrow> User \<Rightarrow> string \<Rightarrow> SessionData" where
  "session_data now og user deviceType =
     \<lparr>sd_UserID = us_UserID user, sd_TenantID = us_TenantID user, sd_Email = us_Email user,
      sd_Role = us_PrimaryRole user, sd_DeviceType = deviceType, sd_IPAddress = og_ipAddress og,
      sd_UserAgent = og_userAgent og, sd_LoginAt = now\<rparr>"

definition tenant_by_id :: "uuid \<Rightarrow> ('z auth_db_scheme, string, Tenant) op" where
  "tenant_by_id tenantID =
     db_First ''record not found'' (\<lambda>err. err) tn_TenantID au_tenants (\<lambda>t. tn_TenantID t = tenantID)"

definition createAuthTokensWithTTL ::
    "auth_env \<Rightarrow> gotime \<Rightarrow> auth_draw \<Rightarrow> origin \<Rightarrow> User \<Rightarrow> string \<Rightarrow> TokenDuration
       \<Rightarrow> ('z auth_db_scheme, auth_error, LoginResponse) op" where
  "createAuthTokensWithTTL E now d og user deviceType ttl =
     (let sessionID = ae_uuid_String E (ad_session d)
      in bindE (GenerateAccessToken E now (ad_jti d) (us_UserID user) (us_TenantID user) sessionID (ttl_AccessToken ttl))
           (\<lambda>accessToken.
         bindE (GenerateSecureToken (ad_random d)) (\<lambda>refresh.
         thenE (insert_refresh (new_refresh E now d og user refresh deviceType ttl))
        (thenE (CreateSession E now (us_UserID user) sessionID (session_data now og user deviceType) (ttl_AccessToken ttl))
        (bindE (try_get (tenant_by_id (us_TenantID user))) (\<lambda>tenant.
           ret \<lparr>lp_Token = Some accessToken, lp_RefreshToken = Some refresh,
                lp_ExpiresAt = Some (now + ttl_AccessToken ttl),
                lp_User = Some (user_info user (case tenant of Some t \<Rightarrow> tn_Name t | None \<Rightarrow> '''')),
                lp_Requires2FA = False, lp_PendingSessionID = '''', lp_Message = ''''\<rparr>))))))"

text \<open>A full login, once the user is known to be who they say.\<close>

definition establish ::
    "auth_env \<Rightarrow> auth_config \<Rightarrow> gotime \<Rightarrow> auth_draw \<Rightarrow> origin \<Rightarrow> User \<Rightarrow> string \<Rightarrow> string
       \<Rightarrow> ('z auth_db_scheme, auth_error, LoginResponse) op" where
  "establish E cfg now d og user deviceType event =
     bindE (CountUserSessions E now (us_UserID user)) (\<lambda>sessionCount.
       if sessionCount \<ge> ac_maxSessions cfg then throw ErrMaxSessionsReached
       else let ttl = determineTokenTTL cfg (us_PrimaryRole user) deviceType; location = ae_Lookup E (og_ipAddress og)
       in bindE (createAuthTokensWithTTL E now d og user deviceType ttl) (\<lambda>tokens.
          thenE (ignore (update_user user (\<lambda>u. u\<lparr>us_LastLoginAt := Some now, us_LastLoginIP := og_ipAddress og,
                   us_LastLoginLocation := location\<rparr>)))
         (thenE (ignore (RegisterOrUpdateDevice now (ad_device d) (us_UserID user) (og_deviceFingerprint og)
                   (og_ipAddress og) (og_userAgent og) location))
         (thenE (log_event E now og (Some (us_UserID user)) event SeverityInfo True)
           (ret tokens)))))"

section \<open>Login\<close>

definition reset_attempts :: "User \<Rightarrow> User" where
  "reset_attempts u = (if us_FailedLoginAttempts u > 0 then u\<lparr>us_FailedLoginAttempts := 0, us_LockedUntil := None\<rparr> else u)"

definition second_factor ::
    "auth_env \<Rightarrow> gotime \<Rightarrow> auth_draw \<Rightarrow> origin \<Rightarrow> User \<Rightarrow> ('z auth_db_scheme, auth_error, LoginResponse) op" where
  "second_factor E now d og user =
     bindE (createPending2FASession E now d (us_UserID user) og) (\<lambda>pendingSessionID.
       thenE (log_event E now og (Some (us_UserID user)) EventHighRiskAccess SeverityWarning True)
         (ret \<lparr>lp_Token = None, lp_RefreshToken = None, lp_ExpiresAt = None, lp_User = None, lp_Requires2FA = True,
               lp_PendingSessionID = pendingSessionID, lp_Message = ''2FA required for this login''\<rparr>))"

definition authenticated ::
    "auth_env \<Rightarrow> auth_config \<Rightarrow> gotime \<Rightarrow> auth_draw \<Rightarrow> origin \<Rightarrow> LoginRequest \<Rightarrow> User
       \<Rightarrow> ('z auth_db_scheme, auth_error, LoginResponse) op" where
  "authenticated E cfg now d og req user =
     thenE (if us_FailedLoginAttempts user > 0
            then ignore (update_user user (\<lambda>u. u\<lparr>us_FailedLoginAttempts := 0, us_LockedUntil := None\<rparr>)) else ret ())
       (let user = reset_attempts user
        in bindE (CalculateRiskScore E now user (og_ipAddress og) (og_deviceFingerprint og)) (\<lambda>risk.
             if rk_RequiresMFA risk \<or> us_TwoFactorEnabled user then second_factor E now d og user
             else establish E cfg now d og user (if lr_DeviceType req \<noteq> '''' then lr_DeviceType req else ''web'')
                    EventLoginSuccess))"

definition locked_until :: "gotime \<Rightarrow> User \<Rightarrow> gotime option" where
  "locked_until now user = Option.bind (us_LockedUntil user) (\<lambda>until. if until > now then Some until else None)"

definition login_user ::
    "auth_env \<Rightarrow> auth_config \<Rightarrow> gotime \<Rightarrow> auth_draw \<Rightarrow> origin \<Rightarrow> LoginRequest \<Rightarrow> User
       \<Rightarrow> ('z auth_db_scheme, auth_error, LoginResponse) op" where
  "login_user E cfg now d og req user =
     (case locked_until now user of
        Some until \<Rightarrow>
          thenE (log_event E now og (Some (us_UserID user)) EventLoginBlockedLocked SeverityWarning False)
            (throw (ErrAccountLocked until))
      | None \<Rightarrow>
          if \<not> us_IsActive user
          then thenE (log_event E now og (Some (us_UserID user)) EventLoginBlockedInactive SeverityWarning False)
                 (throw ErrAccountInactive)
          else if \<not> us_IsEmailVerified user then throw ErrEmailNotVerified
          else case ComparePwd (ae_IDKey E) (lr_Password req) (us_PasswordHash user) of
                 ComparePanic \<Rightarrow> throw AuthPanic
               | CompareError \<Rightarrow> thenE (handleFailedLogin E now og user) (throw ErrInvalidCredentials)
               | Compared match \<Rightarrow>
                   if match then authenticated E cfg now d og req user
                   else thenE (handleFailedLogin E now og user) (throw ErrInvalidCredentials))"

definition or_fail :: "'f \<Rightarrow> ('s, 'e, 'a) op \<Rightarrow> ('s, 'f, 'a) op" where
  "or_fail err m s = (case m s of (s', Inl _) \<Rightarrow> (s', Inl err) | (s', Inr v) \<Rightarrow> (s', Inr v))"

definition Login ::
    "auth_env \<Rightarrow> auth_config \<Rightarrow> gotime \<Rightarrow> auth_draw \<Rightarrow> origin \<Rightarrow> LoginRequest
       \<Rightarrow> ('z auth_db_scheme, auth_error, LoginResponse) op" where
  "Login E cfg now d og req =
     thenE (or_fail ErrRateLimitExceeded (CheckIPRateLimit now (og_ipAddress og) 10 (minutes 1)))
       (bindE (try_get (user_by_email (lr_Email req))) (\<lambda>found.
          case found of
            None \<Rightarrow> thenE (log_event E now og None EventLoginFailed SeverityWarning False) (throw ErrInvalidCredentials)
          | Some user \<Rightarrow> login_user E cfg now d og req user))"

section \<open>Registration\<close>

text \<open>The index of the user names does not include the tenant.\<close>

definition insert_user :: "User \<Rightarrow> ('z auth_db_scheme, auth_error, unit) op" where
  "insert_user u =
     db_insert AuthFailure
       (\<lambda>s. \<exists>u' \<in> set (au_users s). us_UserID u' = us_UserID u \<or> us_UserName u' = us_UserName u
            \<or> us_Email u' = us_Email u \<and> us_TenantID u' = us_TenantID u)
       (\<lambda>s. s\<lparr>au_users := au_users s @ [u]\<rparr>)"

definition new_user :: "auth_draw \<Rightarrow> RegisterRequest \<Rightarrow> string \<Rightarrow> User" where
  "new_user d req passwordHash =
     \<lparr>us_UserID = ad_user d, us_UserName = rr_UserName req, us_FullName = rr_FullName req,
      us_Email = ToLower (rr_Email req), us_Phone = rr_Phone req, us_PasswordHash = passwordHash, us_IsActive = True,
      us_TenantID = rr_TenantID req, us_DeletedAt = None, us_PrimaryRole = '''', us_IsEmailVerified = False,
      us_TwoFactorEnabled = False, us_TwoFactorSecret = '''', us_FailedLoginAttempts = 0, us_LockedUntil = None,
      us_LastLoginAt = None, us_LastLoginIP = '''', us_LastLoginLocation = '''', us_PasswordChangedAt = None,
      us_IsDeleted = False, us_GoogleID = '''', us_AvatarURL = ''''\<rparr>"

definition check_new_password :: "auth_env \<Rightarrow> auth_config \<Rightarrow> string \<Rightarrow> ('s, auth_error, unit) op" where
  "check_new_password E cfg password =
     thenE (raise ErrPasswordTooWeak (ValidatePasswordStrength (ac_passwordMinLen cfg) password))
       (if CheckPasswordBreach (ac_breachCheckEnabled cfg) (ae_sha1 E) (ae_range_api E) password
        then throw ErrPasswordBreached else ret ())"

definition hash_password :: "auth_env \<Rightarrow> auth_draw \<Rightarrow> string \<Rightarrow> ('s, auth_error, string) op" where
  "hash_password E d password =
     (case HashPwd (ae_IDKey E) (ad_salt d) password of Inl err \<Rightarrow> throw (AuthFailure err) | Inr h \<Rightarrow> ret h)"

text \<open>The account, its first password and the token that confirms its address.\<close>

definition register_user ::
    "auth_env \<Rightarrow> gotime \<Rightarrow> auth_draw \<Rightarrow> origin \<Rightarrow> User \<Rightarrow> string \<Rightarrow> ('z auth_db_scheme, auth_error, RegisterResponse) op" where
  "register_user E now d og user passwordHash =
     thenE (transaction AuthFailure
         (thenE (insert_user user) (SavePasswordHistory now (ad_history d) (us_UserID user) passwordHash)))
    (bindE (createEmailVerificationToken now d (us_UserID user)) (\<lambda>verificationToken.
       thenE (log_event E now og (Some (us_UserID user)) EventUserRegistered SeverityInfo True)
         (ret \<lparr>rp_UserID = us_UserID user, rp_Email = us_Email user, rp_FullName = us_FullName user\<rparr>)))"

definition Register ::
    "auth_env \<Rightarrow> auth_config \<Rightarrow> gotime \<Rightarrow> auth_draw \<Rightarrow> origin \<Rightarrow> RegisterRequest
       \<Rightarrow> ('z auth_db_scheme, auth_error, RegisterResponse) op" where
  "Register E cfg now d og req =
     thenE (check_new_password E cfg (rr_Password req))
    (bindE (try_get (user_by_email (rr_Email req))) (\<lambda>existing.
       if existing \<noteq> None then throw (AuthMessage ''user already exists'')
       else bindE (hash_password E d (rr_Password req)) (\<lambda>passwordHash.
              register_user E now d og (new_user d req passwordHash) passwordHash)))"

section \<open>Passwords\<close>

definition store_password ::
    "gotime \<Rightarrow> auth_draw \<Rightarrow> User \<Rightarrow> string \<Rightarrow> ('z auth_db_scheme, auth_error, unit) op" where
  "store_password now d user newHash =
     transaction AuthFailure
       (thenE (update_user user (\<lambda>u. u\<lparr>us_PasswordHash := newHash, us_PasswordChangedAt := Some now\<rparr>))
          (SavePasswordHistory now (ad_history d) (us_UserID user) newHash))"

definition replace_password ::
    "auth_env \<Rightarrow> auth_config \<Rightarrow> gotime \<Rightarrow> auth_draw \<Rightarrow> origin \<Rightarrow> User \<Rightarrow> string \<Rightarrow> string
       \<Rightarrow> ('z auth_db_scheme, auth_error, unit) op" where
  "replace_password E cfg now d og user newPassword reason =
     thenE (check_new_password E cfg newPassword)
    (thenE (CheckPasswordHistory E (ac_passwordHistory cfg) (us_UserID user) newPassword)
    (bindE (hash_password E d newPassword) (\<lambda>newHash.
       thenE (store_password now d user newHash)
      (thenE (ignore (RevokeAllUserSessions E now (us_UserID user)))
      (thenE (ignore (revokeAllRefreshTokens now (us_UserID user) reason))
         (log_event E now og (Some (us_UserID user)) EventPasswordChanged SeverityInfo True))))))"

definition ChangePassword ::
    "auth_env \<Rightarrow> auth_config \<Rightarrow> gotime \<Rightarrow> auth_draw \<Rightarrow> origin \<Rightarrow> uuid \<Rightarrow> string \<Rightarrow> string
       \<Rightarrow> ('z auth_db_scheme, auth_error, unit) op" where
  "ChangePassword E cfg now d og userID oldPassword newPassword =
     bindE (failing (user_by_id userID)) (\<lambda>user.
       case ComparePwd (ae_IDKey E) oldPassword (us_PasswordHash user) of
         ComparePanic \<Rightarrow> throw AuthPanic
       | CompareError \<Rightarrow> throw (AuthMessage ''incorrect current password'')
       | Compared match \<Rightarrow>
           if match then replace_password E cfg now d og user newPassword ''password_changed''
           else throw (AuthMessage ''incorrect current password''))"

definition ResetPassword ::
    "auth_env \<Rightarrow> auth_config \<Rightarrow> gotime \<Rightarrow> auth_draw \<Rightarrow> origin \<Rightarrow> string \<Rightarrow> string
       \<Rightarrow> ('z auth_db_scheme, auth_error, unit) op" where
  "ResetPassword E cfg now d og email newPassword =
     bindE (or_fail (AuthMessage ''user not found'') (user_by_email email)) (\<lambda>user.
       replace_password E cfg now d og user newPassword ''password_reset'')"

section \<open>Rotation\<close>

definition rotated :: "auth_env \<Rightarrow> auth_config \<Rightarrow> gotime \<Rightarrow> auth_draw \<Rightarrow> origin \<Rightarrow> RefreshToken \<Rightarrow> string \<Rightarrow> RefreshToken" where
  "rotated E cfg now d og old raw =
     \<lparr>rt_TokenID = ad_token d, rt_UserID = rt_UserID old, rt_TokenHash = HashToken E raw, rt_DeviceID = rt_DeviceID old,
      rt_DeviceFingerprint = rt_DeviceFingerprint old, rt_DeviceType = rt_DeviceType old, rt_UserRole = rt_UserRole old,
      rt_IPAddress = og_ipAddress og, rt_UserAgent = og_userAgent og, rt_Location = ae_Lookup E (og_ipAddress og),
      rt_ExpiresAt = now + ttl_RefreshToken (determineTokenTTL cfg (rt_UserRole old) (rt_DeviceType old)),
      rt_IsRevoked = False, rt_RevokedAt = None, rt_RevokedReason = '''', rt_CreatedAt = now\<rparr>"

definition rotate_token ::
    "auth_env \<Rightarrow> auth_config \<Rightarrow> gotime \<Rightarrow> auth_draw \<Rightarrow> origin \<Rightarrow> RefreshToken \<Rightarrow> ('z auth_db_scheme, auth_error, string) op" where
  "rotate_token E cfg now d og old =
     transaction AuthFailure
       (thenE (db_write AuthFailure (\<lambda>s. s\<lparr>au_refresh := update_rows (\<lambda>t. rt_TokenID t = rt_TokenID old)
                 (\<lambda>t. t\<lparr>rt_IsRevoked := True, rt_RevokedAt := Some now, rt_RevokedReason := ''rotated''\<rparr>) (au_refresh s)\<rparr>))
         (bindE (GenerateSecureToken (ad_random d)) (\<lambda>raw.
            thenE (insert_refresh (rotated E cfg now d og old raw)) (ret raw))))"

definition token_reused ::
    "auth_env \<Rightarrow> gotime \<Rightarrow> origin \<Rightarrow> RefreshToken \<Rightarrow> ('z auth_db_scheme, auth_error, LoginResponse) op" where
  "token_reused E now og old =
     thenE (ignore (revokeAllRefreshTokens now (rt_UserID old) ''token_reuse_detected''))
    (thenE (ignore (RevokeAllUserSessions E now (rt_UserID old)))
    (thenE (log_event E now og (Some (rt_UserID old)) EventTokenReuse SeverityCritical False)
       (throw ErrInvalidToken)))"

definition find_refresh :: "auth_env \<Rightarrow> gotime \<Rightarrow> string \<Rightarrow> ('z auth_db_scheme, auth_error, RefreshToken) op" where
  "find_refresh E now token =
     or_fail ErrInvalidToken (db_First '''' (\<lambda>err. err) rt_TokenID au_refresh
       (\<lambda>t. rt_TokenHash t = HashToken E token \<and> rt_ExpiresAt t > now))"

text \<open>The rest of the call, for the row that was found.\<close>

definition refresh_with ::
    "auth_env \<Rightarrow> auth_config \<Rightarrow> gotime \<Rightarrow> auth_draw \<Rightarrow> origin \<Rightarrow> RefreshToken \<Rightarrow> ('z auth_db_scheme, auth_error, LoginResponse) op" where
  "refresh_with E cfg now d og old =
     bindE (rotate_token E cfg now d og old) (\<lambda>raw.
     bindE (failing (user_by_id (rt_UserID old))) (\<lambda>user.
       let ttl = determineTokenTTL cfg (rt_UserRole old) (rt_DeviceType old)
       in bindE (GenerateAccessToken E now (ad_jti d) (us_UserID user) (us_TenantID user) (rt_DeviceID old)
                   (ttl_AccessToken ttl)) (\<lambda>accessToken.
          thenE (log_event E now og (Some (rt_UserID old)) EventLoginSuccess SeverityInfo True)
            (ret \<lparr>lp_Token = Some accessToken, lp_RefreshToken = Some raw,
                  lp_ExpiresAt = Some (now + ttl_AccessToken ttl), lp_User = None, lp_Requires2FA = False,
                  lp_PendingSessionID = '''', lp_Message = ''''\<rparr>))))"

definition RefreshAccessToken ::
    "auth_env \<Rightarrow> auth_config \<Rightarrow> gotime \<Rightarrow> auth_draw \<Rightarrow> origin \<Rightarrow> string \<Rightarrow> ('z auth_db_scheme, auth_error, LoginResponse) op" where
  "RefreshAccessToken E cfg now d og token =
     bindE (find_refresh E now token) (\<lambda>old.
       if rt_IsRevoked old then token_reused E now og old else refresh_with E cfg now d og old)"

section \<open>The second factor\<close>

definition redis_GetDel :: "gotime \<Rightarrow> string \<Rightarrow> ('z auth_db_scheme, string, (string \<times> string) list option) op" where
  "redis_GetDel now key =
     bindE redis_call (\<lambda>_ s. (s\<lparr>rd_pending := AList.delete key (rd_pending s)\<rparr>,
       Inr (map_option fst (live_entry now key (rd_pending s)))))"

definition pending_device :: "(string \<times> string) list \<Rightarrow> string" where
  "pending_device sessionData =
     (case map_of sessionData ''device_type'' of Some dt \<Rightarrow> if dt \<noteq> '''' then dt else ''web'' | None \<Rightarrow> ''web'')"

definition verify_code ::
    "auth_env \<Rightarrow> auth_config \<Rightarrow> gotime \<Rightarrow> auth_draw \<Rightarrow> origin \<Rightarrow> string \<Rightarrow> (string \<times> string) list \<Rightarrow> uuid
       \<Rightarrow> ('z auth_db_scheme, auth_error, LoginResponse) op" where
  "verify_code E cfg now d og totpCode sessionData userID =
     bindE (or_fail ErrInvalidCredentials (user_by_id userID)) (\<lambda>user.
       if \<not> ae_totp_Validate E now totpCode (us_TwoFactorSecret user)
       then thenE (log_event E now og (Some (us_UserID user)) Event2FAVerificationFailed SeverityWarning False)
              (throw ErrInvalid2FACode)
       else establish E cfg now d og user (pending_device sessionData) Event2FAVerificationSuccess)"

definition Verify2FA ::
    "auth_env \<Rightarrow> auth_config \<Rightarrow> gotime \<Rightarrow> auth_draw \<Rightarrow> origin \<Rightarrow> string \<Rightarrow> string
       \<Rightarrow> ('z auth_db_scheme, auth_error, LoginResponse) op" where
  "Verify2FA E cfg now d og pendingSessionID totpCode =
     bindE (failing (redis_GetDel now (''pending_2fa:'' @ pendingSessionID))) (\<lambda>found.
       case found of
         None \<Rightarrow> throw ErrInvalidToken
       | Some sessionData \<Rightarrow>
           (case Option.bind (map_of sessionData ''user_id'') (ae_uuid_Parse E) of
              None \<Rightarrow> throw ErrInvalidToken
            | Some userID \<Rightarrow> verify_code E cfg now d og totpCode sessionData userID))"

section \<open>Calls\<close>

text \<open>A call of the service, with the time it is made at and what it draws.\<close>

datatype auth_call =
    CallRegister gotime auth_draw origin RegisterRequest
  | CallLogin gotime auth_draw origin LoginRequest
  | CallChangePassword gotime auth_draw origin uuid string string
  | CallResetPassword gotime auth_draw origin string string
  | CallRefresh gotime auth_draw origin string
  | CallVerify2FA gotime auth_draw origin string string
  | CallRevokeSession gotime uuid string
  | CallBlacklist gotime string

definition answer :: "('a \<Rightarrow> 'b) \<Rightarrow> ('s, 'e, 'a) op \<Rightarrow> ('s, 'e, 'b) op" where
  "answer f m = bindE m (\<lambda>a. ret (f a))"

fun auth_step :: "auth_env \<Rightarrow> auth_config \<Rightarrow> auth_call \<Rightarrow> ('z auth_db_scheme, auth_error, LoginResponse option) op" where
  "auth_step E cfg (CallRegister now d og req) = answer (\<lambda>_. None) (Register E cfg now d og req)"
| "auth_step E cfg (CallLogin now d og req) = answer Some (Login E cfg now d og req)"
| "auth_step E cfg (CallChangePassword now d og userID oldPassword newPassword) =
     answer (\<lambda>_. None) (ChangePassword E cfg now d og userID oldPassword newPassword)"
| "auth_step E cfg (CallResetPassword now d og email newPassword) =
     answer (\<lambda>_. None) (ResetPassword E cfg now d og email newPassword)"
| "auth_step E cfg (CallRefresh now d og token) = answer Some (RefreshAccessToken E cfg now d og token)"
| "auth_step E cfg (CallVerify2FA now d og sessionID code) = answer Some (Verify2FA E cfg now d og sessionID code)"
| "auth_step E cfg (CallRevokeSession now userID sessionID) = answer (\<lambda>_. None) (RevokeSession E now userID sessionID)"
| "auth_step E cfg (CallBlacklist now token) = answer (\<lambda>_. None) (BlacklistAccessToken E now token)"

end
