(* ===== verification/Auth_Correct.thy ===== *)
theory Auth_Correct
  imports Auth_Service
begin

text \<open>
  What authentication guarantees over any sequence of calls and whatever the database and Redis do:
  a refresh token and a pending second factor are redeemed at most once, and a revoked token never
  comes back.
\<close>

section \<open>Secrets that are used once\<close>

text \<open>
  The interface of a store of one-time secrets: \<open>presents k c\<close> is a call that hands in \<open>k\<close>, and
  \<open>issues k c\<close> one that may create it.
\<close>

fun answers :: "('c \<Rightarrow> ('s, 'e, 'a) op) \<Rightarrow> 'c list \<Rightarrow> 's \<Rightarrow> ('c \<times> ('e + 'a)) list" where
  "answers call [] s = []"
| "answers call (c # cs) s = (c, snd (call c s)) # answers call cs (fst (call c s))"

definition redeemed :: "('c \<Rightarrow> bool) \<Rightarrow> ('c \<times> ('e + 'a)) list \<Rightarrow> nat" where
  "redeemed P rs = length (filter (\<lambda>(c, r). P c \<and> \<not> isl r) rs)"

lemma redeemed_simps [simp]:
  "redeemed P [] = 0" "redeemed P ((c, r) # rs) = (if P c \<and> \<not> isl r then 1 else 0) + redeemed P rs"
  by (simp_all add: redeemed_def)

locale single_use =
  fixes call :: "'c \<Rightarrow> 's \<Rightarrow> 's \<times> ('e + 'a)"
    and valid :: "'s \<Rightarrow> bool"
    and presents :: "'k \<Rightarrow> 'c \<Rightarrow> bool"
    and issues :: "'k \<Rightarrow> 'c \<Rightarrow> bool"
    and spent :: "'k \<Rightarrow> 's \<Rightarrow> bool"
  assumes valid_step: "valid s \<Longrightarrow> valid (fst (call c s))"
    and spends: "valid s \<Longrightarrow> presents k c \<Longrightarrow> \<not> isl (snd (call c s)) \<Longrightarrow> spent k (fst (call c s))"
    and stays: "valid s \<Longrightarrow> spent k s \<Longrightarrow> \<not> issues k c \<Longrightarrow> spent k (fst (call c s))"
    and refused: "valid s \<Longrightarrow> spent k s \<Longrightarrow> presents k c \<Longrightarrow> isl (snd (call c s))"
begin

lemma never_again:
  "valid s \<Longrightarrow> spent k s \<Longrightarrow> \<forall>c \<in> set cs. \<not> issues k c \<Longrightarrow> redeemed (presents k) (answers call cs s) = 0"
  by (induction cs arbitrary: s) (auto simp: valid_step stays dest: refused)

lemma at_most_once:
  "valid s \<Longrightarrow> \<forall>c \<in> set cs. \<not> issues k c \<Longrightarrow> redeemed (presents k) (answers call cs s) \<le> 1"
proof (induction cs arbitrary: s)
  case (Cons c cs)
  let ?s = "fst (call c s)"
  have v: "valid ?s" and free: "\<forall>c \<in> set cs. \<not> issues k c" using Cons.prems by (auto simp: valid_step)
  show ?case
  proof (cases "presents k c \<and> \<not> isl (snd (call c s))")
    case True
    then have "spent k ?s" using Cons.prems(1) spends by blast
    then have "redeemed (presents k) (answers call cs ?s) = 0" by (rule never_again [OF v _ free])
    then show ?thesis by simp
  next
    case False
    then show ?thesis using Cons.IH [OF v free] by auto
  qed
qed simp

end

section \<open>What the calls may touch\<close>

text \<open>
  A relation between states that sees only the refresh tokens and the pending sessions, and of the
  tokens only that rows are added and revoked.
\<close>

definition revoke :: "gotime \<Rightarrow> string \<Rightarrow> RefreshToken \<Rightarrow> RefreshToken" where
  "revoke now reason t = t\<lparr>rt_IsRevoked := True, rt_RevokedAt := Some now, rt_RevokedReason := reason\<rparr>"

definition lock_identity :: "User \<Rightarrow> uuid \<times> string \<times> uuid \<times> gotime option \<times> bool \<times> bool" where
  "lock_identity u = (us_UserID u, us_Email u, us_TenantID u, us_DeletedAt u, us_IsActive u, us_IsEmailVerified u)"

text \<open>Queries, events, devices and rate limits.\<close>

locale quiet_frame =
  fixes R :: "'z auth_db_scheme \<Rightarrow> 'z auth_db_scheme \<Rightarrow> bool"
  assumes preorder: "reflp R" "transp R"
    and blind: "fault_blind R" "redis_blind R"
    and tables: "R s (s\<lparr>au_history := h\<rparr>)" "R s (s\<lparr>au_devices := v\<rparr>)" "R s (s\<lparr>au_events := e\<rparr>)"
      "R s (s\<lparr>au_verify := vs\<rparr>)" "R s (s\<lparr>rd_windows := w\<rparr>)"

text \<open>The shape of the keys sessions are stored under.\<close>

definition session_name :: "string \<Rightarrow> string \<Rightarrow> string" where
  "session_name i sessionID = ''session:'' @ i @ '':'' @ sessionID"

text \<open>The other changes; those of a lock are left to the lemmas on a login.\<close>

locale auth_frame = quiet_frame R for R :: "'z auth_db_scheme \<Rightarrow> 'z auth_db_scheme \<Rightarrow> bool" +
  assumes sessions: "(\<And>k. k \<in> fst ` set x \<Longrightarrow> k \<in> fst ` set (rd_sessions s) \<or> (\<exists>i sessionID. k = session_name i sessionID))
      \<Longrightarrow> R s (s\<lparr>rd_sessions := x, rd_user_sessions := y\<rparr>)"
    and blacklist: "R s (rd_blacklist_update b s)"
    and touch_users: "(\<And>u. lock_identity (f u) = lock_identity u \<and> us_LockedUntil (f u) = us_LockedUntil u)
      \<Longrightarrow> R s (s\<lparr>au_users := update_rows P f (au_users s)\<rparr>)"
    and insert_row: "\<not> (\<exists>u' \<in> set (au_users s). us_UserID u' = us_UserID u) \<Longrightarrow> \<not> us_IsEmailVerified u
      \<Longrightarrow> R s (s\<lparr>au_users := au_users s @ [u]\<rparr>)"
    and insert_token: "\<not> (\<exists>t' \<in> set (au_refresh s). rt_TokenID t' = rt_TokenID t \<or> rt_TokenHash t' = rt_TokenHash t)
      \<Longrightarrow> \<not> rt_IsRevoked t \<Longrightarrow> R s (s\<lparr>au_refresh := au_refresh s @ [t]\<rparr>)"
    and revoke_tokens: "R s (s\<lparr>au_refresh := update_rows Q (revoke now reason) (au_refresh s)\<rparr>)"
    and take_pending: "R s (s\<lparr>rd_pending := AList.delete key (rd_pending s)\<rparr>)"

lemma steps_failing [steps_rules]: "steps R m \<Longrightarrow> steps R (failing m)"
  unfolding steps_def failing_def by (auto split: prod.splits sum.splits) (metis fst_conv)+

lemma steps_or_fail [steps_rules]: "steps R m \<Longrightarrow> steps R (or_fail err m)"
  unfolding steps_def or_fail_def by (auto split: prod.splits sum.splits) (metis fst_conv)+

lemma steps_answer [steps_rules]: "reflp R \<Longrightarrow> transp R \<Longrightarrow> steps R m \<Longrightarrow> steps R (answer f m)"
  unfolding answer_def by (intro steps_rules)

lemma steps_sum [steps_rules]:
  "(\<And>e. steps R (f e)) \<Longrightarrow> (\<And>a. steps R (g a)) \<Longrightarrow> steps R (case x of Inl e \<Rightarrow> f e | Inr a \<Rightarrow> g a)"
  by (cases x) simp_all

lemma steps_compared [steps_rules]:
  "steps R m \<Longrightarrow> steps R n \<Longrightarrow> (\<And>b. steps R (f b)) \<Longrightarrow> steps R (case x of ComparePanic \<Rightarrow> m | CompareError \<Rightarrow> n | Compared b \<Rightarrow> f b)"
  by (cases x) simp_all

lemma steps_Let [steps_rules]: "steps R (f a) \<Longrightarrow> steps R (let x = a in f x)"
  by simp

lemma steps_pair [steps_rules]: "(\<And>a b. steps R (f a b)) \<Longrightarrow> steps R (case x of (a, b) \<Rightarrow> f a b)"
  by (cases x) simp

lemma set_fold_delete: "set (fold (\<lambda>x. AList.delete (f x)) xs al) \<subseteq> set al"
proof (induction xs arbitrary: al)
  case (Cons x xs)
  have "set (AList.delete (f x) al) \<subseteq> set al" by (auto simp: AList.delete_eq)
  with Cons [of "AList.delete (f x) al"] show ?case by simp
qed simp

context quiet_frame
begin

lemmas quiet_rules = preorder blind tables steps_rules

lemma same [simp]: "R s s"
  using preorder(1) by (simp add: reflpD)

lemma steps_plain: "(\<And>s. R s (fst (m s))) \<Longrightarrow> steps R m"
  by (simp add: steps_def)

lemma steps_read: "steps R (\<lambda>s. (s, f s))"
  by (simp add: steps_def)

lemma steps_log: "steps R (log_event E now og userID event severity ok)"
  unfolding log_event_def LogSecurityEvent_def by (intro quiet_rules)

lemma steps_sessions_read: "steps R (GetUserSessions E now userID)" "steps R (CountUserSessions E now userID)"
  unfolding GetUserSessions_def CountUserSessions_def by (intro quiet_rules steps_read)+

lemma steps_token_makers:
  "steps R (GenerateAccessToken E now jti u tn sid ttl)" "steps R (GenerateSecureToken random)"
  by (simp_all add: GenerateAccessToken_def GenerateSecureToken_def steps_def split: sum.split)

lemma steps_users: "steps R (user_by_email email)" "steps R (user_by_id userID)"
  unfolding user_by_email_def user_by_id_def by (intro quiet_rules)+

lemma steps_tenant: "steps R (tenant_by_id tenantID)"
  unfolding tenant_by_id_def by (intro quiet_rules)

lemma steps_device: "steps R (RegisterOrUpdateDevice now dev userID fp ip ua loc)"
  unfolding RegisterOrUpdateDevice_def find_device_def Let_def by (intro quiet_rules)

lemma steps_risk: "steps R (CalculateRiskScore E now user ip fp)"
  unfolding CalculateRiskScore_def find_device_def Let_def by (intro quiet_rules)

lemma steps_rate: "steps R (CheckIPRateLimit now ip limit win)"
proof -
  have "R s (fst (window_script now key limit seconds s))" for key limit seconds s
    by (simp add: window_script_def store_window_def Let_def tables)
  then show ?thesis unfolding CheckIPRateLimit_def checkRateLimit_def
    by (intro quiet_rules steps_plain) (simp add: case_prod_beta)
qed

lemma steps_pending:
  assumes "\<And>s v. R s (rd_pending_update (AList.update (''pending_2fa:'' @ ae_uuid_String E (ad_session d)) v) s)"
  shows "steps R (createPending2FASession E now d userID og)"
  unfolding createPending2FASession_def redis_Set_def Let_def by (intro quiet_rules assms)

lemma steps_history: "steps R (SavePasswordHistory now hid userID h)"
  unfolding SavePasswordHistory_def insert_history_def by (intro quiet_rules)

lemma steps_password_checks:
  "steps R (check_new_password E cfg password)" "steps R (hash_password E d password)"
  "steps R (CheckPasswordHistory E limit userID password)"
  unfolding check_new_password_def hash_password_def CheckPasswordHistory_def by (intro quiet_rules)+

lemma steps_verification: "steps R (createEmailVerificationToken now d userID)"
  unfolding createEmailVerificationToken_def by (intro quiet_rules steps_token_makers)

end

context auth_frame
begin

lemmas frame_rules = preorder blind tables blacklist take_pending steps_rules

lemma steps_update_user:
  assumes "\<And>s. R s (s\<lparr>au_users := update_rows (\<lambda>u. us_UserID u = us_UserID user \<and> us_DeletedAt u = None) f (au_users s)\<rparr>)"
  shows "steps R (update_user user f)"
  unfolding update_user_def by (intro frame_rules assms)

lemma steps_touch_user:
  "(\<And>u. lock_identity (f u) = lock_identity u \<and> us_LockedUntil (f u) = us_LockedUntil u) \<Longrightarrow> steps R (update_user user f)"
  by (intro steps_update_user touch_users)

lemma steps_failed_login:
  assumes "\<And>s f. (\<And>u. lock_identity (f u) = lock_identity u)
    \<Longrightarrow> R s (s\<lparr>au_users := update_rows (\<lambda>u. us_UserID u = us_UserID user \<and> us_DeletedAt u = None) f (au_users s)\<rparr>)"
  shows "steps R (handleFailedLogin E now og user)"
  unfolding handleFailedLogin_def Let_def
  by (intro frame_rules steps_log steps_update_user assms) (simp_all add: lock_identity_def)

lemma steps_sessions:
  "steps R (RevokeAllUserSessions E now userID)" "steps R (RevokeSession E now userID sessionID)"
  "steps R (CreateSession E now userID sessionID session ttl)"
proof -
  show "steps R (RevokeAllUserSessions E now userID)"
    unfolding RevokeAllUserSessions_def
    by (intro frame_rules steps_sessions_read sessions) (use set_fold_delete in blast)
  show "steps R (RevokeSession E now userID sessionID)"
    unfolding RevokeSession_def by (intro frame_rules sessions) (auto simp: AList.delete_eq)
  have "R s (s\<lparr>rd_sessions := AList.update (sessionKey E userID sessionID) v (rd_sessions s)\<rparr>\<lparr>rd_user_sessions := y\<rparr>)" for s v y
    by (rule sessions) (auto simp: keys_update sessionKey_def session_name_def)
  then show "steps R (CreateSession E now userID sessionID session ttl)"
    unfolding CreateSession_def Let_def by (intro frame_rules) simp
qed

lemma steps_insert_refresh: "\<not> rt_IsRevoked t \<Longrightarrow> steps R (insert_refresh t)"
  unfolding insert_refresh_def by (intro frame_rules insert_token)

lemma steps_revoke_all: "steps R (revokeAllRefreshTokens now userID reason)"
  unfolding revokeAllRefreshTokens_def revoke_def [symmetric] by (intro frame_rules revoke_tokens)

lemma steps_establish: "steps R (establish E cfg now d og user deviceType event)"
  unfolding establish_def createAuthTokensWithTTL_def Let_def
  by (intro frame_rules steps_sessions_read steps_sessions steps_token_makers steps_insert_refresh steps_touch_user
      steps_tenant steps_device steps_log)
    (simp_all add: new_refresh_def lock_identity_def)

lemma steps_login_user:
  assumes "\<And>s v. R s (rd_pending_update (AList.update (''pending_2fa:'' @ ae_uuid_String E (ad_session d)) v) s)"
    and "\<And>s f. (\<And>u. lock_identity (f u) = lock_identity u)
      \<Longrightarrow> R s (s\<lparr>au_users := update_rows (\<lambda>u. us_UserID u = us_UserID user \<and> us_DeletedAt u = None) f (au_users s)\<rparr>)"
  shows "steps R (login_user E cfg now d og req user)"
  unfolding login_user_def authenticated_def second_factor_def
  by (intro frame_rules steps_Let steps_log steps_failed_login steps_update_user steps_risk steps_establish steps_pending assms)
    (simp_all add: lock_identity_def)

lemma steps_Login:
  assumes "\<And>s v. R s (rd_pending_update (AList.update (''pending_2fa:'' @ ae_uuid_String E (ad_session d)) v) s)"
    and "\<And>s P f. (\<And>u. lock_identity (f u) = lock_identity u) \<Longrightarrow> R s (s\<lparr>au_users := update_rows P f (au_users s)\<rparr>)"
  shows "steps R (Login E cfg now d og req)"
  unfolding Login_def by (intro frame_rules steps_rate steps_users steps_log steps_login_user assms)

lemma steps_replace: "steps R (replace_password E cfg now d og user newPassword reason)"
  unfolding replace_password_def store_password_def
  by (intro frame_rules steps_password_checks steps_touch_user steps_history steps_sessions steps_revoke_all steps_log)
    (simp add: lock_identity_def)

lemma steps_passwords:
  "steps R (ChangePassword E cfg now d og userID oldPassword newPassword)"
  "steps R (ResetPassword E cfg now d og email newPassword)"
  unfolding ChangePassword_def ResetPassword_def by (intro frame_rules steps_users steps_replace)+

lemma steps_Register: "steps R (Register E cfg now d og req)"
  unfolding Register_def register_user_def insert_user_def Let_def
  by (intro frame_rules insert_row steps_password_checks steps_users steps_history steps_verification steps_log)
    (auto simp: new_user_def)

lemma steps_rotate: "steps R (rotate_token E cfg now d og old)"
  unfolding rotate_token_def revoke_def [symmetric]
  by (intro frame_rules revoke_tokens steps_token_makers steps_insert_refresh) (simp add: rotated_def)

lemma steps_refresh:
  "steps R (RefreshAccessToken E cfg now d og token)" "steps R (refresh_with E cfg now d og old)"
proof -
  show r: "steps R (refresh_with E cfg now d og old)" for old
    unfolding refresh_with_def Let_def
    by (intro frame_rules steps_rotate steps_users steps_token_makers steps_log)
  show "steps R (RefreshAccessToken E cfg now d og token)"
    unfolding RefreshAccessToken_def find_refresh_def token_reused_def
    by (intro frame_rules r steps_revoke_all steps_sessions steps_log)
qed

lemma refresh_rest:
  "\<exists>rest. refresh_with E cfg now d og old = bindE (rotate_token E cfg now d og old) rest \<and> (\<forall>raw. steps R (rest raw))"
  unfolding refresh_with_def Let_def
  by (intro exI conjI allI, rule refl, intro frame_rules steps_users steps_token_makers steps_log)

lemma steps_GetDel: "steps R (redis_GetDel now key)"
  unfolding redis_GetDel_def by (intro frame_rules steps_plain) (simp_all add: take_pending)

lemma steps_verify_code: "steps R (verify_code E cfg now d og code data userID)"
  unfolding verify_code_def by (intro frame_rules steps_users steps_log steps_establish)

lemma steps_Verify: "steps R (Verify2FA E cfg now d og sessionID code)"
  unfolding Verify2FA_def by (intro frame_rules steps_GetDel steps_verify_code)

lemma steps_BlacklistAccessToken: "steps R (BlacklistAccessToken E now token)"
  unfolding BlacklistAccessToken_def BlacklistToken_def redis_Set_def by (intro frame_rules)

lemma steps_other_call:
  assumes "\<And>now d og req. c \<noteq> CallLogin now d og req"
  shows "steps R (auth_step E cfg c)"
proof (cases c)
  case (CallLogin now d og req)
  with assms show ?thesis by blast
qed (simp_all add: steps_answer preorder steps_Register steps_passwords steps_refresh steps_Verify steps_sessions
    steps_BlacklistAccessToken)

lemma steps_call:
  assumes "\<And>now d og req s v. c = CallLogin now d og req
      \<Longrightarrow> R s (rd_pending_update (AList.update (''pending_2fa:'' @ ae_uuid_String E (ad_session d)) v) s)"
    and "\<And>s P f. (\<And>u. lock_identity (f u) = lock_identity u) \<Longrightarrow> R s (s\<lparr>au_users := update_rows P f (au_users s)\<rparr>)"
  shows "R s (fst (auth_step E cfg c s))"
proof -
  have "steps R (auth_step E cfg c)"
  proof (cases "\<exists>now d og req. c = CallLogin now d og req")
    case True
    then obtain now d og req where c: "c = CallLogin now d og req" by blast
    show ?thesis unfolding c auth_step.simps
      by (intro steps_answer preorder steps_Login) (rule assms(1) [OF c], rule assms(2))
  next
    case False
    then show ?thesis by (intro steps_other_call) blast
  qed
  then show ?thesis by (rule steps_run)
qed

end

section \<open>Refresh tokens\<close>

definition unique_tokens :: "'z auth_db_scheme \<Rightarrow> bool" where
  "unique_tokens s \<longleftrightarrow> distinct (map rt_TokenID (au_refresh s)) \<and> distinct (map rt_TokenHash (au_refresh s))"

definition spent_token :: "auth_env \<Rightarrow> string \<Rightarrow> 'z auth_db_scheme \<Rightarrow> bool" where
  "spent_token E token s \<longleftrightarrow> (\<exists>t \<in> set (au_refresh s). rt_TokenHash t = HashToken E token \<and> rt_IsRevoked t)"

definition token_identity :: "RefreshToken \<Rightarrow> uuid \<times> uuid \<times> string \<times> string \<times> gotime" where
  "token_identity t = (rt_TokenID t, rt_UserID t, rt_TokenHash t, rt_DeviceID t, rt_ExpiresAt t)"

text \<open>Tokens stay what they are, a revoked one stays revoked, and no two share an id or a hash.\<close>

definition tokens_kept :: "'z auth_db_scheme \<Rightarrow> 'z auth_db_scheme \<Rightarrow> bool" where
  "tokens_kept s s' \<longleftrightarrow> (unique_tokens s \<longrightarrow> unique_tokens s')
     \<and> (\<forall>t \<in> set (au_refresh s). \<exists>t' \<in> set (au_refresh s').
          token_identity t' = token_identity t \<and> (rt_IsRevoked t \<longrightarrow> rt_IsRevoked t'))"

lemma tokens_kept_insert:
  "\<not> (\<exists>t' \<in> set (au_refresh s). rt_TokenID t' = rt_TokenID t \<or> rt_TokenHash t' = rt_TokenHash t)
    \<Longrightarrow> tokens_kept s (s\<lparr>au_refresh := au_refresh s @ [t]\<rparr>)"
  by (auto simp: tokens_kept_def unique_tokens_def)

lemma tokens_kept_same: "au_refresh s' = au_refresh s \<Longrightarrow> tokens_kept s s'"
  by (auto simp: tokens_kept_def unique_tokens_def)

lemma tokens_kept_trans: "tokens_kept s s' \<Longrightarrow> tokens_kept s' s'' \<Longrightarrow> tokens_kept s s''"
  unfolding tokens_kept_def by (metis (no_types, lifting))

lemma revoke_identity [simp]: "token_identity (revoke now reason t) = token_identity t" "rt_IsRevoked (revoke now reason t)"
  "rt_TokenID (revoke now reason t) = rt_TokenID t" "rt_TokenHash (revoke now reason t) = rt_TokenHash t"
  by (simp_all add: token_identity_def revoke_def)

lemma tokens_kept_revoke: "tokens_kept s (s\<lparr>au_refresh := update_rows P (revoke now reason) (au_refresh s)\<rparr>)"
proof -
  have "map rt_TokenID (update_rows P (revoke now reason) ts) = map rt_TokenID ts"
    and "map rt_TokenHash (update_rows P (revoke now reason) ts) = map rt_TokenHash ts" for ts
    by (rule update_rows_key, simp)+
  then have "unique_tokens s \<longrightarrow> unique_tokens (s\<lparr>au_refresh := update_rows P (revoke now reason) (au_refresh s)\<rparr>)"
    by (simp add: unique_tokens_def)
  moreover have "\<exists>t' \<in> set (update_rows P (revoke now reason) (au_refresh s)).
      token_identity t' = token_identity t \<and> (rt_IsRevoked t \<longrightarrow> rt_IsRevoked t')" if "t \<in> set (au_refresh s)" for t
    by (rule bexI [of _ "if P t then revoke now reason t else t"]) (use that in \<open>auto simp: update_rows_def\<close>)
  ultimately show ?thesis by (simp add: tokens_kept_def)
qed

interpretation kept: auth_frame tokens_kept
proof unfold_locales
  show "transp tokens_kept" by (rule transpI) (rule tokens_kept_trans)
qed (simp_all add: reflpI tokens_kept_same fault_blind_def redis_blind_def tokens_kept_revoke tokens_kept_insert)

lemma rotate_spends:
  assumes "rotate_token E cfg now d og old s = (s', Inr raw)" and "old \<in> set (au_refresh s)"
  shows "\<exists>t \<in> set (au_refresh s'). rt_TokenHash t = rt_TokenHash old \<and> rt_IsRevoked t"
proof -
  let ?f = "\<lambda>s. s\<lparr>au_refresh := update_rows (\<lambda>t. rt_TokenID t = rt_TokenID old) (revoke now ''rotated'') (au_refresh s)\<rparr>"
  obtain s1 s2 s3 s4 new where
    calls: "db_call AuthFailure s = (s1, Inr ())" "db_call AuthFailure s1 = (s2, Inr ())"
    and ins: "insert_refresh new (?f s2) = (s3, Inr ())" and commit: "db_call AuthFailure s3 = (s', Inr ())"
    using assms(1) unfolding rotate_token_def transaction_Inr
    by (auto simp: op_iffs db_write_Inr revoke_def [symmetric] GenerateSecureToken_def split: sum.splits)
  have "au_refresh s2 = au_refresh s" using calls by (auto dest!: db_call_InrD)
  moreover have "au_refresh s' = au_refresh (?f s2) @ [new]"
    using ins commit by (auto simp: insert_refresh_def db_insert_Inr dest!: db_call_InrD)
  ultimately have "revoke now ''rotated'' old \<in> set (au_refresh s')"
    using assms(2) by (auto simp: update_rows_set intro!: bexI [of _ old])
  then show ?thesis by (intro bexI) simp_all
qed

definition presents_token :: "string \<Rightarrow> auth_call \<Rightarrow> bool" where
  "presents_token token c = (case c of CallRefresh now d og token' \<Rightarrow> token' = token | _ \<Rightarrow> False)"

lemma find_refresh_Inr:
  assumes "find_refresh E now token s = (s', Inr old)"
  shows "au_refresh s' = au_refresh s" "old \<in> set (au_refresh s)" "rt_TokenHash old = HashToken E token"
    "rt_ExpiresAt old > now"
  using assms unfolding find_refresh_def or_fail_def
  by (auto split: prod.splits sum.splits dest!: db_First_InrD)

lemma tokens_kept_spent: "tokens_kept s s' \<Longrightarrow> spent_token E token s \<Longrightarrow> spent_token E token s'"
  unfolding tokens_kept_def spent_token_def token_identity_def by fastforce

lemma Refresh_spends:
  fixes s :: "'z auth_db_scheme"
  assumes "RefreshAccessToken E cfg now d og token s = (s', Inr resp)"
  shows "spent_token E token s'"
proof -
  obtain s1 old where f: "find_refresh E now token s = (s1, Inr old)"
    and r: "(if rt_IsRevoked old then token_reused E now og old else refresh_with E cfg now d og old) s1 = (s', Inr resp)"
    using assms by (auto simp: RefreshAccessToken_def op_iffs)
  have "refresh_with E cfg now d og old s1 = (s', Inr resp)"
    using r by (auto simp: token_reused_def op_iffs split: if_splits)
  moreover obtain rest :: "string \<Rightarrow> ('z auth_db_scheme, auth_error, LoginResponse) op"
    where "refresh_with E cfg now d og old = bindE (rotate_token E cfg now d og old) rest"
    and kept: "\<forall>raw. steps tokens_kept (rest raw)"
    using kept.refresh_rest by blast
  ultimately obtain s2 raw where rot: "rotate_token E cfg now d og old s1 = (s2, Inr raw)" and k: "rest raw s2 = (s', Inr resp)"
    by (auto simp: bindE_Inr_iff)
  have "spent_token E token s2"
    using rotate_spends [OF rot] find_refresh_Inr [OF f] by (auto simp: spent_token_def)
  then show ?thesis using stepsD [OF kept [rule_format] k] by (rule tokens_kept_spent [rotated])
qed

lemma Refresh_refused:
  assumes "unique_tokens s" and "spent_token E token s"
  shows "isl (snd (RefreshAccessToken E cfg now d og token s))"
proof (cases "find_refresh E now token s")
  case (Pair s1 r)
  show ?thesis
  proof (cases r)
    case (Inr old)
    note f = find_refresh_Inr [OF Pair [unfolded Inr]]
    obtain t where t: "t \<in> set (au_refresh s)" "rt_TokenHash t = HashToken E token" "rt_IsRevoked t"
      using assms(2) by (auto simp: spent_token_def)
    have "old = t" using assms(1) f(2,3) t(1,2) unfolding unique_tokens_def by (metis distinct_map inj_onD)
    with t(3) Pair Inr show ?thesis by (simp add: RefreshAccessToken_def token_reused_def thenE_def bindE_def split: prod.split sum.split)
  qed (simp add: RefreshAccessToken_def Pair)
qed

interpretation refresh: single_use "auth_step E cfg" unique_tokens presents_token "\<lambda>_ _. False" "spent_token E" for E cfg
proof unfold_locales
  have k: "tokens_kept s (fst (auth_step E cfg c s))" for c and s :: "'z auth_db_scheme"
    by (rule kept.steps_call) (simp_all add: tokens_kept_same)
  fix s :: "'z auth_db_scheme" and c token
  show "unique_tokens (fst (auth_step E cfg c s))" if "unique_tokens s"
    using k [of s c] that by (simp add: tokens_kept_def)
  show "spent_token E token (fst (auth_step E cfg c s))" if "spent_token E token s"
    using k [of s c] that by (rule tokens_kept_spent)
  assume "presents_token token c"
  then obtain now d og where c: "c = CallRefresh now d og token"
    by (auto simp: presents_token_def split: auth_call.splits)
  show "spent_token E token (fst (auth_step E cfg c s))" if "\<not> isl (snd (auth_step E cfg c s))"
    using that Refresh_spends [of E cfg now d og token s]
    by (cases "RefreshAccessToken E cfg now d og token s"; cases "snd (RefreshAccessToken E cfg now d og token s)")
      (auto simp: c answer_def bindE_def)
  show "isl (snd (auth_step E cfg c s))" if "unique_tokens s" "spent_token E token s"
    using Refresh_refused [OF that, of cfg now d og]
    by (auto simp: c answer_def bindE_def split: prod.splits sum.splits)
qed

text \<open>
  C13: A refresh token yields tokens at most once, and never after it was revoked, over any sequence
  of calls of the service and whatever the database and Redis do.
\<close>

theorem refresh_token_single_use:
  assumes "unique_tokens s"
  shows "redeemed (presents_token token) (answers (auth_step E cfg) calls s) \<le> 1
    \<and> (spent_token E token s \<longrightarrow> redeemed (presents_token token) (answers (auth_step E cfg) calls s) = 0)"
  using assms refresh.at_most_once [of s calls token E cfg] refresh.never_again [of s E token calls cfg] by blast

section \<open>Pending logins\<close>

definition spent_pending :: "string \<Rightarrow> 'z auth_db_scheme \<Rightarrow> bool" where
  "spent_pending sessionID s \<longleftrightarrow> map_of (rd_pending s) (''pending_2fa:'' @ sessionID) = None"

definition pending_gone :: "string \<Rightarrow> 'z auth_db_scheme \<Rightarrow> 'z auth_db_scheme \<Rightarrow> bool" where
  "pending_gone sessionID s s' \<longleftrightarrow> (spent_pending sessionID s \<longrightarrow> spent_pending sessionID s')"

interpretation pending: auth_frame "pending_gone sessionID" for sessionID
  by unfold_locales
    (auto simp: pending_gone_def spent_pending_def fault_blind_def redis_blind_def delete_conv' intro!: reflpI transpI)

definition presents_pending :: "string \<Rightarrow> auth_call \<Rightarrow> bool" where
  "presents_pending sessionID c = (case c of CallVerify2FA now d og sessionID' code \<Rightarrow> sessionID' = sessionID | _ \<Rightarrow> False)"

definition issues_pending :: "auth_env \<Rightarrow> string \<Rightarrow> auth_call \<Rightarrow> bool" where
  "issues_pending E sessionID c =
     (case c of CallLogin now d og req \<Rightarrow> ae_uuid_String E (ad_session d) = sessionID | _ \<Rightarrow> False)"

lemma GetDel_spends: "redis_GetDel now (''pending_2fa:'' @ sessionID) s = (s', Inr found) \<Longrightarrow> spent_pending sessionID s'"
  by (auto simp: redis_GetDel_def op_iffs spent_pending_def delete_conv')

lemma GetDel_spent:
  "spent_pending sessionID s \<Longrightarrow> redis_GetDel now (''pending_2fa:'' @ sessionID) s = (s', Inr found) \<Longrightarrow> found = None"
  by (cases rule: redis_call_cases [of s])
    (auto simp: redis_GetDel_def op_iffs spent_pending_def live_entry_def)

lemma failing_Inr: "failing m s = (s', Inr v) \<longleftrightarrow> m s = (s', Inr v)"
  by (auto simp: failing_def split: prod.splits sum.splits)

lemma Verify_Inr:
  assumes "Verify2FA E cfg now d og sessionID code s = (s', Inr resp)"
  obtains s1 data userID where "redis_GetDel now (''pending_2fa:'' @ sessionID) s = (s1, Inr (Some data))"
    "Option.bind (map_of data ''user_id'') (ae_uuid_Parse E) = Some userID"
    "verify_code E cfg now d og code data userID s1 = (s', Inr resp)"
proof -
  obtain s1 found where g: "redis_GetDel now (''pending_2fa:'' @ sessionID) s = (s1, Inr found)"
    and k: "(case found of None \<Rightarrow> throw ErrInvalidToken
      | Some data \<Rightarrow> (case Option.bind (map_of data ''user_id'') (ae_uuid_Parse E) of
          None \<Rightarrow> throw ErrInvalidToken | Some userID \<Rightarrow> verify_code E cfg now d og code data userID)) s1 = (s', Inr resp)"
    using assms unfolding Verify2FA_def bindE_Inr_iff failing_Inr by blast
  from k obtain data where f: "found = Some data" by (cases found) simp_all
  with k obtain userID where "Option.bind (map_of data ''user_id'') (ae_uuid_Parse E) = Some userID"
    by (cases "Option.bind (map_of data ''user_id'') (ae_uuid_Parse E)") simp_all
  with that g k f show thesis by simp
qed

lemma answer_isl [simp]: "isl (snd (answer f m s)) = isl (snd (m s))" "fst (answer f m s) = fst (m s)"
  by (simp_all add: answer_def bindE_def split: prod.split sum.split)

lemma isl_cases: "\<not> isl (snd (m s)) \<Longrightarrow> \<exists>a. m s = (fst (m s), Inr a)"
  by (cases "m s"; cases "snd (m s)") auto

interpretation second: single_use "auth_step E cfg" "\<lambda>_. True" presents_pending "issues_pending E" spent_pending for E cfg
proof unfold_locales
  fix s :: "'z auth_db_scheme" and c sessionID
  show "spent_pending sessionID (fst (auth_step E cfg c s))" if "spent_pending sessionID s" "\<not> issues_pending E sessionID c"
  proof -
    have "pending_gone sessionID s (fst (auth_step E cfg c s))"
      by (rule pending.steps_call) (use that(2) in \<open>auto simp: issues_pending_def pending_gone_def spent_pending_def\<close>)
    with that(1) show ?thesis by (simp add: pending_gone_def)
  qed
  assume "presents_pending sessionID c"
  then obtain now d og code where c: "c = CallVerify2FA now d og sessionID code"
    by (auto simp: presents_pending_def split: auth_call.splits)
  show "spent_pending sessionID (fst (auth_step E cfg c s))" if "\<not> isl (snd (auth_step E cfg c s))"
  proof -
    from that obtain resp where v: "Verify2FA E cfg now d og sessionID code s
        = (fst (Verify2FA E cfg now d og sessionID code s), Inr resp)"
      unfolding c using isl_cases by fastforce
    then obtain s1 data userID where g: "redis_GetDel now (''pending_2fa:'' @ sessionID) s = (s1, Inr (Some data))"
      and k: "verify_code E cfg now d og code data userID s1 = (fst (Verify2FA E cfg now d og sessionID code s), Inr resp)"
      by (rule Verify_Inr)
    have "steps (pending_gone sessionID) (verify_code E cfg now d og code data userID)"
      by (rule pending.steps_verify_code)
    from stepsD [OF this k] GetDel_spends [OF g] show ?thesis by (simp add: c pending_gone_def)
  qed
  show "isl (snd (auth_step E cfg c s))" if "spent_pending sessionID s"
  proof (rule ccontr)
    assume "\<not> isl (snd (auth_step E cfg c s))"
    then obtain s' resp where "Verify2FA E cfg now d og sessionID code s = (s', Inr resp)"
      unfolding c using isl_cases by fastforce
    then obtain s1 data where "redis_GetDel now (''pending_2fa:'' @ sessionID) s = (s1, Inr (Some data))"
      by (rule Verify_Inr)
    with GetDel_spent [OF that this] show False by simp
  qed
qed simp

lemma Verify_consumes:
  assumes "rd_faults s = []"
  shows "spent_pending sessionID (fst (Verify2FA E cfg now d og sessionID code s))"
proof -
  obtain s1 found where g: "redis_GetDel now (''pending_2fa:'' @ sessionID) s = (s1, Inr found)"
    using assms by (auto simp: redis_GetDel_def)
  let ?k = "\<lambda>found. case found of None \<Rightarrow> throw ErrInvalidToken
    | Some data \<Rightarrow> (case Option.bind (map_of data ''user_id'') (ae_uuid_Parse E) of
        None \<Rightarrow> throw ErrInvalidToken | Some userID \<Rightarrow> verify_code E cfg now d og code data userID)"
  have "Verify2FA E cfg now d og sessionID code s = ?k found s1"
    unfolding Verify2FA_def by (rule bindE_simps(1)) (simp only: failing_Inr g)
  moreover have "steps (pending_gone sessionID) (?k found)"
    by (intro pending.frame_rules pending.steps_verify_code)
  ultimately show ?thesis
    using steps_run [of "pending_gone sessionID" "?k found" s1] GetDel_spends [OF g] by (simp add: pending_gone_def)
qed

text \<open>
  C16: A pending login is completed at most once, as long as no other login draws its identifier, and
  an attempt with a wrong code uses it up: whatever is presented afterwards is refused.
\<close>

theorem pending_login_single_use:
  assumes "\<forall>c \<in> set calls. \<not> issues_pending E sessionID c"
  shows "redeemed (presents_pending sessionID) (answers (auth_step E cfg) calls s) \<le> 1
    \<and> (rd_faults s = [] \<longrightarrow> redeemed (presents_pending sessionID)
        (answers (auth_step E cfg) calls (fst (Verify2FA E cfg now d og sessionID code s))) = 0)"
proof (intro conjI impI)
  show "redeemed (presents_pending sessionID) (answers (auth_step E cfg) calls s) \<le> 1"
    using assms by (intro second.at_most_once) simp_all
  assume "rd_faults s = []"
  then have "spent_pending sessionID (fst (Verify2FA E cfg now d og sessionID code s))"
    by (rule Verify_consumes)
  then show "redeemed (presents_pending sessionID)
      (answers (auth_step E cfg) calls (fst (Verify2FA E cfg now d og sessionID code s))) = 0"
    using assms by (intro second.never_again) simp_all
qed

end
