(* ===== verification/Auth_Outcomes.thy ===== *)
theory Auth_Outcomes
  imports Auth_Correct
begin

text \<open>
  What a login demands and gives, how long a lock lasts, what a registration leads to, and what the
  rotation of a token, its reuse and a new password do to the tokens and sessions of a user.
\<close>

section \<open>What a login finds\<close>

definition auth_run :: "auth_env \<Rightarrow> auth_config \<Rightarrow> auth_call list \<Rightarrow> 'z auth_db_scheme \<Rightarrow> 'z auth_db_scheme" where
  "auth_run E cfg calls s = fold (\<lambda>c s. fst (auth_step E cfg c s)) calls s"

fun call_time :: "auth_call \<Rightarrow> gotime" where
  "call_time (CallRegister now d og req) = now"
| "call_time (CallLogin now d og req) = now"
| "call_time (CallChangePassword now d og userID oldPassword newPassword) = now"
| "call_time (CallResetPassword now d og email newPassword) = now"
| "call_time (CallRefresh now d og token) = now"
| "call_time (CallVerify2FA now d og sessionID code) = now"
| "call_time (CallRevokeSession now userID sessionID) = now"
| "call_time (CallBlacklist now token) = now"

definition same_access :: "'z auth_db_scheme \<Rightarrow> 'z auth_db_scheme \<Rightarrow> bool" where
  "same_access s s' \<longleftrightarrow> au_refresh s' = au_refresh s \<and> rd_sessions s' = rd_sessions s
     \<and> rd_user_sessions s' = rd_user_sessions s"

definition same_core :: "'z auth_db_scheme \<Rightarrow> 'z auth_db_scheme \<Rightarrow> bool" where
  "same_core s s' \<longleftrightarrow> same_access s s' \<and> au_users s' = au_users s"

lemma same_simps [simp]: "same_access s s" "same_core s s"
  by (simp_all add: same_access_def same_core_def)

lemma same_core_trans: "same_core a b \<Longrightarrow> same_core b c \<Longrightarrow> same_core a c"
  by (simp add: same_core_def same_access_def)

interpretation core: quiet_frame same_core
  by unfold_locales (auto simp: same_core_def same_access_def fault_blind_def redis_blind_def intro!: reflpI transpI)

interpretation access: quiet_frame same_access
  by unfold_locales (auto simp: same_access_def fault_blind_def redis_blind_def intro!: reflpI transpI)

lemma user_by_email_Inr:
  assumes "user_by_email email s = (s', Inr user)"
  shows "user \<in> set (au_users s)" "us_Email user = ToLower email" "us_DeletedAt user = None"
  using assms unfolding user_by_email_def by (auto dest!: db_First_InrD)

lemma Login_cases:
  fixes s :: "'z auth_db_scheme"
  obtains (refused) s1 err where "Login E cfg now d og req s = (s1, Inl err)" "same_core s s1"
  | (found) s1 user where "Login E cfg now d og req s = login_user E cfg now d og req user s1" "same_core s s1"
      "user \<in> set (au_users s)" "us_Email user = ToLower (lr_Email req)" "us_DeletedAt user = None"
proof -
  let ?rate = "or_fail ErrRateLimitExceeded (CheckIPRateLimit now (og_ipAddress og) 10 (minutes 1))
    :: ('z auth_db_scheme, auth_error, unit) op"
  obtain s0 r0 where r: "?rate s = (s0, r0)" by fastforce
  have "steps same_core ?rate" by (intro core.quiet_rules core.steps_rate)
  then have s0: "same_core s s0" by (rule stepsD) (rule r)
  show thesis
  proof (cases r0)
    case (Inl e)
    show thesis by (rule refused [OF _ s0]) (simp add: Login_def thenE_def r Inl)
  next
    case (Inr u)
    obtain s1 r1 where q: "user_by_email (lr_Email req) s0 = (s1, r1)" by fastforce
    have s1: "same_core s s1"
      using same_core_trans [OF s0 stepsD [OF core.steps_users(1) q]] .
    show thesis
    proof (cases r1)
      case (Inl e)
      let ?log = "log_event E now og None EventLoginFailed SeverityWarning False :: ('z auth_db_scheme, auth_error, unit) op"
      have "Login E cfg now d og req s = thenE ?log (throw ErrInvalidCredentials) s1"
        using q Inl by (simp add: Login_def thenE_def r Inr)
      moreover have "?log s1 = (fst (?log s1), Inr ())" by (simp add: log_event_def LogSecurityEvent_def)
      ultimately have "Login E cfg now d og req s = (fst (?log s1), Inl ErrInvalidCredentials)"
        by (simp add: thenE_def)
      moreover have "same_core s (fst (?log s1))"
        by (rule same_core_trans [OF s1 steps_run [OF core.steps_log]])
      ultimately show thesis by (rule refused)
    next
      case (Inr user)
      note u = user_by_email_Inr [OF q [unfolded Inr]]
      show thesis
      proof (rule found [OF _ s1, of user])
        show "Login E cfg now d og req s = login_user E cfg now d og req user s1"
          using q Inr \<open>r0 = Inr u\<close> by (simp add: Login_def thenE_def r)
        show "user \<in> set (au_users s)" using u(1) s0 by (simp add: same_core_def)
      qed (use u in simp_all)
    qed
  qed
qed

section \<open>Locked and unverified accounts\<close>

text \<open>The one row of an account, which stays as long as \<open>Q\<close> holds of it.\<close>

definition account :: "uuid \<Rightarrow> (User \<Rightarrow> bool) \<Rightarrow> 'z auth_db_scheme \<Rightarrow> bool" where
  "account i Q s \<longleftrightarrow> distinct (map us_UserID (au_users s))
     \<and> (\<exists>u \<in> set (au_users s). us_UserID u = i \<and> us_DeletedAt u = None \<and> Q u)"

lemma account_unique: "account i Q s \<Longrightarrow> u \<in> set (au_users s) \<Longrightarrow> us_UserID u = i \<Longrightarrow> Q u"
  unfolding account_def by (metis distinct_map inj_onD)

definition account_kept :: "uuid \<Rightarrow> (User \<Rightarrow> bool) \<Rightarrow> 'z auth_db_scheme \<Rightarrow> 'z auth_db_scheme \<Rightarrow> bool" where
  "account_kept i Q s s' \<longleftrightarrow> (account i Q s \<longrightarrow> account i Q s')"

lemma account_kept_same: "au_users s' = au_users s \<Longrightarrow> account_kept i Q s s'"
  by (simp add: account_kept_def account_def)

lemma account_kept_update:
  assumes "\<And>u. us_UserID (f u) = us_UserID u" and "\<And>u. us_DeletedAt (f u) = us_DeletedAt u"
    and "\<And>u. us_UserID u = i \<Longrightarrow> P u \<Longrightarrow> Q u \<Longrightarrow> Q (f u)"
  shows "account_kept i Q s (s\<lparr>au_users := update_rows P f (au_users s)\<rparr>)"
  unfolding account_kept_def
proof
  assume a: "account i Q s"
  then obtain u where u: "u \<in> set (au_users s)" "us_UserID u = i" "us_DeletedAt u = None" "Q u"
    by (auto simp: account_def)
  have "map us_UserID (update_rows P f (au_users s)) = map us_UserID (au_users s)"
    by (rule update_rows_key) (rule assms(1))
  moreover have "(if P u then f u else u) \<in> set (update_rows P f (au_users s))"
    using u(1) by (auto simp: update_rows_def)
  ultimately show "account i Q (s\<lparr>au_users := update_rows P f (au_users s)\<rparr>)"
    using a u assms unfolding account_def by (intro conjI bexI [of _ "if P u then f u else u"]) auto
qed

lemma account_kept_insert:
  "\<not> (\<exists>u' \<in> set (au_users s). us_UserID u' = us_UserID u) \<Longrightarrow> account_kept i Q s (s\<lparr>au_users := au_users s @ [u]\<rparr>)"
  by (auto simp: account_kept_def account_def)

text \<open>A lock, and the missing confirmation of the address.\<close>

definition locked_row :: "gotime \<Rightarrow> User \<Rightarrow> bool" where
  "locked_row until u \<longleftrightarrow> us_LockedUntil u = Some until"

interpretation locked: auth_frame "account_kept i (locked_row until)" for i until
proof unfold_locales
  show "transp (account_kept i (locked_row until))" by (auto simp: account_kept_def intro!: transpI)
  fix f :: "User \<Rightarrow> User" and P and s :: "'a auth_db_scheme"
  assume "\<And>u. lock_identity (f u) = lock_identity u \<and> us_LockedUntil (f u) = us_LockedUntil u"
  then show "account_kept i (locked_row until) s (s\<lparr>au_users := update_rows P f (au_users s)\<rparr>)"
    by (intro account_kept_update) (simp_all add: lock_identity_def locked_row_def)
qed (simp_all add: reflpI account_kept_same fault_blind_def redis_blind_def account_kept_insert)

interpretation unverified: auth_frame "account_kept i (\<lambda>u. \<not> us_IsEmailVerified u)" for i
proof unfold_locales
  show "transp (account_kept i (\<lambda>u. \<not> us_IsEmailVerified u))" by (auto simp: account_kept_def intro!: transpI)
  fix f :: "User \<Rightarrow> User" and P and s :: "'a auth_db_scheme"
  assume "\<And>u. lock_identity (f u) = lock_identity u \<and> us_LockedUntil (f u) = us_LockedUntil u"
  then show "account_kept i (\<lambda>u. \<not> us_IsEmailVerified u) s (s\<lparr>au_users := update_rows P f (au_users s)\<rparr>)"
    by (intro account_kept_update) (simp_all add: lock_identity_def)
qed (simp_all add: reflpI account_kept_same fault_blind_def redis_blind_def account_kept_insert)

text \<open>A login of such an account is turned away before the password is looked at.\<close>

lemma logged [simp]:
  "thenE (log_event E now og userID event severity ok) m s
     = m (fst ((log_event E now og userID event severity ok :: ('z auth_db_scheme, 'e, unit) op) s))"
  for m :: "('z auth_db_scheme, 'e, 'a) op"
  by (simp add: thenE_def bindE_def log_event_def LogSecurityEvent_def)

lemma login_user_blocked:
  fixes s :: "'z auth_db_scheme"
  assumes "locked_until now user \<noteq> None \<or> \<not> us_IsEmailVerified user"
  shows "isl (snd (login_user E cfg now d og req user s))"
    and "same_core s (fst (login_user E cfg now d og req user s))"
  using assms by (cases "locked_until now user"; simp add: login_user_def steps_run [OF core.steps_log])+

lemma Login_blocked:
  fixes s :: "'z auth_db_scheme"
  assumes "account i Q s" and "\<And>u. Q u \<Longrightarrow> locked_until now u \<noteq> None \<or> \<not> us_IsEmailVerified u"
    and "\<forall>u \<in> set (au_users s). us_Email u = ToLower (lr_Email req) \<and> us_DeletedAt u = None \<longrightarrow> us_UserID u = i"
  shows "isl (snd (Login E cfg now d og req s))" and "same_core s (fst (Login E cfg now d og req s))"
proof -
  have "isl (snd (Login E cfg now d og req s)) \<and> same_core s (fst (Login E cfg now d og req s))"
  proof (cases rule: Login_cases [of E cfg now d og req s])
    case (found s1 user)
    then have "us_UserID user = i" using assms(3) by simp
    then have "Q user" using account_unique [OF assms(1) found(3)] by simp
    then show ?thesis
      using login_user_blocked [OF assms(2), where s = s1] found(1) same_core_trans [OF found(2)] by metis
  qed simp
  then show "isl (snd (Login E cfg now d og req s))" "same_core s (fst (Login E cfg now d og req s))" by simp_all
qed

lemma Login_keeps_lock:
  fixes s :: "'a auth_db_scheme"
  assumes "now < until"
  shows "account_kept i (locked_row until) s (fst (Login E cfg now d og req s))"
proof (cases rule: Login_cases [of E cfg now d og req s])
  case (refused s1 err)
  then show ?thesis by (simp add: account_kept_same same_core_def)
next
  case (found s1 user)
  have kept: "account_kept i (locked_row until) s s1" using found(2) by (simp add: account_kept_same same_core_def)
  show ?thesis
  proof (cases "account i (locked_row until) s \<and> us_UserID user = i")
    case True
    then have "locked_until now user \<noteq> None"
      using account_unique [OF _ found(3), of i "locked_row until"] assms by (simp add: locked_until_def locked_row_def)
    then have "same_core s1 (fst (Login E cfg now d og req s))"
      using login_user_blocked(2) found(1) by metis
    with kept show ?thesis by (simp add: account_kept_def account_def same_core_def)
  next
    case other: False
    show ?thesis
    proof (cases "account i (locked_row until) s")
      case True
      with other have ne: "us_UserID user \<noteq> i" by simp
      have upd: "account_kept i (locked_row until)
          s (s\<lparr>au_users := update_rows (\<lambda>u. us_UserID u = us_UserID user \<and> us_DeletedAt u = None) f (au_users s)\<rparr>)"
        if "\<And>u. lock_identity (f u) = lock_identity u" for f :: "User \<Rightarrow> User" and s :: "'a auth_db_scheme"
        by (intro account_kept_update) (use ne that in \<open>simp_all add: lock_identity_def\<close>)
      have "steps (account_kept i (locked_row until))
          (login_user E cfg now d og req user :: ('a auth_db_scheme, auth_error, LoginResponse) op)"
        by (rule locked.steps_login_user) (simp add: account_kept_same, rule upd)
      from steps_run [OF this, of s1] kept found(1) show ?thesis by (simp add: account_kept_def)
    qed (simp add: account_kept_def)
  qed
qed

lemma step_keeps_lock:
  fixes s :: "'a auth_db_scheme"
  assumes "call_time c < until"
  shows "account_kept i (locked_row until) s (fst (auth_step E cfg c s))"
proof (cases "\<exists>now d og req. c = CallLogin now d og req")
  case True
  with assms show ?thesis by (auto simp: Login_keeps_lock)
next
  case False
  then have "steps (account_kept i (locked_row until)) (auth_step E cfg c)"
    by (intro locked.steps_other_call) simp
  then show ?thesis by (rule steps_run)
qed

lemma run_keeps_lock:
  "account i (locked_row until) s \<Longrightarrow> \<forall>c \<in> set calls. call_time c < until
    \<Longrightarrow> account i (locked_row until) (auth_run E cfg calls s)"
proof (induction calls arbitrary: s)
  case (Cons c calls)
  then have "account i (locked_row until) (fst (auth_step E cfg c s))"
    using step_keeps_lock [of c until i s E cfg] by (simp add: account_kept_def)
  with Cons show ?case by (simp add: auth_run_def)
qed (simp add: auth_run_def)

text \<open>
  C15: As long as a lock lasts nothing ends it early, neither the right password nor a new one nor any
  other call of the service, and at any point of such a sequence a call of Login for the account is
  refused and leaves the users, the tokens and the sessions as they are.  Only Login asks for the
  lock: a refresh token and a pending second factor of the account go on working.
\<close>

theorem locked_account_stays_locked:
  assumes "account i (locked_row until) s" and "\<forall>c \<in> set calls. call_time c < until" and "now < until"
    and "\<forall>u \<in> set (au_users (auth_run E cfg calls s)).
      us_Email u = ToLower (lr_Email req) \<and> us_DeletedAt u = None \<longrightarrow> us_UserID u = i"
  shows "account i (locked_row until) (auth_run E cfg calls s)
    \<and> isl (snd (Login E cfg now d og req (auth_run E cfg calls s)))
    \<and> same_core (auth_run E cfg calls s) (fst (Login E cfg now d og req (auth_run E cfg calls s)))"
proof -
  have "account i (locked_row until) (auth_run E cfg calls s)"
    using assms(1,2) by (rule run_keeps_lock)
  moreover have "locked_row until u \<Longrightarrow> locked_until now u \<noteq> None \<or> \<not> us_IsEmailVerified u" for u
    using assms(3) by (simp add: locked_row_def locked_until_def)
  ultimately show ?thesis using Login_blocked [OF _ _ assms(4)] by blast
qed

text \<open>A registration.\<close>

lemma Register_user:
  fixes s :: "'z auth_db_scheme"
  assumes "Register E cfg now d og req s = (s', Inr resp)"
  obtains s1 hash where "same_core s s1" "register_user E now d og (new_user d req hash) hash s1 = (s', Inr resp)"
proof -
  obtain s0 u where c: "check_new_password E cfg (rr_Password req) s = (s0, Inr u)"
    and k: "bindE (try_get (user_by_email (rr_Email req))) (\<lambda>existing.
       if existing \<noteq> None then throw (AuthMessage ''user already exists'')
       else bindE (hash_password E d (rr_Password req)) (\<lambda>h. register_user E now d og (new_user d req h) h)) s0
      = (s', Inr resp)"
    using assms unfolding Register_def thenE_Inr_iff [of "check_new_password _ _ _"] by blast
  then obtain s1 where q: "try_get (user_by_email (rr_Email req)) s0 = (s1, Inr None :: auth_error + User option)"
    and h: "bindE (hash_password E d (rr_Password req)) (\<lambda>h. register_user E now d og (new_user d req h) h) s1 = (s', Inr resp)"
    unfolding bindE_Inr_iff [of "try_get _"] by (auto split: if_splits)
  from h obtain hash where "register_user E now d og (new_user d req hash) hash s1 = (s', Inr resp)"
    by (auto simp: hash_password_def bindE_def split: sum.splits)
  moreover have "same_core s s1"
    using stepsD [OF core.steps_password_checks(1) c] stepsD [OF steps_try_get [OF core.steps_users(1)] q]
    by (rule same_core_trans)
  ultimately show thesis by (rule that [rotated])
qed

lemma Register_inserts:
  fixes s :: "'z auth_db_scheme"
  assumes "Register E cfg now d og req s = (s', Inr resp)"
  obtains hash where "au_users s' = au_users s @ [new_user d req hash]" "ad_user d \<notin> us_UserID ` set (au_users s)"
    "resp = \<lparr>rp_UserID = ad_user d, rp_Email = ToLower (rr_Email req), rp_FullName = rr_FullName req\<rparr>"
proof -
  obtain s1 hash where s1: "same_core s s1" and r: "register_user E now d og (new_user d req hash) hash s1 = (s', Inr resp)"
    using assms by (rule Register_user)
  obtain s2 u where t: "transaction AuthFailure (thenE (insert_user (new_user d req hash))
      (SavePasswordHistory now (ad_history d) (us_UserID (new_user d req hash)) hash)) s1 = (s2, Inr u)"
    and k: "bindE (createEmailVerificationToken now d (us_UserID (new_user d req hash))) (\<lambda>verificationToken.
       thenE (log_event E now og (Some (us_UserID (new_user d req hash))) EventUserRegistered SeverityInfo True)
         (ret \<lparr>rp_UserID = us_UserID (new_user d req hash), rp_Email = us_Email (new_user d req hash),
               rp_FullName = us_FullName (new_user d req hash)\<rparr>)) s2 = (s', Inr resp)"
    using r unfolding register_user_def thenE_Inr_iff [of "transaction _ _"] by blast
  have "au_users s2 = au_users s1 @ [new_user d req hash] \<and> ad_user d \<notin> us_UserID ` set (au_users s1)"
    using t unfolding transaction_Inr thenE_Inr_iff insert_user_def db_insert_Inr SavePasswordHistory_def insert_history_def
    by (auto dest!: db_call_InrD simp: new_user_def)
  moreover have "steps same_core (\<lambda>s :: 'z auth_db_scheme. bindE (createEmailVerificationToken now d i) (\<lambda>verificationToken.
       thenE (log_event E now og (Some i) EventUserRegistered SeverityInfo True) (ret resp')) s)" for i and resp' :: RegisterResponse
    by (intro core.quiet_rules core.steps_verification core.steps_log)
  from stepsD [OF this k] have "same_core s2 s'" .
  moreover have "resp = \<lparr>rp_UserID = ad_user d, rp_Email = ToLower (rr_Email req), rp_FullName = rr_FullName req\<rparr>"
    using k by (auto simp: bindE_Inr_iff new_user_def)
  ultimately show thesis using that s1 by (simp add: same_core_def)
qed

lemma run_keeps_unverified:
  "account i (\<lambda>u. \<not> us_IsEmailVerified u) s \<Longrightarrow> account i (\<lambda>u. \<not> us_IsEmailVerified u) (auth_run E cfg calls s)"
proof (induction calls arbitrary: s)
  case (Cons c calls)
  have "account_kept i (\<lambda>u. \<not> us_IsEmailVerified u) s (fst (auth_step E cfg c s))"
    by (rule unverified.steps_call)
      (simp_all add: account_kept_same account_kept_update lock_identity_def)
  with Cons show ?case by (simp add: account_kept_def auth_run_def)
qed (simp add: auth_run_def)

text \<open>
  C32: Registration adds one account that has not confirmed its address, and nothing in the service
  confirms one: whatever calls follow, every login of the account is refused.
\<close>

theorem registered_never_logs_in:
  assumes "Register E cfg now d og req s = (s', Inr resp)" and "distinct (map us_UserID (au_users s))"
    and "\<forall>u \<in> set (au_users (auth_run E cfg calls s')).
      us_Email u = ToLower (lr_Email req') \<and> us_DeletedAt u = None \<longrightarrow> us_UserID u = rp_UserID resp"
  shows "(\<exists>hash. au_users s' = au_users s @ [new_user d req hash])
    \<and> account (rp_UserID resp) (\<lambda>u. \<not> us_IsEmailVerified u) (auth_run E cfg calls s')
    \<and> isl (snd (Login E cfg now' d' og' req' (auth_run E cfg calls s')))"
proof -
  obtain hash where r: "au_users s' = au_users s @ [new_user d req hash]" "ad_user d \<notin> us_UserID ` set (au_users s)"
    "resp = \<lparr>rp_UserID = ad_user d, rp_Email = ToLower (rr_Email req), rp_FullName = rr_FullName req\<rparr>"
    using assms(1) by (rule Register_inserts)
  have "account (rp_UserID resp) (\<lambda>u. \<not> us_IsEmailVerified u) s'"
    using r assms(2) by (simp add: account_def new_user_def)
  then have a: "account (rp_UserID resp) (\<lambda>u. \<not> us_IsEmailVerified u) (auth_run E cfg calls s')"
    by (rule run_keeps_unverified)
  moreover have "isl (snd (Login E cfg now' d' og' req' (auth_run E cfg calls s')))"
    by (rule Login_blocked(1) [OF a _ assms(3)]) simp
  ultimately show ?thesis using r(1) by blast
qed

section \<open>A successful login\<close>

lemma failing_Inr_call: "failing (bindE redis_call k) s = (s', Inr v) \<longleftrightarrow> (\<exists>s1. redis_call s = (s1, Inr ()) \<and> k () s1 = (s', Inr v))"
  by (simp add: failing_Inr bindE_Inr_iff)

lemma CountUserSessions_Inr:
  "CountUserSessions E now userID s = (s', Inr n) \<Longrightarrow> same_access s s' \<and> n = int (length (members E now userID s))"
  by (cases rule: redis_call_cases [of s]) (auto simp: CountUserSessions_def failing_Inr_call same_access_def members_def)

lemma CreateSession_Inr:
  assumes "CreateSession E now userID sessionID session ttl s = (s', Inr ())"
  shows "au_refresh s' = au_refresh s"
    and "ttl > 0 \<Longrightarrow> sessionID \<in> set (members E now userID s')
      \<and> live_entry now (sessionKey E userID sessionID) (rd_sessions s') = Some (session, Some (now + ttl))"
proof -
  obtain s1 where s1: "redis_call s = (s1, Inr ())" "au_refresh s1 = au_refresh s"
    and s': "s' = fst (modify (\<lambda>s. let ids = List.insert sessionID (members E now userID s);
           s = s\<lparr>rd_sessions := AList.update (sessionKey E userID sessionID)
                   (session, if ttl > 0 then Some (now + ttl) else None) (rd_sessions s)\<rparr>
       in if ttl > 0
          then s\<lparr>rd_user_sessions := AList.update (userSessionsKey E userID) (ids, Some (now + ttl)) (rd_user_sessions s)\<rparr>
          else s\<lparr>rd_user_sessions := AList.delete (userSessionsKey E userID) (rd_user_sessions s)\<rparr>) s1
        :: 'a auth_db_scheme \<times> (string + unit))"
    using assms by (cases rule: redis_call_cases [of s]) (auto simp: CreateSession_def failing_Inr_call)
  show "au_refresh s' = au_refresh s" by (simp add: s' s1(2) Let_def)
  assume "ttl > 0"
  then show "sessionID \<in> set (members E now userID s')
      \<and> live_entry now (sessionKey E userID sessionID) (rd_sessions s') = Some (session, Some (now + ttl))"
    by (simp add: s' Let_def members_def live_entry_def)
qed

text \<open>
  What the answer to a login gives away: an access token signed for claims that name the user, the
  tenant and the new session, and a refresh token.
\<close>

definition issued :: "auth_env \<Rightarrow> gotime \<Rightarrow> auth_draw \<Rightarrow> LoginResponse \<Rightarrow> User \<Rightarrow> string \<Rightarrow> bool" where
  "issued E now d resp user raw \<longleftrightarrow>
     (\<exists>token c. lp_Token resp = Some token \<and> ae_SignedString E c = Inr token
        \<and> cl_user_id c = ae_uuid_String E (us_UserID user) \<and> cl_tenant_id c = ae_uuid_String E (us_TenantID user)
        \<and> cl_session_id c = ae_uuid_String E (ad_session d) \<and> cl_jti c = ae_uuid_String E (ad_jti d)
        \<and> cl_iat c = unix now \<and> Some (cl_exp c) = map_option unix (lp_ExpiresAt resp))
     \<and> lp_RefreshToken resp = Some raw \<and> \<not> lp_Requires2FA resp
     \<and> map_option (\<lambda>i. (ui_UserID i, ui_TenantID i)) (lp_User resp) = Some (us_UserID user, us_TenantID user)"

lemma members_same: "same_access s s' \<Longrightarrow> members E now userID s' = members E now userID s"
  by (simp add: same_access_def members_def)

lemma same_access_trans: "same_access a b \<Longrightarrow> same_access b c \<Longrightarrow> same_access a c"
  by (simp add: same_access_def)

lemma token_makers_Inr:
  "GenerateAccessToken E now jti u tn sid ttl s = (s', Inr access) \<Longrightarrow> s' = s"
  "GenerateSecureToken random s = (s', Inr raw) \<Longrightarrow> s' = s"
  by (auto simp: GenerateAccessToken_def GenerateSecureToken_def split: sum.splits)

lemma access_claims:
  "GenerateAccessToken E now jti u tn sid ttl s = (s', Inr access) \<Longrightarrow>
     \<exists>c. ae_SignedString E c = Inr access \<and> cl_user_id c = ae_uuid_String E u \<and> cl_tenant_id c = ae_uuid_String E tn
       \<and> cl_session_id c = sid \<and> cl_jti c = ae_uuid_String E jti \<and> cl_iat c = unix now \<and> cl_exp c = unix (now + ttl)"
  unfolding GenerateAccessToken_def
  by (intro exI [of _ "\<lparr>cl_jti = ae_uuid_String E jti, cl_iss = ''rms-auth'', cl_aud = ''rms-api'',
        cl_user_id = ae_uuid_String E u, cl_tenant_id = ae_uuid_String E tn, cl_session_id = sid,
        cl_exp = unix (now + ttl), cl_iat = unix now\<rparr>"]) (simp split: sum.splits)

lemma insert_refresh_Inr:
  "insert_refresh t s = (s', Inr u) \<Longrightarrow> au_refresh s' = au_refresh s @ [t] \<and> rd_user_sessions s' = rd_user_sessions s
    \<and> au_users s' = au_users s"
  by (auto simp: insert_refresh_def db_insert_Inr dest!: db_call_InrD)

lemma createAuthTokens_Inr:
  fixes s :: "'z auth_db_scheme"
  assumes "createAuthTokensWithTTL E now d og user deviceType ttl s = (s', Inr resp)"
  shows "\<exists>raw. issued E now d resp user raw \<and> au_refresh s' = au_refresh s @ [new_refresh E now d og user raw deviceType ttl]
    \<and> (ttl_AccessToken ttl > 0 \<longrightarrow> ae_uuid_String E (ad_session d) \<in> set (members E now (us_UserID user) s'))"
proof -
  let ?sid = "ae_uuid_String E (ad_session d)"
  obtain s1 access s2 raw s3 s4 tenant where
    a: "GenerateAccessToken E now (ad_jti d) (us_UserID user) (us_TenantID user) ?sid (ttl_AccessToken ttl) s = (s1, Inr access)"
      "GenerateSecureToken (ad_random d) s1 = (s2, Inr raw)"
    and i: "insert_refresh (new_refresh E now d og user raw deviceType ttl) s2 = (s3, Inr ())"
    and c: "CreateSession E now (us_UserID user) ?sid (session_data now og user deviceType) (ttl_AccessToken ttl) s3 = (s4, Inr ())"
    and q: "try_get (tenant_by_id (us_TenantID user)) s4 = (s', Inr tenant :: auth_error + Tenant option)"
    and r: "lp_Token resp = Some access" "lp_RefreshToken resp = Some raw" "\<not> lp_Requires2FA resp"
      "map_option (\<lambda>i. (ui_UserID i, ui_TenantID i)) (lp_User resp) = Some (us_UserID user, us_TenantID user)"
      "lp_ExpiresAt resp = Some (now + ttl_AccessToken ttl)"
    using assms unfolding createAuthTokensWithTTL_def Let_def
    by (auto simp: bindE_Inr_iff thenE_Inr_iff user_info_def)
  have "steps same_access (try_get (tenant_by_id (us_TenantID user)) :: ('z auth_db_scheme, auth_error, Tenant option) op)"
    by (intro access.quiet_rules access.steps_tenant)
  then have s4: "same_access s4 s'" by (rule stepsD) (rule q)
  show ?thesis
    using s4 members_same [OF s4] CreateSession_Inr [OF c] insert_refresh_Inr [OF i] token_makers_Inr(1) [OF a(1)] token_makers_Inr(2) [OF a(2)] r
      access_claims [OF a(1)]
    by (intro exI [of _ raw]) (simp add: issued_def same_access_def)
qed

lemma steps_access_user: "steps same_access (update_user user f)"
  unfolding update_user_def by (intro access.quiet_rules) (simp add: same_access_def)

lemma establish_Inr:
  fixes s :: "'z auth_db_scheme"
  assumes "establish E cfg now d og user deviceType event s = (s', Inr resp)"
  shows "int (length (members E now (us_UserID user) s)) < ac_maxSessions cfg"
    and "\<exists>raw. issued E now d resp user raw \<and> au_refresh s' = au_refresh s @ [new_refresh E now d og user raw deviceType
          (determineTokenTTL cfg (us_PrimaryRole user) deviceType)]"
proof -
  let ?ttl = "determineTokenTTL cfg (us_PrimaryRole user) deviceType" and ?loc = "ae_Lookup E (og_ipAddress og)"
  let ?tail = "\<lambda>tokens. thenE (ignore (update_user user (\<lambda>u. u\<lparr>us_LastLoginAt := Some now,
        us_LastLoginIP := og_ipAddress og, us_LastLoginLocation := ?loc\<rparr>)))
      (thenE (ignore (RegisterOrUpdateDevice now (ad_device d) (us_UserID user) (og_deviceFingerprint og)
          (og_ipAddress og) (og_userAgent og) ?loc))
        (thenE (log_event E now og (Some (us_UserID user)) event SeverityInfo True) (ret tokens)))
      :: ('z auth_db_scheme, auth_error, LoginResponse) op"
  obtain s1 n s2 tokens where n: "CountUserSessions E now (us_UserID user) s = (s1, Inr n)" "\<not> n \<ge> ac_maxSessions cfg"
    and c: "createAuthTokensWithTTL E now d og user deviceType ?ttl s1 = (s2, Inr tokens)"
    and k: "?tail tokens s2 = (s', Inr resp)"
    using assms unfolding establish_def Let_def bindE_Inr_iff [of "CountUserSessions _ _ _"]
    by (auto simp: bindE_Inr_iff [of "createAuthTokensWithTTL _ _ _ _ _ _ _"] split: if_splits)
  note cnt = CountUserSessions_Inr [OF n(1)]
  show "int (length (members E now (us_UserID user) s)) < ac_maxSessions cfg" using cnt n(2) by simp
  have "steps same_access (?tail tokens)"
    by (intro access.quiet_rules steps_access_user access.steps_device access.steps_log)
  from stepsD [OF this k] have "same_access s2 s'" .
  moreover have "resp = tokens" using k by (auto simp: thenE_Inr_iff)
  ultimately show "\<exists>raw. issued E now d resp user raw \<and> au_refresh s' = au_refresh s @ [new_refresh E now d og user raw deviceType ?ttl]"
    using createAuthTokens_Inr [OF c] cnt by (auto simp: same_access_def)
qed

lemma authenticated_Inr:
  fixes s :: "'z auth_db_scheme"
  assumes "authenticated E cfg now d og req user s = (s', Inr resp)"
  shows "lp_Requires2FA resp \<and> lp_Token resp = None \<and> lp_RefreshToken resp = None \<and> same_access s s'
    \<or> \<not> us_TwoFactorEnabled user \<and> int (length (members E now (us_UserID user) s)) < ac_maxSessions cfg
      \<and> (\<exists>raw t. issued E now d resp user raw \<and> rt_UserID t = us_UserID user \<and> rt_TokenHash t = HashToken E raw
            \<and> rt_DeviceID t = ae_uuid_String E (ad_session d) \<and> au_refresh s' = au_refresh s @ [t])"
proof -
  let ?u = "reset_attempts user"
  obtain s1 s2 risk where
    a: "(if us_FailedLoginAttempts user > 0
       then ignore (update_user user (\<lambda>u. u\<lparr>us_FailedLoginAttempts := 0, us_LockedUntil := None\<rparr>))
       else ret ()) s = (s1, Inr () :: auth_error + unit)"
    and b: "CalculateRiskScore E now ?u (og_ipAddress og) (og_deviceFingerprint og) s1 = (s2, Inr risk)"
    and c: "(if rk_RequiresMFA risk \<or> us_TwoFactorEnabled ?u then second_factor E now d og ?u
       else establish E cfg now d og ?u (if lr_DeviceType req \<noteq> '''' then lr_DeviceType req else ''web'')
              EventLoginSuccess) s2 = (s', Inr resp)"
    using assms unfolding authenticated_def Let_def by (auto simp: bindE_Inr_iff thenE_Inr_iff)
  have "steps same_access (if us_FailedLoginAttempts user > 0
       then ignore (update_user user (\<lambda>u. u\<lparr>us_FailedLoginAttempts := 0, us_LockedUntil := None\<rparr>))
       else ret () :: ('z auth_db_scheme, auth_error, unit) op)"
    by (intro access.quiet_rules steps_access_user)
  then have "same_access s s1" by (rule stepsD) (rule a)
  then have s2: "same_access s s2" by (rule same_access_trans) (rule stepsD [OF access.steps_risk b])
  have u: "us_UserID ?u = us_UserID user" "us_TwoFactorEnabled ?u = us_TwoFactorEnabled user"
      "us_TenantID ?u = us_TenantID user"
    by (simp_all add: reset_attempts_def)
  show ?thesis
  proof (cases "rk_RequiresMFA risk \<or> us_TwoFactorEnabled ?u")
    case True
    then have c: "second_factor E now d og ?u s2 = (s', Inr resp)" using c by simp
    have "steps same_access (second_factor E now d og ?u :: ('z auth_db_scheme, auth_error, LoginResponse) op)"
      unfolding second_factor_def
      by (intro access.quiet_rules access.steps_pending access.steps_log) (simp add: same_access_def)
    then have "same_access s2 s'" by (rule stepsD) (rule c)
    with s2 have "same_access s s'" by (rule same_access_trans)
    moreover have "lp_Requires2FA resp \<and> lp_Token resp = None \<and> lp_RefreshToken resp = None"
      using c by (auto simp: second_factor_def bindE_Inr_iff)
    ultimately show ?thesis by blast
  next
    case False
    with c obtain dt where c: "establish E cfg now d og ?u dt EventLoginSuccess s2 = (s', Inr resp)" by simp
    obtain raw where "issued E now d resp ?u raw" "au_refresh s' = au_refresh s2 @
        [new_refresh E now d og ?u raw dt (determineTokenTTL cfg (us_PrimaryRole ?u) dt)]"
      using establish_Inr(2) [OF c] by blast
    moreover have "int (length (members E now (us_UserID user) s)) < ac_maxSessions cfg"
      using establish_Inr(1) [OF c] s2 u by (simp add: members_same)
    ultimately show ?thesis using s2 u False by (auto simp: same_access_def issued_def new_refresh_def)
  qed
qed


end
