(* ===== verification/Auth_Effects.thy ===== *)
theory Auth_Effects
  imports Auth_Outcomes
begin

text \<open>
  What the calls do while the database and Redis work: a wrong password, the rotation of a token and
  its reuse, and a new password.
\<close>

section \<open>Calls that work\<close>

definition working :: "'z auth_db_scheme \<Rightarrow> bool" where
  "working s \<longleftrightarrow> faults s = [] \<and> rd_faults s = []"

lemma db_working:
  assumes "faults s = []"
  shows "db_write wrap f s = (f s, Inr ())" "db_query wrap sel s = (s, Inr (sel s))"
    "db_insert wrap conflict f s = (if conflict s then (s, Inl (wrap duplicate_key)) else (f s, Inr ()))"
    "first_row key P (table s) = Some r \<Longrightarrow> db_First nf wrap key table P s = (s, Inr r)"
  using assms by (simp_all add: db_write_def db_query_def db_insert_def db_First_def db_find_def bindE_def)

lemma thenE_ignore [simp]: "thenE (ignore m) k s = k (fst (m s))"
  by (simp add: thenE_def bindE_def)

lemma transaction_working:
  "faults s = [] \<Longrightarrow> body s = (s', Inr a) \<Longrightarrow> faults s' = [] \<Longrightarrow> transaction wrap body s = (s', Inr a)"
  by (simp add: transaction_def bindE_def thenE_def)

lemma log_working:
  assumes "working s"
  obtains events where "(log_event E now og userID event severity ok :: ('z auth_db_scheme, 'e, unit) op) s
    = (s\<lparr>au_events := events\<rparr>, Inr ())"
  using assms by (auto simp: log_event_def LogSecurityEvent_def db_working working_def)

lemma log_appends:
  assumes "working s"
  shows "(log_event E now og userID event severity ok :: ('z auth_db_scheme, 'e, unit) op) s
    = (s\<lparr>au_events := au_events s @ [\<lparr>se_UserID = userID, se_EventType = event, se_EventSeverity = severity,
         se_IPAddress = og_ipAddress og, se_UserAgent = og_userAgent og, se_Location = ae_Lookup E (og_ipAddress og),
         se_Success = ok, se_Timestamp = now\<rparr>]\<rparr>, Inr ())"
  using assms by (simp add: log_event_def LogSecurityEvent_def db_working working_def)

lemma revokeAll_working:
  "working s \<Longrightarrow> revokeAllRefreshTokens now i reason s
    = (s\<lparr>au_refresh := update_rows (\<lambda>t. rt_UserID t = i) (revoke now reason) (au_refresh s)\<rparr>, Inr ())"
  by (simp add: revokeAllRefreshTokens_def db_working working_def revoke_def [abs_def])

text \<open>
  No token of the user is left, and no session that was listed in the user's set; the tokens of the
  others are as before, and so is every session outside that set, whoever it belongs to.
\<close>

definition logged_out :: "auth_env \<Rightarrow> gotime \<Rightarrow> uuid \<Rightarrow> 'z auth_db_scheme \<Rightarrow> 'z auth_db_scheme \<Rightarrow> bool" where
  "logged_out E now i s s' \<longleftrightarrow> (\<forall>t \<in> set (au_refresh s'). rt_UserID t = i \<longrightarrow> rt_IsRevoked t)
     \<and> filter (\<lambda>t. rt_UserID t \<noteq> i) (au_refresh s') = filter (\<lambda>t. rt_UserID t \<noteq> i) (au_refresh s)
     \<and> members E now i s' = []
     \<and> (\<forall>k. map_of (rd_sessions s') k
          = (if k \<in> sessionKey E i ` set (members E now i s) then None else map_of (rd_sessions s) k))"

lemma map_of_fold_delete:
  "map_of (fold (\<lambda>x. AList.delete (f x)) xs al) k = (if k \<in> f ` set xs then None else map_of al k)"
  by (induction xs arbitrary: al) (auto simp: delete_conv')

lemma revokeSessions_working:
  assumes "working s"
  obtains x y where "RevokeAllUserSessions E now i s = (s\<lparr>rd_sessions := x, rd_user_sessions := y\<rparr>, Inr ())"
    "members E now i (s\<lparr>rd_sessions := x, rd_user_sessions := y\<rparr>) = []"
    "\<forall>k. map_of x k = (if k \<in> sessionKey E i ` set (members E now i s) then None else map_of (rd_sessions s) k)"
proof -
  have get: "GetUserSessions E now i s = (s, Inr (members E now i s))"
    using assms by (simp add: GetUserSessions_def failing_def bindE_def working_def)
  show thesis
  proof (cases "members E now i s = []")
    case True
    then show thesis using get
      by (intro that [where x = "rd_sessions s" and y = "rd_user_sessions s"]) (simp_all add: RevokeAllUserSessions_def bindE_def)
  next
    case False
    then show thesis using get assms
      by (intro that [where x = "fold (\<lambda>sessionID. AList.delete (sessionKey E i sessionID)) (members E now i s) (rd_sessions s)"
            and y = "AList.delete (userSessionsKey E i) (rd_user_sessions s)"])
        (simp_all add: RevokeAllUserSessions_def bindE_def failing_def working_def map_of_fold_delete members_def
          live_entry_def delete_conv')
  qed
qed

lemma revoked_rows:
  "\<forall>t \<in> set (update_rows (\<lambda>t. rt_UserID t = i) (revoke now reason) ts). rt_UserID t = i \<longrightarrow> rt_IsRevoked t"
  "filter (\<lambda>t. rt_UserID t \<noteq> i) (update_rows (\<lambda>t. rt_UserID t = i) (revoke now reason) ts) = filter (\<lambda>t. rt_UserID t \<noteq> i) ts"
proof -
  show "\<forall>t \<in> set (update_rows (\<lambda>t. rt_UserID t = i) (revoke now reason) ts). rt_UserID t = i \<longrightarrow> rt_IsRevoked t"
    by (auto simp: update_rows_set split: if_splits) (metis revoke_identity(2))
  have "rt_UserID (revoke now reason t) = rt_UserID t" for t by (simp add: revoke_def)
  then show "filter (\<lambda>t. rt_UserID t \<noteq> i) (update_rows (\<lambda>t. rt_UserID t = i) (revoke now reason) ts)
      = filter (\<lambda>t. rt_UserID t \<noteq> i) ts"
    by (induction ts) (simp_all add: update_rows_def)
qed

section \<open>A stolen token\<close>

lemma find_working:
  assumes "working s" and "unique_tokens s" and "t \<in> set (au_refresh s)" and "rt_TokenHash t = HashToken E token"
    and "rt_ExpiresAt t > now"
  shows "find_refresh E now token s = (s, Inr t)"
proof -
  have "first_row rt_TokenID (\<lambda>t. rt_TokenHash t = HashToken E token \<and> rt_ExpiresAt t > now) (au_refresh s) = Some t"
  proof (rule first_row_unique)
    fix t' assume "t' \<in> set (au_refresh s)" "rt_TokenHash t' = HashToken E token \<and> rt_ExpiresAt t' > now"
    then show "t' = t" using assms(2-4) unfolding unique_tokens_def by (metis distinct_map inj_onD)
  qed (use assms in simp_all)
  with assms(1) show ?thesis by (simp add: find_refresh_def or_fail_def db_working working_def)
qed

text \<open>
  C17: While the database and Redis work, presenting a refresh token that was revoked and has not run
  out yet is refused and ends what its user has: every refresh token is revoked and every session in
  the user's set deleted, other tokens and sessions stay, and exactly one event, a critical one that
  names the user, reports the reuse.
\<close>

theorem reuse_revokes_family:
  assumes "working s" and "unique_tokens s" and "t \<in> set (au_refresh s)" and "rt_TokenHash t = HashToken E token"
    and "rt_ExpiresAt t > now" and "rt_IsRevoked t"
  shows "snd (RefreshAccessToken E cfg now d og token s) = Inl ErrInvalidToken
    \<and> logged_out E now (rt_UserID t) s (fst (RefreshAccessToken E cfg now d og token s))
    \<and> (\<exists>e. au_events (fst (RefreshAccessToken E cfg now d og token s)) = au_events s @ [e]
        \<and> se_UserID e = Some (rt_UserID t) \<and> se_EventType e = ''token_reuse_detected'' \<and> se_EventSeverity e = ''critical''
        \<and> \<not> se_Success e \<and> se_IPAddress e = og_ipAddress og \<and> se_Timestamp e = now)"
proof -
  let ?i = "rt_UserID t"
  let ?s1 = "s\<lparr>au_refresh := update_rows (\<lambda>t. rt_UserID t = ?i) (revoke now ''token_reuse_detected'') (au_refresh s)\<rparr>"
  have w: "working ?s1" using assms(1) by (simp add: working_def)
  obtain x y where r: "RevokeAllUserSessions E now ?i ?s1 = (?s1\<lparr>rd_sessions := x, rd_user_sessions := y\<rparr>, Inr ())"
    and m: "members E now ?i (?s1\<lparr>rd_sessions := x, rd_user_sessions := y\<rparr>) = []"
      "\<forall>k. map_of x k = (if k \<in> sessionKey E ?i ` set (members E now ?i ?s1) then None else map_of (rd_sessions ?s1) k)"
    using w by (rule revokeSessions_working)
  let ?s2 = "?s1\<lparr>rd_sessions := x, rd_user_sessions := y\<rparr>"
  have "RefreshAccessToken E cfg now d og token s = token_reused E now og t s"
    using find_working [OF assms(1-5)] assms(6) by (simp add: RefreshAccessToken_def)
  also have "\<dots> = (fst ((log_event E now og (Some ?i) EventTokenReuse SeverityCritical False
      :: ('a auth_db_scheme, auth_error, unit) op) ?s2), Inl ErrInvalidToken)"
    using revokeAll_working [OF assms(1)] r by (simp add: token_reused_def)
  finally have run: "RefreshAccessToken E cfg now d og token s = \<dots>" .
  have c: "same_core ?s2 (fst (RefreshAccessToken E cfg now d og token s))"
    unfolding run by (simp add: steps_run [OF core.steps_log])
  have "logged_out E now ?i s ?s2"
    using m revoked_rows [of ?i now "''token_reuse_detected''" "au_refresh s"]
    by (simp add: logged_out_def members_def)
  with c have "logged_out E now ?i s (fst (RefreshAccessToken E cfg now d og token s))"
    by (simp add: logged_out_def same_core_def same_access_def members_def)
  moreover have "working ?s2" using w by (simp add: working_def)
  ultimately show ?thesis
    by (simp add: run log_appends EventTokenReuse_def SeverityCritical_def)
qed

section \<open>Rotation\<close>

text \<open>The draw is fresh: the bytes were read, and neither the id nor the hash is taken.\<close>

definition fresh_token :: "auth_env \<Rightarrow> auth_draw \<Rightarrow> string \<Rightarrow> 'z auth_db_scheme \<Rightarrow> bool" where
  "fresh_token E d raw s \<longleftrightarrow> (\<exists>b. ad_random d = Inr b \<and> raw = base64_URLEncode b)
     \<and> (\<forall>t \<in> set (au_refresh s). rt_TokenID t \<noteq> ad_token d \<and> rt_TokenHash t \<noteq> HashToken E raw)"

definition known_user :: "uuid \<Rightarrow> 'z auth_db_scheme \<Rightarrow> bool" where
  "known_user i s \<longleftrightarrow> (\<exists>u \<in> set (au_users s). us_UserID u = i \<and> us_DeletedAt u = None)"

lemma known_user_working:
  assumes "working s" and "known_user i s"
  obtains u where "user_by_id i s = (s, Inr u)" "us_UserID u = i"
proof -
  obtain u where u: "first_row us_UserID (\<lambda>u. us_UserID u = i \<and> us_DeletedAt u = None) (au_users s) = Some u"
    using assms(2) unfolding known_user_def
    by (cases "first_row us_UserID (\<lambda>u. us_UserID u = i \<and> us_DeletedAt u = None) (au_users s)") auto
  show thesis
    using that [of u] first_row_Some [OF u] assms(1)
    by (simp add: user_by_id_def working_def db_First_def db_find_def bindE_def u)
qed

lemma rotate_working:
  assumes "working s" and "fresh_token E d raw s"
  shows "rotate_token E cfg now d og old s = (s\<lparr>au_refresh :=
      update_rows (\<lambda>t. rt_TokenID t = rt_TokenID old) (revoke now ''rotated'') (au_refresh s)
      @ [rotated E cfg now d og old raw]\<rparr>, Inr raw)"
  unfolding rotate_token_def
proof (rule transaction_working)
  let ?s = "s\<lparr>au_refresh := update_rows (\<lambda>t. rt_TokenID t = rt_TokenID old) (revoke now ''rotated'') (au_refresh s)\<rparr>"
  let ?t = "rotated E cfg now d og old raw"
  have f: "faults ?s = []" "faults s = []" using assms(1) by (simp_all add: working_def)
  have "\<forall>t \<in> set (au_refresh ?s). rt_TokenID t \<noteq> ad_token d \<and> rt_TokenHash t \<noteq> HashToken E raw"
    using assms(2) by (auto simp: fresh_token_def update_rows_set split: if_splits)
  then have "insert_refresh ?t ?s = (?s\<lparr>au_refresh := au_refresh ?s @ [?t]\<rparr>, Inr ())"
    unfolding insert_refresh_def db_working(3) [OF f(1)] by (auto simp: rotated_def)
  then show "thenE (db_write AuthFailure (\<lambda>s. s\<lparr>au_refresh := update_rows (\<lambda>t. rt_TokenID t = rt_TokenID old)
        (\<lambda>t. t\<lparr>rt_IsRevoked := True, rt_RevokedAt := Some now, rt_RevokedReason := ''rotated''\<rparr>) (au_refresh s)\<rparr>))
      (bindE (GenerateSecureToken (ad_random d)) (\<lambda>raw. thenE (insert_refresh (rotated E cfg now d og old raw)) (ret raw))) s
    = (s\<lparr>au_refresh := update_rows (\<lambda>t. rt_TokenID t = rt_TokenID old) (revoke now ''rotated'') (au_refresh s) @ [?t]\<rparr>, Inr raw)"
    using assms(2) f(2)
    by (auto simp: thenE_def bindE_def db_working revoke_def [abs_def] GenerateSecureToken_def fresh_token_def)
qed (use assms(1) in \<open>simp_all add: working_def\<close>)

lemma refresh_with_working:
  fixes s :: "'z auth_db_scheme"
  assumes "working s" and "fresh_token E d raw s" and "known_user (rt_UserID old) s"
    and "\<forall>c. \<exists>token. ae_SignedString E c = Inr token"
  obtains s' resp where "refresh_with E cfg now d og old s = (s', Inr resp)" "lp_RefreshToken resp = Some raw"
    "lp_Token resp \<noteq> None"
    "au_refresh s' = update_rows (\<lambda>t. rt_TokenID t = rt_TokenID old) (revoke now ''rotated'') (au_refresh s)
      @ [rotated E cfg now d og old raw]" "working s'" "au_users s' = au_users s"
proof -
  let ?s = "s\<lparr>au_refresh := update_rows (\<lambda>t. rt_TokenID t = rt_TokenID old) (revoke now ''rotated'') (au_refresh s)
      @ [rotated E cfg now d og old raw]\<rparr>"
  have w: "working ?s" "known_user (rt_UserID old) ?s" using assms(1,3) by (simp_all add: working_def known_user_def)
  obtain u where u: "user_by_id (rt_UserID old) ?s = (?s, Inr u)" using known_user_working [OF w] by blast
  let ?ttl = "determineTokenTTL cfg (rt_UserRole old) (rt_DeviceType old)"
  obtain f where "\<And>c. ae_SignedString E c = Inr (f c)" using assms(4) by metis
  then obtain tok where tok: "GenerateAccessToken E now (ad_jti d) (us_UserID u) (us_TenantID u) (rt_DeviceID old)
      (ttl_AccessToken ?ttl) ?s = (?s, Inr tok)"
    by (simp add: GenerateAccessToken_def)
  obtain ev where l: "(log_event E now og (Some (rt_UserID old)) EventLoginSuccess SeverityInfo True
      :: ('z auth_db_scheme, auth_error, unit) op) ?s = (?s\<lparr>au_events := ev\<rparr>, Inr ())"
    using w(1) by (rule log_working)
  show thesis
  proof (rule that)
    show "refresh_with E cfg now d og old s = (?s\<lparr>au_events := ev\<rparr>, Inr \<lparr>lp_Token = Some tok, lp_RefreshToken = Some raw,
        lp_ExpiresAt = Some (now + ttl_AccessToken ?ttl), lp_User = None, lp_Requires2FA = False,
        lp_PendingSessionID = '''', lp_Message = ''''\<rparr>)"
      using rotate_working [OF assms(1,2), of cfg now og old] u tok l
      by (simp add: refresh_with_def bindE_def failing_def Let_def)
  qed (use w(1) in \<open>simp_all add: working_def\<close>)
qed

text \<open>
  A live refresh token is exchanged for a new pair: the old row is revoked and one row with the
  hash of the new token takes over its user, device and lifetime.  Whether the account is active,
  locked or confirmed makes no difference.
\<close>

theorem refresh_rotates:
  assumes "working s" and "unique_tokens s" and "t \<in> set (au_refresh s)" and "rt_TokenHash t = HashToken E token"
    and "rt_ExpiresAt t > now" and "\<not> rt_IsRevoked t" and "known_user (rt_UserID t) s" and "fresh_token E d raw s"
    and "\<forall>c. \<exists>tok. ae_SignedString E c = Inr tok"
  shows "\<exists>s' resp. RefreshAccessToken E cfg now d og token s = (s', Inr resp)
    \<and> lp_RefreshToken resp = Some raw \<and> lp_Token resp \<noteq> None \<and> spent_token E token s'
    \<and> au_refresh s' = update_rows (\<lambda>t'. t' = t) (revoke now ''rotated'') (au_refresh s) @ [rotated E cfg now d og t raw]"
proof -
  obtain s' resp where r: "refresh_with E cfg now d og t s = (s', Inr resp)" "lp_RefreshToken resp = Some raw"
    "lp_Token resp \<noteq> None" "au_refresh s' = update_rows (\<lambda>t'. rt_TokenID t' = rt_TokenID t) (revoke now ''rotated'') (au_refresh s)
      @ [rotated E cfg now d og t raw]"
    by (rule refresh_with_working [OF assms(1,8,7,9)])
  have run: "RefreshAccessToken E cfg now d og token s = (s', Inr resp)"
    using find_working [OF assms(1-5)] assms(6) r(1) by (simp add: RefreshAccessToken_def)
  have "rt_TokenID t' = rt_TokenID t \<longleftrightarrow> t' = t" if "t' \<in> set (au_refresh s)" for t'
    using that assms(2,3) unfolding unique_tokens_def by (metis distinct_map inj_onD)
  then have "update_rows (\<lambda>t'. rt_TokenID t' = rt_TokenID t) (revoke now ''rotated'') (au_refresh s)
      = update_rows (\<lambda>t'. t' = t) (revoke now ''rotated'') (au_refresh s)"
    by (simp add: update_rows_def)
  with run r Refresh_spends [OF run] show ?thesis by (intro exI conjI) simp_all
qed

text \<open>
  C33: Two requests with the same token that both looked it up before either rotated it both succeed:
  the update does not ask again whether the token is still live, so one token becomes two live ones
  and no reuse is noticed.
\<close>

theorem concurrent_refresh_forks:
  assumes "working s" and "known_user (rt_UserID t) s" and "\<forall>c. \<exists>tok. ae_SignedString E c = Inr tok"
    and "find_refresh E now1 token s = (s, Inr t)" and "find_refresh E now2 token s = (s, Inr t)"
    and "fresh_token E d1 raw1 s" and "fresh_token E d2 raw2 s"
    and "ad_token d1 \<noteq> ad_token d2" and "HashToken E raw1 \<noteq> HashToken E raw2"
  shows "\<exists>s1 s2 resp1 resp2. refresh_with E cfg now1 d1 og1 t s = (s1, Inr resp1)
    \<and> refresh_with E cfg now2 d2 og2 t s1 = (s2, Inr resp2)
    \<and> lp_RefreshToken resp1 = Some raw1 \<and> lp_RefreshToken resp2 = Some raw2
    \<and> {rotated E cfg now1 d1 og1 t raw1, rotated E cfg now2 d2 og2 t raw2} \<subseteq> set (au_refresh s2)
    \<and> (\<forall>r \<in> {rotated E cfg now1 d1 og1 t raw1, rotated E cfg now2 d2 og2 t raw2}.
          \<not> rt_IsRevoked r \<and> rt_UserID r = rt_UserID t \<and> rt_DeviceID r = rt_DeviceID t)"
proof -
  let ?r1 = "rotated E cfg now1 d1 og1 t raw1" and ?r2 = "rotated E cfg now2 d2 og2 t raw2"
  have "t \<in> set (au_refresh s)" by (rule find_refresh_Inr(2) [OF assms(4)])
  then have ne: "rt_TokenID ?r1 \<noteq> rt_TokenID t" using assms(6) by (auto simp: fresh_token_def rotated_def)
  obtain s1 resp1 where r1: "refresh_with E cfg now1 d1 og1 t s = (s1, Inr resp1)" "lp_RefreshToken resp1 = Some raw1"
    and a1: "au_refresh s1 = update_rows (\<lambda>t'. rt_TokenID t' = rt_TokenID t) (revoke now1 ''rotated'') (au_refresh s) @ [?r1]"
    and w1: "working s1" "au_users s1 = au_users s"
    by (rule refresh_with_working [OF assms(1,6,2,3)])
  have "fresh_token E d2 raw2 s1"
    using assms(7-9) by (auto simp: fresh_token_def a1 update_rows_set rotated_def split: if_splits)
  moreover have "known_user (rt_UserID t) s1" using assms(2) w1(2) by (simp add: known_user_def)
  ultimately obtain s2 resp2 where r2: "refresh_with E cfg now2 d2 og2 t s1 = (s2, Inr resp2)"
      "lp_RefreshToken resp2 = Some raw2"
    and a2: "au_refresh s2 = update_rows (\<lambda>t'. rt_TokenID t' = rt_TokenID t) (revoke now2 ''rotated'') (au_refresh s1) @ [?r2]"
    by (rule refresh_with_working [OF w1(1) _ _ assms(3)])
  have "?r1 \<in> set (au_refresh s2)" using ne by (auto simp: a2 a1 update_rows_def)
  moreover have "?r2 \<in> set (au_refresh s2)" by (simp add: a2)
  moreover have "\<forall>r \<in> {?r1, ?r2}. \<not> rt_IsRevoked r \<and> rt_UserID r = rt_UserID t \<and> rt_DeviceID r = rt_DeviceID t"
    by (simp add: rotated_def)
  ultimately show ?thesis using r1 r2 by blast
qed

section \<open>A wrong password\<close>

definition sole_account :: "string \<Rightarrow> User \<Rightarrow> 'z auth_db_scheme \<Rightarrow> bool" where
  "sole_account email user s \<longleftrightarrow> user \<in> set (au_users s) \<and> distinct (map us_UserID (au_users s))
     \<and> us_DeletedAt user = None \<and> us_Email user = ToLower email
     \<and> (\<forall>u \<in> set (au_users s). us_Email u = ToLower email \<and> us_DeletedAt u = None \<longrightarrow> u = user)"

definition within_limit :: "gotime \<Rightarrow> origin \<Rightarrow> 'z auth_db_scheme \<Rightarrow> bool" where
  "within_limit now og s \<longleftrightarrow> length (admitted now (''ratelimit:ip:'' @ og_ipAddress og) (unix now - 60) s) < 10"

lemma rate_working:
  assumes "working s" and "within_limit now og s"
  obtains w where "CheckIPRateLimit now (og_ipAddress og) 10 (minutes 1) s = (s\<lparr>rd_windows := w\<rparr>, Inr ())"
proof -
  have "sgn (minutes 1) * (\<bar>minutes 1\<bar> div 1000000000) = 60" by (simp add: minutes_def)
  then show thesis
    using assms that
    by (auto simp: CheckIPRateLimit_def checkRateLimit_def failing_def bindE_def working_def window_script_def
        within_limit_def store_window_def Let_def)
qed

lemma Login_found:
  fixes s :: "'z auth_db_scheme"
  assumes "working s" and "within_limit now og s" and "sole_account (lr_Email req) user s"
  obtains w where "Login E cfg now d og req s = login_user E cfg now d og req user (s\<lparr>rd_windows := w\<rparr>)"
proof -
  obtain w where w: "CheckIPRateLimit now (og_ipAddress og) 10 (minutes 1) s = (s\<lparr>rd_windows := w\<rparr>, Inr ())"
    using assms(1,2) by (rule rate_working)
  have f: "first_row us_UserID (\<lambda>u. us_Email u = ToLower (lr_Email req) \<and> us_DeletedAt u = None) (au_users s) = Some user"
    using assms(3) by (intro first_row_unique) (auto simp: sole_account_def)
  have "user_by_email (lr_Email req) (s\<lparr>rd_windows := w\<rparr>) = (s\<lparr>rd_windows := w\<rparr>, Inr user)"
    using assms(1) f by (simp add: user_by_email_def working_def db_First_def db_find_def bindE_def)
  then show thesis by (intro that [of w]) (simp add: Login_def thenE_def bindE_def or_fail_def w)
qed

text \<open>How long the n-th failure in a row locks: not at all, five minutes, half an hour, a day.\<close>

definition locks_for :: "int \<Rightarrow> int option" where
  "locks_for n =
     (if n < 5 then None else if n < 10 then Some (minutes 5) else if n < 20 then Some (minutes 30) else Some (hours 24))"

definition failed :: "gotime \<Rightarrow> int \<Rightarrow> User \<Rightarrow> User" where
  "failed now n u = u\<lparr>us_FailedLoginAttempts := n,
     us_LockedUntil := (case locks_for n of None \<Rightarrow> us_LockedUntil u | Some d \<Rightarrow> Some (now + d))\<rparr>"

lemma handleFailedLogin_working:
  fixes s :: "'z auth_db_scheme"
  assumes "working s"
  shows "same_access s (fst (handleFailedLogin E now og user s))" and "snd (handleFailedLogin E now og user s) = Inr ()"
    and "au_users (fst (handleFailedLogin E now og user s)) = update_rows
      (\<lambda>u. us_UserID u = us_UserID user \<and> us_DeletedAt u = None) (failed now (us_FailedLoginAttempts user + 1)) (au_users s)"
proof -
  let ?a = "us_FailedLoginAttempts user + 1"
  have e: "CalculateLockoutDuration ?a > 0 \<longleftrightarrow> ?a \<ge> 5"
    by (auto simp: CalculateLockoutDuration_def hours_def minutes_def)
  have f: "failed now ?a = (if ?a \<ge> 5 then (\<lambda>u. u\<lparr>us_FailedLoginAttempts := ?a,
        us_LockedUntil := Some (now + CalculateLockoutDuration ?a)\<rparr>) else (\<lambda>u. u\<lparr>us_FailedLoginAttempts := ?a\<rparr>))"
    by (auto simp: failed_def locks_for_def CalculateLockoutDuration_def)
  obtain ev1 where l1: "(log_event E now og (Some (us_UserID user)) EventAccountLocked SeverityCritical False
      :: ('z auth_db_scheme, auth_error, unit) op) s = (s\<lparr>au_events := ev1\<rparr>, Inr ())"
    using assms by (rule log_working)
  obtain ev2 where l2: "(log_event E now og (Some (us_UserID user)) EventLoginFailed SeverityWarning False
      :: ('z auth_db_scheme, auth_error, unit) op) s = (s\<lparr>au_events := ev2\<rparr>, Inr ())"
    using assms by (rule log_working)
  have "same_access s (fst (handleFailedLogin E now og user s)) \<and> snd (handleFailedLogin E now og user s) = Inr ()
    \<and> au_users (fst (handleFailedLogin E now og user s)) = update_rows
      (\<lambda>u. us_UserID u = us_UserID user \<and> us_DeletedAt u = None) (failed now ?a) (au_users s)"
    using assms e
    by (simp add: handleFailedLogin_def Let_def l1 l2 update_user_def db_working working_def f same_access_def)
  then show "same_access s (fst (handleFailedLogin E now og user s))" "snd (handleFailedLogin E now og user s) = Inr ()"
    "au_users (fst (handleFailedLogin E now og user s)) = update_rows
      (\<lambda>u. us_UserID u = us_UserID user \<and> us_DeletedAt u = None) (failed now ?a) (au_users s)" by blast+
qed

text \<open>
  C28: While the database and Redis work, a wrong password for a usable account is answered like an
  unknown address and counted, and nothing else changes in the table.  The first four failures in a
  row do not lock; the fifth to ninth lock the account for five minutes, the tenth to nineteenth for
  thirty, and every later one for a day.
\<close>

theorem wrong_password_counts:
  assumes "working s" and "within_limit now og s" and "sole_account (lr_Email req) user s"
    and "locked_until now user = None" and "us_IsActive user" and "us_IsEmailVerified user"
    and "ComparePwd (ae_IDKey E) (lr_Password req) (us_PasswordHash user) = Compared False"
  shows "\<exists>s'. Login E cfg now d og req s = (s', Inl ErrInvalidCredentials) \<and> same_access s s'
    \<and> au_users s' = update_rows (\<lambda>u. u = user) (failed now (us_FailedLoginAttempts user + 1)) (au_users s)
    \<and> (\<forall>d. locks_for (us_FailedLoginAttempts user + 1) = Some d
        \<longrightarrow> account (us_UserID user) (locked_row (now + d)) s')"
proof -
  let ?a = "us_FailedLoginAttempts user + 1"
  obtain w where l: "Login E cfg now d og req s = login_user E cfg now d og req user (s\<lparr>rd_windows := w\<rparr>)"
    using assms(1-3) by (rule Login_found)
  let ?s = "s\<lparr>rd_windows := w\<rparr>"
  have w: "working ?s" using assms(1) by (simp add: working_def)
  note h = handleFailedLogin_working [OF w, of E now og user]
  let ?s' = "fst (handleFailedLogin E now og user ?s)"
  have run: "Login E cfg now d og req s = (?s', Inl ErrInvalidCredentials)"
    unfolding l using assms(4-7) h(2)
    by (cases "handleFailedLogin E now og user ?s") (simp add: login_user_def thenE_def bindE_def)
  have rows: "us_UserID u = us_UserID user \<and> us_DeletedAt u = None \<longleftrightarrow> u = user" if "u \<in> set (au_users s)" for u
    using that assms(3) unfolding sole_account_def by (metis distinct_map inj_onD)
  have users: "au_users ?s' = update_rows (\<lambda>u. u = user) (failed now ?a) (au_users s)"
    unfolding h(3) using rows by (simp add: update_rows_def)
  have "same_access s ?s'" using h(1) by (simp add: same_access_def)
  moreover have "account (us_UserID user) (locked_row (now + d')) ?s'" if "locks_for ?a = Some d'" for d'
  proof -
    have "map us_UserID (au_users ?s') = map us_UserID (au_users s)"
      unfolding users by (rule update_rows_key) (simp add: failed_def)
    moreover have "failed now ?a user \<in> set (au_users ?s')"
      using assms(3) by (auto simp: users update_rows_def sole_account_def)
    ultimately show ?thesis
      using assms(3) that unfolding account_def
      by (intro conjI bexI [of _ "failed now ?a user"]) (simp_all add: failed_def locked_row_def sole_account_def)
  qed
  ultimately show ?thesis using run users by (intro exI [of _ ?s']) blast
qed

section \<open>A new password\<close>

lemma logged_out_sessions:
  assumes "logged_out E now i s s'"
  shows "live_entry now (sessionKey E i sid) (rd_sessions s')
    = (if sid \<in> set (members E now i s) then None else live_entry now (sessionKey E i sid) (rd_sessions s))"
proof -
  have "sessionKey E i sid \<in> sessionKey E i ` set (members E now i s) \<longleftrightarrow> sid \<in> set (members E now i s)"
    by (auto simp: sessionKey_def)
  with assms show ?thesis by (simp add: logged_out_def live_entry_def)
qed

lemma history_check_None:
  "history_check IDKey limit p hs = None \<Longrightarrow> \<forall>h \<in> set hs. ComparePwd IDKey p (ph_PasswordHash h) \<noteq> Compared True"
  by (induction hs) (auto split: compared.splits if_splits)

text \<open>The newest entries of the history of a user.\<close>

definition recent :: "int \<Rightarrow> uuid \<Rightarrow> 'z auth_db_scheme \<Rightarrow> PasswordHistory list" where
  "recent limit i s = take (nat limit) (sort_key (\<lambda>h. - ph_CreatedAt h) (filter (\<lambda>h. ph_UserID h = i) (au_history s)))"

lemma check_new_password_Inr:
  "check_new_password E cfg p s = (s', Inr u) \<Longrightarrow> s' = s \<and> ValidatePasswordStrength (ac_passwordMinLen cfg) p = None"
  by (cases "ValidatePasswordStrength (ac_passwordMinLen cfg) p")
    (auto simp: check_new_password_def thenE_Inr_iff split: if_splits)

lemma CheckPasswordHistory_Inr:
  assumes "CheckPasswordHistory E limit i p s = (s', Inr u)" and "faults s = []"
  shows "s' = s \<and> (\<forall>h \<in> set (recent limit i s). ComparePwd (ae_IDKey E) p (ph_PasswordHash h) \<noteq> Compared True)"
proof -
  have "raise (\<lambda>err. err) (history_check (ae_IDKey E) limit p (recent limit i s)) s = (s', Inr u)"
    using assms by (simp add: CheckPasswordHistory_def bindE_def db_working recent_def)
  then show ?thesis
    using history_check_None [of "ae_IDKey E" limit p "recent limit i s"]
    by (cases "history_check (ae_IDKey E) limit p (recent limit i s)") simp_all
qed

lemma store_password_Inr:
  assumes "store_password now d user h s = (s', Inr u)" and "working s"
  shows "working s' \<and> same_access s s' \<and> au_users s' = update_rows (\<lambda>u. us_UserID u = us_UserID user \<and> us_DeletedAt u = None)
      (\<lambda>u. u\<lparr>us_PasswordHash := h, us_PasswordChangedAt := Some now\<rparr>) (au_users s)"
  using assms unfolding store_password_def transaction_Inr thenE_Inr_iff update_user_def db_write_Inr
    SavePasswordHistory_def insert_history_def db_insert_Inr
  by (auto simp: working_def same_access_def)

lemma replace_password_working:
  fixes s :: "'z auth_db_scheme"
  assumes "working s" and "replace_password E cfg now d og user p reason s = (s', Inr u)"
  obtains h salt where "HashPwd (ae_IDKey E) (Inr salt) p = Inr h" "ValidatePasswordStrength (ac_passwordMinLen cfg) p = None"
    "\<forall>x \<in> set (recent (ac_passwordHistory cfg) (us_UserID user) s). ComparePwd (ae_IDKey E) p (ph_PasswordHash x) \<noteq> Compared True"
    "au_users s' = update_rows (\<lambda>u. us_UserID u = us_UserID user \<and> us_DeletedAt u = None)
      (\<lambda>u. u\<lparr>us_PasswordHash := h, us_PasswordChangedAt := Some now\<rparr>) (au_users s)"
    "logged_out E now (us_UserID user) s s'" "working s'"
proof -
  let ?i = "us_UserID user"
  let ?tail = "thenE (ignore (RevokeAllUserSessions E now ?i)) (thenE (ignore (revokeAllRefreshTokens now ?i reason))
      (log_event E now og (Some ?i) EventPasswordChanged SeverityInfo True)) :: ('z auth_db_scheme, auth_error, unit) op"
  obtain s0 s1 s2 s3 h v v1 v2 where c: "check_new_password E cfg p s = (s0, Inr v)"
    and c': "CheckPasswordHistory E (ac_passwordHistory cfg) ?i p s0 = (s1, Inr v1)"
    and hp: "hash_password E d p s1 = (s2, Inr h)" and st: "store_password now d user h s2 = (s3, Inr v2)"
    and k: "?tail s3 = (s', Inr u)"
    using assms(2) unfolding replace_password_def thenE_Inr_iff [of "check_new_password _ _ _"]
      thenE_Inr_iff [of "CheckPasswordHistory _ _ _ _"] bindE_Inr_iff thenE_Inr_iff [of "store_password _ _ _ _"]
    by blast
  have s0: "s0 = s" "ValidatePasswordStrength (ac_passwordMinLen cfg) p = None"
    using check_new_password_Inr [OF c] by simp_all
  have s1: "s1 = s" and hist: "\<forall>x \<in> set (recent (ac_passwordHistory cfg) ?i s).
      ComparePwd (ae_IDKey E) p (ph_PasswordHash x) \<noteq> Compared True"
    using CheckPasswordHistory_Inr [OF c'] assms(1) s0 by (simp_all add: working_def)
  obtain salt where s2: "s2 = s" and salt: "HashPwd (ae_IDKey E) (Inr salt) p = Inr h"
    using hp s1 by (cases "ad_salt d") (auto simp: hash_password_def HashPwd_def Let_def)
  have s3: "working s3" "same_access s s3" "au_users s3 = update_rows (\<lambda>u. us_UserID u = ?i \<and> us_DeletedAt u = None)
      (\<lambda>u. u\<lparr>us_PasswordHash := h, us_PasswordChangedAt := Some now\<rparr>) (au_users s)"
    using store_password_Inr [OF st] assms(1) s2 by simp_all
  obtain x y where r: "RevokeAllUserSessions E now ?i s3 = (s3\<lparr>rd_sessions := x, rd_user_sessions := y\<rparr>, Inr ())"
    and m: "members E now ?i (s3\<lparr>rd_sessions := x, rd_user_sessions := y\<rparr>) = []"
      "\<forall>k. map_of x k = (if k \<in> sessionKey E ?i ` set (members E now ?i s3) then None else map_of (rd_sessions s3) k)"
    using s3(1) by (rule revokeSessions_working)
  let ?s4 = "s3\<lparr>rd_sessions := x, rd_user_sessions := y\<rparr>"
  have w: "working ?s4" using s3(1) by (simp add: working_def)
  let ?s5 = "?s4\<lparr>au_refresh := update_rows (\<lambda>t. rt_UserID t = ?i) (revoke now reason) (au_refresh ?s4)\<rparr>"
  have "s' = fst ((log_event E now og (Some ?i) EventPasswordChanged SeverityInfo True
      :: ('z auth_db_scheme, auth_error, unit) op) ?s5)"
    using k r revokeAll_working [OF w, of now ?i reason] by simp
  then have core: "same_core ?s5 s'" by (simp add: steps_run [OF core.steps_log])
  have "logged_out E now ?i s ?s5"
    using m s3(2) revoked_rows [of ?i now reason "au_refresh s"]
    by (simp add: logged_out_def members_def same_access_def)
  then have "logged_out E now ?i s s'"
    using core by (simp add: logged_out_def same_core_def same_access_def members_def)
  moreover have "au_users s' = au_users s3" using core by (simp add: same_core_def)
  moreover have "working s'"
    using k r revokeAll_working [OF w, of now ?i reason] w
    by (auto simp: log_event_def LogSecurityEvent_def db_working working_def)
  ultimately show thesis using that salt s0(2) hist s3(3) by simp
qed

text \<open>
  C18: A password is changed only by who knows the old one, to one that is strong and not among the
  remembered ones; the new one compares with what is stored.  While the database and Redis work every
  refresh token of the user is then revoked and every session in the user's set deleted; when the set
  lists all live sessions of the user none is left, and a session missing from it stays as it was.
\<close>

theorem password_change_logs_out:
  assumes "working s" and "ChangePassword E cfg now d og i oldPassword newPassword s = (s', Inr ())"
    and "\<forall>salt. length (ae_IDKey E newPassword salt 3 65536 2 32) = 32"
  shows "\<exists>user \<in> set (au_users s). \<exists>h. us_UserID user = i \<and> us_DeletedAt user = None
    \<and> ComparePwd (ae_IDKey E) oldPassword (us_PasswordHash user) = Compared True
    \<and> ComparePwd (ae_IDKey E) newPassword h = Compared True
    \<and> ValidatePasswordStrength (ac_passwordMinLen cfg) newPassword = None
    \<and> (\<forall>x \<in> set (recent (ac_passwordHistory cfg) i s). ComparePwd (ae_IDKey E) newPassword (ph_PasswordHash x) \<noteq> Compared True)
    \<and> au_users s' = update_rows (\<lambda>u. us_UserID u = i \<and> us_DeletedAt u = None)
        (\<lambda>u. u\<lparr>us_PasswordHash := h, us_PasswordChangedAt := Some now\<rparr>) (au_users s)
    \<and> logged_out E now i s s'
    \<and> ((\<forall>sid. live_entry now (sessionKey E i sid) (rd_sessions s) \<noteq> None \<longrightarrow> sid \<in> set (members E now i s))
        \<longrightarrow> (\<forall>sid. live_entry now (sessionKey E i sid) (rd_sessions s') = None))
    \<and> (\<forall>sid. sid \<notin> set (members E now i s)
        \<longrightarrow> live_entry now (sessionKey E i sid) (rd_sessions s') = live_entry now (sessionKey E i sid) (rd_sessions s))"
proof -
  obtain s1 user where u: "user_by_id i s = (s1, Inr user)"
    and k: "(case ComparePwd (ae_IDKey E) oldPassword (us_PasswordHash user) of
         ComparePanic \<Rightarrow> throw AuthPanic
       | CompareError \<Rightarrow> throw (AuthMessage ''incorrect current password'')
       | Compared match \<Rightarrow>
           if match then replace_password E cfg now d og user newPassword ''password_changed''
           else throw (AuthMessage ''incorrect current password'')) s1 = (s', Inr ())"
    using assms(2) unfolding ChangePassword_def bindE_Inr_iff failing_Inr by blast
  have s1: "s1 = s" and row: "user \<in> set (au_users s)" "us_UserID user = i" "us_DeletedAt user = None"
    using u assms(1) by (auto simp: user_by_id_def working_def db_First_Inr dest!: first_row_Some)
  have cmp: "ComparePwd (ae_IDKey E) oldPassword (us_PasswordHash user) = Compared True"
    and r: "replace_password E cfg now d og user newPassword ''password_changed'' s = (s', Inr ())"
    using k s1 by (auto split: compared.splits if_splits)
  obtain h salt where h: "HashPwd (ae_IDKey E) (Inr salt) newPassword = Inr h"
    "ValidatePasswordStrength (ac_passwordMinLen cfg) newPassword = None"
    "\<forall>x \<in> set (recent (ac_passwordHistory cfg) (us_UserID user) s).
      ComparePwd (ae_IDKey E) newPassword (ph_PasswordHash x) \<noteq> Compared True"
    "au_users s' = update_rows (\<lambda>u. us_UserID u = us_UserID user \<and> us_DeletedAt u = None)
      (\<lambda>u. u\<lparr>us_PasswordHash := h, us_PasswordChangedAt := Some now\<rparr>) (au_users s)"
    "logged_out E now (us_UserID user) s s'"
    using assms(1) r by (rule replace_password_working)
  have "ComparePwd (ae_IDKey E) newPassword h = Compared True"
    using ComparePwd_encoded [OF h(1)] assms(3) by simp
  moreover have out: "logged_out E now i s s'" using h(5) row(2) by simp
  moreover have "(\<forall>sid. live_entry now (sessionKey E i sid) (rd_sessions s) \<noteq> None \<longrightarrow> sid \<in> set (members E now i s))
        \<longrightarrow> (\<forall>sid. live_entry now (sessionKey E i sid) (rd_sessions s') = None)"
    "\<forall>sid. sid \<notin> set (members E now i s)
        \<longrightarrow> live_entry now (sessionKey E i sid) (rd_sessions s') = live_entry now (sessionKey E i sid) (rd_sessions s)"
    unfolding logged_out_sessions [OF out] by metis+
  ultimately show ?thesis
    using cmp h(2-4) row by (intro bexI [of _ user] exI [of _ h] conjI) simp_all
qed

end
