(* ===== verification/Auth_OAuth.thy ===== *)
theory Auth_OAuth
  imports Auth_Effects
begin

text \<open>
  Signing in with Google (\<open>services/core/oauth.go\<close>, \<open>handlers/oauth.go\<close>) and the password reset of
  \<open>handlers/auth.go\<close>.  Google's answers are arguments.
\<close>

record GoogleUserInfo =
  gu_Sub :: string
  gu_Email :: string
  gu_EmailVerified :: bool
  gu_Name :: string
  gu_Picture :: string

text \<open>The exchange of the code, and the answer of the user-info endpoint: status and decoded body.\<close>

record google =
  go_Exchange :: "string \<Rightarrow> string + string"
  go_userinfo :: "string \<Rightarrow> string + int \<times> (string + GoogleUserInfo)"

section \<open>Finding or creating the user\<close>

definition fetchGoogleUserInfo :: "google \<Rightarrow> string \<Rightarrow> ('s, auth_error, GoogleUserInfo) op" where
  "fetchGoogleUserInfo G token =
     (case go_userinfo G token of
        Inl err \<Rightarrow> throw (AuthFailure err)
      | Inr (status, body) \<Rightarrow>
          (if status \<noteq> 200 then throw (AuthMessage ''userinfo returned status'')
           else case body of Inl err \<Rightarrow> throw (AuthFailure err) | Inr info \<Rightarrow> ret info))"

text \<open>\<open>LIKE\<close>: a percent sign stands for any text, an underscore for one character, a backslash quotes.\<close>

function like :: "string \<Rightarrow> string \<Rightarrow> bool" where
  "like [] s \<longleftrightarrow> s = []"
| "like (p # ps) s \<longleftrightarrow>
     (if p = CHR ''%'' then like ps s \<or> (case s of [] \<Rightarrow> False | c # cs \<Rightarrow> like (p # ps) cs)
      else case s of
             [] \<Rightarrow> False
           | c # cs \<Rightarrow>
               (case ps of
                  q # qs \<Rightarrow> if p = CHR 92 then c = q \<and> like qs cs else (p = CHR ''_'' \<or> c = p) \<and> like ps cs
                | [] \<Rightarrow> (p = CHR ''_'' \<or> c = p) \<and> cs = []))"
  by pat_completeness auto
termination
  by (relation "measure (\<lambda>(ps, s). length ps + length s)") auto

definition generateUsername :: "GoogleUserInfo \<Rightarrow> ('z auth_db_scheme, 'e, string) op" where
  "generateUsername g =
     (let base = hd (strings_Split (CHR ''@'') (gu_Email g))
      in bindE (try_get (db_query (\<lambda>err. err) (\<lambda>s. int (length (filter
                  (\<lambda>u. us_DeletedAt u = None \<and> like (base @ ''%'') (us_UserName u)) (au_users s)))))) (\<lambda>counted.
           let count = (case counted of None \<Rightarrow> 0 | Some n \<Rightarrow> n)
           in ret (if count = 0 then base else base @ ''_'' @ fmt_d (count + 1))))"

definition google_user :: "string \<Rightarrow> ('z auth_db_scheme, string, User) op" where
  "google_user sub =
     db_First ''record not found'' (\<lambda>err. err) us_UserID au_users
       (\<lambda>u. us_GoogleID u = sub \<and> \<not> us_IsDeleted u \<and> us_DeletedAt u = None)"

definition live_user_by_email :: "string \<Rightarrow> ('z auth_db_scheme, string, User) op" where
  "live_user_by_email email =
     db_First ''record not found'' (\<lambda>err. err) us_UserID au_users
       (\<lambda>u. us_Email u = ToLower email \<and> \<not> us_IsDeleted u \<and> us_DeletedAt u = None)"

definition link_google :: "GoogleUserInfo \<Rightarrow> User \<Rightarrow> User" where
  "link_google g u = u\<lparr>us_GoogleID := gu_Sub g, us_AvatarURL := gu_Picture g, us_IsEmailVerified := True\<rparr>"

definition new_google_user :: "auth_draw \<Rightarrow> GoogleUserInfo \<Rightarrow> string \<Rightarrow> User" where
  "new_google_user d g userName =
     \<lparr>us_UserID = ad_user d, us_UserName = userName, us_FullName = gu_Name g, us_Email = ToLower (gu_Email g),
      us_Phone = '''', us_PasswordHash = '''', us_IsActive = True, us_TenantID = ad_tenant d, us_DeletedAt = None,
      us_PrimaryRole = ''owner'', us_IsEmailVerified = gu_EmailVerified g, us_TwoFactorEnabled = False,
      us_TwoFactorSecret = '''', us_FailedLoginAttempts = 0, us_LockedUntil = None, us_LastLoginAt = None,
      us_LastLoginIP = '''', us_LastLoginLocation = '''', us_PasswordChangedAt = None, us_IsDeleted = False,
      us_GoogleID = gu_Sub g, us_AvatarURL = gu_Picture g\<rparr>"

text \<open>The index of the tenants is on their status, which a new one leaves empty.\<close>

definition insert_tenant :: "Tenant \<Rightarrow> ('z auth_db_scheme, auth_error, unit) op" where
  "insert_tenant t =
     db_insert AuthFailure
       (\<lambda>s. \<exists>t' \<in> set (au_tenants s). tn_TenantID t' = tn_TenantID t \<or> tn_Status t' = tn_Status t)
       (\<lambda>s. s\<lparr>au_tenants := au_tenants s @ [t]\<rparr>)"

definition create_google_user :: "auth_draw \<Rightarrow> GoogleUserInfo \<Rightarrow> ('z auth_db_scheme, auth_error, User) op" where
  "create_google_user d g =
     thenE (insert_tenant \<lparr>tn_TenantID = ad_tenant d, tn_Name = gu_Name g @ CHR 39 # ''s Organization'', tn_Status = ''''\<rparr>)
    (bindE (generateUsername g) (\<lambda>userName.
       let user = new_google_user d g userName
       in thenE (insert_user user) (ret user)))"

definition findOrCreateGoogleUser :: "auth_draw \<Rightarrow> GoogleUserInfo \<Rightarrow> ('z auth_db_scheme, auth_error, User) op" where
  "findOrCreateGoogleUser d g =
     bindE (try_get (google_user (gu_Sub g))) (\<lambda>linked.
       case linked of
         Some user \<Rightarrow>
           if us_AvatarURL user \<noteq> gu_Picture g
           then thenE (ignore (update_user user (\<lambda>u. u\<lparr>us_AvatarURL := gu_Picture g\<rparr>)))
                  (ret (user\<lparr>us_AvatarURL := gu_Picture g\<rparr>))
           else ret user
       | None \<Rightarrow>
           bindE (try_get (live_user_by_email (gu_Email g))) (\<lambda>found.
             case found of
               Some user \<Rightarrow> thenE (ignore (update_user user (link_google g))) (ret (link_google g user))
             | None \<Rightarrow> create_google_user d g))"

section \<open>The callback\<close>

text \<open>The same steps as for a login, with a lifetime that depends on the role only.\<close>

definition issueTokens ::
    "auth_env \<Rightarrow> auth_config \<Rightarrow> gotime \<Rightarrow> auth_draw \<Rightarrow> origin \<Rightarrow> User \<Rightarrow> ('z auth_db_scheme, auth_error, LoginResponse) op" where
  "issueTokens E cfg now d og user =
     createAuthTokensWithTTL E now d og user ''web''
       (case map_of (tt_ByRole (ac_ttlConfig cfg)) (us_PrimaryRole user) of
          Some roleTTL \<Rightarrow> roleTTL | None \<Rightarrow> tt_Default (ac_ttlConfig cfg))"

definition HandleGoogleCallback ::
    "auth_env \<Rightarrow> google \<Rightarrow> auth_config \<Rightarrow> gotime \<Rightarrow> auth_draw \<Rightarrow> origin \<Rightarrow> string
       \<Rightarrow> ('z auth_db_scheme, auth_error, LoginResponse) op" where
  "HandleGoogleCallback E G cfg now d og code =
     bindE (case go_Exchange G code of Inl err \<Rightarrow> throw (AuthFailure err) | Inr token \<Rightarrow> ret token) (\<lambda>token.
     bindE (fetchGoogleUserInfo G token) (\<lambda>g.
       if gu_Email g = '''' then throw (AuthMessage ''oauth: google did not return an email address'')
       else bindE (findOrCreateGoogleUser d g) (\<lambda>user.
         if \<not> us_IsActive user then throw ErrAccountInactive
         else bindE (issueTokens E cfg now d og user) (\<lambda>tokens.
           thenE (ignore (update_user user (\<lambda>u. u\<lparr>us_LastLoginAt := Some now, us_LastLoginIP := og_ipAddress og,
                    us_LastLoginLocation := ae_Lookup E (og_ipAddress og)\<rparr>)))
             (ret tokens)))))"

text \<open>The handlers around it answer a status with a message, a redirect, or the tokens.\<close>

datatype reply = Reply int string | Redirect string | Signed_in LoginResponse

definition GoogleLogin :: "gotime \<Rightarrow> bool \<Rightarrow> string + string \<Rightarrow> (string \<Rightarrow> string) \<Rightarrow> ('z auth_db_scheme, 'e, reply) op" where
  "GoogleLogin now configured random login_url =
     (if \<not> configured then ret (Reply 503 ''Google OAuth is not configured'')
      else case random of
             Inl err \<Rightarrow> ret (Reply 500 ''Failed to generate state token'')
           | Inr stateBytes \<Rightarrow>
               let state = hex_Encode stateBytes
               in thenE (ignore (redis_Set now rd_states_update (''oauth_state:'' @ state) ''1'' (minutes 10)))
                    (ret (Redirect (login_url state))))"

definition GoogleCallback ::
    "auth_env \<Rightarrow> google \<Rightarrow> auth_config \<Rightarrow> gotime \<Rightarrow> auth_draw \<Rightarrow> origin \<Rightarrow> bool \<Rightarrow> string \<Rightarrow> string \<Rightarrow> string
       \<Rightarrow> ('z auth_db_scheme, 'e, reply) op" where
  "GoogleCallback E G cfg now d og configured errMsg code state =
     (if \<not> configured then ret (Reply 503 ''Google OAuth is not configured'')
      else if errMsg \<noteq> '''' then ret (Reply 400 (''OAuth error: '' @ errMsg))
      else if code = '''' then ret (Reply 400 ''Missing authorization code'')
      else if state = '''' then ret (Reply 400 ''Missing state parameter'')
      else bindE (try_get (redis_Get now rd_states (''oauth_state:'' @ state))) (\<lambda>result.
        if result \<noteq> Some ''1'' then ret (Reply 400 ''Invalid or expired state token'')
        else thenE (ignore (redis_Del rd_states_update (''oauth_state:'' @ state)))
               (bindE (try_get (HandleGoogleCallback E G cfg now d og code)) (\<lambda>resp.
                  case resp of None \<Rightarrow> ret (Reply 401 ''Unauthorized'') | Some resp \<Rightarrow> ret (Signed_in resp)))))"

section \<open>Forgotten passwords\<close>

text \<open>The token is drawn, its hash stored for a quarter of an hour, and the event logged.\<close>

definition reset_key :: "auth_env \<Rightarrow> string \<Rightarrow> string" where
  "reset_key E token = ''password_reset:'' @ HashToken E token"

definition ForgotPassword ::
    "auth_env \<Rightarrow> gotime \<Rightarrow> origin \<Rightarrow> string + string \<Rightarrow> string \<Rightarrow> ('z auth_db_scheme, auth_error, reply) op" where
  "ForgotPassword E now og random email =
     (case random of
        Inl err \<Rightarrow> ret (Reply 500 ''Failed to generate reset token'')
      | Inr tokenBytes \<Rightarrow>
          bindE (try_get (redis_Set now rd_resets_update (reset_key E (hex_Encode tokenBytes)) email (minutes 15))) (\<lambda>stored.
            if stored = None then ret (Reply 500 ''Failed to store reset token'')
            else thenE (LogSecurityEvent E now None ''password_reset_requested'' SeverityInfo (og_ipAddress og) '''' True)
                   (ret (Reply 200 ''If an account exists with that email, a reset link has been sent''))))"

definition ResetPassword_handler ::
    "auth_env \<Rightarrow> auth_config \<Rightarrow> gotime \<Rightarrow> auth_draw \<Rightarrow> origin \<Rightarrow> string \<Rightarrow> string \<Rightarrow> ('z auth_db_scheme, auth_error, reply) op" where
  "ResetPassword_handler E cfg now d og token newPassword s =
     (case redis_Lookup now rd_resets (reset_key E token) s of
        (s, Inl err) \<Rightarrow> (s, Inr (Reply 500 ''Failed to validate reset token''))
      | (s, Inr None) \<Rightarrow> (s, Inr (Reply 400 ''Invalid or expired reset token''))
      | (s, Inr (Some email)) \<Rightarrow>
          (case ResetPassword E cfg now d og email newPassword s of
             (s, Inl err) \<Rightarrow> (s, Inr (Reply 400 ''Bad Request''))
           | (s, Inr _) \<Rightarrow>
               thenE (ignore (redis_Del rd_resets_update (reset_key E token)))
                 (ret (Reply 200 ''Password reset successful'')) s))"

text \<open>The handler of the second factor passes the address, the agent and the fingerprint in this order.\<close>

definition Verify2FA_handler ::
    "auth_env \<Rightarrow> auth_config \<Rightarrow> gotime \<Rightarrow> auth_draw \<Rightarrow> origin \<Rightarrow> string \<Rightarrow> string
       \<Rightarrow> ('z auth_db_scheme, auth_error, LoginResponse) op" where
  "Verify2FA_handler E cfg now d og pendingSessionID code =
     Verify2FA E cfg now d
       \<lparr>og_ipAddress = og_userAgent og, og_userAgent = og_deviceFingerprint og, og_deviceFingerprint = og_ipAddress og\<rparr>
       pendingSessionID code"

definition Logout ::
    "auth_env \<Rightarrow> gotime \<Rightarrow> origin \<Rightarrow> uuid \<Rightarrow> string \<Rightarrow> string \<Rightarrow> ('z auth_db_scheme, auth_error, reply) op" where
  "Logout E now og userID sessionID tokenStr s =
     (case RevokeSession E now userID sessionID s of
        (s, Inl err) \<Rightarrow> (s, Inr (Reply 500 ''Failed to revoke session''))
      | (s, Inr _) \<Rightarrow>
          thenE (if tokenStr \<noteq> '''' then ignore (BlacklistAccessToken E now tokenStr) else ret ())
         (thenE (log_event E now og (Some userID) ''logout'' SeverityInfo True)
           (ret (Reply 200 ''Logged out successfully''))) s)"

section \<open>What Google's word is enough for\<close>

lemma createAuthTokens_working:
  fixes s :: "'z auth_db_scheme"
  assumes "working s" and "fresh_token E d raw s" and "\<forall>c. \<exists>token. ae_SignedString E c = Inr token"
  obtains s' resp where "createAuthTokensWithTTL E now d og user deviceType ttl s = (s', Inr resp)"
    "lp_RefreshToken resp = Some raw" "au_users s' = au_users s" "working s'"
proof -
  let ?sid = "ae_uuid_String E (ad_session d)" and ?t = "new_refresh E now d og user raw deviceType ttl"
  obtain f where f: "\<And>c. ae_SignedString E c = Inr (f c)" using assms(3) by metis
  obtain tok where tok: "GenerateAccessToken E now (ad_jti d) (us_UserID user) (us_TenantID user) ?sid
      (ttl_AccessToken ttl) s = (s, Inr tok)"
    by (simp add: GenerateAccessToken_def f)
  have raw: "GenerateSecureToken (ad_random d) s = (s, Inr raw)"
    using assms(2) by (auto simp: GenerateSecureToken_def fresh_token_def)
  let ?s1 = "s\<lparr>au_refresh := au_refresh s @ [?t]\<rparr>"
  have ins: "insert_refresh ?t s = (?s1, Inr ())"
    using assms(1,2) by (auto simp: insert_refresh_def db_working working_def fresh_token_def new_refresh_def)
  obtain s2 where cs: "CreateSession E now (us_UserID user) ?sid (session_data now og user deviceType)
      (ttl_AccessToken ttl) ?s1 = (s2, Inr ())" and s2: "working s2" "au_users s2 = au_users s"
    using assms(1) by (simp add: CreateSession_def failing_def bindE_def working_def Let_def)
  obtain tn where tn: "(try_get (tenant_by_id (us_TenantID user)) :: ('z auth_db_scheme, auth_error, Tenant option) op) s2
      = (s2, Inr tn)"
    using s2(1) by (cases "first_row tn_TenantID (\<lambda>t. tn_TenantID t = us_TenantID user) (au_tenants s2)")
      (simp_all del: first_row_None add: try_get_def tenant_by_id_def db_First_def db_find_def bindE_def working_def)
  have "\<exists>resp. createAuthTokensWithTTL E now d og user deviceType ttl s = (s2, Inr resp) \<and> lp_RefreshToken resp = Some raw"
    unfolding createAuthTokensWithTTL_def Let_def using tok raw ins cs tn by (simp add: bindE_def thenE_def)
  then show thesis using that s2 by blast
qed

lemma updated_row: "r \<in> set rows \<Longrightarrow> P r \<Longrightarrow> f r \<in> set (update_rows P f rows)"
  by (auto simp: update_rows_def)

lemma google_lookups:
  fixes s :: "'z auth_db_scheme"
  assumes "working s" and "\<forall>u \<in> set (au_users s). us_GoogleID u \<noteq> gu_Sub g \<or> us_IsDeleted u \<or> us_DeletedAt u \<noteq> None"
  shows "(try_get (google_user (gu_Sub g)) :: ('z auth_db_scheme, 'e, User option) op) s = (s, Inr None)"
proof -
  have "first_row us_UserID (\<lambda>u. us_GoogleID u = gu_Sub g \<and> \<not> us_IsDeleted u \<and> us_DeletedAt u = None) (au_users s) = None"
    using assms(2) by auto
  then show ?thesis
    using assms(1) by (simp del: first_row_None add: try_get_def google_user_def db_First_def db_find_def bindE_def working_def)
qed

lemma callback_user:
  assumes "go_Exchange G code = Inr tok" and "go_userinfo G tok = Inr (200, Inr g)" and "gu_Email g \<noteq> ''''"
  shows "HandleGoogleCallback E G cfg now d og code s = bindE (findOrCreateGoogleUser d g) (\<lambda>user.
         if \<not> us_IsActive user then throw ErrAccountInactive
         else bindE (issueTokens E cfg now d og user) (\<lambda>tokens.
           thenE (ignore (update_user user (\<lambda>u. u\<lparr>us_LastLoginAt := Some now, us_LastLoginIP := og_ipAddress og,
                    us_LastLoginLocation := ae_Lookup E (og_ipAddress og)\<rparr>)))
             (ret tokens))) s"
  using assms by (simp add: HandleGoogleCallback_def fetchGoogleUserInfo_def bindE_def)

text \<open>
  C30: Whoever Google reports with the address of an account gets that account's tokens and is linked
  to it for good.  Neither a lock nor a second factor nor the limit of sessions stands in the way,
  and it does not matter whether Google confirms the address.
\<close>

theorem google_takes_over_account:
  assumes "working s" and "go_Exchange G code = Inr tok" and "go_userinfo G tok = Inr (200, Inr g)" and "gu_Email g \<noteq> ''''"
    and "\<forall>u \<in> set (au_users s). us_GoogleID u \<noteq> gu_Sub g \<or> us_IsDeleted u \<or> us_DeletedAt u \<noteq> None"
    and "sole_account (gu_Email g) user s" and "\<not> us_IsDeleted user" and "us_IsActive user"
    and "fresh_token E d raw s" and "\<forall>c. \<exists>tok. ae_SignedString E c = Inr tok"
  shows "\<exists>s' resp. HandleGoogleCallback E G cfg now d og code s = (s', Inr resp) \<and> issued E now d resp user raw
    \<and> (\<exists>u \<in> set (au_users s'). us_UserID u = us_UserID user \<and> us_GoogleID u = gu_Sub g \<and> us_IsEmailVerified u)"
proof -
  let ?u = "link_google g user"
  have f: "first_row us_UserID (\<lambda>u. us_Email u = ToLower (gu_Email g) \<and> \<not> us_IsDeleted u \<and> us_DeletedAt u = None)
      (au_users s) = Some user"
    using assms(6,7) by (intro first_row_unique) (auto simp: sole_account_def)
  have e: "(try_get (live_user_by_email (gu_Email g)) :: ('a auth_db_scheme, auth_error, User option) op) s = (s, Inr (Some user))"
    using assms(1) f by (simp add: try_get_def live_user_by_email_def db_First_def db_find_def bindE_def working_def)
  let ?P = "\<lambda>u. us_UserID u = us_UserID user \<and> us_DeletedAt u = None"
  let ?s = "s\<lparr>au_users := update_rows ?P (link_google g) (au_users s)\<rparr>"
  have find: "findOrCreateGoogleUser d g s = (?s, Inr ?u)"
    using e assms(1)
    by (simp add: google_lookups [OF assms(1,5)] findOrCreateGoogleUser_def bindE_def update_user_def db_working working_def)
  have w: "working ?s" "fresh_token E d raw ?s" using assms(1,9) by (simp_all add: working_def fresh_token_def)
  obtain s2 resp where iss: "issueTokens E cfg now d og ?u ?s = (s2, Inr resp)" and r: "lp_RefreshToken resp = Some raw"
    and s2: "au_users s2 = au_users ?s" "working s2"
    unfolding issueTokens_def by (rule createAuthTokens_working [OF w assms(10)])
  let ?login = "\<lambda>u. u\<lparr>us_LastLoginAt := Some now, us_LastLoginIP := og_ipAddress og,
                    us_LastLoginLocation := ae_Lookup E (og_ipAddress og)\<rparr>"
  let ?s3 = "fst (update_user ?u ?login s2)"
  have run: "HandleGoogleCallback E G cfg now d og code s = (?s3, Inr resp)"
    unfolding callback_user [OF assms(2-4)] using find iss assms(8) by (simp add: bindE_def link_google_def)
  have users: "au_users ?s3 = update_rows (\<lambda>u. us_UserID u = us_UserID ?u \<and> us_DeletedAt u = None) ?login (au_users ?s)"
    using s2 by (simp add: update_user_def db_working working_def)
  have "user \<in> set (au_users s)" "?P user" using assms(6) by (simp_all add: sole_account_def)
  then have "link_google g user \<in> set (au_users ?s)" using updated_row [of user _ ?P] by simp
  then have "?login ?u \<in> set (au_users ?s3)"
    unfolding users by (rule updated_row) (use \<open>?P user\<close> in \<open>simp add: link_google_def\<close>)
  then have linked: "\<exists>u \<in> set (au_users ?s3). us_UserID u = us_UserID user \<and> us_GoogleID u = gu_Sub g \<and> us_IsEmailVerified u"
    by (rule bexI [rotated]) (simp add: link_google_def)
  have "issued E now d resp ?u raw"
    using createAuthTokens_Inr [OF iss [unfolded issueTokens_def]] r by (auto simp: issued_def)
  then have "issued E now d resp user raw" by (simp add: issued_def link_google_def)
  with run linked show ?thesis by blast
qed

text \<open>Tenants are only ever added.\<close>

definition tenants_grow :: "'z auth_db_scheme \<Rightarrow> 'z auth_db_scheme \<Rightarrow> bool" where
  "tenants_grow s s' \<longleftrightarrow> set (au_tenants s) \<subseteq> set (au_tenants s')"

interpretation tenants: auth_frame tenants_grow
  by unfold_locales (auto simp: tenants_grow_def fault_blind_def redis_blind_def intro!: reflpI transpI)

context auth_frame
begin

lemma steps_tokens: "steps R (createAuthTokensWithTTL E now d og user deviceType ttl)"
  unfolding createAuthTokensWithTTL_def Let_def
  by (intro frame_rules steps_sessions steps_token_makers steps_insert_refresh steps_tenant) (simp add: new_refresh_def)

lemma steps_username: "steps R (generateUsername g)"
  unfolding generateUsername_def Let_def by (intro frame_rules)

end

text \<open>Nobody is linked to the Google user, and nobody has the address.\<close>

definition unknown_to :: "GoogleUserInfo \<Rightarrow> 'z auth_db_scheme \<Rightarrow> bool" where
  "unknown_to g s \<longleftrightarrow> (\<forall>u \<in> set (au_users s). us_IsDeleted u \<or> us_DeletedAt u \<noteq> None
     \<or> us_GoogleID u \<noteq> gu_Sub g \<and> us_Email u \<noteq> ToLower (gu_Email g))"

lemma unknown_created:
  assumes "working s" and "unknown_to g s"
  shows "findOrCreateGoogleUser d g s = create_google_user d g s"
proof -
  have "first_row us_UserID (\<lambda>u. us_Email u = ToLower (gu_Email g) \<and> \<not> us_IsDeleted u \<and> us_DeletedAt u = None)
      (au_users s) = None"
    using assms(2) by (auto simp: unknown_to_def)
  then have "(try_get (live_user_by_email (gu_Email g)) :: ('a auth_db_scheme, auth_error, User option) op) s = (s, Inr None)"
    using assms(1)
    by (simp del: first_row_None add: try_get_def live_user_by_email_def db_First_def db_find_def bindE_def working_def)
  moreover have "(try_get (google_user (gu_Sub g)) :: ('a auth_db_scheme, auth_error, User option) op) s = (s, Inr None)"
    using assms by (intro google_lookups) (auto simp: unknown_to_def)
  ultimately show ?thesis by (simp add: findOrCreateGoogleUser_def bindE_def)
qed

lemma newcomer_tenant:
  fixes s :: "'z auth_db_scheme"
  assumes "working s" and "unknown_to g s" and "go_Exchange G code = Inr tok" and "go_userinfo G tok = Inr (200, Inr g)"
    and "gu_Email g \<noteq> ''''" and "HandleGoogleCallback E G cfg now d og code s = (s', Inr resp)"
  shows "\<exists>t \<in> set (au_tenants s'). tn_Status t = ''''"
proof -
  let ?t = "\<lparr>tn_TenantID = ad_tenant d, tn_Name = gu_Name g @ CHR 39 # ''s Organization'', tn_Status = ''''\<rparr>"
  let ?rest = "bindE (bindE (generateUsername g) (\<lambda>userName.
       let user = new_google_user d g userName in thenE (insert_user user) (ret user))) (\<lambda>user.
         if \<not> us_IsActive user then throw ErrAccountInactive
         else bindE (issueTokens E cfg now d og user) (\<lambda>tokens.
           thenE (ignore (update_user user (\<lambda>u. u\<lparr>us_LastLoginAt := Some now, us_LastLoginIP := og_ipAddress og,
                    us_LastLoginLocation := ae_Lookup E (og_ipAddress og)\<rparr>)))
             (ret tokens)))"
  obtain s1 u where i: "insert_tenant ?t s = (s1, Inr u)" and r: "?rest s1 = (s', Inr resp)"
    using assms(6) unfolding callback_user [OF assms(3-5)] bindE_def unknown_created [OF assms(1,2)] create_google_user_def
    by (auto simp: thenE_def bindE_def split: prod.splits sum.splits)
  have "?t \<in> set (au_tenants s1)" using i by (auto simp: insert_tenant_def db_insert_Inr)
  moreover have "steps tenants_grow (?rest :: ('z auth_db_scheme, auth_error, LoginResponse) op)"
    unfolding issueTokens_def Let_def
    by (intro tenants.frame_rules tenants.steps_username tenants.steps_tokens tenants.steps_touch_user)
      (auto simp: insert_user_def lock_identity_def tenants_grow_def intro!: tenants.frame_rules)
  from stepsD [OF this r] have "set (au_tenants s1) \<subseteq> set (au_tenants s')" by (simp add: tenants_grow_def)
  ultimately show ?thesis by (intro bexI [of _ ?t]) auto
qed

text \<open>
  Only one new account can ever come from Google: its tenant has an empty status, statuses are
  unique over all tenants, so the next newcomer is turned away with a duplicate key.
\<close>

theorem second_google_signup_fails:
  assumes "working s" and "unknown_to g s" and "go_Exchange G code = Inr tok" and "go_userinfo G tok = Inr (200, Inr g)"
    and "gu_Email g \<noteq> ''''" and "HandleGoogleCallback E G cfg now d og code s = (s', Inr resp)"
    and "working s'" and "unknown_to g' s'" and "go_Exchange G code' = Inr tok'"
    and "go_userinfo G tok' = Inr (200, Inr g')" and "gu_Email g' \<noteq> ''''"
  shows "HandleGoogleCallback E G cfg now' d' og' code' s' = (s', Inl (AuthFailure duplicate_key))"
proof -
  obtain t where "t \<in> set (au_tenants s')" "tn_Status t = ''''"
    using newcomer_tenant [OF assms(1-6)] by blast
  then have "insert_tenant \<lparr>tn_TenantID = ad_tenant d', tn_Name = gu_Name g' @ CHR 39 # ''s Organization'', tn_Status = ''''\<rparr> s'
      = (s', Inl (AuthFailure duplicate_key))"
    using assms(7) by (auto simp: insert_tenant_def db_working working_def)
  then show ?thesis
    unfolding callback_user [OF assms(9-11)]
    by (simp add: bindE_def unknown_created [OF assms(7,8)] create_google_user_def thenE_def)
qed

section \<open>Reset links\<close>

lemma ResetPassword_working:
  assumes "working s" and "ResetPassword E cfg now d og email p s = (s', Inr u)"
  shows "working s'"
proof -
  obtain s1 user where l: "or_fail (AuthMessage ''user not found'') (user_by_email email) s = (s1, Inr user)"
    and r: "replace_password E cfg now d og user p ''password_reset'' s1 = (s', Inr u)"
    using assms(2) unfolding ResetPassword_def bindE_Inr_iff by blast
  have "s1 = s"
    using l assms(1)
    by (auto simp: or_fail_def user_by_email_def working_def db_First_Inr split: prod.splits sum.splits)
  with r have "replace_password E cfg now d og user p ''password_reset'' s = (s', Inr u)" by simp
  with assms(1) show ?thesis by (rule replace_password_working)
qed

lemma Lookup_working:
  "working s \<Longrightarrow> redis_Lookup now sel key s = (s, Inr (map_option fst (live_entry now key (sel s))))"
  by (simp add: redis_Lookup_def bindE_def working_def)

text \<open>
  A reset token that changed a password is gone: handed in again it is refused.
\<close>

theorem reset_token_used_once:
  assumes "working s" and "ResetPassword_handler E cfg now d og token newPassword s = (s', Inr (Reply 200 msg))"
  shows "snd (ResetPassword_handler E cfg now' d' og' token newPassword' s') = Inr (Reply 400 ''Invalid or expired reset token'')"
proof -
  let ?k = "reset_key E token"
  obtain email where email: "map_option fst (live_entry now ?k (rd_resets s)) = Some email"
    using assms by (cases "map_option fst (live_entry now ?k (rd_resets s))")
      (simp_all add: ResetPassword_handler_def Lookup_working)
  obtain s1 r where reset: "ResetPassword E cfg now d og email newPassword s = (s1, r)" by fastforce
  obtain u where u: "r = Inr u"
    using assms email reset by (cases r) (simp_all add: ResetPassword_handler_def Lookup_working)
  have "working s1" using ResetPassword_working [OF assms(1) reset [unfolded u]] .
  then have w: "working s'" "map_of (rd_resets s') ?k = None"
    using assms email reset u
    by (auto simp: ResetPassword_handler_def Lookup_working working_def delete_conv')
  then show ?thesis by (simp add: ResetPassword_handler_def Lookup_working live_entry_def)
qed

end
