(* ===== verification/Auth_Access.thy ===== *)
theory Auth_Access
  imports Auth_Effects
begin

text \<open>
  Who gets past the middleware: the token check of \<open>middleware/auth.go\<close> with the session it looks
  up, the checks on the resolved context in \<open>DTO/Redis_auth.go\<close>, and the middleware of
  \<open>middleware/rbac.go\<close> that asks them.

  The JSON Web Token parser is an argument.  The log lines and the background write of the last
  activity are not modelled.
\<close>

section \<open>The context of a request\<close>

record AuthContext =
  ax_SessionID :: uuid
  ax_UserID :: uuid
  ax_TenantID :: uuid
  ax_Email :: string
  ax_FullName :: string
  ax_Role :: string
  ax_RoleIDs :: "uuid list"
  ax_Permissions :: "string list"
  ax_RestaurantID :: "uuid option"
  ax_BranchID :: "uuid option"
  ax_IPAddress :: string
  ax_UserAgent :: string

record CachedUserSession =
  cs_SessionID :: uuid
  cs_UserID :: uuid
  cs_TenantID :: uuid
  cs_Email :: string
  cs_FullName :: string
  cs_Role :: string
  cs_RoleIDs :: "uuid list"
  cs_Permissions :: "string list"
  cs_RestaurantID :: "uuid option"
  cs_BranchID :: "uuid option"
  cs_IPAddress :: string
  cs_UserAgent :: string
  cs_ExpiresAt :: gotime
  cs_IsRevoked :: bool

definition NewAuthContextFromCache :: "CachedUserSession \<Rightarrow> AuthContext" where
  "NewAuthContextFromCache session =
     \<lparr>ax_SessionID = cs_SessionID session, ax_UserID = cs_UserID session, ax_TenantID = cs_TenantID session,
      ax_Email = cs_Email session, ax_FullName = cs_FullName session, ax_Role = cs_Role session,
      ax_RoleIDs = cs_RoleIDs session, ax_Permissions = cs_Permissions session,
      ax_RestaurantID = cs_RestaurantID session, ax_BranchID = cs_BranchID session,
      ax_IPAddress = cs_IPAddress session, ax_UserAgent = cs_UserAgent session\<rparr>"

text \<open>
  A stored session read back as a cached one: the keys the two types share are filled in, the others
  keep their zero value, which for a time is the first second of the year one.
\<close>

definition zero_time :: gotime where
  "zero_time = - 62135596800000000000"

definition unmarshal_session :: "SessionData \<Rightarrow> CachedUserSession" where
  "unmarshal_session session =
     \<lparr>cs_SessionID = uuid_Nil, cs_UserID = sd_UserID session, cs_TenantID = sd_TenantID session,
      cs_Email = sd_Email session, cs_FullName = '''', cs_Role = sd_Role session, cs_RoleIDs = [],
      cs_Permissions = [], cs_RestaurantID = None, cs_BranchID = None, cs_IPAddress = sd_IPAddress session,
      cs_UserAgent = sd_UserAgent session, cs_ExpiresAt = zero_time, cs_IsRevoked = False\<rparr>"

section \<open>The token of a request\<close>

record JWTClaims =
  jc_UserID :: uuid
  jc_TenantID :: uuid
  jc_SessionID :: uuid
  jc_Email :: string
  jc_Role :: string

definition GetCacheKey :: "string \<Rightarrow> string \<Rightarrow> string" where
  "GetCacheKey cacheType entityID =
     (if cacheType = ''user_profile'' then ''user:profile:'' @ entityID
      else if cacheType = ''user_session'' then ''session:'' @ entityID
      else if cacheType = ''restaurant'' then ''restaurant:'' @ entityID
      else if cacheType = ''menu_item'' then ''menu:item:'' @ entityID
      else if cacheType = ''menu_category'' then ''menu:category:'' @ entityID
      else if cacheType = ''order_summary'' then ''order:summary:'' @ entityID
      else if cacheType = ''inventory_level'' then ''inventory:level:'' @ entityID
      else cacheType @ '':'' @ entityID)"

definition claims_context :: "JWTClaims \<Rightarrow> AuthContext" where
  "claims_context claims =
     \<lparr>ax_SessionID = jc_SessionID claims, ax_UserID = jc_UserID claims, ax_TenantID = jc_TenantID claims,
      ax_Email = jc_Email claims, ax_FullName = '''', ax_Role = jc_Role claims, ax_RoleIDs = [], ax_Permissions = [],
      ax_RestaurantID = None, ax_BranchID = None, ax_IPAddress = '''', ax_UserAgent = ''''\<rparr>"

text \<open>\<open>redis\<close> says whether the middleware was given a client.\<close>

definition resolveSession ::
    "auth_env \<Rightarrow> gotime \<Rightarrow> bool \<Rightarrow> JWTClaims \<Rightarrow> ('z auth_db_scheme, auth_error, AuthContext) op" where
  "resolveSession E now redis claims =
     (if \<not> redis then ret (claims_context claims)
      else bindE (failing (redis_Lookup now rd_sessions
                    (GetCacheKey ''user_session'' (ae_uuid_String E (jc_SessionID claims))))) (\<lambda>found.
        case found of
          None \<Rightarrow> throw ErrSessionNotFound
        | Some session \<Rightarrow>
            let cached = unmarshal_session session
            in if cs_IsRevoked cached then throw (AuthMessage ''session has been revoked'')
               else if now > cs_ExpiresAt cached then throw (AuthMessage ''session has expired'')
               else ret (NewAuthContextFromCache cached)))"

definition shouldSkipAuth :: "string \<Rightarrow> string list \<Rightarrow> bool" where
  "shouldSkipAuth requestPath skipPaths \<longleftrightarrow> requestPath \<in> set skipPaths \<or> list_ex (\<lambda>skip. HasPrefix requestPath skip) skipPaths"

datatype admission = Skipped | Refused string | Admitted AuthContext

definition AuthWithConfig ::
    "auth_env \<Rightarrow> string list \<Rightarrow> bool \<Rightarrow> (string \<Rightarrow> string + JWTClaims) \<Rightarrow> gotime \<Rightarrow> string \<Rightarrow> string \<Rightarrow> string \<Rightarrow> string
       \<Rightarrow> ('z auth_db_scheme, auth_error, admission) op" where
  "AuthWithConfig E skipPaths redis parse now requestPath authHeader realIP userAgent =
     (if shouldSkipAuth requestPath skipPaths then ret Skipped
      else if authHeader = '''' then ret (Refused ''Authorization header is required'')
      else let (scheme, tokenStr) = strings_Cut (CHR '' '') authHeader
      in if CHR '' '' \<notin> set authHeader \<or> \<not> EqualFold scheme ''bearer''
         then ret (Refused ''Authorization header must be: Bearer <token>'')
         else case parse tokenStr of
                Inl err \<Rightarrow> ret (Refused ''Invalid or expired token'')
              | Inr claims \<Rightarrow>
                  if jc_UserID claims = uuid_Nil \<or> jc_TenantID claims = uuid_Nil \<or> jc_SessionID claims = uuid_Nil
                  then ret (Refused ''Token is missing required claims'')
                  else bindE (try_get (resolveSession E now redis claims)) (\<lambda>found.
                    case found of
                      None \<Rightarrow> ret (Refused ''Session is invalid or has been revoked'')
                    | Some ctx \<Rightarrow> ret (Admitted (ctx\<lparr>ax_IPAddress := realIP, ax_UserAgent := userAgent\<rparr>))))"

section \<open>Sessions and the middleware\<close>

text \<open>All sessions are stored under a key with the user and the session.\<close>

definition session_keys :: "'z auth_db_scheme \<Rightarrow> bool" where
  "session_keys s \<longleftrightarrow> (\<forall>k \<in> fst ` set (rd_sessions s). \<exists>i sessionID. k = session_name i sessionID)"

definition keys_kept :: "'z auth_db_scheme \<Rightarrow> 'z auth_db_scheme \<Rightarrow> bool" where
  "keys_kept s s' \<longleftrightarrow> (session_keys s \<longrightarrow> session_keys s')"

lemma keys_kept_same: "rd_sessions s' = rd_sessions s \<Longrightarrow> keys_kept s s'"
  by (simp add: keys_kept_def session_keys_def)

interpretation keyed: auth_frame keys_kept
proof unfold_locales
  show "transp keys_kept" by (auto simp: keys_kept_def intro: transpI)
  fix s :: "'a auth_db_scheme" and x :: "SessionData rcache" and y
  assume new: "\<And>k. k \<in> fst ` set x \<Longrightarrow> k \<in> fst ` set (rd_sessions s) \<or> (\<exists>i sessionID. k = session_name i sessionID)"
  show "keys_kept s (s\<lparr>rd_sessions := x, rd_user_sessions := y\<rparr>)"
    unfolding keys_kept_def session_keys_def
  proof (intro impI ballI)
    fix k
    assume old: "\<forall>k \<in> fst ` set (rd_sessions s). \<exists>i sessionID. k = session_name i sessionID"
      and "k \<in> fst ` set (rd_sessions (s\<lparr>rd_sessions := x, rd_user_sessions := y\<rparr>))"
    then have "k \<in> fst ` set x" by simp
    from new [OF this] old show "\<exists>i sessionID. k = session_name i sessionID" by blast
  qed
qed (simp_all add: reflpI keys_kept_same fault_blind_def redis_blind_def)

lemma run_keys: "session_keys s \<Longrightarrow> session_keys (auth_run E cfg calls s)"
proof (induction calls arbitrary: s)
  case (Cons c calls)
  have "keys_kept s (fst (auth_step E cfg c s))"
    by (rule keyed.steps_call) (simp_all add: keys_kept_same)
  with Cons show ?case by (simp add: keys_kept_def auth_run_def)
qed (simp add: auth_run_def)

lemma cache_key_foreign:
  assumes "CHR '':'' \<notin> set i"
  shows "GetCacheKey ''user_session'' i \<noteq> session_name u sessionID"
proof
  assume "GetCacheKey ''user_session'' i = session_name u sessionID"
  then have "i = u @ '':'' @ sessionID" by (simp add: GetCacheKey_def session_name_def)
  with assms show False by simp
qed

lemma resolveSession_refused:
  assumes "session_keys s" and "CHR '':'' \<notin> set (ae_uuid_String E (jc_SessionID claims))"
  shows "isl (snd (resolveSession E now True claims s))"
proof -
  let ?k = "GetCacheKey ''user_session'' (ae_uuid_String E (jc_SessionID claims))"
  have "?k \<notin> fst ` set (rd_sessions s)"
    using assms cache_key_foreign unfolding session_keys_def by metis
  then have "map_of (rd_sessions s) ?k = None" by (simp add: map_of_eq_None_iff)
  then show ?thesis
    by (cases rule: redis_call_cases [of s]; cases "snd (redis_call s)")
      (auto simp: resolveSession_def redis_Lookup_def failing_def bindE_def live_entry_def split: sum.splits)
qed

text \<open>
  C14: With Redis in place no request is ever let in: sessions are stored under the user and the
  session, and the middleware looks for them under the session alone.
\<close>

theorem issued_sessions_never_resolve:
  assumes "\<forall>i. CHR '':'' \<notin> set (ae_uuid_String E i)" and "session_keys s"
  shows "snd (AuthWithConfig E skipPaths True parse now requestPath authHeader realIP userAgent (auth_run E cfg calls s))
    \<noteq> Inr (Admitted ctx)"
proof -
  let ?s = "auth_run E cfg calls s"
  have keys: "session_keys ?s" using assms(2) by (rule run_keys)
  have "snd (bindE (try_get (resolveSession E now True claims)) (\<lambda>found.
      case found of None \<Rightarrow> ret (Refused ''Session is invalid or has been revoked'')
      | Some ctx \<Rightarrow> ret (Admitted (ctx\<lparr>ax_IPAddress := realIP, ax_UserAgent := userAgent\<rparr>))) ?s)
    = (Inr (Refused ''Session is invalid or has been revoked'') :: auth_error + admission)" for claims
    using resolveSession_refused [OF keys, of E claims now] assms(1)
    by (auto simp: bindE_def try_get_def isl_def)
  then show ?thesis
    by (auto simp: AuthWithConfig_def Let_def split: prod.split sum.split)
qed

section \<open>Checks on the context\<close>

definition RoleSuperAdmin :: string where "RoleSuperAdmin = ''super_admin''"
definition RoleAdmin :: string where "RoleAdmin = ''admin''"
definition RoleOwner :: string where "RoleOwner = ''owner''"
definition RoleManager :: string where "RoleManager = ''manager''"
definition RoleAssistantManager :: string where "RoleAssistantManager = ''assistant_manager''"
definition RoleWaiter :: string where "RoleWaiter = ''waiter''"
definition RoleInventoryManager :: string where "RoleInventoryManager = ''inventory_manager''"

datatype access_error =
    ErrUnauthorized
  | ErrInsufficientPermissions
  | ErrRestaurantAccessDenied
  | ErrSuperAdminRequired
  | ErrAdminRequired
  | ErrManagementRoleRequired
  | ErrRestaurantOwnershipRequired

definition permit_if :: "'e \<Rightarrow> bool \<Rightarrow> 'e option" where
  "permit_if err ok = (if ok then None else Some err)"

definition HasPermission :: "AuthContext \<Rightarrow> string \<Rightarrow> bool" where
  "HasPermission ctx permission \<longleftrightarrow> ax_Role ctx = RoleSuperAdmin \<or> permission \<in> set (ax_Permissions ctx)"

definition HasAnyPermission :: "AuthContext \<Rightarrow> string list \<Rightarrow> bool" where
  "HasAnyPermission ctx perms \<longleftrightarrow> list_ex (HasPermission ctx) perms"

definition HasAllPermissions :: "AuthContext \<Rightarrow> string list \<Rightarrow> bool" where
  "HasAllPermissions ctx perms \<longleftrightarrow> list_all (HasPermission ctx) perms"

definition HasRole :: "AuthContext \<Rightarrow> string \<Rightarrow> bool" where
  "HasRole ctx roleName \<longleftrightarrow> ax_Role ctx = roleName"

definition HasAnyRole :: "AuthContext \<Rightarrow> string list \<Rightarrow> bool" where
  "HasAnyRole ctx roles \<longleftrightarrow> list_ex (HasRole ctx) roles"

definition IsAdmin :: "AuthContext \<Rightarrow> bool" where
  "IsAdmin ctx \<longleftrightarrow> ax_Role ctx = RoleSuperAdmin \<or> ax_Role ctx = RoleAdmin"

definition IsManagement :: "AuthContext \<Rightarrow> bool" where
  "IsManagement ctx \<longleftrightarrow> ax_Role ctx \<in> {RoleSuperAdmin, RoleAdmin, RoleOwner, RoleManager, RoleAssistantManager}"

text \<open>\<^verbatim>\<open>ctx.RestaurantID != nil && *ctx.RestaurantID == restaurantID\<close>, and the same for a branch.\<close>

definition own_restaurant :: "AuthContext \<Rightarrow> uuid \<Rightarrow> bool" where
  "own_restaurant ctx r \<longleftrightarrow> ax_RestaurantID ctx = Some r"

definition HasRestaurantAccess :: "AuthContext \<Rightarrow> uuid \<Rightarrow> bool" where
  "HasRestaurantAccess ctx r \<longleftrightarrow> IsAdmin ctx \<or> own_restaurant ctx r"

definition HasBranchAccess :: "AuthContext \<Rightarrow> uuid \<Rightarrow> bool" where
  "HasBranchAccess ctx b \<longleftrightarrow> IsAdmin ctx \<or> ax_BranchID ctx = Some b"

definition CanManageTenant :: "AuthContext \<Rightarrow> access_error option" where
  "CanManageTenant ctx = permit_if ErrSuperAdminRequired (HasPermission ctx ''tenant.manage'' \<or> IsAdmin ctx)"

definition CanViewTenant :: "AuthContext \<Rightarrow> uuid \<Rightarrow> access_error option" where
  "CanViewTenant ctx tenantID = permit_if ErrUnauthorized (ax_TenantID ctx = tenantID \<or> ax_Role ctx = RoleSuperAdmin)"

definition CanCreateOrganization :: "AuthContext \<Rightarrow> access_error option" where
  "CanCreateOrganization ctx = permit_if ErrAdminRequired (HasPermission ctx ''organization.create'' \<or> IsAdmin ctx)"

definition CanUpdateOrganization :: "AuthContext \<Rightarrow> uuid \<Rightarrow> access_error option" where
  "CanUpdateOrganization ctx organizationID =
     permit_if ErrInsufficientPermissions (HasPermission ctx ''organization.update'' \<or> IsAdmin ctx)"

definition CanCreateBranch :: "AuthContext \<Rightarrow> access_error option" where
  "CanCreateBranch ctx = permit_if ErrAdminRequired (HasPermission ctx ''branch.create'' \<or> IsAdmin ctx)"

definition CanUpdateBranch :: "AuthContext \<Rightarrow> uuid \<Rightarrow> access_error option" where
  "CanUpdateBranch ctx b = permit_if ErrInsufficientPermissions
     (IsAdmin ctx \<or> HasPermission ctx ''branch.update'' \<or> ax_BranchID ctx = Some b \<and> IsManagement ctx)"

definition CanCreateRestaurant :: "AuthContext \<Rightarrow> access_error option" where
  "CanCreateRestaurant ctx = permit_if ErrAdminRequired (HasPermission ctx ''restaurant.create'' \<or> IsAdmin ctx)"

definition CanUpdateRestaurant :: "AuthContext \<Rightarrow> uuid \<Rightarrow> access_error option" where
  "CanUpdateRestaurant ctx r = permit_if ErrRestaurantAccessDenied
     (IsAdmin ctx \<or> HasPermission ctx ''restaurant.update''
      \<or> ax_Role ctx \<in> {RoleOwner, RoleManager} \<and> own_restaurant ctx r)"

definition CanDeleteRestaurant :: "AuthContext \<Rightarrow> uuid \<Rightarrow> access_error option" where
  "CanDeleteRestaurant ctx r = permit_if ErrSuperAdminRequired
     (HasPermission ctx ''restaurant.delete'' \<or> ax_Role ctx = RoleSuperAdmin)"

definition CanViewRestaurant :: "AuthContext \<Rightarrow> uuid \<Rightarrow> access_error option" where
  "CanViewRestaurant ctx r = permit_if ErrRestaurantAccessDenied (HasPermission ctx ''restaurant.read'' \<or> HasRestaurantAccess ctx r)"

definition CanCreateTable :: "AuthContext \<Rightarrow> uuid \<Rightarrow> access_error option" where
  "CanCreateTable ctx r = permit_if ErrManagementRoleRequired
     (IsAdmin ctx \<or> HasPermission ctx ''table.create''
      \<or> ax_Role ctx \<in> {RoleOwner, RoleManager, RoleAssistantManager} \<and> own_restaurant ctx r)"

definition CanUpdateTable :: "AuthContext \<Rightarrow> uuid \<Rightarrow> access_error option" where
  "CanUpdateTable ctx r = permit_if ErrManagementRoleRequired
     (IsAdmin ctx \<or> HasPermission ctx ''table.update'' \<or> IsManagement ctx \<and> own_restaurant ctx r)"

definition CanUpdateTableStatus :: "AuthContext \<Rightarrow> uuid \<Rightarrow> access_error option" where
  "CanUpdateTableStatus ctx r = permit_if ErrRestaurantAccessDenied
     (IsAdmin ctx \<or> own_restaurant ctx r \<and> ax_Role ctx \<in> {RoleOwner, RoleManager, RoleAssistantManager, RoleWaiter})"

definition CanDeleteTable :: "AuthContext \<Rightarrow> uuid \<Rightarrow> access_error option" where
  "CanDeleteTable ctx r = permit_if ErrRestaurantOwnershipRequired
     (IsAdmin ctx \<or> HasPermission ctx ''table.delete'' \<or> ax_Role ctx \<in> {RoleOwner, RoleManager} \<and> own_restaurant ctx r)"

definition CanCreateOrder :: "AuthContext \<Rightarrow> uuid \<Rightarrow> access_error option" where
  "CanCreateOrder ctx r = permit_if ErrRestaurantAccessDenied
     (IsAdmin ctx \<or> HasPermission ctx ''order.create'' \<or> own_restaurant ctx r)"

definition CanUpdateOrder :: "AuthContext \<Rightarrow> uuid \<Rightarrow> access_error option" where
  "CanUpdateOrder ctx r = permit_if ErrRestaurantAccessDenied
     (IsAdmin ctx \<or> HasPermission ctx ''order.update'' \<or> own_restaurant ctx r)"

definition CanDeleteOrder :: "AuthContext \<Rightarrow> uuid \<Rightarrow> access_error option" where
  "CanDeleteOrder ctx r = permit_if ErrManagementRoleRequired
     (IsAdmin ctx \<or> HasPermission ctx ''order.delete'' \<or> IsManagement ctx \<and> own_restaurant ctx r)"

definition CanViewOrder :: "AuthContext \<Rightarrow> uuid \<Rightarrow> access_error option" where
  "CanViewOrder ctx r = permit_if ErrRestaurantAccessDenied (HasPermission ctx ''order.read'' \<or> HasRestaurantAccess ctx r)"

definition CanManageMenu :: "AuthContext \<Rightarrow> uuid \<Rightarrow> access_error option" where
  "CanManageMenu ctx r = permit_if ErrManagementRoleRequired
     (IsAdmin ctx \<or> HasAnyPermission ctx [''menu.create'', ''menu.update'', ''menu.delete'']
      \<or> ax_Role ctx \<in> {RoleOwner, RoleManager} \<and> own_restaurant ctx r)"

definition CanViewMenu :: "AuthContext \<Rightarrow> uuid \<Rightarrow> access_error option" where
  "CanViewMenu ctx r = permit_if ErrRestaurantAccessDenied (HasPermission ctx ''menu.read'' \<or> HasRestaurantAccess ctx r)"

definition CanManageInventory :: "AuthContext \<Rightarrow> uuid \<Rightarrow> access_error option" where
  "CanManageInventory ctx r = permit_if ErrInsufficientPermissions
     (IsAdmin ctx \<or> HasAnyPermission ctx [''inventory.create'', ''inventory.update'', ''inventory.delete'']
      \<or> ax_Role ctx \<in> {RoleOwner, RoleManager, RoleInventoryManager} \<and> own_restaurant ctx r)"

definition CanManageUsers :: "AuthContext \<Rightarrow> access_error option" where
  "CanManageUsers ctx = permit_if ErrAdminRequired
     (IsAdmin ctx \<or> HasAnyPermission ctx [''user.create'', ''user.update'', ''user.delete''])"

definition CanManageRoles :: "AuthContext \<Rightarrow> access_error option" where
  "CanManageRoles ctx = permit_if ErrAdminRequired
     (IsAdmin ctx \<or> HasAnyPermission ctx [''role.create'', ''role.update'', ''role.delete''])"

definition CanAssignRoles :: "AuthContext \<Rightarrow> access_error option" where
  "CanAssignRoles ctx = permit_if ErrAdminRequired (IsAdmin ctx \<or> HasPermission ctx ''role.assign'')"

definition CanViewReports :: "AuthContext \<Rightarrow> uuid \<Rightarrow> access_error option" where
  "CanViewReports ctx r = permit_if ErrInsufficientPermissions
     (HasPermission ctx ''reports.read'' \<or> IsManagement ctx \<and> own_restaurant ctx r)"

section \<open>Middleware that asks them\<close>

text \<open>The context is missing when the request was not authenticated; denials are status and message.\<close>

datatype passage = Next | Deny int string

definition with_auth :: "AuthContext option \<Rightarrow> (AuthContext \<Rightarrow> passage) \<Rightarrow> passage" where
  "with_auth auth k = (case auth of None \<Rightarrow> Deny 401 ''Authentication required'' | Some ctx \<Rightarrow> k ctx)"

definition RequireRole :: "string list \<Rightarrow> AuthContext option \<Rightarrow> passage" where
  "RequireRole roles auth =
     with_auth auth (\<lambda>ctx. if HasAnyRole ctx roles then Next else Deny 403 ''Insufficient role privileges'')"

definition RequirePermission :: "string \<Rightarrow> string \<Rightarrow> AuthContext option \<Rightarrow> passage" where
  "RequirePermission resource action auth =
     with_auth auth (\<lambda>ctx. if HasPermission ctx (resource @ ''.'' @ action) then Next
       else Deny 403 ''You do not have permission to perform this action'')"

definition RequireAnyPermission :: "string list \<Rightarrow> AuthContext option \<Rightarrow> passage" where
  "RequireAnyPermission perms auth =
     with_auth auth (\<lambda>ctx. if HasAnyPermission ctx perms then Next
       else Deny 403 ''You do not have the required permissions'')"

definition RequireAllPermissions :: "string list \<Rightarrow> AuthContext option \<Rightarrow> passage" where
  "RequireAllPermissions perms auth =
     with_auth auth (\<lambda>ctx. if HasAllPermissions ctx perms then Next
       else Deny 403 ''You do not have all required permissions'')"

definition RequireAny :: "(AuthContext \<Rightarrow> bool) list \<Rightarrow> AuthContext option \<Rightarrow> passage" where
  "RequireAny checks auth = with_auth auth (\<lambda>ctx. if list_ex (\<lambda>check. check ctx) checks then Next else Deny 403 ''Access denied'')"

definition RequireAll :: "(AuthContext \<Rightarrow> bool) list \<Rightarrow> AuthContext option \<Rightarrow> passage" where
  "RequireAll checks auth = with_auth auth (\<lambda>ctx. if list_all (\<lambda>check. check ctx) checks then Next else Deny 403 ''Access denied'')"

definition require_for_restaurant ::
    "auth_env \<Rightarrow> (AuthContext \<Rightarrow> bool) \<Rightarrow> (AuthContext \<Rightarrow> uuid \<Rightarrow> access_error option) \<Rightarrow> string \<Rightarrow> string
       \<Rightarrow> AuthContext option \<Rightarrow> passage" where
  "require_for_restaurant E everywhere check denied restaurantIDStr auth =
     with_auth auth (\<lambda>ctx.
       if restaurantIDStr = ''''
       then (if everywhere ctx then Next else Deny 403 ''restaurant_id parameter is required'')
       else case ae_uuid_Parse E restaurantIDStr of
              None \<Rightarrow> Deny 400 ''Invalid restaurant_id format''
            | Some r \<Rightarrow> if check ctx r = None then Next else Deny 403 denied)"

definition RequireReportsAccess :: "auth_env \<Rightarrow> string \<Rightarrow> AuthContext option \<Rightarrow> passage" where
  "RequireReportsAccess E = require_for_restaurant E (\<lambda>ctx. HasPermission ctx ''reports.read'') CanViewReports
     ''You do not have access to reports for this restaurant''"

definition RequireInventoryAccess :: "auth_env \<Rightarrow> string \<Rightarrow> AuthContext option \<Rightarrow> passage" where
  "RequireInventoryAccess E = require_for_restaurant E
     (\<lambda>ctx. HasAnyPermission ctx [''inventory.create'', ''inventory.update'', ''inventory.delete'']) CanManageInventory
     ''You do not have access to manage inventory for this restaurant''"

definition RequireMenuAccess :: "auth_env \<Rightarrow> string \<Rightarrow> AuthContext option \<Rightarrow> passage" where
  "RequireMenuAccess E = require_for_restaurant E
     (\<lambda>ctx. HasAnyPermission ctx [''menu.create'', ''menu.update'', ''menu.delete'']) CanManageMenu
     ''You do not have access to manage menu for this restaurant''"

definition RequireAdmin :: "AuthContext option \<Rightarrow> passage" where
  "RequireAdmin = RequireRole [RoleSuperAdmin, RoleAdmin]"

definition RequireManagement :: "AuthContext option \<Rightarrow> passage" where
  "RequireManagement = RequireRole [RoleSuperAdmin, RoleAdmin, RoleOwner, RoleManager, RoleAssistantManager]"

definition ReportsAccessCheck :: "AuthContext \<Rightarrow> bool" where
  "ReportsAccessCheck ctx \<longleftrightarrow> HasPermission ctx ''reports.read''
     \<or> IsManagement ctx \<and> (case ax_RestaurantID ctx of None \<Rightarrow> False | Some r \<Rightarrow> CanViewReports ctx r = None)"

text \<open>The checks that are asked for a restaurant, with the permissions that answer each of them.\<close>

definition restaurant_checks :: "((AuthContext \<Rightarrow> uuid \<Rightarrow> access_error option) \<times> string list) list" where
  "restaurant_checks =
     [(CanUpdateRestaurant, [''restaurant.update'']), (CanDeleteRestaurant, [''restaurant.delete'']),
      (CanViewRestaurant, [''restaurant.read'']), (CanCreateTable, [''table.create'']),
      (CanUpdateTable, [''table.update'']), (CanUpdateTableStatus, []), (CanDeleteTable, [''table.delete'']),
      (CanCreateOrder, [''order.create'']), (CanUpdateOrder, [''order.update'']), (CanDeleteOrder, [''order.delete'']),
      (CanViewOrder, [''order.read'']), (CanManageMenu, [''menu.create'', ''menu.update'', ''menu.delete'']),
      (CanViewMenu, [''menu.read'']),
      (CanManageInventory, [''inventory.create'', ''inventory.update'', ''inventory.delete'']),
      (CanViewReports, [''reports.read''])]"

lemmas access_defs = permit_if_def HasPermission_def HasAnyPermission_def IsAdmin_def IsManagement_def own_restaurant_def
  HasRestaurantAccess_def CanUpdateRestaurant_def CanDeleteRestaurant_def CanViewRestaurant_def CanCreateTable_def
  CanUpdateTable_def CanUpdateTableStatus_def CanDeleteTable_def CanCreateOrder_def CanUpdateOrder_def CanDeleteOrder_def
  CanViewOrder_def CanManageMenu_def CanViewMenu_def CanManageInventory_def CanViewReports_def

text \<open>
  Outside the restaurant of the context a check passes only for an administrator or with one of
  its permissions, and then it passes for every restaurant of every tenant: no check looks at the
  tenant the restaurant belongs to.
\<close>

theorem restaurant_checks_confined:
  assumes "(check, perms) \<in> set restaurant_checks" and "check ctx r = None" and "ax_RestaurantID ctx \<noteq> Some r"
  shows "(IsAdmin ctx \<or> (\<exists>p \<in> set perms. p \<in> set (ax_Permissions ctx))) \<and> (\<forall>r'. check ctx r' = None)"
proof -
  have "list_all (\<lambda>(check, perms). check ctx r = None
    \<longrightarrow> (IsAdmin ctx \<or> (\<exists>p \<in> set perms. p \<in> set (ax_Permissions ctx))) \<and> (\<forall>r'. check ctx r' = None)) restaurant_checks"
    using assms(3) unfolding restaurant_checks_def list.pred_inject prod.case
    by (intro conjI impI TrueI) (auto simp: access_defs split: if_splits)
  with assms(1,2) show ?thesis by (auto simp: list_all_iff)
qed

end
