(* ===== verification/Auth_Limits.thy ===== *)
theory Auth_Limits
  imports Auth_Correct
begin

text \<open>
  What the sliding window of \<open>checkRateLimit\<close> bounds: the different seconds in which calls are
  admitted, not the calls.
\<close>

definition admitted_seconds :: "(gotime \<times> ('e + unit)) list \<Rightarrow> int set" where
  "admitted_seconds rs = unix ` fst ` set (filter (\<lambda>(t, r). \<not> isl r) rs)"

lemma admitted_seconds_simps [simp]:
  "admitted_seconds [] = {}"
  "admitted_seconds ((t, r) # rs) = (if isl r then admitted_seconds rs else insert (unix t) (admitted_seconds rs))"
  by (simp_all add: admitted_seconds_def)

text \<open>In no stretch of \<open>n\<close> seconds lie more than \<open>limit\<close> elements.\<close>

definition sparse :: "int \<Rightarrow> int \<Rightarrow> int set \<Rightarrow> bool" where
  "sparse n limit A \<longleftrightarrow> finite A \<and> (\<forall>w. int (card {x \<in> A. w < x \<and> x \<le> w + n}) \<le> limit)"

text \<open>What the stored set says about the seconds \<open>A\<close> admitted until \<open>now\<close>.\<close>

definition window_inv :: "int \<Rightarrow> string \<Rightarrow> int set \<Rightarrow> gotime \<Rightarrow> 'z auth_db_scheme \<Rightarrow> bool" where
  "window_inv n key A now s \<longleftrightarrow> rd_faults s = [] \<and> (\<forall>x \<in> A. x \<le> unix now)
     \<and> (case map_of (rd_windows s) key of
          None \<Rightarrow> \<forall>x \<in> A. x \<le> unix now - n
        | Some (ts, deadline) \<Rightarrow> distinct ts \<and> (\<forall>w \<ge> unix now - n. {x \<in> set ts. w < x} = {x \<in> A. w < x})
            \<and> (\<exists>d. deadline = Some d \<and> (\<forall>x \<in> set ts. x \<le> unix d - n)))"

lemma unix_mono: "a \<le> b \<Longrightarrow> unix a \<le> unix b"
  by (simp add: unix_def zdiv_mono1)

lemma admitted_inv:
  assumes "window_inv n key A now s" and "now \<le> t"
  shows "distinct (admitted t key (unix t - n) s)" and "set (admitted t key (unix t - n) s) = {x \<in> A. unix t - n < x}"
proof -
  note m = unix_mono [OF assms(2)]
  have "distinct (admitted t key (unix t - n) s) \<and> set (admitted t key (unix t - n) s) = {x \<in> A. unix t - n < x}"
  proof (cases "map_of (rd_windows s) key")
    case None
    then have "\<forall>x \<in> A. x \<le> unix now - n" using assms(1) by (simp add: window_inv_def)
    with m None show ?thesis by (fastforce simp: admitted_def live_entry_def)
  next
    case (Some e)
    obtain ts d where e: "e = (ts, Some d)" and i: "distinct ts" "{x \<in> set ts. unix t - n < x} = {x \<in> A. unix t - n < x}"
      "\<forall>x \<in> set ts. x \<le> unix d - n"
      using assms(1) Some m by (cases e) (auto simp: window_inv_def)
    show ?thesis
    proof (cases "t < d")
      case True
      with i(1,2) Some e show ?thesis by (simp add: admitted_def live_entry_def)
    next
      case False
      then have "unix d \<le> unix t" by (intro unix_mono) simp
      then have "{x \<in> set ts. unix t - n < x} = {}" using i(3) by fastforce
      with i(2) Some e False show ?thesis by (simp add: admitted_def live_entry_def)
    qed
  qed
  then show "distinct (admitted t key (unix t - n) s)" "set (admitted t key (unix t - n) s) = {x \<in> A. unix t - n < x}"
    by simp_all
qed

lemma stored_window:
  "map_of (rd_windows (store_window key ts deadline s)) key = (if ts = [] then None else Some (ts, deadline))"
  "rd_faults (store_window key ts deadline s) = rd_faults s"
  by (simp_all add: store_window_def delete_conv')

lemma sparse_insert:
  assumes "sparse n limit A" and "\<forall>x \<in> A. x \<le> m" and "int (card (insert m {x \<in> A. m - n < x})) \<le> limit"
  shows "sparse n limit (insert m A)"
  unfolding sparse_def
proof (intro conjI allI)
  show "finite (insert m A)" using assms(1) by (simp add: sparse_def)
  fix w
  show "int (card {x \<in> insert m A. w < x \<and> x \<le> w + n}) \<le> limit"
  proof (cases "w < m \<and> m \<le> w + n")
    case True
    then have "{x \<in> insert m A. w < x \<and> x \<le> w + n} \<subseteq> insert m {x \<in> A. m - n < x}" using assms(2) by auto
    moreover have "finite (insert m {x \<in> A. m - n < x})" using assms(1) by (simp add: sparse_def)
    ultimately have "card {x \<in> insert m A. w < x \<and> x \<le> w + n} \<le> card (insert m {x \<in> A. m - n < x})"
      by (intro card_mono)
    with assms(3) show ?thesis by simp
  next
    case False
    then have "{x \<in> insert m A. w < x \<and> x \<le> w + n} = {x \<in> A. w < x \<and> x \<le> w + n}" by auto
    with assms(1) show ?thesis by (simp add: sparse_def)
  qed
qed

lemma rate_step:
  fixes s :: "'z auth_db_scheme"
  assumes "window_inv n key A now s" and "sparse n limit A" and "now \<le> t" and "0 < limit" and "0 < n"
    and "checkRateLimit t key limit (n * 1000000000) s = (s', r)"
  shows "window_inv n key (if isl r then A else insert (unix t) A) t s'"
    and "sparse n limit (if isl r then A else insert (unix t) A)"
proof -
  let ?ts = "admitted t key (unix t - n) s" and ?m = "unix t"
  note a = admitted_inv [OF assms(1,3)] and m = unix_mono [OF assms(3)]
  have A: "\<forall>x \<in> A. x \<le> ?m" "rd_faults s = []" using assms(1) m by (fastforce simp: window_inv_def)+
  have n: "sgn (n * 1000000000) * (\<bar>n * 1000000000\<bar> div 1000000000) = n" using assms(5) by (simp add: sgn_mult abs_mult)
  let ?dl = "case map_of (rd_windows s) key of None \<Rightarrow> None | Some (_, deadline) \<Rightarrow> deadline"
  have run: "(s', r) = (if int (length ?ts) \<ge> limit then (store_window key ?ts ?dl s, Inl ErrRateLimitExceeded)
      else (store_window key (List.insert ?m ?ts) (Some (t + n * 1000000000)) s, Inr ()))"
    using assms(5,6) A(2) n by (simp add: checkRateLimit_def failing_def bindE_def window_script_def Let_def split: if_splits)
  have "window_inv n key (if isl r then A else insert ?m A) t s' \<and> sparse n limit (if isl r then A else insert ?m A)"
  proof (cases "int (length ?ts) \<ge> limit")
    case True
    then have ne: "?ts \<noteq> []" using assms(4) by auto
    then obtain ts d where e: "map_of (rd_windows s) key = Some (ts, Some d)" "\<forall>x \<in> set ts. x \<le> unix d - n"
      using assms(1) by (cases "map_of (rd_windows s) key") (auto simp: window_inv_def admitted_def live_entry_def)
    have "set ?ts \<subseteq> set ts" using e(1) by (auto simp: admitted_def live_entry_def split: if_splits)
    then have "\<forall>x \<in> set ?ts. x \<le> unix d - n" using e(2) by blast
    moreover have "{x \<in> set ?ts. w < x} = {x \<in> A. w < x}" if "w \<ge> ?m - n" for w using that by (auto simp: a(2))
    ultimately show ?thesis
      using run True ne e(1) A a(1) assms(2) by (simp add: window_inv_def stored_window)
  next
    case False
    have "unix (t + n * 1000000000) = ?m + n" by (simp add: unix_def)
    then have "\<forall>x \<in> set (List.insert ?m ?ts). x \<le> unix (t + n * 1000000000) - n" using A(1) by (auto simp: a(2))
    moreover have "{x \<in> set (List.insert ?m ?ts). w < x} = {x \<in> insert ?m A. w < x}" if "w \<ge> ?m - n" for w
      using that by (auto simp: a(2))
    moreover have "List.insert ?m ?ts \<noteq> []" by (auto simp: List.insert_def)
    ultimately have "window_inv n key (insert ?m A) t s'"
      using run False A a(1) by (simp add: window_inv_def stored_window)
    moreover have "card (insert ?m {x \<in> A. ?m - n < x}) \<le> Suc (length ?ts)"
      using distinct_card [OF a(1)] a(2) card_insert_le_m1 [of "Suc (length ?ts)" "{x \<in> A. ?m - n < x}" ?m] by simp
    then have "sparse n limit (insert ?m A)" using False by (intro sparse_insert assms(2) A(1)) linarith
    ultimately show ?thesis using run False by simp
  qed
  then show "window_inv n key (if isl r then A else insert ?m A) t s'" "sparse n limit (if isl r then A else insert ?m A)"
    by simp_all
qed

lemma rate_run:
  fixes s :: "'z auth_db_scheme"
  assumes "0 < limit" and "0 < n"
  shows "window_inv n key A now s \<Longrightarrow> sparse n limit A \<Longrightarrow> sorted (now # moments)
    \<Longrightarrow> sparse n limit (A \<union> admitted_seconds (answers (\<lambda>t. checkRateLimit t key limit (n * 1000000000)) moments s))"
proof (induction moments arbitrary: A now s)
  case (Cons t moments)
  obtain s' r where c: "checkRateLimit t key limit (n * 1000000000) s = (s', r)" by fastforce
  have "now \<le> t" "sorted (t # moments)" using Cons.prems(3) by simp_all
  note st = rate_step [OF Cons.prems(1,2) this(1) assms c]
  note IH = Cons.IH [OF st \<open>sorted (t # moments)\<close>]
  show ?case using IH c by (cases "isl r") (simp_all add: insert_is_Un [symmetric])
qed simp

lemma same_second:
  fixes s :: "'z auth_db_scheme"
  assumes "1 < limit" and "0 < n"
  shows "rd_faults s = [] \<Longrightarrow> (case map_of (rd_windows s) key of None \<Rightarrow> True | Some (ts, _) \<Rightarrow> ts = [sec])
    \<Longrightarrow> \<forall>t \<in> set moments. unix t = sec
    \<Longrightarrow> \<forall>(t, r) \<in> set (answers (\<lambda>t. checkRateLimit t key limit (n * 1000000000)) moments s). r = Inr ()"
proof (induction moments arbitrary: s)
  case (Cons t moments)
  have n: "sgn (n * 1000000000) * (\<bar>n * 1000000000\<bar> div 1000000000) = n" using assms(2) by (simp add: sgn_mult abs_mult)
  let ?ts = "admitted t key (sec - n) s"
  have ts: "?ts = [] \<or> ?ts = [sec]"
    using Cons.prems(2) assms(2) by (auto simp: admitted_def live_entry_def split: option.splits prod.splits if_splits)
  then have "int (length ?ts) < limit" using assms(1) by auto
  moreover have "unix t = sec" using Cons.prems(3) by simp
  ultimately have c: "checkRateLimit t key limit (n * 1000000000) s
      = (store_window key (List.insert sec ?ts) (Some (t + n * 1000000000)) s, Inr ())"
    using Cons.prems(1) assms(2) n by (simp add: checkRateLimit_def failing_def bindE_def window_script_def Let_def)
  have "List.insert sec ?ts = [sec]" using ts by auto
  then show ?case using Cons.IH [of "store_window key [sec] (Some (t + n * 1000000000)) s"] Cons.prems c
    by (simp add: stored_window)
qed simp

text \<open>
  C29: In any stretch as long as its window the limiter admits calls in at most as many different
  seconds as its limit says, but any number of calls within one second: a second is recorded once,
  however often it is used.
\<close>

theorem rate_limit_counts_seconds:
  assumes "rd_faults s = []" and "map_of (rd_windows s) key = None" and "1 < limit" and "0 < n"
  shows "(sorted moments \<longrightarrow> sparse n limit
      (admitted_seconds (answers (\<lambda>t. checkRateLimit t key limit (n * 1000000000)) moments s)))
    \<and> ((\<forall>t \<in> set moments. unix t = sec)
      \<longrightarrow> (\<forall>(t, r) \<in> set (answers (\<lambda>t. checkRateLimit t key limit (n * 1000000000)) moments s). r = Inr ()))"
proof (intro conjI impI)
  assume "sorted moments"
  have lim: "0 < limit" using assms(3) by simp
  show "sparse n limit (admitted_seconds (answers (\<lambda>t. checkRateLimit t key limit (n * 1000000000)) moments s))"
  proof (cases moments)
    case Nil
    with lim show ?thesis by (simp add: sparse_def)
  next
    case (Cons t ts)
    have "window_inv n key {} t s" using assms(1,2) by (simp add: window_inv_def)
    moreover have "sparse n limit {}" using lim by (simp add: sparse_def)
    moreover have "sorted (t # moments)" using \<open>sorted moments\<close> Cons by simp
    ultimately show ?thesis using rate_run [OF lim assms(4), of key "{}" t s moments] by simp
  qed
next
  assume "\<forall>t \<in> set moments. unix t = sec"
  then show "\<forall>(t, r) \<in> set (answers (\<lambda>t. checkRateLimit t key limit (n * 1000000000)) moments s). r = Inr ()"
    by (intro same_second [OF assms(3,4), where sec = sec]) (simp_all add: assms)
qed

end
