(* ===== verification/Auth_Examples.thy ===== *)
theory Auth_Examples
  imports Auth_OAuth Auth_Access Auth_Limits
begin

text \<open>One account with a live and a used refresh token, and the properties of authentication on it.\<close>

definition ex_key :: argon2_IDKey where
  "ex_key password salt iterations memory parallelism keyLength = take keyLength (password @ replicate keyLength CHR ''x'')"

definition ex_auth :: auth_env where
  "ex_auth = \<lparr>ae_uuid_String = (\<lambda>i. replicate (unat i) CHR ''u''), ae_uuid_Parse = (\<lambda>s. Some (of_nat (length s))),
     ae_IDKey = ex_key, ae_sha256 = (\<lambda>s. s), ae_sha1 = (\<lambda>s. s), ae_range_api = (\<lambda>_. Inl ''down''),
     ae_SignedString = (\<lambda>c. Inr (cl_session_id c)), ae_ParseToken = (\<lambda>_. Inl ''malformed''),
     ae_totp_Validate = (\<lambda>_ code secret. code = secret), ae_GetCountry = (\<lambda>_. ''NP''),
     ae_GetCoordinates = (\<lambda>_. (Fin 0, Fin 0)), ae_Lookup = (\<lambda>_. ''here''), ae_Sin = (\<lambda>x. x), ae_Cos = (\<lambda>x. x),
     ae_Atan2 = (\<lambda>x y. x), ae_Sqrt = (\<lambda>x. x)\<rparr>"

definition ex_config :: auth_config where
  "ex_config = \<lparr>ac_ttlConfig = \<lparr>tt_ByRole = [], tt_ByDevice = [],
       tt_Default = \<lparr>ttl_AccessToken = minutes 15, ttl_RefreshToken = hours 24\<rparr>\<rparr>,
     ac_maxSessions = 2, ac_passwordMinLen = 8, ac_passwordHistory = 5, ac_breachCheckEnabled = False\<rparr>"

definition ex_draw :: "uuid \<Rightarrow> string \<Rightarrow> auth_draw" where
  "ex_draw i bytes = \<lparr>ad_random = Inr bytes, ad_salt = Inr ''salt'', ad_jti = i, ad_session = i, ad_token = i, ad_device = i,
     ad_user = i, ad_history = i, ad_tenant = i\<rparr>"

definition ex_origin :: origin where
  "ex_origin = \<lparr>og_ipAddress = ''10.0.0.1'', og_userAgent = ''agent'', og_deviceFingerprint = ''print''\<rparr>"

definition ex_hash :: "string \<Rightarrow> string" where
  "ex_hash password = (case HashPwd ex_key (Inr ''salt'') password of Inl _ \<Rightarrow> '''' | Inr h \<Rightarrow> h)"

definition ex_user :: "int \<Rightarrow> gotime option \<Rightarrow> User" where
  "ex_user attempts locked = \<lparr>us_UserID = 1, us_UserName = ''ada'', us_FullName = ''Ada'', us_Email = ''ada'', us_Phone = '''',
     us_PasswordHash = ex_hash ''secret'', us_IsActive = True, us_TenantID = 2, us_DeletedAt = None, us_PrimaryRole = ''owner'',
     us_IsEmailVerified = True, us_TwoFactorEnabled = False, us_TwoFactorSecret = '''', us_FailedLoginAttempts = attempts,
     us_LockedUntil = locked, us_LastLoginAt = None, us_LastLoginIP = '''', us_LastLoginLocation = '''',
     us_PasswordChangedAt = None, us_IsDeleted = False, us_GoogleID = '''', us_AvatarURL = ''''\<rparr>"

definition ex_refresh :: "uuid \<Rightarrow> string \<Rightarrow> bool \<Rightarrow> RefreshToken" where
  "ex_refresh i hash revoked = \<lparr>rt_TokenID = i, rt_UserID = 1, rt_TokenHash = hash, rt_DeviceID = ''d'',
     rt_DeviceFingerprint = '''', rt_DeviceType = ''web'', rt_UserRole = ''owner'', rt_IPAddress = '''', rt_UserAgent = '''',
     rt_Location = '''', rt_ExpiresAt = 100, rt_IsRevoked = revoked, rt_RevokedAt = None, rt_RevokedReason = '''',
     rt_CreatedAt = 0\<rparr>"

definition ex_auth_db :: "User list \<Rightarrow> auth_db" where
  "ex_auth_db users = \<lparr>faults = [], db_orders = [], db_kots = [], db_kotItems = [], db_employees = [], db_audits = [],
     rd_counters = [], rd_faults = [], au_users = users,
     au_refresh = [ex_refresh 1 (HashToken ex_auth ''live'') False, ex_refresh 2 (HashToken ex_auth ''used'') True],
     au_history = [], au_devices = [], au_events = [], au_verify = [], au_tenants = [], rd_sessions = [],
     rd_user_sessions = [], rd_pending = [], rd_blacklist = [], rd_windows = [], rd_resets = [], rd_states = []\<rparr>"

abbreviation "ex_ada \<equiv> ex_auth_db [ex_user 0 None]"

lemma ex_auth_sel [simp]:
  "ae_IDKey ex_auth = ex_key" "ae_SignedString ex_auth c = Inr (cl_session_id c)"
  "ae_ParseToken ex_auth str = Inl ''malformed''" "ae_sha256 ex_auth str = str"
  "ae_uuid_String ex_auth i = replicate (unat i) CHR ''u''"
  by (simp_all add: ex_auth_def)

lemma ex_config_sel [simp]: "ac_maxSessions ex_config = 2" "ac_passwordHistory ex_config = 5"
  by (simp_all add: ex_config_def)

lemma ex_auth_db_sel [simp]:
  "faults (ex_auth_db us) = []" "rd_faults (ex_auth_db us) = []" "au_users (ex_auth_db us) = us"
  "rd_windows (ex_auth_db us) = []" "rd_sessions (ex_auth_db us) = []" "rd_user_sessions (ex_auth_db us) = []"
  "au_history (ex_auth_db us) = []" "au_devices (ex_auth_db us) = []"
  by (simp_all add: ex_auth_db_def)

lemma ex_user_sel [simp]:
  "us_UserID (ex_user a l) = 1" "us_Email (ex_user a l) = ''ada''" "us_DeletedAt (ex_user a l) = None"
  "us_IsActive (ex_user a l)" "us_IsEmailVerified (ex_user a l)" "\<not> us_TwoFactorEnabled (ex_user a l)"
  "us_FailedLoginAttempts (ex_user a l) = a" "us_LockedUntil (ex_user a l) = l" "us_LastLoginIP (ex_user a l) = ''''"
  "us_PasswordHash (ex_user a l) = ex_hash ''secret''" "\<not> us_IsDeleted (ex_user a l)" "us_GoogleID (ex_user a l) = ''''"
  by (simp_all add: ex_user_def)

lemma ex_lower: "ToLower ''ada'' = ''ada''" "ToLower ''Ada'' = ''ada''"
  by code_simp+

lemma ex_hash_stored: "HashPwd ex_key (Inr ''salt'') password = Inr (ex_hash password)"
  by (simp add: ex_hash_def HashPwd_def Let_def)

lemma ex_key_length: "length (ex_key password salt 3 65536 2 32) = 32"
  by (simp add: ex_key_def)

lemma ex_compare: "ComparePwd ex_key guess (ex_hash password)
    = Compared (ex_key guess ''salt'' 3 65536 2 32 = ex_key password ''salt'' 3 65536 2 32)"
  by (rule ComparePwd_encoded [OF ex_hash_stored ex_key_length])

lemma ex_guess: "ComparePwd ex_key ''guess'' (ex_hash ''secret'') = Compared False"
  "ComparePwd ex_key ''secret'' (ex_hash ''secret'') = Compared True"
  unfolding ex_compare by (simp_all add: ex_key_def)

lemma ex_working [simp]: "working (ex_auth_db us)"
  by (simp add: working_def)

lemma ex_hex: "hex_Encode ''live'' \<noteq> hex_Encode ''used''"
  by code_simp

lemma ex_tokens:
  "unique_tokens (ex_auth_db us)" "ex_refresh 2 (HashToken ex_auth ''used'') True \<in> set (au_refresh (ex_auth_db us))"
  "ex_refresh 1 (HashToken ex_auth ''live'') False \<in> set (au_refresh (ex_auth_db us))"
  using ex_hex by (simp_all add: unique_tokens_def ex_auth_db_def ex_refresh_def HashToken_def)

lemma ex_sole: "sole_account ''Ada'' (ex_user a l) (ex_auth_db [ex_user a l])"
  by (simp add: sole_account_def ex_lower)

lemma ex_within: "within_limit now ex_origin (ex_auth_db us)"
  by (simp add: within_limit_def admitted_def live_entry_def)

theorem ComparePwd_HashPwd_witness:
  "ComparePwd ex_key ''guess'' (ex_hash ''secret'') = Compared False
    \<and> ComparePwd ex_key ''secret'' (ex_hash ''secret'') = Compared True"
proof -
  have "(ex_key ''guess'' ''salt'' 3 65536 2 32 = ex_key ''secret'' ''salt'' 3 65536 2 32) = False"
    by (simp add: ex_key_def)
  then show ?thesis
    using ComparePwd_HashPwd [OF ex_hash_stored ex_key_length, of "''guess''" "''secret''"] by simp
qed

theorem refresh_token_single_use_witness:
  "redeemed (presents_token ''live'') (answers (auth_step ex_auth ex_config)
     [CallRefresh 5 (ex_draw 9 ''a'') ex_origin ''live'', CallRefresh 6 (ex_draw 10 ''b'') ex_origin ''live''] ex_ada) \<le> 1"
  using refresh_token_single_use [OF ex_tokens(1), of "''live''" ex_auth ex_config
      "[CallRefresh 5 (ex_draw 9 ''a'') ex_origin ''live'', CallRefresh 6 (ex_draw 10 ''b'') ex_origin ''live'']"]
  by blast

theorem pending_login_single_use_witness:
  "redeemed (presents_pending ''p'') (answers (auth_step ex_auth ex_config)
     [CallVerify2FA 5 (ex_draw 9 ''a'') ex_origin ''p'' ''1'', CallVerify2FA 6 (ex_draw 10 ''b'') ex_origin ''p'' ''2''] ex_ada) \<le> 1"
  using pending_login_single_use [of "[CallVerify2FA 5 (ex_draw 9 ''a'') ex_origin ''p'' ''1'',
      CallVerify2FA 6 (ex_draw 10 ''b'') ex_origin ''p'' ''2'']" ex_auth "''p''" ex_config ex_ada]
  by (simp add: issues_pending_def)

abbreviation "ex_request password \<equiv> \<lparr>lr_Email = ''Ada'', lr_Password = password, lr_DeviceType = ''''\<rparr>"

theorem locked_account_stays_locked_witness:
  "isl (snd (Login ex_auth ex_config 7 (ex_draw 9 ''a'') ex_origin (ex_request ''secret'')
     (auth_run ex_auth ex_config [CallBlacklist 6 ''token''] (ex_auth_db [ex_user 5 (Some 50)]))))"
proof -
  let ?s = "ex_auth_db [ex_user 5 (Some 50)]"
  have run: "auth_run ex_auth ex_config [CallBlacklist 6 ''token''] ?s = ?s"
    by (simp add: auth_run_def BlacklistAccessToken_def answer_def bindE_def)
  have a: "account 1 (locked_row 50) ?s" by (simp add: account_def locked_row_def)
  show ?thesis
    using locked_account_stays_locked [OF a, of "[CallBlacklist 6 ''token'']" 7 ex_auth ex_config
        "ex_request ''secret''" "ex_draw 9 ''a''" ex_origin]
    unfolding run by simp
qed

theorem wrong_password_counts_witness:
  "\<exists>s'. Login ex_auth ex_config 7 (ex_draw 9 ''a'') ex_origin (ex_request ''guess'') (ex_auth_db [ex_user 4 None])
      = (s', Inl ErrInvalidCredentials) \<and> account 1 (locked_row (7 + minutes 5)) s'"
  using wrong_password_counts [of "ex_auth_db [ex_user 4 None]" 7 ex_origin "ex_request ''guess''" "ex_user 4 None" ex_auth
      ex_config "ex_draw 9 ''a''"] ex_sole [of 4 None] ex_guess(1) ex_within
  by (auto simp: locked_until_def locks_for_def)

theorem reuse_revokes_family_witness:
  "snd (RefreshAccessToken ex_auth ex_config 7 (ex_draw 9 ''a'') ex_origin ''used'' ex_ada) = Inl ErrInvalidToken
    \<and> logged_out ex_auth 7 1 ex_ada (fst (RefreshAccessToken ex_auth ex_config 7 (ex_draw 9 ''a'') ex_origin ''used'' ex_ada))
    \<and> map se_EventType (au_events (fst (RefreshAccessToken ex_auth ex_config 7 (ex_draw 9 ''a'') ex_origin ''used'' ex_ada)))
      = map se_EventType (au_events ex_ada) @ [''token_reuse_detected'']"
proof -
  let ?run = "RefreshAccessToken ex_auth ex_config 7 (ex_draw 9 ''a'') ex_origin ''used'' ex_ada"
  have "snd ?run = Inl ErrInvalidToken \<and> logged_out ex_auth 7 1 ex_ada (fst ?run)
    \<and> (\<exists>e. au_events (fst ?run) = au_events ex_ada @ [e] \<and> se_UserID e = Some 1
        \<and> se_EventType e = ''token_reuse_detected'' \<and> se_EventSeverity e = ''critical'' \<and> \<not> se_Success e
        \<and> se_IPAddress e = og_ipAddress ex_origin \<and> se_Timestamp e = 7)"
    using reuse_revokes_family [OF ex_working ex_tokens(1,2), where E = ex_auth and token = "''used''" and now = 7
        and cfg = ex_config and d = "ex_draw 9 ''a''" and og = ex_origin]
    by (simp add: ex_refresh_def)
  then show ?thesis by (metis list.map map_append)
qed

theorem rate_limit_counts_seconds_witness:
  "length (answers (\<lambda>t. checkRateLimit t ''k'' 10 (60 * 1000000000)) (replicate 30 5) ex_ada) = 30
    \<and> snd ` set (answers (\<lambda>t. checkRateLimit t ''k'' 10 (60 * 1000000000)) (replicate 30 5) ex_ada) \<subseteq> {Inr ()}"
proof -
  have size_answers: "length (answers f xs s) = length xs" for f :: "gotime \<Rightarrow> ('s, auth_error, unit) op" and xs s
    by (induction xs arbitrary: s) simp_all
  show ?thesis
    using rate_limit_counts_seconds [of ex_ada "''k''" 10 60 "replicate 30 5" 0] by (auto simp: unix_def size_answers)
qed

theorem issued_sessions_never_resolve_witness:
  "\<forall>ctx. snd (AuthWithConfig ex_auth [] True (\<lambda>_. Inr \<lparr>jc_UserID = 1, jc_TenantID = 2, jc_SessionID = 9, jc_Email = '''', jc_Role = ''''\<rparr>)
     8 ''/orders'' ''Bearer t'' '''' ''''
     (auth_run ex_auth ex_config [CallLogin 7 (ex_draw 9 ''a'') ex_origin (ex_request ''secret'')] ex_ada)) \<noteq> Inr (Admitted ctx)"
  by (intro allI, rule issued_sessions_never_resolve) (simp_all add: session_keys_def)

lemma ex_fresh:
  "fresh_token ex_auth (ex_draw 9 ''a'') (base64_URLEncode ''a'') (ex_auth_db us)"
  "fresh_token ex_auth (ex_draw 10 ''b'') (base64_URLEncode ''b'') (ex_auth_db us)"
  "HashToken ex_auth (base64_URLEncode ''a'') \<noteq> HashToken ex_auth (base64_URLEncode ''b'')"
proof -
  have "hex_Encode (base64_URLEncode ''a'') \<noteq> hex_Encode ''live''" "hex_Encode (base64_URLEncode ''a'') \<noteq> hex_Encode ''used''"
    "hex_Encode (base64_URLEncode ''b'') \<noteq> hex_Encode ''live''" "hex_Encode (base64_URLEncode ''b'') \<noteq> hex_Encode ''used''"
    "hex_Encode (base64_URLEncode ''a'') \<noteq> hex_Encode (base64_URLEncode ''b'')"
    by code_simp+
  then show "fresh_token ex_auth (ex_draw 9 ''a'') (base64_URLEncode ''a'') (ex_auth_db us)"
    "fresh_token ex_auth (ex_draw 10 ''b'') (base64_URLEncode ''b'') (ex_auth_db us)"
    "HashToken ex_auth (base64_URLEncode ''a'') \<noteq> HashToken ex_auth (base64_URLEncode ''b'')"
    by (auto simp: fresh_token_def ex_draw_def ex_auth_db_def ex_refresh_def HashToken_def)
qed

theorem concurrent_refresh_forks_witness:
  "\<exists>s1 s2 resp1 resp2. refresh_with ex_auth ex_config 7 (ex_draw 9 ''a'') ex_origin
       (ex_refresh 1 (HashToken ex_auth ''live'') False) ex_ada = (s1, Inr resp1)
    \<and> refresh_with ex_auth ex_config 8 (ex_draw 10 ''b'') ex_origin
       (ex_refresh 1 (HashToken ex_auth ''live'') False) s1 = (s2, Inr resp2)"
proof -
  let ?t = "ex_refresh 1 (HashToken ex_auth ''live'') False"
  have f: "find_refresh ex_auth now ''live'' ex_ada = (ex_ada, Inr ?t)" if "now < 100" for now
    using that by (intro find_working ex_working ex_tokens) (simp_all add: ex_refresh_def)
  have k: "known_user (rt_UserID ?t) ex_ada" by (simp add: known_user_def ex_refresh_def)
  show ?thesis
    using concurrent_refresh_forks [of ex_ada ?t ex_auth 7 "''live''" 8 "ex_draw 9 ''a''" "base64_URLEncode ''a''"
        "ex_draw 10 ''b''" "base64_URLEncode ''b''" ex_config ex_origin ex_origin]
      f [of 7] f [of 8] k ex_fresh
    by (auto simp: ex_draw_def)
qed

lemma ex_signed: "\<forall>c. \<exists>tok. ae_SignedString ex_auth c = Inr tok"
  by simp

lemma ex_login:
  obtains s' resp where "Login ex_auth ex_config 7 (ex_draw 9 ''a'') ex_origin (ex_request ''secret'') ex_ada = (s', Inr resp)"
proof -
  obtain w where l: "Login ex_auth ex_config 7 (ex_draw 9 ''a'') ex_origin (ex_request ''secret'') ex_ada
      = login_user ex_auth ex_config 7 (ex_draw 9 ''a'') ex_origin (ex_request ''secret'') (ex_user 0 None) (ex_ada\<lparr>rd_windows := w\<rparr>)"
    by (rule Login_found [OF ex_working ex_within, of "ex_request ''secret''" "ex_user 0 None" "[ex_user 0 None]"])
      (simp_all add: ex_sole)
  let ?s = "ex_ada\<lparr>rd_windows := w\<rparr>"
  have w: "working ?s" "fresh_token ex_auth (ex_draw 9 ''a'') (base64_URLEncode ''a'') ?s"
    using ex_working ex_fresh(1) by (simp_all add: working_def fresh_token_def)
  have risk: "CalculateRiskScore ex_auth 7 (ex_user 0 None) ip fp ?s
      = (?s, Inr \<lparr>rk_Score = 25, rk_Factors = [''new_device''], rk_RequiresMFA = False\<rparr>)" for ip fp
    by (simp add: CalculateRiskScore_def find_device_def risk_of_address_def db_First_def db_find_def bindE_def first_row_def
        try_get_def)
  obtain s2 resp where c: "createAuthTokensWithTTL ex_auth 7 (ex_draw 9 ''a'') ex_origin (ex_user 0 None) ''web''
      (determineTokenTTL ex_config (us_PrimaryRole (ex_user 0 None)) ''web'') ?s = (s2, Inr resp)"
    by (rule createAuthTokens_working [OF w ex_signed])
  have n: "CountUserSessions ex_auth 7 1 ?s = (?s, Inr 0)"
    by (simp add: CountUserSessions_def failing_def bindE_def members_def live_entry_def)
  have "\<exists>s'. login_user ex_auth ex_config 7 (ex_draw 9 ''a'') ex_origin (ex_request ''secret'') (ex_user 0 None) ?s
      = (s', Inr resp)"
    using c n risk ex_guess(2)
    by (simp add: login_user_def locked_until_def authenticated_def thenE_def bindE_def reset_attempts_def establish_def
        log_event_def LogSecurityEvent_def Let_def)
  then show thesis using that l by metis
qed


theorem google_takes_over_account_witness:
  "\<exists>s' resp. HandleGoogleCallback ex_auth \<lparr>go_Exchange = Inr, go_userinfo = (\<lambda>_. Inr (200, Inr \<lparr>gu_Sub = ''g'', gu_Email = ''Ada'',
       gu_EmailVerified = False, gu_Name = ''Eve'', gu_Picture = ''''\<rparr>))\<rparr> ex_config 7 (ex_draw 9 ''a'') ex_origin ''code''
       (ex_auth_db [ex_user 9 (Some 50)]) = (s', Inr resp)
    \<and> issued ex_auth 7 (ex_draw 9 ''a'') resp (ex_user 9 (Some 50)) (base64_URLEncode ''a'')"
proof -
  let ?g = "\<lparr>gu_Sub = ''g'', gu_Email = ''Ada'', gu_EmailVerified = False, gu_Name = ''Eve'', gu_Picture = ''''\<rparr>"
  let ?G = "\<lparr>go_Exchange = Inr, go_userinfo = (\<lambda>_. Inr (200, Inr ?g))\<rparr>"
  have "\<exists>s' resp. HandleGoogleCallback ex_auth ?G ex_config 7 (ex_draw 9 ''a'') ex_origin ''code''
       (ex_auth_db [ex_user 9 (Some 50)]) = (s', Inr resp) \<and> issued ex_auth 7 (ex_draw 9 ''a'') resp (ex_user 9 (Some 50)) (base64_URLEncode ''a'')
    \<and> (\<exists>u \<in> set (au_users s'). us_UserID u = us_UserID (ex_user 9 (Some 50)) \<and> us_GoogleID u = gu_Sub ?g \<and> us_IsEmailVerified u)"
    by (rule google_takes_over_account [where g = ?g and tok = "''code''"])
      (simp_all add: ex_fresh ex_sole)
  then show ?thesis by blast
qed

abbreviation "ex_account \<equiv> \<lparr>rr_Email = ''Bob'', rr_TenantID = 2, rr_UserName = ''bob'', rr_Password = ''Secret1!'',
  rr_FullName = ''Bob'', rr_Phone = ''''\<rparr>"

lemma ex_strong: "ValidatePasswordStrength 8 ''Secret1!'' = None"
  by code_simp

lemma ex_auth_checked: "check_new_password ex_auth ex_config ''Secret1!'' s = (s, Inr ())"
  by (simp add: check_new_password_def ex_config_def ex_strong CheckPasswordBreach_def thenE_def bindE_def)

lemma ex_hashed: "hash_password ex_auth (ex_draw i b) password s = (s, Inr (ex_hash password))"
  by (simp add: hash_password_def ex_hash_stored ex_draw_def)

lemma ex_registered:
  obtains s' resp where "Register ex_auth ex_config 7 (ex_draw 9 ''a'') ex_origin ex_account (ex_auth_db []) = (s', Inr resp)"
    "rp_UserID resp = 9"
proof -
  let ?u = "new_user (ex_draw 9 ''a'') ex_account (ex_hash ''Secret1!'')" and ?s = "ex_auth_db []"
  let ?h = "\<lparr>ph_PasswordHistoryID = 9, ph_UserID = 9, ph_PasswordHash = ex_hash ''Secret1!'', ph_CreatedAt = 7\<rparr>"
  have id: "us_UserID ?u = 9" "ad_history (ex_draw 9 ''a'') = 9" by (simp_all add: new_user_def ex_draw_def)
  let ?s2 = "?s\<lparr>au_users := [?u], au_history := [?h]\<rparr>"
  have "thenE (insert_user ?u) (SavePasswordHistory 7 (ad_history (ex_draw 9 ''a'')) (us_UserID ?u) (ex_hash ''Secret1!'')) ?s
      = (?s2, Inr ())"
    by (simp add: thenE_def bindE_def insert_user_def SavePasswordHistory_def insert_history_def db_working id)
  then have tr: "transaction AuthFailure (thenE (insert_user ?u)
      (SavePasswordHistory 7 (ad_history (ex_draw 9 ''a'')) (us_UserID ?u) (ex_hash ''Secret1!''))) ?s = (?s2, Inr ())"
    by (rule transaction_working [rotated]) simp_all
  have v: "\<exists>s3. createEmailVerificationToken 7 (ex_draw 9 ''a'') (us_UserID ?u) ?s2 = (s3, Inr (base64_URLEncode ''a''))"
    by (simp add: createEmailVerificationToken_def GenerateSecureToken_def ex_draw_def bindE_def thenE_def db_working
        ex_auth_db_def)
  have "\<exists>s' resp. register_user ex_auth 7 (ex_draw 9 ''a'') ex_origin ?u (ex_hash ''Secret1!'') ?s = (s', Inr resp)
      \<and> rp_UserID resp = 9"
    using tr v id by (auto simp: register_user_def thenE_def bindE_def log_event_def LogSecurityEvent_def)
  moreover have "(try_get (user_by_email ''Bob'') :: (auth_db, auth_error, User option) op) ?s = (?s, Inr None)"
    by (simp add: user_by_email_def db_First_def db_find_def bindE_def first_row_def try_get_def)
  ultimately show thesis
    using that by (auto simp: Register_def thenE_def bindE_def ex_auth_checked ex_hashed)
qed

theorem registered_never_logs_in_witness:
  "isl (snd (Login ex_auth ex_config 8 (ex_draw 10 ''b'') ex_origin
        \<lparr>lr_Email = ''Bob'', lr_Password = ''Secret1!'', lr_DeviceType = ''''\<rparr>
        (fst (Register ex_auth ex_config 7 (ex_draw 9 ''a'') ex_origin ex_account (ex_auth_db [])))))"
proof -
  obtain s' resp where r: "Register ex_auth ex_config 7 (ex_draw 9 ''a'') ex_origin ex_account (ex_auth_db []) = (s', Inr resp)"
    "rp_UserID resp = 9"
    by (rule ex_registered)
  have run: "auth_run ex_auth ex_config [] s' = s'" by (simp add: auth_run_def)
  obtain hash where "au_users s' = au_users (ex_auth_db []) @ [new_user (ex_draw 9 ''a'') ex_account hash]"
    using r(1) by (rule Register_inserts)
  then have "\<forall>u \<in> set (au_users s'). us_UserID u = 9" by (simp add: new_user_def ex_draw_def)
  then have rows: "\<forall>u \<in> set (au_users (auth_run ex_auth ex_config [] s')). us_Email u = ToLower ''Bob'' \<and> us_DeletedAt u = None
      \<longrightarrow> us_UserID u = rp_UserID resp"
    using r(2) by (simp add: run)
  let ?req = "\<lparr>lr_Email = ''Bob'', lr_Password = ''Secret1!'', lr_DeviceType = ''''\<rparr>"
  have "(\<exists>hash. au_users s' = au_users (ex_auth_db []) @ [new_user (ex_draw 9 ''a'') ex_account hash])
    \<and> account (rp_UserID resp) (\<lambda>u. \<not> us_IsEmailVerified u) (auth_run ex_auth ex_config [] s')
    \<and> isl (snd (Login ex_auth ex_config 8 (ex_draw 10 ''b'') ex_origin ?req (auth_run ex_auth ex_config [] s')))"
    by (rule registered_never_logs_in [OF r(1)]) (use rows in simp_all)
  then show ?thesis by (simp add: run r(1))
qed

theorem password_change_logs_out_witness:
  "\<exists>s'. ChangePassword ex_auth ex_config 7 (ex_draw 9 ''a'') ex_origin 1 ''secret'' ''Secret1!'' ex_ada = (s', Inr ())
    \<and> logged_out ex_auth 7 1 ex_ada s'"
proof -
  have u: "user_by_id 1 ex_ada = (ex_ada, Inr (ex_user 0 None))"
    by (simp add: user_by_id_def db_First_def db_find_def bindE_def first_row_def)
  have h: "CheckPasswordHistory ex_auth 5 1 ''Secret1!'' ex_ada = (ex_ada, Inr ())"
    by (simp add: CheckPasswordHistory_def db_query_def bindE_def)
  obtain s1 where st: "store_password 7 (ex_draw 9 ''a'') (ex_user 0 None) (ex_hash ''Secret1!'') ex_ada = (s1, Inr ())"
    and s1: "working s1"
    by (simp add: store_password_def transaction_def thenE_def bindE_def update_user_def db_write_def SavePasswordHistory_def
        insert_history_def db_insert_def working_def)
  have "\<exists>s'. replace_password ex_auth ex_config 7 (ex_draw 9 ''a'') ex_origin (ex_user 0 None) ''Secret1!'' ''password_changed'' ex_ada
      = (s', Inr ())"
    using h st by (simp add: replace_password_def thenE_def bindE_def ex_auth_checked ex_hashed log_event_def LogSecurityEvent_def)
  then obtain s' where c: "ChangePassword ex_auth ex_config 7 (ex_draw 9 ''a'') ex_origin 1 ''secret'' ''Secret1!'' ex_ada = (s', Inr ())"
    using u ex_guess(2) by (auto simp: ChangePassword_def failing_def bindE_def)
  have "\<forall>salt. length (ae_IDKey ex_auth ''Secret1!'' salt 3 65536 2 32) = 32" by (simp add: ex_key_def)
  with password_change_logs_out [OF ex_working c] show ?thesis using c by blast
qed

end
