(* ===== verification/Spec2Isabelle.thy ===== *)
theory Spec2Isabelle
  imports FSM_Examples RBAC_Examples KOT_Examples Stock_Examples Order_Examples Payment_Examples
    Auth_Examples
begin

text \<open>
  A verification library for the backend of ReMS, a restaurant management system in Go.

  The program.  Every stateful entity (order, kitchen ticket, table, payment, purchase order, stock
  item, subscription, account, pipeline run) is driven by a finite-state machine of
  \<open>utils/FSM.go\<close>: an engine (builder, compiler, machine with a transition pipeline) and ten
  definitions built with it.  The services load a row, restore a machine on it through an adapter,
  send an event, and write the row back; before that they ask the authorization service of
  \<open>services/core/rbac.go\<close>.

  The theories, in the order they build on each other:
  \<^item> \<open>Prelude\<close>, \<open>Float64\<close>, \<open>GoFmt\<close>, \<open>Go_Strings\<close>: Go's types and the parts of its standard library
    that are used (binary64 arithmetic with exact rounding, formatting, ASCII string functions).
  \<^item> \<open>FSM_Engine\<close>: the engine, one definition per function; \<open>FSM_Laws\<close>, \<open>FSM_Correct\<close>: what Compile
    checks, the machine invariant, the pipeline's outcomes, runs as paths of the graph, the history
    ring, Can against Send, BatchSend.
  \<^item> \<open>FSM_Fire\<close>: one event on a stored row (Restore and Send) and the locales the machines satisfy:
    \<open>quiet_definition\<close> (guards only look, effects do not fail), \<open>setter_definition\<close>,
    \<open>synced_definition\<close>, \<open>stored_status\<close> (the status column follows the machine).
  \<^item> \<open>FSM_Order\<close>, \<open>FSM_KOT\<close>, \<open>FSM_Table\<close>, \<open>FSM_Payment\<close>, \<open>FSM_PurchaseOrder\<close>, \<open>FSM_Inventory\<close>,
    \<open>FSM_Subscription\<close>, \<open>FSM_User\<close>, \<open>FSM_Analytics\<close>, \<open>FSM_Forecast\<close>: the definitions, their edges as a
    table, their guards, life cycles, and the interpretations of the locales.
  \<^item> \<open>Pipelines\<close>: the runners of \<open>services/analytics\<close>; both always return, in a known state.
  \<^item> \<open>RBAC_Policy\<close>, \<open>RBAC_Resolver\<close>, \<open>RBAC_Service\<close>, \<open>RBAC_Correct\<close>: deny-overrides evaluation, the
    recursive role resolver with its visited map and depth bound of five, the two-layer cache,
    authorization, assignment without escalation; the locale \<open>authorizer\<close> is the interface the
    business services see.
  \<^item> \<open>Store\<close>: operations that may fail on a database whose faults are scheduled in the state,
    transactions that roll back, and the rules that run a relation through a handler.
  \<^item> \<open>Entities\<close>: the rows of \<open>models\<close> and the adapters, with the locale \<open>stored_status\<close>
    interpreted on each.
  \<^item> \<open>Machine_Tables\<close>: the locale \<open>machine_table\<close>, a table whose rows keep an identity and move along a
    machine, with the laws of loading, inserting and updating; interpreted for tickets and purchase
    orders.
  \<^item> \<open>Redis\<close>: counters and read-through entries of a cache that may not answer.
  \<^item> \<open>KOT_Service\<close>, \<open>KOT_Correct\<close>, \<open>KOT_Outcomes\<close>: the ticket service of \<open>services/business/Kot.go\<close>.
  \<^item> \<open>Inventory_Service\<close>, \<open>Stock_Records\<close>, \<open>Inventory_Correct\<close>, \<open>Inventory_Outcomes\<close>: the stock service
    of \<open>services/inventory/inventory.go\<close> (items, ledger, deduction, alerts; vendors, links, dashboard);
    the ledger agrees with the quantities and none becomes negative, what deduction and alerts do,
    and the update lost when two adjustments overlap.
  \<^item> \<open>Purchase_Service\<close>, \<open>Purchase_Correct\<close>, \<open>Purchase_Receiving\<close>: purchase orders
    (\<open>purchaseOrder.go\<close>): creation, the status events, receiving within what was ordered.
  \<^item> \<open>Go_Strconv\<close>, \<open>Settings\<close>, \<open>Taxes\<close>, \<open>Float_Error\<close>, \<open>Taxes_Correct\<close>: number parsing, the
    settings reads with their cache (\<open>settings.go\<close>), the tax computation on floats (\<open>Taxes.go\<close>), rounding
    errors that accumulate, and the computed tax within a cent of the exact one for orders of at most
    five hundred items and modifiers and amounts up to a billion.
  \<^item> \<open>Order_Service\<close>, \<open>Order_Submission\<close>, \<open>Order_Correct\<close>: submitting an order (\<open>Order.go\<close>): idempotency,
    validation, the transaction; all or nothing, replays, references between the tables, and why a
    dine-in order at a table is never accepted.
  \<^item> \<open>Outbox_Relay\<close>, \<open>Outbox_Correct\<close>: the outbox worker and its notifiers behind the locale \<open>consumer\<close>;
    submissions, their goroutines and relay runs together (\<open>order_run\<close>): one ticket per delivered order, bounded
    retries, settled events left alone.
  \<^item> \<open>Go_Encoding\<close>, \<open>Payment_Service\<close>, \<open>Payment_Reports\<close>, \<open>Payment_Correct\<close>: payments (\<open>Payment.go\<close>):
    QR payments and the provider's callback, expiry, refunds, cash and card payments, invoices, the
    list and the summary.  Every call is a step of an abstract ledger (\<open>ledger_step\<close>), from which
    follow the life of a payment, one QR in flight per order, and who can confirm a payment; what a
    callback leaves when the database works, and what it does not check.
  \<^item> \<open>Auth_Passwords\<close>, \<open>Auth_Records\<close>, \<open>Auth_Service\<close>: authentication (\<open>services/core/auth.go\<close>):
    password hashes and their parsing, tokens, sessions in Redis, rate limits, the risk score, devices;
    registration, login, the second factor, rotation of refresh tokens, changed and reset passwords.
  \<^item> \<open>Auth_Correct\<close>, \<open>Auth_Outcomes\<close>, \<open>Auth_Effects\<close>, \<open>Auth_Limits\<close>: the locales \<open>single_use\<close> (what a
    credential yields over a run), \<open>quiet_frame\<close> and \<open>auth_frame\<close> (relations every call keeps) and
    their interpretations; credentials that work once, what a login requires, locks, what a password
    change and a reused token end, and what the rate limiter really counts.
  \<^item> \<open>Auth_OAuth\<close>: signing in with Google (\<open>oauth.go\<close>) and the reset handlers (\<open>handlers/auth.go\<close>);
    \<open>Auth_Access\<close>: the middleware (\<open>middleware/auth.go\<close>, \<open>middleware/rbac.go\<close>) and the checks of
    \<open>DTO/Redis_auth.go\<close>, and why no issued session is ever found.
  \<^item> \<open>FSM_Examples\<close>, \<open>RBAC_Examples\<close>, \<open>KOT_Examples\<close>, \<open>Stock_Examples\<close>, \<open>Order_Examples\<close>,
    \<open>Payment_Examples\<close>, \<open>Auth_Examples\<close>: the theorems at work on concrete inputs.

  Conventions.  A Go pointer to a row that a callee mutates is threaded as a value; an error return
  is an option or the left of a sum; a panic is a result of its own.  Clock readings and fresh
  identifiers are arguments.  Maps are association lists and no property depends on their order.
  Third-party code (UUID printing, the digests, Argon2, JSON Web Tokens, one-time passwords, date
  formatting in the local zone, geographic look-ups, Google, the payment provider) is a field of an
  environment record or an argument.  Every recursion terminates by a measure; there is no fuel.

  Not modelled: SQL beyond the conditions written out in the handlers, JSON, HTTP, e-mail, logging,
  and true concurrency (where overlapping calls matter their reads and writes are separate steps).
  The goroutine that stores the answer of a submission is a step of its own (\<open>store_answer\<close>) that may
  come at any time or never; the other goroutines a handler starts run to their end with the handler,
  so their interleavings with later calls are not covered.  Quantities that Go adds up in an \<open>int\<close>
  are unbounded.  The menu, employees, customers, notifications and the
  audit trail are record keeping over SQL and are left out.
\<close>

end
